(* ===== verification/Prelude.thy ===== *)
theory Prelude
  imports Main
begin

text \<open>
  Shared vocabulary of the development: the errors a view or a service of the
  backend can raise, results that carry them, database tables as lists of rows
  with a key, and the sums over rows the ledgers are made of.

  \<^item> Amounts of money and quantities of stock are \<open>DecimalField\<close>s with two
    decimal places: they are modelled as \<^typ>\<open>int\<close>, counted in hundredths.
  \<^item> Primary keys are UUIDs: they are modelled as \<^typ>\<open>nat\<close>, a new row gets a key
    that no row of its table has (\<open>fresh_id\<close>).
  \<^item> Points in time are \<^typ>\<open>int\<close>, counted in milliseconds.
\<close>

section \<open>Types and collections\<close>

type_synonym row_id = nat
type_synonym money = int
type_synonym qty = int
type_synonym instant = int

named_theorems table_simps \<open>evaluation of lookups after table updates\<close>
named_theorems ledger_simps \<open>sums over tables after table updates\<close>
named_theorems inv_intros \<open>preservation of invariants by table updates\<close>
named_theorems op_inv \<open>preservation of invariants by whole operations\<close>

text \<open>What the code raises, with the message it carries.\<close>

datatype error =
    ValidationError string
  | NotFound string
  | PermissionDenied string
  | NotAuthenticated string
  | IntegrityError string
  | ServerError string

type_synonym 'a res = "error + 'a"

text \<open>The HTTP status the exception handler of the framework gives to each error.\<close>

fun http_status :: "error \<Rightarrow> nat" where
  "http_status (ValidationError _) = 400"
| "http_status (NotFound _) = 404"
| "http_status (PermissionDenied _) = 403"
| "http_status (NotAuthenticated _) = 401"
| "http_status (IntegrityError _) = 500"
| "http_status (ServerError _) = 500"

fun bindE :: "'a res \<Rightarrow> ('a \<Rightarrow> 'b res) \<Rightarrow> 'b res" where
  "bindE (Inl e) f = Inl e"
| "bindE (Inr x) f = f x"

definition guardE :: "bool \<Rightarrow> error \<Rightarrow> unit res" where
  "guardE c e = (if c then Inr () else Inl e)"

definition get_or_404 :: "string \<Rightarrow> 'a option \<Rightarrow> 'a res" where
  "get_or_404 msg r = (case r of None \<Rightarrow> Inl (NotFound msg) | Some x \<Rightarrow> Inr x)"

text \<open>A field of a PATCH request: \<open>None\<close> when the request does not carry it.\<close>

definition changed :: "'a option \<Rightarrow> 'a \<Rightarrow> bool" where
  "changed new old = (case new of None \<Rightarrow> False | Some x \<Rightarrow> x \<noteq> old)"

definition sent_or :: "'a option \<Rightarrow> 'a \<Rightarrow> 'a" where
  "sent_or new old = (case new of None \<Rightarrow> old | Some x \<Rightarrow> x)"

lemma unchanged_sent_or: "\<not> changed new old \<Longrightarrow> sent_or new old = old"
  by (simp add: changed_def sent_or_def split: option.splits)

lemma bindE_InrD: "bindE r f = Inr y \<Longrightarrow> \<exists>x. r = Inr x \<and> f x = Inr y"
  by (cases r) auto

lemma bindE_eq_Inr_iff [simp]: "(bindE r f = Inr y) \<longleftrightarrow> (\<exists>x. r = Inr x \<and> f x = Inr y)"
  by (cases r) auto

lemma bindE_eq_Inl_iff:
  "(bindE r f = Inl e) \<longleftrightarrow> (r = Inl e \<or> (\<exists>x. r = Inr x \<and> f x = Inl e))"
  by (cases r) auto

lemma guardE_eq_Inr_iff [simp]: "(guardE c e = Inr u) \<longleftrightarrow> c"
  by (cases u) (simp add: guardE_def)

lemma guardE_eq_Inl_iff [simp]: "(guardE c e = Inl e') \<longleftrightarrow> (\<not> c \<and> e' = e)"
  by (auto simp: guardE_def)

lemma guardE_True [simp]: "guardE True e = Inr ()"
  by (simp add: guardE_def)

lemma guardE_False [simp]: "guardE False e = Inl e"
  by (simp add: guardE_def)

lemma get_or_404_eq_Inr_iff [simp]: "(get_or_404 msg r = Inr x) \<longleftrightarrow> r = Some x"
  by (auto simp: get_or_404_def split: option.splits)

lemma get_or_404_eq_Inl_iff [simp]: "(get_or_404 msg r = Inl e) \<longleftrightarrow> r = None \<and> e = NotFound msg"
  by (auto simp: get_or_404_def split: option.splits)

lemma get_or_404_Some [simp]: "get_or_404 msg (Some x) = Inr x"
  by (simp add: get_or_404_def)

lemma get_or_404_None [simp]: "get_or_404 msg None = Inl (NotFound msg)"
  by (simp add: get_or_404_def)

section \<open>Tables\<close>

text \<open>A table is the list of its rows in the order of creation; \<open>key\<close> reads the
  primary (or unique) key of a row.\<close>

definition get_row :: "('r \<Rightarrow> 'k) \<Rightarrow> 'k \<Rightarrow> 'r list \<Rightarrow> 'r option" where
  "get_row key k rows = find (\<lambda>r. key r = k) rows"

definition upd_row :: "('r \<Rightarrow> 'k) \<Rightarrow> 'k \<Rightarrow> ('r \<Rightarrow> 'r) \<Rightarrow> 'r list \<Rightarrow> 'r list" where
  "upd_row key k f rows = map (\<lambda>r. if key r = k then f r else r) rows"

definition del_row :: "('r \<Rightarrow> 'k) \<Rightarrow> 'k \<Rightarrow> 'r list \<Rightarrow> 'r list" where
  "del_row key k rows = filter (\<lambda>r. key r \<noteq> k) rows"

definition add_row :: "'r \<Rightarrow> 'r list \<Rightarrow> 'r list" where
  "add_row r rows = rows @ [r]"

definition fresh_id :: "('r \<Rightarrow> nat) \<Rightarrow> 'r list \<Rightarrow> nat" where
  "fresh_id key rows = Suc (fold (\<lambda>r m. max (key r) m) rows 0)"

definition keys_distinct :: "('r \<Rightarrow> 'k) \<Rightarrow> 'r list \<Rightarrow> bool" where
  "keys_distinct key rows = distinct (map key rows)"

definition sum_rows :: "('r \<Rightarrow> int) \<Rightarrow> 'r list \<Rightarrow> int" where
  "sum_rows f rows = sum_list (map f rows)"

lemma get_row_Nil [simp]: "get_row key k [] = None"
  by (simp add: get_row_def)

lemma get_row_Cons [simp]:
  "get_row key k (r # rows) = (if key r = k then Some r else get_row key k rows)"
  by (simp add: get_row_def)

lemma get_row_SomeD: "get_row key k rows = Some r \<Longrightarrow> key r = k \<and> r \<in> set rows"
  by (induction rows) (auto split: if_splits)

lemma get_row_key: "get_row key k rows = Some r \<Longrightarrow> key r = k"
  by (drule get_row_SomeD) simp

lemma get_row_in: "get_row key k rows = Some r \<Longrightarrow> r \<in> set rows"
  by (drule get_row_SomeD) simp

lemma get_row_None_iff: "get_row key k rows = None \<longleftrightarrow> k \<notin> key ` set rows"
  by (induction rows) auto

lemma get_row_unique:
  "keys_distinct key rows \<Longrightarrow> r \<in> set rows \<Longrightarrow> get_row key (key r) rows = Some r"
proof (induction rows)
  case (Cons a rows)
  then show ?case
    by (cases "r = a") (auto simp: keys_distinct_def dest: sym)
qed simp

lemma get_row_append:
  "get_row key k (xs @ ys) = (case get_row key k xs of Some r \<Rightarrow> Some r | None \<Rightarrow> get_row key k ys)"
  by (induction xs) auto

lemma get_row_add [table_simps]:
  "get_row key k (add_row r rows) =
    (case get_row key k rows of Some r' \<Rightarrow> Some r' | None \<Rightarrow> if key r = k then Some r else None)"
  by (simp add: add_row_def get_row_append split: option.split)

lemma get_row_upd [table_simps]:
  assumes "\<And>r. key (f r) = key r"
  shows "get_row key k (upd_row key k' f rows) =
    (if k = k' then map_option f (get_row key k rows) else get_row key k rows)"
  using assms by (induction rows) (auto simp: upd_row_def)

text \<open>Replacing a whole row.\<close>

lemma get_row_replace [table_simps]:
  assumes "key r' = k'"
  shows "get_row key k (upd_row key k' (\<lambda>_. r') rows) =
    (if k = k' then map_option (\<lambda>_. r') (get_row key k rows) else get_row key k rows)"
  using assms by (induction rows) (auto simp: upd_row_def)

lemma keys_replace: "key r' = k \<Longrightarrow> map key (upd_row key k (\<lambda>_. r') rows) = map key rows"
  by (auto simp: upd_row_def)

lemma upd_row_replace_twice:
  "key a = k \<Longrightarrow> upd_row key k (\<lambda>_. b) (upd_row key k (\<lambda>_. a) rows) = upd_row key k (\<lambda>_. b) rows"
  by (simp add: upd_row_def)

lemma get_row_del [table_simps]:
  "get_row key k (del_row key k' rows) = (if k = k' then None else get_row key k rows)"
  by (induction rows) (auto simp: del_row_def)

lemma set_add_row [simp]: "set (add_row r rows) = insert r (set rows)"
  by (auto simp: add_row_def)

lemma set_del_row: "set (del_row key k rows) = {r \<in> set rows. key r \<noteq> k}"
  by (auto simp: del_row_def)

lemma in_upd_row: "r \<in> set (upd_row key k f rows) \<Longrightarrow>
    (r \<in> set rows \<and> key r \<noteq> k) \<or> (\<exists>r0 \<in> set rows. key r0 = k \<and> r = f r0)"
  by (auto simp: upd_row_def)

lemma keys_upd_row: "(\<And>r. key (f r) = key r) \<Longrightarrow> map key (upd_row key k f rows) = map key rows"
  by (simp add: upd_row_def)

lemma key_set_upd_row: "(\<And>r. key (f r) = key r) \<Longrightarrow> key ` set (upd_row key k f rows) = key ` set rows"
  by (metis keys_upd_row set_map)

lemma keys_distinct_same: "map key xs = map key ys \<Longrightarrow> keys_distinct key xs = keys_distinct key ys"
  by (simp add: keys_distinct_def)

lemma keys_distinct_filter: "keys_distinct key rows \<Longrightarrow> keys_distinct key (filter P rows)"
  by (simp add: keys_distinct_def distinct_map_filter)

lemma keys_distinct_Nil [simp]: "keys_distinct key []"
  by (simp add: keys_distinct_def)

lemma keys_distinct_upd [inv_intros]:
  "keys_distinct key rows \<Longrightarrow> (\<And>r. key (f r) = key r) \<Longrightarrow> keys_distinct key (upd_row key k f rows)"
  by (simp add: keys_distinct_def keys_upd_row)

lemma keys_distinct_replace [inv_intros]:
  "keys_distinct key rows \<Longrightarrow> key r' = k \<Longrightarrow> keys_distinct key (upd_row key k (\<lambda>_. r') rows)"
  by (simp add: keys_distinct_def keys_replace)

lemma get_row_filter:
  assumes "keys_distinct key rows" and "get_row key k (filter P rows) = Some r"
  shows "get_row key k rows = Some r \<and> P r"
  using get_row_SomeD [OF assms(2)] get_row_unique [OF assms(1), of r] by auto

lemma get_row_filter_iff:
  assumes "keys_distinct key rows"
  shows "get_row key k (filter P rows) = Some r \<longleftrightarrow> get_row key k rows = Some r \<and> P r"
  using get_row_filter [OF assms] get_row_SomeD [of key k rows r]
    get_row_unique [OF keys_distinct_filter [OF assms], of r P] by auto

lemma keys_distinct_del [inv_intros]:
  "keys_distinct key rows \<Longrightarrow> keys_distinct key (del_row key k rows)"
  by (simp add: keys_distinct_def del_row_def distinct_map_filter)

lemma keys_distinct_add [inv_intros]:
  "keys_distinct key rows \<Longrightarrow> key r \<notin> key ` set rows \<Longrightarrow> keys_distinct key (add_row r rows)"
  by (simp add: keys_distinct_def add_row_def)

lemma fold_max_ge: "m \<le> fold (\<lambda>r m. max (key r) m) rows (m::nat)"
proof (induction rows arbitrary: m)
  case (Cons a rows)
  show ?case
    using Cons.IH [of "max (key a) m"] by simp
qed simp

lemma fold_max_in: "r \<in> set rows \<Longrightarrow> key r \<le> fold (\<lambda>r m. max (key r) m) rows (m::nat)"
proof (induction rows arbitrary: m)
  case (Cons a rows)
  then show ?case
    by (cases "r = a") (auto intro: order_trans [OF _ fold_max_ge])
qed simp

lemma fresh_id_notin [simp]: "fresh_id key rows \<notin> key ` set rows"
proof
  assume "fresh_id key rows \<in> key ` set rows"
  then obtain r where "r \<in> set rows" and "key r = fresh_id key rows"
    by auto
  with fold_max_in [of r rows key 0] show False
    by (simp add: fresh_id_def)
qed

lemma fresh_id_get_row [simp]: "get_row key (fresh_id key rows) rows = None"
  by (simp add: get_row_None_iff fresh_id_notin)

lemma fresh_id_neq: "r \<in> set rows \<Longrightarrow> key r \<noteq> fresh_id key rows"
  using fresh_id_notin [of key rows] by (metis imageI)

section \<open>Sums over rows\<close>

lemma sum_rows_Nil [simp]: "sum_rows f [] = 0"
  by (simp add: sum_rows_def)

lemma sum_rows_Cons [simp]: "sum_rows f (r # rows) = f r + sum_rows f rows"
  by (simp add: sum_rows_def)

lemma sum_rows_add [ledger_simps]: "sum_rows f (add_row r rows) = sum_rows f rows + f r"
  by (simp add: sum_rows_def add_row_def)

lemma sum_rows_del [ledger_simps]:
  assumes "keys_distinct key rows" and "get_row key k rows = Some r"
  shows "sum_rows f (del_row key k rows) = sum_rows f rows - f r"
  using assms
proof (induction rows)
  case (Cons a rows)
  have keep: "del_row key k rows = rows" if "key a = k"
    using Cons.prems(1) that by (auto simp: keys_distinct_def del_row_def filter_id_conv) (metis imageI)
  show ?case
  proof (cases "key a = k")
    case True
    with Cons.prems keep show ?thesis
      by (simp add: del_row_def)
  next
    case False
    with Cons show ?thesis
      by (simp add: keys_distinct_def del_row_def)
  qed
qed simp

lemma upd_row_notin: "k \<notin> key ` set rows \<Longrightarrow> upd_row key k g rows = rows"
  by (induction rows) (auto simp: upd_row_def)

lemma upd_row_eq:
  assumes "keys_distinct key rows" and "get_row key k rows = Some r" and "f r = g r"
  shows "upd_row key k f rows = upd_row key k g rows"
proof -
  have "f r' = g r'" if "r' \<in> set rows" "key r' = k" for r'
    using get_row_unique [OF assms(1) that(1)] assms(2,3) that(2) by simp
  then show ?thesis by (simp add: upd_row_def)
qed

lemma sum_rows_upd [ledger_simps]:
  assumes "keys_distinct key rows" and "get_row key k rows = Some r"
  shows "sum_rows f (upd_row key k g rows) = sum_rows f rows - f r + f (g r)"
  using assms
proof (induction rows)
  case (Cons a rows)
  have keep: "upd_row key k g rows = rows" if "key a = k"
    using Cons.prems(1) that by (intro upd_row_notin) (auto simp: keys_distinct_def)
  show ?case
  proof (cases "key a = k")
    case True
    with Cons.prems keep show ?thesis
      by (simp add: upd_row_def)
  next
    case False
    with Cons show ?thesis
      by (simp add: keys_distinct_def upd_row_def)
  qed
qed simp

lemma sum_rows_upd_same:
  assumes "\<And>r. f (g r) = f r"
  shows "sum_rows f (upd_row key k g rows) = sum_rows f rows"
  using assms by (induction rows) (auto simp: upd_row_def)

lemma sum_rows_nonneg: "(\<And>r. r \<in> set rows \<Longrightarrow> 0 \<le> f r) \<Longrightarrow> 0 \<le> sum_rows f rows"
  by (induction rows) auto

lemma sum_rows_member_le:
  "(\<And>r. r \<in> set rows \<Longrightarrow> 0 \<le> f r) \<Longrightarrow> r \<in> set rows \<Longrightarrow> f r \<le> sum_rows f rows"
proof (induction rows)
  case (Cons a rows)
  then show ?case
    using sum_rows_nonneg [of rows f] by (cases "r = a") fastforce+
qed simp

lemma sum_rows_cong: "(\<And>r. r \<in> set rows \<Longrightarrow> f r = g r) \<Longrightarrow> sum_rows f rows = sum_rows g rows"
  by (induction rows) auto

lemma sum_rows_filter: "sum_rows f (filter P rows) = sum_rows (\<lambda>r. if P r then f r else 0) rows"
  by (induction rows) auto

lemma sum_rows_zero: "(\<And>r. r \<in> set rows \<Longrightarrow> f r = 0) \<Longrightarrow> sum_rows f rows = 0"
  by (induction rows) auto

lemma sum_rows_plus: "sum_rows (\<lambda>r. f r + g r) rows = sum_rows f rows + sum_rows g rows"
  by (induction rows) auto

section \<open>Numbers as text\<close>

definition digit_char :: "nat \<Rightarrow> char" where
  "digit_char d = (char_of (48 + d) :: char)"

fun nat_str :: "nat \<Rightarrow> string" where
  "nat_str n = (if n < 10 then [digit_char n] else nat_str (n div 10) @ [digit_char (n mod 10)])"

declare nat_str.simps [simp del]

definition int_str :: "int \<Rightarrow> string" where
  "int_str i = (if i < 0 then ''-'' @ nat_str (nat (- i)) else nat_str (nat i))"

text \<open>A decimal with two places, e.g. \<open>285000.00\<close>.\<close>

definition money_str :: "money \<Rightarrow> string" where
  "money_str a =
    (let m = nat \<bar>a\<bar> in
     (if a < 0 then ''-'' else []) @ nat_str (m div 100) @ ''.'' @
     [digit_char (m mod 100 div 10), digit_char (m mod 10)])"

section \<open>Decimal rounding\<close>

text \<open>\<open>Decimal.quantize\<close> and \<open>to_integral_value\<close> in the default context: the nearest
  multiple, ties to the even one. \<open>round_half_even n d\<close> is \<open>n / d\<close> rounded.\<close>

definition round_half_even :: "int \<Rightarrow> int \<Rightarrow> int" where
  "round_half_even n d =
    (let q = n div d; r = n mod d in
     if 2 * r < d then q else if d < 2 * r then q + 1 else if even q then q else q + 1)"

text \<open>A value in units of 1/10000 (a price times a quantity) stored in a field with two decimals.\<close>

definition quantize2 :: "int \<Rightarrow> int" where
  "quantize2 n = round_half_even n 100"

lemma round_half_even_exact [simp]: "0 < d \<Longrightarrow> round_half_even (d * n) d = n"
  by (simp add: round_half_even_def)

lemma quantize2_exact [simp]: "quantize2 (100 * n) = n" "quantize2 (n * 100) = n"
  using round_half_even_exact [of 100 n] by (simp_all add: quantize2_def mult.commute)

lemma quantize2_0 [simp]: "quantize2 0 = 0"
  using quantize2_exact(1) [of 0] by simp

lemma round_half_even_bounds:
  assumes "0 < d"
  shows "2 * \<bar>n - d * round_half_even n d\<bar> \<le> d"
proof -
  have n: "n - d * (n div d) = n mod d" by (rule minus_mult_div_eq_mod)
  have r: "0 \<le> n mod d" "n mod d < d" using assms by simp_all
  show ?thesis
  proof (cases "2 * (n mod d) < d \<or> (\<not> d < 2 * (n mod d) \<and> even (n div d))")
    case True
    then have "round_half_even n d = n div d" by (auto simp: round_half_even_def Let_def)
    with n have "n - d * round_half_even n d = n mod d" by simp
    with True r show ?thesis by auto
  next
    case False
    then have "round_half_even n d = n div d + 1" by (auto simp: round_half_even_def Let_def)
    with n have "n - d * round_half_even n d = n mod d - d" by (simp add: distrib_left)
    with False r show ?thesis by auto
  qed
qed

lemma round_half_even_nonneg: "0 < d \<Longrightarrow> 0 \<le> n \<Longrightarrow> 0 \<le> round_half_even n d"
  by (auto simp: round_half_even_def Let_def pos_imp_zdiv_nonneg_iff add_nonneg_nonneg)

lemma quantize2_nonneg: "0 \<le> n \<Longrightarrow> 0 \<le> quantize2 n"
  by (simp add: quantize2_def round_half_even_nonneg)

section \<open>The contract of a table\<close>

text \<open>What the object manager of a model promises its clients: a lookup after a
  creation, an update or a deletion, and a key that is not in use.\<close>

locale row_store =
  fixes key :: "'r \<Rightarrow> nat"
    and lookup :: "nat \<Rightarrow> 't \<Rightarrow> 'r option"
    and create :: "'r \<Rightarrow> 't \<Rightarrow> 't"
    and delete :: "nat \<Rightarrow> 't \<Rightarrow> 't"
    and rows_of :: "'t \<Rightarrow> 'r list"
    and new_key :: "'t \<Rightarrow> nat"
  assumes lookup_create: "lookup (key r) t = None \<Longrightarrow>
      lookup k (create r t) = (if k = key r then Some r else lookup k t)"
    and lookup_delete: "lookup k (delete k' t) = (if k = k' then None else lookup k t)"
    and lookup_rows: "lookup k t = Some r \<Longrightarrow> key r = k \<and> r \<in> set (rows_of t)"
    and lookup_new: "lookup (new_key t) t = None"
begin

lemma created_found: "key r = new_key t \<Longrightarrow> lookup (new_key t) (create r t) = Some r"
  using lookup_create [of r t "new_key t"] lookup_new [of t] by simp

lemma created_keeps: "key r = new_key t \<Longrightarrow> lookup k t = Some r' \<Longrightarrow> lookup k (create r t) = Some r'"
  using lookup_create [of r t k] lookup_new [of t] by auto

lemma deleted_gone: "lookup k (delete k t) = None"
  by (simp add: lookup_delete)

lemma delete_created: "key r = new_key t \<Longrightarrow> lookup k (delete (new_key t) (create r t)) = lookup k t"
  using lookup_create [of r t k] lookup_new [of t] by (auto simp: lookup_delete)

end

lemma row_store_tables: "row_store key (get_row key) add_row (del_row key) (\<lambda>rows. rows) (fresh_id key)"
proof
  show "get_row key k (add_row r t) = (if k = key r then Some r else get_row key k t)"
    if "get_row key (key r) t = None" for r t k
    using that by (auto simp: get_row_add split: option.splits)
qed (auto simp: get_row_del dest: get_row_SomeD)

end
