(* ===== verification/Wallet.thy ===== *)
theory Wallet
  imports Prelude
begin

text \<open>
  The masters' wallets: \<open>src/apps/wallet/\<close> (models, services, views, admin actions) and
  the finance endpoints of \<open>src/apps/dashboard/views.py\<close> that write to them.

  \<^item> State: \<open>wallet_db\<close>, the four tables of the application.
  \<^item> Operations: posting and reversing a ledger row, the withdraw requests (cash
    handovers) and the admin's decisions on them, the master's expenses.
  \<^item> Invariant \<open>wallet_inv\<close>: every balance is the sum of the ledger rows behind it and
    is not negative.
  \<^item> Interface \<open>wallet_ledger\<close>: what the orders rely on when they credit a master.
\<close>

section \<open>Data\<close>

datatype transaction_type = IN | OUT

datatype wallet_method = ONLINE | CASH

datatype withdraw_status = W_PENDING | W_APPROVED | W_REJECTED

record master_wallet =
  mw_master :: row_id
  balance_online :: money
  balance_cash :: money
  total_earned :: money
  total_withdrawn :: money

record wallet_transaction =
  wt_id :: row_id
  wt_master :: row_id
  wt_type :: transaction_type
  wt_amount :: money
  wt_description :: string
  wt_method :: wallet_method
  wt_order :: "row_id option"
  wt_created_at :: instant

record withdraw_request =
  wr_id :: row_id
  wr_master :: row_id
  wr_amount :: money
  wr_status :: withdraw_status
  wr_admin_note :: string

record master_expense =
  me_id :: row_id
  me_master :: row_id
  me_purpose :: string
  me_name :: string
  me_amount :: money
  me_date :: int
  me_product_name :: string
  me_price :: "money option"
  me_quantity :: "nat option"

record wallet_db =
  wallets :: "master_wallet list"
  wallet_transactions :: "wallet_transaction list"
  withdraw_requests :: "withdraw_request list"
  expenses :: "master_expense list"

definition empty_wallet_db :: wallet_db where
  "empty_wallet_db = \<lparr>wallets = [], wallet_transactions = [], withdraw_requests = [], expenses = []\<rparr>"

definition total_balance :: "master_wallet \<Rightarrow> money" where
  "total_balance w = balance_cash w + balance_online w"

definition new_wallet :: "row_id \<Rightarrow> master_wallet" where
  "new_wallet m = \<lparr>mw_master = m, balance_online = 0, balance_cash = 0, total_earned = 0, total_withdrawn = 0\<rparr>"

text \<open>The wallet a master has, or would be given by \<open>get_or_create\<close>.\<close>

definition wallet_of :: "row_id \<Rightarrow> wallet_db \<Rightarrow> master_wallet" where
  "wallet_of m db = (case get_row mw_master m (wallets db) of Some w \<Rightarrow> w | None \<Rightarrow> new_wallet m)"

definition get_or_create_wallet :: "row_id \<Rightarrow> wallet_db \<Rightarrow> wallet_db" where
  "get_or_create_wallet m db =
    (case get_row mw_master m (wallets db) of
       Some w \<Rightarrow> db
     | None \<Rightarrow> db\<lparr>wallets := add_row (new_wallet m) (wallets db)\<rparr>)"

definition balance_field :: "wallet_method \<Rightarrow> master_wallet \<Rightarrow> money" where
  "balance_field meth w = (if meth = CASH then balance_cash w else balance_online w)"

definition add_balance :: "wallet_method \<Rightarrow> money \<Rightarrow> master_wallet \<Rightarrow> master_wallet" where
  "add_balance meth d w =
    (if meth = CASH then w\<lparr>balance_cash := balance_cash w + d\<rparr>
     else w\<lparr>balance_online := balance_online w + d\<rparr>)"

definition update_wallet :: "row_id \<Rightarrow> (master_wallet \<Rightarrow> master_wallet) \<Rightarrow> wallet_db \<Rightarrow> wallet_db" where
  "update_wallet m f db = db\<lparr>wallets := upd_row mw_master m f (wallets db)\<rparr>"

section \<open>Services\<close>

definition create_transaction_row ::
  "row_id \<Rightarrow> transaction_type \<Rightarrow> money \<Rightarrow> string \<Rightarrow> wallet_method \<Rightarrow> row_id option \<Rightarrow> instant \<Rightarrow>
   wallet_db \<Rightarrow> wallet_db \<times> wallet_transaction" where
  "create_transaction_row m ty amount descr meth ord now db =
    (let t = \<lparr>wt_id = fresh_id wt_id (wallet_transactions db), wt_master = m, wt_type = ty,
              wt_amount = amount, wt_description = descr, wt_method = meth, wt_order = ord,
              wt_created_at = now\<rparr>
     in (db\<lparr>wallet_transactions := add_row t (wallet_transactions db)\<rparr>, t))"

definition post_wallet_transaction ::
  "row_id \<Rightarrow> transaction_type \<Rightarrow> money \<Rightarrow> wallet_method \<Rightarrow> string \<Rightarrow> row_id option \<Rightarrow> instant \<Rightarrow>
   wallet_db \<Rightarrow> (wallet_db \<times> wallet_transaction) res" where
  "post_wallet_transaction m ty amount meth descr ord now db =
    (if amount \<le> 0 then Inl (ValidationError ''amount: Summa musbat bo'lishi kerak'')
     else
       let db1 = get_or_create_wallet m db;
           wallet = wallet_of m db1
       in case ty of
            IN \<Rightarrow>
              Inr (create_transaction_row m ty amount descr meth ord now
                (update_wallet m
                  (\<lambda>w. (add_balance meth amount w)\<lparr>total_earned := total_earned w + amount\<rparr>) db1))
          | OUT \<Rightarrow>
              if balance_field meth wallet < amount
              then Inl (ValidationError ''amount: Balans yetarli emas'')
              else Inr (create_transaction_row m ty amount descr meth ord now
                (update_wallet m
                  (\<lambda>w. (add_balance meth (- amount) w)\<lparr>total_withdrawn := total_withdrawn w + amount\<rparr>) db1)))"

definition reverse_wallet_transaction :: "wallet_transaction \<Rightarrow> wallet_db \<Rightarrow> wallet_db res" where
  "reverse_wallet_transaction t db =
    (let m = wt_master t;
         db1 = get_or_create_wallet m db;
         wallet = wallet_of m db1
     in case wt_type t of
          IN \<Rightarrow>
            if balance_field (wt_method t) wallet < wt_amount t
            then Inl (ValidationError ''amount: Bu tranzaksiyani bekor qilib bo'lmaydi'')
            else Inr (update_wallet m
              (\<lambda>w. (add_balance (wt_method t) (- wt_amount t) w)
                     \<lparr>total_earned := total_earned w - wt_amount t\<rparr>) db1)
        | OUT \<Rightarrow>
            Inr (update_wallet m
              (\<lambda>w. (add_balance (wt_method t) (wt_amount t) w)
                     \<lparr>total_withdrawn := total_withdrawn w - wt_amount t\<rparr>) db1))"

definition set_withdraw_status :: "row_id \<Rightarrow> withdraw_status \<Rightarrow> string \<Rightarrow> wallet_db \<Rightarrow> wallet_db" where
  "set_withdraw_status rid st note db =
    db\<lparr>withdraw_requests :=
        upd_row wr_id rid (\<lambda>r. r\<lparr>wr_status := st, wr_admin_note := note\<rparr>) (withdraw_requests db)\<rparr>"

text \<open>\<open>note or default\<close>: an empty note is replaced.\<close>

definition note_or :: "string \<Rightarrow> string \<Rightarrow> string" where
  "note_or note dflt = (if note = [] then dflt else note)"

definition accept_cash_handover :: "row_id \<Rightarrow> string \<Rightarrow> instant \<Rightarrow> wallet_db \<Rightarrow> (wallet_db \<times> bool) res" where
  "accept_cash_handover rid note now db =
    bindE (get_or_404 ''WithdrawRequest'' (get_row wr_id rid (withdraw_requests db))) (\<lambda>h.
      if wr_status h \<noteq> W_PENDING then Inr (db, False)
      else let amount = wr_amount h in
        if amount \<le> 0 then Inl (ValidationError ''Pul yechish summasi musbat bo'lishi kerak'')
        else let m = wr_master h;
                 db1 = get_or_create_wallet m db;
                 wallet = wallet_of m db1 in
          if balance_cash wallet < amount then Inl (ValidationError ''Naqd balans yetarli emas'')
          else let db2 = update_wallet m
                     (\<lambda>w. w\<lparr>balance_cash := balance_cash w - amount,
                            total_withdrawn := total_withdrawn w + amount\<rparr>) db1;
                   db3 = fst (create_transaction_row m OUT amount
                     ''Naqd pul admin tomonidan qabul qilindi'' CASH None now db2)
               in Inr (set_withdraw_status rid W_APPROVED (note_or note ''Naqd qabul qilindi'') db3, True))"

definition reject_cash_handover :: "row_id \<Rightarrow> string \<Rightarrow> wallet_db \<Rightarrow> (wallet_db \<times> bool) res" where
  "reject_cash_handover rid note db =
    bindE (get_or_404 ''WithdrawRequest'' (get_row wr_id rid (withdraw_requests db))) (\<lambda>h.
      if wr_status h \<noteq> W_PENDING then Inr (db, False)
      else Inr (set_withdraw_status rid W_REJECTED (note_or note ''Rad etildi'') db, True))"

section \<open>Views of the master application\<close>

definition pending_withdraw :: "row_id \<Rightarrow> wallet_db \<Rightarrow> money" where
  "pending_withdraw m db =
    sum_rows (\<lambda>r. if wr_master r = m \<and> wr_status r = W_PENDING then wr_amount r else 0) (withdraw_requests db)"

definition MasterWalletView_get_object :: "row_id \<Rightarrow> wallet_db \<Rightarrow> wallet_db \<times> master_wallet" where
  "MasterWalletView_get_object user db =
    (let db1 = get_or_create_wallet user db in (db1, wallet_of user db1))"

text \<open>Newest first, as the model's default ordering has it.\<close>

definition WalletTransactionListView_get_queryset :: "row_id \<Rightarrow> wallet_db \<Rightarrow> wallet_transaction list" where
  "WalletTransactionListView_get_queryset user db =
    filter (\<lambda>t. wt_master t = user) (sort_key (\<lambda>t. - wt_created_at t) (wallet_transactions db))"

text \<open>\<open>WithdrawRequestSerializer\<close> accepts an amount of at least 0.01; all its other fields are
  read-only, so the row is created pending with an empty note.\<close>

definition WithdrawRequestSerializer_validate :: "money \<Rightarrow> unit res" where
  "WithdrawRequestSerializer_validate amount = guardE (1 \<le> amount) (ValidationError ''amount'')"

definition create_withdraw_row :: "row_id \<Rightarrow> money \<Rightarrow> withdraw_status \<Rightarrow> string \<Rightarrow> wallet_db \<Rightarrow> wallet_db" where
  "create_withdraw_row m amount st note db =
    db\<lparr>withdraw_requests := add_row
        \<lparr>wr_id = fresh_id wr_id (withdraw_requests db), wr_master = m, wr_amount = amount,
         wr_status = st, wr_admin_note = note\<rparr> (withdraw_requests db)\<rparr>"

definition WithdrawRequestCreateView_perform_create :: "row_id \<Rightarrow> money \<Rightarrow> wallet_db \<Rightarrow> wallet_db res" where
  "WithdrawRequestCreateView_perform_create user amount db =
    bindE (WithdrawRequestSerializer_validate amount) (\<lambda>_.
      let db1 = get_or_create_wallet user db;
          withdrawable = balance_cash (wallet_of user db1) - pending_withdraw user db1
      in if withdrawable < amount then Inl (ValidationError ''Naqd balans yetarli emas'')
         else Inr (create_withdraw_row user amount W_PENDING [] db1))"

definition income_between :: "row_id \<Rightarrow> instant \<Rightarrow> instant \<Rightarrow> wallet_db \<Rightarrow> money" where
  "income_between m start stop db =
    sum_rows (\<lambda>t. if wt_master t = m \<and> wt_type t = IN \<and> start \<le> wt_created_at t \<and> wt_created_at t < stop
                  then wt_amount t else 0) (wallet_transactions db)"

record wallet_stats =
  ws_total_income :: money
  ws_balance_online :: money
  ws_balance_cash :: money
  ws_total_balance :: money
  ws_total_earned :: money
  ws_total_withdrawn :: money
  ws_pending_withdraw :: money
  ws_withdrawable :: money
  ws_recent :: "wallet_transaction list"

definition total_income :: "row_id \<Rightarrow> wallet_db \<Rightarrow> money" where
  "total_income m db =
    sum_rows (\<lambda>t. if wt_master t = m \<and> wt_type t = IN then wt_amount t else 0) (wallet_transactions db)"

definition WalletStatsView_get :: "row_id \<Rightarrow> wallet_db \<Rightarrow> wallet_db \<times> wallet_stats" where
  "WalletStatsView_get user db =
    (let db1 = get_or_create_wallet user db;
         w = wallet_of user db1;
         pend = pending_withdraw user db1
     in (db1, \<lparr>ws_total_income = total_income user db1,
               ws_balance_online = balance_online w, ws_balance_cash = balance_cash w,
               ws_total_balance = total_balance w, ws_total_earned = total_earned w,
               ws_total_withdrawn = total_withdrawn w, ws_pending_withdraw = pend,
               ws_withdrawable = max (balance_cash w - pend) 0,
               ws_recent = take 5 (WalletTransactionListView_get_queryset user db1)\<rparr>))"

definition ExpenseListCreateView_get_queryset :: "row_id \<Rightarrow> int option \<Rightarrow> wallet_db \<Rightarrow> master_expense list" where
  "ExpenseListCreateView_get_queryset user date db =
    (let mine = filter (\<lambda>e. me_master e = user) (expenses db)
     in case date of None \<Rightarrow> mine | Some d \<Rightarrow> filter (\<lambda>e. me_date e = d) mine)"

definition ExpenseListCreateView_perform_create :: "row_id \<Rightarrow> master_expense \<Rightarrow> wallet_db \<Rightarrow> wallet_db" where
  "ExpenseListCreateView_perform_create user e db =
    db\<lparr>expenses := add_row (e\<lparr>me_id := fresh_id me_id (expenses db), me_master := user\<rparr>) (expenses db)\<rparr>"

definition ExpenseDetailView_destroy :: "row_id \<Rightarrow> row_id \<Rightarrow> wallet_db \<Rightarrow> wallet_db res" where
  "ExpenseDetailView_destroy user eid db =
    bindE (get_or_404 ''MasterExpense''
        (get_row me_id eid (filter (\<lambda>e. me_master e = user) (expenses db)))) (\<lambda>e.
      Inr (db\<lparr>expenses := del_row me_id eid (expenses db)\<rparr>))"

section \<open>Views of the dashboard and admin actions\<close>

definition DashboardWalletTransaction_perform_create ::
  "row_id \<Rightarrow> transaction_type \<Rightarrow> money \<Rightarrow> wallet_method \<Rightarrow> string \<Rightarrow> row_id option \<Rightarrow> instant \<Rightarrow>
   wallet_db \<Rightarrow> (wallet_db \<times> wallet_transaction) res" where
  "DashboardWalletTransaction_perform_create m ty amount meth descr ord now db =
    post_wallet_transaction m ty amount meth descr ord now db"

text \<open>The fields a PATCH on a ledger row carries; \<open>None\<close> is a field that is not sent.\<close>

record wallet_transaction_patch =
  wp_master :: "row_id option"
  wp_type :: "transaction_type option"
  wp_amount :: "money option"
  wp_method :: "wallet_method option"
  wp_order :: "row_id option option"
  wp_description :: "string option"

definition patch_transaction :: "wallet_transaction_patch \<Rightarrow> wallet_transaction \<Rightarrow> wallet_transaction" where
  "patch_transaction p t = t\<lparr>wt_master := sent_or (wp_master p) (wt_master t),
                             wt_type := sent_or (wp_type p) (wt_type t),
                             wt_amount := sent_or (wp_amount p) (wt_amount t),
                             wt_method := sent_or (wp_method p) (wt_method t),
                             wt_order := sent_or (wp_order p) (wt_order t),
                             wt_description := sent_or (wp_description p) (wt_description t)\<rparr>"

definition DashboardWalletTransaction_perform_update ::
  "row_id \<Rightarrow> wallet_transaction_patch \<Rightarrow> wallet_db \<Rightarrow> wallet_db res" where
  "DashboardWalletTransaction_perform_update tid p db =
    bindE (get_or_404 ''WalletTransaction'' (get_row wt_id tid (wallet_transactions db))) (\<lambda>t.
      if changed (wp_master p) (wt_master t) then Inl (ValidationError ''master'')
      else if changed (wp_type p) (wt_type t) then Inl (ValidationError ''transaction_type'')
      else if changed (wp_amount p) (wt_amount t) then Inl (ValidationError ''amount'')
      else if changed (wp_method p) (wt_method t) then Inl (ValidationError ''payment_method'')
      else if changed (wp_order p) (wt_order t) then Inl (ValidationError ''order'')
      else Inr (db\<lparr>wallet_transactions :=
                   upd_row wt_id tid (patch_transaction p) (wallet_transactions db)\<rparr>))"

definition DashboardWalletTransaction_perform_destroy :: "row_id \<Rightarrow> wallet_db \<Rightarrow> wallet_db res" where
  "DashboardWalletTransaction_perform_destroy tid db =
    bindE (get_or_404 ''WalletTransaction'' (get_row wt_id tid (wallet_transactions db))) (\<lambda>t.
      bindE (reverse_wallet_transaction t db) (\<lambda>db1.
        Inr (db1\<lparr>wallet_transactions := del_row wt_id tid (wallet_transactions db1)\<rparr>)))"

definition DashboardWithdrawRequest_perform_create ::
  "row_id \<Rightarrow> money \<Rightarrow> withdraw_status option \<Rightarrow> string option \<Rightarrow> wallet_db \<Rightarrow> wallet_db res" where
  "DashboardWithdrawRequest_perform_create m amount st note db =
    bindE (WithdrawRequestSerializer_validate amount) (\<lambda>_.
      let db1 = get_or_create_wallet m db in
      if balance_cash (wallet_of m db1) - pending_withdraw m db1 < amount
      then Inl (ValidationError ''amount: Naqd balans yetarli emas'')
      else Inr (create_withdraw_row m amount (sent_or st W_PENDING) (sent_or note []) db1))"

record withdraw_patch =
  rp_master :: "row_id option"
  rp_amount :: "money option"
  rp_status :: "withdraw_status option"
  rp_note :: "string option"

definition patch_withdraw :: "withdraw_patch \<Rightarrow> withdraw_request \<Rightarrow> withdraw_request" where
  "patch_withdraw p r = r\<lparr>wr_master := sent_or (rp_master p) (wr_master r),
                          wr_amount := sent_or (rp_amount p) (wr_amount r),
                          wr_status := sent_or (rp_status p) (wr_status r),
                          wr_admin_note := sent_or (rp_note p) (wr_admin_note r)\<rparr>"

definition DashboardWithdrawRequest_perform_update ::
  "row_id \<Rightarrow> withdraw_patch \<Rightarrow> instant \<Rightarrow> wallet_db \<Rightarrow> wallet_db res" where
  "DashboardWithdrawRequest_perform_update rid p now db =
    bindE (get_or_404 ''WithdrawRequest'' (get_row wr_id rid (withdraw_requests db))) (\<lambda>r.
    bindE (case rp_amount p of None \<Rightarrow> Inr () | Some a \<Rightarrow> WithdrawRequestSerializer_validate a) (\<lambda>_.
      let new_status = sent_or (rp_status p) (wr_status r);
          note = sent_or (rp_note p) [] in
      if wr_status r = W_PENDING \<and> new_status = W_APPROVED
      then bindE (accept_cash_handover rid note now db) (\<lambda>(db1, _). Inr db1)
      else if wr_status r = W_PENDING \<and> new_status = W_REJECTED
      then bindE (reject_cash_handover rid note db) (\<lambda>(db1, _). Inr db1)
      else if wr_status r \<noteq> W_PENDING \<and> changed (rp_amount p) (wr_amount r)
      then Inl (ValidationError ''amount: Yakunlangan so'rov summasini o'zgartirib bo'lmaydi'')
      else Inr (db\<lparr>withdraw_requests := upd_row wr_id rid (patch_withdraw p) (withdraw_requests db)\<rparr>)))"

definition DashboardWithdrawRequest_perform_destroy :: "row_id \<Rightarrow> wallet_db \<Rightarrow> wallet_db res" where
  "DashboardWithdrawRequest_perform_destroy rid db =
    bindE (get_or_404 ''WithdrawRequest'' (get_row wr_id rid (withdraw_requests db))) (\<lambda>r.
      if wr_status r \<noteq> W_PENDING then Inl (ValidationError ''status: Faqat 'pending' so'rovni o'chirish mumkin'')
      else Inr (db\<lparr>withdraw_requests := del_row wr_id rid (withdraw_requests db)\<rparr>))"

definition DashboardCashHandoverAccept_post ::
  "row_id \<Rightarrow> string \<Rightarrow> instant \<Rightarrow> wallet_db \<Rightarrow> (wallet_db \<times> withdraw_request option) res" where
  "DashboardCashHandoverAccept_post pk note now db =
    bindE (accept_cash_handover pk note now db) (\<lambda>(db1, _).
      Inr (db1, get_row wr_id pk (withdraw_requests db1)))"

definition DashboardCashHandoverReject_post ::
  "row_id \<Rightarrow> string \<Rightarrow> wallet_db \<Rightarrow> (wallet_db \<times> withdraw_request option) res" where
  "DashboardCashHandoverReject_post pk note db =
    bindE (reject_cash_handover pk note db) (\<lambda>(db1, _).
      Inr (db1, get_row wr_id pk (withdraw_requests db1)))"

text \<open>The bulk actions of the admin site: done and failed requests are counted, an error of
  one request does not stop the others. The queryset holds existing rows only, so a
  missing row cannot occur there; the single-row action answers it with a warning.\<close>

fun accept_selected :: "row_id list \<Rightarrow> instant \<Rightarrow> wallet_db \<Rightarrow> wallet_db \<times> nat \<times> nat" where
  "accept_selected [] now db = (db, 0, 0)"
| "accept_selected (rid # rids) now db =
    (case accept_cash_handover rid [] now db of
       Inl _ \<Rightarrow> (let (db2, done, errs) = accept_selected rids now db in (db2, done, Suc errs))
     | Inr (db1, ok) \<Rightarrow>
         (let (db2, done, errs) = accept_selected rids now db1 in (db2, (if ok then Suc done else done), errs)))"

fun reject_selected :: "row_id list \<Rightarrow> wallet_db \<Rightarrow> wallet_db \<times> nat" where
  "reject_selected [] db = (db, 0)"
| "reject_selected (rid # rids) db =
    (case reject_cash_handover rid [] db of
       Inl _ \<Rightarrow> reject_selected rids db
     | Inr (db1, ok) \<Rightarrow>
         (let (db2, n) = reject_selected rids db1 in (db2, (if ok then Suc n else n))))"

datatype message_level = SUCCESS_MSG | WARNING_MSG | ERROR_MSG

definition accept_row :: "row_id \<Rightarrow> instant \<Rightarrow> wallet_db \<Rightarrow> wallet_db \<times> message_level" where
  "accept_row object_id now db =
    (case get_row wr_id object_id (withdraw_requests db) of
       None \<Rightarrow> (db, WARNING_MSG)
     | Some _ \<Rightarrow>
         (case accept_cash_handover object_id [] now db of
            Inl _ \<Rightarrow> (db, ERROR_MSG)
          | Inr (db1, ok) \<Rightarrow> (db1, if ok then SUCCESS_MSG else WARNING_MSG)))"

definition reject_row :: "row_id \<Rightarrow> wallet_db \<Rightarrow> wallet_db \<times> message_level" where
  "reject_row object_id db =
    (case get_row wr_id object_id (withdraw_requests db) of
       None \<Rightarrow> (db, WARNING_MSG)
     | Some _ \<Rightarrow>
         (case reject_cash_handover object_id [] db of
            Inl _ \<Rightarrow> (db, WARNING_MSG)
          | Inr (db1, ok) \<Rightarrow> (db1, if ok then SUCCESS_MSG else WARNING_MSG)))"

definition CashHandoverAdmin_get_queryset :: "wallet_db \<Rightarrow> withdraw_request list" where
  "CashHandoverAdmin_get_queryset db = filter (\<lambda>r. wr_status r = W_PENDING) (withdraw_requests db)"

section \<open>The invariant: balances are ledger sums\<close>

definition ledger_sum :: "row_id \<Rightarrow> transaction_type \<Rightarrow> wallet_method \<Rightarrow> wallet_db \<Rightarrow> money" where
  "ledger_sum m ty meth db =
    sum_rows (\<lambda>t. if wt_master t = m \<and> wt_type t = ty \<and> wt_method t = meth then wt_amount t else 0)
      (wallet_transactions db)"

definition wallet_synced :: "row_id \<Rightarrow> wallet_db \<Rightarrow> bool" where
  "wallet_synced m db =
    (let w = wallet_of m db in
       balance_cash w = ledger_sum m IN CASH db - ledger_sum m OUT CASH db \<and>
       balance_online w = ledger_sum m IN ONLINE db - ledger_sum m OUT ONLINE db \<and>
       total_earned w = ledger_sum m IN CASH db + ledger_sum m IN ONLINE db \<and>
       total_withdrawn w = ledger_sum m OUT CASH db + ledger_sum m OUT ONLINE db \<and>
       0 \<le> balance_cash w \<and> 0 \<le> balance_online w)"

definition wallet_inv :: "wallet_db \<Rightarrow> bool" where
  "wallet_inv db =
    (keys_distinct mw_master (wallets db) \<and> keys_distinct wt_id (wallet_transactions db) \<and>
     keys_distinct wr_id (withdraw_requests db) \<and>
     list_all (\<lambda>t. 0 < wt_amount t) (wallet_transactions db) \<and>
     list_all (\<lambda>r. 0 < wr_amount r) (withdraw_requests db) \<and>
     list_all (\<lambda>m. wallet_synced m db)
       (map mw_master (wallets db) @ map wt_master (wallet_transactions db)))"

lemma keys_kept [simp]:
  "mw_master (add_balance meth d w) = mw_master w" "mw_master (new_wallet m) = m"
  by (simp_all add: add_balance_def new_wallet_def)

lemma add_balance_simps [simp]:
  "balance_cash (add_balance meth d w) = (if meth = CASH then balance_cash w + d else balance_cash w)"
  "balance_online (add_balance meth d w) = (if meth = CASH then balance_online w else balance_online w + d)"
  "total_earned (add_balance meth d w) = total_earned w"
  "total_withdrawn (add_balance meth d w) = total_withdrawn w"
  by (simp_all add: add_balance_def)

lemma get_or_create_tables [simp]:
  "wallet_transactions (get_or_create_wallet m db) = wallet_transactions db"
  "withdraw_requests (get_or_create_wallet m db) = withdraw_requests db"
  "expenses (get_or_create_wallet m db) = expenses db"
  by (simp_all add: get_or_create_wallet_def split: option.split)

lemma update_wallet_tables [simp]:
  "wallet_transactions (update_wallet m f db) = wallet_transactions db"
  "withdraw_requests (update_wallet m f db) = withdraw_requests db"
  "expenses (update_wallet m f db) = expenses db"
  by (simp_all add: update_wallet_def)

lemma set_withdraw_status_tables [simp]:
  "wallets (set_withdraw_status rid st note db) = wallets db"
  "wallet_transactions (set_withdraw_status rid st note db) = wallet_transactions db"
  by (simp_all add: set_withdraw_status_def)

lemma create_withdraw_tables [simp]:
  "wallets (create_withdraw_row m a st note db) = wallets db"
  "wallet_transactions (create_withdraw_row m a st note db) = wallet_transactions db"
  by (simp_all add: create_withdraw_row_def)

lemma create_transaction_tables [simp]:
  "wallets (fst (create_transaction_row m ty a d meth ord now db)) = wallets db"
  "withdraw_requests (fst (create_transaction_row m ty a d meth ord now db)) = withdraw_requests db"
  "wallet_transactions (fst (create_transaction_row m ty a d meth ord now db)) =
     add_row (snd (create_transaction_row m ty a d meth ord now db)) (wallet_transactions db)"
  by (simp_all add: create_transaction_row_def Let_def)

lemma create_transaction_row_fields [simp]:
  "wt_id (snd (create_transaction_row m ty a d meth ord now db)) = fresh_id wt_id (wallet_transactions db)"
  "wt_master (snd (create_transaction_row m ty a d meth ord now db)) = m"
  "wt_type (snd (create_transaction_row m ty a d meth ord now db)) = ty"
  "wt_amount (snd (create_transaction_row m ty a d meth ord now db)) = a"
  "wt_method (snd (create_transaction_row m ty a d meth ord now db)) = meth"
  "wt_order (snd (create_transaction_row m ty a d meth ord now db)) = ord"
  by (simp_all add: create_transaction_row_def Let_def)

lemma wallet_of_cong: "wallets db = wallets db' \<Longrightarrow> wallet_of m db = wallet_of m db'"
  by (simp add: wallet_of_def)

lemma wallet_of_get_or_create [simp]: "wallet_of m (get_or_create_wallet m' db) = wallet_of m db"
  by (auto simp: wallet_of_def get_or_create_wallet_def get_row_add split: option.split)

lemma has_wallet_after_get_or_create:
  "get_row mw_master m (wallets (get_or_create_wallet m db)) = Some (wallet_of m db)"
  by (auto simp: wallet_of_def get_or_create_wallet_def get_row_add split: option.splits)

lemma wallet_of_update:
  assumes "\<And>w. mw_master (f w) = mw_master w"
  shows "wallet_of m' (update_wallet m f (get_or_create_wallet m db)) =
    (if m' = m then f (wallet_of m db) else wallet_of m' db)"
proof (cases "m' = m")
  case True
  have "get_row mw_master m (wallets (update_wallet m f (get_or_create_wallet m db))) =
      Some (f (wallet_of m db))"
    by (simp add: update_wallet_def get_row_upd assms has_wallet_after_get_or_create)
  with True show ?thesis
    by (simp add: wallet_of_def [of m "update_wallet _ _ _"])
next
  case False
  then have "wallet_of m' (update_wallet m f (get_or_create_wallet m db)) =
      wallet_of m' (get_or_create_wallet m db)"
    by (simp add: wallet_of_def update_wallet_def get_row_upd assms)
  with False show ?thesis by simp
qed

lemma ledger_sum_cong: "wallet_transactions db = wallet_transactions db' \<Longrightarrow> ledger_sum m ty meth db = ledger_sum m ty meth db'"
  by (simp add: ledger_sum_def)

lemma ledger_sum_add:
  assumes "wallet_transactions db' = add_row t (wallet_transactions db)"
  shows "ledger_sum m ty meth db' = ledger_sum m ty meth db +
    (if wt_master t = m \<and> wt_type t = ty \<and> wt_method t = meth then wt_amount t else 0)"
  using assms by (simp add: ledger_sum_def sum_rows_add)

lemma ledger_sum_del:
  assumes "wallet_transactions db' = del_row wt_id tid (wallet_transactions db)"
    and "keys_distinct wt_id (wallet_transactions db)"
    and "get_row wt_id tid (wallet_transactions db) = Some t"
  shows "ledger_sum m ty meth db' = ledger_sum m ty meth db -
    (if wt_master t = m \<and> wt_type t = ty \<and> wt_method t = meth then wt_amount t else 0)"
  using assms by (simp add: ledger_sum_def sum_rows_del)

lemma wallet_synced_outside:
  assumes "m \<notin> mw_master ` set (wallets db)" and "m \<notin> wt_master ` set (wallet_transactions db)"
  shows "wallet_synced m db"
proof -
  have "wallet_of m db = new_wallet m"
    using assms(1) by (auto simp: wallet_of_def get_row_None_iff [symmetric])
  moreover have "ledger_sum m ty meth db = 0" for ty meth
  proof -
    have "ledger_sum m ty meth db = sum_rows (\<lambda>t. 0) (wallet_transactions db)"
      unfolding ledger_sum_def using assms(2) by (intro sum_rows_cong) auto
    then show ?thesis by (simp add: sum_rows_def)
  qed
  ultimately show ?thesis by (simp add: wallet_synced_def new_wallet_def)
qed

lemma wallet_invI:
  assumes "keys_distinct mw_master (wallets db)" "keys_distinct wt_id (wallet_transactions db)"
    "keys_distinct wr_id (withdraw_requests db)"
    "\<And>t. t \<in> set (wallet_transactions db) \<Longrightarrow> 0 < wt_amount t"
    "\<And>r. r \<in> set (withdraw_requests db) \<Longrightarrow> 0 < wr_amount r"
    "\<And>m. wallet_synced m db"
  shows "wallet_inv db"
  using assms by (auto simp: wallet_inv_def list_all_iff)

lemma wallet_invD:
  assumes "wallet_inv db"
  shows "keys_distinct mw_master (wallets db)" "keys_distinct wt_id (wallet_transactions db)"
    "keys_distinct wr_id (withdraw_requests db)"
    "\<And>t. t \<in> set (wallet_transactions db) \<Longrightarrow> 0 < wt_amount t"
    "\<And>r. r \<in> set (withdraw_requests db) \<Longrightarrow> 0 < wr_amount r"
  using assms by (auto simp: wallet_inv_def list_all_iff)

lemma wallet_inv_synced:
  assumes "wallet_inv db"
  shows "wallet_synced m db"
proof (cases "m \<in> mw_master ` set (wallets db) \<or> m \<in> wt_master ` set (wallet_transactions db)")
  case True
  with assms show ?thesis by (auto simp: wallet_inv_def list_all_iff)
next
  case False
  then show ?thesis by (intro wallet_synced_outside) auto
qed

lemma wallet_inv_empty: "wallet_inv empty_wallet_db"
  by (simp add: wallet_inv_def empty_wallet_db_def)

text \<open>The effect of a ledger row on a wallet, and of taking it back.\<close>

definition posted :: "transaction_type \<Rightarrow> wallet_method \<Rightarrow> money \<Rightarrow> master_wallet \<Rightarrow> master_wallet" where
  "posted ty meth a w =
    (case ty of
       IN \<Rightarrow> (add_balance meth a w)\<lparr>total_earned := total_earned w + a\<rparr>
     | OUT \<Rightarrow> (add_balance meth (- a) w)\<lparr>total_withdrawn := total_withdrawn w + a\<rparr>)"

lemma posted_simps [simp]:
  "mw_master (posted ty meth a w) = mw_master w"
  "balance_cash (posted ty meth a w) =
    balance_cash w + (if meth = CASH then if ty = IN then a else - a else 0)"
  "balance_online (posted ty meth a w) =
    balance_online w + (if meth = ONLINE then if ty = IN then a else - a else 0)"
  "total_earned (posted ty meth a w) = total_earned w + (if ty = IN then a else 0)"
  "total_withdrawn (posted ty meth a w) = total_withdrawn w + (if ty = OUT then a else 0)"
  by (cases ty; cases meth; simp add: posted_def)+

lemma keys_get_or_create:
  "keys_distinct mw_master (wallets db) \<Longrightarrow> keys_distinct mw_master (wallets (get_or_create_wallet m db))"
  by (auto simp: get_or_create_wallet_def get_row_None_iff split: option.split intro!: keys_distinct_add)

lemma keys_update_wallet:
  "keys_distinct mw_master (wallets db) \<Longrightarrow> (\<And>w. mw_master (f w) = mw_master w) \<Longrightarrow>
   keys_distinct mw_master (wallets (update_wallet m f db))"
  by (simp add: update_wallet_def keys_distinct_upd)

lemma post_wallet_transaction_InrD:
  assumes "post_wallet_transaction m ty a meth d ord now db = Inr (db', t)"
  shows "0 < a" "ty = OUT \<Longrightarrow> a \<le> balance_field meth (wallet_of m db)"
    "wallet_transactions db' = add_row t (wallet_transactions db)"
    "withdraw_requests db' = withdraw_requests db" "expenses db' = expenses db"
    "wt_id t = fresh_id wt_id (wallet_transactions db)" "wt_master t = m" "wt_type t = ty" "wt_amount t = a"
    "wt_method t = meth" "wt_order t = ord"
    "\<And>m'. wallet_of m' db' = (if m' = m then posted ty meth a (wallet_of m db) else wallet_of m' db)"
    "keys_distinct mw_master (wallets db) \<Longrightarrow> keys_distinct mw_master (wallets db')"
proof -
  have db': "(db', t) = create_transaction_row m ty a d meth ord now
        (update_wallet m (posted ty meth a) (get_or_create_wallet m db))"
    and "0 < a" and "ty = OUT \<Longrightarrow> a \<le> balance_field meth (wallet_of m db)"
    using assms by (auto simp: post_wallet_transaction_def posted_def [abs_def] Let_def
        split: if_splits transaction_type.splits)
  then show "0 < a" "ty = OUT \<Longrightarrow> a \<le> balance_field meth (wallet_of m db)"
    by auto
  let ?r = "create_transaction_row m ty a d meth ord now
        (update_wallet m (posted ty meth a) (get_or_create_wallet m db))"
  have eq: "db' = fst ?r" "t = snd ?r"
    by (simp_all add: db' [symmetric])
  show "wallet_transactions db' = add_row t (wallet_transactions db)"
    "withdraw_requests db' = withdraw_requests db"
    "wt_id t = fresh_id wt_id (wallet_transactions db)" "wt_master t = m" "wt_type t = ty" "wt_amount t = a"
    "wt_method t = meth" "wt_order t = ord"
    by (simp_all add: eq)
  show "expenses db' = expenses db"
    by (simp add: eq create_transaction_row_def Let_def)
  show "wallet_of m' db' = (if m' = m then posted ty meth a (wallet_of m db) else wallet_of m' db)" for m'
    using wallet_of_cong [of db' "update_wallet m (posted ty meth a) (get_or_create_wallet m db)" m']
    by (simp add: eq wallet_of_update)
  show "keys_distinct mw_master (wallets db')" if "keys_distinct mw_master (wallets db)"
    using that by (simp add: eq keys_update_wallet keys_get_or_create)
qed

lemma post_wallet_transaction_error_iff:
  "(\<exists>e. post_wallet_transaction m ty a meth d ord now db = Inl e) \<longleftrightarrow>
    a \<le> 0 \<or> (ty = OUT \<and> balance_field meth (wallet_of m db) < a)"
  by (cases ty) (auto simp: post_wallet_transaction_def Let_def)

lemma wallet_synced_post:
  assumes post: "post_wallet_transaction m ty a meth d ord now db = Inr (db', t)"
    and synced: "\<And>m. wallet_synced m db"
  shows "wallet_synced m' db'"
proof -
  note D = post_wallet_transaction_InrD [OF post]
  have L: "ledger_sum m' ty' meth' db' = ledger_sum m' ty' meth' db +
      (if m' = m \<and> ty' = ty \<and> meth' = meth then a else 0)" for ty' meth'
    using ledger_sum_add [OF D(3), of m' ty' meth'] D(7-10) by auto
  show ?thesis
    using synced [of m'] D(1,2) D(12) [of m']
    by (cases ty; cases meth) (auto simp: wallet_synced_def Let_def L balance_field_def)
qed

lemma post_preserves_inv [op_inv]:
  assumes "wallet_inv db" and post: "post_wallet_transaction m ty a meth d ord now db = Inr (db', t)"
  shows "wallet_inv db'"
proof (rule wallet_invI)
  note I = wallet_invD [OF assms(1)] and D = post_wallet_transaction_InrD [OF post]
  show "keys_distinct mw_master (wallets db')" using I(1) D(13) by blast
  show "keys_distinct wt_id (wallet_transactions db')"
    using I(2) D(3,6) by (simp add: keys_distinct_add fresh_id_notin)
  show "keys_distinct wr_id (withdraw_requests db')" using I(3) D(4) by simp
  show "0 < wt_amount x" if "x \<in> set (wallet_transactions db')" for x
    using that I(4) D(1,3,9) by auto
  show "0 < wr_amount x" if "x \<in> set (withdraw_requests db')" for x
    using that I(5) D(4) by auto
  show "wallet_synced m db'" for m
    using wallet_synced_post [OF post] wallet_inv_synced [OF assms(1)] by blast
qed

section \<open>Preservation by the other operations\<close>

text \<open>Operations that touch no wallet and no ledger row keep every balance in sync.\<close>

lemma wallet_synced_cong:
  assumes "\<And>m. wallet_of m db' = wallet_of m db" and "wallet_transactions db' = wallet_transactions db"
  shows "wallet_synced m db' = wallet_synced m db"
  using assms ledger_sum_cong [OF assms(2)] by (simp add: wallet_synced_def)

lemma wallet_inv_requests:
  assumes "wallet_inv db" and "keys_distinct mw_master (wallets db')"
    and "\<And>m. wallet_of m db' = wallet_of m db" and "wallet_transactions db' = wallet_transactions db"
    and "keys_distinct wr_id (withdraw_requests db')" and "\<forall>r \<in> set (withdraw_requests db'). 0 < wr_amount r"
  shows "wallet_inv db'"
proof -
  have "wallet_synced m db'" for m
    using wallet_synced_cong [OF assms(3,4)] wallet_inv_synced [OF assms(1)] by blast
  with assms wallet_invD [OF assms(1)] show ?thesis
    by (intro wallet_invI) simp_all
qed

lemma set_withdraw_status_inv [inv_intros]:
  assumes "wallet_inv db"
  shows "wallet_inv (set_withdraw_status rid st note db)"
  using wallet_invD [OF assms]
  by (intro wallet_inv_requests [OF assms])
    (auto simp: wallet_of_def set_withdraw_status_def keys_distinct_upd dest!: in_upd_row)

lemma get_or_create_inv [inv_intros]: "wallet_inv db \<Longrightarrow> wallet_inv (get_or_create_wallet m db)"
  by (rule wallet_inv_requests) (auto simp: wallet_invD keys_get_or_create)

lemma create_withdraw_inv [inv_intros]:
  assumes "wallet_inv db" and "0 < a"
  shows "wallet_inv (create_withdraw_row m a st note db)"
proof (rule wallet_inv_requests [OF assms(1)])
  show "keys_distinct wr_id (withdraw_requests (create_withdraw_row m a st note db))"
    using wallet_invD(3) [OF assms(1)] by (simp add: create_withdraw_row_def keys_distinct_add)
qed (use assms in \<open>auto simp: wallet_invD wallet_of_def create_withdraw_row_def\<close>)

lemma accept_cash_handover_posts:
  assumes "get_row wr_id rid (withdraw_requests db) = Some h"
  shows "accept_cash_handover rid note now db =
    (if wr_status h \<noteq> W_PENDING then Inr (db, False)
     else case post_wallet_transaction (wr_master h) OUT (wr_amount h) CASH
                 ''Naqd pul admin tomonidan qabul qilindi'' None now db of
            Inl e \<Rightarrow> Inl (if wr_amount h \<le> 0 then ValidationError ''Pul yechish summasi musbat bo'lishi kerak''
                         else ValidationError ''Naqd balans yetarli emas'')
          | Inr (db1, t) \<Rightarrow>
              Inr (set_withdraw_status rid W_APPROVED (note_or note ''Naqd qabul qilindi'') db1, True))"
  using assms
  by (auto simp: accept_cash_handover_def post_wallet_transaction_def Let_def balance_field_def add_balance_def
      split: prod.splits)

lemma accept_handover_inv [op_inv]:
  assumes "wallet_inv db" and acc: "accept_cash_handover rid note now db = Inr (db', ok)"
  shows "wallet_inv db'"
proof -
  from acc obtain h where h: "get_row wr_id rid (withdraw_requests db) = Some h"
    by (auto simp: accept_cash_handover_def)
  show ?thesis
    using acc assms(1) accept_cash_handover_posts [OF h, of "note" now]
    by (auto split: if_splits sum.splits prod.splits intro!: set_withdraw_status_inv
        dest: post_preserves_inv [OF assms(1)])
qed

lemma reject_handover_inv [op_inv]:
  "wallet_inv db \<Longrightarrow> reject_cash_handover rid note db = Inr (db', ok) \<Longrightarrow> wallet_inv db'"
  by (auto simp: reject_cash_handover_def split: if_splits intro: inv_intros)

lemma master_withdraw_inv [op_inv]:
  "wallet_inv db \<Longrightarrow> WithdrawRequestCreateView_perform_create user a db = Inr db' \<Longrightarrow> wallet_inv db'"
  by (auto simp: WithdrawRequestCreateView_perform_create_def WithdrawRequestSerializer_validate_def Let_def
      split: if_splits intro!: inv_intros)

lemma dashboard_withdraw_create_inv [op_inv]:
  "wallet_inv db \<Longrightarrow> DashboardWithdrawRequest_perform_create m a st note db = Inr db' \<Longrightarrow> wallet_inv db'"
  by (auto simp: DashboardWithdrawRequest_perform_create_def WithdrawRequestSerializer_validate_def Let_def
      split: if_splits intro!: inv_intros)

lemma patch_withdraw_inv:
  assumes "wallet_inv db" and "\<And>a. rp_amount p = Some a \<Longrightarrow> 0 < a"
  shows "wallet_inv (db\<lparr>withdraw_requests := upd_row wr_id rid (patch_withdraw p) (withdraw_requests db)\<rparr>)"
  using assms
  by (intro wallet_inv_requests [OF assms(1)])
    (auto simp: wallet_invD wallet_of_def patch_withdraw_def sent_or_def keys_distinct_upd
      split: option.splits dest!: in_upd_row)

lemma dashboard_withdraw_update_inv [op_inv]:
  assumes "wallet_inv db" and "DashboardWithdrawRequest_perform_update rid p now db = Inr db'"
  shows "wallet_inv db'"
proof -
  have "0 < a" if "rp_amount p = Some a" for a
    using assms(2) that
    by (auto simp: DashboardWithdrawRequest_perform_update_def WithdrawRequestSerializer_validate_def)
  note patch = patch_withdraw_inv [OF assms(1) this]
  show ?thesis
    using assms patch
    by (auto simp: DashboardWithdrawRequest_perform_update_def Let_def split: if_splits prod.splits
        intro: accept_handover_inv reject_handover_inv)
qed

lemma dashboard_withdraw_destroy_inv [op_inv]:
  assumes "wallet_inv db" and "DashboardWithdrawRequest_perform_destroy rid db = Inr db'"
  shows "wallet_inv db'"
  using assms
  by (intro wallet_inv_requests [OF assms(1)])
    (auto simp: DashboardWithdrawRequest_perform_destroy_def wallet_invD wallet_of_def keys_distinct_del
      set_del_row split: if_splits)

lemma transaction_patch_only_description:
  assumes "keys_distinct wt_id (wallet_transactions db)"
    and "DashboardWalletTransaction_perform_update tid p db = Inr db'"
  shows "\<exists>descr. db' = db\<lparr>wallet_transactions :=
      upd_row wt_id tid (\<lambda>t. t\<lparr>wt_description := descr\<rparr>) (wallet_transactions db)\<rparr>"
proof -
  obtain t where t: "get_row wt_id tid (wallet_transactions db) = Some t"
    and same: "patch_transaction p t = t\<lparr>wt_description := sent_or (wp_description p) (wt_description t)\<rparr>"
    and db': "db' = db\<lparr>wallet_transactions := upd_row wt_id tid (patch_transaction p) (wallet_transactions db)\<rparr>"
    using assms(2)
    by (auto simp: DashboardWalletTransaction_perform_update_def changed_def sent_or_def patch_transaction_def
        split: if_splits option.splits)
  have "upd_row wt_id tid (patch_transaction p) (wallet_transactions db) =
      upd_row wt_id tid (\<lambda>x. x\<lparr>wt_description := sent_or (wp_description p) (wt_description t)\<rparr>)
        (wallet_transactions db)"
    by (rule upd_row_eq [OF assms(1) t]) (simp add: same)
  with db' show ?thesis by auto
qed

lemma transaction_patch_inv [op_inv]:
  assumes "wallet_inv db" and "DashboardWalletTransaction_perform_update tid p db = Inr db'"
  shows "wallet_inv db'"
proof -
  note I = wallet_invD [OF assms(1)]
  obtain descr where db': "db' = db\<lparr>wallet_transactions :=
      upd_row wt_id tid (\<lambda>t. t\<lparr>wt_description := descr\<rparr>) (wallet_transactions db)\<rparr>"
    using transaction_patch_only_description [OF I(2) assms(2)] by blast
  have "ledger_sum m ty meth db' = ledger_sum m ty meth db" for m ty meth
    by (simp add: db' ledger_sum_def sum_rows_upd_same)
  moreover have "wallet_of m db' = wallet_of m db" for m
    by (simp add: db' wallet_of_def)
  ultimately have "wallet_synced m db'" for m
    using wallet_inv_synced [OF assms(1), of m] by (simp add: wallet_synced_def)
  with I show ?thesis
    by (intro wallet_invI) (auto simp: db' keys_distinct_upd dest!: in_upd_row)
qed

text \<open>Deleting a ledger row undoes what posting it did.\<close>

lemma reverse_InrD:
  assumes "reverse_wallet_transaction t db = Inr db'"
  shows "wallet_transactions db' = wallet_transactions db" "withdraw_requests db' = withdraw_requests db"
    "wt_type t = IN \<Longrightarrow> wt_amount t \<le> balance_field (wt_method t) (wallet_of (wt_master t) db)"
    "\<And>m. wallet_of m db' =
      (if m = wt_master t then posted (wt_type t) (wt_method t) (- wt_amount t) (wallet_of m db) else wallet_of m db)"
    "keys_distinct mw_master (wallets db) \<Longrightarrow> keys_distinct mw_master (wallets db')"
proof -
  have db': "db' = update_wallet (wt_master t) (posted (wt_type t) (wt_method t) (- wt_amount t))
      (get_or_create_wallet (wt_master t) db)"
    and "wt_type t = IN \<Longrightarrow> wt_amount t \<le> balance_field (wt_method t) (wallet_of (wt_master t) db)"
    using assms by (auto simp: reverse_wallet_transaction_def posted_def [abs_def] Let_def
        split: if_splits transaction_type.splits)
  then show "wt_type t = IN \<Longrightarrow> wt_amount t \<le> balance_field (wt_method t) (wallet_of (wt_master t) db)"
    by blast
  show "wallet_transactions db' = wallet_transactions db" "withdraw_requests db' = withdraw_requests db"
    by (simp_all add: db')
  show "wallet_of m db' = (if m = wt_master t then posted (wt_type t) (wt_method t) (- wt_amount t) (wallet_of m db)
      else wallet_of m db)" for m
    by (simp add: db' wallet_of_update)
  show "keys_distinct mw_master (wallets db')" if "keys_distinct mw_master (wallets db)"
    using that by (simp add: db' keys_update_wallet keys_get_or_create)
qed

lemma destroy_InrD:
  assumes "DashboardWalletTransaction_perform_destroy tid db = Inr db'"
  obtains t db1 where "get_row wt_id tid (wallet_transactions db) = Some t"
    and "reverse_wallet_transaction t db = Inr db1"
    and "db' = db1\<lparr>wallet_transactions := del_row wt_id tid (wallet_transactions db1)\<rparr>"
  using assms by (auto simp: DashboardWalletTransaction_perform_destroy_def)

lemma transaction_destroy_inv [op_inv]:
  assumes "wallet_inv db" and "DashboardWalletTransaction_perform_destroy tid db = Inr db'"
  shows "wallet_inv db'"
  using assms(2)
proof (rule destroy_InrD)
  fix t db1
  assume t: "get_row wt_id tid (wallet_transactions db) = Some t"
    and rev: "reverse_wallet_transaction t db = Inr db1"
    and db': "db' = db1\<lparr>wallet_transactions := del_row wt_id tid (wallet_transactions db1)\<rparr>"
  note I = wallet_invD [OF assms(1)] and R = reverse_InrD [OF rev]
  have txs: "wallet_transactions db' = del_row wt_id tid (wallet_transactions db)"
    by (simp add: db' R(1))
  note L = ledger_sum_del [OF txs I(2) t]
  have W: "wallet_of m db' = (if m = wt_master t then posted (wt_type t) (wt_method t) (- wt_amount t) (wallet_of m db)
      else wallet_of m db)" for m
    using R(4) [of m] wallet_of_cong [of db' db1 m] by (simp add: db')
  have pos: "0 < wt_amount t" using I(4) get_row_in [OF t] by blast
  have "wallet_synced m db'" for m
    using wallet_inv_synced [OF assms(1), of m] R(3) pos
    by (cases "wt_type t"; cases "wt_method t")
      (auto simp: wallet_synced_def Let_def L W balance_field_def)
  with I R show "wallet_inv db'"
    by (intro wallet_invI) (auto simp: txs db' keys_distinct_del set_del_row)
qed

section \<open>Histories of the wallet tables\<close>

text \<open>One rule per endpoint or admin action that writes to the wallet tables.\<close>

inductive wallet_step :: "wallet_db \<Rightarrow> wallet_db \<Rightarrow> bool" where
  open_wallet: "wallet_step db (fst (MasterWalletView_get_object user db))"
| stats: "wallet_step db (fst (WalletStatsView_get user db))"
| post: "DashboardWalletTransaction_perform_create m ty a meth d ord now db = Inr (db', t) \<Longrightarrow> wallet_step db db'"
| patch: "DashboardWalletTransaction_perform_update tid p db = Inr db' \<Longrightarrow> wallet_step db db'"
| destroy: "DashboardWalletTransaction_perform_destroy tid db = Inr db' \<Longrightarrow> wallet_step db db'"
| request: "WithdrawRequestCreateView_perform_create user a db = Inr db' \<Longrightarrow> wallet_step db db'"
| request_admin: "DashboardWithdrawRequest_perform_create m a st nt db = Inr db' \<Longrightarrow> wallet_step db db'"
| request_patch: "DashboardWithdrawRequest_perform_update rid rp now db = Inr db' \<Longrightarrow> wallet_step db db'"
| request_destroy: "DashboardWithdrawRequest_perform_destroy rid db = Inr db' \<Longrightarrow> wallet_step db db'"
| accept: "accept_cash_handover rid nt now db = Inr (db', ok) \<Longrightarrow> wallet_step db db'"
| reject: "reject_cash_handover rid nt db = Inr (db', ok) \<Longrightarrow> wallet_step db db'"
| accept_bulk: "wallet_step db (fst (accept_selected rids now db))"
| reject_bulk: "wallet_step db (fst (reject_selected rids db))"
| expense: "wallet_step db (ExpenseListCreateView_perform_create user e db)"
| expense_destroy: "ExpenseDetailView_destroy user eid db = Inr db' \<Longrightarrow> wallet_step db db'"

lemma accept_selected_inv: "wallet_inv db \<Longrightarrow> wallet_inv (fst (accept_selected rids now db))"
  by (induction rids arbitrary: db)
    (auto simp: Let_def case_prod_beta split: sum.split dest: accept_handover_inv)

lemma reject_selected_inv: "wallet_inv db \<Longrightarrow> wallet_inv (fst (reject_selected rids db))"
  by (induction rids arbitrary: db)
    (auto simp: Let_def case_prod_beta split: sum.split dest: reject_handover_inv)

lemma expenses_inv:
  assumes "wallet_inv db" "wallets db' = wallets db" "wallet_transactions db' = wallet_transactions db"
    "withdraw_requests db' = withdraw_requests db"
  shows "wallet_inv db'"
  using assms wallet_invD [OF assms(1)]
  by (intro wallet_inv_requests [OF assms(1)]) (auto simp: wallet_of_def)

lemma wallet_step_inv: "wallet_step db db' \<Longrightarrow> wallet_inv db \<Longrightarrow> wallet_inv db'"
proof (induction rule: wallet_step.induct)
  case (expense db user e)
  then show ?case
    by (rule expenses_inv) (simp_all add: ExpenseListCreateView_perform_create_def)
next
  case (expense_destroy user eid db db')
  show ?case
    by (rule expenses_inv [OF expense_destroy(2)])
      (use expense_destroy(1) in \<open>auto simp: ExpenseDetailView_destroy_def\<close>)
qed (auto simp: MasterWalletView_get_object_def WalletStatsView_get_def Let_def
      DashboardWalletTransaction_perform_create_def accept_selected_inv reject_selected_inv
      intro: get_or_create_inv op_inv)

lemma wallet_steps_inv: "wallet_step\<^sup>*\<^sup>* db db' \<Longrightarrow> wallet_inv db \<Longrightarrow> wallet_inv db'"
  by (induction rule: rtranclp_induct) (auto dest: wallet_step_inv)

text \<open>C18: In every state the wallet tables can reach, for every master the cash and the online
  balance equal the credited minus the debited ledger rows of that method, the earned
  and withdrawn totals equal the sums of all credits and debits, and no balance is negative.\<close>

theorem wallet_balances_are_ledger_sums:
  assumes "wallet_step\<^sup>*\<^sup>* empty_wallet_db db"
  shows "balance_cash (wallet_of m db) = ledger_sum m IN CASH db - ledger_sum m OUT CASH db \<and>
    balance_online (wallet_of m db) = ledger_sum m IN ONLINE db - ledger_sum m OUT ONLINE db \<and>
    total_earned (wallet_of m db) = ledger_sum m IN CASH db + ledger_sum m IN ONLINE db \<and>
    total_withdrawn (wallet_of m db) = ledger_sum m OUT CASH db + ledger_sum m OUT ONLINE db \<and>
    0 \<le> balance_cash (wallet_of m db) \<and> 0 \<le> balance_online (wallet_of m db)"
  using wallet_inv_synced [OF wallet_steps_inv [OF assms wallet_inv_empty], of m]
  by (simp add: wallet_synced_def Let_def)

definition wallet_example :: wallet_db where
  "wallet_example = (case post_wallet_transaction 7 IN 50000 CASH ''Buyurtma'' (Some 3) 1000 empty_wallet_db of
      Inr (db, t) \<Rightarrow> db | Inl e \<Rightarrow> empty_wallet_db)"

theorem wallet_balances_are_ledger_sums_witness:
  "wallet_step\<^sup>*\<^sup>* empty_wallet_db wallet_example \<and> balance_cash (wallet_of 7 wallet_example) = 50000 \<and>
   ledger_sum 7 IN CASH wallet_example - ledger_sum 7 OUT CASH wallet_example = 50000"
proof -
  have "wallet_step empty_wallet_db wallet_example"
  proof (rule wallet_step.post)
    show "DashboardWalletTransaction_perform_create 7 IN 50000 CASH ''Buyurtma'' (Some 3) 1000 empty_wallet_db =
      Inr (wallet_example, hd (wallet_transactions wallet_example))"
      by code_simp
  qed
  then have "wallet_step\<^sup>*\<^sup>* empty_wallet_db wallet_example" by blast
  moreover have "balance_cash (wallet_of 7 wallet_example) = 50000" by code_simp
  ultimately show ?thesis
    using wallet_balances_are_ledger_sums [of wallet_example 7] by simp
qed

section \<open>Functional behaviour\<close>

text \<open>Deleting a ledger row that has just been posted succeeds and restores the wallet of
  every master and the ledger itself.\<close>

theorem post_then_destroy_roundtrip:
  assumes "wallet_inv db" and "post_wallet_transaction m ty a meth d ord now db = Inr (db1, t)"
  shows "\<exists>db2. DashboardWalletTransaction_perform_destroy (wt_id t) db1 = Inr db2 \<and>
    wallet_transactions db2 = wallet_transactions db \<and> withdraw_requests db2 = withdraw_requests db \<and>
    (\<forall>m'. wallet_of m' db2 = wallet_of m' db)"
proof -
  note D = post_wallet_transaction_InrD [OF assms(2)]
  have t: "get_row wt_id (wt_id t) (wallet_transactions db1) = Some t"
    by (simp add: D(3,6) get_row_add split: option.split)
  have "wallet_synced m db" by (rule wallet_inv_synced [OF assms(1)])
  then have "wt_type t = IN \<Longrightarrow> wt_amount t \<le> balance_field (wt_method t) (wallet_of (wt_master t) db1)"
    by (cases meth) (simp_all add: D wallet_synced_def Let_def balance_field_def)
  then obtain db2 where rev: "reverse_wallet_transaction t db1 = Inr db2"
    by (cases "wt_type t") (auto simp: reverse_wallet_transaction_def Let_def)
  note R = reverse_InrD [OF rev]
  let ?db2 = "db2\<lparr>wallet_transactions := del_row wt_id (wt_id t) (wallet_transactions db2)\<rparr>"
  have "posted ty meth (- a) (posted ty meth a w) = w" for w
    by (cases ty; cases meth) (simp_all add: posted_def add_balance_def)
  then have W: "wallet_of m' ?db2 = wallet_of m' db" for m'
    using R(4) [of m'] wallet_of_cong [of ?db2 db2 m'] by (simp add: D(7-10,12))
  have "del_row wt_id (wt_id t) (wallet_transactions db1) = wallet_transactions db"
    using fresh_id_neq [of _ "wallet_transactions db" wt_id]
    by (auto simp: D(3,6) add_row_def del_row_def filter_id_conv)
  then have "wallet_transactions ?db2 = wallet_transactions db" and "withdraw_requests ?db2 = withdraw_requests db"
    by (simp_all add: R(1,2) D(4))
  with W t rev show ?thesis
    by (auto simp: DashboardWalletTransaction_perform_destroy_def)
qed

theorem post_then_destroy_roundtrip_witness:
  "\<exists>db2. DashboardWalletTransaction_perform_destroy 1 wallet_example = Inr db2 \<and>
    wallet_transactions db2 = [] \<and> balance_cash (wallet_of 7 db2) = 0"
proof -
  have "post_wallet_transaction 7 IN 50000 CASH ''Buyurtma'' (Some 3) 1000 empty_wallet_db =
      Inr (wallet_example, hd (wallet_transactions wallet_example))"
    by code_simp
  moreover have "wt_id (hd (wallet_transactions wallet_example)) = 1"
    and "wallet_transactions empty_wallet_db = []" and "balance_cash (wallet_of 7 empty_wallet_db) = 0"
    by code_simp+
  ultimately show ?thesis
    using post_then_destroy_roundtrip [OF wallet_inv_empty] by metis
qed

text \<open>Accepting a pending cash handover that the cash balance covers debits exactly that
  amount once, writes one debit row, and marks the request approved; accepting it again,
  or rejecting it, changes nothing and reports so.\<close>

theorem accept_handover_debits_once:
  assumes "get_row wr_id rid (withdraw_requests db) = Some h" and "wr_status h = W_PENDING"
    and "0 < wr_amount h" and "wr_amount h \<le> balance_cash (wallet_of (wr_master h) db)"
  shows "\<exists>db'. accept_cash_handover rid nt now db = Inr (db', True) \<and>
    wallet_of (wr_master h) db' = posted OUT CASH (wr_amount h) (wallet_of (wr_master h) db) \<and>
    (\<forall>m. m \<noteq> wr_master h \<longrightarrow> wallet_of m db' = wallet_of m db) \<and>
    length (wallet_transactions db') = Suc (length (wallet_transactions db)) \<and>
    map_option wr_status (get_row wr_id rid (withdraw_requests db')) = Some W_APPROVED \<and>
    accept_cash_handover rid nt' now' db' = Inr (db', False) \<and>
    reject_cash_handover rid nt' db' = Inr (db', False)"
proof -
  let ?d = "''Naqd pul admin tomonidan qabul qilindi''"
  obtain db1 t where post: "post_wallet_transaction (wr_master h) OUT (wr_amount h) CASH ?d None now db = Inr (db1, t)"
    using assms post_wallet_transaction_error_iff [of "wr_master h" OUT "wr_amount h" CASH ?d None now db]
    by (cases "post_wallet_transaction (wr_master h) OUT (wr_amount h) CASH ?d None now db")
      (auto simp: balance_field_def)
  note D = post_wallet_transaction_InrD [OF post]
  let ?db' = "set_withdraw_status rid W_APPROVED (note_or nt ''Naqd qabul qilindi'') db1"
  have row: "get_row wr_id rid (withdraw_requests ?db') =
      Some (h\<lparr>wr_status := W_APPROVED, wr_admin_note := note_or nt ''Naqd qabul qilindi''\<rparr>)"
    using assms(1) D(4) by (simp add: set_withdraw_status_def get_row_upd)
  have "accept_cash_handover rid nt now db = Inr (?db', True)"
    by (simp add: accept_cash_handover_posts [OF assms(1)] assms(2) post)
  moreover have "wallet_of m ?db' = wallet_of m db1" for m
    by (simp add: wallet_of_def)
  moreover have "accept_cash_handover rid nt' now' ?db' = Inr (?db', False)"
    and "reject_cash_handover rid nt' ?db' = Inr (?db', False)"
    by (simp_all add: accept_cash_handover_def reject_cash_handover_def row)
  ultimately show ?thesis
    using row D(3,12) by (intro exI [of _ ?db']) (auto simp: add_row_def)
qed

definition handover_example :: wallet_db where
  "handover_example = create_withdraw_row 7 20000 W_PENDING [] wallet_example"

theorem accept_handover_debits_once_witness:
  "\<exists>db'. accept_cash_handover 1 [] 5 handover_example = Inr (db', True) \<and>
    balance_cash (wallet_of 7 db') = 30000 \<and> accept_cash_handover 1 [] 6 db' = Inr (db', False)"
proof -
  obtain h where "get_row wr_id 1 (withdraw_requests handover_example) = Some h"
    and "wr_status h = W_PENDING" "wr_amount h = 20000" "wr_master h = 7"
    by (rule that [of "\<lparr>wr_id = 1, wr_master = 7, wr_amount = 20000, wr_status = W_PENDING, wr_admin_note = []\<rparr>"])
      code_simp+
  moreover have "balance_cash (wallet_of 7 handover_example) = 50000" by code_simp
  ultimately show ?thesis
    using accept_handover_debits_once [of 1 handover_example h "[]" 5 "[]" 6] by auto
qed

text \<open>A withdraw request a master files is granted only out of cash that no other
  pending request has claimed: afterwards the pending requests of the master together
  still fit into the cash balance, which the request itself does not change.\<close>

theorem withdraw_request_never_overcommits:
  assumes "WithdrawRequestCreateView_perform_create user a db = Inr db'"
  shows "pending_withdraw user db' = pending_withdraw user db + a \<and> 0 < a \<and>
    pending_withdraw user db' \<le> balance_cash (wallet_of user db') \<and>
    (\<forall>m. wallet_of m db' = wallet_of m db)"
proof -
  let ?g = "get_or_create_wallet user db"
  have db': "db' = create_withdraw_row user a W_PENDING [] ?g" and "1 \<le> a"
    and fits: "a \<le> balance_cash (wallet_of user db) - pending_withdraw user ?g"
    using assms
    by (auto simp: WithdrawRequestCreateView_perform_create_def WithdrawRequestSerializer_validate_def Let_def
        split: if_splits)
  have "pending_withdraw user ?g = pending_withdraw user db"
    by (simp add: pending_withdraw_def)
  moreover have "pending_withdraw user db' = pending_withdraw user ?g + a"
    by (simp add: db' pending_withdraw_def create_withdraw_row_def sum_rows_add)
  moreover have "wallet_of m db' = wallet_of m db" for m
    using wallet_of_cong [of db' ?g m] by (simp add: db')
  ultimately show ?thesis using fits \<open>1 \<le> a\<close> by simp
qed

theorem withdraw_request_never_overcommits_witness:
  "\<exists>db'. WithdrawRequestCreateView_perform_create 7 30000 handover_example = Inr db' \<and>
    pending_withdraw 7 db' = 50000 \<and> pending_withdraw 7 db' \<le> balance_cash (wallet_of 7 db')"
proof -
  obtain db' where db': "WithdrawRequestCreateView_perform_create 7 30000 handover_example = Inr db'"
    by (rule that [of "create_withdraw_row 7 30000 W_PENDING [] handover_example"]) code_simp
  moreover have "pending_withdraw 7 handover_example = 20000" by code_simp
  ultimately show ?thesis
    using withdraw_request_never_overcommits [OF db'] by auto
qed

text \<open>The dashboard's PATCH on a withdraw request guards only the transitions out of
  the pending state. An approved request that is set back to pending can be approved
  again: the master's cash is debited a second time for one and the same request. And a
  rejected request can be set to approved with no debit at all.\<close>

theorem withdraw_patch_escapes_guard:
  assumes "get_row wr_id rid (withdraw_requests db) = Some h" and "0 < wr_amount h"
    and "wr_amount h \<le> balance_cash (wallet_of (wr_master h) db)"
    and "p = \<lparr>rp_master = None, rp_amount = None, rp_status = Some W_PENDING, rp_note = None\<rparr>"
    and "q = \<lparr>rp_master = None, rp_amount = None, rp_status = Some W_APPROVED, rp_note = None\<rparr>"
  shows "(wr_status h = W_APPROVED \<longrightarrow> (\<exists>db1 db2.
      DashboardWithdrawRequest_perform_update rid p now db = Inr db1 \<and>
      DashboardWithdrawRequest_perform_update rid q now db1 = Inr db2 \<and>
      balance_cash (wallet_of (wr_master h) db2) = balance_cash (wallet_of (wr_master h) db) - wr_amount h)) \<and>
    (wr_status h = W_REJECTED \<longrightarrow> (\<exists>db1.
      DashboardWithdrawRequest_perform_update rid q now db = Inr db1 \<and>
      map_option wr_status (get_row wr_id rid (withdraw_requests db1)) = Some W_APPROVED \<and>
      wallets db1 = wallets db \<and> wallet_transactions db1 = wallet_transactions db))"
proof (intro conjI impI)
  let ?flip = "\<lambda>p. db\<lparr>withdraw_requests := upd_row wr_id rid (patch_withdraw p) (withdraw_requests db)\<rparr>"
  have row: "get_row wr_id rid (withdraw_requests (?flip p')) = Some (patch_withdraw p' h)" for p'
    using assms(1) by (simp add: get_row_upd patch_withdraw_def)
  {
    assume "wr_status h = W_REJECTED"
    with assms(1) have "DashboardWithdrawRequest_perform_update rid q now db = Inr (?flip q)"
      by (simp add: DashboardWithdrawRequest_perform_update_def assms(5) sent_or_def changed_def)
    with row [of q] show "\<exists>db1. DashboardWithdrawRequest_perform_update rid q now db = Inr db1 \<and>
        map_option wr_status (get_row wr_id rid (withdraw_requests db1)) = Some W_APPROVED \<and>
        wallets db1 = wallets db \<and> wallet_transactions db1 = wallet_transactions db"
      by (simp add: patch_withdraw_def sent_or_def assms(5))
  next
    assume "wr_status h = W_APPROVED"
    with assms(1) have p: "DashboardWithdrawRequest_perform_update rid p now db = Inr (?flip p)"
      by (simp add: DashboardWithdrawRequest_perform_update_def assms(4) sent_or_def changed_def)
    let ?d = "''Naqd pul admin tomonidan qabul qilindi''"
    have W: "wallet_of m (?flip p) = wallet_of m db" for m
      by (simp add: wallet_of_def)
    obtain db1 t where post:
      "post_wallet_transaction (wr_master h) OUT (wr_amount h) CASH ?d None now (?flip p) = Inr (db1, t)"
      using assms(2,3) post_wallet_transaction_error_iff [of "wr_master h" OUT "wr_amount h" CASH ?d None now "?flip p"]
      by (cases "post_wallet_transaction (wr_master h) OUT (wr_amount h) CASH ?d None now (?flip p)")
        (auto simp: balance_field_def W)
    let ?db2 = "set_withdraw_status rid W_APPROVED (note_or [] ''Naqd qabul qilindi'') db1"
    have "DashboardWithdrawRequest_perform_update rid q now (?flip p) = Inr ?db2"
      using row [of p] accept_cash_handover_posts [OF row [of p], of "[]" now] post
      by (simp add: DashboardWithdrawRequest_perform_update_def patch_withdraw_def sent_or_def assms(4,5))
    moreover have "balance_cash (wallet_of (wr_master h) ?db2) =
        balance_cash (wallet_of (wr_master h) db) - wr_amount h"
      using post_wallet_transaction_InrD(12) [OF post, of "wr_master h"] W wallet_of_cong [of ?db2 db1]
      by simp
    ultimately show "\<exists>db1 db2. DashboardWithdrawRequest_perform_update rid p now db = Inr db1 \<and>
        DashboardWithdrawRequest_perform_update rid q now db1 = Inr db2 \<and>
        balance_cash (wallet_of (wr_master h) db2) = balance_cash (wallet_of (wr_master h) db) - wr_amount h"
      using p by blast
  }
qed

definition approved_example :: wallet_db where
  "approved_example = create_withdraw_row 7 20000 W_APPROVED [] wallet_example"

theorem withdraw_patch_escapes_guard_witness:
  "\<exists>db1 db2. DashboardWithdrawRequest_perform_update 1
      \<lparr>rp_master = None, rp_amount = None, rp_status = Some W_PENDING, rp_note = None\<rparr> 9 approved_example = Inr db1 \<and>
    DashboardWithdrawRequest_perform_update 1
      \<lparr>rp_master = None, rp_amount = None, rp_status = Some W_APPROVED, rp_note = None\<rparr> 9 db1 = Inr db2 \<and>
    balance_cash (wallet_of 7 db2) = 30000"
proof -
  obtain h where "get_row wr_id 1 (withdraw_requests approved_example) = Some h"
    and "wr_status h = W_APPROVED" "wr_amount h = 20000" "wr_master h = 7"
    by (rule that [of "\<lparr>wr_id = 1, wr_master = 7, wr_amount = 20000, wr_status = W_APPROVED, wr_admin_note = []\<rparr>"])
      code_simp+
  moreover have "balance_cash (wallet_of 7 approved_example) = 50000" by code_simp
  ultimately show ?thesis
    using withdraw_patch_escapes_guard [of 1 approved_example h, OF _ _ _ refl refl, of 9] by auto
qed

section \<open>The interface of the orders\<close>

text \<open>What a client that credits masters relies on: a positive credit always succeeds, it
  raises exactly one balance by exactly the amount and it keeps the books balanced.\<close>

locale wallet_ledger =
  fixes credit :: "row_id \<Rightarrow> wallet_method \<Rightarrow> money \<Rightarrow> 's \<Rightarrow> 's option"
    and balance :: "'s \<Rightarrow> row_id \<Rightarrow> wallet_method \<Rightarrow> money"
    and books :: "'s \<Rightarrow> bool"
  assumes credit_succeeds: "0 < a \<Longrightarrow> \<exists>s'. credit m meth a s = Some s'"
    and credit_refused: "a \<le> 0 \<Longrightarrow> credit m meth a s = None"
    and credit_balance: "credit m meth a s = Some s' \<Longrightarrow>
      balance s' m' meth' = balance s m' meth' + (if m' = m \<and> meth' = meth then a else 0)"
    and credit_books: "books s \<Longrightarrow> credit m meth a s = Some s' \<Longrightarrow> books s'"
begin

fun credit_all :: "(row_id \<times> wallet_method \<times> money) list \<Rightarrow> 's \<Rightarrow> 's option" where
  "credit_all [] s = Some s"
| "credit_all ((m, meth, a) # cs) s = Option.bind (credit m meth a s) (credit_all cs)"

lemma credit_all_balance:
  "credit_all cs s = Some s' \<Longrightarrow>
   balance s' m meth = balance s m meth + sum_rows (\<lambda>(m', meth', a). if m' = m \<and> meth' = meth then a else 0) cs"
proof (induction cs s rule: credit_all.induct)
  case (2 m' meth' a cs s)
  then show ?case
    using credit_balance [of m' meth' a s] by (auto simp: bind_eq_Some_conv)
qed simp

lemma credit_all_books: "books s \<Longrightarrow> credit_all cs s = Some s' \<Longrightarrow> books s'"
  by (induction cs s rule: credit_all.induct) (auto simp: bind_eq_Some_conv dest: credit_books)

lemma credit_all_succeeds:
  "list_all (\<lambda>(m, meth, a). 0 < a) cs \<Longrightarrow> \<exists>s'. credit_all cs s = Some s'"
proof (induction cs s rule: credit_all.induct)
  case (2 m meth a cs s)
  then show ?case
    using credit_succeeds [of a m meth s] by auto
qed simp

end

definition credit_master ::
  "string \<Rightarrow> row_id option \<Rightarrow> instant \<Rightarrow> row_id \<Rightarrow> wallet_method \<Rightarrow> money \<Rightarrow> wallet_db \<Rightarrow> wallet_db option" where
  "credit_master d ord now m meth a db =
    (case post_wallet_transaction m IN a meth d ord now db of Inl e \<Rightarrow> None | Inr (db', t) \<Rightarrow> Some db')"

definition wallet_balance :: "wallet_db \<Rightarrow> row_id \<Rightarrow> wallet_method \<Rightarrow> money" where
  "wallet_balance db m meth = balance_field meth (wallet_of m db)"

interpretation wl: wallet_ledger "credit_master d ord now" wallet_balance wallet_inv
proof
  show "\<exists>s'. credit_master d ord now m meth a s = Some s'" if "0 < a" for a m meth s
    using that post_wallet_transaction_error_iff [of m IN a meth d ord now s]
    by (cases "post_wallet_transaction m IN a meth d ord now s") (auto simp: credit_master_def)
  show "credit_master d ord now m meth a s = None" if "a \<le> 0" for a m meth s
    using that by (simp add: credit_master_def post_wallet_transaction_def)
  show "wallet_balance s' m' meth' = wallet_balance s m' meth' + (if m' = m \<and> meth' = meth then a else 0)"
    if "credit_master d ord now m meth a s = Some s'" for m meth a s s' m' meth'
    using that post_wallet_transaction_InrD(12) [of m IN a meth d ord now s s']
    by (cases meth'; cases meth)
      (auto simp: credit_master_def wallet_balance_def balance_field_def split: sum.splits prod.splits)
  show "wallet_inv s'" if "wallet_inv s" and "credit_master d ord now m meth a s = Some s'" for m meth a s s'
    using that by (auto simp: credit_master_def split: sum.splits prod.splits dest: post_preserves_inv)
qed

interpretation transactions_store: row_store wt_id "get_row wt_id" add_row "del_row wt_id" "\<lambda>rows. rows" "fresh_id wt_id"
  by (rule row_store_tables)

interpretation withdraws_store: row_store wr_id "get_row wr_id" add_row "del_row wr_id" "\<lambda>rows. rows" "fresh_id wr_id"
  by (rule row_store_tables)

end
