(* ===== verification/Warehouse.thy ===== *)
theory Warehouse
  imports Prelude
begin

text \<open>
  The central warehouse and the masters' inventories: \<open>src/apps/warehouse/\<close> and the
  warehouse endpoints of \<open>src/apps/dashboard/views.py\<close>.

  \<^item> State: \<open>warehouse_db\<close>, the tables of products, movements and inventories.
  \<^item> Operations: assigning stock to a master, taking it back, correcting it, manual
    movements and their deletion, creation and correction of products.
  \<^item> Invariant \<open>warehouse_inv\<close>: the stock of every product is the sum of its movements,
    inventories are not negative and reference existing products.
  \<^item> Abstraction: the total stock of a product, on the shelves and with the masters.

  Whether an inventory row is used by an order is a table of the orders; it is the argument
  \<open>used\<close>. The display name of a master, which ends up in notes, is the argument \<open>mstr\<close>.
\<close>

section \<open>Data\<close>

datatype movement_type = STOCK_IN | STOCK_OUT

record warehouse_product =
  pr_id :: row_id
  pr_category :: "row_id option"
  pr_name :: string
  pr_unit :: string
  pr_quantity :: qty
  pr_low_threshold :: qty
  cost_price :: money
  sale_price :: money
  pr_mxik :: string
  pr_package_code :: string
  pr_vat_percent :: nat
  pr_is_active :: bool

record stock_movement =
  sm_id :: row_id
  sm_product :: row_id
  sm_type :: movement_type
  sm_quantity :: qty
  sm_note :: string
  sm_master :: "row_id option"

record master_inventory =
  mi_id :: row_id
  mi_master :: row_id
  mi_product :: row_id
  mi_quantity :: qty
  mi_unit :: string
  mi_low_threshold :: qty

record warehouse_db =
  products :: "warehouse_product list"
  movements :: "stock_movement list"
  inventory :: "master_inventory list"

definition empty_warehouse_db :: warehouse_db where
  "empty_warehouse_db = \<lparr>products = [], movements = [], inventory = []\<rparr>"

definition product_is_low_stock :: "warehouse_product \<Rightarrow> bool" where
  "product_is_low_stock p = (pr_quantity p \<le> pr_low_threshold p)"

text \<open>Price times quantity: a product of two numbers in hundredths, so in units of 1/10000.\<close>

definition stock_value :: "warehouse_product \<Rightarrow> int" where
  "stock_value p = cost_price p * pr_quantity p"

definition inventory_is_low_stock :: "master_inventory \<Rightarrow> bool" where
  "inventory_is_low_stock i = (mi_quantity i \<le> mi_low_threshold i)"

definition get_disabled :: "warehouse_product \<Rightarrow> bool" where
  "get_disabled p = (pr_quantity p \<le> 0)"

definition inv_key :: "master_inventory \<Rightarrow> row_id \<times> row_id" where
  "inv_key i = (mi_master i, mi_product i)"

section \<open>Services\<close>

definition set_product_quantity :: "row_id \<Rightarrow> qty \<Rightarrow> warehouse_db \<Rightarrow> warehouse_db" where
  "set_product_quantity pid n db =
    db\<lparr>products := upd_row pr_id pid (\<lambda>p. p\<lparr>pr_quantity := n\<rparr>) (products db)\<rparr>"

definition set_inventory_quantity :: "row_id \<Rightarrow> qty \<Rightarrow> warehouse_db \<Rightarrow> warehouse_db" where
  "set_inventory_quantity iid n db =
    db\<lparr>inventory := upd_row mi_id iid (\<lambda>i. i\<lparr>mi_quantity := n\<rparr>) (inventory db)\<rparr>"

definition create_movement ::
  "row_id \<Rightarrow> movement_type \<Rightarrow> qty \<Rightarrow> row_id option \<Rightarrow> string \<Rightarrow> warehouse_db \<Rightarrow> warehouse_db" where
  "create_movement pid ty n m nt db =
    db\<lparr>movements := add_row \<lparr>sm_id = fresh_id sm_id (movements db), sm_product = pid, sm_type = ty,
         sm_quantity = n, sm_note = nt, sm_master = m\<rparr> (movements db)\<rparr>"

definition get_or_create_inventory :: "row_id \<Rightarrow> warehouse_product \<Rightarrow> warehouse_db \<Rightarrow> warehouse_db \<times> master_inventory" where
  "get_or_create_inventory m p db =
    (case get_row inv_key (m, pr_id p) (inventory db) of
       Some i \<Rightarrow> (db, i)
     | None \<Rightarrow>
         (let i = \<lparr>mi_id = fresh_id mi_id (inventory db), mi_master = m, mi_product = pr_id p, mi_quantity = 0,
                   mi_unit = pr_unit p, mi_low_threshold = pr_low_threshold p\<rparr>
          in (db\<lparr>inventory := add_row i (inventory db)\<rparr>, i)))"

definition assign_inventory_to_master ::
  "(row_id \<Rightarrow> string) \<Rightarrow> row_id \<Rightarrow> row_id \<Rightarrow> qty \<Rightarrow> warehouse_db \<Rightarrow> (warehouse_db \<times> row_id) res" where
  "assign_inventory_to_master mstr m pid n db =
    bindE (get_or_404 ''WarehouseProduct'' (get_row pr_id pid (products db))) (\<lambda>p.
      if pr_quantity p < n then Inl (ValidationError ''quantity: Omborda yetarli mahsulot yo'q'')
      else let (db1, i) = get_or_create_inventory m p db;
               db2 = set_inventory_quantity (mi_id i) (mi_quantity i + n) db1;
               db3 = set_product_quantity pid (pr_quantity p - n) db2
           in Inr (create_movement pid STOCK_OUT n (Some m) (''Ustaga biriktirildi: '' @ mstr m) db3, mi_id i))"

definition return_inventory_to_warehouse ::
  "(row_id \<Rightarrow> string) \<Rightarrow> (row_id \<Rightarrow> bool) \<Rightarrow> master_inventory \<Rightarrow> warehouse_db \<Rightarrow> (warehouse_db \<times> qty) res" where
  "return_inventory_to_warehouse mstr used i db =
    bindE (get_or_404 ''WarehouseProduct'' (get_row pr_id (mi_product i) (products db))) (\<lambda>p.
      let returned = mi_quantity i;
          db1 = (if returned \<noteq> 0
                 then create_movement (pr_id p) STOCK_IN returned (Some (mi_master i))
                        (''Ustadan qaytarildi: '' @ mstr (mi_master i))
                        (set_product_quantity (pr_id p) (pr_quantity p + returned) db)
                 else db);
          db2 = (if used (mi_id i) then set_inventory_quantity (mi_id i) 0 db1
                 else db1\<lparr>inventory := del_row mi_id (mi_id i) (inventory db1)\<rparr>)
      in Inr (db2, returned))"

definition adjust_master_inventory ::
  "(row_id \<Rightarrow> string) \<Rightarrow> row_id \<Rightarrow> qty \<Rightarrow> warehouse_db \<Rightarrow> warehouse_db res" where
  "adjust_master_inventory mstr iid n db =
    (if n < 0 then Inl (ValidationError ''quantity: Miqdor manfiy bo'lishi mumkin emas'')
     else bindE (get_or_404 ''MasterInventory'' (get_row mi_id iid (inventory db))) (\<lambda>i.
       bindE (get_or_404 ''WarehouseProduct'' (get_row pr_id (mi_product i) (products db))) (\<lambda>p.
         let delta = n - mi_quantity i in
         if delta = 0 then Inr db
         else if delta > 0 \<and> pr_quantity p < delta
         then Inl (ValidationError ''quantity: Omborda yetarli mahsulot yo'q'')
         else Inr (create_movement (pr_id p) (if delta > 0 then STOCK_OUT else STOCK_IN) (abs delta)
                (Some (mi_master i)) (''Usta biriktirish miqdori o'zgardi: '' @ mstr (mi_master i))
                (set_inventory_quantity iid n (set_product_quantity (pr_id p) (pr_quantity p - delta) db))))))"

definition move_product_quantity :: "row_id \<Rightarrow> qty \<Rightarrow> warehouse_db \<Rightarrow> warehouse_db res" where
  "move_product_quantity pid delta db =
    bindE (get_or_404 ''WarehouseProduct'' (get_row pr_id pid (products db))) (\<lambda>p.
      let new_qty = pr_quantity p + delta in
      if new_qty < 0 then Inl (ValidationError ''quantity: Ombor qoldig'i manfiy bo'lishi mumkin emas'')
      else Inr (set_product_quantity pid new_qty db))"

definition adjust_warehouse_stock ::
  "row_id \<Rightarrow> qty \<Rightarrow> string \<Rightarrow> row_id option \<Rightarrow> movement_type option \<Rightarrow> warehouse_db \<Rightarrow> warehouse_db res" where
  "adjust_warehouse_stock pid delta nt m mty db =
    bindE (move_product_quantity pid delta db) (\<lambda>db1.
      Inr (create_movement pid
            (case mty of Some ty \<Rightarrow> ty | None \<Rightarrow> if delta \<ge> 0 then STOCK_IN else STOCK_OUT) (abs delta) m nt db1))"

definition apply_stock_movement_effect :: "row_id \<Rightarrow> movement_type \<Rightarrow> qty \<Rightarrow> warehouse_db \<Rightarrow> warehouse_db res" where
  "apply_stock_movement_effect pid ty n db = move_product_quantity pid (if ty = STOCK_IN then n else - n) db"

definition reverse_stock_movement :: "stock_movement \<Rightarrow> warehouse_db \<Rightarrow> warehouse_db res" where
  "reverse_stock_movement mv db =
    move_product_quantity (sm_product mv) (if sm_type mv = STOCK_IN then - sm_quantity mv else sm_quantity mv) db"

section \<open>Serializers and views\<close>

definition positive_quantity :: "qty \<Rightarrow> unit res" where
  "positive_quantity n = guardE (1 \<le> n) (ValidationError ''quantity'')"

definition AdminAssignInventorySerializer_save ::
  "(row_id \<Rightarrow> string) \<Rightarrow> row_id \<Rightarrow> row_id \<Rightarrow> qty \<Rightarrow> warehouse_db \<Rightarrow> (warehouse_db \<times> row_id) res" where
  "AdminAssignInventorySerializer_save mstr m pid n db =
    bindE (positive_quantity n) (\<lambda>_.
      case get_row pr_id pid (filter pr_is_active (products db)) of
        None \<Rightarrow> Inl (ValidationError ''warehouse_product_id: Mahsulot topilmadi yoki faol emas'')
      | Some p \<Rightarrow> assign_inventory_to_master mstr m pid n db)"

text \<open>\<open>AdminUpdateInventoryView.put\<close> and \<open>delete\<close>: the row is looked up by its key and its master.\<close>

definition inventory_of_master :: "row_id \<Rightarrow> row_id \<Rightarrow> warehouse_db \<Rightarrow> master_inventory res" where
  "inventory_of_master m iid db =
    get_or_404 ''MasterInventory'' (get_row mi_id iid (filter (\<lambda>i. mi_master i = m) (inventory db)))"

definition AdminUpdateInventoryView_put ::
  "(row_id \<Rightarrow> string) \<Rightarrow> row_id \<Rightarrow> row_id \<Rightarrow> qty \<Rightarrow> warehouse_db \<Rightarrow> warehouse_db res" where
  "AdminUpdateInventoryView_put mstr m iid n db =
    bindE (inventory_of_master m iid db) (\<lambda>i.
      bindE (guardE (0 \<le> n) (ValidationError ''quantity'')) (\<lambda>_.
        adjust_master_inventory mstr (mi_id i) n db))"

definition AdminUpdateInventoryView_delete ::
  "(row_id \<Rightarrow> string) \<Rightarrow> (row_id \<Rightarrow> bool) \<Rightarrow> row_id \<Rightarrow> row_id \<Rightarrow> warehouse_db \<Rightarrow> warehouse_db res" where
  "AdminUpdateInventoryView_delete mstr used m iid db =
    bindE (inventory_of_master m iid db) (\<lambda>i.
      bindE (return_inventory_to_warehouse mstr used i db) (\<lambda>(db1, _). Inr db1))"

definition UseInventorySerializer_save :: "master_inventory \<Rightarrow> qty \<Rightarrow> warehouse_db \<Rightarrow> warehouse_db res" where
  "UseInventorySerializer_save i n db =
    bindE (positive_quantity n) (\<lambda>_.
      if mi_quantity i < n then Inl (ValidationError ''Usta omborida yetarli mahsulot yo'q'')
      else Inr (set_inventory_quantity (mi_id i) (mi_quantity i - n) db))"

definition LowStockInventoryView_get_queryset :: "row_id \<Rightarrow> warehouse_db \<Rightarrow> master_inventory list" where
  "LowStockInventoryView_get_queryset user db =
    filter (\<lambda>i. mi_master i = user \<and> mi_quantity i \<le> mi_low_threshold i) (inventory db)"

definition DashboardWarehouseProduct_perform_create :: "warehouse_product \<Rightarrow> warehouse_db \<Rightarrow> warehouse_db" where
  "DashboardWarehouseProduct_perform_create p db =
    (let p1 = p\<lparr>pr_id := fresh_id pr_id (products db)\<rparr>;
         db1 = db\<lparr>products := add_row p1 (products db)\<rparr>
     in if pr_quantity p1 \<noteq> 0
        then create_movement (pr_id p1) STOCK_IN (pr_quantity p1) None ''Boshlang'ich qoldiq'' db1
        else db1)"

text \<open>The PATCH carries an update of the descriptive fields and, apart from it, a quantity. The
  view is not one transaction: the descriptive fields stay saved when the quantity is refused.\<close>

record product_patch =
  pp_category :: "row_id option option"
  pp_name :: "string option"
  pp_unit :: "string option"
  pp_low_threshold :: "qty option"
  pp_cost_price :: "money option"
  pp_sale_price :: "money option"
  pp_is_active :: "bool option"
  pp_quantity :: "qty option"

definition patch_product :: "product_patch \<Rightarrow> warehouse_product \<Rightarrow> warehouse_product" where
  "patch_product q p = p\<lparr>pr_category := sent_or (pp_category q) (pr_category p),
                         pr_name := sent_or (pp_name q) (pr_name p),
                         pr_unit := sent_or (pp_unit q) (pr_unit p),
                         pr_low_threshold := sent_or (pp_low_threshold q) (pr_low_threshold p),
                         cost_price := sent_or (pp_cost_price q) (cost_price p),
                         sale_price := sent_or (pp_sale_price q) (sale_price p),
                         pr_is_active := sent_or (pp_is_active q) (pr_is_active p)\<rparr>"

definition DashboardWarehouseProduct_perform_update ::
  "row_id \<Rightarrow> product_patch \<Rightarrow> warehouse_db \<Rightarrow> warehouse_db \<times> unit res" where
  "DashboardWarehouseProduct_perform_update pid q db =
    (case get_row pr_id pid (products db) of
       None \<Rightarrow> (db, Inl (NotFound ''WarehouseProduct''))
     | Some p \<Rightarrow>
         (let db1 = db\<lparr>products := upd_row pr_id pid (patch_product q) (products db)\<rparr> in
          case pp_quantity q of
            None \<Rightarrow> (db1, Inr ())
          | Some n \<Rightarrow>
              if n \<noteq> pr_quantity p
              then (case adjust_warehouse_stock pid (n - pr_quantity p) ''Admin qoldiqni to'g'riladi'' None None db1 of
                      Inl e \<Rightarrow> (db1, Inl e)
                    | Inr db2 \<Rightarrow> (db2, Inr ()))
              else (db1, Inr ())))"

text \<open>The default \<open>destroy\<close>: inventories protect their product, movements are deleted with it.\<close>

definition DashboardWarehouseProduct_destroy :: "row_id \<Rightarrow> warehouse_db \<Rightarrow> warehouse_db res" where
  "DashboardWarehouseProduct_destroy pid db =
    bindE (get_or_404 ''WarehouseProduct'' (get_row pr_id pid (products db))) (\<lambda>p.
      if list_ex (\<lambda>i. mi_product i = pid) (inventory db) then Inl (ServerError ''ProtectedError'')
      else Inr (db\<lparr>products := del_row pr_id pid (products db),
                   movements := filter (\<lambda>mv. sm_product mv \<noteq> pid) (movements db)\<rparr>))"

definition DashboardStockMovement_perform_create ::
  "row_id \<Rightarrow> movement_type \<Rightarrow> qty \<Rightarrow> string \<Rightarrow> row_id option \<Rightarrow> warehouse_db \<Rightarrow> warehouse_db res" where
  "DashboardStockMovement_perform_create pid ty n nt m db =
    bindE (apply_stock_movement_effect pid ty n db) (\<lambda>db1. Inr (create_movement pid ty n m nt db1))"

record movement_patch =
  mp_product :: "row_id option"
  mp_type :: "movement_type option"
  mp_quantity :: "qty option"
  mp_master :: "row_id option option"
  mp_note :: "string option"

definition patch_movement :: "movement_patch \<Rightarrow> stock_movement \<Rightarrow> stock_movement" where
  "patch_movement q x = x\<lparr>sm_product := sent_or (mp_product q) (sm_product x),
                          sm_type := sent_or (mp_type q) (sm_type x),
                          sm_quantity := sent_or (mp_quantity q) (sm_quantity x),
                          sm_master := sent_or (mp_master q) (sm_master x),
                          sm_note := sent_or (mp_note q) (sm_note x)\<rparr>"

definition DashboardStockMovement_perform_update :: "row_id \<Rightarrow> movement_patch \<Rightarrow> warehouse_db \<Rightarrow> warehouse_db res" where
  "DashboardStockMovement_perform_update sid q db =
    bindE (get_or_404 ''StockMovement'' (get_row sm_id sid (movements db))) (\<lambda>mv.
      if changed (mp_product q) (sm_product mv) then Inl (ValidationError ''product'')
      else if changed (mp_type q) (sm_type mv) then Inl (ValidationError ''movement_type'')
      else if changed (mp_quantity q) (sm_quantity mv) then Inl (ValidationError ''quantity'')
      else if changed (mp_master q) (sm_master mv) then Inl (ValidationError ''master'')
      else Inr (db\<lparr>movements := upd_row sm_id sid (patch_movement q) (movements db)\<rparr>))"

definition DashboardStockMovement_perform_destroy :: "row_id \<Rightarrow> warehouse_db \<Rightarrow> warehouse_db res" where
  "DashboardStockMovement_perform_destroy sid db =
    bindE (get_or_404 ''StockMovement'' (get_row sm_id sid (movements db))) (\<lambda>mv.
      bindE (reverse_stock_movement mv db) (\<lambda>db1.
        Inr (db1\<lparr>movements := del_row sm_id sid (movements db1)\<rparr>)))"

record inventory_patch =
  ip_master :: "row_id option"
  ip_product :: "row_id option"
  ip_unit :: "string option"
  ip_low_threshold :: "qty option"
  ip_quantity :: "qty option"

definition patch_inventory :: "inventory_patch \<Rightarrow> master_inventory \<Rightarrow> master_inventory" where
  "patch_inventory q i = i\<lparr>mi_unit := sent_or (ip_unit q) (mi_unit i),
                           mi_low_threshold := sent_or (ip_low_threshold q) (mi_low_threshold i)\<rparr>"

definition DashboardMasterInventory_perform_update ::
  "(row_id \<Rightarrow> string) \<Rightarrow> row_id \<Rightarrow> inventory_patch \<Rightarrow> warehouse_db \<Rightarrow> warehouse_db \<times> unit res" where
  "DashboardMasterInventory_perform_update mstr iid q db =
    (case get_row mi_id iid (inventory db) of
       None \<Rightarrow> (db, Inl (NotFound ''MasterInventory''))
     | Some i \<Rightarrow>
         if changed (ip_master q) (mi_master i) then (db, Inl (ValidationError ''master''))
         else if changed (ip_product q) (mi_product i) then (db, Inl (ValidationError ''warehouse_product''))
         else (let db1 = db\<lparr>inventory := upd_row mi_id iid (patch_inventory q) (inventory db)\<rparr> in
           case ip_quantity q of
             None \<Rightarrow> (db1, Inr ())
           | Some n \<Rightarrow>
               if n \<noteq> mi_quantity i
               then (case adjust_master_inventory mstr iid n db1 of
                       Inl e \<Rightarrow> (db1, Inl e)
                     | Inr db2 \<Rightarrow> (db2, Inr ()))
               else (db1, Inr ())))"

definition DashboardMasterInventory_perform_destroy ::
  "(row_id \<Rightarrow> string) \<Rightarrow> (row_id \<Rightarrow> bool) \<Rightarrow> row_id \<Rightarrow> warehouse_db \<Rightarrow> warehouse_db res" where
  "DashboardMasterInventory_perform_destroy mstr used iid db =
    bindE (get_or_404 ''MasterInventory'' (get_row mi_id iid (inventory db))) (\<lambda>i.
      bindE (return_inventory_to_warehouse mstr used i db) (\<lambda>(db1, _). Inr db1))"

record warehouse_stats =
  st_products_count :: nat
  st_active_products_count :: nat
  st_low_stock_count :: nat
  st_total_quantity :: qty
  st_total_value :: int
  st_master_inventory_count :: nat
  st_stock_in_count :: nat
  st_stock_out_count :: nat

definition DashboardWarehouseStats_get :: "warehouse_db \<Rightarrow> warehouse_stats" where
  "DashboardWarehouseStats_get db =
    \<lparr>st_products_count = length (products db),
     st_active_products_count = length (filter pr_is_active (products db)),
     st_low_stock_count = length (filter product_is_low_stock (products db)),
     st_total_quantity = sum_rows pr_quantity (products db),
     st_total_value = sum_rows stock_value (products db),
     st_master_inventory_count = length (inventory db),
     st_stock_in_count = length (filter (\<lambda>mv. sm_type mv = STOCK_IN) (movements db)),
     st_stock_out_count = length (filter (\<lambda>mv. sm_type mv = STOCK_OUT) (movements db))\<rparr>"

section \<open>Stock as a sum of movements\<close>

definition movement_delta :: "stock_movement \<Rightarrow> qty" where
  "movement_delta mv = (if sm_type mv = STOCK_IN then sm_quantity mv else - sm_quantity mv)"

definition stock_ledger :: "row_id \<Rightarrow> warehouse_db \<Rightarrow> qty" where
  "stock_ledger pid db = sum_rows (\<lambda>mv. if sm_product mv = pid then movement_delta mv else 0) (movements db)"

definition product_qty :: "row_id \<Rightarrow> warehouse_db \<Rightarrow> qty" where
  "product_qty pid db = (case get_row pr_id pid (products db) of Some p \<Rightarrow> pr_quantity p | None \<Rightarrow> 0)"

definition inventory_qty :: "row_id \<Rightarrow> warehouse_db \<Rightarrow> qty" where
  "inventory_qty pid db = sum_rows (\<lambda>i. if mi_product i = pid then mi_quantity i else 0) (inventory db)"

definition total_stock :: "row_id \<Rightarrow> warehouse_db \<Rightarrow> qty" where
  "total_stock pid db = product_qty pid db + inventory_qty pid db"

definition warehouse_wf :: "warehouse_db \<Rightarrow> bool" where
  "warehouse_wf db =
    (keys_distinct pr_id (products db) \<and> keys_distinct sm_id (movements db) \<and>
     keys_distinct mi_id (inventory db) \<and> keys_distinct inv_key (inventory db) \<and>
     list_all (\<lambda>mv. sm_product mv \<in> pr_id ` set (products db)) (movements db) \<and>
     list_all (\<lambda>i. mi_product i \<in> pr_id ` set (products db) \<and> 0 \<le> mi_quantity i) (inventory db))"

definition warehouse_synced :: "warehouse_db \<Rightarrow> bool" where
  "warehouse_synced db = list_all (\<lambda>p. pr_quantity p = stock_ledger (pr_id p) db) (products db)"

definition warehouse_inv :: "warehouse_db \<Rightarrow> bool" where
  "warehouse_inv db = (warehouse_wf db \<and> warehouse_synced db)"

definition no_negative_stock :: "warehouse_db \<Rightarrow> bool" where
  "no_negative_stock db = list_all (\<lambda>p. 0 \<le> pr_quantity p) (products db)"

lemma warehouse_wfD:
  assumes "warehouse_wf db"
  shows "keys_distinct pr_id (products db)" "keys_distinct sm_id (movements db)"
    "keys_distinct mi_id (inventory db)" "keys_distinct inv_key (inventory db)"
    "\<And>mv. mv \<in> set (movements db) \<Longrightarrow> sm_product mv \<in> pr_id ` set (products db)"
    "\<And>i. i \<in> set (inventory db) \<Longrightarrow> mi_product i \<in> pr_id ` set (products db)"
    "\<And>i. i \<in> set (inventory db) \<Longrightarrow> 0 \<le> mi_quantity i"
  using assms by (auto simp: warehouse_wf_def list_all_iff)

lemma stock_ledger_unknown:
  assumes "warehouse_wf db" and "pid \<notin> pr_id ` set (products db)"
  shows "stock_ledger pid db = 0"
proof -
  have "stock_ledger pid db = sum_rows (\<lambda>mv. 0) (movements db)"
    unfolding stock_ledger_def using assms warehouse_wfD(5) [OF assms(1)]
    by (intro sum_rows_cong) auto
  then show ?thesis by (simp add: sum_rows_def)
qed

lemma warehouse_synced_iff:
  assumes "warehouse_wf db"
  shows "warehouse_synced db \<longleftrightarrow> (\<forall>pid. product_qty pid db = stock_ledger pid db)"
proof
  assume synced: "warehouse_synced db"
  show "\<forall>pid. product_qty pid db = stock_ledger pid db"
  proof
    fix pid
    show "product_qty pid db = stock_ledger pid db"
    proof (cases "get_row pr_id pid (products db)")
      case None
      then have "pid \<notin> pr_id ` set (products db)" by (simp add: get_row_None_iff)
      with None show ?thesis by (simp add: product_qty_def stock_ledger_unknown [OF assms])
    next
      case (Some p)
      with synced get_row_SomeD [OF Some] show ?thesis
        by (auto simp: product_qty_def warehouse_synced_def list_all_iff)
    qed
  qed
next
  assume R: "\<forall>pid. product_qty pid db = stock_ledger pid db"
  show "warehouse_synced db"
    unfolding warehouse_synced_def list_all_iff
  proof
    fix p
    assume "p \<in> set (products db)"
    with R get_row_unique [OF warehouse_wfD(1) [OF assms] this] show "pr_quantity p = stock_ledger (pr_id p) db"
      by (auto simp: product_qty_def dest: spec [of _ "pr_id p"])
  qed
qed

section \<open>Effects of the table updates\<close>

lemma set_product_quantity_tables [simp]:
  "movements (set_product_quantity pid n db) = movements db"
  "inventory (set_product_quantity pid n db) = inventory db"
  "pr_id ` set (products (set_product_quantity pid n db)) = pr_id ` set (products db)"
  by (simp_all add: set_product_quantity_def key_set_upd_row)

lemma set_inventory_quantity_tables [simp]:
  "products (set_inventory_quantity iid n db) = products db"
  "movements (set_inventory_quantity iid n db) = movements db"
  by (simp_all add: set_inventory_quantity_def)

lemma create_movement_tables [simp]:
  "products (create_movement pid ty n m nt db) = products db"
  "inventory (create_movement pid ty n m nt db) = inventory db"
  by (simp_all add: create_movement_def)

lemma get_or_create_inventory_tables [simp]:
  "products (fst (get_or_create_inventory m p db)) = products db"
  "movements (fst (get_or_create_inventory m p db)) = movements db"
  by (auto simp: get_or_create_inventory_def Let_def split: option.split)

lemma product_qty_cong: "products db = products db' \<Longrightarrow> product_qty pid db = product_qty pid db'"
  by (simp add: product_qty_def)

lemma stock_ledger_cong: "movements db = movements db' \<Longrightarrow> stock_ledger pid db = stock_ledger pid db'"
  by (simp add: stock_ledger_def)

lemma inventory_qty_cong: "inventory db = inventory db' \<Longrightarrow> inventory_qty pid db = inventory_qty pid db'"
  by (simp add: inventory_qty_def)

lemma qty_other_tables [simp]:
  "product_qty pid (create_movement pid' ty n m nt db) = product_qty pid db"
  "product_qty pid (set_inventory_quantity iid n db) = product_qty pid db"
  "product_qty pid (fst (get_or_create_inventory m' p db)) = product_qty pid db"
  "stock_ledger pid (set_product_quantity pid' n db) = stock_ledger pid db"
  "stock_ledger pid (set_inventory_quantity iid n db) = stock_ledger pid db"
  "stock_ledger pid (fst (get_or_create_inventory m' p db)) = stock_ledger pid db"
  "inventory_qty pid (create_movement pid' ty n m nt db) = inventory_qty pid db"
  "inventory_qty pid (set_product_quantity pid' n db) = inventory_qty pid db"
  by (simp_all add: product_qty_def stock_ledger_def inventory_qty_def)

lemma product_qty_set [ledger_simps]:
  "get_row pr_id pid (products db) = Some p \<Longrightarrow>
   product_qty pid' (set_product_quantity pid n db) = (if pid' = pid then n else product_qty pid' db)"
  by (auto simp: product_qty_def set_product_quantity_def get_row_upd)

lemma product_qty_lookup: "get_row pr_id pid (products db) = Some p \<Longrightarrow> product_qty pid db = pr_quantity p"
  by (simp add: product_qty_def)

lemma stock_ledger_create [ledger_simps]:
  "stock_ledger pid' (create_movement pid ty n m nt db) =
    stock_ledger pid' db + (if pid' = pid then (if ty = STOCK_IN then n else - n) else 0)"
  by (auto simp: stock_ledger_def create_movement_def sum_rows_add movement_delta_def)

lemma inventory_qty_set [ledger_simps]:
  assumes "keys_distinct mi_id (inventory db)" and "get_row mi_id iid (inventory db) = Some i"
  shows "inventory_qty pid (set_inventory_quantity iid n db) =
    inventory_qty pid db + (if pid = mi_product i then n - mi_quantity i else 0)"
  using assms by (auto simp: inventory_qty_def set_inventory_quantity_def sum_rows_upd)

lemma inventory_qty_del [ledger_simps]:
  assumes "keys_distinct mi_id (inventory db)" and "get_row mi_id iid (inventory db) = Some i"
  shows "inventory_qty pid (db\<lparr>inventory := del_row mi_id iid (inventory db)\<rparr>) =
    inventory_qty pid db - (if pid = mi_product i then mi_quantity i else 0)"
  using assms by (auto simp: inventory_qty_def sum_rows_del)

lemma get_or_create_inventory_row:
  assumes "warehouse_wf db"
  shows "get_row mi_id (mi_id (snd (get_or_create_inventory m p db)))
      (inventory (fst (get_or_create_inventory m p db))) = Some (snd (get_or_create_inventory m p db))"
    and "mi_product (snd (get_or_create_inventory m p db)) = pr_id p"
    and "mi_master (snd (get_or_create_inventory m p db)) = m"
    and "0 \<le> mi_quantity (snd (get_or_create_inventory m p db))"
    and "inventory_qty pid (fst (get_or_create_inventory m p db)) = inventory_qty pid db"
  using warehouse_wfD(3,7) [OF assms] get_row_SomeD [of inv_key "(m, pr_id p)" "inventory db"]
  by (auto simp: get_or_create_inventory_def Let_def get_row_add get_row_unique inv_key_def
      inventory_qty_def sum_rows_add split: option.split)

section \<open>Well-formedness\<close>

lemma wf_set_product [inv_intros]:
  assumes "warehouse_wf db"
  shows "warehouse_wf (set_product_quantity pid n db)"
  using assms by (simp add: warehouse_wf_def keys_distinct_upd set_product_quantity_def key_set_upd_row)

lemma wf_create_movement [inv_intros]:
  assumes "warehouse_wf db" and "pid \<in> pr_id ` set (products db)"
  shows "warehouse_wf (create_movement pid ty n m nt db)"
  using assms warehouse_wfD(2) [OF assms(1)] keys_distinct_add [of sm_id "movements db"]
  by (simp add: warehouse_wf_def create_movement_def list_all_iff)

lemma wf_inventory:
  assumes "warehouse_wf db" and "products db' = products db" and "movements db' = movements db"
    and "keys_distinct mi_id (inventory db')" and "keys_distinct inv_key (inventory db')"
    and "\<And>i. i \<in> set (inventory db') \<Longrightarrow> mi_product i \<in> pr_id ` set (products db) \<and> 0 \<le> mi_quantity i"
  shows "warehouse_wf db'"
  using assms by (auto simp: warehouse_wf_def list_all_iff)

lemma wf_upd_inventory [inv_intros]:
  assumes "warehouse_wf db" and "\<And>i. mi_id (f i) = mi_id i" and "\<And>i. inv_key (f i) = inv_key i"
    and "\<And>i. i \<in> set (inventory db) \<Longrightarrow> mi_id i = iid \<Longrightarrow> 0 \<le> mi_quantity (f i)"
  shows "warehouse_wf (db\<lparr>inventory := upd_row mi_id iid f (inventory db)\<rparr>)"
proof (rule wf_inventory [OF assms(1)])
  note wf = warehouse_wfD [OF assms(1)]
  show "keys_distinct mi_id (inventory (db\<lparr>inventory := upd_row mi_id iid f (inventory db)\<rparr>))"
    using wf(3) assms(2) by (simp add: keys_distinct_upd)
  have "map inv_key (upd_row mi_id iid f (inventory db)) = map inv_key (inventory db)"
    by (simp add: upd_row_def assms(3))
  with wf(4) show "keys_distinct inv_key (inventory (db\<lparr>inventory := upd_row mi_id iid f (inventory db)\<rparr>))"
    using keys_distinct_same by fastforce
  have "mi_product (f i) = mi_product i" for i
    using assms(3) [of i] by (simp add: inv_key_def)
  then show "mi_product i \<in> pr_id ` set (products db) \<and> 0 \<le> mi_quantity i"
    if "i \<in> set (inventory (db\<lparr>inventory := upd_row mi_id iid f (inventory db)\<rparr>))" for i
    using that wf(6,7) assms(4) by (auto dest!: in_upd_row)
qed simp_all

lemma wf_set_inventory [inv_intros]:
  "warehouse_wf db \<Longrightarrow> 0 \<le> n \<Longrightarrow> warehouse_wf (set_inventory_quantity iid n db)"
  unfolding set_inventory_quantity_def by (rule wf_upd_inventory) (auto simp: inv_key_def)

lemma wf_del_inventory [inv_intros]:
  "warehouse_wf db \<Longrightarrow> warehouse_wf (db\<lparr>inventory := del_row mi_id iid (inventory db)\<rparr>)"
  by (rule wf_inventory)
    (auto simp: warehouse_wfD set_del_row del_row_def intro: keys_distinct_filter)

lemma wf_get_or_create [inv_intros]:
  assumes "warehouse_wf db" and "pr_id p \<in> pr_id ` set (products db)"
  shows "warehouse_wf (fst (get_or_create_inventory m p db))"
proof (cases "get_row inv_key (m, pr_id p) (inventory db)")
  case None
  let ?i = "\<lparr>mi_id = fresh_id mi_id (inventory db), mi_master = m, mi_product = pr_id p, mi_quantity = 0,
             mi_unit = pr_unit p, mi_low_threshold = pr_low_threshold p\<rparr>"
  note wf = warehouse_wfD [OF assms(1)]
  have inv: "inventory (fst (get_or_create_inventory m p db)) = add_row ?i (inventory db)"
    using None by (simp add: get_or_create_inventory_def Let_def)
  show ?thesis
  proof (rule wf_inventory [OF assms(1)])
    show "keys_distinct mi_id (inventory (fst (get_or_create_inventory m p db)))"
      unfolding inv using wf(3) by (intro keys_distinct_add) simp_all
    show "keys_distinct inv_key (inventory (fst (get_or_create_inventory m p db)))"
      unfolding inv using wf(4) None
      by (intro keys_distinct_add) (simp_all add: get_row_None_iff [symmetric] inv_key_def [of ?i])
    show "mi_product x \<in> pr_id ` set (products db) \<and> 0 \<le> mi_quantity x"
      if "x \<in> set (inventory (fst (get_or_create_inventory m p db)))" for x
      using that wf(6,7) assms(2) unfolding inv by auto
  qed simp_all
next
  case (Some i)
  with assms(1) show ?thesis by (simp add: get_or_create_inventory_def)
qed

section \<open>Preservation of the invariant\<close>

lemma warehouse_invI:
  "warehouse_wf db \<Longrightarrow> (\<And>pid. product_qty pid db = stock_ledger pid db) \<Longrightarrow> warehouse_inv db"
  by (simp add: warehouse_inv_def warehouse_synced_iff)

lemma warehouse_invD:
  assumes "warehouse_inv db"
  shows "warehouse_wf db" "product_qty pid db = stock_ledger pid db"
  using assms warehouse_synced_iff [of db] by (auto simp: warehouse_inv_def)

lemma warehouse_inv_empty: "warehouse_inv empty_warehouse_db"
  by (simp add: warehouse_inv_def warehouse_wf_def warehouse_synced_def empty_warehouse_db_def)

lemma move_product_quantity_InrD:
  assumes "move_product_quantity pid d db = Inr db'"
  obtains p where "get_row pr_id pid (products db) = Some p" and "0 \<le> pr_quantity p + d"
    and "db' = set_product_quantity pid (pr_quantity p + d) db"
  using assms by (auto simp: move_product_quantity_def Let_def split: if_splits)

lemma assign_InrD:
  assumes "assign_inventory_to_master mstr m pid n db = Inr (db', iid)"
  obtains p db1 i where "get_row pr_id pid (products db) = Some p" and "n \<le> pr_quantity p"
    and "get_or_create_inventory m p db = (db1, i)" and "iid = mi_id i"
    and "db' = create_movement pid STOCK_OUT n (Some m) (''Ustaga biriktirildi: '' @ mstr m)
      (set_product_quantity pid (pr_quantity p - n) (set_inventory_quantity (mi_id i) (mi_quantity i + n) db1))"
  using assms by (auto simp: assign_inventory_to_master_def Let_def split: if_splits prod.splits)

lemma known_product: "get_row pr_id pid (products db) = Some p \<Longrightarrow> pid \<in> pr_id ` set (products db)"
  using get_row_SomeD by force

lemma moved_inv:
  assumes "warehouse_inv db" and "get_row pr_id pid (products db) = Some p"
  shows "warehouse_inv (create_movement pid ty n m nt
    (set_product_quantity pid (pr_quantity p + (if ty = STOCK_IN then n else - n)) db))"
proof (intro warehouse_invI wf_create_movement wf_set_product)
  note inv = warehouse_invD [OF assms(1)]
  have q: "pr_quantity p = stock_ledger pid db"
    using inv(2) [of pid] product_qty_lookup [OF assms(2)] by simp
  let ?db1 = "set_product_quantity pid (pr_quantity p + (if ty = STOCK_IN then n else - n)) db"
  show "product_qty pid' (create_movement pid ty n m nt ?db1) = stock_ledger pid' (create_movement pid ty n m nt ?db1)"
    for pid'
    using inv(2) [of pid'] q
    by (simp add: stock_ledger_create product_qty_set [OF assms(2)])
qed (use assms known_product [OF assms(2)] in \<open>simp_all add: warehouse_invD\<close>)

text \<open>Changes of inventories leave shelves and movements as they are.\<close>

lemma inventory_change_inv:
  "warehouse_inv db \<Longrightarrow> warehouse_wf db' \<Longrightarrow> products db' = products db \<Longrightarrow> movements db' = movements db \<Longrightarrow>
   warehouse_inv db'"
  using warehouse_invD(2) [of db] product_qty_cong [of db' db] stock_ledger_cong [of db' db]
  by (intro warehouse_invI) simp_all

lemma assign_inv [op_inv]:
  assumes "warehouse_inv db" and "0 \<le> n" and "assign_inventory_to_master mstr m pid n db = Inr (db', iid)"
  shows "warehouse_inv db'"
  using assms(3)
proof (rule assign_InrD)
  fix p db1 i
  assume p: "get_row pr_id pid (products db) = Some p" and gc: "get_or_create_inventory m p db = (db1, i)"
    and db': "db' = create_movement pid STOCK_OUT n (Some m) (''Ustaga biriktirildi: '' @ mstr m)
      (set_product_quantity pid (pr_quantity p - n) (set_inventory_quantity (mi_id i) (mi_quantity i + n) db1))"
  note wf = warehouse_invD(1) [OF assms(1)]
  let ?db2 = "set_inventory_quantity (mi_id i) (mi_quantity i + n) db1"
  have "0 \<le> mi_quantity i" using get_or_create_inventory_row(4) [OF wf, of m p] gc by simp
  moreover have "warehouse_wf db1"
    using wf_get_or_create [OF wf, of p m] known_product [OF p] get_row_key [OF p] gc by simp
  moreover have "products db1 = products db" "movements db1 = movements db"
    using get_or_create_inventory_tables [of m p db] gc by simp_all
  ultimately have "warehouse_inv ?db2" and "get_row pr_id pid (products ?db2) = Some p"
    using assms(2) p by (auto intro!: inventory_change_inv [OF assms(1)] wf_set_inventory)
  then show ?thesis
    unfolding db' using moved_inv [of ?db2 pid p STOCK_OUT n] by simp
qed

lemma return_inv [op_inv]:
  assumes "warehouse_inv db" and "get_row mi_id (mi_id i) (inventory db) = Some i"
    and "return_inventory_to_warehouse mstr used i db = Inr (db', r)"
  shows "warehouse_inv db'"
proof -
  let ?note = "''Ustadan qaytarildi: '' @ mstr (mi_master i)"
  obtain p where p: "get_row pr_id (mi_product i) (products db) = Some p"
    using assms(3) by (auto simp: return_inventory_to_warehouse_def)
  let ?db1 = "if mi_quantity i \<noteq> 0 then create_movement (pr_id p) STOCK_IN (mi_quantity i) (Some (mi_master i)) ?note
      (set_product_quantity (pr_id p) (pr_quantity p + mi_quantity i) db) else db"
  have inv1: "warehouse_inv ?db1"
    using assms(1) p get_row_key [OF p] moved_inv [OF assms(1), of "mi_product i" p STOCK_IN "mi_quantity i"] by simp
  have "db' = (if used (mi_id i) then set_inventory_quantity (mi_id i) 0 ?db1
      else ?db1\<lparr>inventory := del_row mi_id (mi_id i) (inventory ?db1)\<rparr>)"
    using assms(3) p by (simp add: return_inventory_to_warehouse_def Let_def)
  moreover have "warehouse_wf (set_inventory_quantity (mi_id i) 0 ?db1)"
    and "warehouse_wf (?db1\<lparr>inventory := del_row mi_id (mi_id i) (inventory ?db1)\<rparr>)"
    using warehouse_invD(1) [OF inv1] by (simp_all add: wf_set_inventory wf_del_inventory)
  ultimately show ?thesis
    by (intro inventory_change_inv [OF inv1]) (simp_all split: if_split)
qed

lemma adjust_master_InrD:
  assumes "adjust_master_inventory mstr iid n db = Inr db'"
  obtains i p where "get_row mi_id iid (inventory db) = Some i"
    and "get_row pr_id (mi_product i) (products db) = Some p" and "0 \<le> n"
    and "n = mi_quantity i \<Longrightarrow> db' = db"
    and "n \<noteq> mi_quantity i \<Longrightarrow> n - mi_quantity i \<le> pr_quantity p \<or> n < mi_quantity i"
    and "n \<noteq> mi_quantity i \<Longrightarrow> db' = create_movement (mi_product i)
      (if n > mi_quantity i then STOCK_OUT else STOCK_IN) (abs (n - mi_quantity i))
      (Some (mi_master i)) (''Usta biriktirish miqdori o'zgardi: '' @ mstr (mi_master i))
      (set_inventory_quantity iid n (set_product_quantity (mi_product i) (pr_quantity p - (n - mi_quantity i)) db))"
  using assms get_row_key
  by (fastforce simp: adjust_master_inventory_def Let_def split: if_splits)

lemma set_quantities_commute:
  "set_inventory_quantity iid n (set_product_quantity pid k db) = set_product_quantity pid k (set_inventory_quantity iid n db)"
  by (simp add: set_inventory_quantity_def set_product_quantity_def)

lemma adjust_master_inv [op_inv]:
  assumes "warehouse_inv db" and "adjust_master_inventory mstr iid n db = Inr db'"
  shows "warehouse_inv db'"
  using assms(2)
proof (rule adjust_master_InrD)
  fix i p
  assume i: "get_row mi_id iid (inventory db) = Some i" and p: "get_row pr_id (mi_product i) (products db) = Some p"
    and "0 \<le> n" and same: "n = mi_quantity i \<Longrightarrow> db' = db"
    and moved: "n \<noteq> mi_quantity i \<Longrightarrow> db' = create_movement (mi_product i)
      (if n > mi_quantity i then STOCK_OUT else STOCK_IN) (abs (n - mi_quantity i))
      (Some (mi_master i)) (''Usta biriktirish miqdori o'zgardi: '' @ mstr (mi_master i))
      (set_inventory_quantity iid n (set_product_quantity (mi_product i) (pr_quantity p - (n - mi_quantity i)) db))"
  let ?db1 = "set_inventory_quantity iid n db"
  let ?ty = "if n > mi_quantity i then STOCK_OUT else STOCK_IN"
  have "warehouse_inv ?db1"
    using warehouse_invD(1) [OF assms(1)] \<open>0 \<le> n\<close>
    by (intro inventory_change_inv [OF assms(1)] wf_set_inventory) simp_all
  moreover have "pr_quantity p - (n - mi_quantity i) =
      pr_quantity p + (if ?ty = STOCK_IN then abs (n - mi_quantity i) else - abs (n - mi_quantity i))"
    by auto
  moreover have "get_row pr_id (mi_product i) (products ?db1) = Some p" using p by simp
  ultimately have "warehouse_inv (create_movement (mi_product i) ?ty (abs (n - mi_quantity i)) m nt
      (set_product_quantity (mi_product i) (pr_quantity p - (n - mi_quantity i)) ?db1))" for m nt
    using moved_inv [of ?db1 "mi_product i" p ?ty "abs (n - mi_quantity i)" m nt] by presburger
  then show ?thesis
    using same moved assms(1) by (cases "n = mi_quantity i") (auto simp: set_quantities_commute)
qed

lemma adjust_stock_inv [op_inv]:
  assumes "warehouse_inv db" and "adjust_warehouse_stock pid d nt m None db = Inr db'"
  shows "warehouse_inv db'"
proof -
  let ?ty = "if d \<ge> 0 then STOCK_IN else STOCK_OUT"
  obtain db1 where mv: "move_product_quantity pid d db = Inr db1"
    and db': "db' = create_movement pid ?ty (abs d) m nt db1"
    using assms(2) by (auto simp: adjust_warehouse_stock_def)
  from mv show ?thesis
  proof (rule move_product_quantity_InrD)
    fix p
    assume p: "get_row pr_id pid (products db) = Some p"
      and db1: "db1 = set_product_quantity pid (pr_quantity p + d) db"
    show ?thesis
      using moved_inv [OF assms(1) p, of ?ty "abs d" m nt] unfolding db' db1
      by (cases "0 \<le> d") simp_all
  qed
qed

lemma movement_create_inv [op_inv]:
  assumes "warehouse_inv db" and "DashboardStockMovement_perform_create pid ty n nt m db = Inr db'"
  shows "warehouse_inv db'"
  using assms moved_inv [OF assms(1), of pid _ ty n m nt]
  by (auto simp: DashboardStockMovement_perform_create_def apply_stock_movement_effect_def
      elim!: move_product_quantity_InrD)

lemma movement_patch_only_note:
  assumes "keys_distinct sm_id (movements db)" and "DashboardStockMovement_perform_update sid q db = Inr db'"
  shows "\<exists>nt. db' = db\<lparr>movements := upd_row sm_id sid (\<lambda>mv. mv\<lparr>sm_note := nt\<rparr>) (movements db)\<rparr>"
proof -
  obtain mv where mv: "get_row sm_id sid (movements db) = Some mv"
    and same: "patch_movement q mv = mv\<lparr>sm_note := sent_or (mp_note q) (sm_note mv)\<rparr>"
    and db': "db' = db\<lparr>movements := upd_row sm_id sid (patch_movement q) (movements db)\<rparr>"
    using assms(2)
    by (auto simp: DashboardStockMovement_perform_update_def patch_movement_def unchanged_sent_or split: if_splits)
  have "upd_row sm_id sid (patch_movement q) (movements db) =
      upd_row sm_id sid (\<lambda>x. x\<lparr>sm_note := sent_or (mp_note q) (sm_note mv)\<rparr>) (movements db)"
    by (rule upd_row_eq [OF assms(1) mv]) (simp add: same)
  with db' show ?thesis by auto
qed

lemma movement_patch_inv [op_inv]:
  assumes "warehouse_inv db" and "DashboardStockMovement_perform_update sid q db = Inr db'"
  shows "warehouse_inv db'"
proof -
  note wf = warehouse_invD(1) [OF assms(1)]
  obtain nt where db': "db' = db\<lparr>movements := upd_row sm_id sid (\<lambda>mv. mv\<lparr>sm_note := nt\<rparr>) (movements db)\<rparr>"
    using movement_patch_only_note [OF warehouse_wfD(2) [OF wf] assms(2)] by blast
  have "stock_ledger pid db' = stock_ledger pid db" for pid
    unfolding db' stock_ledger_def by (simp add: sum_rows_upd_same movement_delta_def)
  moreover have "warehouse_wf db'"
    using wf unfolding db' by (auto simp: warehouse_wf_def list_all_iff keys_distinct_upd dest!: in_upd_row)
  ultimately show ?thesis
    using warehouse_invD(2) [OF assms(1)] product_qty_cong [of db' db] by (intro warehouse_invI) (simp_all add: db')
qed

lemma movement_destroy_inv [op_inv]:
  assumes "warehouse_inv db" and "DashboardStockMovement_perform_destroy sid db = Inr db'"
  shows "warehouse_inv db'"
proof -
  note wf = warehouse_invD(1) [OF assms(1)]
  obtain mv db1 where mv: "get_row sm_id sid (movements db) = Some mv"
    and rev: "move_product_quantity (sm_product mv) (- movement_delta mv) db = Inr db1"
    and db': "db' = db1\<lparr>movements := del_row sm_id sid (movements db1)\<rparr>"
    using assms(2) by (auto simp: DashboardStockMovement_perform_destroy_def reverse_stock_movement_def
        movement_delta_def if_distrib [of uminus] cong: if_cong)
  from rev show ?thesis
  proof (rule move_product_quantity_InrD)
    fix p
    assume p: "get_row pr_id (sm_product mv) (products db) = Some p"
      and db1: "db1 = set_product_quantity (sm_product mv) (pr_quantity p + - movement_delta mv) db"
    have "stock_ledger pid db' = stock_ledger pid db - (if sm_product mv = pid then movement_delta mv else 0)" for pid
      using warehouse_wfD(2) [OF wf] mv by (simp add: db' db1 stock_ledger_def sum_rows_del)
    moreover have "product_qty pid db' = (if pid = sm_product mv then pr_quantity p - movement_delta mv
        else product_qty pid db)" for pid
      using product_qty_set [OF p, of pid] product_qty_cong [of db' db1 pid] by (simp add: db' db1)
    moreover have "warehouse_wf db'"
      using wf_set_product [OF wf, of "sm_product mv" "pr_quantity p + - movement_delta mv"]
      by (auto simp: db' db1 warehouse_wf_def list_all_iff keys_distinct_del set_del_row)
    ultimately show ?thesis
      using warehouse_invD(2) [OF assms(1)] product_qty_lookup [OF p] by (intro warehouse_invI) auto
  qed
qed

lemma product_create_inv [op_inv]:
  assumes "warehouse_inv db"
  shows "warehouse_inv (DashboardWarehouseProduct_perform_create p db)"
proof -
  note wf = warehouse_invD(1) [OF assms]
  let ?pid = "fresh_id pr_id (products db)"
  let ?p0 = "p\<lparr>pr_id := ?pid, pr_quantity := 0\<rparr>"
  let ?db0 = "db\<lparr>products := add_row ?p0 (products db)\<rparr>"
  have "warehouse_wf ?db0"
    using wf keys_distinct_add [of pr_id "products db" ?p0] by (auto simp: warehouse_wf_def list_all_iff)
  moreover have "product_qty pid ?db0 = stock_ledger pid ?db0" for pid
    using warehouse_invD(2) [OF assms, of pid] stock_ledger_unknown [OF wf, of ?pid]
    by (auto simp: product_qty_def stock_ledger_def get_row_add split: option.splits)
  ultimately have inv0: "warehouse_inv ?db0" by (rule warehouse_invI)
  have row: "get_row pr_id ?pid (products ?db0) = Some ?p0" by (simp add: get_row_add)
  have upd: "upd_row pr_id ?pid (\<lambda>x. x\<lparr>pr_quantity := pr_quantity p\<rparr>) (add_row ?p0 (products db)) =
      add_row (p\<lparr>pr_id := ?pid\<rparr>) (products db)"
    using fresh_id_neq [of _ "products db" pr_id] by (simp add: upd_row_def add_row_def cong: map_cong)
  then have "set_product_quantity ?pid (pr_quantity p) ?db0 = db\<lparr>products := add_row (p\<lparr>pr_id := ?pid\<rparr>) (products db)\<rparr>"
    by (simp add: set_product_quantity_def)
  moreover have "warehouse_inv (db\<lparr>products := add_row (p\<lparr>pr_id := ?pid\<rparr>) (products db)\<rparr>)" if "pr_quantity p = 0"
  proof -
    have "?p0 = p\<lparr>pr_id := ?pid\<rparr>" using that by (cases p) simp
    with inv0 show ?thesis by metis
  qed
  ultimately show ?thesis
    using moved_inv [OF inv0 row, of STOCK_IN "pr_quantity p" None "''Boshlang'ich qoldiq''"]
    by (auto simp: DashboardWarehouseProduct_perform_create_def Let_def)
qed

lemma patch_product_keys [simp]:
  "pr_id (patch_product q p) = pr_id p" "pr_quantity (patch_product q p) = pr_quantity p"
  by (simp_all add: patch_product_def)

lemma patch_product_inv:
  assumes "warehouse_inv db"
  shows "warehouse_inv (db\<lparr>products := upd_row pr_id pid (patch_product q) (products db)\<rparr>)"
proof (rule warehouse_invI)
  note inv = warehouse_invD [OF assms]
  show "warehouse_wf (db\<lparr>products := upd_row pr_id pid (patch_product q) (products db)\<rparr>)"
    using inv(1) by (simp add: warehouse_wf_def keys_distinct_upd key_set_upd_row)
  show "product_qty pid' (db\<lparr>products := upd_row pr_id pid (patch_product q) (products db)\<rparr>) =
      stock_ledger pid' (db\<lparr>products := upd_row pr_id pid (patch_product q) (products db)\<rparr>)" for pid'
    using inv(2) [of pid'] by (auto simp: product_qty_def stock_ledger_def get_row_upd split: option.splits)
qed

lemma product_update_inv [op_inv]:
  "warehouse_inv db \<Longrightarrow> warehouse_inv (fst (DashboardWarehouseProduct_perform_update pid q db))"
  by (auto simp: DashboardWarehouseProduct_perform_update_def Let_def patch_product_inv
      split: option.split sum.split intro: adjust_stock_inv [OF patch_product_inv])

lemma product_destroy_inv [op_inv]:
  assumes "warehouse_inv db" and "DashboardWarehouseProduct_destroy pid db = Inr db'"
  shows "warehouse_inv db'"
proof -
  note wf = warehouse_wfD [OF warehouse_invD(1) [OF assms(1)]]
  have free: "\<And>i. i \<in> set (inventory db) \<Longrightarrow> mi_product i \<noteq> pid"
    and db': "db' = db\<lparr>products := del_row pr_id pid (products db),
                   movements := filter (\<lambda>mv. sm_product mv \<noteq> pid) (movements db)\<rparr>"
    using assms(2) by (auto simp: DashboardWarehouseProduct_destroy_def list_ex_iff split: if_splits)
  have keys: "pr_id ` set (products db') = pr_id ` set (products db) - {pid}"
    by (auto simp: db' set_del_row)
  have "warehouse_wf db'"
    unfolding warehouse_wf_def list_all_iff keys using wf free
    by (auto simp: db' intro!: keys_distinct_filter keys_distinct_del)
  moreover have "stock_ledger pid' db' = (if pid' = pid then 0 else stock_ledger pid' db)" for pid'
    by (auto simp: stock_ledger_def db' sum_rows_filter intro!: sum_rows_zero sum_rows_cong)
  ultimately show ?thesis
    using warehouse_invD(2) [OF assms(1)]
    by (intro warehouse_invI) (auto simp: product_qty_def db' get_row_del)
qed

lemma patch_inventory_inv:
  assumes "warehouse_inv db"
  shows "warehouse_inv (db\<lparr>inventory := upd_row mi_id iid (patch_inventory q) (inventory db)\<rparr>)"
  using warehouse_invD(1) [OF assms] warehouse_wfD(7) [OF warehouse_invD(1) [OF assms]]
  by (intro inventory_change_inv [OF assms] wf_upd_inventory) (auto simp: patch_inventory_def inv_key_def)

lemma inventory_update_inv [op_inv]:
  "warehouse_inv db \<Longrightarrow> warehouse_inv (fst (DashboardMasterInventory_perform_update mstr iid q db))"
  by (auto simp: DashboardMasterInventory_perform_update_def Let_def patch_inventory_inv
      split: option.split sum.split intro: adjust_master_inv [OF patch_inventory_inv])

lemma inventory_destroy_inv [op_inv]:
  assumes "warehouse_inv db" and "DashboardMasterInventory_perform_destroy mstr used iid db = Inr db'"
  shows "warehouse_inv db'"
  using assms(2) return_inv [OF assms(1), of _ mstr used db']
  by (auto simp: DashboardMasterInventory_perform_destroy_def dest: get_row_key)

lemma inventory_of_master_row:
  assumes "warehouse_inv db" and "inventory_of_master m iid db = Inr i"
  shows "get_row mi_id (mi_id i) (inventory db) = Some i" "mi_master i = m" "mi_id i = iid"
  using assms(2) get_row_filter [OF warehouse_wfD(3) [OF warehouse_invD(1) [OF assms(1)]]] get_row_key
  by (fastforce simp: inventory_of_master_def)+

lemma use_inventory_inv [op_inv]:
  assumes "warehouse_inv db" and "UseInventorySerializer_save i n db = Inr db'"
  shows "warehouse_inv db'"
  using assms warehouse_invD(1) [OF assms(1)]
  by (auto simp: UseInventorySerializer_save_def split: if_splits
      intro!: inventory_change_inv [OF assms(1)] wf_set_inventory)

section \<open>Histories of the warehouse tables\<close>

text \<open>\<open>stock_step\<close> has one rule per endpoint that writes to the warehouse tables, apart from
  the creation of products, which \<open>warehouse_step\<close> adds.\<close>

inductive stock_step :: "warehouse_db \<Rightarrow> warehouse_db \<Rightarrow> bool" where
  assign: "AdminAssignInventorySerializer_save mstr m pid n db = Inr (db', iid) \<Longrightarrow> stock_step db db'"
| put: "AdminUpdateInventoryView_put mstr m iid n db = Inr db' \<Longrightarrow> stock_step db db'"
| give_back: "AdminUpdateInventoryView_delete mstr used m iid db = Inr db' \<Longrightarrow> stock_step db db'"
| inventory_patch: "stock_step db (fst (DashboardMasterInventory_perform_update mstr iid q db))"
| inventory_destroy: "DashboardMasterInventory_perform_destroy mstr used iid db = Inr db' \<Longrightarrow> stock_step db db'"
| use: "inventory_of_master m iid db = Inr i \<Longrightarrow> UseInventorySerializer_save i n db = Inr db' \<Longrightarrow> stock_step db db'"
| product_patch: "stock_step db (fst (DashboardWarehouseProduct_perform_update pid pq db))"
| product_destroy: "DashboardWarehouseProduct_destroy pid db = Inr db' \<Longrightarrow> stock_step db db'"
| movement: "DashboardStockMovement_perform_create pid ty n nt mm db = Inr db' \<Longrightarrow> stock_step db db'"
| movement_patch: "DashboardStockMovement_perform_update sid mq db = Inr db' \<Longrightarrow> stock_step db db'"
| movement_destroy: "DashboardStockMovement_perform_destroy sid db = Inr db' \<Longrightarrow> stock_step db db'"

inductive warehouse_step :: "warehouse_db \<Rightarrow> warehouse_db \<Rightarrow> bool" where
  create: "warehouse_step db (DashboardWarehouseProduct_perform_create p db)"
| stock: "stock_step db db' \<Longrightarrow> warehouse_step db db'"

lemma assign_save_InrD:
  assumes "AdminAssignInventorySerializer_save mstr m pid n db = Inr (db', iid)"
  shows "assign_inventory_to_master mstr m pid n db = Inr (db', iid)" "1 \<le> n"
  using assms by (auto simp: AdminAssignInventorySerializer_save_def positive_quantity_def split: option.splits)

lemma stock_step_inv: "stock_step db db' \<Longrightarrow> warehouse_inv db \<Longrightarrow> warehouse_inv db'"
proof (induction rule: stock_step.induct)
  case (assign mstr m pid n db db' iid)
  then show ?case using assign_inv [of db n mstr m pid] assign_save_InrD [OF assign(1)] by simp
next
  case (put mstr m iid n db db')
  then show ?case by (auto simp: AdminUpdateInventoryView_put_def intro: adjust_master_inv)
next
  case (give_back mstr used m iid db db')
  then obtain i r where "inventory_of_master m iid db = Inr i"
    and "return_inventory_to_warehouse mstr used i db = Inr (db', r)"
    by (auto simp: AdminUpdateInventoryView_delete_def)
  with give_back(2) show ?case
    using return_inv inventory_of_master_row(1) by blast
qed (auto intro: op_inv)

lemma warehouse_step_inv: "warehouse_step db db' \<Longrightarrow> warehouse_inv db \<Longrightarrow> warehouse_inv db'"
  by (induction rule: warehouse_step.induct) (auto intro: product_create_inv stock_step_inv)

lemma warehouse_steps_inv: "warehouse_step\<^sup>*\<^sup>* db db' \<Longrightarrow> warehouse_inv db \<Longrightarrow> warehouse_inv db'"
  by (induction rule: rtranclp_induct) (auto dest: warehouse_step_inv)

text \<open>C19: In every state the warehouse tables can reach, the stock on hand of each product is
  the sum of its incoming minus its outgoing movements, no master holds a negative
  quantity, and no master has two inventory rows for one product.\<close>

theorem stock_is_movement_sum:
  assumes "warehouse_step\<^sup>*\<^sup>* empty_warehouse_db db"
  shows "(\<forall>p \<in> set (products db). pr_quantity p = stock_ledger (pr_id p) db) \<and>
    (\<forall>i \<in> set (inventory db). 0 \<le> mi_quantity i) \<and> distinct (map inv_key (inventory db))"
  using warehouse_steps_inv [OF assms warehouse_inv_empty]
  by (auto simp: warehouse_inv_def warehouse_synced_def warehouse_wf_def list_all_iff keys_distinct_def)

definition sample_product :: warehouse_product where
  "sample_product = \<lparr>pr_id = 0, pr_category = None, pr_name = ''Filtr'', pr_unit = ''dona'', pr_quantity = 1000,
     pr_low_threshold = 200, cost_price = 500000, sale_price = 800000, pr_mxik = [], pr_package_code = [],
     pr_vat_percent = 12, pr_is_active = True\<rparr>"

definition warehouse_example :: warehouse_db where
  "warehouse_example = DashboardWarehouseProduct_perform_create sample_product empty_warehouse_db"

definition assigned_example :: warehouse_db where
  "assigned_example =
    (case AdminAssignInventorySerializer_save (\<lambda>m. ''Usta'') 7 1 300 warehouse_example of
       Inr (db, iid) \<Rightarrow> db | Inl e \<Rightarrow> warehouse_example)"

lemma assigned_example_eq: "AdminAssignInventorySerializer_save (\<lambda>m. ''Usta'') 7 1 300 warehouse_example = Inr (assigned_example, 1)"
  by code_simp

theorem stock_is_movement_sum_witness:
  "warehouse_step\<^sup>*\<^sup>* empty_warehouse_db assigned_example \<and>
   product_qty 1 assigned_example = 700 \<and> stock_ledger 1 assigned_example = 700"
proof -
  have "warehouse_step empty_warehouse_db warehouse_example"
    unfolding warehouse_example_def by (rule create)
  moreover have "warehouse_step warehouse_example assigned_example"
    by (rule stock, rule assign, rule assigned_example_eq)
  ultimately have steps: "warehouse_step\<^sup>*\<^sup>* empty_warehouse_db assigned_example" by auto
  have "product_qty 1 assigned_example = 700" and "map pr_id (products assigned_example) = [1]"
    and "map pr_quantity (products assigned_example) = [700]"
    by code_simp+
  with stock_is_movement_sum [OF steps] steps show ?thesis by (cases "products assigned_example") auto
qed

section \<open>Conservation of stock\<close>

text \<open>Whatever a step of a system conserves, its histories conserve.\<close>

locale conserved_quantity =
  fixes good :: "'s \<Rightarrow> bool"
    and step :: "'s \<Rightarrow> 's \<Rightarrow> bool"
    and quantity :: "'i \<Rightarrow> 's \<Rightarrow> int"
  assumes step_good: "step s s' \<Longrightarrow> good s \<Longrightarrow> good s'"
    and step_conserves: "step s s' \<Longrightarrow> good s \<Longrightarrow> quantity i s' = quantity i s"
begin

lemma steps_good: "step\<^sup>*\<^sup>* s s' \<Longrightarrow> good s \<Longrightarrow> good s'"
  by (induction rule: rtranclp_induct) (auto dest: step_good)

lemma steps_conserve: "step\<^sup>*\<^sup>* s s' \<Longrightarrow> good s \<Longrightarrow> quantity i s' = quantity i s"
proof (induction rule: rtranclp_induct)
  case (step y z)
  then show ?case using steps_good step_conserves by simp
qed simp

end

text \<open>The transfers between the shelves and the masters.\<close>

inductive transfer_step :: "warehouse_db \<Rightarrow> warehouse_db \<Rightarrow> bool" where
  t_assign: "AdminAssignInventorySerializer_save mstr m pid n db = Inr (db', iid) \<Longrightarrow> transfer_step db db'"
| t_put: "AdminUpdateInventoryView_put mstr m iid n db = Inr db' \<Longrightarrow> transfer_step db db'"
| t_give_back: "AdminUpdateInventoryView_delete mstr used m iid db = Inr db' \<Longrightarrow> transfer_step db db'"
| t_patch: "transfer_step db (fst (DashboardMasterInventory_perform_update mstr iid q db))"
| t_destroy: "DashboardMasterInventory_perform_destroy mstr used iid db = Inr db' \<Longrightarrow> transfer_step db db'"

lemma assign_conserves:
  assumes "warehouse_inv db" and "assign_inventory_to_master mstr m pid n db = Inr (db', iid)"
  shows "total_stock pid' db' = total_stock pid' db"
  using assms(2)
proof (rule assign_InrD)
  fix p db1 i
  assume p: "get_row pr_id pid (products db) = Some p" and gc: "get_or_create_inventory m p db = (db1, i)"
    and db': "db' = create_movement pid STOCK_OUT n (Some m) (''Ustaga biriktirildi: '' @ mstr m)
      (set_product_quantity pid (pr_quantity p - n) (set_inventory_quantity (mi_id i) (mi_quantity i + n) db1))"
  note wf = warehouse_invD(1) [OF assms(1)]
  have i: "get_row mi_id (mi_id i) (inventory db1) = Some i" "mi_product i = pid"
    "inventory_qty pid' db1 = inventory_qty pid' db" "product_qty pid' db1 = product_qty pid' db"
    "products db1 = products db"
    using get_or_create_inventory_row(1,2) [OF wf, of m p] get_or_create_inventory_row(5) [OF wf, of pid' m p] gc get_row_key [OF p]
      qty_other_tables(3) [where pid = pid' and m' = m and p = p and db = db] get_or_create_inventory_tables(1) [of m p db] by auto
  have "keys_distinct mi_id (inventory db1)"
    using warehouse_wfD(3) wf_get_or_create [OF wf, of p m] known_product [OF p] get_row_key [OF p] gc by fastforce
  from inventory_qty_set [OF this i(1)]
    product_qty_set [of pid "set_inventory_quantity (mi_id i) (mi_quantity i + n) db1" p] i p
  show ?thesis by (simp add: total_stock_def db' product_qty_lookup)
qed

lemma adjust_conserves:
  assumes "warehouse_inv db" and "adjust_master_inventory mstr iid n db = Inr db'"
  shows "total_stock pid db' = total_stock pid db"
  using assms(2)
proof (rule adjust_master_InrD)
  fix i p
  assume i: "get_row mi_id iid (inventory db) = Some i" and p: "get_row pr_id (mi_product i) (products db) = Some p"
    and same: "n = mi_quantity i \<Longrightarrow> db' = db"
    and moved: "n \<noteq> mi_quantity i \<Longrightarrow> db' = create_movement (mi_product i)
      (if n > mi_quantity i then STOCK_OUT else STOCK_IN) (abs (n - mi_quantity i))
      (Some (mi_master i)) (''Usta biriktirish miqdori o'zgardi: '' @ mstr (mi_master i))
      (set_inventory_quantity iid n (set_product_quantity (mi_product i) (pr_quantity p - (n - mi_quantity i)) db))"
  note keys = warehouse_wfD(3) [OF warehouse_invD(1) [OF assms(1)]]
  show ?thesis
    using same moved inventory_qty_set [of "set_product_quantity _ _ db" iid i] keys i p
    by (cases "n = mi_quantity i") (auto simp: total_stock_def product_qty_set product_qty_lookup)
qed

lemma return_conserves:
  assumes "warehouse_inv db" and i: "get_row mi_id (mi_id i) (inventory db) = Some i"
    and "return_inventory_to_warehouse mstr used i db = Inr (db', r)"
  shows "total_stock pid db' = total_stock pid db"
proof -
  let ?note = "''Ustadan qaytarildi: '' @ mstr (mi_master i)"
  note keys = warehouse_wfD(3) [OF warehouse_invD(1) [OF assms(1)]]
  obtain p where p: "get_row pr_id (mi_product i) (products db) = Some p"
    using assms(3) by (auto simp: return_inventory_to_warehouse_def)
  let ?db1 = "if mi_quantity i \<noteq> 0 then create_movement (mi_product i) STOCK_IN (mi_quantity i) (Some (mi_master i)) ?note
      (set_product_quantity (mi_product i) (pr_quantity p + mi_quantity i) db) else db"
  have db': "db' = (if used (mi_id i) then set_inventory_quantity (mi_id i) 0 ?db1
      else ?db1\<lparr>inventory := del_row mi_id (mi_id i) (inventory ?db1)\<rparr>)"
    using assms(3) p get_row_key [OF p] by (auto simp: return_inventory_to_warehouse_def Let_def)
  have inv1: "inventory ?db1 = inventory db" by simp
  have "inventory_qty pid db' = inventory_qty pid db - (if pid = mi_product i then mi_quantity i else 0)"
    using inventory_qty_set [of ?db1 "mi_id i" i pid 0] inventory_qty_del [of ?db1 "mi_id i" i pid] keys i
      inventory_qty_cong [OF inv1, of pid]
    by (auto simp: db' inv1)
  moreover have "product_qty pid ?db1 = product_qty pid db + (if pid = mi_product i then mi_quantity i else 0)"
    using product_qty_set [OF p] product_qty_lookup [OF p] by simp
  moreover have "product_qty pid db' = product_qty pid ?db1"
    by (rule product_qty_cong) (simp add: db')
  ultimately show ?thesis by (simp add: total_stock_def)
qed

lemma patch_inventory_total:
  "total_stock pid (db\<lparr>inventory := upd_row mi_id iid (patch_inventory q) (inventory db)\<rparr>) = total_stock pid db"
  by (simp add: total_stock_def product_qty_def inventory_qty_def sum_rows_upd_same patch_inventory_def)

interpretation transfers: conserved_quantity warehouse_inv transfer_step total_stock
proof
  show "warehouse_inv db'" if "transfer_step db db'" and "warehouse_inv db" for db db'
    using that(1) stock_step_inv [OF _ that(2)] by (cases rule: transfer_step.cases) (blast intro: stock_step.intros)+
  show "total_stock pid db' = total_stock pid db" if "transfer_step db db'" and inv: "warehouse_inv db" for pid db db'
    using that(1)
  proof (cases rule: transfer_step.cases)
    case (t_give_back mstr used m iid)
    then show ?thesis
      using return_conserves [OF inv inventory_of_master_row(1) [OF inv]]
      by (auto simp: AdminUpdateInventoryView_delete_def)
  next
    case (t_patch mstr iid q)
    then show ?thesis
      using adjust_conserves [OF patch_inventory_inv [OF inv]]
      by (auto simp: DashboardMasterInventory_perform_update_def Let_def patch_inventory_total
          split: option.split sum.split)
  next
    case (t_destroy mstr used iid)
    then show ?thesis
      using return_conserves [OF inv] get_row_key
      by (fastforce simp: DashboardMasterInventory_perform_destroy_def)
  qed (auto simp: AdminUpdateInventoryView_put_def intro: adjust_conserves [OF inv] assign_conserves [OF inv]
      dest: assign_save_InrD)
qed

text \<open>C20: No sequence of assignments, corrections and returns creates or loses stock: the
  quantity of a product on the shelves and with all masters together stays the same.\<close>

theorem transfers_conserve_total_stock:
  assumes "warehouse_inv db" and "transfer_step\<^sup>*\<^sup>* db db'"
  shows "total_stock pid db' = total_stock pid db"
  using transfers.steps_conserve [OF assms(2,1)] .

lemma warehouse_example_inv: "warehouse_inv warehouse_example"
  unfolding warehouse_example_def by (rule product_create_inv [OF warehouse_inv_empty])

theorem transfers_conserve_total_stock_witness:
  "transfer_step\<^sup>*\<^sup>* warehouse_example assigned_example \<and> total_stock 1 assigned_example = 1000 \<and>
   product_qty 1 assigned_example = 700 \<and> inventory_qty 1 assigned_example = 300"
proof -
  have steps: "transfer_step\<^sup>*\<^sup>* warehouse_example assigned_example"
    by (rule r_into_rtranclp, rule t_assign, rule assigned_example_eq)
  moreover have "total_stock 1 warehouse_example = 1000" "product_qty 1 assigned_example = 700"
    "inventory_qty 1 assigned_example = 300"
    by code_simp+
  ultimately show ?thesis
    using transfers_conserve_total_stock [OF warehouse_example_inv steps, of 1] by simp
qed

section \<open>No overselling\<close>

lemma no_negative_iff:
  assumes "warehouse_inv db"
  shows "no_negative_stock db \<longleftrightarrow> (\<forall>pid. 0 \<le> product_qty pid db)"
proof
  assume "no_negative_stock db"
  then show "\<forall>pid. 0 \<le> product_qty pid db"
    using get_row_in [of pr_id _ "products db"]
    by (fastforce simp: no_negative_stock_def list_all_iff product_qty_def split: option.split)
next
  assume R: "\<forall>pid. 0 \<le> product_qty pid db"
  note keys = warehouse_wfD(1) [OF warehouse_invD(1) [OF assms]]
  show "no_negative_stock db"
    unfolding no_negative_stock_def list_all_iff
    using R get_row_unique [OF keys] product_qty_lookup by metis
qed

lemma move_nonneg:
  "move_product_quantity pid d db = Inr db' \<Longrightarrow> 0 \<le> product_qty pid' db \<Longrightarrow> 0 \<le> product_qty pid' db'"
  by (erule move_product_quantity_InrD) (simp add: product_qty_set)

lemma adjust_stock_nonneg:
  "adjust_warehouse_stock pid d nt m mty db = Inr db' \<Longrightarrow> 0 \<le> product_qty pid' db \<Longrightarrow> 0 \<le> product_qty pid' db'"
  by (auto simp: adjust_warehouse_stock_def intro: move_nonneg)

lemma assign_nonneg:
  assumes "assign_inventory_to_master mstr m pid n db = Inr (db', iid)" and "0 \<le> product_qty pid' db"
  shows "0 \<le> product_qty pid' db'"
  using assms(1)
proof (rule assign_InrD)
  fix p db1 i
  assume p: "get_row pr_id pid (products db) = Some p" and "n \<le> pr_quantity p"
    and gc: "get_or_create_inventory m p db = (db1, i)"
    and db': "db' = create_movement pid STOCK_OUT n (Some m) (''Ustaga biriktirildi: '' @ mstr m)
      (set_product_quantity pid (pr_quantity p - n) (set_inventory_quantity (mi_id i) (mi_quantity i + n) db1))"
  have same: "products db1 = products db"
    using get_or_create_inventory_tables(1) [of m p db] gc by simp
  then have "product_qty pid' db1 = product_qty pid' db" by (rule product_qty_cong)
  with same show ?thesis
    using p \<open>n \<le> pr_quantity p\<close> assms(2) by (simp add: db' product_qty_set)
qed

lemma adjust_master_nonneg:
  assumes "adjust_master_inventory mstr iid n db = Inr db'" and "0 \<le> product_qty pid db"
    and "\<And>pid. 0 \<le> product_qty pid db"
  shows "0 \<le> product_qty pid db'"
  using assms(1)
proof (rule adjust_master_InrD)
  fix i p
  assume p: "get_row pr_id (mi_product i) (products db) = Some p"
    and same: "n = mi_quantity i \<Longrightarrow> db' = db"
    and enough: "n \<noteq> mi_quantity i \<Longrightarrow> n - mi_quantity i \<le> pr_quantity p \<or> n < mi_quantity i"
    and moved: "n \<noteq> mi_quantity i \<Longrightarrow> db' = create_movement (mi_product i)
      (if n > mi_quantity i then STOCK_OUT else STOCK_IN) (abs (n - mi_quantity i))
      (Some (mi_master i)) (''Usta biriktirish miqdori o'zgardi: '' @ mstr (mi_master i))
      (set_inventory_quantity iid n (set_product_quantity (mi_product i) (pr_quantity p - (n - mi_quantity i)) db))"
  show ?thesis
    using assms(2) assms(3) [of "mi_product i"] p same enough moved
    by (cases "n = mi_quantity i") (auto simp: product_qty_set product_qty_lookup)
qed

lemma return_nonneg:
  assumes "return_inventory_to_warehouse mstr used i db = Inr (db', r)"
    and "0 \<le> mi_quantity i" and "\<And>pid. 0 \<le> product_qty pid db"
  shows "0 \<le> product_qty pid db'"
proof -
  obtain p where p: "get_row pr_id (mi_product i) (products db) = Some p"
    using assms(1) by (auto simp: return_inventory_to_warehouse_def)
  have "product_qty pid db' = product_qty pid db \<or> product_qty pid db' = product_qty pid db + mi_quantity i"
    using assms(1) p get_row_key [OF p] product_qty_cong [of "_\<lparr>inventory := _\<rparr>"]
    by (auto simp: return_inventory_to_warehouse_def Let_def product_qty_set product_qty_lookup split: if_splits)
  with assms(2) assms(3) [of pid] show ?thesis by auto
qed

lemma stock_step_nonneg:
  assumes "stock_step db db'" and inv: "warehouse_inv db" and nn: "\<And>pid. 0 \<le> product_qty pid db"
  shows "0 \<le> product_qty pid db'"
  using assms(1)
proof (cases rule: stock_step.cases)
  case (assign mstr m pid' n iid)
  then show ?thesis using nn assign_nonneg assign_save_InrD by blast
next
  case (put mstr m iid n)
  then show ?thesis using nn by (auto simp: AdminUpdateInventoryView_put_def intro: adjust_master_nonneg)
next
  case (give_back mstr used m iid)
  then obtain i r where i: "inventory_of_master m iid db = Inr i"
    and ret: "return_inventory_to_warehouse mstr used i db = Inr (db', r)"
    by (auto simp: AdminUpdateInventoryView_delete_def)
  have "0 \<le> mi_quantity i"
    by (rule warehouse_wfD(7) [OF warehouse_invD(1) [OF inv] get_row_in [OF inventory_of_master_row(1) [OF inv i]]])
  from return_nonneg [OF ret this nn] show ?thesis .
next
  case (inventory_patch mstr iid q)
  have "product_qty pid' (db\<lparr>inventory := upd_row mi_id iid (patch_inventory q) (inventory db)\<rparr>) = product_qty pid' db"
    for pid' by (simp add: product_qty_def)
  with inventory_patch nn show ?thesis
    by (auto simp: DashboardMasterInventory_perform_update_def Let_def
        split: option.split sum.split intro: adjust_master_nonneg)
next
  case (inventory_destroy mstr used iid)
  then obtain i r where i: "get_row mi_id iid (inventory db) = Some i"
    and ret: "return_inventory_to_warehouse mstr used i db = Inr (db', r)"
    by (auto simp: DashboardMasterInventory_perform_destroy_def)
  have "0 \<le> mi_quantity i"
    using get_row_in [OF i] warehouse_wfD(7) [OF warehouse_invD(1) [OF inv]] by blast
  from return_nonneg [OF ret this nn] show ?thesis .
next
  case (product_patch pid' pq)
  have same: "product_qty x (db\<lparr>products := upd_row pr_id pid' (patch_product pq) (products db)\<rparr>) = product_qty x db" for x
    by (auto simp: product_qty_def get_row_upd split: option.splits)
  with product_patch nn show ?thesis
    by (auto simp: DashboardWarehouseProduct_perform_update_def Let_def
        split: option.split sum.split intro: adjust_stock_nonneg)
next
  case (product_destroy pid')
  then have "product_qty pid db' = (if pid = pid' then 0 else product_qty pid db)"
    by (auto simp: DashboardWarehouseProduct_destroy_def product_qty_def get_row_del split: if_splits)
  then show ?thesis using nn by simp
next
  case (movement_patch sid mq)
  then have "products db' = products db"
    by (auto simp: DashboardStockMovement_perform_update_def split: if_splits)
  then show ?thesis using nn product_qty_cong by metis
next
  case (movement_destroy sid)
  then obtain mv db1 where "reverse_stock_movement mv db = Inr db1" and "products db' = products db1"
    by (auto simp: DashboardStockMovement_perform_destroy_def)
  then show ?thesis
    using move_nonneg [of "sm_product mv" _ db db1 pid] nn [of pid] product_qty_cong [of db' db1 pid]
    by (auto simp: reverse_stock_movement_def)
next
  case (movement pid' ty n nt mm)
  then obtain db1 where "move_product_quantity pid' (if ty = STOCK_IN then n else - n) db = Inr db1"
    and "db' = create_movement pid' ty n mm nt db1"
    by (auto simp: DashboardStockMovement_perform_create_def apply_stock_movement_effect_def)
  then show ?thesis using move_nonneg nn [of pid] by fastforce
qed (use nn in \<open>auto simp: UseInventorySerializer_save_def split: if_splits\<close>)

text \<open>Once no product has a negative stock, no assignment, correction, return, use,
  manual movement or deletion of a movement can make a stock negative.\<close>

theorem stock_never_oversold:
  assumes "stock_step\<^sup>*\<^sup>* db db'" and "warehouse_inv db" and "no_negative_stock db"
  shows "no_negative_stock db'"
proof -
  have "warehouse_inv db' \<and> (\<forall>pid. 0 \<le> product_qty pid db')"
    using assms(1)
  proof (induction rule: rtranclp_induct)
    case base
    then show ?case using assms(2,3) no_negative_iff by blast
  next
    case (step y z)
    then show ?case using stock_step_inv stock_step_nonneg by blast
  qed
  then show ?thesis using no_negative_iff by blast
qed

theorem stock_never_oversold_witness:
  "stock_step\<^sup>*\<^sup>* warehouse_example assigned_example \<and> no_negative_stock assigned_example"
proof -
  have steps: "stock_step\<^sup>*\<^sup>* warehouse_example assigned_example"
    by (rule r_into_rtranclp, rule assign, rule assigned_example_eq)
  moreover have "no_negative_stock warehouse_example" by code_simp
  ultimately show ?thesis
    using stock_never_oversold [OF steps warehouse_example_inv] by simp
qed

text \<open>The creation of a product takes any opening quantity: a negative one is stored and
  journalled as an incoming movement of a negative quantity.\<close>

theorem negative_opening_stock_accepted:
  assumes "pr_quantity p < 0"
  shows "\<not> no_negative_stock (DashboardWarehouseProduct_perform_create p db) \<and>
    (\<exists>mv \<in> set (movements (DashboardWarehouseProduct_perform_create p db)).
       sm_type mv = STOCK_IN \<and> sm_quantity mv < 0)"
  using assms
  by (auto simp: list_all_iff DashboardWarehouseProduct_perform_create_def Let_def no_negative_stock_def create_movement_def)

theorem negative_opening_stock_accepted_witness:
  "\<not> no_negative_stock (DashboardWarehouseProduct_perform_create (sample_product\<lparr>pr_quantity := - 500\<rparr>) empty_warehouse_db)"
  using negative_opening_stock_accepted [of "sample_product\<lparr>pr_quantity := - 500\<rparr>" empty_warehouse_db] by simp

interpretation products_store: row_store pr_id "get_row pr_id" add_row "del_row pr_id" "\<lambda>rows. rows" "fresh_id pr_id"
  by (rule row_store_tables)

interpretation inventory_store: row_store mi_id "get_row mi_id" add_row "del_row mi_id" "\<lambda>rows. rows" "fresh_id mi_id"
  by (rule row_store_tables)

end
