(* ===== verification/Profiles.thy ===== *)
theory Profiles
  imports Prelude
begin

text \<open>
  The client's addresses, devices and tariff: \<open>src/apps/profiles/\<close>.

  \<^item> State: \<open>profiles_db\<close>, the tables of addresses, devices and tariffs, and the tariff
    subscription of each client.
  \<^item> Every view scopes its queryset by the requesting client; a row of another client is
    a 404.
  \<^item> Coordinates are decimals with eight places, counted in units of 1/100000000.
\<close>

section \<open>Data\<close>

record client_address =
  ca_id :: row_id
  ca_client :: row_id
  ca_label :: string
  ca_address_text :: string
  ca_lat :: int
  ca_lng :: int
  is_default :: bool

datatype device_status = DEVICE_ACTIVE | DEVICE_REPAIR | DEVICE_BROKEN

record client_device =
  cd_id :: row_id
  cd_client :: row_id
  cd_name :: string
  cd_model :: string
  cd_address :: row_id
  cd_status :: device_status

record tariff =
  tf_id :: row_id
  tf_name :: string
  tf_price :: money
  duration_days :: nat
  tf_popular :: bool
  tf_active :: bool
  tf_sort_order :: nat

record subscription =
  sb_client :: row_id
  current_tariff :: "row_id option"
  tariff_expires_at :: "instant option"

record profiles_db =
  addresses :: "client_address list"
  devices :: "client_device list"
  tariffs :: "tariff list"
  subscriptions :: "subscription list"

section \<open>Addresses\<close>

definition ClientAddress_get_queryset :: "row_id \<Rightarrow> profiles_db \<Rightarrow> client_address list" where
  "ClientAddress_get_queryset user db = filter (\<lambda>a. ca_client a = user) (addresses db)"

definition create_address :: "client_address \<Rightarrow> profiles_db \<Rightarrow> profiles_db \<times> row_id" where
  "create_address a db =
    (let k = fresh_id ca_id (addresses db)
     in (db\<lparr>addresses := add_row (a\<lparr>ca_id := k\<rparr>) (addresses db)\<rparr>, k))"

definition ClientAddressListCreate_perform_create :: "row_id \<Rightarrow> client_address \<Rightarrow> profiles_db \<Rightarrow> profiles_db" where
  "ClientAddressListCreate_perform_create user a db =
    (let db1 = (if is_default a
                then db\<lparr>addresses := map (\<lambda>x. if ca_client x = user then x\<lparr>is_default := False\<rparr> else x) (addresses db)\<rparr>
                else db)
     in fst (create_address (a\<lparr>ca_client := user\<rparr>) db1))"

record address_patch =
  ap_label :: "string option"
  ap_address_text :: "string option"
  ap_lat :: "int option"
  ap_lng :: "int option"
  ap_default :: "bool option"

definition patch_address :: "address_patch \<Rightarrow> client_address \<Rightarrow> client_address" where
  "patch_address p a = a\<lparr>ca_label := sent_or (ap_label p) (ca_label a),
                         ca_address_text := sent_or (ap_address_text p) (ca_address_text a),
                         ca_lat := sent_or (ap_lat p) (ca_lat a),
                         ca_lng := sent_or (ap_lng p) (ca_lng a),
                         is_default := sent_or (ap_default p) (is_default a)\<rparr>"

definition ClientAddressDetail_update :: "row_id \<Rightarrow> row_id \<Rightarrow> address_patch \<Rightarrow> profiles_db \<Rightarrow> profiles_db res" where
  "ClientAddressDetail_update user aid p db =
    bindE (get_or_404 ''ClientAddress'' (get_row ca_id aid (ClientAddress_get_queryset user db))) (\<lambda>a.
      Inr (db\<lparr>addresses := upd_row ca_id aid (patch_address p) (addresses db)\<rparr>))"

text \<open>Deleting an address deletes the devices at it.\<close>

definition ClientAddressDetail_destroy :: "row_id \<Rightarrow> row_id \<Rightarrow> profiles_db \<Rightarrow> profiles_db res" where
  "ClientAddressDetail_destroy user aid db =
    bindE (get_or_404 ''ClientAddress'' (get_row ca_id aid (ClientAddress_get_queryset user db))) (\<lambda>a.
      Inr (db\<lparr>addresses := del_row ca_id aid (addresses db),
              devices := filter (\<lambda>d. cd_address d \<noteq> aid) (devices db)\<rparr>))"

section \<open>Devices\<close>

definition create_device :: "client_device \<Rightarrow> profiles_db \<Rightarrow> profiles_db \<times> row_id" where
  "create_device d db =
    (let k = fresh_id cd_id (devices db)
     in (db\<lparr>devices := add_row (d\<lparr>cd_id := k\<rparr>) (devices db)\<rparr>, k))"

text \<open>The \<open>address\<close> of the request may be any existing address.\<close>

definition ClientDeviceListCreate_perform_create :: "row_id \<Rightarrow> client_device \<Rightarrow> profiles_db \<Rightarrow> profiles_db res" where
  "ClientDeviceListCreate_perform_create user d db =
    (if cd_address d \<in> ca_id ` set (addresses db)
     then Inr (fst (create_device (d\<lparr>cd_client := user\<rparr>) db))
     else Inl (ValidationError ''address''))"

definition ClientDeviceListCreate_get_queryset ::
  "(string \<Rightarrow> string \<Rightarrow> bool) \<Rightarrow> row_id \<Rightarrow> row_id option \<Rightarrow> string option \<Rightarrow> profiles_db \<Rightarrow> client_device list" where
  "ClientDeviceListCreate_get_queryset icontains user address_id label db =
    (let q = filter (\<lambda>d. cd_client d = user) (devices db);
         q1 = (case address_id of None \<Rightarrow> q | Some a \<Rightarrow> filter (\<lambda>d. cd_address d = a) q)
     in case label of
          None \<Rightarrow> q1
        | Some l \<Rightarrow> filter (\<lambda>d. case get_row ca_id (cd_address d) (addresses db) of
                                None \<Rightarrow> False | Some a \<Rightarrow> icontains (ca_label a) l) q1)"

definition device_count :: "row_id \<Rightarrow> profiles_db \<Rightarrow> nat" where
  "device_count aid db = length (filter (\<lambda>d. cd_address d = aid) (devices db))"

definition ClientDeviceLocationsView_get :: "row_id \<Rightarrow> profiles_db \<Rightarrow> (client_address \<times> nat) list" where
  "ClientDeviceLocationsView_get user db =
    map (\<lambda>a. (a, device_count (ca_id a) db)) (ClientAddress_get_queryset user db)"

definition ClientDeviceDetail_destroy :: "row_id \<Rightarrow> row_id \<Rightarrow> profiles_db \<Rightarrow> profiles_db res" where
  "ClientDeviceDetail_destroy user did db =
    bindE (get_or_404 ''ClientDevice'' (get_row cd_id did (filter (\<lambda>d. cd_client d = user) (devices db)))) (\<lambda>d.
      Inr (db\<lparr>devices := del_row cd_id did (devices db)\<rparr>))"

definition ClientDeviceOrderView_post :: "row_id \<Rightarrow> row_id \<Rightarrow> profiles_db \<Rightarrow> (client_device \<times> client_address option) res" where
  "ClientDeviceOrderView_post user did db =
    bindE (get_or_404 ''ClientDevice'' (get_row cd_id did (filter (\<lambda>d. cd_client d = user) (devices db)))) (\<lambda>d.
      Inr (d, get_row ca_id (cd_address d) (addresses db)))"

section \<open>Tariffs\<close>

definition TariffListView_get_queryset :: "profiles_db \<Rightarrow> tariff list" where
  "TariffListView_get_queryset db = filter tf_active (tariffs db)"

definition ms_per_day :: int where
  "ms_per_day = 86400000"

definition TariffSubscribeView_post :: "instant \<Rightarrow> row_id \<Rightarrow> row_id \<Rightarrow> profiles_db \<Rightarrow> profiles_db res" where
  "TariffSubscribeView_post now user tid db =
    (case get_row tf_id tid (TariffListView_get_queryset db) of
       None \<Rightarrow> Inl (ServerError ''Tariff.DoesNotExist'')
     | Some t \<Rightarrow>
         Inr (db\<lparr>subscriptions := add_row \<lparr>sb_client = user, current_tariff = Some tid,
                    tariff_expires_at = Some (now + int (duration_days t) * ms_per_day)\<rparr>
                  (del_row sb_client user (subscriptions db))\<rparr>))"

section \<open>At most one default address\<close>

definition defaults_of :: "row_id \<Rightarrow> profiles_db \<Rightarrow> row_id list" where
  "defaults_of user db = map ca_id (filter (\<lambda>a. ca_client a = user \<and> is_default a) (addresses db))"

lemma defaults_after_reset:
  "filter (\<lambda>a. ca_client a = user \<and> is_default a)
     (map (\<lambda>x. if ca_client x = user' then x\<lparr>is_default := False\<rparr> else x) rows) =
   (if user = user' then [] else filter (\<lambda>a. ca_client a = user \<and> is_default a) rows)"
  by (induction rows) auto

lemma in_defaults_of:
  "x \<in> set (addresses db) \<Longrightarrow> ca_client x = user \<Longrightarrow> is_default x \<Longrightarrow> ca_id x \<in> set (defaults_of user db)"
  by (auto simp: defaults_of_def)

text \<open>Creating an address keeps at most one default address per client: a new default
  becomes the only one, and the addresses of other clients are not touched.\<close>

theorem create_keeps_one_default:
  assumes "length (defaults_of user db) \<le> 1"
  shows "length (defaults_of user (ClientAddressListCreate_perform_create user a db)) \<le> 1 \<and>
    (is_default a \<longrightarrow> defaults_of user (ClientAddressListCreate_perform_create user a db) = [fresh_id ca_id
        (map (\<lambda>x. if ca_client x = user then x\<lparr>is_default := False\<rparr> else x) (addresses db))]) \<and>
    (\<forall>other. other \<noteq> user \<longrightarrow>
       defaults_of other (ClientAddressListCreate_perform_create user a db) = defaults_of other db)"
  using assms
  by (auto simp: ClientAddressListCreate_perform_create_def create_address_def defaults_of_def Let_def
      add_row_def defaults_after_reset)

definition address_example :: profiles_db where
  "address_example = \<lparr>addresses =
     [\<lparr>ca_id = 1, ca_client = 4, ca_label = ''Uy'', ca_address_text = ''Chilonzor'', ca_lat = 0, ca_lng = 0, is_default = True\<rparr>,
      \<lparr>ca_id = 2, ca_client = 4, ca_label = ''Ish'', ca_address_text = ''Yunusobod'', ca_lat = 0, ca_lng = 0, is_default = False\<rparr>],
     devices = [], tariffs = [], subscriptions = []\<rparr>"

theorem create_keeps_one_default_witness:
  "length (defaults_of 4 (ClientAddressListCreate_perform_create 4 (hd (addresses address_example)) address_example)) \<le> 1"
proof -
  have "length (defaults_of 4 address_example) \<le> 1" by code_simp
  from create_keeps_one_default [OF this] show ?thesis by blast
qed

text \<open>Updating an address does not reset the other ones: a PATCH that sets
  its default flag on a second address leaves the client with two default addresses.\<close>

theorem patch_leaves_two_defaults:
  assumes "keys_distinct ca_id (addresses db)" and "a \<in> set (addresses db)" and "b \<in> set (addresses db)"
    and "ca_client a = user" and "ca_client b = user" and "ca_id a \<noteq> ca_id b" and "is_default a"
    and "ap_default p = Some True"
  shows "\<exists>db'. ClientAddressDetail_update user (ca_id b) p db = Inr db' \<and>
    {ca_id a, ca_id b} \<subseteq> set (defaults_of user db')"
proof -
  let ?db' = "db\<lparr>addresses := upd_row ca_id (ca_id b) (patch_address p) (addresses db)\<rparr>"
  have "get_row ca_id (ca_id b) (ClientAddress_get_queryset user db) = Some b"
    unfolding ClientAddress_get_queryset_def
    using assms(3,5) by (intro get_row_unique keys_distinct_filter assms(1)) simp
  then have "ClientAddressDetail_update user (ca_id b) p db = Inr ?db'"
    by (simp add: ClientAddressDetail_update_def)
  moreover have "a \<in> set (addresses ?db')" "patch_address p b \<in> set (addresses ?db')"
    using assms(2,3,6) by (auto simp: upd_row_def)
  moreover have "ca_client (patch_address p b) = user" "is_default (patch_address p b)" "ca_id (patch_address p b) = ca_id b"
    using assms(5,8) by (simp_all add: patch_address_def sent_or_def)
  ultimately show ?thesis
    using assms(4,7) in_defaults_of [of a ?db' user] in_defaults_of [of "patch_address p b" ?db' user]
    by (intro exI [of _ ?db']) simp
qed

theorem patch_leaves_two_defaults_witness:
  "\<exists>db'. ClientAddressDetail_update 4 2
      \<lparr>ap_label = None, ap_address_text = None, ap_lat = None, ap_lng = None, ap_default = Some True\<rparr> address_example = Inr db' \<and>
    {1, 2} \<subseteq> set (defaults_of 4 db')"
  using patch_leaves_two_defaults [of address_example "addresses address_example ! 0" "addresses address_example ! 1" 4
      "\<lparr>ap_label = None, ap_address_text = None, ap_lat = None, ap_lng = None, ap_default = Some True\<rparr>"]
  by (simp add: address_example_def keys_distinct_def)

interpretation addresses_store: row_store ca_id "get_row ca_id" add_row "del_row ca_id" "\<lambda>rows. rows" "fresh_id ca_id"
  by (rule row_store_tables)

end
