(* ===== verification/Order_Model.thy ===== *)
theory Order_Model
  imports Wallet Warehouse Profiles
begin

text \<open>
  The order and everything that hangs on it: \<open>src/apps/orders/models.py\<close>,
  \<open>services.py\<close>, \<open>signals.py\<close> and \<open>assignments.py\<close>.

  \<^item> State: \<open>sys\<close>, the tables of the orders together with the wallet and the warehouse
    tables, and the list of realtime events sent so far (\<open>outbox\<close>).
  \<^item> Saving an order row runs the \<open>post_save\<close> signal: it creates the tracking row,
    notifies client and masters and informs the dashboard.
  \<^item> \<open>complete_paid_order\<close> is the only place that completes an order and credits a master.

  The environment \<open>env\<close> holds what a request reads from outside the tables: the current
  time and date, and the display names of masters. Uploaded images are not modelled.
\<close>

section \<open>Data\<close>

datatype order_status =
    NEW | ACCEPTED | ON_WAY | ARRIVED | AWAITING_PAYMENT | COMPLETED | CANCELLED | REJECTED

datatype payment_type = PT_CASH | PT_ONLINE | PT_CARD | PT_PLASTIC

instantiation order_status :: enum
begin

definition enum_order_status :: "order_status list" where
  "enum_order_status = [NEW, ACCEPTED, ON_WAY, ARRIVED, AWAITING_PAYMENT, COMPLETED, CANCELLED, REJECTED]"

definition enum_all_order_status :: "(order_status \<Rightarrow> bool) \<Rightarrow> bool" where
  "enum_all_order_status P = list_all P [NEW, ACCEPTED, ON_WAY, ARRIVED, AWAITING_PAYMENT, COMPLETED, CANCELLED, REJECTED]"

definition enum_ex_order_status :: "(order_status \<Rightarrow> bool) \<Rightarrow> bool" where
  "enum_ex_order_status P = list_ex P [NEW, ACCEPTED, ON_WAY, ARRIVED, AWAITING_PAYMENT, COMPLETED, CANCELLED, REJECTED]"

lemma order_status_all: "(\<forall>x::order_status. P x) \<longleftrightarrow>
    P NEW \<and> P ACCEPTED \<and> P ON_WAY \<and> P ARRIVED \<and> P AWAITING_PAYMENT \<and> P COMPLETED \<and> P CANCELLED \<and> P REJECTED"
  by (metis order_status.exhaust)

lemma order_status_ex: "(\<exists>x::order_status. P x) \<longleftrightarrow>
    P NEW \<or> P ACCEPTED \<or> P ON_WAY \<or> P ARRIVED \<or> P AWAITING_PAYMENT \<or> P COMPLETED \<or> P CANCELLED \<or> P REJECTED"
  by (metis order_status.exhaust)

instance
proof
  show "(UNIV :: order_status set) = set Enum.enum"
    by (auto simp: enum_order_status_def intro: order_status.exhaust)
qed (simp_all add: enum_order_status_def enum_all_order_status_def enum_ex_order_status_def
    order_status_all order_status_ex)

end

definition ACTIVE_ORDER_STATUSES :: "order_status list" where
  "ACTIVE_ORDER_STATUSES = [ACCEPTED, ON_WAY, ARRIVED]"

definition MASTER_IN_PROGRESS_STATUSES :: "order_status list" where
  "MASTER_IN_PROGRESS_STATUSES = ACTIVE_ORDER_STATUSES @ [AWAITING_PAYMENT]"

definition TERMINAL_ORDER_STATUSES :: "order_status list" where
  "TERMINAL_ORDER_STATUSES = [COMPLETED, CANCELLED, REJECTED]"

definition can_admin_set_status :: "order_status \<Rightarrow> order_status \<Rightarrow> bool" where
  "can_admin_set_status current new =
    (if current = new then True
     else if new = COMPLETED then False
     else if current \<in> set TERMINAL_ORDER_STATUSES then False
     else True)"

fun STATUS_TAB :: "order_status \<Rightarrow> string" where
  "STATUS_TAB NEW = ''yangi''"
| "STATUS_TAB ACCEPTED = ''bajarilmoqda''"
| "STATUS_TAB ON_WAY = ''yo'lda''"
| "STATUS_TAB ARRIVED = ''bajarilmoqda''"
| "STATUS_TAB AWAITING_PAYMENT = ''bajarilmoqda''"
| "STATUS_TAB COMPLETED = ''yakunlangan''"
| "STATUS_TAB CANCELLED = ''bekor''"
| "STATUS_TAB REJECTED = ''bekor''"

record order =
  o_id :: row_id
  o_client :: row_id
  o_master :: "row_id option"
  o_service :: row_id
  o_address :: "row_id option"
  o_device :: "row_id option"
  o_address_text :: string
  o_lat :: int
  o_lng :: int
  scheduled_date :: int
  scheduled_time :: int
  o_note :: string
  completion_note :: string
  o_status :: order_status
  o_payment_type :: "payment_type option"
  service_fee :: money
  inventory_total :: money
  bonus_used :: money
  total_amount :: money
  is_paid :: bool
  paid_at :: "instant option"
  receipt_approved_at :: "instant option"
  receipt_approved_by :: "row_id option"
  cancel_reason :: string
  rejected_reason :: string
  o_created_at :: instant

record order_master =
  om_order :: row_id
  om_master :: row_id
  om_assigned_by :: "row_id option"
  has_accepted :: bool
  om_active :: bool

record inventory_usage =
  ou_id :: row_id
  ou_order :: row_id
  ou_inventory :: row_id
  ou_quantity :: qty
  ou_unit_price :: money
  ou_total_price :: money

record order_tracking =
  ot_order :: row_id
  master_lat :: "int option"
  master_lng :: "int option"
  ot_distance_km :: "int option"
  ot_eta_minutes :: "nat option"

record review =
  rv_id :: row_id
  rv_order :: row_id
  rv_master :: row_id
  rv_client :: row_id
  rv_rating :: int
  rv_comment :: string
  is_official :: bool

text \<open>What leaves the system: notifications (realtime and push) and dashboard broadcasts.\<close>

datatype event =
    NotifyClient row_id string string row_id order_status
  | NotifyMaster row_id string string row_id order_status
  | DashboardEvent string row_id

record service =
  sv_id :: row_id
  sv_category :: row_id
  sv_name :: string
  sv_description :: string
  base_price :: money
  sv_mxik :: string
  sv_package_code :: string
  sv_vat_percent :: nat
  sv_active :: bool

record sys =
  orders :: "order list"
  order_masters :: "order_master list"
  order_assistants :: "order_master list"
  usages :: "inventory_usage list"
  trackings :: "order_tracking list"
  reviews :: "review list"
  outbox :: "event list"
  wallet :: wallet_db
  warehouse :: warehouse_db
  profiles :: profiles_db
  catalog :: "service list"

record env =
  env_now :: instant
  env_today :: int
  env_time :: int
  env_master :: "row_id \<Rightarrow> string"

definition service_str :: "row_id \<Rightarrow> sys \<Rightarrow> string" where
  "service_str sid s = (case get_row sv_id sid (catalog s) of None \<Rightarrow> [] | Some v \<Rightarrow> sv_name v)"

section \<open>Amounts\<close>

definition recalculate_total :: "order \<Rightarrow> order" where
  "recalculate_total ord = ord\<lparr>total_amount := max (service_fee ord + inventory_total ord - bonus_used ord) 0\<rparr>"

definition usage_total :: "row_id \<Rightarrow> sys \<Rightarrow> money" where
  "usage_total oid s = sum_rows (\<lambda>u. if ou_order u = oid then ou_total_price u else 0) (usages s)"

definition create_usage :: "row_id \<Rightarrow> row_id \<Rightarrow> qty \<Rightarrow> money \<Rightarrow> sys \<Rightarrow> sys" where
  "create_usage oid iid n price s =
    s\<lparr>usages := add_row \<lparr>ou_id = fresh_id ou_id (usages s), ou_order = oid, ou_inventory = iid, ou_quantity = n,
        ou_unit_price = price, ou_total_price = quantize2 (n * price)\<rparr> (usages s)\<rparr>"

section \<open>Signals\<close>

fun STATUS_MESSAGES :: "order_status \<Rightarrow> (string \<times> string) option" where
  "STATUS_MESSAGES NEW = None"
| "STATUS_MESSAGES ACCEPTED = Some (''Buyurtma qabul qilindi'', ''Usta buyurtmangizni qabul qildi'')"
| "STATUS_MESSAGES ON_WAY = Some (''Usta yo'lda'', ''Usta buyurtma manziliga yo'lga chiqdi'')"
| "STATUS_MESSAGES ARRIVED = Some (''Usta yetib keldi'', ''Usta buyurtma manziliga yetib keldi'')"
| "STATUS_MESSAGES AWAITING_PAYMENT = Some (''Chek tayyor'', ''Usta chekni yubordi - to'lovni amalga oshiring'')"
| "STATUS_MESSAGES COMPLETED = Some (''Buyurtma yakunlandi'', ''Usta buyurtmani yakunladi'')"
| "STATUS_MESSAGES CANCELLED = Some (''Buyurtma bekor qilindi'', ''Buyurtmangiz bekor qilindi'')"
| "STATUS_MESSAGES REJECTED = Some (''Buyurtma rad etildi'', ''Usta buyurtmani rad etdi'')"

fun MASTER_STATUS_MESSAGES :: "order_status \<Rightarrow> string option" where
  "MASTER_STATUS_MESSAGES NEW = None"
| "MASTER_STATUS_MESSAGES ACCEPTED = Some ''Buyurtma qabul qilindi''"
| "MASTER_STATUS_MESSAGES ON_WAY = Some ''Buyurtma: yo'lda''"
| "MASTER_STATUS_MESSAGES ARRIVED = Some ''Buyurtma: manzilga yetib borildi''"
| "MASTER_STATUS_MESSAGES AWAITING_PAYMENT = Some ''Chek yuborildi, to'lov kutilmoqda''"
| "MASTER_STATUS_MESSAGES COMPLETED = Some ''Buyurtma yakunlandi''"
| "MASTER_STATUS_MESSAGES CANCELLED = Some ''Buyurtma bekor qilindi''"
| "MASTER_STATUS_MESSAGES REJECTED = Some ''Buyurtma rad etildi''"

text \<open>The dictionary keyed by master: the lead first, then the active assigned masters, each once.\<close>

fun dict_keys :: "row_id list \<Rightarrow> row_id list \<Rightarrow> row_id list" where
  "dict_keys acc [] = acc"
| "dict_keys acc (m # ms) = dict_keys (if m \<in> set acc then acc else acc @ [m]) ms"

definition active_masters :: "order \<Rightarrow> sys \<Rightarrow> row_id list" where
  "active_masters ord s =
    dict_keys (case o_master ord of None \<Rightarrow> [] | Some m \<Rightarrow> [m])
      (map om_master (filter (\<lambda>r. om_order r = o_id ord \<and> om_active r) (order_masters s)))"

definition send :: "event list \<Rightarrow> sys \<Rightarrow> sys" where
  "send evs s = s\<lparr>outbox := outbox s @ evs\<rparr>"

definition notify_status_change :: "order \<Rightarrow> sys \<Rightarrow> sys" where
  "notify_status_change ord s =
    (let reason = (if o_status ord = CANCELLED then cancel_reason ord
                   else if o_status ord = REJECTED then rejected_reason ord else []);
         (title, body) = (case STATUS_MESSAGES (o_status ord) of
             Some tb \<Rightarrow> tb | None \<Rightarrow> (''Buyurtma holati yangilandi'', []));
         mtitle = (case MASTER_STATUS_MESSAGES (o_status ord) of
             Some t \<Rightarrow> t | None \<Rightarrow> ''Buyurtma holati yangilandi'')
     in send (NotifyClient (o_client ord) title (if reason = [] then body else reason) (o_id ord) (o_status ord)
          # map (\<lambda>m. NotifyMaster m mtitle reason (o_id ord) (o_status ord)) (active_masters ord s)) s)"

definition ensure_tracking :: "row_id \<Rightarrow> sys \<Rightarrow> sys" where
  "ensure_tracking oid s =
    (case get_row ot_order oid (trackings s) of
       Some _ \<Rightarrow> s
     | None \<Rightarrow> s\<lparr>trackings := add_row \<lparr>ot_order = oid, master_lat = None, master_lng = None,
                    ot_distance_km = None, ot_eta_minutes = None\<rparr> (trackings s)\<rparr>)"

text \<open>The \<open>post_save\<close> receiver; \<open>previous\<close> is the row as it was loaded, \<open>None\<close> for a creation.\<close>

definition sync_order_status :: "order option \<Rightarrow> order \<Rightarrow> sys \<Rightarrow> sys" where
  "sync_order_status previous ord s =
    (case previous of
       None \<Rightarrow> send [DashboardEvent ''order.created'' (o_id ord)] (ensure_tracking (o_id ord) s)
     | Some old \<Rightarrow>
         (let s1 = (if o_status old \<noteq> o_status ord
                    then notify_status_change ord
                           (send [DashboardEvent ''order.status_changed'' (o_id ord)] (ensure_tracking (o_id ord) s))
                    else s)
          in if o_master old \<noteq> None \<and> o_master old \<noteq> o_master ord
             then send [DashboardEvent ''order.master_changed'' (o_id ord)] s1
             else s1))"

definition get_order :: "row_id \<Rightarrow> sys \<Rightarrow> order option" where
  "get_order oid s = get_row o_id oid (orders s)"

text \<open>\<open>order.save()\<close> on a loaded instance and on a new one.\<close>

definition save_order :: "order \<Rightarrow> order \<Rightarrow> sys \<Rightarrow> sys" where
  "save_order old new s =
    sync_order_status (Some old) new (s\<lparr>orders := upd_row o_id (o_id old) (\<lambda>_. new) (orders s)\<rparr>)"

definition insert_order :: "order \<Rightarrow> sys \<Rightarrow> sys \<times> order" where
  "insert_order ord s =
    (let new = ord\<lparr>o_id := fresh_id o_id (orders s)\<rparr>
     in (sync_order_status None new (s\<lparr>orders := add_row new (orders s)\<rparr>), new))"

section \<open>Completion on payment\<close>

definition wallet_method_of :: "payment_type \<Rightarrow> wallet_method" where
  "wallet_method_of pt = (if pt = PT_CASH then CASH else ONLINE)"

definition complete_paid_order :: "env \<Rightarrow> row_id \<Rightarrow> payment_type \<Rightarrow> sys \<Rightarrow> (sys \<times> bool) res" where
  "complete_paid_order e oid pt s =
    bindE (get_or_404 ''Order'' (get_order oid s)) (\<lambda>ord.
      if o_status ord \<noteq> AWAITING_PAYMENT then Inr (s, False)
      else let new = ord\<lparr>o_status := COMPLETED, o_payment_type := Some pt, is_paid := True,
                         paid_at := Some (env_now e)\<rparr>;
               s1 = save_order ord new s
           in case o_master new of
                None \<Rightarrow> Inr (s1, True)
              | Some m \<Rightarrow>
                  if total_amount new = 0 then Inr (s1, True)
                  else bindE (post_wallet_transaction m IN (total_amount new) (wallet_method_of pt)
                              (service_str (o_service new) s1) (Some oid) (env_now e) (wallet s1))
                        (\<lambda>(w, _). Inr (s1\<lparr>wallet := w\<rparr>, True)))"

text \<open>The two operations the payment provider's webhook performs on an order
  (\<open>src/apps/payme/services.py\<close>).\<close>

definition mark_order_paid :: "env \<Rightarrow> row_id \<Rightarrow> sys \<Rightarrow> sys res" where
  "mark_order_paid e oid s =
    bindE (get_or_404 ''Order'' (get_order oid s)) (\<lambda>ord.
      if is_paid ord then Inr s
      else bindE (complete_paid_order e oid PT_ONLINE s) (\<lambda>(s1, completed).
        if completed then Inr s1
        else Inr (save_order ord (ord\<lparr>is_paid := True, paid_at := Some (env_now e)\<rparr>) s1)))"

definition mark_order_payment_cancelled :: "row_id \<Rightarrow> sys \<Rightarrow> sys res" where
  "mark_order_payment_cancelled oid s =
    bindE (get_or_404 ''Order'' (get_order oid s)) (\<lambda>ord.
      if \<not> is_paid ord then Inr s
      else Inr (save_order ord (ord\<lparr>is_paid := False\<rparr>) s))"

section \<open>Assignment of masters\<close>

definition om_key :: "order_master \<Rightarrow> row_id \<times> row_id" where
  "om_key r = (om_order r, om_master r)"

text \<open>One pass per wanted master: create the row, reactivate it, or leave an active row alone;
  the newly assigned masters are collected.\<close>

definition assign_one :: "row_id \<Rightarrow> row_id option \<Rightarrow> row_id \<Rightarrow> order_master list \<times> row_id list \<Rightarrow>
    order_master list \<times> row_id list" where
  "assign_one oid admin m acc =
    (case acc of (rows, newly) \<Rightarrow>
      (case get_row om_key (oid, m) rows of
         None \<Rightarrow> (add_row \<lparr>om_order = oid, om_master = m, om_assigned_by = admin, has_accepted = False,
                           om_active = True\<rparr> rows, newly @ [m])
       | Some r \<Rightarrow>
           if \<not> om_active r
           then (upd_row om_key (oid, m) (\<lambda>r. r\<lparr>om_active := True, om_assigned_by := admin\<rparr>) rows, newly @ [m])
           else (rows, newly)))"

definition deactivate_unwanted :: "row_id \<Rightarrow> row_id list \<Rightarrow> order_master list \<Rightarrow> order_master list" where
  "deactivate_unwanted oid wanted rows =
    map (\<lambda>r. if om_order r = oid \<and> om_master r \<notin> set wanted \<and> om_active r then r\<lparr>om_active := False\<rparr> else r) rows"

text \<open>\<open>sync_related_set\<close> walks over the masters of the database whose key is wanted, so over each
  of them once.\<close>

definition sync_related_set :: "row_id list \<Rightarrow> row_id \<Rightarrow> row_id list \<Rightarrow> row_id option \<Rightarrow> order_master list \<Rightarrow>
    order_master list \<times> row_id list" where
  "sync_related_set all_masters oid wanted admin rows =
    fold (assign_one oid admin) (filter (\<lambda>m. m \<in> set wanted) all_masters) (deactivate_unwanted oid wanted rows, [])"

text \<open>\<open>_sync_set\<close> of the dashboard walks over the list of the request: a master that is named
  twice and has no row yet is created twice, which the unique constraint refuses.\<close>

fun assign_wanted :: "row_id \<Rightarrow> row_id option \<Rightarrow> row_id list \<Rightarrow> row_id list \<Rightarrow> order_master list \<times> row_id list \<Rightarrow>
    order_master list \<times> row_id list \<times> error option" where
  "assign_wanted oid admin existing [] (rows, newly) = (rows, newly, None)"
| "assign_wanted oid admin existing (m # ms) (rows, newly) =
    (if m \<notin> set existing \<and> get_row om_key (oid, m) rows \<noteq> None
     then (rows, newly, Some (IntegrityError ''unique_together''))
     else assign_wanted oid admin existing ms (assign_one oid admin m (rows, newly)))"

definition sync_set :: "row_id \<Rightarrow> row_id list \<Rightarrow> row_id option \<Rightarrow> order_master list \<Rightarrow>
    order_master list \<times> row_id list \<times> error option" where
  "sync_set oid wanted admin rows =
    assign_wanted oid admin (map om_master (filter (\<lambda>r. om_order r = oid) rows)) wanted
      (deactivate_unwanted oid wanted rows, [])"

section \<open>What saving an order changes\<close>

lemma send_tables [simp]:
  "orders (send evs s) = orders s" "order_masters (send evs s) = order_masters s"
  "order_assistants (send evs s) = order_assistants s" "usages (send evs s) = usages s"
  "trackings (send evs s) = trackings s" "reviews (send evs s) = reviews s"
  "wallet (send evs s) = wallet s" "warehouse (send evs s) = warehouse s"
  "profiles (send evs s) = profiles s" "catalog (send evs s) = catalog s" "outbox (send evs s) = outbox s @ evs"
  by (simp_all add: send_def)

lemma ensure_tracking_tables [simp]:
  "orders (ensure_tracking oid s) = orders s" "order_masters (ensure_tracking oid s) = order_masters s"
  "order_assistants (ensure_tracking oid s) = order_assistants s" "usages (ensure_tracking oid s) = usages s"
  "reviews (ensure_tracking oid s) = reviews s" "wallet (ensure_tracking oid s) = wallet s"
  "warehouse (ensure_tracking oid s) = warehouse s" "profiles (ensure_tracking oid s) = profiles s"
  "catalog (ensure_tracking oid s) = catalog s" "outbox (ensure_tracking oid s) = outbox s"
  by (simp_all add: ensure_tracking_def split: option.split)

lemma notify_tables [simp]:
  "orders (notify_status_change ord s) = orders s" "order_masters (notify_status_change ord s) = order_masters s"
  "order_assistants (notify_status_change ord s) = order_assistants s" "usages (notify_status_change ord s) = usages s"
  "reviews (notify_status_change ord s) = reviews s" "wallet (notify_status_change ord s) = wallet s"
  "warehouse (notify_status_change ord s) = warehouse s" "profiles (notify_status_change ord s) = profiles s"
  "catalog (notify_status_change ord s) = catalog s"
  by (simp_all add: notify_status_change_def case_prod_beta Let_def)

lemma sync_tables [simp]:
  "orders (sync_order_status prev ord s) = orders s" "order_masters (sync_order_status prev ord s) = order_masters s"
  "order_assistants (sync_order_status prev ord s) = order_assistants s" "usages (sync_order_status prev ord s) = usages s"
  "reviews (sync_order_status prev ord s) = reviews s" "wallet (sync_order_status prev ord s) = wallet s"
  "warehouse (sync_order_status prev ord s) = warehouse s" "profiles (sync_order_status prev ord s) = profiles s"
  "catalog (sync_order_status prev ord s) = catalog s"
  by (simp_all add: sync_order_status_def Let_def split: option.split)

lemma save_order_tables [simp]:
  "orders (save_order old new s) = upd_row o_id (o_id old) (\<lambda>_. new) (orders s)"
  "order_masters (save_order old new s) = order_masters s"
  "order_assistants (save_order old new s) = order_assistants s" "usages (save_order old new s) = usages s"
  "reviews (save_order old new s) = reviews s" "wallet (save_order old new s) = wallet s"
  "warehouse (save_order old new s) = warehouse s" "profiles (save_order old new s) = profiles s"
  "catalog (save_order old new s) = catalog s"
  by (simp_all add: save_order_def)

lemma create_usage_tables [simp]:
  "orders (create_usage oid iid n pr s) = orders s" "order_masters (create_usage oid iid n pr s) = order_masters s"
  "reviews (create_usage oid iid n pr s) = reviews s" "wallet (create_usage oid iid n pr s) = wallet s"
  "warehouse (create_usage oid iid n pr s) = warehouse s" "profiles (create_usage oid iid n pr s) = profiles s"
  by (simp_all add: create_usage_def)

lemma insert_order_tables [simp]:
  "orders (fst (insert_order ord s)) = add_row (ord\<lparr>o_id := fresh_id o_id (orders s)\<rparr>) (orders s)"
  "snd (insert_order ord s) = ord\<lparr>o_id := fresh_id o_id (orders s)\<rparr>"
  "wallet (fst (insert_order ord s)) = wallet s" "warehouse (fst (insert_order ord s)) = warehouse s"
  by (simp_all add: insert_order_def Let_def)

lemma get_order_save [simp]:
  assumes "get_order (o_id old) s = Some r" and "o_id new = o_id old"
  shows "get_order oid (save_order old new s) = (if oid = o_id old then Some new else get_order oid s)"
  using assms by (auto simp: get_order_def get_row_replace)

lemma get_order_cong: "orders s = orders s' \<Longrightarrow> get_order oid s = get_order oid s'"
  by (simp add: get_order_def)

lemma get_order_id: "get_order oid s = Some ord \<Longrightarrow> o_id ord = oid"
  by (auto simp: get_order_def dest: get_row_key)

end
