(* ===== verification/Order_Views.thy ===== *)
theory Order_Views
  imports Order_Model
begin

text \<open>
  The endpoints that write orders: the master and client views of
  \<open>src/apps/orders/views.py\<close> with their serializers, the use of inventory in
  \<open>src/apps/warehouse/views.py\<close>, and the write paths of the dashboard and of the internal
  API. Each handler is a function from the state to an error or the new state; an
  error inside a transaction leaves the state as it was.
\<close>

section \<open>Locked lookup\<close>

definition lock_order_for_transition ::
  "row_id \<Rightarrow> order_status list \<Rightarrow> (order \<Rightarrow> bool) \<Rightarrow> sys \<Rightarrow> order res" where
  "lock_order_for_transition pk allowed_statuses owned s =
    bindE (get_or_404 ''Order'' (get_row o_id pk (filter owned (orders s)))) (\<lambda>ord.
      if o_status ord \<notin> set allowed_statuses then Inl (ValidationError ''status'')
      else Inr ord)"

definition owned_by_master :: "row_id \<Rightarrow> order \<Rightarrow> bool" where
  "owned_by_master m ord = (o_master ord = Some m)"

definition owned_by_client :: "row_id \<Rightarrow> order \<Rightarrow> bool" where
  "owned_by_client c ord = (o_client ord = c)"

text \<open>A required, non-blank text of at most 255 characters.\<close>

definition reason_valid :: "string \<Rightarrow> unit res" where
  "reason_valid reason = guardE (reason \<noteq> [] \<and> length reason \<le> 255) (ValidationError ''reason'')"

section \<open>Master\<close>

definition MasterOrderAcceptView_post :: "row_id \<Rightarrow> row_id \<Rightarrow> sys \<Rightarrow> sys res" where
  "MasterOrderAcceptView_post user pk s =
    bindE (get_or_404 ''OrderMaster'' (get_row om_key (pk, user) (filter om_active (order_masters s)))) (\<lambda>a.
    bindE (get_or_404 ''Order'' (get_order pk s)) (\<lambda>ord.
      let s1 = (if o_status ord = NEW
                then ensure_tracking pk (save_order ord (ord\<lparr>o_master := Some user, o_status := ACCEPTED\<rparr>) s)
                else s)
      in Inr (if \<not> has_accepted a
              then s1\<lparr>order_masters := upd_row om_key (pk, user) (\<lambda>r. r\<lparr>has_accepted := True\<rparr>) (order_masters s1)\<rparr>
              else s1)))"

definition MasterOrderOnWayView_post :: "row_id \<Rightarrow> row_id \<Rightarrow> sys \<Rightarrow> sys res" where
  "MasterOrderOnWayView_post user pk s =
    bindE (lock_order_for_transition pk [ACCEPTED] (owned_by_master user) s) (\<lambda>ord.
      Inr (ensure_tracking pk (save_order ord (ord\<lparr>o_status := ON_WAY\<rparr>) s)))"

definition OrderStartSerializer_save :: "order \<Rightarrow> sys \<Rightarrow> sys res" where
  "OrderStartSerializer_save ord s =
    (if o_status ord = ARRIVED then Inr s
     else if o_status ord \<noteq> ON_WAY then Inl (ValidationError ''status'')
     else Inr (save_order ord (ord\<lparr>o_status := ARRIVED\<rparr>) s))"

definition MasterOrderStartView_post :: "row_id \<Rightarrow> row_id \<Rightarrow> sys \<Rightarrow> sys res" where
  "MasterOrderStartView_post user pk s =
    bindE (get_or_404 ''Order'' (get_row o_id pk (filter (owned_by_master user) (orders s)))) (\<lambda>ord.
      bindE (OrderStartSerializer_save ord s) (\<lambda>s1. Inr (ensure_tracking pk s1)))"

definition MasterOrderRejectView_post :: "row_id \<Rightarrow> row_id \<Rightarrow> string \<Rightarrow> sys \<Rightarrow> sys res" where
  "MasterOrderRejectView_post user pk reason s =
    bindE (reason_valid reason) (\<lambda>_.
    bindE (lock_order_for_transition pk [NEW, ACCEPTED, ON_WAY, ARRIVED] (owned_by_master user) s) (\<lambda>ord.
      Inr (save_order ord (ord\<lparr>o_status := REJECTED, rejected_reason := reason\<rparr>) s)))"

subsection \<open>Submitting the check\<close>

definition COMPLETABLE_STATUSES :: "order_status list" where
  "COMPLETABLE_STATUSES = [ACCEPTED, ON_WAY, ARRIVED]"

record check_input =
  ci_service_fee :: money
  ci_comment :: "string option"
  ci_used_items :: "(row_id \<times> qty) list"

definition OrderCompleteSerializer_validate :: "check_input \<Rightarrow> order \<Rightarrow> unit res" where
  "OrderCompleteSerializer_validate ci ord =
    bindE (guardE (list_all (\<lambda>(_, n). 1 \<le> n) (ci_used_items ci)) (ValidationError ''used_items'')) (\<lambda>_.
      if o_status ord \<notin> set COMPLETABLE_STATUSES
      then if o_status ord \<in> {AWAITING_PAYMENT, COMPLETED}
           then Inl (ValidationError ''Chek allaqachon yuborilgan'')
           else Inl (ValidationError ''Buyurtmani bu holatda yakunlab bo'lmaydi'')
      else Inr ())"

text \<open>The loop over the used items. The result carries the sum of the unrounded prices, in
  units of 1/10000, as the loop variable of the code does.\<close>

fun consume_items :: "row_id \<Rightarrow> row_id option \<Rightarrow> (row_id \<times> qty) list \<Rightarrow> int \<Rightarrow> sys \<Rightarrow> (sys \<times> int) res" where
  "consume_items oid m [] tot s = Inr (s, tot)"
| "consume_items oid m ((iid, n) # items) tot s =
    (case get_row mi_id iid (filter (\<lambda>i. Some (mi_master i) = m) (inventory (warehouse s))) of
       None \<Rightarrow> Inl (ServerError ''MasterInventory.DoesNotExist'')
     | Some i \<Rightarrow>
         (case get_row pr_id (mi_product i) (products (warehouse s)) of
            None \<Rightarrow> Inl (ServerError ''WarehouseProduct.DoesNotExist'')
          | Some p \<Rightarrow>
              if mi_quantity i < n then Inl (ValidationError ''Usta omborida yetarli mahsulot yo'q'')
              else let s1 = s\<lparr>warehouse := set_inventory_quantity iid (mi_quantity i - n) (warehouse s)\<rparr>
                   in consume_items oid m items (tot + n * sale_price p) (create_usage oid iid n (sale_price p) s1)))"

text \<open>\<open>inventory_total = Sum(...) or inventory_total\<close>: the stored sum, and only when it is zero
  the sum of the loop; then \<open>recalculate_total\<close>, and rounding when the row is stored.\<close>

definition check_totals :: "money \<Rightarrow> money \<Rightarrow> int \<Rightarrow> order \<Rightarrow> order" where
  "check_totals fee stored loop_total ord =
    (let inv4 = (if stored \<noteq> 0 then 100 * stored else loop_total)
     in ord\<lparr>service_fee := fee, inventory_total := quantize2 inv4,
            total_amount := quantize2 (max (100 * fee + inv4 - 100 * bonus_used ord) 0)\<rparr>)"

definition submitted_row :: "env \<Rightarrow> check_input \<Rightarrow> money \<Rightarrow> int \<Rightarrow> order \<Rightarrow> order" where
  "submitted_row e ci stored loop_total ord =
    (check_totals (ci_service_fee ci) stored loop_total ord)
      \<lparr>completion_note := (case ci_comment ci of
          Some c \<Rightarrow> if c = [] then completion_note ord else c | None \<Rightarrow> completion_note ord),
       o_status := AWAITING_PAYMENT, receipt_approved_at := Some (env_now e),
       receipt_approved_by := o_master ord\<rparr>"

definition OrderCompleteSerializer_save :: "env \<Rightarrow> row_id \<Rightarrow> check_input \<Rightarrow> sys \<Rightarrow> sys res" where
  "OrderCompleteSerializer_save e pk ci s =
    bindE (get_or_404 ''Order'' (get_order pk s)) (\<lambda>ord.
      if o_status ord \<notin> set COMPLETABLE_STATUSES then Inl (ValidationError ''Chek allaqachon yuborilgan'')
      else bindE (consume_items pk (o_master ord) (ci_used_items ci) 0 s) (\<lambda>(s1, loop_total).
        Inr (save_order ord (submitted_row e ci (usage_total pk s1) loop_total ord) s1)))"

definition MasterOrderCompleteView_post :: "env \<Rightarrow> row_id \<Rightarrow> row_id \<Rightarrow> check_input \<Rightarrow> sys \<Rightarrow> sys res" where
  "MasterOrderCompleteView_post e user pk ci s =
    bindE (get_or_404 ''Order'' (get_row o_id pk (filter (owned_by_master user) (orders s)))) (\<lambda>ord.
      bindE (OrderCompleteSerializer_validate ci ord) (\<lambda>_.
        OrderCompleteSerializer_save e pk ci s))"

definition approve_order_receipt :: "env \<Rightarrow> order \<Rightarrow> row_id \<Rightarrow> sys \<Rightarrow> (sys \<times> bool) res" where
  "approve_order_receipt e ord m s =
    (if o_status ord \<noteq> COMPLETED then Inl (ValidationError ''status: Check faqat completed order uchun tasdiqlanadi'')
     else if receipt_approved_at ord \<noteq> None then Inr (s, False)
     else Inr (save_order ord (ord\<lparr>receipt_approved_at := Some (env_now e), receipt_approved_by := Some m\<rparr>) s, True))"

definition MasterOrderReceiptConfirmView_post :: "env \<Rightarrow> row_id \<Rightarrow> row_id \<Rightarrow> sys \<Rightarrow> sys res" where
  "MasterOrderReceiptConfirmView_post e user pk s =
    bindE (get_or_404 ''Order'' (get_row o_id pk (filter (owned_by_master user) (orders s)))) (\<lambda>ord.
      bindE (approve_order_receipt e ord user s) (\<lambda>(s1, approved_now).
        Inr (if approved_now
             then send [NotifyClient (o_client ord) ''Check tayyor''
                    ''Usta checkni tasdiqladi. Endi PDF faylni yuklab olishingiz mumkin.'' pk (o_status ord)] s1
             else s1)))"

text \<open>\<open>UseInventoryView\<close>: a master books a part on one of the own orders, whatever its status.\<close>

definition UseInventoryView_post :: "row_id \<Rightarrow> row_id \<Rightarrow> row_id \<Rightarrow> qty \<Rightarrow> sys \<Rightarrow> sys res" where
  "UseInventoryView_post user iid oid n s =
    bindE (inventory_of_master user iid (warehouse s)) (\<lambda>i.
    bindE (positive_quantity n) (\<lambda>_.
    bindE (get_or_404 ''Order'' (get_row o_id oid (filter (owned_by_master user) (orders s)))) (\<lambda>ord.
    bindE (UseInventorySerializer_save i n (warehouse s)) (\<lambda>w.
      case get_row pr_id (mi_product i) (products (warehouse s)) of
        None \<Rightarrow> Inl (ServerError ''WarehouseProduct.DoesNotExist'')
      | Some p \<Rightarrow>
          let s1 = create_usage oid iid n (sale_price p) (s\<lparr>warehouse := w\<rparr>)
          in Inr (save_order ord (recalculate_total (ord\<lparr>inventory_total := usage_total oid s1\<rparr>)) s1)))))"

section \<open>Client\<close>

record order_create =
  oc_service :: row_id
  oc_address :: "row_id option"
  oc_device :: "row_id option"
  oc_device_name :: string
  oc_device_model :: string
  oc_device_label :: string
  oc_address_text :: string
  oc_lat :: int
  oc_lng :: int
  oc_date :: int
  oc_time :: int
  oc_note :: string
  oc_payment_type :: "payment_type option"
  oc_cancel_reason :: string
  oc_rejected_reason :: string

definition new_order :: "env \<Rightarrow> row_id \<Rightarrow> order_create \<Rightarrow> order" where
  "new_order e client oc =
    \<lparr>o_id = 0, o_client = client, o_master = None, o_service = oc_service oc, o_address = oc_address oc,
     o_device = None, o_address_text = oc_address_text oc, o_lat = oc_lat oc, o_lng = oc_lng oc,
     scheduled_date = oc_date oc, scheduled_time = oc_time oc, o_note = oc_note oc, completion_note = [],
     o_status = NEW, o_payment_type = oc_payment_type oc, service_fee = 0, inventory_total = 0, bonus_used = 0,
     total_amount = 0, is_paid = False, paid_at = None, receipt_approved_at = None, receipt_approved_by = None,
     cancel_reason = oc_cancel_reason oc, rejected_reason = oc_rejected_reason oc, o_created_at = env_now e\<rparr>"

text \<open>The address an inline device is saved at: the one of the order, else an existing one of the
  client with the same coordinates, else a new one.\<close>

definition device_address :: "row_id \<Rightarrow> order \<Rightarrow> string \<Rightarrow> profiles_db \<Rightarrow> (profiles_db \<times> row_id) res" where
  "device_address client ord label db =
    (case o_address ord of
       Some a \<Rightarrow> Inr (db, a)
     | None \<Rightarrow>
         if o_address_text ord = [] then Inl (ValidationError ''device_name'')
         else (case find (\<lambda>a. ca_client a = client \<and> ca_lat a = o_lat ord \<and> ca_lng a = o_lng ord) (addresses db) of
                 Some a \<Rightarrow> Inr (db, ca_id a)
               | None \<Rightarrow> Inr (create_address \<lparr>ca_id = 0, ca_client = client,
                           ca_label = (if label = [] then ''Manzil'' else label),
                           ca_address_text = o_address_text ord, ca_lat = o_lat ord, ca_lng = o_lng ord,
                           is_default = False\<rparr> db)))"

definition resolve_device :: "row_id \<Rightarrow> order \<Rightarrow> order_create \<Rightarrow> profiles_db \<Rightarrow> (profiles_db \<times> row_id option) res" where
  "resolve_device client ord oc db =
    (case oc_device oc of
       Some did \<Rightarrow>
         (case get_row cd_id did (devices db) of
            None \<Rightarrow> Inl (ValidationError ''device'')
          | Some d \<Rightarrow> if cd_client d \<noteq> client then Inl (ValidationError ''device: Bu qurilma sizga tegishli emas.'')
                      else Inr (db, Some did))
     | None \<Rightarrow>
         if oc_device_name oc = [] then Inr (db, None)
         else bindE (device_address client ord (oc_device_label oc) db) (\<lambda>(db1, aid).
           let (db2, did) = create_device \<lparr>cd_id = 0, cd_client = client, cd_name = oc_device_name oc,
                 cd_model = oc_device_model oc, cd_address = aid, cd_status = DEVICE_ACTIVE\<rparr> db1
           in Inr (db2, Some did)))"

definition OrderSerializer_create :: "env \<Rightarrow> row_id \<Rightarrow> order_create \<Rightarrow> sys \<Rightarrow> (sys \<times> order) res" where
  "OrderSerializer_create e client oc s =
    (let ord = recalculate_total (new_order e client oc) in
     bindE (resolve_device client ord oc (profiles s)) (\<lambda>(db, did).
       let (s1, ord1) = insert_order (ord\<lparr>o_device := did\<rparr>) (s\<lparr>profiles := db\<rparr>)
       in Inr (ensure_tracking (o_id ord1) s1, ord1)))"

definition ClientOrderCancelView_post :: "row_id \<Rightarrow> row_id \<Rightarrow> string \<Rightarrow> sys \<Rightarrow> sys res" where
  "ClientOrderCancelView_post user pk reason s =
    bindE (reason_valid reason) (\<lambda>_.
    bindE (lock_order_for_transition pk [NEW, ACCEPTED, ON_WAY] (owned_by_client user) s) (\<lambda>ord.
      let s1 = save_order ord (ord\<lparr>o_status := CANCELLED, cancel_reason := reason\<rparr>) s
      in Inr (case o_master ord of
                None \<Rightarrow> s1
              | Some m \<Rightarrow> send [NotifyMaster m ''Buyurtma bekor qilindi'' reason pk CANCELLED] s1)))"

definition receipt_ready :: "order \<Rightarrow> bool" where
  "receipt_ready ord = (o_status ord \<in> {AWAITING_PAYMENT, COMPLETED} \<and> receipt_approved_at ord \<noteq> None)"

definition ClientOrderReceiptDownloadView_get :: "row_id \<Rightarrow> row_id \<Rightarrow> sys \<Rightarrow> order res" where
  "ClientOrderReceiptDownloadView_get user pk s =
    bindE (get_or_404 ''Order'' (get_row o_id pk (filter (owned_by_client user) (orders s)))) (\<lambda>ord.
      if \<not> receipt_ready ord then Inl (PermissionDenied ''Check hali usta tomonidan yuborilmagan'')
      else Inr ord)"

definition validate_rating :: "int \<Rightarrow> unit res" where
  "validate_rating v = guardE (\<not> (v < 1 \<or> v > 5)) (ValidationError ''Rating 1 dan 5 gacha bo'lishi kerak'')"

definition rating_text :: "int \<Rightarrow> string" where
  "rating_text v = int_str v @ '' yulduz''"

definition ClientOrderRateView_post :: "row_id \<Rightarrow> row_id \<Rightarrow> int \<Rightarrow> string \<Rightarrow> sys \<Rightarrow> sys res" where
  "ClientOrderRateView_post user pk rating comment s =
    bindE (get_or_404 ''Order''
        (get_row o_id pk (filter (\<lambda>ord. owned_by_client user ord \<and> o_status ord = COMPLETED) (orders s)))) (\<lambda>ord.
      if list_ex (\<lambda>r. rv_order r = pk) (reviews s)
      then Inl (ValidationError ''detail: Bu buyurtma allaqachon baholangan'')
      else bindE (validate_rating rating) (\<lambda>_.
        case o_master ord of
          None \<Rightarrow> Inl (IntegrityError ''reviews.master'')
        | Some m \<Rightarrow>
            let r = \<lparr>rv_id = fresh_id rv_id (reviews s), rv_order = pk, rv_master = m, rv_client = user,
                     rv_rating = rating, rv_comment = comment, is_official = False\<rparr>
            in Inr (send [NotifyMaster m ''Yangi baho'' (rating_text rating) pk COMPLETED]
                      (s\<lparr>reviews := add_row r (reviews s)\<rparr>))))"

definition total_text :: "order \<Rightarrow> string" where
  "total_text ord = (if service_fee ord + inventory_total ord - bonus_used ord < 0 then ''0'' else money_str (total_amount ord))"

text \<open>The pay view: the method of the request may be missing or unknown (\<open>None\<close>).\<close>

definition ClientOrderPayView_post :: "env \<Rightarrow> row_id \<Rightarrow> row_id \<Rightarrow> payment_type option \<Rightarrow> sys \<Rightarrow> sys res" where
  "ClientOrderPayView_post e user pk method s =
    bindE (get_or_404 ''Order'' (get_row o_id pk (filter (owned_by_client user) (orders s)))) (\<lambda>ord.
      if o_status ord \<noteq> AWAITING_PAYMENT then Inl (ValidationError ''status: To'lov faqat chek yuborilgandan keyin'')
      else if is_paid ord then Inl (ValidationError ''status: Buyurtma allaqachon to'langan'')
      else if method = Some PT_CASH
      then bindE (complete_paid_order e pk PT_CASH s) (\<lambda>(s1, _). Inr s1)
      else
        (case method of
           None \<Rightarrow> Inl (ValidationError ''payment_method'')
         | Some m \<Rightarrow>
             let ord1 = ord\<lparr>o_payment_type := Some PT_ONLINE\<rparr>;
                 s1 = save_order ord ord1 s;
                 ord2 = recalculate_total ord1;
                 s2 = save_order ord1 ord2 s1
             in Inr (case o_master ord2 of
                       None \<Rightarrow> s2
                     | Some mm \<Rightarrow> send [NotifyMaster mm ''To'lov boshlandi'' (''Buyurtma uchun to'lov: '' @ total_text ord2) pk (o_status ord2)] s2)))"

end
