(* ===== verification/Order_Admin.thy ===== *)
theory Order_Admin
  imports Order_Views
begin

text \<open>
  The write paths of the administration on orders: the dashboard's order serializers
  (\<open>src/apps/dashboard/serializers.py\<close>), the internal API
  (\<open>src/apps/internal_api/serializers.py\<close>, \<open>views.py\<close>) and the assignment page of the
  admin site (\<open>src/apps/orders/admin.py\<close>).

  The parsing of dates and times is done by the framework; its outcome is part of the
  request (\<open>Absent\<close>, \<open>Unparsable\<close> or \<open>Parsed\<close>).
\<close>

section \<open>Dashboard: create, update, delete\<close>

record order_patch =
  op_client :: "row_id option"
  op_master :: "row_id option option"
  op_service :: "row_id option"
  op_address :: "row_id option option"
  op_address_text :: "string option"
  op_lat :: "int option"
  op_lng :: "int option"
  op_date :: "int option"
  op_time :: "int option"
  op_note :: "string option"
  op_status :: "order_status option"
  op_payment_type :: "payment_type option option"
  op_service_fee :: "money option"
  op_inventory_total :: "money option"
  op_bonus_used :: "money option"
  op_total_amount :: "money option"
  op_completion_note :: "string option"
  op_cancel_reason :: "string option"
  op_rejected_reason :: "string option"

definition empty_patch :: order_patch where
  "empty_patch = \<lparr>op_client = None, op_master = None, op_service = None, op_address = None, op_address_text = None,
     op_lat = None, op_lng = None, op_date = None, op_time = None, op_note = None, op_status = None,
     op_payment_type = None, op_service_fee = None, op_inventory_total = None, op_bonus_used = None,
     op_total_amount = None, op_completion_note = None, op_cancel_reason = None, op_rejected_reason = None\<rparr>"

definition patch_order :: "order_patch \<Rightarrow> order \<Rightarrow> order" where
  "patch_order p ord = ord\<lparr>o_client := sent_or (op_client p) (o_client ord),
     o_master := sent_or (op_master p) (o_master ord), o_service := sent_or (op_service p) (o_service ord),
     o_address := sent_or (op_address p) (o_address ord),
     o_address_text := sent_or (op_address_text p) (o_address_text ord),
     o_lat := sent_or (op_lat p) (o_lat ord), o_lng := sent_or (op_lng p) (o_lng ord),
     scheduled_date := sent_or (op_date p) (scheduled_date ord),
     scheduled_time := sent_or (op_time p) (scheduled_time ord), o_note := sent_or (op_note p) (o_note ord),
     completion_note := sent_or (op_completion_note p) (completion_note ord),
     o_status := sent_or (op_status p) (o_status ord),
     o_payment_type := sent_or (op_payment_type p) (o_payment_type ord),
     service_fee := sent_or (op_service_fee p) (service_fee ord),
     inventory_total := sent_or (op_inventory_total p) (inventory_total ord),
     bonus_used := sent_or (op_bonus_used p) (bonus_used ord),
     total_amount := sent_or (op_total_amount p) (total_amount ord),
     cancel_reason := sent_or (op_cancel_reason p) (cancel_reason ord),
     rejected_reason := sent_or (op_rejected_reason p) (rejected_reason ord)\<rparr>"

definition validate_status :: "order_status \<Rightarrow> order_status option \<Rightarrow> unit res" where
  "validate_status current new =
    (case new of
       None \<Rightarrow> Inr ()
     | Some st \<Rightarrow> guardE (can_admin_set_status current st) (ValidationError ''status: Bu holat o'zgarishiga ruxsat yo'q''))"

text \<open>\<open>attrs.get(...) or getattr(instance, ...)\<close>: a missing or null value falls back to the instance.\<close>

definition or_instance :: "'a option option \<Rightarrow> 'a option \<Rightarrow> 'a option" where
  "or_instance sent inst = (case sent of Some (Some x) \<Rightarrow> Some x | _ \<Rightarrow> inst)"

definition set_default :: "'a option \<Rightarrow> 'a \<Rightarrow> 'a option" where
  "set_default x dflt = (case x of None \<Rightarrow> Some dflt | Some y \<Rightarrow> Some y)"

definition DashboardOrderSerializer_validate :: "order option \<Rightarrow> order_patch \<Rightarrow> sys \<Rightarrow> order_patch res" where
  "DashboardOrderSerializer_validate inst p s =
    (let client = (case op_client p of Some c \<Rightarrow> Some c | None \<Rightarrow> map_option o_client inst);
         address = Option.bind (or_instance (op_address p) (Option.bind inst o_address))
                     (\<lambda>a. get_row ca_id a (addresses (profiles s))) in
     if address \<noteq> None \<and> client \<noteq> None \<and> ca_client (the address) \<noteq> the client
     then Inl (ValidationError ''address: Address shu clientga tegishli emas'')
     else let p1 = (case address of
                      None \<Rightarrow> p
                    | Some a \<Rightarrow> p\<lparr>op_address_text := set_default (op_address_text p) (ca_address_text a),
                                   op_lat := set_default (op_lat p) (ca_lat a),
                                   op_lng := set_default (op_lng p) (ca_lng a)\<rparr>) in
       if inst = None \<and> (op_address_text p1 = None \<or> op_lat p1 = None \<or> op_lng p1 = None)
       then Inl (ValidationError ''Bu field kerak yoki address yuboring'')
       else Inr p1)"

definition blank_order :: "env \<Rightarrow> order" where
  "blank_order e = \<lparr>o_id = 0, o_client = 0, o_master = None, o_service = 0, o_address = None, o_device = None,
     o_address_text = [], o_lat = 0, o_lng = 0, scheduled_date = 0, scheduled_time = 0, o_note = [],
     completion_note = [], o_status = NEW, o_payment_type = None, service_fee = 0, inventory_total = 0,
     bonus_used = 0, total_amount = 0, is_paid = False, paid_at = None, receipt_approved_at = None,
     receipt_approved_by = None, cancel_reason = [], rejected_reason = [], o_created_at = env_now e\<rparr>"

definition DashboardOrderSerializer_create :: "env \<Rightarrow> order_patch \<Rightarrow> sys \<Rightarrow> sys res" where
  "DashboardOrderSerializer_create e p s =
    bindE (guardE (op_client p \<noteq> None \<and> op_service p \<noteq> None \<and> op_date p \<noteq> None \<and> op_time p \<noteq> None)
      (ValidationError ''required'')) (\<lambda>_.
    bindE (validate_status NEW (op_status p)) (\<lambda>_.
    bindE (DashboardOrderSerializer_validate None p s) (\<lambda>p1.
      let (s1, ord) = insert_order (recalculate_total (patch_order p1 (blank_order e))) s
      in Inr (ensure_tracking (o_id ord) s1))))"

definition touches_total :: "order_patch \<Rightarrow> bool" where
  "touches_total p = (op_service_fee p \<noteq> None \<or> op_inventory_total p \<noteq> None \<or> op_bonus_used p \<noteq> None \<or> op_service p \<noteq> None)"

definition DashboardOrderSerializer_update :: "row_id \<Rightarrow> order_patch \<Rightarrow> sys \<Rightarrow> sys res" where
  "DashboardOrderSerializer_update pk p s =
    bindE (get_or_404 ''Order'' (get_order pk s)) (\<lambda>ord.
    bindE (validate_status (o_status ord) (op_status p)) (\<lambda>_.
    bindE (DashboardOrderSerializer_validate (Some ord) p s) (\<lambda>p1.
      let ord1 = patch_order p1 ord;
          ord2 = (if touches_total p1 then recalculate_total ord1 else ord1)
      in Inr (ensure_tracking pk (save_order ord ord2 s)))))"

text \<open>The default \<open>destroy\<close>: Payme transactions protect the order; its dependent rows go with it,
  ledger rows lose their reference.\<close>

definition Order_destroy :: "bool \<Rightarrow> row_id \<Rightarrow> sys \<Rightarrow> sys res" where
  "Order_destroy protected pk s =
    bindE (get_or_404 ''Order'' (get_order pk s)) (\<lambda>ord.
      if protected then Inl (ServerError ''ProtectedError'')
      else Inr (s\<lparr>orders := del_row o_id pk (orders s),
                  order_masters := filter (\<lambda>r. om_order r \<noteq> pk) (order_masters s),
                  order_assistants := filter (\<lambda>r. om_order r \<noteq> pk) (order_assistants s),
                  usages := filter (\<lambda>u. ou_order u \<noteq> pk) (usages s),
                  trackings := filter (\<lambda>t. ot_order t \<noteq> pk) (trackings s),
                  reviews := filter (\<lambda>r. rv_order r \<noteq> pk) (reviews s),
                  wallet := (wallet s)\<lparr>wallet_transactions :=
                     map (\<lambda>t. if wt_order t = Some pk then t\<lparr>wt_order := None\<rparr> else t) (wallet_transactions (wallet s))\<rparr>\<rparr>))"

section \<open>Dashboard: status and assignment\<close>

definition status_write :: "order_status \<Rightarrow> string option \<Rightarrow> string option \<Rightarrow> order \<Rightarrow> order" where
  "status_write new_status cancel rejected ord =
    (let ord1 = ord\<lparr>o_status := new_status\<rparr>;
         ord2 = (if new_status = CANCELLED then ord1\<lparr>cancel_reason := sent_or cancel (cancel_reason ord)\<rparr> else ord1)
     in if new_status = REJECTED then ord2\<lparr>rejected_reason := sent_or rejected (rejected_reason ord)\<rparr> else ord2)"

definition DashboardOrderStatusSerializer_save ::
  "row_id \<Rightarrow> order_status \<Rightarrow> string option \<Rightarrow> string option \<Rightarrow> sys \<Rightarrow> sys res" where
  "DashboardOrderStatusSerializer_save pk new_status cancel rejected s =
    bindE (get_or_404 ''Order'' (get_order pk s)) (\<lambda>ord.
      if \<not> can_admin_set_status (o_status ord) new_status
      then Inl (ValidationError ''status: Bu holat o'zgarishiga ruxsat yo'q'')
      else Inr (ensure_tracking pk (save_order ord (status_write new_status cancel rejected ord) s)))"

definition active_master_ids :: "row_id \<Rightarrow> sys \<Rightarrow> row_id list" where
  "active_master_ids oid s = map om_master (filter (\<lambda>r. om_order r = oid \<and> om_active r) (order_masters s))"

text \<open>The assign serializer is not one transaction: rows written before an integrity error stay.\<close>

definition DashboardOrderAssignSerializer_save ::
  "row_id option \<Rightarrow> row_id \<Rightarrow> row_id list option \<Rightarrow> row_id list option \<Rightarrow> row_id option option \<Rightarrow> sys \<Rightarrow> sys \<times> unit res" where
  "DashboardOrderAssignSerializer_save admin pk masters assistants master s =
    (case get_order pk s of
       None \<Rightarrow> (s, Inl (NotFound ''Order''))
     | Some ord \<Rightarrow>
         if masters = None \<and> assistants = None \<and> master = None
         then (s, Inl (ValidationError ''`masters`, `assistants` yoki `master` yuboring''))
         else
           (let wanted = (case masters of Some ms \<Rightarrow> Some ms | None \<Rightarrow> (case master of Some (Some m) \<Rightarrow> Some [m] | _ \<Rightarrow> None));
                (rows, newly, err1) = (case wanted of
                    None \<Rightarrow> (order_masters s, [], None) | Some ms \<Rightarrow> sync_set pk ms admin (order_masters s));
                s1 = s\<lparr>order_masters := rows\<rparr> in
            case err1 of
              Some er \<Rightarrow> (s1, Inl er)
            | None \<Rightarrow>
                (let (arows, _, err2) = (case assistants of
                        None \<Rightarrow> (order_assistants s, [], None) | Some as \<Rightarrow> sync_set pk as admin (order_assistants s));
                     s2 = s1\<lparr>order_assistants := arows\<rparr> in
                 case err2 of
                   Some er \<Rightarrow> (s2, Inl er)
                 | None \<Rightarrow>
                     (let s3 = send (map (\<lambda>m. NotifyMaster m ''Yangi buyurtma biriktirildi'' (o_address_text ord) pk (o_status ord)) newly)
                                 (ensure_tracking pk s2)
                      in if wanted \<noteq> None \<and> set (active_master_ids pk s) \<noteq> set (active_master_ids pk s3)
                         then (send [DashboardEvent ''order.master_changed'' pk] s3, Inr ())
                         else (s3, Inr ())))))"

text \<open>The assignment page of the admin site replaces both sets and notifies the new masters.\<close>

definition OrderAdmin_assign_row ::
  "row_id list \<Rightarrow> row_id option \<Rightarrow> row_id \<Rightarrow> row_id list \<Rightarrow> row_id list \<Rightarrow> sys \<Rightarrow> sys res" where
  "OrderAdmin_assign_row all_masters admin pk masters assistants s =
    bindE (get_or_404 ''Order'' (get_order pk s)) (\<lambda>ord.
      let (rows, newly) = sync_related_set all_masters pk masters admin (order_masters s);
          (arows, _) = sync_related_set all_masters pk assistants admin (order_assistants s)
      in Inr (send (map (\<lambda>m. NotifyMaster m ''Yangi buyurtma biriktirildi'' (o_address_text ord) pk (o_status ord)) newly)
               (s\<lparr>order_masters := rows, order_assistants := arows\<rparr>)))"

section \<open>Internal API\<close>

datatype 'a parsed = Absent | Unparsable | Parsed 'a

definition ORDER_STATUS_FROM_DASHBOARD :: "string \<Rightarrow> order_status option" where
  "ORDER_STATUS_FROM_DASHBOARD k =
    (if k = ''new'' then Some NEW
     else if k = ''accepted'' then Some ACCEPTED
     else if k = ''on_way'' then Some ON_WAY
     else if k = ''in_progress'' then Some ARRIVED
     else if k = ''arrived'' then Some ARRIVED
     else if k = ''completed'' then Some COMPLETED
     else if k = ''cancelled'' then Some CANCELLED
     else if k = ''delayed'' then Some ARRIVED
     else if k = ''rejected'' then Some REJECTED
     else None)"

record internal_write =
  iw_client :: "row_id option"
  iw_master :: "row_id option option"
  iw_service :: "row_id option"
  iw_status :: "string option"
  iw_payment_type :: "payment_type option"
  iw_price :: "money option"
  iw_scheduled_at :: "(int \<times> int) parsed"
  iw_date :: "int parsed"
  iw_time :: "int parsed"
  iw_address :: "string option"
  iw_address_text :: "string option"
  iw_lat :: "int option"
  iw_lng :: "int option"
  iw_note :: "string option"
  iw_cancelled_reason :: "string option"
  iw_cancel_reason :: "string option"
  iw_rejected_reason :: "string option"

definition internal_schedule :: "env \<Rightarrow> internal_write \<Rightarrow> (int \<times> int) res" where
  "internal_schedule e w =
    (case iw_scheduled_at w of
       Unparsable \<Rightarrow> Inl (ValidationError ''scheduled_at formati noto'g'ri'')
     | Parsed (d, t) \<Rightarrow> Inr (d, t)
     | Absent \<Rightarrow>
         bindE (case iw_date w of
                  Unparsable \<Rightarrow> Inl (ValidationError ''scheduled_date formati noto'g'ri'')
                | Parsed d \<Rightarrow> Inr d
                | Absent \<Rightarrow> Inr (env_today e)) (\<lambda>d.
         bindE (case iw_time w of
                  Unparsable \<Rightarrow> Inl (ValidationError ''scheduled_time formati noto'g'ri'')
                | Parsed t \<Rightarrow> Inr t
                | Absent \<Rightarrow> Inr (env_time e)) (\<lambda>t. Inr (d, t))))"

text \<open>\<open>validate\<close>: the patch it leaves. With both \<open>address\<close> and \<open>address_text\<close> the text stays
  under the name of the foreign key, and assigning it fails when the row is built.\<close>

definition InternalOrderWriteSerializer_validate :: "env \<Rightarrow> order option \<Rightarrow> internal_write \<Rightarrow> order_patch res" where
  "InternalOrderWriteSerializer_validate e inst w =
    bindE (internal_schedule e w) (\<lambda>(d, t).
    bindE (case iw_status w of
             None \<Rightarrow> Inr None
           | Some k \<Rightarrow>
               (case ORDER_STATUS_FROM_DASHBOARD k of
                  None \<Rightarrow> Inl (ValidationError ''status'')
                | Some st \<Rightarrow>
                    if can_admin_set_status (case inst of None \<Rightarrow> NEW | Some ord \<Rightarrow> o_status ord) st
                    then Inr (Some st) else Inl (ValidationError ''status: Bu holatga o'tkazib bo'lmaydi''))) (\<lambda>st.
      if iw_address w \<noteq> None \<and> iw_address_text w \<noteq> None then Inl (ServerError ''ValueError: address'')
      else Inr (empty_patch\<lparr>op_client := iw_client w, op_master := iw_master w, op_service := iw_service w,
             op_status := st, op_payment_type := map_option Some (iw_payment_type w),
             op_date := Some d, op_time := Some t,
             op_address_text := (case iw_address_text w of Some a \<Rightarrow> Some a | None \<Rightarrow> iw_address w),
             op_lat := iw_lat w, op_lng := iw_lng w, op_note := iw_note w,
             op_cancel_reason := (case iw_cancel_reason w of Some r \<Rightarrow> Some r | None \<Rightarrow> iw_cancelled_reason w),
             op_rejected_reason := iw_rejected_reason w\<rparr>)))"

definition InternalOrderWriteSerializer_create :: "env \<Rightarrow> internal_write \<Rightarrow> sys \<Rightarrow> sys res" where
  "InternalOrderWriteSerializer_create e w s =
    bindE (InternalOrderWriteSerializer_validate e None w) (\<lambda>p.
      if iw_cancelled_reason w \<noteq> None \<and> iw_cancel_reason w \<noteq> None then Inl (ServerError ''TypeError: cancelled_reason'')
      else if op_client p = None \<or> op_service p = None then Inl (IntegrityError ''orders'')
      else let price = (case iw_price w of None \<Rightarrow> 0 | Some a \<Rightarrow> a);
               ord = (patch_order p (blank_order e))\<lparr>service_fee := price, total_amount := price\<rparr>;
               (s1, ord1) = insert_order ord s
           in Inr (save_order ord1 (recalculate_total ord1) s1))"

definition InternalOrderWriteSerializer_update :: "env \<Rightarrow> row_id \<Rightarrow> internal_write \<Rightarrow> sys \<Rightarrow> sys res" where
  "InternalOrderWriteSerializer_update e pk w s =
    bindE (get_or_404 ''Order'' (get_order pk s)) (\<lambda>ord.
    bindE (InternalOrderWriteSerializer_validate e (Some ord) w) (\<lambda>p.
      let ord1 = patch_order p ord;
          ord2 = (case iw_price w of None \<Rightarrow> ord1 | Some a \<Rightarrow> ord1\<lparr>service_fee := a, total_amount := a\<rparr>)
      in Inr (save_order ord (recalculate_total ord2) s)))"

text \<open>\<open>OrderAssignAPIView\<close>; \<open>known\<close> says whether the requested master exists and is active.\<close>

definition OrderAssignAPIView_patch :: "(row_id \<Rightarrow> bool) \<Rightarrow> row_id \<Rightarrow> row_id option \<Rightarrow> sys \<Rightarrow> sys res" where
  "OrderAssignAPIView_patch known pk master_id s =
    bindE (get_or_404 ''Order'' (get_order pk s)) (\<lambda>ord.
    bindE (case master_id of None \<Rightarrow> Inr () | Some m \<Rightarrow> guardE (known m) (NotFound ''Master'')) (\<lambda>_.
      let ord1 = ord\<lparr>o_master := master_id\<rparr>;
          ord2 = (if master_id \<noteq> None \<and> o_status ord = NEW then ord1\<lparr>o_status := ACCEPTED\<rparr> else ord1)
      in Inr (save_order ord ord2 s)))"

end
