(* ===== verification/References.thy ===== *)
theory References
  imports Prelude
begin

text \<open>
  References between tables: the foreign keys of the database as properties of lists of rows, and how
  they survive the updates of a table.

  \<^item> \<open>refs f rows key tbl\<close>: the key \<open>f\<close> of every row is the key of a row of \<open>tbl\<close>.
  \<^item> \<open>orefs\<close> is the same for a column that may be null.
\<close>

definition refs :: "('r \<Rightarrow> 'k) \<Rightarrow> 'r list \<Rightarrow> ('s \<Rightarrow> 'k) \<Rightarrow> 's list \<Rightarrow> bool" where
  "refs f rows key tbl = (f ` set rows \<subseteq> key ` set tbl)"

named_theorems refs_intros \<open>references after updates of a table\<close>

lemma refs_in: "get_row key k tbl = Some x \<Longrightarrow> k \<in> key ` set tbl"
  using get_row_SomeD by fastforce

lemma refs_mono [refs_intros]: "refs f rows key tbl \<Longrightarrow> refs f rows key (add_row x tbl)"
  by (auto simp: refs_def)

lemma refs_add [refs_intros]: "refs f rows key tbl \<Longrightarrow> f r \<in> key ` set tbl \<Longrightarrow> refs f (add_row r rows) key tbl"
  by (simp add: refs_def)

lemma refs_replace [refs_intros]:
  "refs f rows key tbl \<Longrightarrow> f r \<in> key ` set tbl \<Longrightarrow> refs f (upd_row id' k (\<lambda>_. r) rows) key tbl"
  by (auto simp: refs_def dest!: in_upd_row)

lemma key_set_replace: "key x = k \<Longrightarrow> key ` set (upd_row key k (\<lambda>_. x) tbl) = key ` set tbl"
  by (metis keys_replace set_map)

lemma refs_target [refs_intros]:
  "refs f rows key tbl \<Longrightarrow> key x = k \<Longrightarrow> refs f rows key (upd_row key k (\<lambda>_. x) tbl)"
  by (simp add: refs_def key_set_replace)

lemma refs_filter [refs_intros]: "refs f rows key tbl \<Longrightarrow> refs f (filter P rows) key tbl"
  by (auto simp: refs_def)

lemma refs_del [refs_intros]: "refs f rows key tbl \<Longrightarrow> refs f (del_row id' k rows) key tbl"
  by (simp add: del_row_def refs_filter)

section \<open>Rows that go\<close>

lemma get_row_filter_key: "Q k \<Longrightarrow> get_row key k (filter (\<lambda>x. Q (key x)) rows) = get_row key k rows"
  by (induction rows) auto

text \<open>The rows are chosen by another column: a key that none of the deleted rows has stays.\<close>

lemma key_stays: "k \<in> key ` set tbl \<Longrightarrow> k \<notin> key ` set (filter P tbl) \<Longrightarrow> k \<in> key ` set (filter (\<lambda>x. \<not> P x) tbl)"
  by (auto simp: image_iff)

text \<open>Rows and the rows they refer to are deleted together: whoever stays refers to one that stays.\<close>

lemma refs_cascade:
  "refs f rows key tbl \<Longrightarrow> (\<And>r. r \<in> set rows \<Longrightarrow> P r \<Longrightarrow> Q (f r)) \<Longrightarrow> refs f (filter P rows) key (filter (\<lambda>x. Q (key x)) tbl)"
  by (fastforce simp: refs_def)

lemma refs_filter_target:
  "refs f rows key tbl \<Longrightarrow> \<forall>r \<in> set rows. Q (f r) \<Longrightarrow> refs f rows key (filter (\<lambda>x. Q (key x)) tbl)"
  by (fastforce simp: refs_def)

lemma refs_del_target:
  "refs f rows key tbl \<Longrightarrow> \<forall>r \<in> set rows. f r \<noteq> k \<Longrightarrow> refs f rows key (del_row key k tbl)"
  by (simp add: del_row_def refs_filter_target [of f rows key tbl "\<lambda>x. x \<noteq> k"])

lemma refs_rest:
  "refs f rows key tbl \<Longrightarrow> refs f (filter (\<lambda>r. Q (f r)) rows) key (filter (\<lambda>x. Q (key x)) tbl)"
  by (rule refs_cascade)

lemma refs_map: "(\<And>r. r \<in> set rows \<Longrightarrow> f (g r) = f r) \<Longrightarrow> refs f (map g rows) key tbl = refs f rows key tbl"
  by (simp add: refs_def image_image cong: image_cong_simp)

lemma refs_map_target: "(\<And>x. x \<in> set tbl \<Longrightarrow> key (g x) = key x) \<Longrightarrow> refs f rows key (map g tbl) = refs f rows key tbl"
  by (simp add: refs_def image_image cong: image_cong_simp)

section \<open>Columns that may be null\<close>

definition orefs :: "('r \<Rightarrow> 'k option) \<Rightarrow> 'r list \<Rightarrow> ('s \<Rightarrow> 'k) \<Rightarrow> 's list \<Rightarrow> bool" where
  "orefs f rows key tbl = (\<forall>r \<in> set rows. \<forall>k. f r = Some k \<longrightarrow> k \<in> key ` set tbl)"

lemma orefs_Nil [simp]: "orefs f [] key tbl" "refs f' [] key' tbl'"
  by (simp_all add: orefs_def refs_def)

lemma orefs_cascade:
  "orefs f rows key tbl \<Longrightarrow> (\<And>r k. r \<in> set rows \<Longrightarrow> P r \<Longrightarrow> f r = Some k \<Longrightarrow> Q k) \<Longrightarrow>
    orefs f (filter P rows) key (filter (\<lambda>x. Q (key x)) tbl)"
  by (fastforce simp: orefs_def)

text \<open>\<open>SET_NULL\<close>: the column is emptied where the row it refers to goes.\<close>

lemma orefs_set_null:
  "orefs f rows key tbl \<Longrightarrow> (\<And>r k. r \<in> set rows \<Longrightarrow> P r \<Longrightarrow> f (g r) = Some k \<Longrightarrow> f r = Some k \<and> Q k) \<Longrightarrow>
    orefs f (map g (filter P rows)) key (filter (\<lambda>x. Q (key x)) tbl)"
  by (fastforce simp: orefs_def)

end
