(* ===== verification/Order_Inv.thy ===== *)
theory Order_Inv
  imports Order_Admin References
begin

text \<open>
  Histories of the orders. \<open>user_step\<close> has one rule per endpoint a master, a client or the
  payment provider calls; \<open>order_step\<close> adds the administration and the operations of the
  wallet and the warehouse that run beside them.

  \<^item> \<open>books_inv\<close>: a completed order has a payment date; ledger rows that refer to an order
    refer to a completed one, and no two of them to the same one.
  \<^item> Every step moves the status of an order along \<open>admin_edge\<close>, a step of the users along
    \<open>lifecycle_edge\<close>.
\<close>

section \<open>Completion and the ledger\<close>

definition order_refs :: "wallet_db \<Rightarrow> row_id list" where
  "order_refs w = concat (map (\<lambda>t. case wt_order t of None \<Rightarrow> [] | Some oid \<Rightarrow> [oid]) (wallet_transactions w))"

definition completed_ref :: "row_id \<Rightarrow> order list \<Rightarrow> bool" where
  "completed_ref oid os = (case get_row o_id oid os of None \<Rightarrow> False | Some ord \<Rightarrow> o_status ord = COMPLETED)"

definition books_inv :: "order list \<Rightarrow> wallet_db \<Rightarrow> bool" where
  "books_inv os w =
    (keys_distinct o_id os \<and> list_all (\<lambda>ord. o_status ord = COMPLETED \<longrightarrow> paid_at ord \<noteq> None) os \<and>
     wallet_inv w \<and> distinct (order_refs w) \<and> list_all (\<lambda>oid. completed_ref oid os) (order_refs w))"

definition order_inv :: "sys \<Rightarrow> bool" where
  "order_inv s = (books_inv (orders s) (wallet s) \<and> warehouse_inv (warehouse s))"

lemma order_refs_cong: "wallet_transactions w = wallet_transactions w' \<Longrightarrow> order_refs w = order_refs w'"
  by (simp add: order_refs_def)

lemma order_refs_post:
  assumes "post_wallet_transaction m ty a meth d ord now w = Inr (w', t)"
  shows "order_refs w' = order_refs w @ (case ord of None \<Rightarrow> [] | Some oid \<Rightarrow> [oid])"
  using post_wallet_transaction_InrD(3,11) [OF assms] by (simp add: order_refs_def add_row_def)

lemma books_invD:
  assumes "books_inv os w"
  shows "keys_distinct o_id os" "\<And>ord. ord \<in> set os \<Longrightarrow> o_status ord = COMPLETED \<Longrightarrow> paid_at ord \<noteq> None"
    "wallet_inv w" "distinct (order_refs w)" "\<And>oid. oid \<in> set (order_refs w) \<Longrightarrow> completed_ref oid os"
  using assms by (auto simp: books_inv_def list_all_iff)

text \<open>Replacing a row that stays, or becomes, properly completed.\<close>

definition row_step :: "order \<Rightarrow> order \<Rightarrow> bool" where
  "row_step old new =
    (o_id new = o_id old \<and> (o_status old = COMPLETED \<longrightarrow> o_status new = COMPLETED) \<and>
     (o_status new = COMPLETED \<longrightarrow> paid_at new \<noteq> None))"

lemma books_inv_replace:
  assumes "books_inv os w" and "get_row o_id (o_id old) os = Some old" and "row_step old new"
  shows "books_inv (upd_row o_id (o_id old) (\<lambda>_. new) os) w"
proof -
  note B = books_invD [OF assms(1)]
  have "completed_ref oid (upd_row o_id (o_id old) (\<lambda>_. new) os)" if "completed_ref oid os" for oid
    using that assms(2,3) by (auto simp: completed_ref_def get_row_replace row_step_def split: if_splits option.splits)
  with B assms(3) show ?thesis
    unfolding books_inv_def list_all_iff
    by (auto simp: row_step_def keys_distinct_replace dest!: in_upd_row)
qed

lemma books_inv_add:
  assumes "books_inv os w" and "o_status ord = COMPLETED \<Longrightarrow> paid_at ord \<noteq> None"
  shows "books_inv (add_row (ord\<lparr>o_id := fresh_id o_id os\<rparr>) os) w"
proof -
  note B = books_invD [OF assms(1)]
  have "completed_ref oid (add_row (ord\<lparr>o_id := fresh_id o_id os\<rparr>) os)" if "completed_ref oid os" for oid
    using that by (auto simp: completed_ref_def get_row_add split: option.splits)
  moreover have "keys_distinct o_id (add_row (ord\<lparr>o_id := fresh_id o_id os\<rparr>) os)"
    using keys_distinct_add [OF B(1), of "ord\<lparr>o_id := fresh_id o_id os\<rparr>"] by simp
  ultimately show ?thesis
    using B assms(2) unfolding books_inv_def list_all_iff by auto
qed

lemma complete_paid_order_InrD:
  assumes "complete_paid_order e oid pt s = Inr (s', ok)"
  obtains ord where "get_order oid s = Some ord" and "\<not> ok" and "s' = s" and "o_status ord \<noteq> AWAITING_PAYMENT"
  | ord new where "get_order oid s = Some ord" and "ok" and "o_status ord = AWAITING_PAYMENT"
    and "new = ord\<lparr>o_status := COMPLETED, o_payment_type := Some pt, is_paid := True, paid_at := Some (env_now e)\<rparr>"
    and "orders s' = upd_row o_id oid (\<lambda>_. new) (orders s)"
    and "usages s' = usages s" and "warehouse s' = warehouse s" and "order_masters s' = order_masters s"
    and "o_master ord = None \<or> total_amount ord = 0 \<Longrightarrow> wallet s' = wallet s"
    and "\<And>m. o_master ord = Some m \<Longrightarrow> total_amount ord \<noteq> 0 \<Longrightarrow>
      \<exists>d t. post_wallet_transaction m IN (total_amount ord) (wallet_method_of pt) d (Some oid) (env_now e) (wallet s) =
        Inr (wallet s', t)"
  using assms get_order_id
  by (fastforce simp: complete_paid_order_def Let_def split: if_splits option.splits)

lemma complete_paid_books:
  assumes "books_inv (orders s) (wallet s)" and "complete_paid_order e oid pt s = Inr (s', ok)"
  shows "books_inv (orders s') (wallet s')"
  using assms(2)
proof (cases rule: complete_paid_order_InrD)
  case (1 ord)
  with assms(1) show ?thesis by simp
next
  case (2 ord new)
  note B = books_invD [OF assms(1)]
  have id: "o_id ord = oid" and row: "get_row o_id (o_id ord) (orders s) = Some ord"
    using 2(1) get_order_id by (auto simp: get_order_def)
  have "row_step ord new"
    using 2(3,4) by (simp add: row_step_def)
  from books_inv_replace [OF assms(1) row this] id have base: "books_inv (orders s') (wallet s)"
    by (simp add: 2(5))
  show ?thesis
  proof (cases "o_master ord = None \<or> total_amount ord = 0")
    case True
    with base 2(9) show ?thesis by simp
  next
    case False
    then obtain m d t where post: "post_wallet_transaction m IN (total_amount ord) (wallet_method_of pt) d (Some oid)
        (env_now e) (wallet s) = Inr (wallet s', t)"
      using 2(10) by (cases "o_master ord") auto
    have "\<not> completed_ref oid (orders s)"
      using row id 2(3) by (simp add: completed_ref_def)
    then have "oid \<notin> set (order_refs (wallet s))" using B(5) by blast
    moreover have "completed_ref oid (orders s')"
      using row id 2(4,5) by (simp add: completed_ref_def get_row_replace)
    ultimately show ?thesis
      using base post_preserves_inv [OF B(3) post] order_refs_post [OF post]
      by (auto simp: books_inv_def)
  qed
qed

section \<open>Steps\<close>

text \<open>The endpoints of masters, clients and the payment provider.\<close>

inductive user_step :: "sys \<Rightarrow> sys \<Rightarrow> bool" where
  accept: "MasterOrderAcceptView_post user pk s = Inr s' \<Longrightarrow> user_step s s'"
| on_way: "MasterOrderOnWayView_post user pk s = Inr s' \<Longrightarrow> user_step s s'"
| start: "MasterOrderStartView_post user pk s = Inr s' \<Longrightarrow> user_step s s'"
| reject: "MasterOrderRejectView_post user pk reason s = Inr s' \<Longrightarrow> user_step s s'"
| check: "MasterOrderCompleteView_post e user pk ci s = Inr s' \<Longrightarrow> user_step s s'"
| confirm: "MasterOrderReceiptConfirmView_post e user pk s = Inr s' \<Longrightarrow> user_step s s'"
| use_part: "UseInventoryView_post user iid oid n s = Inr s' \<Longrightarrow> user_step s s'"
| create: "OrderSerializer_create e client oc s = Inr (s', ord) \<Longrightarrow> user_step s s'"
| cancel: "ClientOrderCancelView_post user pk reason s = Inr s' \<Longrightarrow> user_step s s'"
| rate: "ClientOrderRateView_post user pk rating comment s = Inr s' \<Longrightarrow> user_step s s'"
| pay: "ClientOrderPayView_post e user pk method s = Inr s' \<Longrightarrow> user_step s s'"
| paid: "mark_order_paid e pk s = Inr s' \<Longrightarrow> user_step s s'"
| payment_cancelled: "mark_order_payment_cancelled pk s = Inr s' \<Longrightarrow> user_step s s'"

inductive order_step :: "sys \<Rightarrow> sys \<Rightarrow> bool" where
  user: "user_step s s' \<Longrightarrow> order_step s s'"
| dash_create: "DashboardOrderSerializer_create e p s = Inr s' \<Longrightarrow> order_step s s'"
| dash_update: "DashboardOrderSerializer_update pk p s = Inr s' \<Longrightarrow> order_step s s'"
| dash_status: "DashboardOrderStatusSerializer_save pk st cr rr s = Inr s' \<Longrightarrow> order_step s s'"
| dash_assign: "order_step s (fst (DashboardOrderAssignSerializer_save admin pk ms as m s))"
| admin_assign: "OrderAdmin_assign_row all_masters admin pk mids aids s = Inr s' \<Longrightarrow> order_step s s'"
| internal_create: "InternalOrderWriteSerializer_create e w s = Inr s' \<Longrightarrow> order_step s s'"
| internal_update: "InternalOrderWriteSerializer_update e pk w s = Inr s' \<Longrightarrow> order_step s s'"
| internal_assign: "OrderAssignAPIView_patch known pk mid s = Inr s' \<Longrightarrow> order_step s s'"
| destroy: "Order_destroy protected pk s = Inr s' \<Longrightarrow> order_step s s'"
| stock: "warehouse_step (warehouse s) w \<Longrightarrow> order_step s (s\<lparr>warehouse := w\<rparr>)"
| request: "WithdrawRequestCreateView_perform_create m a (wallet s) = Inr wd \<Longrightarrow> order_step s (s\<lparr>wallet := wd\<rparr>)"
| handover: "accept_cash_handover rid nt now (wallet s) = Inr (wd, ok) \<Longrightarrow> order_step s (s\<lparr>wallet := wd\<rparr>)"
| handover_reject: "reject_cash_handover rid nt (wallet s) = Inr (wd, ok) \<Longrightarrow> order_step s (s\<lparr>wallet := wd\<rparr>)"

section \<open>How a single order may change\<close>

text \<open>The edges of the life cycle, and those the administration may add.\<close>

fun lifecycle_edge :: "order_status \<Rightarrow> order_status \<Rightarrow> bool" where
  "lifecycle_edge NEW st = (st \<in> {ACCEPTED, CANCELLED, REJECTED})"
| "lifecycle_edge ACCEPTED st = (st \<in> {ON_WAY, AWAITING_PAYMENT, CANCELLED, REJECTED})"
| "lifecycle_edge ON_WAY st = (st \<in> {ARRIVED, AWAITING_PAYMENT, CANCELLED, REJECTED})"
| "lifecycle_edge ARRIVED st = (st \<in> {AWAITING_PAYMENT, REJECTED})"
| "lifecycle_edge AWAITING_PAYMENT st = (st = COMPLETED)"
| "lifecycle_edge _ st = False"

definition admin_edge :: "order_status \<Rightarrow> order_status \<Rightarrow> bool" where
  "admin_edge old new = (old \<notin> set TERMINAL_ORDER_STATUSES \<and> new \<noteq> old \<and> (new = COMPLETED \<longrightarrow> old = AWAITING_PAYMENT))"

text \<open>Every order of the old state keeps its row; an edge relates the two statuses.\<close>

definition moves_along :: "(order_status \<Rightarrow> order_status \<Rightarrow> bool) \<Rightarrow> sys \<Rightarrow> sys \<Rightarrow> bool" where
  "moves_along E s s' =
    (\<forall>oid old. get_order oid s = Some old \<longrightarrow>
       (\<exists>new. get_order oid s' = Some new \<and> (o_status new = o_status old \<or> E (o_status old) (o_status new))))"

text \<open>A step that replaces at most one row of the order table, and leaves wallet and warehouse alone.\<close>

definition replaces :: "(order \<Rightarrow> order \<Rightarrow> bool) \<Rightarrow> sys \<Rightarrow> sys \<Rightarrow> bool" where
  "replaces R s s' =
    (wallet s' = wallet s \<and>
     (orders s' = orders s \<or>
      (\<exists>old new. get_order (o_id old) s = Some old \<and> R old new \<and> o_id new = o_id old \<and>
         orders s' = upd_row o_id (o_id old) (\<lambda>_. new) (orders s))))"

definition status_row :: "(order_status \<Rightarrow> order_status \<Rightarrow> bool) \<Rightarrow> order \<Rightarrow> order \<Rightarrow> bool" where
  "status_row E old new =
    ((o_status new = o_status old \<or> (E (o_status old) (o_status new) \<and> o_status new \<noteq> COMPLETED)) \<and>
     (paid_at old \<noteq> None \<longrightarrow> paid_at new \<noteq> None))"

lemma replaces_moves:
  assumes "replaces (status_row E) s s'"
  shows "moves_along E s s'"
  unfolding moves_along_def
proof (intro allI impI)
  fix oid x
  assume x: "get_order oid s = Some x"
  show "\<exists>new. get_order oid s' = Some new \<and> (o_status new = o_status x \<or> E (o_status x) (o_status new))"
  proof (cases "orders s' = orders s")
    case True
    then show ?thesis using x get_order_cong by metis
  next
    case False
    with assms obtain old new where old: "get_order (o_id old) s = Some old" and R: "status_row E old new"
      and id: "o_id new = o_id old" and upd: "orders s' = upd_row o_id (o_id old) (\<lambda>_. new) (orders s)"
      by (auto simp: replaces_def)
    have "get_order oid s' = (if oid = o_id old then Some new else get_order oid s)"
      using old id by (auto simp: get_order_def upd get_row_replace)
    with x old R show ?thesis by (auto simp: status_row_def)
  qed
qed

lemma replaces_books:
  assumes "books_inv (orders s) (wallet s)" and "replaces (status_row E) s s'"
    and "\<And>st. \<not> E COMPLETED st"
  shows "books_inv (orders s') (wallet s')"
proof (cases "orders s' = orders s")
  case True
  with assms(1,2) show ?thesis by (simp add: replaces_def)
next
  case False
  with assms(2) obtain old new where old: "get_order (o_id old) s = Some old" and R: "status_row E old new"
    and id: "o_id new = o_id old" and upd: "orders s' = upd_row o_id (o_id old) (\<lambda>_. new) (orders s)"
    and w: "wallet s' = wallet s"
    by (auto simp: replaces_def)
  have row: "get_row o_id (o_id old) (orders s) = Some old" using old by (simp add: get_order_def)
  then have "o_status old = COMPLETED \<Longrightarrow> paid_at old \<noteq> None"
    using books_invD(2) [OF assms(1)] get_row_in by metis
  with R id assms(3) have "row_step old new"
    by (auto simp: status_row_def row_step_def)
  from books_inv_replace [OF assms(1) row this] show ?thesis by (simp add: upd w)
qed

section \<open>Handlers that change one row\<close>

named_theorems row_change \<open>handlers that replace at most one order row\<close>

lemma replacesI:
  assumes "get_order (o_id old) s = Some old" and "R old new" and "o_id new = o_id old"
    and "orders s' = upd_row o_id (o_id old) (\<lambda>_. new) (orders s)" and "wallet s' = wallet s"
  shows "replaces R s s'"
  using assms by (auto simp: replaces_def)

lemma replaces_same: "orders s' = orders s \<Longrightarrow> wallet s' = wallet s \<Longrightarrow> replaces R s s'"
  by (simp add: replaces_def)

lemma owned_orderD:
  assumes "keys_distinct o_id (orders s)" and "get_row o_id pk (filter P (orders s)) = Some ord"
  shows "get_order (o_id ord) s = Some ord" "o_id ord = pk" "P ord"
  using get_row_filter [OF assms] get_row_key [OF assms(2)] by (auto simp: get_order_def)

lemma lock_orderD:
  assumes "keys_distinct o_id (orders s)" and "lock_order_for_transition pk allowed P s = Inr ord"
  shows "get_order (o_id ord) s = Some ord" "o_id ord = pk" "o_status ord \<in> set allowed" "P ord"
  using assms(2) owned_orderD [OF assms(1)]
  by (auto simp: lock_order_for_transition_def split: if_splits)

lemma get_orderD: "get_order pk s = Some ord \<Longrightarrow> get_order (o_id ord) s = Some ord \<and> o_id ord = pk"
  using get_order_id by blast

lemma accept_replaces [row_change]:
  assumes "MasterOrderAcceptView_post user pk s = Inr s'"
  shows "replaces (status_row lifecycle_edge) s s'"
proof -
  obtain ord where ord: "get_order pk s = Some ord" and w: "wallet s' = wallet s"
    and os: "orders s' = (if o_status ord = NEW
        then upd_row o_id (o_id ord) (\<lambda>_. ord\<lparr>o_master := Some user, o_status := ACCEPTED\<rparr>) (orders s) else orders s)"
    using assms by (auto simp: MasterOrderAcceptView_post_def Let_def split: if_splits)
  show ?thesis
  proof (cases "o_status ord = NEW")
    case True
    with ord os w get_orderD [OF ord] show ?thesis
      by (intro replacesI [of ord _ _ "ord\<lparr>o_master := Some user, o_status := ACCEPTED\<rparr>"]) (auto simp: status_row_def)
  qed (use os w in \<open>simp add: replaces_same\<close>)
qed

lemma replaces_wrapped [simp]:
  "replaces R s (ensure_tracking pk s') = replaces R s s'" "replaces R s (send evs s') = replaces R s s'"
  by (simp_all add: replaces_def)

lemma replaces_save:
  "get_order (o_id old) s = Some old \<Longrightarrow> R old new \<Longrightarrow> o_id new = o_id old \<Longrightarrow> replaces R s (save_order old new s)"
  by (rule replacesI) simp_all

lemma on_way_replaces [row_change]:
  assumes "keys_distinct o_id (orders s)" and "MasterOrderOnWayView_post user pk s = Inr s'"
  shows "replaces (status_row lifecycle_edge) s s'"
proof -
  obtain ord where "lock_order_for_transition pk [ACCEPTED] (owned_by_master user) s = Inr ord"
    and "s' = ensure_tracking pk (save_order ord (ord\<lparr>o_status := ON_WAY\<rparr>) s)"
    using assms(2) by (auto simp: MasterOrderOnWayView_post_def)
  with lock_orderD [OF assms(1) this(1)] show ?thesis
    by (simp add: replaces_save status_row_def)
qed

lemma start_replaces [row_change]:
  assumes "keys_distinct o_id (orders s)" and "MasterOrderStartView_post user pk s = Inr s'"
  shows "replaces (status_row lifecycle_edge) s s'"
proof -
  obtain ord s1 where ord: "get_row o_id pk (filter (owned_by_master user) (orders s)) = Some ord"
    and s1: "OrderStartSerializer_save ord s = Inr s1" and s': "s' = ensure_tracking pk s1"
    using assms(2) by (auto simp: MasterOrderStartView_post_def)
  from owned_orderD [OF assms(1) ord] s1 show ?thesis
    by (auto simp: s' OrderStartSerializer_save_def replaces_same replaces_save status_row_def split: if_splits)
qed

lemma reject_replaces [row_change]:
  assumes "keys_distinct o_id (orders s)" and "MasterOrderRejectView_post user pk reason s = Inr s'"
  shows "replaces (status_row lifecycle_edge) s s'"
proof -
  obtain ord where "lock_order_for_transition pk [NEW, ACCEPTED, ON_WAY, ARRIVED] (owned_by_master user) s = Inr ord"
    and s': "s' = save_order ord (ord\<lparr>o_status := REJECTED, rejected_reason := reason\<rparr>) s"
    using assms(2) by (auto simp: MasterOrderRejectView_post_def)
  from lock_orderD [OF assms(1) this(1)] show ?thesis
    by (intro replacesI [of ord _ _ "ord\<lparr>o_status := REJECTED, rejected_reason := reason\<rparr>"])
      (auto simp: s' status_row_def)
qed

lemma cancel_replaces [row_change]:
  assumes "keys_distinct o_id (orders s)" and "ClientOrderCancelView_post user pk reason s = Inr s'"
  shows "replaces (status_row lifecycle_edge) s s'"
proof -
  obtain ord where "lock_order_for_transition pk [NEW, ACCEPTED, ON_WAY] (owned_by_client user) s = Inr ord"
    and "orders s' = orders (save_order ord (ord\<lparr>o_status := CANCELLED, cancel_reason := reason\<rparr>) s)"
    and "wallet s' = wallet s"
    using assms(2) by (auto simp: ClientOrderCancelView_post_def Let_def split: option.splits)
  with lock_orderD [OF assms(1) this(1)] show ?thesis
    by (intro replacesI [of ord _ _ "ord\<lparr>o_status := CANCELLED, cancel_reason := reason\<rparr>"])
      (auto simp: status_row_def)
qed

lemma confirm_replaces [row_change]:
  assumes "keys_distinct o_id (orders s)" and "MasterOrderReceiptConfirmView_post e user pk s = Inr s'"
  shows "replaces (status_row lifecycle_edge) s s'"
proof -
  obtain ord s1 b where ord: "get_row o_id pk (filter (owned_by_master user) (orders s)) = Some ord"
    and s1: "approve_order_receipt e ord user s = Inr (s1, b)"
    and s': "replaces (status_row lifecycle_edge) s s' = replaces (status_row lifecycle_edge) s s1"
    using assms(2) by (auto simp: MasterOrderReceiptConfirmView_post_def split: if_splits)
  from owned_orderD [OF assms(1) ord] s1 show ?thesis
    by (auto simp: s' approve_order_receipt_def replaces_same replaces_save status_row_def split: if_splits)
qed

lemma rate_replaces [row_change]:
  "ClientOrderRateView_post user pk rating comment s = Inr s' \<Longrightarrow> replaces (status_row lifecycle_edge) s s'"
  by (auto simp: ClientOrderRateView_post_def Let_def split: if_splits option.splits intro!: replaces_same)

lemma UseInventoryView_InrD:
  assumes "UseInventoryView_post user iid oid n s = Inr s'"
  obtains i p ord w s1 where "inventory_of_master user iid (warehouse s) = Inr i" and "1 \<le> n"
    and "get_row o_id oid (filter (owned_by_master user) (orders s)) = Some ord"
    and "UseInventorySerializer_save i n (warehouse s) = Inr w"
    and "get_row pr_id (mi_product i) (products (warehouse s)) = Some p"
    and "s1 = create_usage oid iid n (sale_price p) (s\<lparr>warehouse := w\<rparr>)"
    and "s' = save_order ord (recalculate_total (ord\<lparr>inventory_total := usage_total oid s1\<rparr>)) s1"
proof -
  from assms obtain i ord w p where "inventory_of_master user iid (warehouse s) = Inr i"
    "positive_quantity n = Inr ()" "get_row o_id oid (filter (owned_by_master user) (orders s)) = Some ord"
    "UseInventorySerializer_save i n (warehouse s) = Inr w"
    "get_row pr_id (mi_product i) (products (warehouse s)) = Some p"
    "s' = (let s1 = create_usage oid iid n (sale_price p) (s\<lparr>warehouse := w\<rparr>)
           in save_order ord (recalculate_total (ord\<lparr>inventory_total := usage_total oid s1\<rparr>)) s1)"
    by (auto simp: UseInventoryView_post_def Let_def split: option.splits)
  then show thesis by (intro that) (auto simp: positive_quantity_def Let_def)
qed

lemma use_part_replaces [row_change]:
  assumes "keys_distinct o_id (orders s)" and "UseInventoryView_post user iid oid n s = Inr s'"
  shows "replaces (status_row lifecycle_edge) s s'"
  using assms(2)
proof (rule UseInventoryView_InrD)
  fix i p ord w s1
  assume ord: "get_row o_id oid (filter (owned_by_master user) (orders s)) = Some ord"
    and s1: "s1 = create_usage oid iid n (sale_price p) (s\<lparr>warehouse := w\<rparr>)"
    and s': "s' = save_order ord (recalculate_total (ord\<lparr>inventory_total := usage_total oid s1\<rparr>)) s1"
  from owned_orderD [OF assms(1) ord] show ?thesis
    by (intro replacesI [of ord _ _ "recalculate_total (ord\<lparr>inventory_total := usage_total oid s1\<rparr>)"])
      (auto simp: s' s1 status_row_def recalculate_total_def)
qed

lemma consume_items_tables:
  "consume_items oid m items tot s = Inr (s', tot') \<Longrightarrow>
   orders s' = orders s \<and> wallet s' = wallet s \<and> order_masters s' = order_masters s \<and>
   products (warehouse s') = products (warehouse s)"
  by (induction oid m items tot s rule: consume_items.induct)
    (auto simp: Let_def split: option.splits if_splits)

lemma submitted_row_fields [simp]:
  "o_id (submitted_row e ci st lt ord) = o_id ord" "o_status (submitted_row e ci st lt ord) = AWAITING_PAYMENT"
  "paid_at (submitted_row e ci st lt ord) = paid_at ord" "o_master (submitted_row e ci st lt ord) = o_master ord"
  "is_paid (submitted_row e ci st lt ord) = is_paid ord" "bonus_used (submitted_row e ci st lt ord) = bonus_used ord"
  "service_fee (submitted_row e ci st lt ord) = ci_service_fee ci"
  by (simp_all add: submitted_row_def check_totals_def Let_def)

lemma check_InrD:
  assumes "MasterOrderCompleteView_post e user pk ci s = Inr s'"
  obtains ord s1 lt where "get_order pk s = Some ord" and "o_status ord \<in> set COMPLETABLE_STATUSES"
    and "list_all (\<lambda>(_, n). 1 \<le> n) (ci_used_items ci)"
    and "consume_items pk (o_master ord) (ci_used_items ci) 0 s = Inr (s1, lt)"
    and "s' = save_order ord (submitted_row e ci (usage_total pk s1) lt ord) s1"
  using assms
  by (auto simp: MasterOrderCompleteView_post_def OrderCompleteSerializer_save_def OrderCompleteSerializer_validate_def
      split: if_splits)

lemma check_replaces [row_change]:
  assumes "MasterOrderCompleteView_post e user pk ci s = Inr s'"
  shows "replaces (status_row lifecycle_edge) s s'"
  using assms
proof (rule check_InrD)
  fix ord s1 lt
  assume ord: "get_order pk s = Some ord" and st: "o_status ord \<in> set COMPLETABLE_STATUSES"
    and items: "consume_items pk (o_master ord) (ci_used_items ci) 0 s = Inr (s1, lt)"
    and s': "s' = save_order ord (submitted_row e ci (usage_total pk s1) lt ord) s1"
  from consume_items_tables [OF items] st get_orderD [OF ord] show ?thesis
    by (intro replacesI [of ord _ _ "submitted_row e ci (usage_total pk s1) lt ord"])
      (auto simp: s' status_row_def COMPLETABLE_STATUSES_def)
qed

section \<open>Handlers of the administration\<close>

lemma can_admin_edge:
  "can_admin_set_status old new \<Longrightarrow> new = old \<or> (admin_edge old new \<and> new \<noteq> COMPLETED)"
  by (auto simp: can_admin_set_status_def admin_edge_def TERMINAL_ORDER_STATUSES_def split: if_splits)

lemma patch_order_fields [simp]:
  "o_id (patch_order p ord) = o_id ord" "paid_at (patch_order p ord) = paid_at ord"
  "o_status (patch_order p ord) = sent_or (op_status p) (o_status ord)"
  by (simp_all add: patch_order_def)

lemma recalculate_fields [simp]:
  "o_id (recalculate_total ord) = o_id ord" "paid_at (recalculate_total ord) = paid_at ord"
  "o_status (recalculate_total ord) = o_status ord" "o_master (recalculate_total ord) = o_master ord"
  "is_paid (recalculate_total ord) = is_paid ord" "service_fee (recalculate_total ord) = service_fee ord"
  "inventory_total (recalculate_total ord) = inventory_total ord" "bonus_used (recalculate_total ord) = bonus_used ord"
  by (simp_all add: recalculate_total_def)

lemma dashboard_validate_status:
  "DashboardOrderSerializer_validate inst p s = Inr p1 \<Longrightarrow> op_status p1 = op_status p"
  by (auto simp: DashboardOrderSerializer_validate_def Let_def split: if_splits option.splits)

lemma validate_status_row:
  "validate_status (o_status ord) st = Inr () \<Longrightarrow>
   sent_or st (o_status ord) = o_status ord \<or>
   (admin_edge (o_status ord) (sent_or st (o_status ord)) \<and> sent_or st (o_status ord) \<noteq> COMPLETED)"
  using can_admin_edge by (auto simp: validate_status_def sent_or_def split: option.splits)

lemma dash_update_replaces [row_change]:
  assumes "DashboardOrderSerializer_update pk p s = Inr s'"
  shows "replaces (status_row admin_edge) s s'"
proof -
  obtain ord p1 where ord: "get_order pk s = Some ord" and st: "validate_status (o_status ord) (op_status p) = Inr ()"
    and p1: "DashboardOrderSerializer_validate (Some ord) p s = Inr p1"
    and s': "s' = ensure_tracking pk (save_order ord
        (if touches_total p1 then recalculate_total (patch_order p1 ord) else patch_order p1 ord) s)"
    using assms by (auto simp: DashboardOrderSerializer_update_def Let_def)
  from validate_status_row [OF st] dashboard_validate_status [OF p1] get_orderD [OF ord] show ?thesis
    by (auto simp: s' status_row_def intro!: replaces_save)
qed

lemma status_write_fields [simp]:
  "o_id (status_write st cr rr ord) = o_id ord" "o_status (status_write st cr rr ord) = st"
  "paid_at (status_write st cr rr ord) = paid_at ord"
  by (simp_all add: status_write_def Let_def)

lemma dash_status_replaces [row_change]:
  assumes "DashboardOrderStatusSerializer_save pk st cr rr s = Inr s'"
  shows "replaces (status_row admin_edge) s s'"
proof -
  obtain ord where ord: "get_order pk s = Some ord" and ok: "can_admin_set_status (o_status ord) st"
    and s': "s' = ensure_tracking pk (save_order ord (status_write st cr rr ord) s)"
    using assms by (auto simp: DashboardOrderStatusSerializer_save_def split: if_splits)
  from can_admin_edge [OF ok] get_orderD [OF ord] show ?thesis
    by (auto simp: s' status_row_def intro!: replaces_save)
qed

lemma dash_assign_replaces [row_change]:
  "replaces R s (fst (DashboardOrderAssignSerializer_save admin pk ms as m s))"
  by (rule replaces_same)
    (auto simp: DashboardOrderAssignSerializer_save_def Let_def case_prod_beta split: option.split)

lemma admin_assign_replaces [row_change]:
  "OrderAdmin_assign_row all_masters admin pk mids aids s = Inr s' \<Longrightarrow> replaces R s s'"
  by (rule replaces_same) (auto simp: OrderAdmin_assign_row_def Let_def case_prod_beta)

lemma internal_validate_status:
  assumes "InternalOrderWriteSerializer_validate e inst w = Inr p"
  shows "op_status p = None \<or>
    (\<exists>st. op_status p = Some st \<and> can_admin_set_status (case inst of None \<Rightarrow> NEW | Some ord \<Rightarrow> o_status ord) st)"
  using assms
  by (auto simp: InternalOrderWriteSerializer_validate_def empty_patch_def split: if_splits option.splits)

lemma internal_update_replaces [row_change]:
  assumes "InternalOrderWriteSerializer_update e pk w s = Inr s'"
  shows "replaces (status_row admin_edge) s s'"
proof -
  obtain ord p where ord: "get_order pk s = Some ord"
    and p: "InternalOrderWriteSerializer_validate e (Some ord) w = Inr p"
    and s': "s' = save_order ord (recalculate_total (case iw_price w of None \<Rightarrow> patch_order p ord
        | Some a \<Rightarrow> (patch_order p ord)\<lparr>service_fee := a, total_amount := a\<rparr>)) s"
    using assms by (auto simp: InternalOrderWriteSerializer_update_def Let_def)
  from internal_validate_status [OF p]
  have "sent_or (op_status p) (o_status ord) = o_status ord \<or>
    (admin_edge (o_status ord) (sent_or (op_status p) (o_status ord)) \<and> sent_or (op_status p) (o_status ord) \<noteq> COMPLETED)"
    by (auto simp: sent_or_def dest!: can_admin_edge)
  with get_orderD [OF ord] show ?thesis
    by (auto simp: s' status_row_def intro!: replaces_save split: option.split)
qed

lemma internal_assign_replaces [row_change]:
  assumes "OrderAssignAPIView_patch known pk mid s = Inr s'"
  shows "replaces (status_row admin_edge) s s'"
proof -
  obtain ord where ord: "get_order pk s = Some ord"
    and s': "s' = save_order ord (if mid \<noteq> None \<and> o_status ord = NEW then ord\<lparr>o_master := mid, o_status := ACCEPTED\<rparr>
        else ord\<lparr>o_master := mid\<rparr>) s"
    using assms by (auto simp: OrderAssignAPIView_patch_def Let_def split: if_splits)
  from get_orderD [OF ord] show ?thesis
    by (auto simp: s' status_row_def admin_edge_def TERMINAL_ORDER_STATUSES_def intro!: replaces_save)
qed

section \<open>Creation, payment and deletion\<close>

text \<open>A step that appends one order and touches no wallet.\<close>

definition appends :: "sys \<Rightarrow> sys \<Rightarrow> bool" where
  "appends s s' = (wallet s' = wallet s \<and>
    (\<exists>ord. o_status ord \<noteq> COMPLETED \<and> orders s' = add_row (ord\<lparr>o_id := fresh_id o_id (orders s)\<rparr>) (orders s)))"

lemma appends_books: "books_inv (orders s) (wallet s) \<Longrightarrow> appends s s' \<Longrightarrow> books_inv (orders s') (wallet s')"
  by (auto simp: appends_def intro!: books_inv_add)

lemma appends_moves: "appends s s' \<Longrightarrow> moves_along E s s'"
  by (auto simp: appends_def moves_along_def get_order_def get_row_add)

lemma create_appends:
  assumes "OrderSerializer_create e client oc s = Inr (s', ord)"
  shows "appends s s'"
proof -
  obtain db did where "s' = ensure_tracking (fresh_id o_id (orders s)) (fst (insert_order
      ((recalculate_total (new_order e client oc))\<lparr>o_device := did\<rparr>) (s\<lparr>profiles := db\<rparr>)))"
    using assms by (auto simp: OrderSerializer_create_def Let_def case_prod_beta)
  then show ?thesis
    unfolding appends_def
    by (intro conjI exI [of _ "(recalculate_total (new_order e client oc))\<lparr>o_device := did\<rparr>"])
      (simp_all add: new_order_def)
qed

lemma dash_create_appends:
  assumes "DashboardOrderSerializer_create e p s = Inr s'"
  shows "appends s s'"
proof -
  obtain p1 where st: "validate_status NEW (op_status p) = Inr ()"
    and p1: "DashboardOrderSerializer_validate None p s = Inr p1"
    and s': "s' = ensure_tracking (fresh_id o_id (orders s))
        (fst (insert_order (recalculate_total (patch_order p1 (blank_order e))) s))"
    using assms by (auto simp: DashboardOrderSerializer_create_def Let_def case_prod_beta)
  have "o_status (patch_order p1 (blank_order e)) \<noteq> COMPLETED"
    using st dashboard_validate_status [OF p1]
    by (auto simp: validate_status_def sent_or_def blank_order_def can_admin_set_status_def split: option.splits)
  then show ?thesis
    unfolding appends_def s'
    by (intro conjI exI [of _ "recalculate_total (patch_order p1 (blank_order e))"]) simp_all
qed

lemma internal_create_appends:
  assumes "InternalOrderWriteSerializer_create e w s = Inr s'"
  shows "appends s s'"
proof -
  obtain p where p: "InternalOrderWriteSerializer_validate e None w = Inr p"
    and s': "s' = (let price = (case iw_price w of None \<Rightarrow> 0 | Some a \<Rightarrow> a);
               ord = (patch_order p (blank_order e))\<lparr>service_fee := price, total_amount := price\<rparr>
           in save_order (snd (insert_order ord s)) (recalculate_total (snd (insert_order ord s))) (fst (insert_order ord s)))"
    using assms by (auto simp: InternalOrderWriteSerializer_create_def Let_def case_prod_beta split: if_splits)
  let ?price = "case iw_price w of None \<Rightarrow> 0 | Some a \<Rightarrow> a"
  let ?ord = "(patch_order p (blank_order e))\<lparr>service_fee := ?price, total_amount := ?price\<rparr>"
  let ?k = "fresh_id o_id (orders s)"
  have "orders s' = upd_row o_id ?k (\<lambda>_. recalculate_total (?ord\<lparr>o_id := ?k\<rparr>)) (add_row (?ord\<lparr>o_id := ?k\<rparr>) (orders s))"
    by (simp add: s' Let_def)
  also have "\<dots> = add_row ((recalculate_total ?ord)\<lparr>o_id := ?k\<rparr>) (orders s)"
    using fresh_id_neq [of _ "orders s" o_id]
    by (simp add: upd_row_def add_row_def recalculate_total_def cong: map_cong)
  finally have "orders s' = add_row ((recalculate_total ?ord)\<lparr>o_id := ?k\<rparr>) (orders s)" .
  moreover have "o_status (recalculate_total ?ord) \<noteq> COMPLETED"
    using internal_validate_status [OF p]
    by (auto simp: sent_or_def blank_order_def can_admin_set_status_def)
  moreover have "wallet s' = wallet s" by (simp add: s' Let_def)
  ultimately show ?thesis unfolding appends_def by blast
qed

lemma complete_paid_moves:
  assumes "complete_paid_order e oid pt s = Inr (s', ok)"
  shows "moves_along lifecycle_edge s s'"
  using assms
proof (cases rule: complete_paid_order_InrD)
  case (1 ord)
  then show ?thesis by (simp add: moves_along_def)
next
  case (2 ord new)
  then have "get_order x s' = (if x = oid then Some new else get_order x s)" for x
    using get_order_id by (auto simp: get_order_def get_row_replace)
  with 2 show ?thesis by (auto simp: moves_along_def)
qed

lemma pay_InrD:
  assumes "keys_distinct o_id (orders s)" and "ClientOrderPayView_post e user pk method s = Inr s'"
  shows "(\<exists>ok. complete_paid_order e pk PT_CASH s = Inr (s', ok)) \<or> replaces (status_row lifecycle_edge) s s'"
proof -
  obtain ord where row: "get_row o_id pk (filter (owned_by_client user) (orders s)) = Some ord"
    and cases: "(method = Some PT_CASH \<and> (\<exists>ok. complete_paid_order e pk PT_CASH s = Inr (s', ok))) \<or>
      (wallet s' = wallet s \<and> orders s' = orders (save_order (ord\<lparr>o_payment_type := Some PT_ONLINE\<rparr>)
         (recalculate_total (ord\<lparr>o_payment_type := Some PT_ONLINE\<rparr>)) (save_order ord (ord\<lparr>o_payment_type := Some PT_ONLINE\<rparr>) s)))"
    using assms(2) by (auto simp: ClientOrderPayView_post_def Let_def split: if_splits option.splits)
  let ?new = "recalculate_total (ord\<lparr>o_payment_type := Some PT_ONLINE\<rparr>)"
  note ord = owned_orderD [OF assms(1) row]
  from cases show ?thesis
  proof
    assume "wallet s' = wallet s \<and> orders s' = orders (save_order (ord\<lparr>o_payment_type := Some PT_ONLINE\<rparr>)
         ?new (save_order ord (ord\<lparr>o_payment_type := Some PT_ONLINE\<rparr>) s))"
    then have "orders s' = upd_row o_id (o_id ord) (\<lambda>_. ?new) (orders s)" "wallet s' = wallet s"
      by (simp_all add: upd_row_replace_twice)
    with ord show ?thesis
      by (intro disjI2 replacesI [of ord _ _ ?new]) (auto simp: status_row_def)
  qed blast
qed

lemma mark_paid_InrD:
  assumes "mark_order_paid e pk s = Inr s'"
  shows "(\<exists>ok. complete_paid_order e pk PT_ONLINE s = Inr (s', ok)) \<or> replaces (status_row lifecycle_edge) s s'"
proof -
  obtain ord where ord: "get_order pk s = Some ord"
    and cases: "s' = s \<or> complete_paid_order e pk PT_ONLINE s = Inr (s', True) \<or>
      (\<exists>s1. complete_paid_order e pk PT_ONLINE s = Inr (s1, False) \<and>
         s' = save_order ord (ord\<lparr>is_paid := True, paid_at := Some (env_now e)\<rparr>) s1)"
    using assms by (auto simp: mark_order_paid_def split: if_splits)
  have "s1 = s" if "complete_paid_order e pk PT_ONLINE s = Inr (s1, False)" for s1
    using that by (cases rule: complete_paid_order_InrD) auto
  moreover have "replaces (status_row lifecycle_edge) s (save_order ord (ord\<lparr>is_paid := True, paid_at := Some (env_now e)\<rparr>) s)"
    using get_orderD [OF ord] by (intro replaces_save) (auto simp: status_row_def)
  ultimately show ?thesis using cases by (auto simp: replaces_same)
qed

lemma payment_cancelled_replaces [row_change]:
  assumes "mark_order_payment_cancelled pk s = Inr s'"
  shows "replaces (status_row lifecycle_edge) s s'"
proof -
  obtain ord where ord: "get_order pk s = Some ord"
    and "s' = s \<or> s' = save_order ord (ord\<lparr>is_paid := False\<rparr>) s"
    using assms by (auto simp: mark_order_payment_cancelled_def split: if_splits)
  with get_orderD [OF ord] show ?thesis
    by (auto simp: status_row_def replaces_same intro!: replaces_save)
qed

text \<open>Orders that are deleted: the ledger keeps its amounts and forgets the orders.\<close>

lemma drop_orders_books:
  assumes "books_inv os w"
  shows "books_inv (filter (\<lambda>ord. o_id ord \<notin> S) os) (w\<lparr>wallet_transactions :=
    map (\<lambda>t. case wt_order t of None \<Rightarrow> t | Some k \<Rightarrow> if k \<in> S then t\<lparr>wt_order := None\<rparr> else t) (wallet_transactions w)\<rparr>)"
    (is "books_inv ?os ?w")
proof -
  note B = books_invD [OF assms]
  let ?f = "\<lambda>t. case wt_order t of None \<Rightarrow> t | Some k \<Rightarrow> if k \<in> S then t\<lparr>wt_order := None\<rparr> else t"
  have "concat (map (\<lambda>t. case wt_order t of None \<Rightarrow> [] | Some oid \<Rightarrow> [oid]) (map ?f ts)) =
      filter (\<lambda>oid. oid \<notin> S) (concat (map (\<lambda>t. case wt_order t of None \<Rightarrow> [] | Some oid \<Rightarrow> [oid]) ts))" for ts
    by (induction ts) (auto split: option.split)
  then have refs: "order_refs ?w = filter (\<lambda>oid. oid \<notin> S) (order_refs w)" by (simp add: order_refs_def)
  have same: "wt_master (?f t) = wt_master t" "wt_type (?f t) = wt_type t" "wt_method (?f t) = wt_method t" "wt_amount (?f t) = wt_amount t" "wt_id (?f t) = wt_id t" for t
    by (auto split: option.split)
  have led: "ledger_sum m ty meth ?w = ledger_sum m ty meth w" for m ty meth
    by (simp add: ledger_sum_def sum_rows_def same comp_def cong: if_cong)
  have "wallet_of m ?w = wallet_of m w" for m by (rule wallet_of_cong) simp
  then have synced: "wallet_synced m ?w" for m
    using wallet_inv_synced [OF B(3), of m] by (simp only: wallet_synced_def led)
  have "map wt_id (map ?f ts) = map wt_id ts" for ts by (simp add: same comp_def)
  then have "wallet_inv ?w"
    using wallet_invD [OF B(3)] synced keys_distinct_same [of wt_id "map ?f (wallet_transactions w)" "wallet_transactions w"]
    by (intro wallet_invI) (auto simp: same)
  moreover have "completed_ref oid ?os" if "oid \<in> set (order_refs ?w)" for oid
  proof -
    have "oid \<notin> S" "completed_ref oid os" using that B(5) by (auto simp: refs list_all_iff)
    then show ?thesis by (simp add: completed_ref_def get_row_filter_key [of "\<lambda>k. k \<notin> S" oid])
  qed
  ultimately show ?thesis
    using B by (auto simp: books_inv_def list_all_iff refs keys_distinct_filter)
qed

lemma destroy_books:
  assumes "books_inv (orders s) (wallet s)" and "Order_destroy prot pk s = Inr s'"
  shows "books_inv (orders s') (wallet s')"
proof -
  let ?f = "\<lambda>t. if wt_order t = Some pk then t\<lparr>wt_order := None\<rparr> else t"
  have f: "?f = (\<lambda>t. case wt_order t of None \<Rightarrow> t | Some k \<Rightarrow> if k \<in> {pk} then t\<lparr>wt_order := None\<rparr> else t)"
    by (auto split: option.split)
  have "books_inv (filter (\<lambda>ord. o_id ord \<notin> {pk}) (orders s))
      ((wallet s)\<lparr>wallet_transactions := map ?f (wallet_transactions (wallet s))\<rparr>)"
    unfolding f by (rule drop_orders_books [OF assms(1)])
  then show ?thesis using assms(2) by (auto simp: Order_destroy_def del_row_def split: if_splits)
qed

section \<open>The warehouse side\<close>

lemma consume_items_warehouse:
  assumes "warehouse_inv (warehouse s)" and "consume_items oid m items tot s = Inr (s', tot')"
  shows "warehouse_inv (warehouse s')"
  using assms
proof (induction oid m items tot s rule: consume_items.induct)
  case (2 oid m iid n items tot s)
  let ?rows = "filter (\<lambda>i. Some (mi_master i) = m) (inventory (warehouse s))"
  obtain i p where i: "get_row mi_id iid ?rows = Some i" and p: "get_row pr_id (mi_product i) (products (warehouse s)) = Some p"
    and n: "n \<le> mi_quantity i"
    and rest: "consume_items oid m items (tot + n * sale_price p) (create_usage oid iid n (sale_price p)
        (s\<lparr>warehouse := set_inventory_quantity iid (mi_quantity i - n) (warehouse s)\<rparr>)) = Inr (s', tot')"
    using 2(3) by (auto simp: Let_def split: option.splits if_splits)
  have "warehouse_inv (set_inventory_quantity iid (mi_quantity i - n) (warehouse s))"
    using n warehouse_invD(1) [OF 2(2)] by (intro inventory_change_inv [OF 2(2)] wf_set_inventory) simp_all
  with 2(1) [OF i p _ refl _ rest] n show ?case by simp
qed simp

lemma user_step_warehouse:
  assumes "user_step s s'" and "warehouse_inv (warehouse s)"
  shows "warehouse_inv (warehouse s')"
  using assms(1)
proof (cases rule: user_step.cases)
  case (check e user pk ci)
  then show ?thesis
    using consume_items_warehouse [OF assms(2)] by (auto elim!: check_InrD)
next
  case (use_part user iid oid n)
  then show ?thesis
    using use_inventory_inv [OF assms(2)] by (auto elim!: UseInventoryView_InrD)
next
  case (pay e user pk pm)
  then have "warehouse s' = warehouse s"
    by (auto simp: ClientOrderPayView_post_def Let_def split: if_splits option.splits elim!: complete_paid_order_InrD)
  with assms(2) show ?thesis by simp
next
  case (paid e pk)
  then have "warehouse s' = warehouse s"
    by (auto simp: mark_order_paid_def split: if_splits elim!: complete_paid_order_InrD)
  with assms(2) show ?thesis by simp
qed (use assms(2) in \<open>auto simp: MasterOrderAcceptView_post_def MasterOrderOnWayView_post_def MasterOrderStartView_post_def
    OrderStartSerializer_save_def MasterOrderRejectView_post_def MasterOrderReceiptConfirmView_post_def
    approve_order_receipt_def OrderSerializer_create_def ClientOrderCancelView_post_def ClientOrderRateView_post_def
    mark_order_payment_cancelled_def Let_def case_prod_beta split: if_splits option.splits\<close>)

section \<open>Preservation\<close>

lemma lifecycle_from_completed: "\<not> lifecycle_edge COMPLETED st"
  by simp

lemma admin_from_completed: "\<not> admin_edge COMPLETED st"
  by (simp add: admin_edge_def TERMINAL_ORDER_STATUSES_def)

lemma user_step_effect:
  assumes "user_step s s'" and "books_inv (orders s) (wallet s)"
  shows "replaces (status_row lifecycle_edge) s s' \<or> appends s s' \<or>
    (\<exists>e pk pt ok. complete_paid_order e pk pt s = Inr (s', ok))"
  using assms(1)
proof (cases rule: user_step.cases)
  case (pay e user pk pm)
  then show ?thesis using pay_InrD books_invD(1) [OF assms(2)] by blast
next
  case (paid e pk)
  then show ?thesis using mark_paid_InrD by blast
qed (use books_invD(1) [OF assms(2)] in \<open>blast intro: row_change create_appends\<close>)+

lemma replaces_books_user:
  "books_inv (orders s) (wallet s) \<Longrightarrow> replaces (status_row lifecycle_edge) s s' \<Longrightarrow> books_inv (orders s') (wallet s')"
  by (rule replaces_books [where E = lifecycle_edge]) (simp_all add: lifecycle_from_completed)

lemma replaces_books_admin:
  "books_inv (orders s) (wallet s) \<Longrightarrow> replaces (status_row admin_edge) s s' \<Longrightarrow> books_inv (orders s') (wallet s')"
  by (rule replaces_books [where E = admin_edge]) (simp_all add: admin_from_completed)

lemma user_step_books:
  assumes "user_step s s'" and "books_inv (orders s) (wallet s)"
  shows "books_inv (orders s') (wallet s')"
  using user_step_effect [OF assms] replaces_books_user [OF assms(2)]
    appends_books [OF assms(2)] complete_paid_books [OF assms(2)] by blast

lemma user_step_moves:
  assumes "user_step s s'" and "books_inv (orders s) (wallet s)"
  shows "moves_along lifecycle_edge s s'"
  using user_step_effect [OF assms] replaces_moves appends_moves complete_paid_moves by blast

lemma user_step_inv: "user_step s s' \<Longrightarrow> order_inv s \<Longrightarrow> order_inv s'"
  using user_step_books user_step_warehouse by (simp add: order_inv_def)

lemma books_inv_wallet:
  assumes "books_inv os w" and "wallet_inv w'" and "order_refs w' = order_refs w"
  shows "books_inv os w'"
  using assms by (simp add: books_inv_def)

lemma refs_request:
  "WithdrawRequestCreateView_perform_create m a w = Inr w' \<Longrightarrow> order_refs w' = order_refs w"
  by (rule order_refs_cong)
    (auto simp: WithdrawRequestCreateView_perform_create_def Let_def split: if_splits)

lemma refs_accept:
  assumes "accept_cash_handover rid nt now w = Inr (w', ok)"
  shows "order_refs w' = order_refs w"
proof -
  obtain h where h: "get_row wr_id rid (withdraw_requests w) = Some h"
    using assms by (auto simp: accept_cash_handover_def)
  show ?thesis
  proof (cases "wr_status h = W_PENDING")
    case True
    let ?post = "post_wallet_transaction (wr_master h) OUT (wr_amount h) CASH
        ''Naqd pul admin tomonidan qabul qilindi'' None now w"
    show ?thesis
    proof (cases ?post)
      case (Inl er)
      with True assms show ?thesis unfolding accept_cash_handover_posts [OF h] by simp
    next
      case (Inr r)
      then obtain w1 t where post: "?post = Inr (w1, t)" by (cases r) simp
      with True assms have "w' = set_withdraw_status rid W_APPROVED (note_or nt ''Naqd qabul qilindi'') w1"
        unfolding accept_cash_handover_posts [OF h] by simp
      then have "order_refs w' = order_refs w1" by (intro order_refs_cong) simp
      with order_refs_post [OF post] show ?thesis by simp
    qed
  next
    case False
    then show ?thesis using assms h by (simp add: accept_cash_handover_def)
  qed
qed

lemma refs_reject: "reject_cash_handover rid nt w = Inr (w', ok) \<Longrightarrow> order_refs w' = order_refs w"
  by (rule order_refs_cong) (auto simp: reject_cash_handover_def split: if_splits)

lemma dash_assign_warehouse:
  "warehouse (fst (DashboardOrderAssignSerializer_save admin pk ms as m s)) = warehouse s"
  by (simp add: DashboardOrderAssignSerializer_save_def Let_def case_prod_beta split: option.split)

lemma order_step_warehouse:
  assumes "order_step s s'" and "warehouse_inv (warehouse s)"
  shows "warehouse_inv (warehouse s')"
  using assms(1)
proof (cases rule: order_step.cases)
  case user
  then show ?thesis using user_step_warehouse assms(2) by blast
next
  case (stock w)
  then show ?thesis using warehouse_step_inv assms(2) by simp
next
  case (dash_create e p)
  then show ?thesis using assms(2) by (auto simp: DashboardOrderSerializer_create_def Let_def case_prod_beta)
next
  case (dash_update pk p)
  then show ?thesis using assms(2) by (auto simp: DashboardOrderSerializer_update_def Let_def)
next
  case (dash_status pk st cr rr)
  then show ?thesis using assms(2) by (auto simp: DashboardOrderStatusSerializer_save_def split: if_splits)
next
  case (dash_assign admin pk ms as m)
  then show ?thesis using assms(2) by (simp add: dash_assign_warehouse)
next
  case (admin_assign all_masters admin pk mids aids)
  then show ?thesis using assms(2) by (auto simp: OrderAdmin_assign_row_def Let_def case_prod_beta)
next
  case (internal_create e w)
  then show ?thesis
    using assms(2) by (auto simp: InternalOrderWriteSerializer_create_def Let_def case_prod_beta split: if_splits)
next
  case (internal_update e pk w)
  then show ?thesis using assms(2) by (auto simp: InternalOrderWriteSerializer_update_def Let_def)
next
  case (internal_assign known pk mid)
  then show ?thesis using assms(2) by (auto simp: OrderAssignAPIView_patch_def Let_def)
next
  case (destroy prot pk)
  then show ?thesis using assms(2) by (auto simp: Order_destroy_def split: if_splits)
qed (use assms(2) in simp_all)

lemma order_step_books:
  assumes "order_step s s'" and B: "books_inv (orders s) (wallet s)"
  shows "books_inv (orders s') (wallet s')"
proof -
  note R = replaces_books_admin [OF B]
  show ?thesis
    using assms(1)
  proof (cases rule: order_step.cases)
    case (request m a wd)
    then show ?thesis
      using books_inv_wallet [OF B] master_withdraw_inv [OF books_invD(3) [OF B]] refs_request by simp
  next
    case (handover rid nt now wd ok)
    then show ?thesis
      using books_inv_wallet [OF B] accept_handover_inv [OF books_invD(3) [OF B]] refs_accept by simp
  next
    case (handover_reject rid nt wd ok)
    then show ?thesis
      using books_inv_wallet [OF B] reject_handover_inv [OF books_invD(3) [OF B]] refs_reject by simp
  next
    case (stock w)
    then show ?thesis using B by simp
  next
    case user
    then show ?thesis using user_step_books B by blast
  next
    case (destroy prot pk)
    then show ?thesis using destroy_books B by blast
  qed (blast intro: R row_change appends_books [OF B] dash_create_appends internal_create_appends)+
qed

lemma order_step_inv: "order_step s s' \<Longrightarrow> order_inv s \<Longrightarrow> order_inv s'"
  using order_step_books order_step_warehouse by (simp add: order_inv_def)

lemma order_steps_inv: "order_step\<^sup>*\<^sup>* s s' \<Longrightarrow> order_inv s \<Longrightarrow> order_inv s'"
  by (induction rule: rtranclp_induct) (auto dest: order_step_inv)

end
