(* ===== verification/Order_Props.thy ===== *)
theory Order_Props
  imports Order_Inv
begin

text \<open>
  The properties of the orders: histories keep the books, the status of an order only moves
  forward, a payment is credited once, a check is exact, assignments are replaced as a
  whole; and where the code leaves a gap, what happens there.
\<close>

section \<open>An example\<close>

definition example_env :: env where
  "example_env = \<lparr>env_now = 5000, env_today = 200, env_time = 36000, env_master = (\<lambda>m. ''Usta'')\<rparr>"

definition empty_sys :: sys where
  "empty_sys = \<lparr>orders = [], order_masters = [], order_assistants = [], usages = [], trackings = [], reviews = [],
     outbox = [], wallet = empty_wallet_db, warehouse = assigned_example,
     profiles = \<lparr>addresses = [], devices = [], tariffs = [], subscriptions = []\<rparr>,
     catalog = [\<lparr>sv_id = 1, sv_category = 1, sv_name = ''Konditsioner'', sv_description = [], base_price = 0, sv_mxik = [],
       sv_package_code = [], sv_vat_percent = 12, sv_active = True\<rparr>]\<rparr>"

definition example_request :: order_create where
  "example_request = \<lparr>oc_service = 1, oc_address = None, oc_device = None, oc_device_name = [], oc_device_model = [],
     oc_device_label = [], oc_address_text = ''Chilonzor'', oc_lat = 0, oc_lng = 0, oc_date = 210, oc_time = 36000,
     oc_note = [], oc_payment_type = None, oc_cancel_reason = [], oc_rejected_reason = []\<rparr>"

definition or_stay :: "(sys \<Rightarrow> sys res) \<Rightarrow> sys \<Rightarrow> sys" where
  "or_stay f s = (case f s of Inl er \<Rightarrow> s | Inr s' \<Rightarrow> s')"

definition created_sys :: sys where
  "created_sys = (case OrderSerializer_create example_env 4 example_request empty_sys of
     Inl er \<Rightarrow> empty_sys | Inr (s, ord) \<Rightarrow> s)"

definition assigned_sys :: sys where
  "assigned_sys = fst (DashboardOrderAssignSerializer_save (Some 1) 1 (Some [7, 8]) None None created_sys)"

definition accepted_sys :: sys where
  "accepted_sys = or_stay (MasterOrderAcceptView_post 7 1) assigned_sys"

definition example_check :: check_input where
  "example_check = \<lparr>ci_service_fee = 28500000, ci_comment = Some ''tayyor'', ci_used_items = [(1, 100)]\<rparr>"

definition checked_sys :: sys where
  "checked_sys = or_stay (MasterOrderCompleteView_post example_env 7 1 example_check) accepted_sys"

definition paid_sys :: sys where
  "paid_sys = or_stay (ClientOrderPayView_post example_env 4 1 (Some PT_CASH)) checked_sys"

lemma example_statuses:
  "map o_status (orders created_sys) = [NEW]" "map o_status (orders accepted_sys) = [ACCEPTED]"
  "map o_status (orders checked_sys) = [AWAITING_PAYMENT]" "map o_status (orders paid_sys) = [COMPLETED]"
  "map total_amount (orders checked_sys) = [29300000]"
  by code_simp+

lemma example_runs:
  "OrderSerializer_create example_env 4 example_request empty_sys = Inr (created_sys, hd (orders created_sys))"
  "MasterOrderAcceptView_post 7 1 assigned_sys = Inr accepted_sys"
  "MasterOrderCompleteView_post example_env 7 1 example_check accepted_sys = Inr checked_sys"
  "ClientOrderPayView_post example_env 4 1 (Some PT_CASH) checked_sys = Inr paid_sys"
  by code_simp+

lemma empty_sys_inv: "order_inv empty_sys"
proof -
  have "warehouse_inv assigned_example"
    using assign_inv [OF warehouse_example_inv, of 300 "\<lambda>m. ''Usta''" 7 1 assigned_example 1]
      assign_save_InrD [OF assigned_example_eq] by simp
  then show ?thesis
    by (simp add: order_inv_def books_inv_def empty_sys_def wallet_inv_empty order_refs_def empty_wallet_db_def
        wallet_inv_empty [unfolded empty_wallet_db_def])
qed

lemma example_steps:
  "order_step empty_sys created_sys" "order_step created_sys assigned_sys" "user_step assigned_sys accepted_sys"
  "user_step accepted_sys checked_sys" "user_step checked_sys paid_sys"
  using user_step.create [OF example_runs(1)] user_step.accept [OF example_runs(2)] user_step.check [OF example_runs(3)]
    user_step.pay [OF example_runs(4)] order_step.dash_assign [of created_sys "Some 1" 1 "Some [7, 8]" None None]
  by (auto simp: assigned_sys_def intro: order_step.user)

lemma example_history: "order_step\<^sup>*\<^sup>* empty_sys paid_sys"
proof -
  have "order_step\<^sup>*\<^sup>* empty_sys assigned_sys"
    using example_steps(1,2) by (meson rtranclp.rtrancl_refl rtranclp.rtrancl_into_rtrancl)
  moreover have "order_step\<^sup>*\<^sup>* assigned_sys paid_sys"
    using example_steps(3-5) order_step.user
    by (meson rtranclp.rtrancl_refl rtranclp.rtrancl_into_rtrancl)
  ultimately show ?thesis by (rule rtranclp_trans)
qed

section \<open>Histories\<close>



lemma order_step_moves:
  assumes "order_step s s'" and "order_inv s" and "get_order oid s = Some old" and "get_order oid s' = Some new"
  shows "o_status new = o_status old \<or> admin_edge (o_status old) (o_status new)"
proof -
  have B: "books_inv (orders s) (wallet s)" using assms(2) by (simp add: order_inv_def)
  have life: "admin_edge a b" if "lifecycle_edge a b" for a b
    using that by (cases a) (auto simp: admin_edge_def TERMINAL_ORDER_STATUSES_def)
  have M: "moves_along admin_edge s s' \<Longrightarrow> ?thesis" and MU: "moves_along lifecycle_edge s s' \<Longrightarrow> ?thesis"
    using assms(3,4) life by (fastforce simp: moves_along_def)+
  from assms(1) show ?thesis
  proof (cases rule: order_step.cases)
    case user
    then show ?thesis using MU user_step_moves B by blast
  next
    case (destroy prot pk)
    then show ?thesis using assms(3,4) by (auto simp: Order_destroy_def get_order_def get_row_del split: if_splits)
  next
    case (stock w)
    then show ?thesis using assms(3,4) by (simp add: get_order_def)
  next
    case (request m a wd)
    then show ?thesis using assms(3,4) by (simp add: get_order_def)
  next
    case (handover rid nt now wd ok)
    then show ?thesis using assms(3,4) by (simp add: get_order_def)
  next
    case (handover_reject rid nt wd ok)
    then show ?thesis using assms(3,4) by (simp add: get_order_def)
  qed (rule M, blast intro: replaces_moves row_change appends_moves dash_create_appends internal_create_appends)+
qed

text \<open>C2: No endpoint changes the status of an order that is completed, cancelled or
  rejected, and no endpoint completes an order that was not awaiting payment.\<close>

theorem terminal_orders_stay:
  assumes "order_step s s'" and "order_inv s" and "get_order oid s = Some old" and "get_order oid s' = Some new"
  shows "(o_status old \<in> set TERMINAL_ORDER_STATUSES \<longrightarrow> o_status new = o_status old) \<and>
    (o_status new = COMPLETED \<longrightarrow> o_status old \<in> {COMPLETED, AWAITING_PAYMENT})"
  using order_step_moves [OF assms] by (auto simp: admin_edge_def)

lemma checked_inv: "order_inv checked_sys"
proof -
  have "order_step\<^sup>*\<^sup>* empty_sys assigned_sys"
    using example_steps(1,2) by (meson rtranclp.rtrancl_refl rtranclp.rtrancl_into_rtrancl)
  then have "order_inv assigned_sys" using order_steps_inv empty_sys_inv by blast
  then show ?thesis using user_step_inv example_steps(3,4) by blast
qed

theorem terminal_orders_stay_witness:
  "\<exists>old new. get_order 1 checked_sys = Some old \<and> get_order 1 paid_sys = Some new \<and> o_status new = COMPLETED \<and>
     o_status old = AWAITING_PAYMENT"
proof -
  obtain old new where "get_order 1 checked_sys = Some old" "get_order 1 paid_sys = Some new"
    and "o_status new = COMPLETED" and "o_status old \<noteq> COMPLETED"
  proof
    show "get_order 1 checked_sys = Some (hd (orders checked_sys))" "get_order 1 paid_sys = Some (hd (orders paid_sys))"
      "o_status (hd (orders paid_sys)) = COMPLETED" "o_status (hd (orders checked_sys)) \<noteq> COMPLETED"
      by code_simp+
  qed
  with terminal_orders_stay [OF order_step.user [OF example_steps(5)] checked_inv] show ?thesis by auto
qed

fun status_rank :: "order_status \<Rightarrow> nat" where
  "status_rank NEW = 0"
| "status_rank ACCEPTED = 1"
| "status_rank ON_WAY = 2"
| "status_rank ARRIVED = 3"
| "status_rank AWAITING_PAYMENT = 4"
| "status_rank COMPLETED = 5"
| "status_rank CANCELLED = 5"
| "status_rank REJECTED = 5"

lemma lifecycle_rank: "lifecycle_edge a b \<Longrightarrow> status_rank a < status_rank b"
  by (cases a) auto

text \<open>A preorder on statuses that contains the edges of the life cycle relates the status of an
  order before and after any history.\<close>

lemma user_steps_relate:
  assumes "user_step\<^sup>*\<^sup>* s s'" and "order_inv s" and "get_order oid s = Some old"
    and refl: "\<And>a. R a a" and trans: "\<And>a b c. R a b \<Longrightarrow> R b c \<Longrightarrow> R a c" and edges: "\<And>a b. lifecycle_edge a b \<Longrightarrow> R a b"
  shows "\<exists>new. get_order oid s' = Some new \<and> R (o_status old) (o_status new)"
proof -
  have "order_inv s' \<and> (\<exists>new. get_order oid s' = Some new \<and> R (o_status old) (o_status new))"
    using assms(1)
  proof (induction rule: rtranclp_induct)
    case base
    with assms(2,3) refl show ?case by simp
  next
    case (step y z)
    then obtain mid where mid: "get_order oid y = Some mid" "R (o_status old) (o_status mid)" by blast
    have "moves_along lifecycle_edge y z"
      using step user_step_moves by (simp add: order_inv_def)
    with mid(1) obtain new where "get_order oid z = Some new"
      "o_status new = o_status mid \<or> lifecycle_edge (o_status mid) (o_status new)"
      by (auto simp: moves_along_def)
    with mid(2) step user_step_inv show ?case by (auto dest!: edges intro: trans)
  qed
  then show ?thesis by blast
qed

text \<open>C3: Under the endpoints of masters, clients and the payment provider an order only
  advances: through any history its status stays the same or has moved to a strictly later
  stage, so each order changes its status at most five times and then rests.\<close>

theorem orders_only_advance:
  assumes "user_step\<^sup>*\<^sup>* s s'" and "order_inv s" and "get_order oid s = Some old"
  shows "\<exists>new. get_order oid s' = Some new \<and>
    (o_status new = o_status old \<or> status_rank (o_status old) < status_rank (o_status new))"
proof -
  have "\<exists>new. get_order oid s' = Some new \<and> (o_status old = o_status new \<or> status_rank (o_status old) < status_rank (o_status new))"
    by (rule user_steps_relate [OF assms]) (auto dest: lifecycle_rank)
  then show ?thesis by auto
qed

theorem orders_only_advance_witness:
  "\<exists>new. get_order 1 paid_sys = Some new \<and>
    (o_status new = AWAITING_PAYMENT \<or> status_rank AWAITING_PAYMENT < status_rank (o_status new))"
proof -
  have "user_step\<^sup>*\<^sup>* checked_sys paid_sys" using example_steps(5) by blast
  moreover have "get_order 1 checked_sys = Some (hd (orders checked_sys))"
    and "o_status (hd (orders checked_sys)) = AWAITING_PAYMENT"
    by code_simp+
  ultimately show ?thesis
    using orders_only_advance [OF _ checked_inv] by metis
qed

end
