(* ===== verification/Order_Money.thy ===== *)
theory Order_Money
  imports Order_Props
begin

text \<open>
  What the single operations on orders do: acceptance, the check, payment, assignment,
  notification; and the gaps the code leaves: parts booked on finished orders, schedules
  overwritten by status changes.
\<close>

section \<open>Payment\<close>

lemma completion_pays:
  assumes "get_order oid s = Some ord" and "o_status ord = AWAITING_PAYMENT" and "o_master ord = Some m"
    and "0 < total_amount ord"
  shows "\<exists>s'. complete_paid_order e oid pt s = Inr (s', True) \<and>
    (\<forall>m' meth. wallet_balance (wallet s') m' meth = wallet_balance (wallet s) m' meth +
       (if m' = m \<and> meth = (if pt = PT_CASH then CASH else ONLINE) then total_amount ord else 0)) \<and>
    (\<exists>new. get_order oid s' = Some new \<and> o_status new = COMPLETED \<and> is_paid new \<and> total_amount new = total_amount ord)"
proof -
  let ?d = "service_str (o_service ord) (save_order ord (ord\<lparr>o_status := COMPLETED, o_payment_type := Some pt,
      is_paid := True, paid_at := Some (env_now e)\<rparr>) s)"
  obtain w where w: "credit_master ?d (Some oid) (env_now e) m (wallet_method_of pt) (total_amount ord) (wallet s) = Some w"
    using wl.credit_succeeds [OF assms(4)] by blast
  then obtain t where post: "post_wallet_transaction m IN (total_amount ord) (wallet_method_of pt) ?d (Some oid) (env_now e)
      (wallet s) = Inr (w, t)"
    by (auto simp: credit_master_def split: sum.splits prod.splits)
  let ?new = "ord\<lparr>o_status := COMPLETED, o_payment_type := Some pt, is_paid := True, paid_at := Some (env_now e)\<rparr>"
  let ?s' = "(save_order ord ?new s)\<lparr>wallet := w\<rparr>"
  have id: "o_id ord = oid" using get_order_id [OF assms(1)] .
  have run: "complete_paid_order e oid pt s = Inr (?s', True)"
    using assms post by (simp add: complete_paid_order_def)
  have new: "get_order oid ?s' = Some ?new"
    using assms(1) id by (simp add: get_order_def get_row_replace)
  have "wallet_balance w m' meth = wallet_balance (wallet s) m' meth +
       (if m' = m \<and> meth = (if pt = PT_CASH then CASH else ONLINE) then total_amount ord else 0)" for m' meth
    using wl.credit_balance [OF w, of m' meth] by (simp add: wallet_method_of_def)
  then show ?thesis using run new by (intro exI [of _ ?s']) simp
qed

text \<open>C6: Completing a paid order credits the lead master exactly the order total, on the
  cash balance for cash and on the online balance otherwise, and nobody else; a second call
  finds the order completed and changes nothing.\<close>

theorem completion_credits_once:
  assumes "get_order oid s = Some ord" and "o_status ord = AWAITING_PAYMENT" and "o_master ord = Some m"
    and "0 < total_amount ord"
  shows "\<exists>s'. complete_paid_order e oid pt s = Inr (s', True) \<and>
    (\<forall>m' meth. wallet_balance (wallet s') m' meth = wallet_balance (wallet s) m' meth +
       (if m' = m \<and> meth = (if pt = PT_CASH then CASH else ONLINE) then total_amount ord else 0)) \<and>
    (\<exists>new. get_order oid s' = Some new \<and> o_status new = COMPLETED \<and> is_paid new \<and> total_amount new = total_amount ord) \<and>
    complete_paid_order e' oid pt' s' = Inr (s', False)"
proof -
  obtain s' where s': "complete_paid_order e oid pt s = Inr (s', True)"
    "\<forall>m' meth. wallet_balance (wallet s') m' meth = wallet_balance (wallet s) m' meth +
       (if m' = m \<and> meth = (if pt = PT_CASH then CASH else ONLINE) then total_amount ord else 0)"
    "\<exists>new. get_order oid s' = Some new \<and> o_status new = COMPLETED \<and> is_paid new \<and> total_amount new = total_amount ord"
    using completion_pays [OF assms] by blast
  moreover from s'(3) have "complete_paid_order e' oid pt' s' = Inr (s', False)"
    by (auto simp: complete_paid_order_def)
  ultimately show ?thesis by blast
qed

theorem completion_credits_once_witness:
  "\<exists>s'. complete_paid_order example_env 1 PT_ONLINE checked_sys = Inr (s', True) \<and>
     wallet_balance (wallet s') 7 ONLINE = 29300000 \<and> wallet_balance (wallet s') 7 CASH = 0 \<and>
     complete_paid_order example_env 1 PT_CASH s' = Inr (s', False)"
proof -
  obtain ord where "get_order 1 checked_sys = Some ord" "o_status ord = AWAITING_PAYMENT" "o_master ord = Some 7"
    "total_amount ord = 29300000"
    by (rule that [of "hd (orders checked_sys)"]) code_simp+
  moreover have "wallet_balance (wallet checked_sys) 7 ONLINE = 0" "wallet_balance (wallet checked_sys) 7 CASH = 0"
    by code_simp+
  ultimately show ?thesis
    using completion_credits_once [of 1 checked_sys ord 7 example_env PT_ONLINE example_env PT_CASH] by auto
qed

section \<open>The check\<close>

lemma usage_total_create:
  "usage_total oid (create_usage oid' iid n pr s) = usage_total oid s + (if oid' = oid then quantize2 (n * pr) else 0)"
  by (simp add: usage_total_def create_usage_def sum_rows_add)

lemma usage_total_warehouse [simp]: "usage_total oid (s\<lparr>warehouse := w\<rparr>) = usage_total oid s"
  by (simp add: usage_total_def)

text \<open>With whole prices no rounding happens: the loop total is the growth of the stored total.\<close>

definition whole_prices :: "warehouse_db \<Rightarrow> bool" where
  "whole_prices w = list_all (\<lambda>p. 0 \<le> sale_price p \<and> sale_price p mod 100 = 0) (products w)"

lemma consume_items_exact:
  assumes "whole_prices (warehouse s)" and "list_all (\<lambda>(_, n). 1 \<le> n) items"
    and "consume_items oid m items tot s = Inr (s', tot')"
  shows "tot' - tot = 100 * (usage_total oid s' - usage_total oid s) \<and> usage_total oid s \<le> usage_total oid s'"
  using assms
proof (induction oid m items tot s rule: consume_items.induct)
  case (2 oid m iid n items tot s)
  obtain i p where i: "get_row mi_id iid (filter (\<lambda>i. Some (mi_master i) = m) (inventory (warehouse s))) = Some i"
    and p: "get_row pr_id (mi_product i) (products (warehouse s)) = Some p" and n: "\<not> mi_quantity i < n"
    and rest: "consume_items oid m items (tot + n * sale_price p) (create_usage oid iid n (sale_price p)
        (s\<lparr>warehouse := set_inventory_quantity iid (mi_quantity i - n) (warehouse s)\<rparr>)) = Inr (s', tot')"
    using 2(4) by (auto simp: Let_def split: option.splits if_splits)
  have price: "0 \<le> sale_price p" "sale_price p mod 100 = 0"
    using 2(2) get_row_in [OF p] by (auto simp: whole_prices_def list_all_iff)
  then have "sale_price p = 100 * (sale_price p div 100)"
    using mult_div_mod_eq [of 100 "sale_price p"] by simp
  then obtain c where c: "sale_price p = 100 * c" by blast
  have q: "quantize2 (n * sale_price p) = n * c"
    using quantize2_exact(1) [of "n * c"] by (simp add: c ac_simps)
  have "0 \<le> n * c" using price(1) 2(3) by (simp add: c)
  let ?s1 = "create_usage oid iid n (sale_price p)
        (s\<lparr>warehouse := set_inventory_quantity iid (mi_quantity i - n) (warehouse s)\<rparr>)"
  have "whole_prices (warehouse ?s1)" using 2(2) by (simp add: whole_prices_def)
  with 2(1) [OF i p n refl _ _ rest] 2(3)
  have "tot' - (tot + n * sale_price p) = 100 * (usage_total oid s' - usage_total oid ?s1) \<and>
      usage_total oid ?s1 \<le> usage_total oid s'" by simp
  moreover have "usage_total oid ?s1 = usage_total oid s + n * c"
    by (simp add: usage_total_create q)
  ultimately show ?case using \<open>0 \<le> n * c\<close> by (simp add: c algebra_simps)
qed simp



end
