(* ===== verification/Base64_Codec.thy ===== *)
theory Base64_Codec
  imports Prelude
begin

text \<open>
  What the code uses of Python's \<open>base64\<close> and string modules: \<open>b64encode\<close>,
  the lenient \<open>b64decode\<close>, the check that decoded bytes are UTF-8, \<open>str.split\<close>.

  Characters are bytes; a decoded byte string and the text it encodes are the same list.
  \<open>decode_encode\<close> is the round trip on which the authorization header and the checkout
  link rest.
\<close>

section \<open>The alphabet\<close>

definition b64_char :: "nat \<Rightarrow> char" where
  "b64_char v = (char_of
    (if v < 26 then 65 + v else if v < 52 then 71 + v else if v < 62 then v - 4 else if v = 62 then 43 else 47 :: nat))"

definition b64_value :: "char \<Rightarrow> nat option" where
  "b64_value c =
    (let n = (of_char c :: nat) in
     if 65 \<le> n \<and> n \<le> 90 then Some (n - 65)
     else if 97 \<le> n \<and> n \<le> 122 then Some (n - 71)
     else if 48 \<le> n \<and> n \<le> 57 then Some (n + 4)
     else if n = 43 then Some 62 else if n = 47 then Some 63 else None)"

lemma b64_value_char [simp]: "v < 64 \<Longrightarrow> b64_value (b64_char v) = Some v"
  by (auto simp: b64_value_def b64_char_def Let_def)

lemma b64_char_not_pad [simp]: "v < 64 \<Longrightarrow> b64_char v \<noteq> CHR ''=''"
proof
  assume "v < 64" "b64_char v = CHR ''=''"
  then show False using b64_value_char [of v] by (simp add: b64_value_def)
qed

section \<open>Encoding and decoding\<close>

abbreviation byte :: "char \<Rightarrow> nat" where
  "byte c \<equiv> of_char c"

fun b64encode :: "string \<Rightarrow> string" where
  "b64encode [] = []"
| "b64encode [a] = [b64_char (byte a div 4), b64_char (byte a mod 4 * 16), CHR ''='', CHR ''='']"
| "b64encode [a, b] = [b64_char (byte a div 4), b64_char (byte a mod 4 * 16 + byte b div 16),
     b64_char (byte b mod 16 * 4), CHR ''='']"
| "b64encode (a # b # c # xs) =
    b64_char (byte a div 4) # b64_char (byte a mod 4 * 16 + byte b div 16) #
    b64_char (byte b mod 16 * 4 + byte c div 64) # b64_char (byte c mod 64) # b64encode xs"

text \<open>The decoder keeps its position in the group of four, the bits left over and the number of
  padding characters seen; characters outside the alphabet are skipped.\<close>

fun b64_scan :: "nat \<Rightarrow> nat \<Rightarrow> nat \<Rightarrow> string \<Rightarrow> string \<Rightarrow> string option" where
  "b64_scan pos left pads [] acc = (if pos = 0 then Some (rev acc) else None)"
| "b64_scan pos left pads (c # cs) acc =
    (if c = CHR ''=''
     then if 2 \<le> pos then (if 4 \<le> pos + pads + 1 then Some (rev acc) else b64_scan pos left (pads + 1) cs acc)
          else b64_scan pos left pads cs acc
     else case b64_value c of
            None \<Rightarrow> b64_scan pos left pads cs acc
          | Some v \<Rightarrow>
              if pos = 0 then b64_scan 1 v 0 cs acc
              else if pos = 1 then b64_scan 2 (v mod 16) 0 cs (char_of (left * 4 + v div 16) # acc)
              else if pos = 2 then b64_scan 3 (v mod 4) 0 cs (char_of (left * 16 + v div 4) # acc)
              else b64_scan 0 0 0 cs (char_of (left * 64 + v) # acc))"

definition b64decode :: "string \<Rightarrow> string option" where
  "b64decode s = b64_scan 0 0 0 s []"

lemma byte_less [simp]: "byte c < 256"
  by (metis nat_of_char_less_256)

lemma byte_high [simp]:
  "byte b div 16 div 16 = 0" "byte c div 64 div 4 = 0" "byte b div 16 mod 16 = byte b div 16"
  "byte c div 64 mod 4 = byte c div 64"
proof -
  have "byte b < 16 * 16" "byte c < 64 * 4" using byte_less [of b] byte_less [of c] by simp_all
  then have "byte b div 16 < 16" "byte c div 64 < 4"
    by (simp_all add: less_mult_imp_div_less mult.commute)
  then show "byte b div 16 div 16 = 0" "byte c div 64 div 4 = 0" "byte b div 16 mod 16 = byte b div 16"
    "byte c div 64 mod 4 = byte c div 64" by simp_all
qed

lemma scan_sextet:
  assumes "v < 64"
  shows "b64_scan 0 l p (b64_char v # cs) acc = b64_scan 1 v 0 cs acc"
    and "b64_scan (Suc 0) l p (b64_char v # cs) acc = b64_scan 2 (v mod 16) 0 cs (char_of (l * 4 + v div 16) # acc)"
    and "b64_scan 2 l p (b64_char v # cs) acc = b64_scan 3 (v mod 4) 0 cs (char_of (l * 16 + v div 4) # acc)"
    and "b64_scan 3 l p (b64_char v # cs) acc = b64_scan 0 0 0 cs (char_of (l * 64 + v) # acc)"
  using assms by simp_all

lemma sextet_bounds:
  "byte a div 4 < 64" "byte a mod 4 * 16 + byte b div 16 < 64" "byte a mod 4 * 16 < 64"
  "byte b mod 16 * 4 + byte c div 64 < 64" "byte b mod 16 * 4 < 64" "byte c mod 64 < 64"
proof -
  have "byte a < 4 * 64" "byte b < 16 * 16" "byte c < 64 * 4"
    using byte_less [of a] byte_less [of b] byte_less [of c] by simp_all
  then have "byte a div 4 < 64" "byte b div 16 < 16" "byte c div 64 < 4"
    by (simp_all add: less_mult_imp_div_less mult.commute)
  moreover have "byte a mod 4 < 4" "byte b mod 16 < 16" "byte c mod 64 < 64" by simp_all
  ultimately show "byte a div 4 < 64" "byte a mod 4 * 16 + byte b div 16 < 64" "byte a mod 4 * 16 < 64"
    "byte b mod 16 * 4 + byte c div 64 < 64" "byte b mod 16 * 4 < 64" "byte c mod 64 < 64"
    by linarith+
qed

lemma scan_encode: "b64_scan 0 0 0 (b64encode s) acc = Some (rev acc @ s)"
proof (induction s arbitrary: acc rule: b64encode.induct)
  case (4 a b c xs)
  then show ?case
    by (simp add: scan_sextet sextet_bounds del: b64_scan.simps)
qed (simp_all add: scan_sextet sextet_bounds)

lemma decode_encode: "b64decode (b64encode s) = Some s"
  by (simp add: b64decode_def scan_encode)

section \<open>Text\<close>

text \<open>The whitespace of \<open>str.split\<close> and \<open>str.strip\<close> on ASCII text.\<close>

definition is_space :: "char \<Rightarrow> bool" where
  "is_space c = (byte c = 32 \<or> (9 \<le> byte c \<and> byte c \<le> 13) \<or> (28 \<le> byte c \<and> byte c \<le> 31))"

definition lstrip :: "string \<Rightarrow> string" where
  "lstrip s = dropWhile is_space s"

definition strip :: "string \<Rightarrow> string" where
  "strip s = rev (lstrip (rev (lstrip s)))"

text \<open>\<open>s.split()[-1]\<close>: the last word, \<open>None\<close> (an index error) when there is none.\<close>

definition last_word :: "string \<Rightarrow> string option" where
  "last_word s = (let w = rev (takeWhile (\<lambda>c. \<not> is_space c) (lstrip (rev s))) in if w = [] then None else Some w)"

text \<open>\<open>s.split(c, 1)[-1]\<close>: what follows the first separator, the whole text without one.\<close>

definition after_first :: "char \<Rightarrow> string \<Rightarrow> string" where
  "after_first c s = (if c \<in> set s then tl (dropWhile (\<lambda>x. x \<noteq> c) s) else s)"

definition before_first :: "char \<Rightarrow> string \<Rightarrow> string" where
  "before_first c s = takeWhile (\<lambda>x. x \<noteq> c) s"

text \<open>Well-formed UTF-8 (the byte ranges of RFC 3629).\<close>

definition cont :: "nat \<Rightarrow> bool" where
  "cont b = (128 \<le> b \<and> b \<le> 191)"

fun utf8_valid :: "nat list \<Rightarrow> bool" where
  "utf8_valid [] = True"
| "utf8_valid (a # xs) =
    (if a \<le> 127 then utf8_valid xs
     else if 194 \<le> a \<and> a \<le> 223
       then (case xs of b # ys \<Rightarrow> cont b \<and> utf8_valid ys | [] \<Rightarrow> False)
     else if 224 \<le> a \<and> a \<le> 239
       then (case xs of b # c # ys \<Rightarrow>
               cont b \<and> cont c \<and> (a = 224 \<longrightarrow> 160 \<le> b) \<and> (a = 237 \<longrightarrow> b \<le> 159) \<and> utf8_valid ys | _ \<Rightarrow> False)
     else if 240 \<le> a \<and> a \<le> 244
       then (case xs of b # c # d # ys \<Rightarrow>
               cont b \<and> cont c \<and> cont d \<and> (a = 240 \<longrightarrow> 144 \<le> b) \<and> (a = 244 \<longrightarrow> b \<le> 143) \<and> utf8_valid ys | _ \<Rightarrow> False)
     else False)"

definition utf8_decodes :: "string \<Rightarrow> bool" where
  "utf8_decodes s = utf8_valid (map byte s)"

definition is_ascii :: "string \<Rightarrow> bool" where
  "is_ascii s = list_all (\<lambda>c. byte c \<le> 127) s"

lemma utf8_ascii: "is_ascii s \<Longrightarrow> utf8_decodes s"
  by (induction s) (auto simp: is_ascii_def utf8_decodes_def)

lemma b64_char_no_space: "v < 64 \<Longrightarrow> \<not> is_space (b64_char v)"
proof
  assume v: "v < 64" and sp: "is_space (b64_char v)"
  from v have "b64_value (b64_char v) \<noteq> None" by simp
  with sp show False by (auto simp: b64_value_def is_space_def Let_def split: if_splits)
qed

lemma pad_no_space: "\<not> is_space (CHR ''='')"
  by (simp add: is_space_def)

lemma encode_no_space: "list_all (\<lambda>c. \<not> is_space c) (b64encode s)"
  by (induction s rule: b64encode.induct)
    (simp_all add: b64_char_no_space pad_no_space sextet_bounds del: byte_less)

lemma encode_Nil_iff [simp]: "b64encode s = [] \<longleftrightarrow> s = []"
  by (cases s rule: b64encode.cases) auto

lemma last_word_encoded:
  assumes "s \<noteq> []" and "is_space c"
  shows "last_word (pre @ c # b64encode s) = Some (b64encode s)"
proof -
  let ?r = "rev (b64encode s)"
  have ns: "\<forall>x \<in> set ?r. \<not> is_space x" using encode_no_space [of s] by (simp add: list_all_iff)
  have "?r \<noteq> []" using assms(1) by simp
  then obtain y ys where r: "?r = y # ys" by (cases ?r) auto
  with ns have "lstrip (?r @ c # rev pre) = ?r @ c # rev pre" by (simp add: lstrip_def)
  moreover have "takeWhile (\<lambda>c. \<not> is_space c) (?r @ c # rev pre) = ?r"
    using ns assms(2) by (subst takeWhile_append2) auto
  ultimately show ?thesis using assms(1) by (simp add: last_word_def Let_def)
qed

lemma after_first_append: "c \<notin> set pre \<Longrightarrow> after_first c (pre @ c # s) = s"
proof (induction pre)
  case (Cons a pre)
  then show ?case by (auto simp: after_first_def)
qed (simp add: after_first_def)

end
