(* ===== verification/Payme_Model.thy ===== *)
theory Payme_Model
  imports Order_Money Base64_Codec
begin

text \<open>
  The payment provider's side: \<open>src/apps/payme/\<close>.

  \<^item> State: \<open>payme_sys\<close>, the state of the orders with the table of Payme transactions.
  \<^item> The webhook answers every JSON-RPC request with a result or an error body; handlers
    return the new state and the reply, because an expired transaction is cancelled and
    committed before the error is raised.
  \<^item> Bodies are JSON values. A JSON fraction is given by numerator and denominator.
    The textual form of fractions and containers, and the parsing of UUIDs, are Python's
    and the framework's: parameters of the settings (\<open>py_repr\<close>, \<open>parse_pk\<close>).
\<close>

section \<open>JSON values\<close>

datatype json =
    JNull
  | JBool bool
  | JInt int
  | JFloat int nat
  | JStr string
  | JList "json list"
  | JObj "(string \<times> json) list"

definition json_get :: "(string \<times> json) list \<Rightarrow> string \<Rightarrow> json" where
  "json_get kvs k = (case map_of kvs k of None \<Rightarrow> JNull | Some v \<Rightarrow> v)"

fun truthy :: "json \<Rightarrow> bool" where
  "truthy JNull = False"
| "truthy (JBool b) = b"
| "truthy (JInt i) = (i \<noteq> 0)"
| "truthy (JFloat n d) = (n \<noteq> 0)"
| "truthy (JStr s) = (s \<noteq> [])"
| "truthy (JList xs) = (xs \<noteq> [])"
| "truthy (JObj kvs) = (kvs \<noteq> [])"

text \<open>Python's \<open>int()\<close>: fractions are cut towards zero; a text is read as a decimal literal with
  optional sign, surrounding blanks and single underscores between digits.\<close>

definition truncate :: "int \<Rightarrow> nat \<Rightarrow> int" where
  "truncate n d = (if n < 0 then - ((- n) div int d) else n div int d)"

definition is_digit :: "char \<Rightarrow> bool" where
  "is_digit c = (48 \<le> byte c \<and> byte c \<le> 57)"

fun read_digits :: "nat \<Rightarrow> bool \<Rightarrow> string \<Rightarrow> nat option" where
  "read_digits acc after_digit [] = (if after_digit then Some acc else None)"
| "read_digits acc after_digit (c # cs) =
    (if is_digit c then read_digits (10 * acc + (byte c - 48)) True cs
     else if c = CHR ''_'' \<and> after_digit then read_digits acc False cs
     else None)"

definition read_int :: "string \<Rightarrow> int option" where
  "read_int s =
    (case strip s of
       [] \<Rightarrow> None
     | c # cs \<Rightarrow>
         if c = CHR ''-'' then map_option (\<lambda>n. - int n) (read_digits 0 False cs)
         else if c = CHR ''+'' then map_option int (read_digits 0 False cs)
         else map_option int (read_digits 0 False (c # cs)))"

fun py_int :: "json \<Rightarrow> int option" where
  "py_int (JBool b) = Some (if b then 1 else 0)"
| "py_int (JInt i) = Some i"
| "py_int (JFloat n d) = Some (truncate n d)"
| "py_int (JStr s) = read_int s"
| "py_int _ = None"

fun py_str :: "(json \<Rightarrow> string) \<Rightarrow> json \<Rightarrow> string" where
  "py_str repr JNull = ''None''"
| "py_str repr (JBool b) = (if b then ''True'' else ''False'')"
| "py_str repr (JInt i) = int_str i"
| "py_str repr (JStr s) = s"
| "py_str repr v = repr v"

section \<open>Errors\<close>

datatype payme_error =
    PaymePermissionDenied string
  | MethodNotFound string
  | InternalServiceError string
  | TransportError
  | ParseError
  | InvalidRequest "string option"
  | AccountDoesNotExist string
  | IncorrectAmount string
  | TransactionAlreadyExists string
  | TransactionNotFound string
  | UnableToPerformOperation string
  | UnableToCancelTransaction string
  | InvalidFiscalParams "string option"
  | InvalidAccount "string option"

fun error_code :: "payme_error \<Rightarrow> int" where
  "error_code (PaymePermissionDenied _) = -32504"
| "error_code (MethodNotFound _) = -32601"
| "error_code (InternalServiceError _) = -32400"
| "error_code TransportError = -32300"
| "error_code ParseError = -32700"
| "error_code (InvalidRequest _) = -32600"
| "error_code (AccountDoesNotExist _) = -31050"
| "error_code (IncorrectAmount _) = -31001"
| "error_code (TransactionAlreadyExists _) = -31099"
| "error_code (TransactionNotFound _) = -31003"
| "error_code (UnableToPerformOperation _) = -31008"
| "error_code (UnableToCancelTransaction _) = -31007"
| "error_code (InvalidFiscalParams _) = -32602"
| "error_code (InvalidAccount _) = -31050"

section \<open>Transactions\<close>

datatype tx_state = TX_CREATED | INITIATING | SUCCESSFULLY | CANCELED | CANCELED_DURING_INIT

fun state_code :: "tx_state \<Rightarrow> int" where
  "state_code TX_CREATED = 0"
| "state_code INITIATING = 1"
| "state_code SUCCESSFULLY = 2"
| "state_code CANCELED = -2"
| "state_code CANCELED_DURING_INIT = -1"

record payme_transaction =
  transaction_id :: string
  tx_order :: row_id
  tx_amount :: int
  tx_state :: tx_state
  cancel_reason_code :: "int option"
  tx_created_at :: instant
  performed_at :: "instant option"
  cancelled_at :: "instant option"

definition is_performed :: "payme_transaction \<Rightarrow> bool" where
  "is_performed tx = (tx_state tx = SUCCESSFULLY)"

definition is_cancelled :: "payme_transaction \<Rightarrow> bool" where
  "is_cancelled tx = (tx_state tx \<in> {CANCELED, CANCELED_DURING_INIT})"

definition is_created :: "payme_transaction \<Rightarrow> bool" where
  "is_created tx = (tx_state tx = TX_CREATED)"

definition is_initiating :: "payme_transaction \<Rightarrow> bool" where
  "is_initiating tx = (tx_state tx = INITIATING)"

definition mark_as_cancelled :: "instant \<Rightarrow> int option \<Rightarrow> tx_state \<Rightarrow> payme_transaction \<Rightarrow> payme_transaction" where
  "mark_as_cancelled now reason st tx =
    (if tx_state tx = st then tx
     else tx\<lparr>tx_state := st, cancel_reason_code := reason, cancelled_at := Some now\<rparr>)"

definition mark_as_performed :: "instant \<Rightarrow> payme_transaction \<Rightarrow> payme_transaction" where
  "mark_as_performed now tx =
    (if tx_state tx \<noteq> INITIATING then tx
     else tx\<lparr>tx_state := SUCCESSFULLY, performed_at := Some now\<rparr>)"

definition time_to_payme :: "instant option \<Rightarrow> int" where
  "time_to_payme v = (case v of None \<Rightarrow> 0 | Some t \<Rightarrow> t)"

record payme_settings =
  PAYME_MERCHANT_ID :: string
  PAYME_KEY :: string
  PAYME_TEST_KEY :: string
  PAYME_TEST_MODE :: bool
  PAYME_ACCOUNT_FIELD :: string
  PAYME_CHECKOUT_URL :: string
  PAYME_RETURN_DEEPLINK :: string
  PAYME_CHECKOUT_LANG :: string
  PAYME_ONE_TIME_PAYMENT :: bool
  PAYME_ALLOWED_IPS :: "string list"
  parse_pk :: "json \<Rightarrow> row_id option"
  pk_str :: "row_id \<Rightarrow> string"
  py_repr :: "json \<Rightarrow> string"

record payme_sys =
  ps_sys :: sys
  ps_txs :: "payme_transaction list"

definition TRANSACTION_TIMEOUT_MS :: int where
  "TRANSACTION_TIMEOUT_MS = 43200000"

definition TIMEOUT_CANCEL_REASON :: int where
  "TIMEOUT_CANCEL_REASON = 4"

definition get_tx :: "string \<Rightarrow> payme_sys \<Rightarrow> payme_transaction option" where
  "get_tx tid ps = get_row transaction_id tid (ps_txs ps)"

definition put_tx :: "payme_transaction \<Rightarrow> payme_sys \<Rightarrow> payme_sys" where
  "put_tx tx ps = ps\<lparr>ps_txs := upd_row transaction_id (transaction_id tx) (\<lambda>_. tx) (ps_txs ps)\<rparr>"

section \<open>Amounts and fiscal detail\<close>

text \<open>An amount in so'm with two decimals is a number of tiyin.\<close>

definition to_tiyin :: "money \<Rightarrow> int" where
  "to_tiyin amount = round_half_even (amount * 100) 100"

definition order_amount_tiyin :: "order \<Rightarrow> int" where
  "order_amount_tiyin ord = to_tiyin (total_amount ord)"

record item =
  it_title :: string
  it_price :: int
  it_count :: int
  it_code :: string
  it_vat_percent :: nat
  it_package_code :: string

text \<open>The loop over the usages: \<open>None\<close> stops it at a product without code.\<close>

definition usage_product :: "inventory_usage \<Rightarrow> sys \<Rightarrow> warehouse_product option" where
  "usage_product u s =
    Option.bind (get_row mi_id (ou_inventory u) (inventory (warehouse s)))
      (\<lambda>i. get_row pr_id (mi_product i) (products (warehouse s)))"

definition usage_count :: "inventory_usage \<Rightarrow> int" where
  "usage_count u = (if 0 < ou_quantity u \<and> ou_quantity u mod 100 = 0 then ou_quantity u div 100 else 1)"

definition usage_price :: "inventory_usage \<Rightarrow> int" where
  "usage_price u = (if 0 < ou_quantity u \<and> ou_quantity u mod 100 = 0 then to_tiyin (ou_unit_price u)
                    else to_tiyin (ou_total_price u))"

fun fiscal_lines :: "inventory_usage list \<Rightarrow> sys \<Rightarrow> item list option" where
  "fiscal_lines [] s = Some []"
| "fiscal_lines (u # us) s =
    (case usage_product u s of
       None \<Rightarrow> None
     | Some p \<Rightarrow>
         if pr_mxik p = [] then None
         else map_option (Cons \<lparr>it_title = pr_name p, it_price = usage_price u, it_count = usage_count u,
                it_code = pr_mxik p, it_vat_percent = pr_vat_percent p, it_package_code = pr_package_code p\<rparr>)
              (fiscal_lines us s))"

definition items_sum :: "item list \<Rightarrow> int" where
  "items_sum items = sum_list (map (\<lambda>i. it_price i * it_count i) items)"

definition build_fiscal_items :: "order \<Rightarrow> sys \<Rightarrow> item list" where
  "build_fiscal_items ord s =
    (case get_row sv_id (o_service ord) (catalog s) of
       None \<Rightarrow> []
     | Some sv \<Rightarrow>
         if sv_mxik sv = [] then []
         else
           (case fiscal_lines (filter (\<lambda>u. ou_order u = o_id ord) (usages s)) s of
              None \<Rightarrow> []
            | Some items \<Rightarrow>
                let target = order_amount_tiyin ord;
                    service_price = target - items_sum items in
                if service_price < 0 then []
                else let all = \<lparr>it_title = sv_name sv, it_price = service_price, it_count = 1, it_code = sv_mxik sv,
                           it_vat_percent = sv_vat_percent sv, it_package_code = sv_package_code sv\<rparr> # items in
                  if items_sum all \<noteq> target then [] else all))"

section \<open>Replies\<close>

datatype payme_result =
    CheckPerformResult bool "item list"
  | CreateResult string tx_state int
  | PerformResult string tx_state int
  | CancelResult string tx_state int
  | CheckResult string tx_state "int option" int int int
  | StatementResult string "payme_transaction list"

type_synonym reply = "payme_error + payme_result"

definition item_as_resp :: "item \<Rightarrow> json" where
  "item_as_resp i = JObj [(''title'', JStr (it_title i)), (''price'', JInt (it_price i)), (''count'', JInt (it_count i)),
     (''code'', JStr (it_code i)), (''vat_percent'', JInt (int (it_vat_percent i))),
     (''package_code'', JStr (it_package_code i))]"

definition reason_json :: "int option \<Rightarrow> json" where
  "reason_json r = (case r of None \<Rightarrow> JNull | Some i \<Rightarrow> JInt i)"

definition statement_row :: "payme_settings \<Rightarrow> payme_transaction \<Rightarrow> json" where
  "statement_row cfg t = JObj
    [(''id'', JStr (transaction_id t)), (''time'', JInt (tx_created_at t)), (''amount'', JInt (tx_amount t)),
     (''account'', JObj [(PAYME_ACCOUNT_FIELD cfg, JStr (pk_str cfg (tx_order t)))]),
     (''create_time'', JInt (tx_created_at t)), (''perform_time'', JInt (time_to_payme (performed_at t))),
     (''cancel_time'', JInt (time_to_payme (cancelled_at t))), (''transaction'', JStr (transaction_id t)),
     (''state'', JInt (state_code (tx_state t))), (''reason'', reason_json (cancel_reason_code t))]"

fun as_resp :: "payme_settings \<Rightarrow> payme_result \<Rightarrow> json" where
  "as_resp cfg (CheckPerformResult allow items) = JObj [(''result'', JObj ((''allow'', JBool allow) #
     (if items = [] then [] else [(''detail'', JObj [(''items'', JList (map item_as_resp items))])])))]"
| "as_resp cfg (CreateResult tid st t) = JObj [(''result'', JObj
     [(''transaction'', JStr tid), (''state'', JInt (state_code st)), (''create_time'', JInt t)])]"
| "as_resp cfg (PerformResult tid st t) = JObj [(''result'', JObj
     [(''transaction'', JStr tid), (''state'', JInt (state_code st)), (''perform_time'', JInt t)])]"
| "as_resp cfg (CancelResult tid st t) = JObj [(''result'', JObj
     [(''transaction'', JStr tid), (''state'', JInt (state_code st)), (''cancel_time'', JInt t)])]"
| "as_resp cfg (CheckResult tid st reason ct pt xt) = JObj [(''result'', JObj
     [(''transaction'', JStr tid), (''state'', JInt (state_code st)), (''create_time'', JInt ct), (''reason'', reason_json reason),
      (''perform_time'', JInt pt), (''cancel_time'', JInt xt)])]"
| "as_resp cfg (StatementResult f txs) = JObj [(''result'', JObj
     [(''transactions'', JList (map (statement_row cfg) txs))])]"

end
