(* ===== verification/Payme_Webhook.thy ===== *)
theory Payme_Webhook
  imports Payme_Model
begin

text \<open>
  The JSON-RPC webhook of \<open>src/apps/payme/views.py\<close> with its authorization, the six
  methods of the merchant protocol, the checkout link and the status endpoint.
\<close>

section \<open>Authorization\<close>

record http_request =
  rq_authorization :: string
  rq_forwarded_for :: string
  rq_remote_addr :: string

definition check_authorize :: "payme_settings \<Rightarrow> http_request \<Rightarrow> payme_error + unit" where
  "check_authorize cfg rq =
    (if rq_authorization rq = [] then Inl (PaymePermissionDenied ''Missing authorization header'')
     else
       (case Option.bind (last_word (rq_authorization rq)) b64decode of
          None \<Rightarrow> Inl (PaymePermissionDenied ''Invalid authorization header'')
        | Some decoded \<Rightarrow>
            if \<not> utf8_decodes decoded then Inl (PaymePermissionDenied ''Invalid authorization header'')
            else let payme_key = after_first (CHR '':'') decoded;
                     expected = (if PAYME_TEST_MODE cfg then PAYME_TEST_KEY cfg else PAYME_KEY cfg) in
              if expected = [] \<or> payme_key \<noteq> expected then Inl (PaymePermissionDenied ''Invalid merchant key'')
              else Inr ()))"

definition client_ip :: "http_request \<Rightarrow> string" where
  "client_ip rq =
    (if rq_forwarded_for rq \<noteq> [] then strip (before_first (CHR '','') (rq_forwarded_for rq)) else rq_remote_addr rq)"

definition check_ip :: "payme_settings \<Rightarrow> http_request \<Rightarrow> payme_error + unit" where
  "check_ip cfg rq =
    (if PAYME_ALLOWED_IPS cfg = [] then Inr ()
     else if client_ip rq \<notin> set (PAYME_ALLOWED_IPS cfg) then Inl (PaymePermissionDenied ''Source IP not allowed'')
     else Inr ())"

section \<open>Helpers\<close>

type_synonym params = "(string \<times> json) list"

text \<open>Sequencing of steps that may raise one of the protocol's errors.\<close>

fun bindP :: "payme_error + 'a \<Rightarrow> ('a \<Rightarrow> payme_error + 'b) \<Rightarrow> payme_error + 'b" where
  "bindP (Inl er) f = Inl er"
| "bindP (Inr x) f = f x"

fun require :: "params \<Rightarrow> string list \<Rightarrow> payme_error + unit" where
  "require p [] = Inr ()"
| "require p (k # ks) = (if map_of p k = None then Inl (InvalidRequest (Some k)) else require p ks)"

definition account_key :: "payme_settings \<Rightarrow> params \<Rightarrow> json" where
  "account_key cfg a =
    (if truthy (json_get a (PAYME_ACCOUNT_FIELD cfg)) then json_get a (PAYME_ACCOUNT_FIELD cfg)
     else if truthy (json_get a ''order_id'') then json_get a ''order_id''
     else json_get a ''id'')"

definition fetch_account :: "payme_settings \<Rightarrow> params \<Rightarrow> sys \<Rightarrow> payme_error + order" where
  "fetch_account cfg p s =
    bindP (case json_get p ''account'' of
             JObj a \<Rightarrow> Inr a
           | v \<Rightarrow> if truthy v then Inl (InternalServiceError ''AttributeError'') else Inr []) (\<lambda>a.
      let k = account_key cfg a in
      if \<not> truthy k then Inl (AccountDoesNotExist (PAYME_ACCOUNT_FIELD cfg))
      else (case Option.bind (parse_pk cfg k) (\<lambda>oid. get_order oid s) of
              None \<Rightarrow> Inl (AccountDoesNotExist (PAYME_ACCOUNT_FIELD cfg))
            | Some ord \<Rightarrow> Inr ord))"

definition validate_amount :: "order \<Rightarrow> json \<Rightarrow> payme_error + int" where
  "validate_amount ord amount =
    (case py_int amount of
       None \<Rightarrow> Inl (IncorrectAmount ''amount'')
     | Some provided \<Rightarrow>
         if provided \<noteq> order_amount_tiyin ord then Inl (IncorrectAmount ''amount'') else Inr provided)"

definition active_tx :: "row_id \<Rightarrow> payme_transaction \<Rightarrow> bool" where
  "active_tx oid tx = (tx_order tx = oid \<and> tx_state tx \<in> {TX_CREATED, INITIATING, SUCCESSFULLY})"

text \<open>The newest row of a query.\<close>

fun latest_tx :: "payme_transaction list \<Rightarrow> payme_transaction option" where
  "latest_tx [] = None"
| "latest_tx (tx # txs) =
    (case latest_tx txs of
       None \<Rightarrow> Some tx
     | Some tx' \<Rightarrow> if tx_created_at tx' < tx_created_at tx then Some tx else Some tx')"

definition get_active_transaction :: "row_id \<Rightarrow> payme_sys \<Rightarrow> payme_transaction option" where
  "get_active_transaction oid ps = latest_tx (filter (active_tx oid) (ps_txs ps))"

definition is_expired :: "instant \<Rightarrow> payme_transaction \<Rightarrow> bool" where
  "is_expired now tx = (now - tx_created_at tx > TRANSACTION_TIMEOUT_MS)"

section \<open>The methods\<close>

definition check_perform_transaction :: "payme_settings \<Rightarrow> params \<Rightarrow> payme_sys \<Rightarrow> payme_sys \<times> reply" where
  "check_perform_transaction cfg p ps =
    (ps, bindP (require p [''amount'', ''account'']) (\<lambda>_.
         bindP (fetch_account cfg p (ps_sys ps)) (\<lambda>ord.
         bindP (validate_amount ord (json_get p ''amount'')) (\<lambda>_.
           Inr (CheckPerformResult True (build_fiscal_items ord (ps_sys ps)))))))"

definition create_reply :: "payme_transaction \<Rightarrow> reply" where
  "create_reply tx = Inr (CreateResult (transaction_id tx) (tx_state tx) (tx_created_at tx))"

text \<open>The part of \<open>create_transaction\<close> inside the database transaction, for a known order and
  amount; an identifier longer than the column is refused by the database.\<close>

definition create_locked :: "payme_settings \<Rightarrow> instant \<Rightarrow> string \<Rightarrow> order \<Rightarrow> int \<Rightarrow> payme_sys \<Rightarrow> payme_sys \<times> reply" where
  "create_locked cfg now txn_id ord amount ps =
    (case get_tx txn_id ps of
       Some tx \<Rightarrow>
         if tx_order tx \<noteq> o_id ord \<or> tx_amount tx \<noteq> amount then (ps, Inl (TransactionAlreadyExists txn_id))
         else if is_initiating tx \<and> is_expired now tx
         then (put_tx (mark_as_cancelled now (Some TIMEOUT_CANCEL_REASON) CANCELED_DURING_INIT tx) ps,
               Inl (UnableToPerformOperation txn_id))
         else (ps, create_reply tx)
     | None \<Rightarrow>
         (case (PAYME_ONE_TIME_PAYMENT cfg, get_active_transaction (o_id ord) ps) of
            (True, Some active) \<Rightarrow> (ps, Inl (TransactionAlreadyExists (transaction_id active)))
          | _ \<Rightarrow>
              if 64 < length txn_id then (ps, Inl (InternalServiceError ''DataError''))
              else let tx = \<lparr>transaction_id = txn_id, tx_order = o_id ord, tx_amount = amount, tx_state = INITIATING,
                      cancel_reason_code = None, tx_created_at = now, performed_at = None, cancelled_at = None\<rparr>
                   in (ps\<lparr>ps_txs := add_row tx (ps_txs ps)\<rparr>, create_reply tx)))"

definition create_transaction :: "payme_settings \<Rightarrow> env \<Rightarrow> params \<Rightarrow> payme_sys \<Rightarrow> payme_sys \<times> reply" where
  "create_transaction cfg e p ps =
    (case bindP (require p [''id'', ''amount'', ''account'']) (\<lambda>_.
          bindP (fetch_account cfg p (ps_sys ps)) (\<lambda>ord.
          bindP (validate_amount ord (json_get p ''amount'')) (\<lambda>a. Inr (ord, a)))) of
       Inl er \<Rightarrow> (ps, Inl er)
     | Inr (ord, amount) \<Rightarrow> create_locked cfg (env_now e) (py_str (py_repr cfg) (json_get p ''id'')) ord amount ps)"

definition perform_reply :: "payme_transaction \<Rightarrow> reply" where
  "perform_reply tx = Inr (PerformResult (transaction_id tx) (tx_state tx) (time_to_payme (performed_at tx)))"

definition perform_locked :: "env \<Rightarrow> payme_transaction \<Rightarrow> payme_sys \<Rightarrow> payme_sys \<times> reply" where
  "perform_locked e tx ps =
    (if is_performed tx then (ps, perform_reply tx)
     else if is_cancelled tx then (ps, Inl (UnableToPerformOperation (transaction_id tx)))
     else if is_expired (env_now e) tx
     then (put_tx (mark_as_cancelled (env_now e) (Some TIMEOUT_CANCEL_REASON) CANCELED_DURING_INIT tx) ps,
           Inl (UnableToPerformOperation (transaction_id tx)))
     else let tx1 = mark_as_performed (env_now e) tx in
       (case mark_order_paid e (tx_order tx) (ps_sys ps) of
          Inl er \<Rightarrow> (ps, Inl (InternalServiceError ''mark_order_paid''))
        | Inr s1 \<Rightarrow> ((put_tx tx1 ps)\<lparr>ps_sys := s1\<rparr>, perform_reply tx1)))"

definition with_tx :: "payme_settings \<Rightarrow> params \<Rightarrow> (payme_transaction \<Rightarrow> payme_sys \<times> reply) \<Rightarrow> payme_sys \<Rightarrow> payme_sys \<times> reply" where
  "with_tx cfg p f ps =
    (case require p [''id''] of
       Inl er \<Rightarrow> (ps, Inl er)
     | Inr _ \<Rightarrow>
         (case get_tx (py_str (py_repr cfg) (json_get p ''id'')) ps of
            None \<Rightarrow> (ps, Inl (TransactionNotFound (py_str (py_repr cfg) (json_get p ''id''))))
          | Some tx \<Rightarrow> f tx))"

definition perform_transaction :: "payme_settings \<Rightarrow> env \<Rightarrow> params \<Rightarrow> payme_sys \<Rightarrow> payme_sys \<times> reply" where
  "perform_transaction cfg e p ps = with_tx cfg p (\<lambda>tx. perform_locked e tx ps) ps"

definition cancel_reply :: "payme_transaction \<Rightarrow> reply" where
  "cancel_reply tx = Inr (CancelResult (transaction_id tx) (tx_state tx) (time_to_payme (cancelled_at tx)))"

text \<open>The reason is stored in an integer column of 32 bits: \<open>None\<close> when it cannot be.\<close>

definition stored_reason :: "json \<Rightarrow> int option option" where
  "stored_reason v =
    (if v = JNull then Some None
     else case py_int v of
            None \<Rightarrow> None
          | Some i \<Rightarrow> if - 2147483648 \<le> i \<and> i \<le> 2147483647 then Some (Some i) else None)"

definition cancel_locked :: "env \<Rightarrow> json \<Rightarrow> payme_transaction \<Rightarrow> payme_sys \<Rightarrow> payme_sys \<times> reply" where
  "cancel_locked e reason tx ps =
    (if is_cancelled tx then (ps, cancel_reply tx)
     else if is_performed tx \<and> (case get_order (tx_order tx) (ps_sys ps) of
               None \<Rightarrow> False | Some ord \<Rightarrow> o_status ord = COMPLETED)
     then (ps, Inl (UnableToCancelTransaction (transaction_id tx)))
     else
       (case stored_reason reason of
          None \<Rightarrow> (ps, Inl (InternalServiceError ''reason''))
        | Some r \<Rightarrow>
            if is_performed tx
            then let tx1 = mark_as_cancelled (env_now e) r CANCELED tx in
              (case mark_order_payment_cancelled (tx_order tx) (ps_sys ps) of
                 Inl er \<Rightarrow> (ps, Inl (InternalServiceError ''mark_order_payment_cancelled''))
               | Inr s1 \<Rightarrow> ((put_tx tx1 ps)\<lparr>ps_sys := s1\<rparr>, cancel_reply tx1))
            else let tx1 = mark_as_cancelled (env_now e) r CANCELED_DURING_INIT tx
                 in (put_tx tx1 ps, cancel_reply tx1)))"

definition cancel_transaction :: "payme_settings \<Rightarrow> env \<Rightarrow> params \<Rightarrow> payme_sys \<Rightarrow> payme_sys \<times> reply" where
  "cancel_transaction cfg e p ps = with_tx cfg p (\<lambda>tx. cancel_locked e (json_get p ''reason'') tx ps) ps"

definition check_transaction :: "payme_settings \<Rightarrow> params \<Rightarrow> payme_sys \<Rightarrow> payme_sys \<times> reply" where
  "check_transaction cfg p ps = with_tx cfg p (\<lambda>tx. (ps, Inr (CheckResult (transaction_id tx) (tx_state tx)
      (cancel_reason_code tx) (tx_created_at tx) (time_to_payme (performed_at tx)) (time_to_payme (cancelled_at tx))))) ps"

text \<open>\<open>time_to_service\<close>: the millisecond timestamp as a fraction; dates outside the years 1 to
  9999 and values that are not numbers raise.\<close>

definition time_to_service :: "json \<Rightarrow> (int \<times> nat) option" where
  "time_to_service v =
    (case (case v of JInt i \<Rightarrow> Some (i, 1) | JFloat n d \<Rightarrow> Some (n, d) | JBool b \<Rightarrow> Some (if b then 1 else 0, 1) | _ \<Rightarrow> None) of
       None \<Rightarrow> None
     | Some (n, d) \<Rightarrow>
         if - 62135596800000 * int d \<le> n \<and> n < 253402300800000 * int d then Some (n, d) else None)"

definition get_statement :: "payme_settings \<Rightarrow> params \<Rightarrow> payme_sys \<Rightarrow> payme_sys \<times> reply" where
  "get_statement cfg p ps =
    (ps, bindP (require p [''from'', ''to'']) (\<lambda>_.
      case (time_to_service (json_get p ''from''), time_to_service (json_get p ''to'')) of
        (Some (n1, d1), Some (n2, d2)) \<Rightarrow>
          Inr (StatementResult (PAYME_ACCOUNT_FIELD cfg)
            (sort_key (\<lambda>t. - tx_created_at t)
              (filter (\<lambda>t. n1 \<le> tx_created_at t * int d1 \<and> tx_created_at t * int d2 \<le> n2) (ps_txs ps))))
      | _ \<Rightarrow> Inl (InternalServiceError ''timestamp'')))"

section \<open>Dispatch\<close>

text \<open>The request as the view sees it: another HTTP method, a body that is not JSON, or a body.\<close>

datatype body = NotPost | NotJson | Body json

definition dispatch :: "payme_settings \<Rightarrow> env \<Rightarrow> string \<Rightarrow> params \<Rightarrow> payme_sys \<Rightarrow> payme_sys \<times> reply" where
  "dispatch cfg e rpc p ps =
    (if rpc = ''CheckPerformTransaction'' then check_perform_transaction cfg p ps
     else if rpc = ''CreateTransaction'' then create_transaction cfg e p ps
     else if rpc = ''PerformTransaction'' then perform_transaction cfg e p ps
     else if rpc = ''CancelTransaction'' then cancel_transaction cfg e p ps
     else if rpc = ''CheckTransaction'' then check_transaction cfg p ps
     else if rpc = ''GetStatement'' then get_statement cfg p ps
     else (ps, Inl (MethodNotFound rpc)))"

definition webhook_post :: "payme_settings \<Rightarrow> env \<Rightarrow> http_request \<Rightarrow> body \<Rightarrow> payme_sys \<Rightarrow> payme_sys \<times> reply" where
  "webhook_post cfg e rq b ps =
    (if b = NotPost then (ps, Inl TransportError)
     else case bindP (check_ip cfg rq) (\<lambda>_. check_authorize cfg rq) of
       Inl er \<Rightarrow> (ps, Inl er)
     | Inr _ \<Rightarrow>
         (case b of
            Body (JObj data) \<Rightarrow>
              (case (json_get data ''method'', json_get data ''params'') of
                 (JStr rpc, JObj p) \<Rightarrow> if rpc = [] then (ps, Inl (InvalidRequest None)) else dispatch cfg e rpc p ps
               | _ \<Rightarrow> (ps, Inl (InvalidRequest None)))
          | Body _ \<Rightarrow> (ps, Inl (InvalidRequest None))
          | _ \<Rightarrow> (ps, Inl ParseError)))"

section \<open>Checkout link and status\<close>

definition rstrip_slash :: "string \<Rightarrow> string" where
  "rstrip_slash s = rev (dropWhile (\<lambda>c. c = CHR ''/'') (rev s))"

definition base_url :: "payme_settings \<Rightarrow> string" where
  "base_url cfg =
    (if PAYME_CHECKOUT_URL cfg \<noteq> [] then rstrip_slash (PAYME_CHECKOUT_URL cfg)
     else if PAYME_TEST_MODE cfg then ''https://test.paycom.uz'' else ''https://checkout.paycom.uz'')"

definition pay_params :: "payme_settings \<Rightarrow> string \<Rightarrow> int \<Rightarrow> string \<Rightarrow> string \<Rightarrow> string" where
  "pay_params cfg account_id amount return_url lang =
    ''m='' @ PAYME_MERCHANT_ID cfg @ '';ac.'' @ PAYME_ACCOUNT_FIELD cfg @ ''='' @ account_id @ '';a='' @ int_str amount @
    '';c='' @ return_url @ '';l='' @ lang"

definition generate_pay_link :: "payme_settings \<Rightarrow> string \<Rightarrow> int \<Rightarrow> string \<Rightarrow> string \<Rightarrow> string" where
  "generate_pay_link cfg account_id amount return_url lang =
    base_url cfg @ ''/'' @ b64encode (pay_params cfg account_id amount return_url lang)"

definition generate_post_params :: "payme_settings \<Rightarrow> string \<Rightarrow> int \<Rightarrow> string \<Rightarrow> string \<Rightarrow> json" where
  "generate_post_params cfg account_id amount return_url lang = JObj
    [(''action'', JStr (base_url cfg @ ''/'')), (''method'', JStr ''POST''),
     (''fields'', JObj [(''merchant'', JStr (PAYME_MERCHANT_ID cfg)), (''amount'', JInt amount),
        (''account['' @ PAYME_ACCOUNT_FIELD cfg @ '']'', JStr account_id), (''lang'', JStr lang),
        (''callback'', JStr return_url)])]"

record checkout =
  co_order :: row_id
  co_amount :: int
  co_url :: string
  co_post :: json

definition PaymeCheckoutUrlView_post ::
  "payme_settings \<Rightarrow> row_id \<Rightarrow> row_id \<Rightarrow> string \<Rightarrow> string \<Rightarrow> payme_sys \<Rightarrow> checkout res" where
  "PaymeCheckoutUrlView_post cfg user order_id return_url lang ps =
    bindE (get_or_404 ''Order'' (get_row o_id order_id (filter (owned_by_client user) (orders (ps_sys ps))))) (\<lambda>ord.
      let amount = order_amount_tiyin ord in
      if amount \<le> 0 then Inl (ValidationError ''Buyurtma summasi 0 - to'lov havolasi yaratib bo'lmaydi.'')
      else let ru = (if return_url = [] then PAYME_RETURN_DEEPLINK cfg else return_url);
               la = (if lang = [] then PAYME_CHECKOUT_LANG cfg else lang)
           in Inr \<lparr>co_order = o_id ord, co_amount = amount,
                   co_url = generate_pay_link cfg (pk_str cfg (o_id ord)) amount ru la,
                   co_post = generate_post_params cfg (pk_str cfg (o_id ord)) amount ru la\<rparr>)"

definition PaymeOrderStatusView_get ::
  "row_id \<Rightarrow> row_id \<Rightarrow> payme_sys \<Rightarrow> (bool \<times> instant option \<times> int \<times> tx_state option) res" where
  "PaymeOrderStatusView_get user order_id ps =
    bindE (get_or_404 ''Order'' (get_row o_id order_id (filter (owned_by_client user) (orders (ps_sys ps))))) (\<lambda>ord.
      Inr (is_paid ord, paid_at ord, order_amount_tiyin ord,
           map_option tx_state (latest_tx (filter (\<lambda>t. tx_order t = o_id ord) (ps_txs ps)))))"

end
