(* ===== verification/Payme_Props.thy ===== *)
theory Payme_Props
  imports Payme_Webhook
begin

text \<open>
  What the webhook guarantees. \<open>payme_change\<close> lists the five ways in which a request can
  change the state; every answer of the webhook is one of them (\<open>webhook_change\<close>), and the
  properties are proved on them.
\<close>

section \<open>The ways a request changes the state\<close>

inductive payme_change :: "payme_settings \<Rightarrow> payme_sys \<Rightarrow> payme_sys \<Rightarrow> bool" for cfg where
  same: "payme_change cfg ps ps"
| opened: "get_tx tid ps = None \<Longrightarrow> PAYME_ONE_TIME_PAYMENT cfg \<longrightarrow> get_active_transaction oid ps = None \<Longrightarrow>
    tx = \<lparr>transaction_id = tid, tx_order = oid, tx_amount = a, tx_state = INITIATING, cancel_reason_code = None,
      tx_created_at = now, performed_at = None, cancelled_at = None\<rparr> \<Longrightarrow>
    payme_change cfg ps (ps\<lparr>ps_txs := add_row tx (ps_txs ps)\<rparr>)"
| dropped: "get_tx tid ps = Some tx \<Longrightarrow> \<not> is_performed tx \<Longrightarrow> \<not> is_cancelled tx \<Longrightarrow>
    payme_change cfg ps (put_tx (mark_as_cancelled now r CANCELED_DURING_INIT tx) ps)"
| performed: "get_tx tid ps = Some tx \<Longrightarrow> \<not> is_performed tx \<Longrightarrow> \<not> is_cancelled tx \<Longrightarrow>
    mark_order_paid e (tx_order tx) (ps_sys ps) = Inr s1 \<Longrightarrow>
    payme_change cfg ps ((put_tx (mark_as_performed (env_now e) tx) ps)\<lparr>ps_sys := s1\<rparr>)"
| refunded: "get_tx tid ps = Some tx \<Longrightarrow> is_performed tx \<Longrightarrow>
    mark_order_payment_cancelled (tx_order tx) (ps_sys ps) = Inr s1 \<Longrightarrow>
    payme_change cfg ps ((put_tx (mark_as_cancelled now r CANCELED tx) ps)\<lparr>ps_sys := s1\<rparr>)"

lemma create_locked_change: "payme_change cfg ps (fst (create_locked cfg now tid ord a ps))"
proof (cases "get_tx tid ps")
  case None
  show ?thesis
  proof (cases "PAYME_ONE_TIME_PAYMENT cfg \<and> get_active_transaction (o_id ord) ps \<noteq> None")
    case True
    with None show ?thesis by (auto simp: create_locked_def intro: payme_change.same)
  next
    case False
    with None show ?thesis
      by (auto simp: create_locked_def Let_def split: option.splits bool.splits
          intro!: payme_change.same payme_change.opened [OF _ _ refl])
  qed
next
  case (Some tx)
  then show ?thesis
    by (auto simp: create_locked_def is_initiating_def is_performed_def is_cancelled_def
        intro!: payme_change.same payme_change.dropped [OF Some])
qed

lemma create_change: "payme_change cfg ps (fst (create_transaction cfg e p ps))"
  by (auto simp: create_transaction_def create_locked_change payme_change.same split: sum.splits prod.splits)

lemma perform_locked_change: "get_tx tid ps = Some tx \<Longrightarrow> payme_change cfg ps (fst (perform_locked e tx ps))"
  by (auto simp: perform_locked_def Let_def split: sum.splits
      intro: payme_change.same payme_change.dropped payme_change.performed)

lemma cancel_locked_change: "get_tx tid ps = Some tx \<Longrightarrow> payme_change cfg ps (fst (cancel_locked e reason tx ps))"
  by (auto simp: cancel_locked_def Let_def split: sum.splits option.splits
      intro: payme_change.same payme_change.dropped payme_change.refunded)

lemma with_tx_change:
  "(\<And>tid tx. get_tx tid ps = Some tx \<Longrightarrow> payme_change cfg ps (fst (f tx))) \<Longrightarrow> payme_change cfg ps (fst (with_tx cfg' p f ps))"
  by (auto simp: with_tx_def payme_change.same split: sum.splits option.splits)

lemma perform_change: "payme_change cfg ps (fst (perform_transaction cfg e p ps))"
  unfolding perform_transaction_def by (intro with_tx_change perform_locked_change)

lemma cancel_change: "payme_change cfg ps (fst (cancel_transaction cfg e p ps))"
  unfolding cancel_transaction_def by (intro with_tx_change cancel_locked_change)

lemma check_change: "payme_change cfg ps (fst (check_transaction cfg p ps))"
  unfolding check_transaction_def by (intro with_tx_change) (simp add: payme_change.same)

lemma dispatch_change: "payme_change cfg ps (fst (dispatch cfg e rpc p ps))"
proof -
  have "fst (check_perform_transaction cfg p ps) = ps" "fst (get_statement cfg p ps) = ps"
    by (simp_all add: check_perform_transaction_def get_statement_def)
  then show ?thesis
    unfolding dispatch_def
    by (simp only: perform_change cancel_change check_change create_change payme_change.same fst_conv split: if_split) simp
qed

lemma webhook_change: "payme_change cfg ps (fst (webhook_post cfg e rq b ps))"
  by (auto simp: webhook_post_def dispatch_change payme_change.same
      split: sum.splits body.splits json.splits)

section \<open>Histories\<close>

text \<open>The webhook runs beside everything else that happens to the orders.\<close>

inductive payme_step :: "payme_settings \<Rightarrow> payme_sys \<Rightarrow> payme_sys \<Rightarrow> bool" for cfg where
  webhook: "payme_step cfg ps (fst (webhook_post cfg e rq b ps))"
| other: "order_step (ps_sys ps) s' \<Longrightarrow> payme_step cfg ps (ps\<lparr>ps_sys := s'\<rparr>)"

definition tx_wf :: "payme_transaction \<Rightarrow> bool" where
  "tx_wf tx = ((is_performed tx \<longrightarrow> performed_at tx \<noteq> None) \<and> (is_cancelled tx \<longrightarrow> cancelled_at tx \<noteq> None) \<and>
     (tx_state tx = CANCELED \<longrightarrow> performed_at tx \<noteq> None))"

definition one_active :: "payme_transaction list \<Rightarrow> bool" where
  "one_active txs = distinct (map tx_order (filter (\<lambda>tx. \<not> is_cancelled tx) txs))"

definition payme_inv :: "payme_settings \<Rightarrow> payme_sys \<Rightarrow> bool" where
  "payme_inv cfg ps = (order_inv (ps_sys ps) \<and> keys_distinct transaction_id (ps_txs ps) \<and> list_all tx_wf (ps_txs ps) \<and>
     (PAYME_ONE_TIME_PAYMENT cfg \<longrightarrow> one_active (ps_txs ps)))"

lemma active_iff: "active_tx oid tx \<longleftrightarrow> tx_order tx = oid \<and> \<not> is_cancelled tx"
  by (cases "tx_state tx") (auto simp: active_tx_def is_cancelled_def)

lemma latest_None_iff: "latest_tx txs = None \<longleftrightarrow> txs = []"
  by (cases txs) (auto split: option.splits)

lemma no_active_iff:
  "get_active_transaction oid ps = None \<longleftrightarrow> (\<forall>tx \<in> set (ps_txs ps). \<not> is_cancelled tx \<longrightarrow> tx_order tx \<noteq> oid)"
  by (auto simp: get_active_transaction_def latest_None_iff filter_empty_conv active_iff)

lemma put_tx_simps [simp]:
  "ps_sys (put_tx tx ps) = ps_sys ps"
  "ps_txs (put_tx tx ps) = upd_row transaction_id (transaction_id tx) (\<lambda>_. tx) (ps_txs ps)"
  by (simp_all add: put_tx_def)

lemma marks_keep [simp]:
  "transaction_id (mark_as_cancelled now r st tx) = transaction_id tx" "tx_order (mark_as_cancelled now r st tx) = tx_order tx"
  "tx_amount (mark_as_cancelled now r st tx) = tx_amount tx" "tx_created_at (mark_as_cancelled now r st tx) = tx_created_at tx"
  "transaction_id (mark_as_performed now tx) = transaction_id tx" "tx_order (mark_as_performed now tx) = tx_order tx"
  "tx_amount (mark_as_performed now tx) = tx_amount tx" "tx_created_at (mark_as_performed now tx) = tx_created_at tx"
  "tx_state (mark_as_cancelled now r st tx) = st"
  by (simp_all add: mark_as_cancelled_def mark_as_performed_def)

lemma get_txD: "get_tx tid ps = Some tx \<Longrightarrow> transaction_id tx = tid \<and> tx \<in> set (ps_txs ps)"
  by (auto simp: get_tx_def dest: get_row_SomeD)

text \<open>Replacing a row by one that keeps order and identifier and is no more active than before.\<close>

lemma one_active_replace:
  assumes "one_active txs" and "keys_distinct transaction_id txs" and "get_row transaction_id tid txs = Some tx"
    and "transaction_id tx' = tid" and "tx_order tx' = tx_order tx" and "is_cancelled tx \<longrightarrow> is_cancelled tx'"
  shows "one_active (upd_row transaction_id tid (\<lambda>_. tx') txs)"
  using assms(1-3)
proof (induction txs)
  case (Cons a txs)
  have keep: "upd_row transaction_id tid (\<lambda>_. tx') txs = txs" if "transaction_id a = tid"
    using Cons.prems(2) that by (intro upd_row_notin) (auto simp: keys_distinct_def)
  have sub: "tx_order ` set (filter (\<lambda>tx. \<not> is_cancelled tx) (upd_row transaction_id tid (\<lambda>_. tx') txs))
      \<subseteq> tx_order ` set (filter (\<lambda>tx. \<not> is_cancelled tx) txs)" if "get_row transaction_id tid txs = Some tx"
  proof -
    have "r = tx" if "r \<in> set txs" "transaction_id r = tid" for r
      using get_row_unique [of transaction_id txs r] Cons.prems(2) that \<open>get_row transaction_id tid txs = Some tx\<close>
      by (simp add: keys_distinct_def)
    then show ?thesis using assms(4-6) get_row_SomeD [OF that] by (auto dest!: in_upd_row)
  qed
  show ?case
  proof (cases "transaction_id a = tid")
    case True
    with Cons.prems(3) have "a = tx" by simp
    with True keep Cons.prems(1) assms(4-6) show ?thesis
      by (auto simp: one_active_def upd_row_def split: if_splits)
  next
    case False
    with Cons.prems have row: "get_row transaction_id tid txs = Some tx" by simp
    moreover have "one_active txs" "keys_distinct transaction_id txs"
      using Cons.prems(1,2) by (auto simp: one_active_def keys_distinct_def split: if_splits)
    ultimately have IH: "one_active (upd_row transaction_id tid (\<lambda>_. tx') txs)" using Cons.IH by blast
    have "upd_row transaction_id tid (\<lambda>_. tx') (a # txs) = a # upd_row transaction_id tid (\<lambda>_. tx') txs"
      using False by (simp add: upd_row_def)
    with IH sub [OF row] Cons.prems(1) show ?thesis
      by (auto simp: one_active_def)
  qed
qed simp

lemma payme_inv_replace:
  assumes "payme_inv cfg ps" and "get_tx tid ps = Some tx" and "transaction_id tx' = tid" and "tx_order tx' = tx_order tx"
    and "is_cancelled tx \<longrightarrow> is_cancelled tx'" and "tx_wf tx'" and "order_inv s'"
  shows "payme_inv cfg ((put_tx tx' ps)\<lparr>ps_sys := s'\<rparr>)"
  using assms one_active_replace [of "ps_txs ps" tid tx tx']
  by (auto simp: payme_inv_def get_tx_def list_all_iff keys_distinct_replace dest!: in_upd_row)

lemma payme_invD:
  assumes "payme_inv cfg ps" and "get_tx tid ps = Some tx"
  shows "order_inv (ps_sys ps)" "transaction_id tx = tid" "tx_wf tx"
  using assms get_txD [OF assms(2)] by (auto simp: payme_inv_def list_all_iff)

lemma tx_wf_marks:
  assumes "tx_wf tx"
  shows "tx_wf (mark_as_performed now tx)"
    and "\<not> is_performed tx \<Longrightarrow> \<not> is_cancelled tx \<Longrightarrow> tx_wf (mark_as_cancelled now r CANCELED_DURING_INIT tx)"
    and "is_performed tx \<Longrightarrow> tx_wf (mark_as_cancelled now r CANCELED tx)"
    and "is_cancelled (mark_as_cancelled now r CANCELED_DURING_INIT tx)" "is_cancelled (mark_as_cancelled now r CANCELED tx)"
  using assms by (auto simp: tx_wf_def is_performed_def is_cancelled_def mark_as_performed_def mark_as_cancelled_def)

lemma payme_change_inv:
  assumes "payme_change cfg ps ps'" and "payme_inv cfg ps"
  shows "payme_inv cfg ps'"
  using assms(1)
proof (cases rule: payme_change.cases)
  case same
  with assms(2) show ?thesis by simp
next
  case (opened tid oid tx a now)
  then show ?thesis
    using assms(2) keys_distinct_add [of transaction_id "ps_txs ps" tx]
    by (auto simp: payme_inv_def get_tx_def get_row_None_iff tx_wf_def is_performed_def is_cancelled_def
        one_active_def add_row_def no_active_iff)
next
  case (dropped tid tx now r)
  note I = payme_invD [OF assms(2) dropped(2)]
  have "payme_inv cfg ((put_tx (mark_as_cancelled now r CANCELED_DURING_INIT tx) ps)\<lparr>ps_sys := ps_sys ps\<rparr>)"
    using I tx_wf_marks(2,4) [OF I(3)] dropped(3,4) by (intro payme_inv_replace [OF assms(2) dropped(2)]) simp_all
  with dropped(1) show ?thesis by (simp add: put_tx_def)
next
  case (performed tid tx e s1)
  note I = payme_invD [OF assms(2) performed(2)]
  have "order_inv s1" using I(1) user_step.paid [OF performed(5)] user_step_inv by blast
  then show ?thesis
    unfolding performed(1) using I tx_wf_marks(1) [OF I(3)] performed(4)
    by (intro payme_inv_replace [OF assms(2) performed(2)]) simp_all
next
  case (refunded tid tx s1 now r)
  note I = payme_invD [OF assms(2) refunded(2)]
  have "order_inv s1" using I(1) user_step.payment_cancelled [OF refunded(4)] user_step_inv by blast
  then show ?thesis
    unfolding refunded(1) using I tx_wf_marks(3,5) [OF I(3)] refunded(3)
    by (intro payme_inv_replace [OF assms(2) refunded(2)]) simp_all
qed

lemma payme_steps_inv: "(payme_step cfg)\<^sup>*\<^sup>* ps ps' \<Longrightarrow> payme_inv cfg ps \<Longrightarrow> payme_inv cfg ps'"
proof (induction rule: rtranclp_induct)
  case (step y z)
  from step.hyps(2) show ?case
  proof cases
    case webhook
    then show ?thesis using payme_change_inv webhook_change step by metis
  next
    case (other s')
    then show ?thesis using step order_step_inv by (simp add: payme_inv_def)
  qed
qed simp

end
