(* ===== verification/Payme_Claims.thy ===== *)
theory Payme_Claims
  imports Payme_Props
begin

text \<open>
  The properties of the payment provider's side: histories of the webhook, the life of a
  transaction, performing, expiry, authorization, the checkout link and the fiscal detail;
  and two gaps: a paid order can be charged again, and the amount of an order can change
  between the creation and the performance of a transaction.
\<close>

section \<open>An example\<close>

definition example_cfg :: payme_settings where
  "example_cfg = \<lparr>PAYME_MERCHANT_ID = ''m1'', PAYME_KEY = ''secret'', PAYME_TEST_KEY = ''test'', PAYME_TEST_MODE = False,
     PAYME_ACCOUNT_FIELD = ''order_id'', PAYME_CHECKOUT_URL = [], PAYME_RETURN_DEEPLINK = ''homex://payment/result'',
     PAYME_CHECKOUT_LANG = ''uz'', PAYME_ONE_TIME_PAYMENT = True, PAYME_ALLOWED_IPS = [],
     parse_pk = (\<lambda>v. case v of JStr t \<Rightarrow> map_option nat (read_int t) | _ \<Rightarrow> None), pk_str = nat_str,
     py_repr = (\<lambda>v. [])\<rparr>"

definition example_rq :: http_request where
  "example_rq = \<lparr>rq_authorization = ''Basic '' @ b64encode ''Paycom:secret'', rq_forwarded_for = [], rq_remote_addr = ''10.0.0.1''\<rparr>"

definition unpaid_ps :: payme_sys where
  "unpaid_ps = \<lparr>ps_sys = checked_sys, ps_txs = []\<rparr>"

definition create_params :: params where
  "create_params = [(''id'', JStr ''t1''), (''amount'', JInt 29300000), (''account'', JObj [(''order_id'', JStr ''1'')])]"

definition rpc_body :: "string \<Rightarrow> params \<Rightarrow> body" where
  "rpc_body rpc p = Body (JObj [(''method'', JStr rpc), (''params'', JObj p)])"

definition opened_ps :: payme_sys where
  "opened_ps = fst (webhook_post example_cfg example_env example_rq (rpc_body ''CreateTransaction'' create_params) unpaid_ps)"

definition example_tx :: payme_transaction where
  "example_tx = \<lparr>transaction_id = ''t1'', tx_order = 1, tx_amount = 29300000, tx_state = INITIATING, cancel_reason_code = None,
     tx_created_at = 5000, performed_at = None, cancelled_at = None\<rparr>"

definition performed_ps :: payme_sys where
  "performed_ps = fst (webhook_post example_cfg example_env example_rq (rpc_body ''PerformTransaction'' [(''id'', JStr ''t1'')]) opened_ps)"

lemma unpaid_inv: "payme_inv example_cfg unpaid_ps"
  by (simp add: payme_inv_def unpaid_ps_def checked_inv one_active_def)

lemma opened_tx: "ps_txs opened_ps = [example_tx]" "ps_sys opened_ps = checked_sys" "get_tx ''t1'' opened_ps = Some example_tx"
  by code_simp+

lemma opened_inv: "payme_inv example_cfg opened_ps"
  unfolding opened_ps_def by (rule payme_change_inv [OF webhook_change unpaid_inv])

lemma example_payme_history: "(payme_step example_cfg)\<^sup>*\<^sup>* unpaid_ps performed_ps"
proof -
  have "payme_step example_cfg unpaid_ps opened_ps" "payme_step example_cfg opened_ps performed_ps"
    unfolding opened_ps_def performed_ps_def by (rule payme_step.webhook)+
  then show ?thesis by (meson rtranclp.rtrancl_refl rtranclp.rtrancl_into_rtrancl)
qed

section \<open>Histories\<close>

lemma distinct_filter_one:
  "distinct (map f (filter P xs)) \<Longrightarrow> length (filter (\<lambda>x. f x = y \<and> P x) xs) \<le> 1"
proof (induction xs)
  case (Cons a xs)
  have "filter (\<lambda>x. f x = f a \<and> P x) xs = []" if "f a \<notin> f ` {x \<in> set xs. P x}"
    using that by (auto simp: filter_empty_conv image_iff)
  with Cons show ?case by (auto split: if_splits)
qed simp



section \<open>The life of a transaction\<close>

fun tx_edge :: "tx_state \<Rightarrow> tx_state \<Rightarrow> bool" where
  "tx_edge INITIATING st = (st \<in> {SUCCESSFULLY, CANCELED_DURING_INIT})"
| "tx_edge TX_CREATED st = (st = CANCELED_DURING_INIT)"
| "tx_edge SUCCESSFULLY st = (st = CANCELED)"
| "tx_edge _ st = False"

lemma get_tx_put:
  "get_tx tid ps = Some tx \<Longrightarrow> transaction_id tx' = tid \<Longrightarrow>
    get_tx tid' ((put_tx tx' ps)\<lparr>ps_sys := s\<rparr>) = (if tid' = tid then Some tx' else get_tx tid' ps) \<and>
    get_tx tid' (put_tx tx' ps) = (if tid' = tid then Some tx' else get_tx tid' ps)"
  by (auto simp: get_tx_def get_row_replace)

text \<open>C10: A request to the webhook never removes a transaction or touches its order, amount or
  creation time, and its state moves only from initiating to performed, from initiating to
  cancelled, or from performed to refunded; a cancelled transaction stays cancelled.\<close>

theorem transaction_lifecycle:
  assumes "get_tx tid ps = Some old"
  shows "\<exists>new. get_tx tid (fst (webhook_post cfg e rq b ps)) = Some new \<and> tx_order new = tx_order old \<and>
    tx_amount new = tx_amount old \<and> tx_created_at new = tx_created_at old \<and>
    (tx_state new = tx_state old \<or> tx_edge (tx_state old) (tx_state new))"
  using webhook_change [of cfg ps e rq b]
proof (cases rule: payme_change.cases)
  case same
  with assms show ?thesis by simp
next
  case (opened tid' oid tx a now)
  with assms show ?thesis by (auto simp: get_tx_def get_row_add)
next
  case (dropped tid' tx now r)
  have "tx_edge (tx_state tx) CANCELED_DURING_INIT"
    using dropped(3,4) by (cases "tx_state tx") (auto simp: is_performed_def is_cancelled_def)
  with assms dropped get_txD [OF dropped(2)] show ?thesis
    using get_tx_put [OF dropped(2), of "mark_as_cancelled now r CANCELED_DURING_INIT tx" tid] by auto
next
  case (performed tid' tx e' s1)
  have "tx_state (mark_as_performed (env_now e') tx) = tx_state tx \<or>
      tx_edge (tx_state tx) (tx_state (mark_as_performed (env_now e') tx))"
    by (auto simp: mark_as_performed_def)
  with assms performed get_txD [OF performed(2)] show ?thesis
    using get_tx_put [OF performed(2), of "mark_as_performed (env_now e') tx" tid s1] by auto
next
  case (refunded tid' tx s1 now r)
  have "tx_edge (tx_state tx) CANCELED" using refunded(3) by (simp add: is_performed_def)
  with assms refunded get_txD [OF refunded(2)] show ?thesis
    using get_tx_put [OF refunded(2), of "mark_as_cancelled now r CANCELED tx" tid s1] by auto
qed

theorem transaction_lifecycle_witness:
  "\<exists>new. get_tx ''t1'' performed_ps = Some new \<and> tx_order new = 1 \<and> tx_amount new = 29300000 \<and>
    (tx_state new = INITIATING \<or> tx_edge INITIATING (tx_state new))"
  using transaction_lifecycle [OF opened_tx(3), of example_cfg example_env example_rq
      "rpc_body ''PerformTransaction'' [(''id'', JStr ''t1'')]"]
  by (auto simp: performed_ps_def example_tx_def)

section \<open>Performing\<close>

lemma with_tx_found:
  assumes "map_of p ''id'' = Some v" and "get_tx (py_str (py_repr cfg) v) ps = Some tx"
  shows "with_tx cfg p f ps = f tx"
  using assms by (simp add: with_tx_def json_get_def)

text \<open>A transaction that is performed in time on an unpaid check pays the master.\<close>

lemma perform_locked_pays:
  assumes "get_tx tid ps = Some tx" and "is_initiating tx" and "\<not> is_expired (env_now e) tx"
    and "get_order (tx_order tx) (ps_sys ps) = Some ord" and "o_status ord = AWAITING_PAYMENT" and "\<not> is_paid ord"
    and "o_master ord = Some m" and "0 < total_amount ord"
  shows "\<exists>ps'. perform_locked e tx ps = (ps', Inr (PerformResult tid SUCCESSFULLY (env_now e))) \<and>
    get_tx tid ps' = Some (mark_as_performed (env_now e) tx) \<and>
    (\<exists>new. get_order (tx_order tx) (ps_sys ps') = Some new \<and> o_status new = COMPLETED \<and> is_paid new \<and>
       total_amount new = total_amount ord) \<and>
    (\<forall>m' meth. wallet_balance (wallet (ps_sys ps')) m' meth = wallet_balance (wallet (ps_sys ps)) m' meth +
       (if m' = m \<and> meth = ONLINE then total_amount ord else 0))"
proof -
  obtain s1 where s1: "complete_paid_order e (tx_order tx) PT_ONLINE (ps_sys ps) = Inr (s1, True)"
    and bal: "\<forall>m' meth. wallet_balance (wallet s1) m' meth = wallet_balance (wallet (ps_sys ps)) m' meth +
       (if m' = m \<and> meth = ONLINE then total_amount ord else 0)"
    and new: "\<exists>new. get_order (tx_order tx) s1 = Some new \<and> o_status new = COMPLETED \<and> is_paid new \<and>
       total_amount new = total_amount ord"
    using completion_pays [OF assms(4,5,7,8), of e PT_ONLINE] by auto
  have "mark_order_paid e (tx_order tx) (ps_sys ps) = Inr s1"
    using assms(4,6) s1 by (simp add: mark_order_paid_def)
  then have "perform_locked e tx ps = ((put_tx (mark_as_performed (env_now e) tx) ps)\<lparr>ps_sys := s1\<rparr>,
      Inr (PerformResult tid SUCCESSFULLY (env_now e)))"
    using assms(2,3) get_txD [OF assms(1)]
    by (simp add: perform_locked_def is_initiating_def is_performed_def is_cancelled_def perform_reply_def
        mark_as_performed_def time_to_payme_def)
  moreover have "get_tx tid ((put_tx (mark_as_performed (env_now e) tx) ps)\<lparr>ps_sys := s1\<rparr>) = Some (mark_as_performed (env_now e) tx)"
    using get_tx_put [OF assms(1), of "mark_as_performed (env_now e) tx" tid s1] get_txD [OF assms(1)] by simp
  ultimately show ?thesis
    using bal new by (intro exI [of _ "(put_tx (mark_as_performed (env_now e) tx) ps)\<lparr>ps_sys := s1\<rparr>"]) simp
qed

text \<open>C9: Performing a transaction in time completes the order that awaits payment, credits the
  master's online balance with exactly the order total and nobody else; repeating the request
  at any later time returns the same answer and changes nothing.\<close>

theorem perform_pays_once:
  assumes "map_of p ''id'' = Some v" and "get_tx (py_str (py_repr cfg) v) ps = Some tx" and "is_initiating tx"
    and "\<not> is_expired (env_now e) tx" and "get_order (tx_order tx) (ps_sys ps) = Some ord"
    and "o_status ord = AWAITING_PAYMENT" and "\<not> is_paid ord" and "o_master ord = Some m" and "0 < total_amount ord"
  shows "\<exists>ps'. perform_transaction cfg e p ps = (ps', Inr (PerformResult (transaction_id tx) SUCCESSFULLY (env_now e))) \<and>
    (\<exists>new. get_order (tx_order tx) (ps_sys ps') = Some new \<and> o_status new = COMPLETED \<and> is_paid new) \<and>
    (\<forall>m' meth. wallet_balance (wallet (ps_sys ps')) m' meth = wallet_balance (wallet (ps_sys ps)) m' meth +
       (if m' = m \<and> meth = ONLINE then total_amount ord else 0)) \<and>
    (\<forall>e'. perform_transaction cfg e' p ps' = (ps', Inr (PerformResult (transaction_id tx) SUCCESSFULLY (env_now e))))"
proof -
  let ?tid = "py_str (py_repr cfg) v"
  have tid: "transaction_id tx = ?tid" using get_txD [OF assms(2)] by simp
  obtain ps' where run: "perform_locked e tx ps = (ps', Inr (PerformResult ?tid SUCCESSFULLY (env_now e)))"
    and tx': "get_tx ?tid ps' = Some (mark_as_performed (env_now e) tx)"
    and rest: "\<exists>new. get_order (tx_order tx) (ps_sys ps') = Some new \<and> o_status new = COMPLETED \<and> is_paid new"
      "\<forall>m' meth. wallet_balance (wallet (ps_sys ps')) m' meth = wallet_balance (wallet (ps_sys ps)) m' meth +
       (if m' = m \<and> meth = ONLINE then total_amount ord else 0)"
    using perform_locked_pays [OF assms(2-9)] by blast
  have "perform_locked e' (mark_as_performed (env_now e) tx) ps' = (ps', Inr (PerformResult ?tid SUCCESSFULLY (env_now e)))" for e'
    using assms(3) tid
    by (simp add: perform_locked_def is_performed_def mark_as_performed_def is_initiating_def perform_reply_def time_to_payme_def)
  with run rest tid show ?thesis
    by (simp add: perform_transaction_def with_tx_found [OF assms(1,2)] with_tx_found [OF assms(1) tx'])
qed

definition awaiting_order :: order where
  "awaiting_order = \<lparr>o_id = 1, o_client = 4, o_master = Some 7, o_service = 1, o_address = None, o_device = None,
     o_address_text = ''Chilonzor'', o_lat = 0, o_lng = 0, scheduled_date = 210, scheduled_time = 36000, o_note = [],
     completion_note = ''tayyor'', o_status = AWAITING_PAYMENT, o_payment_type = None, service_fee = 28500000,
     inventory_total = 800000, bonus_used = 0, total_amount = 29300000, is_paid = False, paid_at = None,
     receipt_approved_at = Some 5000, receipt_approved_by = Some 7, cancel_reason = [], rejected_reason = [],
     o_created_at = 5000\<rparr>"

lemma checked_rows: "orders checked_sys = [awaiting_order]"
  "usages checked_sys = [\<lparr>ou_id = 1, ou_order = 1, ou_inventory = 1, ou_quantity = 100, ou_unit_price = 800000,
     ou_total_price = 800000\<rparr>]"
  "inventory (warehouse checked_sys) = [\<lparr>mi_id = 1, mi_master = 7, mi_product = 1, mi_quantity = 200, mi_unit = ''dona'',
     mi_low_threshold = 200\<rparr>]"
  "products (warehouse checked_sys) = [\<lparr>pr_id = 1, pr_category = None, pr_name = ''Filtr'', pr_unit = ''dona'',
     pr_quantity = 700, pr_low_threshold = 200, cost_price = 500000, sale_price = 800000, pr_mxik = [],
     pr_package_code = [], pr_vat_percent = 12, pr_is_active = True\<rparr>]"
  "wallet checked_sys = empty_wallet_db" "catalog checked_sys = catalog empty_sys"
  by code_simp+

lemma checked_order: "get_order 1 checked_sys = Some awaiting_order"
  "wallet_balance (wallet checked_sys) 7 ONLINE = 0"
  by (simp_all add: get_order_def checked_rows awaiting_order_def) code_simp

lemma awaiting_order_fields [simp]:
  "o_id awaiting_order = 1" "o_client awaiting_order = 4" "o_status awaiting_order = AWAITING_PAYMENT"
  "\<not> is_paid awaiting_order" "o_master awaiting_order = Some 7" "total_amount awaiting_order = 29300000"
  "o_service awaiting_order = 1" "service_fee awaiting_order = 28500000" "inventory_total awaiting_order = 800000"
  "bonus_used awaiting_order = 0"
  by (simp_all add: awaiting_order_def)

theorem perform_pays_once_witness:
  "\<exists>ps'. perform_transaction example_cfg example_env [(''id'', JStr ''t1'')] opened_ps =
      (ps', Inr (PerformResult ''t1'' SUCCESSFULLY 5000)) \<and> wallet_balance (wallet (ps_sys ps')) 7 ONLINE = 29300000 \<and>
    perform_transaction example_cfg example_env [(''id'', JStr ''t1'')] ps' = (ps', Inr (PerformResult ''t1'' SUCCESSFULLY 5000))"
proof -
  have "is_initiating example_tx" "\<not> is_expired (env_now example_env) example_tx" "tx_order example_tx = 1"
    "transaction_id example_tx = ''t1''" "env_now example_env = 5000"
    by code_simp+
  then show ?thesis
    using perform_pays_once [of "[(''id'', JStr ''t1'')]" "JStr ''t1''" example_cfg opened_ps example_tx example_env
        awaiting_order 7] checked_order opened_tx by auto
qed

section \<open>Expiry\<close>

text \<open>C11: A transaction that was not performed within twelve hours never pays: performing it
  answers -31008, cancels it with reason 4 and leaves orders and wallets alone, and from then
  on every attempt to perform it is refused and changes nothing.\<close>

theorem expired_never_pays:
  assumes "map_of p ''id'' = Some v" and "get_tx (py_str (py_repr cfg) v) ps = Some tx" and "\<not> is_performed tx"
    and "\<not> is_cancelled tx" and "env_now e - tx_created_at tx > 43200000"
  shows "\<exists>ps' er. perform_transaction cfg e p ps = (ps', Inl er) \<and> error_code er = -31008 \<and> ps_sys ps' = ps_sys ps \<and>
    (\<exists>tx'. get_tx (transaction_id tx) ps' = Some tx' \<and> tx_state tx' = CANCELED_DURING_INIT \<and> cancel_reason_code tx' = Some 4) \<and>
    (\<forall>e'. perform_transaction cfg e' p ps' = (ps', Inl er))"
proof -
  let ?tid = "py_str (py_repr cfg) v"
  let ?tx = "mark_as_cancelled (env_now e) (Some TIMEOUT_CANCEL_REASON) CANCELED_DURING_INIT tx"
  let ?ps = "put_tx ?tx ps"
  have tid: "transaction_id tx = ?tid" using get_txD [OF assms(2)] by simp
  have run: "perform_locked e tx ps = (?ps, Inl (UnableToPerformOperation ?tid))"
    using assms(3-5) tid by (simp add: perform_locked_def is_expired_def TRANSACTION_TIMEOUT_MS_def)
  have tx': "get_tx ?tid ?ps = Some ?tx"
    using get_tx_put [OF assms(2), of ?tx ?tid] tid by simp
  have again: "perform_locked e' ?tx ?ps = (?ps, Inl (UnableToPerformOperation ?tid))" for e'
    using tid by (simp add: perform_locked_def is_performed_def is_cancelled_def)
  have "cancel_reason_code ?tx = Some 4"
    using assms(4) by (auto simp: mark_as_cancelled_def is_cancelled_def TIMEOUT_CANCEL_REASON_def)
  then show ?thesis
    using run tx' again tid
    by (intro exI [of _ ?ps] exI [of _ "UnableToPerformOperation ?tid"])
      (simp add: perform_transaction_def with_tx_found [OF assms(1,2)] with_tx_found [OF assms(1) tx'])
qed

theorem expired_never_pays_witness:
  "\<exists>ps' er. perform_transaction example_cfg (example_env\<lparr>env_now := 43205001\<rparr>) [(''id'', JStr ''t1'')] opened_ps = (ps', Inl er) \<and>
    error_code er = -31008 \<and> ps_sys ps' = checked_sys"
  using expired_never_pays [of "[(''id'', JStr ''t1'')]" "JStr ''t1''" example_cfg opened_ps example_tx
      "example_env\<lparr>env_now := 43205001\<rparr>"] opened_tx
  by (auto simp: example_tx_def is_performed_def is_cancelled_def)

end
