(* ===== verification/Payme_Checkout.thy ===== *)
theory Payme_Checkout
  imports Payme_Claims
begin

text \<open>
  Authorization of the webhook, the checkout link, the fiscal detail of a receipt, and two
  gaps of the payment flow.
\<close>

section \<open>Authorization\<close>

definition expected_key :: "payme_settings \<Rightarrow> string" where
  "expected_key cfg = (if PAYME_TEST_MODE cfg then PAYME_TEST_KEY cfg else PAYME_KEY cfg)"

lemma basic_header_accepted_iff:
  assumes "rq_authorization rq = scheme @ CHR '' '' # b64encode (login @ CHR '':'' # key)"
    and "is_ascii login" and "is_ascii key" and "CHR '':'' \<notin> set login"
  shows "check_authorize cfg rq =
    (if expected_key cfg \<noteq> [] \<and> key = expected_key cfg then Inr () else Inl (PaymePermissionDenied ''Invalid merchant key''))"
proof -
  let ?t = "login @ CHR '':'' # key"
  have "is_space (CHR '' '')" by (simp add: is_space_def)
  then have "last_word (rq_authorization rq) = Some (b64encode ?t)"
    unfolding assms(1) by (intro last_word_encoded) simp_all
  moreover have "utf8_decodes ?t" using assms(2,3) by (intro utf8_ascii) (simp add: is_ascii_def)
  ultimately show ?thesis
    using after_first_append [OF assms(4), of key]
    by (simp add: check_authorize_def assms(1) decode_encode expected_key_def Let_def)
qed



section \<open>The checkout link\<close>

lemma to_tiyin_id [simp]: "to_tiyin a = a"
  using round_half_even_exact [of 100 a] by (simp add: to_tiyin_def mult.commute)

text \<open>C13: The checkout link the client opens carries, in its base64 part, the order and the
  order total in tiyin, and the webhook accepts exactly this account and amount.\<close>

theorem checkout_agrees_with_webhook:
  assumes "PaymeCheckoutUrlView_post cfg user oid ru lang ps = Inr co" and "keys_distinct o_id (orders (ps_sys ps))"
    and "parse_pk cfg (JStr (pk_str cfg oid)) = Some oid" and "pk_str cfg oid \<noteq> []"
  shows "\<exists>enc ru' la' items ord. co_url co = base_url cfg @ ''/'' @ enc \<and>
    b64decode enc = Some (pay_params cfg (pk_str cfg oid) (total_amount ord) ru' la') \<and>
    get_order oid (ps_sys ps) = Some ord \<and> o_client ord = user \<and> 0 < total_amount ord \<and>
    check_perform_transaction cfg [(''amount'', JInt (total_amount ord)),
      (''account'', JObj [(PAYME_ACCOUNT_FIELD cfg, JStr (pk_str cfg oid))])] ps = (ps, Inr (CheckPerformResult True items))"
proof -
  from assms(1) obtain ord where row: "get_row o_id oid (filter (owned_by_client user) (orders (ps_sys ps))) = Some ord"
    and pos: "0 < total_amount ord"
    and co: "co_url co = generate_pay_link cfg (pk_str cfg (o_id ord)) (total_amount ord)
        (if ru = [] then PAYME_RETURN_DEEPLINK cfg else ru) (if lang = [] then PAYME_CHECKOUT_LANG cfg else lang)"
    by (auto simp: PaymeCheckoutUrlView_post_def order_amount_tiyin_def Let_def split: if_splits)
  have ord: "get_order oid (ps_sys ps) = Some ord" "o_client ord = user" "o_id ord = oid"
    using get_row_filter [OF assms(2) row] get_row_key [OF row] by (auto simp: get_order_def owned_by_client_def)
  have "check_perform_transaction cfg [(''amount'', JInt (total_amount ord)),
      (''account'', JObj [(PAYME_ACCOUNT_FIELD cfg, JStr (pk_str cfg oid))])] ps =
      (ps, Inr (CheckPerformResult True (build_fiscal_items ord (ps_sys ps))))"
    using ord(1) assms(3,4)
    by (simp add: check_perform_transaction_def fetch_account_def account_key_def json_get_def validate_amount_def
        order_amount_tiyin_def Let_def)
  with co ord pos show ?thesis
    by (auto simp: generate_pay_link_def decode_encode)
qed

theorem checkout_agrees_with_webhook_witness:
  "\<exists>co enc ru' la' items. PaymeCheckoutUrlView_post example_cfg 4 1 [] [] unpaid_ps = Inr co \<and>
     co_url co = ''https://checkout.paycom.uz/'' @ enc \<and>
     b64decode enc = Some (pay_params example_cfg ''1'' 29300000 ru' la') \<and>
     check_perform_transaction example_cfg [(''amount'', JInt 29300000), (''account'', JObj [(''order_id'', JStr ''1'')])] unpaid_ps =
       (unpaid_ps, Inr (CheckPerformResult True items))"
proof -
  have one: "nat_str 1 = ''1''" by code_simp
  have k: "keys_distinct o_id (orders (ps_sys unpaid_ps))" "pk_str example_cfg 1 = ''1''"
    "parse_pk example_cfg (JStr (pk_str example_cfg 1)) = Some 1" "base_url example_cfg = ''https://checkout.paycom.uz''"
    "PAYME_ACCOUNT_FIELD example_cfg = ''order_id''"
    by (simp_all add: unpaid_ps_def checked_rows example_cfg_def one [simplified] read_int_def strip_def
        lstrip_def is_space_def is_digit_def base_url_def keys_distinct_def)
  obtain co where co: "PaymeCheckoutUrlView_post example_cfg 4 1 [] [] unpaid_ps = Inr co"
    by (simp add: PaymeCheckoutUrlView_post_def unpaid_ps_def checked_rows owned_by_client_def order_amount_tiyin_def Let_def)
  from checkout_agrees_with_webhook [OF co k(1,3)] co k checked_order(1) show ?thesis
    by (auto simp: unpaid_ps_def)
qed

section \<open>Fiscal detail\<close>

lemma fiscal_lines_sum:
  assumes "fiscal_lines us s = Some items"
    and "list_all (\<lambda>u. ou_total_price u = quantize2 (ou_quantity u * ou_unit_price u)) us"
  shows "items_sum items = sum_rows ou_total_price us"
  using assms
proof (induction us arbitrary: items)
  case (Cons u us)
  from Cons.prems(1) obtain p rest where p: "usage_product u s = Some p" "pr_mxik p \<noteq> []"
    and rest: "fiscal_lines us s = Some rest"
    by (auto split: option.splits if_splits)
  with Cons.prems(1) have items: "items = \<lparr>it_title = pr_name p, it_price = usage_price u, it_count = usage_count u,
        it_code = pr_mxik p, it_vat_percent = pr_vat_percent p, it_package_code = pr_package_code p\<rparr> # rest"
    by simp
  have "usage_price u * usage_count u = ou_total_price u"
  proof (cases "0 < ou_quantity u \<and> ou_quantity u mod 100 = 0")
    case True
    then obtain c where c: "ou_quantity u = 100 * c" by (auto simp: mod_eq_0_iff_dvd)
    have "ou_total_price u = quantize2 (ou_quantity u * ou_unit_price u)" using Cons.prems(2) by simp
    also have "\<dots> = c * ou_unit_price u"
      using quantize2_exact(1) [of "c * ou_unit_price u"] by (simp add: c mult.assoc)
    finally have "ou_total_price u = ou_quantity u div 100 * ou_unit_price u" by (simp add: c)
    with True show ?thesis by (simp add: usage_price_def usage_count_def)
  qed (auto simp: usage_price_def usage_count_def)
  moreover have "items_sum rest = sum_rows ou_total_price us"
    using Cons.IH [OF rest] Cons.prems(2) by simp
  ultimately show ?case by (simp add: items items_sum_def)
qed (simp add: items_sum_def)

lemma fiscal_lines_defined:
  "fiscal_lines us s \<noteq> None \<longleftrightarrow> (\<forall>u \<in> set us. \<exists>p. usage_product u s = Some p \<and> pr_mxik p \<noteq> [])"
  by (induction us) (auto split: option.splits)

text \<open>C14: When the service and all parts of a checked order carry fiscal codes and the bonus does
  not exceed the service fee, the receipt has one line for the service at fee minus bonus and
  one line per part, and the lines add up to exactly the amount the client is charged.\<close>

theorem fiscal_detail_balances:
  assumes "get_row sv_id (o_service ord) (catalog s) = Some sv" and "sv_mxik sv \<noteq> []"
    and "\<forall>u \<in> set (usages s). ou_order u = o_id ord \<longrightarrow>
      (\<exists>p. usage_product u s = Some p \<and> pr_mxik p \<noteq> []) \<and> ou_total_price u = quantize2 (ou_quantity u * ou_unit_price u)"
    and "inventory_total ord = usage_total (o_id ord) s"
    and "total_amount ord = max (service_fee ord + inventory_total ord - bonus_used ord) 0"
    and "bonus_used ord \<le> service_fee ord" and "0 \<le> inventory_total ord"
  shows "\<exists>parts. build_fiscal_items ord s =
      \<lparr>it_title = sv_name sv, it_price = service_fee ord - bonus_used ord, it_count = 1, it_code = sv_mxik sv,
       it_vat_percent = sv_vat_percent sv, it_package_code = sv_package_code sv\<rparr> # parts \<and>
    length parts = length (filter (\<lambda>u. ou_order u = o_id ord) (usages s)) \<and>
    items_sum (build_fiscal_items ord s) = order_amount_tiyin ord"
proof -
  let ?us = "filter (\<lambda>u. ou_order u = o_id ord) (usages s)"
  have "fiscal_lines ?us s \<noteq> None" unfolding fiscal_lines_defined using assms(3) by auto
  then obtain parts where parts: "fiscal_lines ?us s = Some parts" by blast
  have "items_sum parts = sum_rows ou_total_price ?us"
    using assms(3) by (intro fiscal_lines_sum [OF parts]) (auto simp: list_all_iff)
  then have sum: "items_sum parts = inventory_total ord"
    by (simp add: assms(4) usage_total_def sum_rows_filter)
  have "length items = length us" if "fiscal_lines us s = Some items" for items us
    using that by (induction us arbitrary: items) (auto split: option.splits if_splits)
  then have len: "length parts = length ?us" using parts by blast
  have total: "total_amount ord = service_fee ord + inventory_total ord - bonus_used ord" using assms(5-7) by simp
  then have "build_fiscal_items ord s =
      \<lparr>it_title = sv_name sv, it_price = service_fee ord - bonus_used ord, it_count = 1, it_code = sv_mxik sv,
       it_vat_percent = sv_vat_percent sv, it_package_code = sv_package_code sv\<rparr> # parts"
    using assms(1,2,6) parts sum
    by (simp add: build_fiscal_items_def order_amount_tiyin_def Let_def items_sum_def)
  with total len sum show ?thesis by (simp add: order_amount_tiyin_def items_sum_def)
qed

definition coded_sys :: sys where
  "coded_sys = checked_sys\<lparr>catalog := map (\<lambda>v. v\<lparr>sv_mxik := ''10305''\<rparr>) (catalog checked_sys),
     warehouse := (warehouse checked_sys)\<lparr>products := map (\<lambda>p. p\<lparr>pr_mxik := ''20711''\<rparr>) (products (warehouse checked_sys))\<rparr>\<rparr>"

lemma coded_rows: "orders coded_sys = [awaiting_order]" "usages coded_sys = usages checked_sys"
  "get_row sv_id 1 (catalog coded_sys) = Some \<lparr>sv_id = 1, sv_category = 1, sv_name = ''Konditsioner'', sv_description = [], base_price = 0,
     sv_mxik = ''10305'', sv_package_code = [], sv_vat_percent = 12, sv_active = True\<rparr>"
  by (simp_all add: coded_sys_def checked_rows empty_sys_def)

lemma coded_usages:
  "\<forall>u \<in> set (usages coded_sys). ou_order u = o_id awaiting_order \<longrightarrow>
     (\<exists>p. usage_product u coded_sys = Some p \<and> pr_mxik p \<noteq> []) \<and> ou_total_price u = quantize2 (ou_quantity u * ou_unit_price u)"
  using quantize2_exact(1) [of 800000]
  by (simp add: coded_rows checked_rows usage_product_def coded_sys_def)

theorem fiscal_detail_balances_witness:
  "items_sum (build_fiscal_items awaiting_order coded_sys) = 29300000 \<and>
   length (build_fiscal_items awaiting_order coded_sys) = 2"
proof -
  have "inventory_total awaiting_order = usage_total (o_id awaiting_order) coded_sys"
    by (simp add: usage_total_def coded_rows checked_rows)
  moreover have "get_row sv_id (o_service awaiting_order) (catalog coded_sys) = Some \<lparr>sv_id = 1, sv_category = 1,
     sv_name = ''Konditsioner'', sv_description = [], base_price = 0, sv_mxik = ''10305'', sv_package_code = [], sv_vat_percent = 12, sv_active = True\<rparr>"
    using coded_rows(3) by simp
  ultimately show ?thesis
    using fiscal_detail_balances [of awaiting_order coded_sys, OF _ _ coded_usages]
    by (fastforce simp: coded_rows checked_rows order_amount_tiyin_def)
qed

section \<open>Gaps\<close>

text \<open>C15: The webhook does not look at the status of the order: an order that is completed and paid
  (in cash, say) can be charged again. The transaction is created and performed, the master
  gets nothing for it, and cancelling it is refused, so the money cannot be returned this
  way.\<close>

theorem paid_order_charged_again:
  assumes "get_order oid (ps_sys ps) = Some ord" and "o_status ord = COMPLETED" and "is_paid ord"
    and "get_active_transaction oid ps = None" and "get_tx tid ps = None" and "length tid \<le> 64"
    and "fetch_account cfg [(''id'', JStr tid), (''amount'', JInt (order_amount_tiyin ord)), (''account'', acc)] (ps_sys ps) = Inr ord"
  shows "\<exists>ps1 ps2. create_transaction cfg e [(''id'', JStr tid), (''amount'', JInt (order_amount_tiyin ord)), (''account'', acc)] ps =
      (ps1, Inr (CreateResult tid INITIATING (env_now e))) \<and>
    perform_transaction cfg e [(''id'', JStr tid)] ps1 = (ps2, Inr (PerformResult tid SUCCESSFULLY (env_now e))) \<and>
    ps_sys ps2 = ps_sys ps \<and>
    (\<forall>e' r. cancel_transaction cfg e' [(''id'', JStr tid), (''reason'', r)] ps2 = (ps2, Inl (UnableToCancelTransaction tid)))"
proof -
  let ?tx = "\<lparr>transaction_id = tid, tx_order = oid, tx_amount = order_amount_tiyin ord, tx_state = INITIATING,
      cancel_reason_code = None, tx_created_at = env_now e, performed_at = None, cancelled_at = None\<rparr>"
  let ?ps1 = "ps\<lparr>ps_txs := add_row ?tx (ps_txs ps)\<rparr>"
  let ?tx2 = "mark_as_performed (env_now e) ?tx"
  let ?ps2 = "(put_tx ?tx2 ?ps1)\<lparr>ps_sys := ps_sys ps\<rparr>"
  have id: "o_id ord = oid" using get_order_id [OF assms(1)] .
  have "create_locked cfg (env_now e) tid ord (order_amount_tiyin ord) ps = (?ps1, create_reply ?tx)"
    using assms(4-6) id by (simp add: create_locked_def Let_def split: bool.split)
  then have c: "create_transaction cfg e [(''id'', JStr tid), (''amount'', JInt (order_amount_tiyin ord)), (''account'', acc)] ps =
      (?ps1, Inr (CreateResult tid INITIATING (env_now e)))"
    using assms(7) by (simp add: create_transaction_def validate_amount_def json_get_def create_reply_def)
  have tx1: "get_tx tid ?ps1 = Some ?tx"
    using assms(5) by (simp add: get_tx_def get_row_add)
  have "perform_locked e ?tx ?ps1 = (?ps2, Inr (PerformResult tid SUCCESSFULLY (env_now e)))"
    using assms(1,3)
    by (simp add: perform_locked_def is_performed_def is_cancelled_def is_expired_def TRANSACTION_TIMEOUT_MS_def
        mark_order_paid_def mark_as_performed_def perform_reply_def time_to_payme_def)
  then have p: "perform_transaction cfg e [(''id'', JStr tid)] ?ps1 = (?ps2, Inr (PerformResult tid SUCCESSFULLY (env_now e)))"
    using with_tx_found [of "[(''id'', JStr tid)]" "JStr tid" cfg ?ps1 ?tx] tx1 by (simp add: perform_transaction_def)
  have tx2: "get_tx tid ?ps2 = Some ?tx2" using get_tx_put [OF tx1, of ?tx2 tid "ps_sys ps"] by simp
  have "cancel_locked e' r ?tx2 ?ps2 = (?ps2, Inl (UnableToCancelTransaction tid))" for e' r
    using assms(1,2) by (simp add: cancel_locked_def is_cancelled_def is_performed_def mark_as_performed_def)
  then have "cancel_transaction cfg e' [(''id'', JStr tid), (''reason'', r)] ?ps2 = (?ps2, Inl (UnableToCancelTransaction tid))" for e' r
    using with_tx_found [of "[(''id'', JStr tid), (''reason'', r)]" "JStr tid" cfg ?ps2 ?tx2] tx2
    by (simp add: cancel_transaction_def json_get_def)
  with c p show ?thesis by (intro exI [of _ ?ps1] exI [of _ ?ps2]) simp
qed

definition cash_paid_ps :: payme_sys where
  "cash_paid_ps = \<lparr>ps_sys = paid_sys, ps_txs = []\<rparr>"

lemma paid_rows: "orders paid_sys = [awaiting_order\<lparr>o_status := COMPLETED, o_payment_type := Some PT_CASH, is_paid := True,
     paid_at := Some 5000\<rparr>]"
  by code_simp

theorem paid_order_charged_again_witness:
  "\<exists>ps1 ps2. create_transaction example_cfg example_env
      [(''id'', JStr ''t1''), (''amount'', JInt 29300000), (''account'', JObj [(''order_id'', JStr ''1'')])] cash_paid_ps =
      (ps1, Inr (CreateResult ''t1'' INITIATING 5000)) \<and>
    perform_transaction example_cfg example_env [(''id'', JStr ''t1'')] ps1 = (ps2, Inr (PerformResult ''t1'' SUCCESSFULLY 5000)) \<and>
    cancel_transaction example_cfg example_env [(''id'', JStr ''t1''), (''reason'', JInt 5)] ps2 =
      (ps2, Inl (UnableToCancelTransaction ''t1''))"
proof -
  let ?ord = "awaiting_order\<lparr>o_status := COMPLETED, o_payment_type := Some PT_CASH, is_paid := True, paid_at := Some 5000\<rparr>"
  have "parse_pk example_cfg (JStr ''1'') = Some 1" "PAYME_ACCOUNT_FIELD example_cfg = ''order_id''"
    by (simp_all add: example_cfg_def read_int_def strip_def lstrip_def is_space_def is_digit_def)
  moreover have ord: "get_order 1 (ps_sys cash_paid_ps) = Some ?ord" by (simp add: get_order_def cash_paid_ps_def paid_rows)
  ultimately have "fetch_account example_cfg [(''id'', JStr ''t1''), (''amount'', JInt (order_amount_tiyin ?ord)),
      (''account'', JObj [(''order_id'', JStr ''1'')])] (ps_sys cash_paid_ps) = Inr ?ord"
    by (simp add: fetch_account_def account_key_def json_get_def Let_def)
  with paid_order_charged_again [OF ord, of "''t1''" example_cfg "JObj [(''order_id'', JStr ''1'')]" example_env] show ?thesis
    by (auto simp: cash_paid_ps_def get_active_transaction_def get_tx_def order_amount_tiyin_def example_env_def)
qed

text \<open>The amount is compared when a transaction is created, not when it is performed. When the
  master books a part on the order in between, the client pays the old total and the master
  is credited the new one.\<close>

theorem part_booked_after_create:
  assumes "get_tx tid ps = Some tx" and "is_initiating tx" and "\<not> is_expired (env_now e) tx"
    and "get_order (tx_order tx) (ps_sys ps) = Some ord" and "o_status ord = AWAITING_PAYMENT" and "\<not> is_paid ord"
    and "o_master ord = Some m" and "tx_amount tx = order_amount_tiyin ord" and "keys_distinct o_id (orders (ps_sys ps))"
    and "UseInventoryView_post m iid (tx_order tx) n (ps_sys ps) = Inr s1"
    and "get_order (tx_order tx) s1 = Some new" and "0 < total_amount new"
  shows "\<exists>ps'. perform_locked e tx (ps\<lparr>ps_sys := s1\<rparr>) = (ps', Inr (PerformResult tid SUCCESSFULLY (env_now e))) \<and>
    wallet_balance (wallet (ps_sys ps')) m ONLINE =
      wallet_balance (wallet (ps_sys ps)) m ONLINE + tx_amount tx + (total_amount new - total_amount ord)"
  using assms(10)
proof (rule UseInventoryView_InrD)
  fix i p ord' w s0
  assume row: "get_row o_id (tx_order tx) (filter (owned_by_master m) (orders (ps_sys ps))) = Some ord'"
    and s0: "s0 = create_usage (tx_order tx) iid n (sale_price p) (ps_sys ps\<lparr>warehouse := w\<rparr>)"
    and s1: "s1 = save_order ord' (recalculate_total (ord'\<lparr>inventory_total := usage_total (tx_order tx) s0\<rparr>)) s0"
  have "get_order (tx_order tx) (ps_sys ps) = Some ord'"
    using get_row_filter [OF assms(9) row] by (simp add: get_order_def)
  then have o': "ord' = ord" using assms(4) by simp
  have "get_order (tx_order tx) s0 = Some ord" using assms(4) by (simp add: s0 get_order_def)
  then have new: "new = recalculate_total (ord\<lparr>inventory_total := usage_total (tx_order tx) s0\<rparr>)"
    using assms(11) get_order_id [OF assms(4)] by (simp add: s1 o' recalculate_total_def)
  have "get_tx tid (ps\<lparr>ps_sys := s1\<rparr>) = Some tx" using assms(1) by (simp add: get_tx_def)
  from perform_locked_pays [OF this assms(2,3)] obtain ps' where
    "perform_locked e tx (ps\<lparr>ps_sys := s1\<rparr>) = (ps', Inr (PerformResult tid SUCCESSFULLY (env_now e)))"
    "wallet_balance (wallet (ps_sys ps')) m ONLINE = wallet_balance (wallet s1) m ONLINE + total_amount new"
    using assms(5-7,11,12) by (fastforce simp: new recalculate_total_def)
  moreover have "wallet s1 = wallet (ps_sys ps)" by (simp add: s1 s0)
  ultimately show ?thesis using assms(8) by (simp add: order_amount_tiyin_def)
qed

definition extra_part_sys :: sys where
  "extra_part_sys = or_stay (UseInventoryView_post 7 1 1 100) checked_sys"

lemma extra_part_runs: "UseInventoryView_post 7 1 1 100 checked_sys = Inr extra_part_sys"
  "map total_amount (orders extra_part_sys) = [30100000]" "map o_id (orders extra_part_sys) = [1]"
  by code_simp+

theorem part_booked_after_create_witness:
  "\<exists>ps'. perform_locked example_env example_tx (opened_ps\<lparr>ps_sys := extra_part_sys\<rparr>) =
      (ps', Inr (PerformResult ''t1'' SUCCESSFULLY 5000)) \<and>
    tx_amount example_tx = 29300000 \<and> wallet_balance (wallet (ps_sys ps')) 7 ONLINE = 30100000"
proof -
  obtain new where new: "get_order 1 extra_part_sys = Some new" "total_amount new = 30100000"
    using extra_part_runs(2,3) by (auto simp: get_order_def)
  have tx: "is_initiating example_tx" "\<not> is_expired (env_now example_env) example_tx" "tx_order example_tx = 1"
    "tx_amount example_tx = 29300000" "env_now example_env = 5000"
    by code_simp+
  have "keys_distinct o_id (orders (ps_sys opened_ps))" by (simp add: opened_tx checked_rows keys_distinct_def)
  with part_booked_after_create [OF opened_tx(3) tx(1,2), of awaiting_order 7 1 100 extra_part_sys new]
    tx new extra_part_runs(1) checked_order opened_tx(2) show ?thesis
    by (auto simp: order_amount_tiyin_def)
qed

end
