(* ===== verification/Order_Rules.thy ===== *)
theory Order_Rules
  imports Order_Money
begin

text \<open>
  Rules of the single endpoints: who may accept an order and who becomes its lead, what an
  assignment leaves active, whom a change of status informs, and what a status change
  through the internal API does to the schedule.
\<close>

section \<open>Acceptance\<close>

lemma accept_InrD:
  assumes "MasterOrderAcceptView_post m pk s = Inr s'"
  obtains a ord where "get_row om_key (pk, m) (filter om_active (order_masters s)) = Some a"
    and "get_order pk s = Some ord"
    and "get_order pk s' = Some (if o_status ord = NEW then ord\<lparr>o_master := Some m, o_status := ACCEPTED\<rparr> else ord)"
    and "order_masters s' = (if has_accepted a then order_masters s
          else upd_row om_key (pk, m) (\<lambda>r. r\<lparr>has_accepted := True\<rparr>) (order_masters s))"
proof -
  from assms obtain a ord where a: "get_row om_key (pk, m) (filter om_active (order_masters s)) = Some a"
    and ord: "get_order pk s = Some ord"
    and s': "s' = (let s1 = (if o_status ord = NEW
                then ensure_tracking pk (save_order ord (ord\<lparr>o_master := Some m, o_status := ACCEPTED\<rparr>) s) else s)
      in if \<not> has_accepted a
         then s1\<lparr>order_masters := upd_row om_key (pk, m) (\<lambda>r. r\<lparr>has_accepted := True\<rparr>) (order_masters s1)\<rparr> else s1)"
    by (auto simp: MasterOrderAcceptView_post_def Let_def)
  have "get_order pk s' = Some (if o_status ord = NEW then ord\<lparr>o_master := Some m, o_status := ACCEPTED\<rparr> else ord)"
    using ord get_order_id [OF ord] by (auto simp: s' Let_def get_order_def get_row_replace)
  moreover have "order_masters s' = (if has_accepted a then order_masters s
          else upd_row om_key (pk, m) (\<lambda>r. r\<lparr>has_accepted := True\<rparr>) (order_masters s))"
    by (simp add: s' Let_def)
  ultimately show thesis using that a ord by blast
qed

text \<open>C16: Only a master with an active assignment can accept an order. The first to accept a new
  order becomes its lead and moves it to accepted; an acceptance by a second assigned master
  succeeds but leaves the order, its lead included, as it is.\<close>

theorem first_accept_leads:
  assumes "get_order pk s = Some ord" and "o_status ord = NEW"
    and "MasterOrderAcceptView_post m pk s = Inr s1" and "MasterOrderAcceptView_post m' pk s1 = Inr s2"
  shows "(\<exists>r \<in> set (order_masters s). om_order r = pk \<and> om_master r = m \<and> om_active r) \<and>
    get_order pk s1 = Some (ord\<lparr>o_master := Some m, o_status := ACCEPTED\<rparr>) \<and> get_order pk s2 = get_order pk s1 \<and>
    ((\<nexists>r. r \<in> set (order_masters s) \<and> om_order r = pk \<and> om_master r = x \<and> om_active r) \<longrightarrow>
       MasterOrderAcceptView_post x pk s = Inl (NotFound ''OrderMaster''))"
proof -
  have lead: "get_order pk s1 = Some (ord\<lparr>o_master := Some m, o_status := ACCEPTED\<rparr>)"
    using assms(3) by (rule accept_InrD) (use assms(1,2) in auto)
  then have "get_order pk s2 = get_order pk s1"
    using assms(4) by (elim accept_InrD) auto
  moreover have "\<exists>r \<in> set (order_masters s). om_order r = pk \<and> om_master r = m \<and> om_active r"
  proof (rule accept_InrD [OF assms(3)])
    fix a
    assume "get_row om_key (pk, m) (filter om_active (order_masters s)) = Some a"
    from get_row_SomeD [OF this] show ?thesis by (auto simp: om_key_def)
  qed
  moreover have "MasterOrderAcceptView_post x pk s = Inl (NotFound ''OrderMaster'')"
    if "\<nexists>r. r \<in> set (order_masters s) \<and> om_order r = pk \<and> om_master r = x \<and> om_active r"
  proof -
    have "get_row om_key (pk, x) (filter om_active (order_masters s)) = None"
      using that by (auto simp: get_row_None_iff om_key_def)
    then show ?thesis by (simp add: MasterOrderAcceptView_post_def)
  qed
  ultimately show ?thesis using lead by blast
qed

definition second_accept_sys :: sys where
  "second_accept_sys = or_stay (MasterOrderAcceptView_post 8 1) accepted_sys"

theorem first_accept_leads_witness:
  "\<exists>ord. get_order 1 accepted_sys = Some ord \<and> o_master ord = Some 7 \<and> get_order 1 second_accept_sys = Some ord"
proof -
  have "get_order 1 assigned_sys = Some (hd (orders assigned_sys))" "o_status (hd (orders assigned_sys)) = NEW"
    "MasterOrderAcceptView_post 8 1 accepted_sys = Inr second_accept_sys"
    by code_simp+
  with first_accept_leads [OF _ _ example_runs(2), of "hd (orders assigned_sys)" 8] show ?thesis by auto
qed

section \<open>Assignment\<close>

definition active_of :: "row_id \<Rightarrow> order_master list \<Rightarrow> row_id set" where
  "active_of oid rows = set (map om_master (filter (\<lambda>r. om_order r = oid \<and> om_active r) rows))"

lemma keys_deactivate: "map om_key (deactivate_unwanted oid wanted rows) = map om_key rows"
  by (simp add: deactivate_unwanted_def om_key_def)

lemma in_active: "m \<in> active_of oid rows \<longleftrightarrow> (\<exists>r \<in> set rows. om_order r = oid \<and> om_active r \<and> om_master r = m)"
  by (auto simp: active_of_def)

lemma active_deactivate: "active_of oid (deactivate_unwanted oid wanted rows) = active_of oid rows \<inter> set wanted"
  by (induction rows) (auto simp: active_of_def deactivate_unwanted_def)

lemma rows_of_others_deactivate:
  "filter (\<lambda>r. om_order r \<noteq> oid) (deactivate_unwanted oid wanted rows) = filter (\<lambda>r. om_order r \<noteq> oid) rows"
  by (induction rows) (auto simp: deactivate_unwanted_def)

lemma active_add:
  "active_of oid (add_row r rows) = (if om_order r = oid \<and> om_active r then insert (om_master r) (active_of oid rows) else active_of oid rows)"
  by (auto simp: active_of_def)

lemma active_upd:
  assumes "get_row om_key (oid, m) rows = Some r"
  shows "active_of oid (upd_row om_key (oid, m) (\<lambda>r. r\<lparr>om_active := True, om_assigned_by := admin\<rparr>) rows) =
    insert m (active_of oid rows)"
proof -
  have "active_of oid (upd_row om_key (oid, m) (\<lambda>r. r\<lparr>om_active := True, om_assigned_by := admin\<rparr>) rs) =
      active_of oid rs \<union> (if (oid, m) \<in> om_key ` set rs then {m} else {})" for rs
    by (induction rs) (auto simp: active_of_def upd_row_def om_key_def)
  moreover have "(oid, m) \<in> om_key ` set rows" using get_row_SomeD [OF assms] by force
  ultimately show ?thesis by simp
qed

lemma active_key:
  assumes "keys_distinct om_key rows"
  shows "m \<in> active_of oid rows \<longleftrightarrow> (\<exists>r. get_row om_key (oid, m) rows = Some r \<and> om_active r)"
proof
  assume "m \<in> active_of oid rows"
  then obtain r where r: "r \<in> set rows" "om_order r = oid" "om_active r" "om_master r = m"
    by (auto simp: in_active)
  from get_row_unique [OF assms r(1)] r show "\<exists>r. get_row om_key (oid, m) rows = Some r \<and> om_active r"
    by (auto simp: om_key_def)
next
  assume "\<exists>r. get_row om_key (oid, m) rows = Some r \<and> om_active r"
  then show "m \<in> active_of oid rows" by (force simp: in_active om_key_def dest: get_row_SomeD)
qed

lemma assign_one_effect:
  assumes "keys_distinct om_key rows" and "assign_one oid admin m (rows, newly) = (rows', newly')"
  shows "keys_distinct om_key rows'" "active_of oid rows' = insert m (active_of oid rows)"
    "newly' = newly @ (if m \<in> active_of oid rows then [] else [m])"
    "filter (\<lambda>r. om_order r \<noteq> oid) rows' = filter (\<lambda>r. om_order r \<noteq> oid) rows" "om_key ` set rows \<subseteq> om_key ` set rows'"
proof -
  let ?u = "upd_row om_key (oid, m) (\<lambda>r. r\<lparr>om_active := True, om_assigned_by := admin\<rparr>) rows"
  have keys: "map om_key ?u = map om_key rows" by (rule keys_upd_row) (simp add: om_key_def)
  then have u: "keys_distinct om_key ?u" "om_key ` set ?u = om_key ` set rows"
    using assms(1) keys_distinct_same [OF keys] by (auto simp flip: set_map)
  have others: "filter (\<lambda>r. om_order r \<noteq> oid) ?u = filter (\<lambda>r. om_order r \<noteq> oid) rows"
    by (induction rows) (auto simp: upd_row_def om_key_def)
  let ?new = "\<lparr>om_order = oid, om_master = m, om_assigned_by = admin, has_accepted = False, om_active = True\<rparr>"
  have new: "keys_distinct om_key (add_row ?new rows)" if "get_row om_key (oid, m) rows = None"
    using keys_distinct_add [OF assms(1), of ?new] that by (simp add: get_row_None_iff om_key_def)
  consider (create) "get_row om_key (oid, m) rows = None" "rows' = add_row ?new rows" "newly' = newly @ [m]"
    | (wake) r where "get_row om_key (oid, m) rows = Some r" "\<not> om_active r" "rows' = ?u" "newly' = newly @ [m]"
    | (keep) r where "get_row om_key (oid, m) rows = Some r" "om_active r" "rows' = rows" "newly' = newly"
    using assms(2) by (auto simp: assign_one_def split: option.splits if_splits)
  then have "keys_distinct om_key rows' \<and> active_of oid rows' = insert m (active_of oid rows) \<and>
    newly' = newly @ (if m \<in> active_of oid rows then [] else [m]) \<and>
    filter (\<lambda>r. om_order r \<noteq> oid) rows' = filter (\<lambda>r. om_order r \<noteq> oid) rows \<and> om_key ` set rows \<subseteq> om_key ` set rows'"
  proof cases
    case create
    then have "m \<notin> active_of oid rows" using active_key [OF assms(1)] by simp
    with create new show ?thesis by (auto simp: active_add) (simp add: add_row_def)
  next
    case (wake r)
    then have "m \<notin> active_of oid rows" using active_key [OF assms(1)] by simp
    with wake u others show ?thesis by (simp add: active_upd)
  next
    case (keep r)
    then have "m \<in> active_of oid rows" using active_key [OF assms(1)] by simp
    with keep assms(1) show ?thesis by auto
  qed
  then show "keys_distinct om_key rows'" "active_of oid rows' = insert m (active_of oid rows)"
    "newly' = newly @ (if m \<in> active_of oid rows then [] else [m])"
    "filter (\<lambda>r. om_order r \<noteq> oid) rows' = filter (\<lambda>r. om_order r \<noteq> oid) rows" "om_key ` set rows \<subseteq> om_key ` set rows'"
    by simp_all
qed

lemma assign_all_effect:
  assumes "keys_distinct om_key rows" and "fold (assign_one oid admin) ms (rows, newly) = (rows', newly')" and "distinct ms"
  shows "keys_distinct om_key rows' \<and> active_of oid rows' = active_of oid rows \<union> set ms \<and>
    newly' = newly @ filter (\<lambda>m. m \<notin> active_of oid rows) ms \<and>
    filter (\<lambda>r. om_order r \<noteq> oid) rows' = filter (\<lambda>r. om_order r \<noteq> oid) rows \<and> om_key ` set rows \<subseteq> om_key ` set rows'"
  using assms
proof (induction ms arbitrary: rows newly)
  case (Cons m ms)
  obtain rows1 newly1 where one: "assign_one oid admin m (rows, newly) = (rows1, newly1)" by (cases "assign_one oid admin m (rows, newly)")
  note E = assign_one_effect [OF Cons.prems(1) one]
  have "filter (\<lambda>x. x \<notin> insert m (active_of oid rows)) ms = filter (\<lambda>x. x \<notin> active_of oid rows) ms"
    using Cons.prems(3) by (intro filter_cong) auto
  moreover have "fold (assign_one oid admin) ms (rows1, newly1) = (rows', newly')" "distinct ms" "m \<notin> set ms"
    using Cons.prems(2,3) one by simp_all
  ultimately show ?case
    using Cons.IH [OF E(1), of newly1] E(2-4) subset_trans [OF E(5)] by (simp add: insert_commute)
qed simp

text \<open>C17: Assigning masters replaces the selection: afterwards exactly the wanted masters are
  active on the order, the masters reported as newly assigned (and notified) are those who
  were not active before, no row is deleted and no other order is touched.\<close>

theorem assignment_replaces_set:
  assumes "keys_distinct om_key rows" and "distinct all_masters" and "sync_related_set all_masters oid wanted admin rows = (rows', newly)"
    and "om_master ` set rows \<subseteq> set all_masters" and "set wanted \<subseteq> set all_masters"
  shows "active_of oid rows' = set wanted \<and> set newly = set wanted - active_of oid rows \<and> distinct newly \<and>
    filter (\<lambda>r. om_order r \<noteq> oid) rows' = filter (\<lambda>r. om_order r \<noteq> oid) rows \<and>
    om_key ` set rows \<subseteq> om_key ` set rows' \<and> keys_distinct om_key rows'"
proof -
  let ?rows = "deactivate_unwanted oid wanted rows"
  let ?ms = "filter (\<lambda>m. m \<in> set wanted) all_masters"
  have keys: "keys_distinct om_key ?rows" "om_key ` set ?rows = om_key ` set rows"
    using assms(1) keys_distinct_same [OF keys_deactivate] keys_deactivate [of oid wanted rows] by (auto simp flip: set_map)
  have E: "keys_distinct om_key rows' \<and> active_of oid rows' = active_of oid ?rows \<union> set ?ms \<and>
    newly = [] @ filter (\<lambda>m. m \<notin> active_of oid ?rows) ?ms \<and>
    filter (\<lambda>r. om_order r \<noteq> oid) rows' = filter (\<lambda>r. om_order r \<noteq> oid) ?rows \<and> om_key ` set ?rows \<subseteq> om_key ` set rows'"
    using assms(2,3) by (intro assign_all_effect [OF keys(1)]) (simp_all add: sync_related_set_def)
  with assms(2,5) keys(2) show ?thesis
    by (auto simp: active_deactivate rows_of_others_deactivate)
qed

definition example_assignment :: "order_master list" where
  "example_assignment = [\<lparr>om_order = 1, om_master = 7, om_assigned_by = None, has_accepted = True, om_active = True\<rparr>,
     \<lparr>om_order = 1, om_master = 8, om_assigned_by = None, has_accepted = False, om_active = False\<rparr>,
     \<lparr>om_order = 2, om_master = 7, om_assigned_by = None, has_accepted = False, om_active = True\<rparr>]"

theorem assignment_replaces_set_witness:
  "\<exists>rows' newly. sync_related_set [6, 7, 8, 9] 1 [8, 9] None example_assignment = (rows', newly) \<and>
     active_of 1 rows' = {8, 9} \<and> set newly = {8, 9}"
proof -
  obtain rows' newly where r: "sync_related_set [6, 7, 8, 9] 1 [8, 9] None example_assignment = (rows', newly)"
    by (cases "sync_related_set [6, 7, 8, 9] 1 [8, 9] None example_assignment")
  have "active_of 1 example_assignment = {7}" by (auto simp: active_of_def example_assignment_def)
  with assignment_replaces_set [OF _ _ r] r show ?thesis
    by (simp add: example_assignment_def keys_distinct_def om_key_def)
qed

section \<open>Notifications\<close>

lemma dict_keys_distinct: "distinct acc \<Longrightarrow> distinct (dict_keys acc ms) \<and> set (dict_keys acc ms) = set acc \<union> set ms"
  by (induction acc ms rule: dict_keys.induct) auto

definition notified_masters :: "event list \<Rightarrow> row_id list" where
  "notified_masters evs = concat (map (\<lambda>ev. case ev of NotifyMaster m t b oid st \<Rightarrow> [m] | _ \<Rightarrow> []) evs)"

definition notified_clients :: "event list \<Rightarrow> row_id list" where
  "notified_clients evs = concat (map (\<lambda>ev. case ev of NotifyClient c t b oid st \<Rightarrow> [c] | _ \<Rightarrow> []) evs)"

lemma notified_append [simp]:
  "notified_masters (xs @ ys) = notified_masters xs @ notified_masters ys"
  "notified_clients (xs @ ys) = notified_clients xs @ notified_clients ys"
  by (simp_all add: notified_masters_def notified_clients_def)

lemma notified_map [simp]:
  "notified_masters (map (\<lambda>m. NotifyMaster m t b oid st) ms) = ms"
  "notified_clients (map (\<lambda>m. NotifyMaster m t b oid st) ms) = []"
  by (induction ms) (auto simp: notified_masters_def notified_clients_def)

lemma outbox_notify:
  "\<exists>t b mt r. outbox (notify_status_change ord s) = outbox s @
     NotifyClient (o_client ord) t b (o_id ord) (o_status ord) #
     map (\<lambda>m. NotifyMaster m mt r (o_id ord) (o_status ord)) (active_masters ord s)"
  by (auto simp: notify_status_change_def Let_def case_prod_beta)

lemma notified_Cons [simp]:
  "notified_clients (NotifyClient c t b x st # evs) = c # notified_clients evs"
  "notified_masters (NotifyClient c t b x st # evs) = notified_masters evs"
  "notified_clients (DashboardEvent k x # evs) = notified_clients evs"
  "notified_masters (DashboardEvent k x # evs) = notified_masters evs"
  "notified_clients [] = []" "notified_masters [] = []"
  by (simp_all add: notified_clients_def notified_masters_def)

text \<open>Saving an order with a new status informs its client exactly once and every master who
  leads it or is actively assigned to it exactly once, and nobody else; saving it with the
  status unchanged notifies nobody.\<close>

theorem status_change_notifies_each_once:
  assumes "outbox (save_order old new s) = outbox s @ evs"
  shows "if o_status new = o_status old then notified_clients evs = [] \<and> notified_masters evs = []
    else notified_clients evs = [o_client new] \<and> distinct (notified_masters evs) \<and>
      set (notified_masters evs) = (case o_master new of None \<Rightarrow> {} | Some m \<Rightarrow> {m}) \<union> active_of (o_id new) (order_masters s)"
proof -
  have am: "distinct (active_masters new s') \<and> set (active_masters new s') =
      (case o_master new of None \<Rightarrow> {} | Some m \<Rightarrow> {m}) \<union> active_of (o_id new) (order_masters s)"
    if "order_masters s' = order_masters s" for s'
    using dict_keys_distinct [of "case o_master new of None \<Rightarrow> [] | Some m \<Rightarrow> [m]"] that
    by (auto simp: active_masters_def active_of_def split: option.split)
  show ?thesis
  proof (cases "o_status new = o_status old")
    case True
    with assms show ?thesis by (auto simp: save_order_def sync_order_status_def Let_def split: if_splits)
  next
    case False
    let ?s1 = "send [DashboardEvent ''order.status_changed'' (o_id new)] (ensure_tracking (o_id new)
        (s\<lparr>orders := upd_row o_id (o_id old) (\<lambda>_. new) (orders s)\<rparr>))"
    obtain t b mt r where n: "outbox (notify_status_change new ?s1) = outbox ?s1 @
        NotifyClient (o_client new) t b (o_id new) (o_status new) #
        map (\<lambda>m. NotifyMaster m mt r (o_id new) (o_status new)) (active_masters new ?s1)"
      using outbox_notify by blast
    define tail where "tail = (if o_master old \<noteq> None \<and> o_master old \<noteq> o_master new
        then [DashboardEvent ''order.master_changed'' (o_id new)] else [])"
    have "outbox (save_order old new s) = outbox (notify_status_change new ?s1) @ tail"
      using False by (auto simp: save_order_def sync_order_status_def Let_def tail_def)
    with assms n have "evs = DashboardEvent ''order.status_changed'' (o_id new) #
        NotifyClient (o_client new) t b (o_id new) (o_status new) #
        map (\<lambda>m. NotifyMaster m mt r (o_id new) (o_status new)) (active_masters new ?s1) @ tail"
      by simp
    moreover have "notified_clients tail = []" "notified_masters tail = []" by (simp_all add: tail_def)
    ultimately show ?thesis using False am [of ?s1] by simp
  qed
qed

theorem status_change_notifies_each_once_witness:
  "\<exists>evs. outbox checked_sys = outbox accepted_sys @ evs \<and> notified_clients evs = [4] \<and> set (notified_masters evs) = {7, 8}"
proof -
  let ?old = "hd (orders accepted_sys)"
  let ?new = "hd (orders checked_sys)"
  let ?evs = "drop (length (outbox accepted_sys)) (outbox (save_order ?old ?new accepted_sys))"
  have e: "outbox (save_order ?old ?new accepted_sys) = outbox accepted_sys @ ?evs" "outbox checked_sys = outbox accepted_sys @ ?evs"
    by code_simp+
  have o: "o_status ?old = ACCEPTED" "o_status ?new = AWAITING_PAYMENT" "o_client ?new = 4" "o_master ?new = Some 7" "o_id ?new = 1"
    by code_simp+
  have "map (\<lambda>r. (om_order r, om_master r, om_active r)) (order_masters accepted_sys) = [(1, 7, True), (1, 8, True)]"
    by code_simp
  then have "active_of 1 (order_masters accepted_sys) = {7, 8}"
    by (auto simp: active_of_def map_eq_Cons_conv)
  with status_change_notifies_each_once [OF e(1)] e(2) o show ?thesis by auto
qed

section \<open>The schedule\<close>

text \<open>Every write through the internal API that does not carry the schedule overwrites it: a
  status change that only sends the new status moves the order to the current date and
  time.\<close>

theorem internal_patch_resets_schedule:
  assumes "InternalOrderWriteSerializer_update e pk w s = Inr s'" and "iw_scheduled_at w = Absent"
    and "iw_date w = Absent" and "iw_time w = Absent"
  shows "\<exists>new. get_order pk s' = Some new \<and> scheduled_date new = env_today e \<and> scheduled_time new = env_time e"
proof -
  from assms(1) obtain ord p where ord: "get_order pk s = Some ord"
    and p: "InternalOrderWriteSerializer_validate e (Some ord) w = Inr p"
    and s': "s' = save_order ord (recalculate_total (case iw_price w of None \<Rightarrow> patch_order p ord
        | Some a \<Rightarrow> (patch_order p ord)\<lparr>service_fee := a, total_amount := a\<rparr>)) s"
    by (auto simp: InternalOrderWriteSerializer_update_def Let_def)
  have "op_date p = Some (env_today e)" "op_time p = Some (env_time e)"
    using p assms(2-4) by (auto simp: InternalOrderWriteSerializer_validate_def internal_schedule_def split: option.splits if_splits)
  then show ?thesis
    using ord get_order_id [OF ord]
    by (auto simp: s' patch_order_def recalculate_total_def sent_or_def get_order_save split: option.splits)
qed

definition status_only :: internal_write where
  "status_only = \<lparr>iw_client = None, iw_master = None, iw_service = None, iw_status = Some ''on_way'', iw_payment_type = None,
     iw_price = None, iw_scheduled_at = Absent, iw_date = Absent, iw_time = Absent, iw_address = None, iw_address_text = None,
     iw_lat = None, iw_lng = None, iw_note = None, iw_cancelled_reason = None, iw_cancel_reason = None, iw_rejected_reason = None\<rparr>"

theorem internal_patch_resets_schedule_witness:
  "map scheduled_date (orders accepted_sys) = [210] \<and>
   (\<exists>s' new. InternalOrderWriteSerializer_update example_env 1 status_only accepted_sys = Inr s' \<and>
     get_order 1 s' = Some new \<and> scheduled_date new = 200)"
proof -
  have "map scheduled_date (orders accepted_sys) = [210]" "\<not> isl (InternalOrderWriteSerializer_update example_env 1 status_only accepted_sys)"
    "env_today example_env = 200"
    by code_simp+
  moreover from this obtain s' where "InternalOrderWriteSerializer_update example_env 1 status_only accepted_sys = Inr s'"
    by (cases "InternalOrderWriteSerializer_update example_env 1 status_only accepted_sys") auto
  ultimately show ?thesis
    using internal_patch_resets_schedule [of example_env 1 status_only accepted_sys s'] by (auto simp: status_only_def)
qed

end
