(* ===== verification/Common.thy ===== *)
theory Common
  imports Base64_Codec
begin

text \<open>
  The helpers of \<open>src/apps/common/\<close>: phone numbers, category filters, response envelopes,
  the exception handler and pagination.

  Texts are ASCII: \<open>str.isdigit\<close> and \<open>str.lower\<close> are modelled there.
\<close>

section \<open>Phone numbers\<close>

definition ascii_digit :: "char \<Rightarrow> bool" where
  "ascii_digit c = (48 \<le> byte c \<and> byte c \<le> 57)"

definition digits_of :: "string \<Rightarrow> string" where
  "digits_of s = filter ascii_digit s"

definition normalize_phone :: "string \<Rightarrow> string" where
  "normalize_phone v = (let digits = digits_of v in if digits = [] then [] else CHR ''+'' # digits)"

lemma digits_of_idem [simp]: "digits_of (digits_of s) = digits_of s"
  by (simp add: digits_of_def)

lemma digits_of_normalize [simp]: "digits_of (normalize_phone s) = digits_of s"
proof -
  have "\<not> ascii_digit (CHR ''+'')" by (simp add: ascii_digit_def)
  then have "digits_of (CHR ''+'' # digits_of s) = digits_of s" by (simp add: digits_of_def)
  then show ?thesis by (simp add: normalize_phone_def Let_def digits_of_def)
qed

lemma normalize_eq_iff: "normalize_phone s = normalize_phone t \<longleftrightarrow> digits_of s = digits_of t"
  by (metis digits_of_normalize normalize_phone_def)

text \<open>The address the SMS gateway gets, and the form in which it is logged.\<close>

definition eskiz_phone :: "string \<Rightarrow> string" where
  "eskiz_phone phone = digits_of phone"

definition mask_phone :: "string \<Rightarrow> string" where
  "mask_phone phone =
    (let digits = eskiz_phone phone in
     if digits = [] then [] else replicate (length digits - 4) (CHR ''*'') @ drop (length digits - 4) digits)"

text \<open>Two spellings of a number reach the same handset exactly when they share the key
  under which cooldowns, codes and accounts are kept; normalizing twice changes nothing;
  and a logged number shows its last four digits at most.\<close>

theorem phone_key_is_handset:
  "(normalize_phone s = normalize_phone t) = (eskiz_phone s = eskiz_phone t) \<and>
   normalize_phone (normalize_phone s) = normalize_phone s \<and>
   length (mask_phone s) = length (eskiz_phone s) \<and> length (filter ascii_digit (mask_phone s)) \<le> 4"
proof -
  have "normalize_phone (normalize_phone s) = normalize_phone s"
    by (simp add: normalize_eq_iff)
  moreover have "length (mask_phone s) = length (eskiz_phone s)"
    by (simp add: mask_phone_def Let_def)
  moreover have "length (filter ascii_digit (mask_phone s)) \<le> 4"
  proof -
    have "filter ascii_digit (replicate n (CHR ''*'')) = []" for n by (simp add: ascii_digit_def)
    moreover have "length (filter ascii_digit (drop (length d - 4) d)) \<le> 4" for d
      using length_filter_le [of ascii_digit "drop (length d - 4) d"] by simp
    ultimately show ?thesis by (simp add: mask_phone_def Let_def)
  qed
  ultimately show ?thesis by (simp add: normalize_eq_iff eskiz_phone_def)
qed

section \<open>Query parameters\<close>

definition to_lower :: "char \<Rightarrow> char" where
  "to_lower c = (if 65 \<le> byte c \<and> byte c \<le> 90 then char_of (byte c + 32) else c)"

definition to_upper :: "char \<Rightarrow> char" where
  "to_upper c = (if 97 \<le> byte c \<and> byte c \<le> 122 then char_of (byte c - 32) else c)"

definition lower :: "string \<Rightarrow> string" where
  "lower s = map to_lower s"

text \<open>A database lookup \<open>__icontains\<close>.\<close>

fun is_prefix :: "string \<Rightarrow> string \<Rightarrow> bool" where
  "is_prefix [] s = True"
| "is_prefix (c # cs) [] = False"
| "is_prefix (c # cs) (d # ds) = (c = d \<and> is_prefix cs ds)"

fun contains :: "string \<Rightarrow> string \<Rightarrow> bool" where
  "contains needle [] = (needle = [])"
| "contains needle (c # cs) = (is_prefix needle (c # cs) \<or> contains needle cs)"

definition icontains :: "string \<Rightarrow> string \<Rightarrow> bool" where
  "icontains hay needle = contains (lower needle) (lower hay)"

type_synonym query = "(string \<times> string) list"

definition param :: "query \<Rightarrow> string \<Rightarrow> string" where
  "param q k = (case map_of q k of None \<Rightarrow> [] | Some v \<Rightarrow> v)"

definition CATEGORY_ALL_SENTINELS :: "string list" where
  "CATEGORY_ALL_SENTINELS = [''all'', ''hammasi'', ''barchasi'']"

definition category_param :: "query \<Rightarrow> string option" where
  "category_param q =
    (let v = (if param q ''category'' \<noteq> [] then param q ''category''
              else if param q ''category_id'' \<noteq> [] then param q ''category_id''
              else param q ''category_slug'')
     in if v = [] \<or> lower v \<in> set CATEGORY_ALL_SENTINELS then None else Some v)"

text \<open>\<open>uuid_of\<close> reads a UUID and gives the key it stands for; \<open>cat\<close> and \<open>slug\<close> read the category of a row.\<close>

definition filter_by_category ::
  "(string \<Rightarrow> row_id option) \<Rightarrow> query \<Rightarrow> ('r \<Rightarrow> row_id) \<Rightarrow> ('r \<Rightarrow> string) \<Rightarrow> 'r list \<Rightarrow> 'r list" where
  "filter_by_category uuid_of q cat slug rows =
    (case category_param q of
       None \<Rightarrow> rows
     | Some v \<Rightarrow> (case uuid_of v of
                   Some k \<Rightarrow> filter (\<lambda>r. cat r = k) rows
                 | None \<Rightarrow> filter (\<lambda>r. slug r = v) rows))"

section \<open>Responses\<close>

text \<open>What a view hands to the renderer; \<open>'d\<close> stands for serialized data.\<close>

datatype 'd body_shape = PlainDict "string list" 'd | PlainList 'd | NoBody

datatype 'd envelope =
    Untouched
  | Page 'd
  | Success string 'd

definition finalize_response :: "bool \<Rightarrow> string \<Rightarrow> 'd body_shape \<Rightarrow> 'd envelope" where
  "finalize_response is_exception msg b =
    (if is_exception then Untouched
     else case b of
       NoBody \<Rightarrow> Untouched
     | PlainList d \<Rightarrow> Success msg d
     | PlainDict keys d \<Rightarrow>
         if ''success'' \<in> set keys then Untouched
         else if {''count'', ''next'', ''previous'', ''results''} \<subseteq> set keys then Page d
         else Success msg d)"

text \<open>The error body; \<open>detail\<close> is the text under the key \<open>detail\<close> when the data is a dictionary that has one.\<close>

definition homex_message :: "bool \<Rightarrow> string option \<Rightarrow> string \<Rightarrow> string" where
  "homex_message is_dict detail text =
    (if is_dict then (case detail of Some d \<Rightarrow> d | None \<Rightarrow> ''Validation error'') else text)"

section \<open>Pagination\<close>

definition page_size :: nat where "page_size = 10"

definition max_page_size :: nat where "max_page_size = 100"

text \<open>The size a request asks for: positive, cut to the maximum, the default for anything else.\<close>

definition get_page_size :: "int option \<Rightarrow> nat" where
  "get_page_size requested =
    (case requested of
       None \<Rightarrow> page_size
     | Some n \<Rightarrow> if n \<le> 0 then page_size else min (nat n) max_page_size)"

definition num_pages :: "nat \<Rightarrow> nat \<Rightarrow> nat" where
  "num_pages count sz = max 1 ((count + sz - 1) div sz)"

definition page_rows :: "nat \<Rightarrow> nat \<Rightarrow> 'r list \<Rightarrow> 'r list res" where
  "page_rows sz n rows =
    (if n < 1 \<or> num_pages (length rows) sz < n then Inl (NotFound ''Invalid page.'')
     else Inr (take sz (drop ((n - 1) * sz) rows)))"

definition has_next :: "nat \<Rightarrow> nat \<Rightarrow> nat \<Rightarrow> bool" where
  "has_next count sz n = (n < num_pages count sz)"

lemma get_page_size_bounds: "1 \<le> get_page_size r \<and> get_page_size r \<le> 100"
  by (auto simp: get_page_size_def page_size_def max_page_size_def split: option.splits)

lemma pages_concat: "concat (map (\<lambda>i. take sz (drop (i * sz) rows)) [0..<k]) = take (k * sz) rows"
proof (induction k)
  case (Suc k)
  have "take (k * sz) rows @ take sz (drop (k * sz) rows) = take (k * sz + sz) rows"
    by (simp add: take_add)
  with Suc show ?case by (simp add: add.commute)
qed simp

lemma num_pages_enough: "0 < sz \<Longrightarrow> count \<le> num_pages count sz * sz"
proof -
  assume s: "0 < sz"
  have "count \<le> (count + sz - 1) div sz * sz"
    using s div_mult_mod_eq [of "count + sz - 1" sz] mod_less_divisor [OF s, of "count + sz - 1"] by linarith
  also have "\<dots> \<le> num_pages count sz * sz" by (simp add: num_pages_def)
  finally show ?thesis .
qed

text \<open>Paging is exact for every page size a request can ask for: the size lies between 1 and
  100, walking from the first page along the next links shows every row once and in order,
  and the page behind the last is refused.\<close>

theorem pages_cover_rows:
  fixes rows :: "'r list"
  shows "1 \<le> get_page_size r \<and> get_page_size r \<le> 100 \<and>
    (\<exists>pages. map (\<lambda>i. page_rows (get_page_size r) (Suc i) rows) [0..<num_pages (length rows) (get_page_size r)] = map Inr pages \<and> concat pages = rows \<and>
       list_all (\<lambda>p. length p \<le> get_page_size r) pages) \<and>
    page_rows (get_page_size r) (Suc (num_pages (length rows) (get_page_size r))) rows = Inl (NotFound ''Invalid page.'') \<and>
    has_next (length rows) (get_page_size r) i = (i < num_pages (length rows) (get_page_size r))"
proof -
  let ?s = "get_page_size r"
  let ?n = "num_pages (length rows) ?s"
  have s: "1 \<le> ?s \<and> ?s \<le> 100" by (rule get_page_size_bounds)
  let ?pages = "map (\<lambda>i. take ?s (drop (i * ?s) rows)) [0..<?n]"
  have "map (\<lambda>i. page_rows ?s (Suc i) rows) [0..<?n] = map Inr ?pages"
    by (simp add: page_rows_def)
  moreover have "concat ?pages = rows"
    using num_pages_enough [of ?s "length rows"] s by (simp add: pages_concat)
  moreover have "list_all (\<lambda>p. length p \<le> ?s) ?pages" by (simp add: list_all_iff)
  moreover have "page_rows ?s (Suc ?n) rows = Inl (NotFound ''Invalid page.'')" "has_next (length rows) ?s i = (i < ?n)"
    by (simp_all add: page_rows_def has_next_def)
  ultimately show ?thesis using s by blast
qed

end
