(* ===== verification/Accounts.thy ===== *)
theory Accounts
  imports Common
begin

text \<open>
  Clients and masters, their sign-in and their tokens: \<open>src/apps/accounts/\<close>.

  \<^item> State: \<open>accounts_db\<close>, the tables of clients, masters, one-time codes and push devices,
    and the entries of the cache (value and expiry per phone number).
  \<^item> Serializers whose \<open>validate\<close> writes before it raises return the new state with the
    error.
  \<^item> Password hashing and the signing of tokens are third-party code: parameters of the
    definitions that use them, with their documented laws as hypotheses.
\<close>

section \<open>Data\<close>

datatype language = LANG_UZ | LANG_RU | LANG_EN

datatype approval_status = PENDING_APPROVAL | APPROVED | REJECTED_APPROVAL

datatype master_level = USTA | KATTA_USTA

datatype role = RoleClient | RoleMaster | RoleAdmin | RoleOther string

record client =
  cl_id :: row_id
  cl_phone :: string
  cl_first_name :: string
  cl_last_name :: string
  cl_language :: language
  cl_notifications :: bool
  cl_push :: bool
  cl_fcm_token :: string
  cl_active :: bool

record master =
  ms_id :: row_id
  ms_phone :: string
  ms_first_name :: string
  ms_last_name :: string
  ms_password :: string
  specialization :: string
  daraja :: "master_level option"
  ms_address :: string
  approval_status :: approval_status
  approved_at :: "instant option"
  ms_rejected_reason :: string
  is_online :: bool
  is_available :: bool
  is_blocked :: bool
  blocked_at :: "instant option"
  block_reason :: string
  ms_lat :: "int option"
  ms_lng :: "int option"
  last_location_at :: "instant option"
  ms_language :: language
  ms_notifications :: bool
  ms_push :: bool
  ms_fcm_token :: string
  ms_active :: bool

record otp_record =
  otp_id :: row_id
  otp_phone :: string
  otp_code :: string
  is_used :: bool
  otp_attempts :: nat
  expires_at :: instant

record fcm_device =
  fd_id :: row_id
  fd_role :: role
  fd_client :: "row_id option"
  fd_master :: "row_id option"
  fd_token :: string
  fd_platform :: string
  fd_active :: bool

record staff_user =
  su_id :: row_id
  su_active :: bool
  su_staff :: bool

record accounts_db =
  clients :: "client list"
  masters :: "master list"
  staff :: "staff_user list"
  otp_records :: "otp_record list"
  fcm_devices :: "fcm_device list"
  otp_cache :: "string \<Rightarrow> (string \<times> nat \<times> instant) option"
  otp_cooldown :: "string \<Rightarrow> instant option"
  otp_block :: "string \<Rightarrow> instant option"
  sms_log :: "(string \<times> instant) list"

record otp_settings =
  PLAYMARKET_TEST_PHONE :: string
  PLAYMARKET_TEST_OTP :: string

definition OTP_TTL_MS :: int where "OTP_TTL_MS = 120000"

definition OTP_SEND_COOLDOWN_MS :: int where "OTP_SEND_COOLDOWN_MS = 180000"

definition OTP_MAX_ATTEMPTS :: nat where "OTP_MAX_ATTEMPTS = 5"

definition OTP_BLOCK_MS :: int where "OTP_BLOCK_MS = 900000"

section \<open>Masters\<close>

definition status_fields :: "master \<Rightarrow> bool \<times> bool \<times> bool \<times> bool \<times> approval_status" where
  "status_fields m = (ms_active m, is_online m, is_available m, is_blocked m, approval_status m)"

definition is_approved :: "master \<Rightarrow> bool" where
  "is_approved m = (approval_status m = APPROVED)"

definition full_name :: "string \<Rightarrow> string \<Rightarrow> string" where
  "full_name first_name last_name = strip (first_name @ '' '' @ last_name)"

definition block_master :: "instant \<Rightarrow> string \<Rightarrow> master \<Rightarrow> master" where
  "block_master now reason m = m\<lparr>is_blocked := True, ms_active := False, is_available := False, is_online := False,
     block_reason := reason, blocked_at := Some now\<rparr>"

definition unblock_master :: "master \<Rightarrow> master" where
  "unblock_master m = m\<lparr>is_blocked := False, ms_active := True, block_reason := [], blocked_at := None\<rparr>"

definition hash_prefixes :: "string list" where
  "hash_prefixes = [''pbkdf2_'', ''argon2$'', ''bcrypt'']"

text \<open>\<open>Master.save\<close>: a password that does not look hashed is hashed.\<close>

definition save_password :: "(string \<Rightarrow> string) \<Rightarrow> master \<Rightarrow> master" where
  "save_password mk m =
    (if ms_password m \<noteq> [] \<and> \<not> list_ex (\<lambda>p. is_prefix p (ms_password m)) hash_prefixes
     then m\<lparr>ms_password := mk (ms_password m)\<rparr> else m)"

text \<open>The receiver of \<open>post_save\<close>: does saving broadcast the master's status?\<close>

definition sync_master_status :: "master option \<Rightarrow> master \<Rightarrow> bool" where
  "sync_master_status loaded saved =
    (case loaded of None \<Rightarrow> False | Some old \<Rightarrow> status_fields old \<noteq> status_fields saved)"

definition MasterLogin_validate :: "(string \<Rightarrow> string \<Rightarrow> bool) \<Rightarrow> string \<Rightarrow> string \<Rightarrow> accounts_db \<Rightarrow> master res" where
  "MasterLogin_validate check phone password db =
    (case get_row ms_phone phone (masters db) of
       None \<Rightarrow> Inl (ValidationError ''Telefon yoki parol noto'g'ri'')
     | Some m \<Rightarrow>
         if approval_status m = PENDING_APPROVAL then Inl (ValidationError ''Arizangiz admin tasdig'ini kutmoqda'')
         else if approval_status m = REJECTED_APPROVAL
         then Inl (ValidationError (if ms_rejected_reason m \<noteq> [] then ms_rejected_reason m else ''Arizangiz admin tomonidan rad etilgan''))
         else if \<not> ms_active m then Inl (ValidationError ''Master akkaunti faol emas'')
         else if ms_password m = [] then Inl (ValidationError ''Admin hali login parol bermagan'')
         else if \<not> check password (ms_password m) then Inl (ValidationError ''Telefon yoki parol noto'g'ri'')
         else Inr m)"

record registration =
  rg_first_name :: string
  rg_last_name :: "string option"
  rg_phone :: string
  rg_specialization :: "string option"

definition blank_master :: "registration \<Rightarrow> row_id \<Rightarrow> master" where
  "blank_master rg k = \<lparr>ms_id = k, ms_phone = rg_phone rg, ms_first_name = rg_first_name rg,
     ms_last_name = (case rg_last_name rg of None \<Rightarrow> [] | Some v \<Rightarrow> v), ms_password = [],
     specialization = (case rg_specialization rg of None \<Rightarrow> [] | Some v \<Rightarrow> v), daraja = None, ms_address = [],
     approval_status = PENDING_APPROVAL, approved_at = None, ms_rejected_reason = [], is_online = False, is_available = True,
     is_blocked = False, blocked_at = None, block_reason = [], ms_lat = None, ms_lng = None, last_location_at = None,
     ms_language = LANG_UZ, ms_notifications = True, ms_push = True, ms_fcm_token = [], ms_active = False\<rparr>"

definition reapply :: "registration \<Rightarrow> master \<Rightarrow> master" where
  "reapply rg m = m\<lparr>ms_first_name := rg_first_name rg, ms_last_name := sent_or (rg_last_name rg) (ms_last_name m),
     specialization := sent_or (rg_specialization rg) (specialization m), approval_status := PENDING_APPROVAL,
     ms_active := False, ms_password := [], ms_rejected_reason := [], approved_at := None\<rparr>"

definition MasterRegister_validate_phone :: "string \<Rightarrow> accounts_db \<Rightarrow> unit res" where
  "MasterRegister_validate_phone phone db =
    (case get_row ms_phone phone (masters db) of
       Some m \<Rightarrow> if approval_status m = APPROVED
                 then Inl (ValidationError ''Bu telefon raqam bilan master allaqachon mavjud'') else Inr ()
     | None \<Rightarrow> Inr ())"

definition MasterRegister_create :: "registration \<Rightarrow> accounts_db \<Rightarrow> accounts_db" where
  "MasterRegister_create rg db =
    (case get_row ms_phone (rg_phone rg) (masters db) of
       Some m \<Rightarrow> db\<lparr>masters := upd_row ms_phone (rg_phone rg) (reapply rg) (masters db)\<rparr>
     | None \<Rightarrow> db\<lparr>masters := add_row (blank_master rg (fresh_id ms_id (masters db))) (masters db)\<rparr>)"

text \<open>The column is unique, and the model serializer adds the check of uniqueness to the field: it
  runs before \<open>validate_phone\<close>.\<close>

definition unique_phone :: "string \<Rightarrow> accounts_db \<Rightarrow> unit res" where
  "unique_phone phone db = guardE (get_row ms_phone phone (masters db) = None) (ValidationError ''phone: unique'')"

definition MasterRegisterView_post :: "registration \<Rightarrow> accounts_db \<Rightarrow> accounts_db res" where
  "MasterRegisterView_post rg db =
    bindE (unique_phone (rg_phone rg) db) (\<lambda>_.
    bindE (MasterRegister_validate_phone (rg_phone rg) db) (\<lambda>_.
      Inr (MasterRegister_create rg db)))"

section \<open>One-time codes\<close>

text \<open>\<open>cache.get\<close>: an entry counts until its expiry.\<close>

definition live :: "instant \<Rightarrow> instant option \<Rightarrow> bool" where
  "live now ex = (case ex of None \<Rightarrow> False | Some t \<Rightarrow> now < t)"

definition is_test_phone :: "otp_settings \<Rightarrow> string \<Rightarrow> bool" where
  "is_test_phone cfg phone =
    (let configured = normalize_phone (PLAYMARKET_TEST_PHONE cfg)
     in configured \<noteq> [] \<and> PLAYMARKET_TEST_OTP cfg \<noteq> [] \<and> phone = configured)"

text \<open>The code of six digits for the number drawn.\<close>

definition six_digits :: "nat \<Rightarrow> string" where
  "six_digits n = map (\<lambda>k. digit_char (n div 10 ^ k mod 10)) [5, 4, 3, 2, 1, 0]"

definition SendOTP_validate_phone :: "otp_settings \<Rightarrow> instant \<Rightarrow> string \<Rightarrow> accounts_db \<Rightarrow> string res" where
  "SendOTP_validate_phone cfg now phone db =
    (let v = normalize_phone phone in
     if is_test_phone cfg v then Inr v
     else if live now (otp_cooldown db v) then Inl (ValidationError ''OTP so'rovi uchun 3 daqiqa kuting'')
     else Inr v)"

definition SendOTP_create :: "otp_settings \<Rightarrow> instant \<Rightarrow> nat \<Rightarrow> string \<Rightarrow> accounts_db \<Rightarrow> accounts_db" where
  "SendOTP_create cfg now drawn v db =
    (if is_test_phone cfg v then db
     else let code = six_digits drawn in
       db\<lparr>otp_records := add_row \<lparr>otp_id = fresh_id otp_id (otp_records db), otp_phone = v, otp_code = code, is_used = False,
            otp_attempts = 0, expires_at = now + OTP_TTL_MS\<rparr> (otp_records db),
          otp_cache := (otp_cache db)(v := Some (code, 0, now + OTP_TTL_MS)),
          otp_cooldown := (otp_cooldown db)(v := Some (now + OTP_SEND_COOLDOWN_MS)),
          sms_log := sms_log db @ [(v, now)]\<rparr>)"

definition SendOTPView_post :: "otp_settings \<Rightarrow> instant \<Rightarrow> nat \<Rightarrow> string \<Rightarrow> accounts_db \<Rightarrow> accounts_db res" where
  "SendOTPView_post cfg now drawn phone db =
    bindE (SendOTP_validate_phone cfg now phone db) (\<lambda>v. Inr (SendOTP_create cfg now drawn v db))"

definition unused_of :: "string \<Rightarrow> accounts_db \<Rightarrow> otp_record list" where
  "unused_of phone db = filter (\<lambda>r. otp_phone r = phone \<and> \<not> is_used r) (otp_records db)"

definition latest_unused :: "string \<Rightarrow> accounts_db \<Rightarrow> otp_record option" where
  "latest_unused phone db = (if unused_of phone db = [] then None else Some (last (unused_of phone db)))"

definition cached_code :: "instant \<Rightarrow> string \<Rightarrow> accounts_db \<Rightarrow> (string \<times> nat) option" where
  "cached_code now phone db =
    (case otp_cache db phone of None \<Rightarrow> None | Some (code, n, ex) \<Rightarrow> if now < ex then Some (code, n) else None)"

definition wrong_attempt :: "instant \<Rightarrow> string \<Rightarrow> string \<Rightarrow> nat \<Rightarrow> row_id \<Rightarrow> accounts_db \<Rightarrow> accounts_db" where
  "wrong_attempt now phone code attempts rid db =
    db\<lparr>otp_cache := (otp_cache db)(phone := Some (code, attempts, now + OTP_TTL_MS)),
       otp_records := upd_row otp_id rid (\<lambda>r. r\<lparr>otp_attempts := attempts\<rparr>) (otp_records db),
       otp_block := (if OTP_MAX_ATTEMPTS \<le> attempts
                     then (otp_block db)(phone := Some (now + OTP_BLOCK_MS)) else otp_block db)\<rparr>"

definition VerifyOTP_validate ::
  "otp_settings \<Rightarrow> instant \<Rightarrow> string \<Rightarrow> string \<Rightarrow> accounts_db \<Rightarrow> accounts_db \<times> (otp_record option) res" where
  "VerifyOTP_validate cfg now phone given db =
    (if length given \<noteq> 6 then (db, Inl (ValidationError ''otp_code''))
     else if is_test_phone cfg phone
     then (db, if given \<noteq> PLAYMARKET_TEST_OTP cfg then Inl (ValidationError ''OTP kodi noto'g'ri'') else Inr None)
     else if live now (otp_block db phone) then (db, Inl (ValidationError ''Ko'p noto'g'ri urinish. 15 daqiqa kuting''))
     else
       (case (cached_code now phone db, latest_unused phone db) of
          (Some (code, n), Some r) \<Rightarrow>
            if expires_at r < now then (db, Inl (ValidationError ''OTP muddati tugagan''))
            else if code \<noteq> given
            then (wrong_attempt now phone code (Suc n) (otp_id r) db, Inl (ValidationError ''OTP kodi noto'g'ri''))
            else (db, Inr (Some r))
        | _ \<Rightarrow> (db, Inl (ValidationError ''OTP muddati tugagan''))))"

definition new_client :: "row_id \<Rightarrow> string \<Rightarrow> client" where
  "new_client k phone = \<lparr>cl_id = k, cl_phone = phone, cl_first_name = [], cl_last_name = [], cl_language = LANG_UZ,
     cl_notifications = True, cl_push = True, cl_fcm_token = [], cl_active = True\<rparr>"

text \<open>The client a code signs in, and whether the profile still has to be filled in.\<close>

definition VerifyOTP_create :: "string \<Rightarrow> otp_record option \<Rightarrow> accounts_db \<Rightarrow> accounts_db \<times> client \<times> bool" where
  "VerifyOTP_create phone record db =
    (let db1 = (case record of None \<Rightarrow> db
                | Some r \<Rightarrow> db\<lparr>otp_records := upd_row otp_id (otp_id r) (\<lambda>r. r\<lparr>is_used := True\<rparr>) (otp_records db)\<rparr>)
     in case get_row cl_phone phone (clients db1) of
          Some c \<Rightarrow> (db1, c, cl_first_name c = [])
        | None \<Rightarrow> let c = new_client (fresh_id cl_id (clients db1)) phone
                  in (db1\<lparr>clients := add_row c (clients db1)\<rparr>, c, True))"

definition VerifyOTPView_post ::
  "otp_settings \<Rightarrow> instant \<Rightarrow> string \<Rightarrow> string \<Rightarrow> accounts_db \<Rightarrow> accounts_db \<times> (client \<times> bool) res" where
  "VerifyOTPView_post cfg now raw given db =
    (let phone = normalize_phone raw in
     case VerifyOTP_validate cfg now phone given db of
       (db1, Inl er) \<Rightarrow> (db1, Inl er)
     | (db1, Inr record) \<Rightarrow> (let (db2, c, is_new) = VerifyOTP_create phone record db1 in (db2, Inr (c, is_new))))"

section \<open>Tokens\<close>

record token =
  tk_refresh :: bool
  tk_sub :: "row_id option"
  tk_role :: role
  tk_phone :: string
  tk_exp :: instant

datatype subject = ClientSubject client | MasterSubject master | StaffSubject staff_user

definition ACCESS_TOKEN_DAYS :: int where "ACCESS_TOKEN_DAYS = 3"

definition REFRESH_TOKEN_DAYS :: int where "REFRESH_TOKEN_DAYS = 15"

definition day_ms :: int where "day_ms = 86400000"

record issued_tokens =
  access_token :: string
  refresh_token :: string
  expires_in :: int

definition issue_role_tokens :: "(token \<Rightarrow> string) \<Rightarrow> instant \<Rightarrow> row_id \<Rightarrow> string \<Rightarrow> role \<Rightarrow> issued_tokens" where
  "issue_role_tokens sign now sub phone r =
    \<lparr>access_token = sign \<lparr>tk_refresh = False, tk_sub = Some sub, tk_role = r, tk_phone = phone,
        tk_exp = now + ACCESS_TOKEN_DAYS * day_ms\<rparr>,
     refresh_token = sign \<lparr>tk_refresh = True, tk_sub = Some sub, tk_role = r, tk_phone = [],
        tk_exp = now + REFRESH_TOKEN_DAYS * day_ms\<rparr>,
     expires_in = ACCESS_TOKEN_DAYS * 24 * 60 * 60\<rparr>"

text \<open>\<open>AccessToken(...)\<close> and \<open>RefreshToken(...)\<close>: the signature, the type and the expiry are checked.\<close>

definition read_token :: "(string \<Rightarrow> token option) \<Rightarrow> bool \<Rightarrow> instant \<Rightarrow> string \<Rightarrow> token option" where
  "read_token verify refresh now t =
    (case verify t of
       None \<Rightarrow> None
     | Some tk \<Rightarrow> if tk_refresh tk = refresh \<and> now < tk_exp tk then Some tk else None)"

definition active_client :: "row_id \<Rightarrow> accounts_db \<Rightarrow> client option" where
  "active_client k db = get_row cl_id k (filter cl_active (clients db))"

definition active_master :: "row_id \<Rightarrow> accounts_db \<Rightarrow> master option" where
  "active_master k db = get_row ms_id k (filter (\<lambda>m. ms_active m \<and> approval_status m = APPROVED) (masters db))"

definition active_staff :: "row_id \<Rightarrow> accounts_db \<Rightarrow> staff_user option" where
  "active_staff k db = get_row su_id k (filter (\<lambda>u. su_active u \<and> su_staff u) (staff db))"

text \<open>The words of a text, as \<open>str.split()\<close> gives them.\<close>

fun words_acc :: "string \<Rightarrow> string \<Rightarrow> string list" where
  "words_acc w [] = (if w = [] then [] else [rev w])"
| "words_acc w (c # cs) =
    (if is_space c then (if w = [] then words_acc [] cs else rev w # words_acc [] cs) else words_acc (c # w) cs)"

definition words :: "string \<Rightarrow> string list" where
  "words s = words_acc [] s"

text \<open>REST authentication: \<open>None\<close> when the request carries no bearer token.\<close>

definition authenticate ::
  "(string \<Rightarrow> token option) \<Rightarrow> instant \<Rightarrow> string \<Rightarrow> accounts_db \<Rightarrow> (subject option) res" where
  "authenticate verify now header db =
    (case words header of
       [kw, t] \<Rightarrow>
         if kw \<noteq> ''Bearer'' then Inr None
         else
           (case read_token verify False now t of
              None \<Rightarrow> Inl (NotAuthenticated ''Invalid or expired token'')
            | Some tk \<Rightarrow>
                (case tk_sub tk of
                   None \<Rightarrow> Inl (NotAuthenticated ''Invalid token role'')
                 | Some k \<Rightarrow>
                     (case tk_role tk of
                        RoleAdmin \<Rightarrow> (case active_staff k db of
                            None \<Rightarrow> Inl (NotAuthenticated ''Admin user not found'') | Some u \<Rightarrow> Inr (Some (StaffSubject u)))
                      | RoleMaster \<Rightarrow> (case active_master k db of
                            None \<Rightarrow> Inl (NotAuthenticated ''User not found'') | Some m \<Rightarrow> Inr (Some (MasterSubject m)))
                      | RoleClient \<Rightarrow> (case active_client k db of
                            None \<Rightarrow> Inl (NotAuthenticated ''User not found'') | Some c \<Rightarrow> Inr (Some (ClientSubject c)))
                      | RoleOther _ \<Rightarrow> Inl (NotAuthenticated ''Invalid token role''))))
     | _ \<Rightarrow> Inr None)"

text \<open>WebSocket authentication.\<close>

definition get_role_user :: "(string \<Rightarrow> token option) \<Rightarrow> instant \<Rightarrow> string \<Rightarrow> accounts_db \<Rightarrow> subject option" where
  "get_role_user verify now t db =
    (case read_token verify False now t of
       None \<Rightarrow> None
     | Some tk \<Rightarrow>
         (case tk_sub tk of
            None \<Rightarrow> None
          | Some k \<Rightarrow>
              (case tk_role tk of
                 RoleAdmin \<Rightarrow> map_option StaffSubject (active_staff k db)
               | RoleMaster \<Rightarrow> map_option MasterSubject (active_master k db)
               | RoleClient \<Rightarrow> map_option ClientSubject (active_client k db)
               | RoleOther _ \<Rightarrow> None)))"

definition extract_token :: "string \<Rightarrow> query \<Rightarrow> string option" where
  "extract_token header q =
    (case words header of
       [kw, t] \<Rightarrow> if lower kw = ''bearer'' then Some t
                  else if param q ''token'' \<noteq> [] then Some (param q ''token'')
                  else if param q ''access_token'' \<noteq> [] then Some (param q ''access_token'') else None
     | _ \<Rightarrow> if param q ''token'' \<noteq> [] then Some (param q ''token'')
            else if param q ''access_token'' \<noteq> [] then Some (param q ''access_token'') else None)"

definition Refresh_create ::
  "(token \<Rightarrow> string) \<Rightarrow> (string \<Rightarrow> token option) \<Rightarrow> instant \<Rightarrow> string \<Rightarrow> accounts_db \<Rightarrow> issued_tokens res" where
  "Refresh_create sign verify now t db =
    (case read_token verify True now t of
       None \<Rightarrow> Inl (ValidationError ''refresh_token'')
     | Some tk \<Rightarrow>
         (case (tk_role tk, tk_sub tk) of
            (RoleMaster, Some k) \<Rightarrow> (case active_master k db of
                None \<Rightarrow> Inl (ValidationError ''Token user not found'')
              | Some m \<Rightarrow> Inr (issue_role_tokens sign now (ms_id m) (ms_phone m) RoleMaster))
          | (RoleClient, Some k) \<Rightarrow> (case active_client k db of
                None \<Rightarrow> Inl (ValidationError ''Token user not found'')
              | Some c \<Rightarrow> Inr (issue_role_tokens sign now (cl_id c) (cl_phone c) RoleClient))
          | _ \<Rightarrow> Inl (ValidationError ''Refresh token role is invalid'')))"

definition IsClient :: "subject option \<Rightarrow> bool" where
  "IsClient u = (case u of Some (ClientSubject _) \<Rightarrow> True | _ \<Rightarrow> False)"

definition IsMaster :: "subject option \<Rightarrow> bool" where
  "IsMaster u = (case u of Some (MasterSubject _) \<Rightarrow> True | _ \<Rightarrow> False)"

definition IsStaffOrAdminUser :: "subject option \<Rightarrow> bool" where
  "IsStaffOrAdminUser u = (case u of Some (StaffSubject s) \<Rightarrow> su_staff s | _ \<Rightarrow> False)"

section \<open>Profiles and devices\<close>

definition MasterLanguageView_put :: "row_id \<Rightarrow> language \<Rightarrow> accounts_db \<Rightarrow> accounts_db" where
  "MasterLanguageView_put user l db = db\<lparr>masters := upd_row ms_id user (\<lambda>m. m\<lparr>ms_language := l\<rparr>) (masters db)\<rparr>"

definition MasterSettingsView_patch ::
  "row_id \<Rightarrow> bool option \<Rightarrow> bool option \<Rightarrow> bool option \<Rightarrow> bool option \<Rightarrow> accounts_db \<Rightarrow> accounts_db" where
  "MasterSettingsView_patch user notif push online avail db =
    db\<lparr>masters := upd_row ms_id user (\<lambda>m. m\<lparr>ms_notifications := sent_or notif (ms_notifications m),
        ms_push := sent_or push (ms_push m), is_online := sent_or online (is_online m),
        is_available := sent_or avail (is_available m)\<rparr>) (masters db)\<rparr>"

definition ClientNotificationSettingsView_patch ::
  "row_id \<Rightarrow> bool option \<Rightarrow> bool option \<Rightarrow> accounts_db \<Rightarrow> accounts_db" where
  "ClientNotificationSettingsView_patch user notif push db =
    db\<lparr>clients := upd_row cl_id user (\<lambda>c. c\<lparr>cl_notifications := sent_or notif (cl_notifications c),
        cl_push := sent_or push (cl_push c)\<rparr>) (clients db)\<rparr>"

definition ClientRegisterView_update ::
  "row_id \<Rightarrow> string option \<Rightarrow> string option \<Rightarrow> language option \<Rightarrow> accounts_db \<Rightarrow> accounts_db" where
  "ClientRegisterView_update user fn ln l db =
    db\<lparr>clients := upd_row cl_id user (\<lambda>c. c\<lparr>cl_first_name := sent_or fn (cl_first_name c),
        cl_last_name := sent_or ln (cl_last_name c), cl_language := sent_or l (cl_language c)\<rparr>) (clients db)\<rparr>"

text \<open>\<open>update_or_create\<close> by token: a device that changes hands moves to its new owner.\<close>

definition register_device :: "fcm_device \<Rightarrow> accounts_db \<Rightarrow> accounts_db \<times> bool" where
  "register_device d db =
    (case get_row fd_token (fd_token d) (fcm_devices db) of
       Some old \<Rightarrow> (db\<lparr>fcm_devices := upd_row fd_token (fd_token d) (\<lambda>_. d\<lparr>fd_id := fd_id old\<rparr>) (fcm_devices db)\<rparr>, False)
     | None \<Rightarrow> (db\<lparr>fcm_devices := add_row (d\<lparr>fd_id := fresh_id fd_id (fcm_devices db)\<rparr>) (fcm_devices db)\<rparr>, True))"

definition MasterPushRegisterView_post :: "row_id \<Rightarrow> string \<Rightarrow> string \<Rightarrow> accounts_db \<Rightarrow> accounts_db \<times> bool" where
  "MasterPushRegisterView_post user tok platform db =
    (let t = strip tok;
         (db1, created) = register_device \<lparr>fd_id = 0, fd_role = RoleMaster, fd_client = None, fd_master = Some user,
            fd_token = t, fd_platform = platform, fd_active = True\<rparr> db
     in (db1\<lparr>masters := upd_row ms_id user (\<lambda>m. m\<lparr>ms_fcm_token := t\<rparr>) (masters db1)\<rparr>, created))"

definition ClientPushRegisterView_post :: "row_id \<Rightarrow> string \<Rightarrow> string \<Rightarrow> accounts_db \<Rightarrow> accounts_db \<times> bool" where
  "ClientPushRegisterView_post user tok platform db =
    (let t = strip tok;
         (db1, created) = register_device \<lparr>fd_id = 0, fd_role = RoleClient, fd_client = Some user, fd_master = None,
            fd_token = t, fd_platform = platform, fd_active = True\<rparr> db
     in (db1\<lparr>clients := upd_row cl_id user (\<lambda>c. c\<lparr>cl_fcm_token := t\<rparr>) (clients db1)\<rparr>, created))"

definition app_language_items :: "language \<Rightarrow> (language \<times> string \<times> bool) list" where
  "app_language_items active =
    [(LANG_UZ, ''O'zbekcha'', active = LANG_UZ), (LANG_RU, ''Russkiy'', active = LANG_RU), (LANG_EN, ''English'', active = LANG_EN)]"

end
