(* ===== verification/Account_Props.thy ===== *)
theory Account_Props
  imports Accounts
begin

text \<open>
  Properties of the sign-in: the one-time codes along every history of requests, the
  tokens, and who is locked out.
\<close>

section \<open>Histories of one-time codes\<close>

text \<open>A step happens at a time not before the previous one: a code is sent, or a code is tried.\<close>

inductive otp_step :: "otp_settings \<Rightarrow> instant \<times> accounts_db \<Rightarrow> instant \<times> accounts_db \<Rightarrow> bool" for cfg where
  send: "now \<le> now' \<Longrightarrow> SendOTPView_post cfg now' drawn raw db = Inr db' \<Longrightarrow> otp_step cfg (now, db) (now', db')"
| verify: "now \<le> now' \<Longrightarrow> otp_step cfg (now, db) (now', fst (VerifyOTPView_post cfg now' raw given db))"

definition sms_times :: "string \<Rightarrow> accounts_db \<Rightarrow> instant list" where
  "sms_times p db = map snd (filter (\<lambda>(q, t). q = p) (sms_log db))"

definition records_of :: "string \<Rightarrow> accounts_db \<Rightarrow> otp_record list" where
  "records_of p db = filter (\<lambda>r. otp_phone r = p) (otp_records db)"

definition otp_inv :: "string \<Rightarrow> instant \<Rightarrow> accounts_db \<Rightarrow> bool" where
  "otp_inv p now db =
    (keys_distinct otp_id (otp_records db) \<and>
     (\<forall>r \<in> set (records_of p db). expires_at r \<le> now + 120000 \<and> otp_attempts r \<le> 5 \<and>
        (\<exists>c. otp_cooldown db p = Some c \<and> expires_at r + 60000 \<le> c)) \<and>
     (\<forall>r \<in> set (records_of p db). \<forall>r' \<in> set (records_of p db). otp_id r \<noteq> otp_id r' \<longrightarrow> expires_at r < now \<or> expires_at r' < now) \<and>
     (\<forall>code n ex. otp_cache db p = Some (code, n, ex) \<longrightarrow> n \<le> 5 \<and>
        (5 \<le> n \<longrightarrow> (\<exists>b. otp_block db p = Some b \<and> (\<forall>r \<in> set (records_of p db). expires_at r < b)))) \<and>
     sorted_wrt (\<lambda>t t'. t + 180000 \<le> t') (sms_times p db) \<and>
     (\<forall>t \<in> set (sms_times p db). \<exists>c. otp_cooldown db p = Some c \<and> t + 180000 \<le> c))"

lemmas otp_consts = OTP_TTL_MS_def OTP_SEND_COOLDOWN_MS_def OTP_MAX_ATTEMPTS_def OTP_BLOCK_MS_def

lemma otp_inv_later: "otp_inv p now db \<Longrightarrow> now \<le> now' \<Longrightarrow> otp_inv p now' db"
  unfolding otp_inv_def by force

lemma send_InrD:
  assumes "SendOTPView_post cfg now drawn raw db = Inr db'"
  shows "db' = SendOTP_create cfg now drawn (normalize_phone raw) db"
    and "is_test_phone cfg (normalize_phone raw) \<or> \<not> live now (otp_cooldown db (normalize_phone raw))"
  using assms by (auto simp: SendOTPView_post_def SendOTP_validate_phone_def Let_def split: if_splits)

lemma send_inv:
  assumes "otp_inv p now db" and "now \<le> now'" and "SendOTPView_post cfg now' drawn raw db = Inr db'"
  shows "otp_inv p now' db'"
proof -
  let ?v = "normalize_phone raw"
  have I: "otp_inv p now' db" using otp_inv_later assms(1,2) by blast
  show ?thesis
  proof (cases "is_test_phone cfg ?v")
    case True
    with I send_InrD(1) [OF assms(3)] show ?thesis by (simp add: SendOTP_create_def)
  next
    case False
    with send_InrD(2) [OF assms(3)] have cool: "\<not> live now' (otp_cooldown db ?v)" by blast
    let ?r = "\<lparr>otp_id = fresh_id otp_id (otp_records db), otp_phone = ?v, otp_code = six_digits drawn, is_used = False,
            otp_attempts = 0, expires_at = now' + OTP_TTL_MS\<rparr>"
    have db': "db' = db\<lparr>otp_records := add_row ?r (otp_records db),
          otp_cache := (otp_cache db)(?v := Some (six_digits drawn, 0, now' + OTP_TTL_MS)),
          otp_cooldown := (otp_cooldown db)(?v := Some (now' + OTP_SEND_COOLDOWN_MS)),
          sms_log := sms_log db @ [(?v, now')]\<rparr>"
      using send_InrD(1) [OF assms(3)] False by (simp add: SendOTP_create_def Let_def)
    have keys: "keys_distinct otp_id (otp_records db')"
      using I keys_distinct_add [of otp_id "otp_records db" ?r] by (simp add: db' otp_inv_def)
    have recs: "records_of p db' = records_of p db @ (if ?v = p then [?r] else [])"
      by (simp add: db' records_of_def add_row_def)
    have times: "sms_times p db' = sms_times p db @ (if ?v = p then [now'] else [])"
      by (simp add: db' sms_times_def)
    show ?thesis
    proof (cases "?v = p")
      case False
      then show ?thesis
        using I keys recs times unfolding otp_inv_def by (simp add: db')
    next
      case True
      have past: "expires_at r < now'" if "r \<in> set (records_of p db)" for r
        using I that cool True by (fastforce simp: otp_inv_def live_def)
      have sent: "t + 180000 \<le> now'" if "t \<in> set (sms_times p db)" for t
        using I that cool True by (fastforce simp: otp_inv_def live_def)
      have old: "expires_at r \<le> now' + 120000 \<and> otp_attempts r \<le> 5" if "r \<in> set (records_of p db)" for r
        using I that by (auto simp: otp_inv_def)
      have co: "otp_cooldown db' p = Some (now' + 180000)" "otp_cache db' p = Some (six_digits drawn, 0, now' + 120000)"
        by (simp_all add: db' True otp_consts)
      have "sorted_wrt (\<lambda>t t'. t + 180000 \<le> t') (sms_times p db')"
        using I sent True by (simp add: times otp_inv_def sorted_wrt_append)
      then show ?thesis
        unfolding otp_inv_def recs times co using True keys past sent old
        by (fastforce simp: otp_consts)
    qed
  qed
qed

text \<open>An update of one record that keeps its phone and expiry.\<close>

definition same_times :: "(otp_record \<Rightarrow> otp_record) \<Rightarrow> bool" where
  "same_times f = (\<forall>r. otp_id (f r) = otp_id r \<and> otp_phone (f r) = otp_phone r \<and> expires_at (f r) = expires_at r)"

lemma upd_records:
  assumes "same_times f"
  shows "records_of p (db\<lparr>otp_records := upd_row otp_id k f (otp_records db)\<rparr>) = upd_row otp_id k f (records_of p db)"
  using assms by (simp add: records_of_def upd_row_def filter_map o_def same_times_def if_distrib [of otp_phone] cong: if_cong)

lemma otp_inv_upd:
  assumes "otp_inv p now db" and "same_times f" and "\<forall>r \<in> set (records_of p db). otp_attempts (f r) \<le> 5"
  shows "otp_inv p now (db\<lparr>otp_records := upd_row otp_id k f (otp_records db)\<rparr>)"
proof -
  let ?db = "db\<lparr>otp_records := upd_row otp_id k f (otp_records db)\<rparr>"
  have prev: "\<exists>r0 \<in> set (records_of p db). otp_id r = otp_id r0 \<and> expires_at r = expires_at r0 \<and> otp_attempts r \<le> 5"
    if "r \<in> set (records_of p ?db)" for r
    using that assms unfolding upd_records [OF assms(2)] by (fastforce simp: same_times_def otp_inv_def dest!: in_upd_row)
  have "keys_distinct otp_id (upd_row otp_id k f (otp_records db))"
    using assms(1,2) by (intro keys_distinct_upd) (auto simp: otp_inv_def same_times_def)
  moreover have "\<forall>r \<in> set (records_of p ?db). expires_at r \<le> now + 120000 \<and> otp_attempts r \<le> 5 \<and>
        (\<exists>c. otp_cooldown ?db p = Some c \<and> expires_at r + 60000 \<le> c)"
    using assms(1) prev by (fastforce simp: otp_inv_def)
  moreover have "\<forall>r \<in> set (records_of p ?db). \<forall>r' \<in> set (records_of p ?db). otp_id r \<noteq> otp_id r' \<longrightarrow>
      expires_at r < now \<or> expires_at r' < now"
  proof (intro ballI impI)
    fix r r'
    assume "r \<in> set (records_of p ?db)" "r' \<in> set (records_of p ?db)" and ne: "otp_id r \<noteq> otp_id r'"
    then obtain q q' where "q \<in> set (records_of p db)" "q' \<in> set (records_of p db)" "otp_id r = otp_id q" "otp_id r' = otp_id q'"
      and e: "expires_at r = expires_at q" "expires_at r' = expires_at q'" using prev by metis
    with ne assms(1) show "expires_at r < now \<or> expires_at r' < now" unfolding e by (auto simp: otp_inv_def)
  qed
  moreover have "\<forall>code n ex. otp_cache ?db p = Some (code, n, ex) \<longrightarrow> n \<le> 5 \<and>
        (5 \<le> n \<longrightarrow> (\<exists>b. otp_block ?db p = Some b \<and> (\<forall>r \<in> set (records_of p ?db). expires_at r < b)))"
  proof (intro allI impI)
    fix code n ex
    assume "otp_cache ?db p = Some (code, n, ex)"
    then have "n \<le> 5 \<and> (5 \<le> n \<longrightarrow> (\<exists>b. otp_block db p = Some b \<and> (\<forall>r \<in> set (records_of p db). expires_at r < b)))"
      using assms(1) by (simp add: otp_inv_def)
    moreover have "\<forall>r \<in> set (records_of p ?db). expires_at r < b" if "\<forall>r \<in> set (records_of p db). expires_at r < b" for b
      using that prev by fastforce
    ultimately show "n \<le> 5 \<and> (5 \<le> n \<longrightarrow> (\<exists>b. otp_block ?db p = Some b \<and> (\<forall>r \<in> set (records_of p ?db). expires_at r < b)))"
      by auto
  qed
  moreover have "sms_times p ?db = sms_times p db" "otp_cooldown ?db = otp_cooldown db" by (simp_all add: sms_times_def)
  moreover have "sorted_wrt (\<lambda>t t'. t + 180000 \<le> t') (sms_times p db)"
    "\<forall>t \<in> set (sms_times p db). \<exists>c. otp_cooldown db p = Some c \<and> t + 180000 \<le> c"
    using assms(1) by (simp_all add: otp_inv_def)
  ultimately show ?thesis unfolding otp_inv_def by simp
qed

text \<open>The outcomes of a verification.\<close>

lemma verify_create_fields:
  "otp_records (fst (VerifyOTP_create p rec db)) = (case rec of None \<Rightarrow> otp_records db
     | Some r \<Rightarrow> upd_row otp_id (otp_id r) (\<lambda>r. r\<lparr>is_used := True\<rparr>) (otp_records db))"
  "otp_cache (fst (VerifyOTP_create p rec db)) = otp_cache db" "otp_cooldown (fst (VerifyOTP_create p rec db)) = otp_cooldown db"
  "otp_block (fst (VerifyOTP_create p rec db)) = otp_block db" "sms_log (fst (VerifyOTP_create p rec db)) = sms_log db"
  by (simp_all add: VerifyOTP_create_def Let_def split: option.splits)

lemma verify_validate_cases:
  obtains (refused) er where "VerifyOTP_validate cfg now p given db = (db, Inl er)"
  | (wrong) code n r er where "VerifyOTP_validate cfg now p given db = (wrong_attempt now p code (Suc n) (otp_id r) db, Inl er)"
      and "cached_code now p db = Some (code, n)" and "latest_unused p db = Some r"
      and "\<not> expires_at r < now" and "\<not> live now (otp_block db p)"
  | (test) "is_test_phone cfg p" and "VerifyOTP_validate cfg now p given db = (db, Inr None)"
  | (accepted) r where "VerifyOTP_validate cfg now p given db = (db, Inr (Some r))" and "latest_unused p db = Some r"
      and "\<not> expires_at r < now"
proof -
  consider (short) "length given \<noteq> 6" | (tester) "length given = 6" "is_test_phone cfg p"
    | (blocked) "length given = 6" "\<not> is_test_phone cfg p" "live now (otp_block db p)"
    | (gone) "length given = 6" "\<not> is_test_phone cfg p" "\<not> live now (otp_block db p)"
        "cached_code now p db = None \<or> latest_unused p db = None"
    | (found) code n r where "length given = 6" "\<not> is_test_phone cfg p" "\<not> live now (otp_block db p)"
        "cached_code now p db = Some (code, n)" "latest_unused p db = Some r"
    by (metis not_None_eq surj_pair)
  then show thesis
  proof cases
    case short
    show thesis by (rule refused) (simp add: VerifyOTP_validate_def short)
  next
    case tester
    then show thesis
      using refused test by (cases "given = PLAYMARKET_TEST_OTP cfg") (simp_all add: VerifyOTP_validate_def)
  next
    case blocked
    show thesis by (rule refused) (simp add: VerifyOTP_validate_def blocked)
  next
    case gone
    show thesis by (rule refused) (use gone in \<open>auto simp: VerifyOTP_validate_def split: option.splits\<close>)
  next
    case (found code n r)
    consider "expires_at r < now" | "\<not> expires_at r < now" "code \<noteq> given" | "\<not> expires_at r < now" "code = given" by blast
    then show thesis
    proof cases
      case 1
      show thesis by (rule refused) (simp add: VerifyOTP_validate_def found 1)
    next
      case 2
      show thesis by (rule wrong [OF _ found(4,5) 2(1) found(3)]) (simp add: VerifyOTP_validate_def found 2)
    next
      case 3
      show thesis by (rule accepted [OF _ found(5) 3(1)]) (use found 3 in \<open>simp add: VerifyOTP_validate_def\<close>)
    qed
  qed
qed

lemma VerifyOTPView_post_eq:
  "VerifyOTPView_post cfg now raw given db =
    (case VerifyOTP_validate cfg now (normalize_phone raw) given db of
       (db1, Inl er) \<Rightarrow> (db1, Inl er)
     | (db1, Inr rec) \<Rightarrow> (fst (VerifyOTP_create (normalize_phone raw) rec db1), Inr (snd (VerifyOTP_create (normalize_phone raw) rec db1))))"
  by (auto simp: VerifyOTPView_post_def Let_def case_prod_beta split: prod.splits sum.splits)

lemma latest_unused_in: "latest_unused p db = Some r \<Longrightarrow> r \<in> set (unused_of p db) \<and> r \<in> set (records_of p db) \<and> \<not> is_used r"
  using last_in_set [of "unused_of p db"] by (auto simp: latest_unused_def unused_of_def records_of_def split: if_splits)

lemma otp_inv_cong:
  assumes "otp_records db = otp_records db'" and "otp_cache db = otp_cache db'" and "otp_cooldown db = otp_cooldown db'"
    and "otp_block db = otp_block db'" and "sms_log db = sms_log db'"
  shows "otp_inv p now db = otp_inv p now db'"
  using assms by (simp add: otp_inv_def records_of_def sms_times_def)

lemma verify_inv:
  assumes "otp_inv p now db" and "now \<le> now'"
  shows "otp_inv p now' (fst (VerifyOTPView_post cfg now' raw given db))"
proof -
  let ?v = "normalize_phone raw"
  have I: "otp_inv p now' db" using otp_inv_later assms by blast
  show ?thesis
  proof (cases rule: verify_validate_cases [of cfg now' ?v given db])
    case (refused er)
    with I show ?thesis by (simp add: VerifyOTPView_post_eq)
  next
    case test
    with I show ?thesis
      using otp_inv_cong [of "fst (VerifyOTP_create ?v None db)" db p now']
      by (simp add: VerifyOTPView_post_eq verify_create_fields)
  next
    case (accepted r)
    let ?f = "\<lambda>r. r\<lparr>is_used := True\<rparr>"
    have "otp_inv p now' (db\<lparr>otp_records := upd_row otp_id (otp_id r) ?f (otp_records db)\<rparr>)"
      using I by (intro otp_inv_upd) (auto simp: same_times_def otp_inv_def)
    then show ?thesis
      using accepted(1) otp_inv_cong [of "fst (VerifyOTP_create ?v (Some r) db)" "db\<lparr>otp_records := upd_row otp_id (otp_id r) ?f (otp_records db)\<rparr>" p now']
      by (simp add: VerifyOTPView_post_eq verify_create_fields)
  next
    case (wrong code n r er)
    have post: "fst (VerifyOTPView_post cfg now' raw given db) = wrong_attempt now' ?v code (Suc n) (otp_id r) db"
      using wrong(1) by (simp add: VerifyOTPView_post_eq)
    show ?thesis
    proof (cases "?v = p")
      case False
      let ?f = "\<lambda>q. q\<lparr>otp_attempts := Suc n\<rparr>"
      have "records_of p (wrong_attempt now' ?v code (Suc n) (otp_id r) db) = records_of p db"
      proof -
        have "otp_id q \<noteq> otp_id r" if "q \<in> set (records_of p db)" for q
        proof
          assume "otp_id q = otp_id r"
          moreover have "q \<in> set (otp_records db)" "r \<in> set (otp_records db)" "otp_phone q = p" "otp_phone r = ?v"
            using that latest_unused_in [OF wrong(3)] by (auto simp: records_of_def)
          moreover have "keys_distinct otp_id (otp_records db)" using I by (simp add: otp_inv_def)
          ultimately show False
            using False get_row_unique [of otp_id "otp_records db"] by (metis option.inject)
        qed
        then have "upd_row otp_id (otp_id r) ?f (records_of p db) = records_of p db"
          by (intro upd_row_notin) (auto dest: sym)
        moreover have "same_times ?f" by (simp add: same_times_def)
        ultimately show ?thesis
          using upd_records [where f = ?f and p = p and db = db and k = "otp_id r"] by (simp add: wrong_attempt_def records_of_def)
      qed
      moreover have "keys_distinct otp_id (otp_records (wrong_attempt now' ?v code (Suc n) (otp_id r) db))"
        using I keys_distinct_upd [of otp_id "otp_records db" ?f "otp_id r"] by (simp add: wrong_attempt_def otp_inv_def)
      ultimately show ?thesis
        using I False unfolding post otp_inv_def by (simp add: wrong_attempt_def sms_times_def)
    next
      case True
      have r: "r \<in> set (records_of p db)" using latest_unused_in [OF wrong(3)] True by simp
      obtain ex where ca: "otp_cache db p = Some (code, n, ex)"
        using wrong(2) True by (auto simp: cached_code_def split: option.splits if_splits)
      have n: "n < 5"
      proof (rule ccontr)
        assume "\<not> n < 5"
        then obtain b where "otp_block db p = Some b" "expires_at r < b"
          using I ca r by (fastforce simp: otp_inv_def)
        with wrong(4,5) True show False by (simp add: live_def)
      qed
      let ?f = "\<lambda>q. q\<lparr>otp_attempts := Suc n\<rparr>"
      let ?db1 = "db\<lparr>otp_records := upd_row otp_id (otp_id r) ?f (otp_records db)\<rparr>"
      have I1: "otp_inv p now' ?db1"
        using I n by (intro otp_inv_upd) (auto simp: same_times_def)
      have fresh: "expires_at q < now' + 900000" if "q \<in> set (records_of p ?db1)" for q
        using I1 that by (fastforce simp: otp_inv_def)
      have eqs: "records_of p (wrong_attempt now' p code (Suc n) (otp_id r) db) = records_of p ?db1"
        "sms_times p (wrong_attempt now' p code (Suc n) (otp_id r) db) = sms_times p ?db1"
        by (simp_all add: wrong_attempt_def records_of_def sms_times_def)
      show ?thesis
        using I1 n fresh unfolding post True otp_inv_def eqs
        by (auto simp: wrong_attempt_def otp_consts)
    qed
  qed
qed

lemma otp_steps_inv:
  assumes "(otp_step cfg)\<^sup>*\<^sup>* (now, db) (now', db')" and "otp_inv p now db"
  shows "now \<le> now' \<and> otp_inv p now' db'"
  using assms
proof (induction "(now, db)" "(now', db')" arbitrary: now' db' rule: rtranclp.induct)
  case (rtrancl_into_rtrancl b)
  obtain t d where b: "b = (t, d)" by (cases b)
  with rtrancl_into_rtrancl have "now \<le> t" "otp_inv p t d" by auto
  with rtrancl_into_rtrancl(3) b show ?case
    using send_inv [of p t d] verify_inv [of p t d] by (auto elim!: otp_step.cases)
qed simp

section \<open>Codes and guesses\<close>

definition no_codes :: "accounts_db \<Rightarrow> bool" where
  "no_codes db = (otp_records db = [] \<and> sms_log db = [] \<and> (\<forall>p. otp_cache db p = None))"

lemma no_codes_inv: "no_codes db \<Longrightarrow> otp_inv p now db"
  by (simp add: no_codes_def otp_inv_def records_of_def sms_times_def)

definition empty_accounts :: accounts_db where
  "empty_accounts = \<lparr>clients = [], masters = [], staff = [], otp_records = [], fcm_devices = [],
     otp_cache = (\<lambda>p. None), otp_cooldown = (\<lambda>p. None), otp_block = (\<lambda>p. None), sms_log = []\<rparr>"

definition example_otp_cfg :: otp_settings where
  "example_otp_cfg = \<lparr>PLAYMARKET_TEST_PHONE = [], PLAYMARKET_TEST_OTP = []\<rparr>"


definition coded_accounts :: accounts_db where
  "coded_accounts = SendOTP_create example_otp_cfg 1000 123456 ''+998901234567'' empty_accounts"

lemma coded_step: "otp_step example_otp_cfg (0, empty_accounts) (1000, coded_accounts)"
proof -
  have "normalize_phone ''998-90-1234567'' = ''+998901234567''" by code_simp
  then have "SendOTPView_post example_otp_cfg 1000 123456 ''998-90-1234567'' empty_accounts = Inr coded_accounts"
    by (simp add: SendOTPView_post_def SendOTP_validate_phone_def coded_accounts_def empty_accounts_def live_def Let_def)
  then show ?thesis by (intro otp_step.send) simp_all
qed


definition spent :: "string \<Rightarrow> instant \<Rightarrow> accounts_db \<Rightarrow> bool" where
  "spent p now db = (\<forall>r \<in> set (unused_of p db). expires_at r < now)"

lemma accepted_spends:
  assumes "otp_inv p now db" and "now \<le> now'" and "VerifyOTPView_post cfg now' raw given db = (db', Inr c)"
    and "p = normalize_phone raw" and "\<not> is_test_phone cfg p"
  shows "spent p now' db'"
proof (cases rule: verify_validate_cases [of cfg now' p given db])
  case (accepted r)
  have I: "otp_inv p now' db" using otp_inv_later assms(1,2) by blast
  have recs: "otp_records db' = upd_row otp_id (otp_id r) (\<lambda>r. r\<lparr>is_used := True\<rparr>) (otp_records db)"
    using assms(3,4) accepted(1) by (auto simp: VerifyOTPView_post_eq verify_create_fields)
  have r: "r \<in> set (records_of p db)" "expires_at r \<ge> now'" using latest_unused_in [OF accepted(2)] accepted(3) by auto
  show ?thesis unfolding spent_def
  proof
    fix q
    assume "q \<in> set (unused_of p db')"
    then have "q \<in> set (records_of p db)" "otp_id q \<noteq> otp_id r"
      by (auto simp: unused_of_def recs records_of_def dest!: in_upd_row)
    with I r show "expires_at q < now'" by (fastforce simp: otp_inv_def)
  qed
qed (use assms in \<open>auto simp: VerifyOTPView_post_eq\<close>)

lemma spent_verify:
  assumes "spent p now db" and "now \<le> now'" and "normalize_phone raw = p" and "\<not> is_test_phone cfg p"
  shows "isl (snd (VerifyOTPView_post cfg now' raw given db))"
proof (cases rule: verify_validate_cases [of cfg now' p given db])
  case (accepted r)
  then show ?thesis using assms(1,2) latest_unused_in [OF accepted(2)] by (fastforce simp: spent_def)
next
  case (refused er)
  then show ?thesis using assms(3) by (simp add: VerifyOTPView_post_eq)
next
  case (wrong code n r er)
  then show ?thesis using assms(3) by (simp add: VerifyOTPView_post_eq)
next
  case test
  then show ?thesis using assms(4) by simp
qed

lemma unused_kept:
  assumes "otp_step cfg (t, d) (t', d')" and "sms_times p d' = sms_times p d" and "q' \<in> set (unused_of p d')"
  shows "\<exists>q \<in> set (unused_of p d). expires_at q' = expires_at q"
  using assms(1)
proof cases
  case (send drawn raw)
  show ?thesis
  proof (cases "is_test_phone cfg (normalize_phone raw)")
    case True
    then have "d' = d" using send_InrD(1) [OF send(2)] by (simp add: SendOTP_create_def)
    with assms(3) show ?thesis by blast
  next
    case False
    then have "normalize_phone raw \<noteq> p"
      using assms(2) send_InrD(1) [OF send(2)] by (auto simp: SendOTP_create_def Let_def sms_times_def)
    then show ?thesis
      using assms(3) send_InrD(1) [OF send(2)] False by (auto simp: SendOTP_create_def Let_def unused_of_def)
  qed
next
  case (verify raw given)
  let ?v = "normalize_phone raw"
  show ?thesis
  proof (cases rule: verify_validate_cases [of cfg t' ?v given d])
    case (wrong code n r er)
    then have "otp_records d' = upd_row otp_id (otp_id r) (\<lambda>q. q\<lparr>otp_attempts := Suc n\<rparr>) (otp_records d)"
      using verify by (simp add: VerifyOTPView_post_eq wrong_attempt_def)
    then show ?thesis using assms(3) by (fastforce simp: unused_of_def dest!: in_upd_row)
  next
    case (accepted r)
    then have "otp_records d' = upd_row otp_id (otp_id r) (\<lambda>q. q\<lparr>is_used := True\<rparr>) (otp_records d)"
      using verify by (simp add: VerifyOTPView_post_eq verify_create_fields)
    then show ?thesis using assms(3) by (fastforce simp: unused_of_def dest!: in_upd_row)
  next
    case (refused er)
    then show ?thesis using assms(3) verify by (auto simp: VerifyOTPView_post_eq)
  next
    case test
    then show ?thesis using assms(3) verify by (auto simp: VerifyOTPView_post_eq unused_of_def verify_create_fields)
  qed
qed

lemma step_grows:
  assumes "otp_step cfg (t, d) (t', d')"
  shows "t \<le> t' \<and> (\<exists>xs. sms_times p d' = sms_times p d @ xs)"
  using assms
proof cases
  case (send drawn raw)
  then show ?thesis using send_InrD(1) [OF send(2)] by (auto simp: SendOTP_create_def Let_def sms_times_def)
next
  case (verify raw given)
  then show ?thesis
    by (cases rule: verify_validate_cases [of cfg t' "normalize_phone raw" given d])
      (auto simp: VerifyOTPView_post_eq wrong_attempt_def sms_times_def verify_create_fields)
qed

lemma spent_steps:
  assumes "(otp_step cfg)\<^sup>*\<^sup>* (t, d) (t', d')" and "spent p t d"
  shows "t \<le> t' \<and> (\<exists>xs. sms_times p d' = sms_times p d @ xs \<and> (xs = [] \<longrightarrow> spent p t' d'))"
  using assms
proof (induction "(t, d)" "(t', d')" arbitrary: t' d' rule: rtranclp.induct)
  case (rtrancl_into_rtrancl b)
  obtain t1 d1 where b: "b = (t1, d1)" by (cases b)
  with rtrancl_into_rtrancl obtain xs where 1: "t \<le> t1" "sms_times p d1 = sms_times p d @ xs" "xs = [] \<longrightarrow> spent p t1 d1" by blast
  have st: "otp_step cfg (t1, d1) (t', d')" using rtrancl_into_rtrancl(3) b by simp
  from step_grows [OF st] obtain ys where 2: "t1 \<le> t'" "sms_times p d' = sms_times p d1 @ ys" by blast
  have "spent p t' d'" if "xs = []" "ys = []"
    unfolding spent_def using unused_kept [OF st, of p] 1(3) 2 that by (fastforce simp: spent_def)
  with 1 2 show ?case by auto
qed simp

text \<open>A code signs in once: after a successful verification, and until a new message goes to
  the same handset, no verification for it succeeds again, whatever code is tried and
  whatever happens in between.\<close>

theorem otp_code_single_use:
  assumes "(otp_step cfg)\<^sup>*\<^sup>* (now, db) (t, d)" and "no_codes db"
    and "t \<le> t1" and "VerifyOTPView_post cfg t1 raw given d = (d1, Inr c)" and "\<not> is_test_phone cfg (normalize_phone raw)"
    and "(otp_step cfg)\<^sup>*\<^sup>* (t1, d1) (t2, d2)" and "sms_times (normalize_phone raw) d2 = sms_times (normalize_phone raw) d1"
    and "t2 \<le> t3" and "normalize_phone raw' = normalize_phone raw"
  shows "\<exists>er. snd (VerifyOTPView_post cfg t3 raw' given' d2) = Inl er"
proof -
  let ?p = "normalize_phone raw"
  have "otp_inv ?p t d" using otp_steps_inv [OF assms(1)] no_codes_inv [OF assms(2)] by blast
  then have "spent ?p t1 d1" using accepted_spends assms(3-5) by blast
  then have "spent ?p t2 d2" using spent_steps [OF assms(6)] assms(7) by fastforce
  then have "isl (snd (VerifyOTPView_post cfg t3 raw' given' d2))" using spent_verify assms(5,8,9) by simp
  then show ?thesis by (cases "snd (VerifyOTPView_post cfg t3 raw' given' d2)") auto
qed

definition signed_in_accounts :: accounts_db where
  "signed_in_accounts = fst (VerifyOTPView_post example_otp_cfg 2000 ''+998901234567'' ''123456'' coded_accounts)"

lemma coded_validate:
  "VerifyOTP_validate example_otp_cfg 2000 ''+998901234567'' ''123456'' coded_accounts =
    (coded_accounts, Inr (Some \<lparr>otp_id = fresh_id otp_id ([] :: otp_record list), otp_phone = ''+998901234567'',
       otp_code = ''123456'', is_used = False, otp_attempts = 0, expires_at = 121000\<rparr>))"
proof -
  have code: "six_digits 123456 = ''123456''"
    by (simp add: six_digits_def digit_char_def char_of_def bit_0)
  have t: "\<not> is_test_phone example_otp_cfg p" for p by (simp add: is_test_phone_def example_otp_cfg_def)
  show ?thesis
    by (simp add: VerifyOTP_validate_def t coded_accounts_def SendOTP_create_def empty_accounts_def live_def cached_code_def
        latest_unused_def unused_of_def add_row_def OTP_TTL_MS_def code Let_def)
qed

lemma sign_in_run: "\<exists>c. VerifyOTPView_post example_otp_cfg 2000 ''+998901234567'' ''123456'' coded_accounts = (signed_in_accounts, Inr c)"
proof -
  have "normalize_phone ''+998901234567'' = ''+998901234567''" by code_simp
  then show ?thesis by (simp add: VerifyOTPView_post_eq signed_in_accounts_def coded_validate)
qed

theorem otp_code_single_use_witness:
  "\<exists>er. snd (VerifyOTPView_post example_otp_cfg 3000 ''998901234567'' ''123456'' signed_in_accounts) = Inl er"
proof -
  obtain c where run: "VerifyOTPView_post example_otp_cfg 2000 ''+998901234567'' ''123456'' coded_accounts = (signed_in_accounts, Inr c)"
    using sign_in_run by blast
  have n: "no_codes empty_accounts" by (simp add: no_codes_def empty_accounts_def)
  have "\<not> is_test_phone example_otp_cfg (normalize_phone ''+998901234567'')"
    "normalize_phone ''998901234567'' = normalize_phone ''+998901234567''"
    by code_simp+
  with otp_code_single_use [OF r_into_rtranclp [of "otp_step example_otp_cfg", OF coded_step] n _ run _ rtranclp.rtrancl_refl refl]
  show ?thesis by simp
qed

section \<open>Tokens\<close>

text \<open>The signer and the verifier of tokens: a verified signature gives back what was signed, and a
  signed token is one word.\<close>

definition token_codec :: "(token \<Rightarrow> string) \<Rightarrow> (string \<Rightarrow> token option) \<Rightarrow> bool" where
  "token_codec sign verify = (\<forall>tk. verify (sign tk) = Some tk \<and> sign tk \<noteq> [] \<and> \<not> list_ex is_space (sign tk))"

lemma words_acc_word: "\<not> list_ex is_space t \<Longrightarrow> words_acc w t = (if w = [] \<and> t = [] then [] else [rev w @ t])"
  by (induction t arbitrary: w) auto

lemma words_bearer: "\<not> list_ex is_space t \<Longrightarrow> t \<noteq> [] \<Longrightarrow> words (''Bearer '' @ t) = [''Bearer'', t]"
  by (simp add: words_def words_acc_word is_space_def)

lemma lower_bearer: "lower ''Bearer'' = ''bearer''"
  by code_simp

lemma authenticate_bearer:
  assumes "\<not> list_ex is_space t" and "t \<noteq> []"
  shows "authenticate verify now (''Bearer '' @ t) db = Inr (Some u) \<longleftrightarrow> get_role_user verify now t db = Some u"
    and "authenticate verify now (''Bearer '' @ t) db \<noteq> Inr None"
    and "extract_token (''Bearer '' @ t) q = Some t"
proof -
  have w: "words (''Bearer '' @ t) = [''Bearer'', t]" by (rule words_bearer [OF assms])
  show "authenticate verify now (''Bearer '' @ t) db = Inr (Some u) \<longleftrightarrow> get_role_user verify now t db = Some u"
    unfolding authenticate_def w by (auto simp: get_role_user_def split: option.splits role.splits)
  show "authenticate verify now (''Bearer '' @ t) db \<noteq> Inr None"
    unfolding authenticate_def w by (auto split: option.splits role.splits)
  show "extract_token (''Bearer '' @ t) q = Some t"
    unfolding extract_token_def w using lower_bearer by simp
qed

lemma read_issued:
  assumes "token_codec sign verify" and "now < tk_exp tk"
  shows "read_token verify (tk_refresh tk) now (sign tk) = Some tk"
  using assms by (simp add: read_token_def token_codec_def)

lemma get_role_user_issued:
  assumes "token_codec sign verify" and "now' < now + 3 * 86400000"
  shows "get_role_user verify now' (access_token (issue_role_tokens sign now k phone RoleMaster)) db =
      map_option MasterSubject (active_master k db)"
    and "get_role_user verify now' (access_token (issue_role_tokens sign now k phone RoleClient)) db =
      map_option ClientSubject (active_client k db)"
  using assms by (simp_all add: get_role_user_def issue_role_tokens_def read_token_def token_codec_def ACCESS_TOKEN_DAYS_def day_ms_def)

lemma refresh_issued:
  assumes "token_codec sign verify" and "now' < now + 15 * 86400000"
  shows "Refresh_create sign verify now' (refresh_token (issue_role_tokens sign now k phone RoleMaster)) db =
      (case active_master k db of None \<Rightarrow> Inl (ValidationError ''Token user not found'')
       | Some m \<Rightarrow> Inr (issue_role_tokens sign now' (ms_id m) (ms_phone m) RoleMaster))"
    and "Refresh_create sign verify now' (refresh_token (issue_role_tokens sign now k phone RoleClient)) db =
      (case active_client k db of None \<Rightarrow> Inl (ValidationError ''Token user not found'')
       | Some c \<Rightarrow> Inr (issue_role_tokens sign now' (cl_id c) (cl_phone c) RoleClient))"
  using assms by (simp_all add: Refresh_create_def issue_role_tokens_def read_token_def token_codec_def REFRESH_TOKEN_DAYS_def day_ms_def)

lemma issued_word:
  assumes "token_codec sign verify"
  shows "\<not> list_ex is_space (access_token (issue_role_tokens sign now k phone r))"
    and "access_token (issue_role_tokens sign now k phone r) \<noteq> []"
  using assms by (simp_all add: issue_role_tokens_def token_codec_def)




text \<open>A codec that satisfies the law: the fields as numbers, written in unary.\<close>

definition unary :: "nat \<Rightarrow> string" where
  "unary n = replicate n (CHR ''a'') @ ''b''"

definition token_numbers :: "token \<Rightarrow> nat list" where
  "token_numbers tk =
    [if tk_refresh tk then 1 else 0, case tk_sub tk of None \<Rightarrow> 0 | Some k \<Rightarrow> Suc k,
     nat (tk_exp tk), nat (- tk_exp tk), length (tk_phone tk),
     case tk_role tk of RoleClient \<Rightarrow> 0 | RoleMaster \<Rightarrow> 1 | RoleAdmin \<Rightarrow> 2 | RoleOther _ \<Rightarrow> 3] @
    map of_char (tk_phone tk) @ (case tk_role tk of RoleOther s \<Rightarrow> map of_char s | _ \<Rightarrow> [])"

definition plain_sign :: "token \<Rightarrow> string" where
  "plain_sign tk = concat (map unary (token_numbers tk))"

definition plain_verify :: "string \<Rightarrow> token option" where
  "plain_verify t = (if t \<in> range plain_sign then Some (inv plain_sign t) else None)"

lemma unary_append: "unary m @ s = unary n @ t \<longleftrightarrow> m = n \<and> s = t"
  by (induction m arbitrary: n) (case_tac n; auto simp: unary_def)+

lemma unary_list_inj: "concat (map unary ms) = concat (map unary ns) \<longleftrightarrow> ms = ns"
proof (induction ms arbitrary: ns)
  case Nil
  show ?case by (cases ns) (auto simp: unary_def)
next
  case (Cons m ms)
  then show ?case by (cases ns) (auto simp: unary_append, simp add: unary_def)
qed

lemma inj_of_char_list: "map (of_char :: char \<Rightarrow> nat) s = map of_char t \<longleftrightarrow> s = t"
  by (rule inj_map_eq_map) (auto intro: injI)

lemma token_numbers_inj: "token_numbers tk = token_numbers tk' \<Longrightarrow> tk = tk'"
  by (cases tk; cases tk')
    (auto simp: token_numbers_def inj_of_char_list split: role.splits option.splits if_splits
      dest!: append_eq_append_conv [THEN iffD1, rotated])

lemma plain_codec: "token_codec plain_sign plain_verify"
proof -
  have "inj plain_sign" by (rule injI) (auto simp: plain_sign_def unary_list_inj intro: token_numbers_inj)
  moreover have "plain_sign tk \<noteq> []" for tk by (simp add: plain_sign_def token_numbers_def unary_def)
  moreover have "\<not> list_ex is_space (plain_sign tk)" for tk
    by (auto simp: plain_sign_def list_ex_iff unary_def is_space_def)
  ultimately show ?thesis by (simp add: token_codec_def plain_verify_def)
qed


end
