(* ===== verification/Master_Admin.thy ===== *)
theory Master_Admin
  imports Account_Props
begin

text \<open>
  The masters as the back office sees and edits them: the dashboard
  (\<open>src/apps/dashboard/serializers.py\<close>, \<open>views.py\<close>), the internal API
  (\<open>src/apps/internal_api/serializers.py\<close>, \<open>views.py\<close>) and the admin actions
  (\<open>src/apps/accounts/admin.py\<close>).

  Lists the database orders by a text column are given in the order of the table.
\<close>

section \<open>Status\<close>

datatype master_state = Active | Busy | Inactive | Blocked

text \<open>The dashboard's reading of the flags, and what its status form writes.\<close>

definition get_status :: "master \<Rightarrow> master_state" where
  "get_status m =
    (if is_blocked m \<or> \<not> ms_active m then Blocked
     else if is_online m \<and> is_available m then Active
     else if is_online m \<and> \<not> is_available m then Busy
     else Inactive)"

definition get_status_label :: "master \<Rightarrow> string" where
  "get_status_label m =
    (case get_status m of Active \<Rightarrow> ''Faol'' | Busy \<Rightarrow> ''Band'' | Inactive \<Rightarrow> ''Offline'' | Blocked \<Rightarrow> ''Bloklangan'')"

definition DashboardMasterStatus_save :: "master_state \<Rightarrow> master \<Rightarrow> master" where
  "DashboardMasterStatus_save st m =
    (case st of
       Active \<Rightarrow> m\<lparr>ms_active := True, is_online := True, is_available := True\<rparr>
     | Busy \<Rightarrow> m\<lparr>ms_active := True, is_online := True, is_available := False\<rparr>
     | Inactive \<Rightarrow> m\<lparr>ms_active := True, is_online := False, is_available := False\<rparr>
     | Blocked \<Rightarrow> m\<lparr>ms_active := False, is_online := False, is_available := False\<rparr>)"

definition DashboardMasterLocation_save :: "instant \<Rightarrow> int \<Rightarrow> int \<Rightarrow> bool option \<Rightarrow> bool option \<Rightarrow> master \<Rightarrow> master" where
  "DashboardMasterLocation_save now lat lng online avail m =
    m\<lparr>ms_lat := Some lat, ms_lng := Some lng, is_online := sent_or online True, is_available := sent_or avail True,
      last_location_at := Some now\<rparr>"

definition DashboardMasterBlock_save :: "instant \<Rightarrow> bool \<Rightarrow> string option \<Rightarrow> master \<Rightarrow> master" where
  "DashboardMasterBlock_save now blocked reason m =
    (if blocked then block_master now (sent_or reason []) m else unblock_master m)"

text \<open>The internal API's reading and writing.\<close>

definition master_status :: "master \<Rightarrow> master_state" where
  "master_status m =
    (if is_blocked m \<or> \<not> ms_active m then Blocked
     else if \<not> is_available m then Busy
     else if is_online m then Active
     else Inactive)"

definition apply_master_status :: "instant \<Rightarrow> master_state \<Rightarrow> master \<Rightarrow> master" where
  "apply_master_status now st m =
    (case st of
       Blocked \<Rightarrow> block_master now (block_reason m) m
     | Busy \<Rightarrow> (unblock_master m)\<lparr>is_available := False\<rparr>
     | Active \<Rightarrow> (unblock_master m)\<lparr>is_available := True, is_online := True\<rparr>
     | Inactive \<Rightarrow> (unblock_master m)\<lparr>is_available := True, is_online := False\<rparr>)"

definition state_of :: "string \<Rightarrow> master_state option" where
  "state_of s =
    (if s = ''active'' then Some Active else if s = ''busy'' then Some Busy
     else if s = ''inactive'' then Some Inactive else if s = ''blocked'' then Some Blocked else None)"

section \<open>Views that edit one master\<close>

text \<open>\<open>get_object_or_404\<close>, the edit and \<open>master.save()\<close>, which hashes a raw password.\<close>

definition save_master :: "(string \<Rightarrow> string) \<Rightarrow> row_id \<Rightarrow> (master \<Rightarrow> master) \<Rightarrow> accounts_db \<Rightarrow> accounts_db res" where
  "save_master mk pk f db =
    (case get_row ms_id pk (masters db) of
       None \<Rightarrow> Inl (NotFound ''Master'')
     | Some m \<Rightarrow> Inr (db\<lparr>masters := upd_row ms_id pk (\<lambda>m. save_password mk (f m)) (masters db)\<rparr>))"

text \<open>The same with \<open>update_fields\<close>: only the fields the edit sets are written.\<close>

definition save_master_fields :: "row_id \<Rightarrow> (master \<Rightarrow> master) \<Rightarrow> accounts_db \<Rightarrow> accounts_db res" where
  "save_master_fields pk f db =
    (case get_row ms_id pk (masters db) of
       None \<Rightarrow> Inl (NotFound ''Master'')
     | Some m \<Rightarrow> Inr (db\<lparr>masters := upd_row ms_id pk f (masters db)\<rparr>))"

definition DashboardMasterBlock_post ::
  "(string \<Rightarrow> string) \<Rightarrow> instant \<Rightarrow> row_id \<Rightarrow> bool \<Rightarrow> string option \<Rightarrow> accounts_db \<Rightarrow> accounts_db res" where
  "DashboardMasterBlock_post mk now pk blocked reason = save_master mk pk (DashboardMasterBlock_save now blocked reason)"

definition DashboardMasterStatus_patch :: "row_id \<Rightarrow> master_state \<Rightarrow> accounts_db \<Rightarrow> accounts_db res" where
  "DashboardMasterStatus_patch pk st = save_master_fields pk (DashboardMasterStatus_save st)"

definition DashboardMasterLocation_patch ::
  "instant \<Rightarrow> row_id \<Rightarrow> int \<Rightarrow> int \<Rightarrow> bool option \<Rightarrow> bool option \<Rightarrow> accounts_db \<Rightarrow> accounts_db res" where
  "DashboardMasterLocation_patch now pk lat lng online avail =
    save_master_fields pk (DashboardMasterLocation_save now lat lng online avail)"

definition MasterStatusAPIView_patch ::
  "(string \<Rightarrow> string) \<Rightarrow> instant \<Rightarrow> row_id \<Rightarrow> string \<Rightarrow> accounts_db \<Rightarrow> accounts_db res" where
  "MasterStatusAPIView_patch mk now pk value db =
    (case get_row ms_id pk (masters db) of
       None \<Rightarrow> Inl (NotFound ''Master'')
     | Some _ \<Rightarrow> (case state_of value of
                    None \<Rightarrow> Inl (ValidationError ''Status noto'g'ri'')
                  | Some st \<Rightarrow> save_master mk pk (apply_master_status now st) db))"

definition MasterBlockAPIView_patch :: "(string \<Rightarrow> string) \<Rightarrow> instant \<Rightarrow> row_id \<Rightarrow> bool \<Rightarrow> accounts_db \<Rightarrow> accounts_db res" where
  "MasterBlockAPIView_patch mk now pk blocked = save_master mk pk (apply_master_status now (if blocked then Blocked else Active))"

text \<open>The fields of the dashboard's master form a request may carry.\<close>

record master_form =
  mf_phone :: "string option"
  mf_first_name :: "string option"
  mf_last_name :: "string option"
  mf_specialization :: "string option"
  mf_daraja :: "master_level option option"
  mf_address :: "string option"
  mf_approval :: "approval_status option"
  mf_rejected_reason :: "string option"
  mf_password :: "string option"
  mf_online :: "bool option"
  mf_available :: "bool option"
  mf_blocked :: "bool option"
  mf_block_reason :: "string option"
  mf_lat :: "int option option"
  mf_lng :: "int option option"
  mf_language :: "language option"
  mf_notifications :: "bool option"
  mf_push :: "bool option"
  mf_active :: "bool option"

text \<open>\<open>ModelSerializer.update\<close>: the fields sent are set.\<close>

definition set_fields :: "master_form \<Rightarrow> master \<Rightarrow> master" where
  "set_fields f m = m\<lparr>ms_phone := sent_or (mf_phone f) (ms_phone m), ms_first_name := sent_or (mf_first_name f) (ms_first_name m),
     ms_last_name := sent_or (mf_last_name f) (ms_last_name m), specialization := sent_or (mf_specialization f) (specialization m),
     daraja := sent_or (mf_daraja f) (daraja m), ms_address := sent_or (mf_address f) (ms_address m),
     approval_status := sent_or (mf_approval f) (approval_status m),
     ms_rejected_reason := sent_or (mf_rejected_reason f) (ms_rejected_reason m),
     is_online := sent_or (mf_online f) (is_online m), is_available := sent_or (mf_available f) (is_available m),
     is_blocked := sent_or (mf_blocked f) (is_blocked m), block_reason := sent_or (mf_block_reason f) (block_reason m),
     ms_lat := sent_or (mf_lat f) (ms_lat m), ms_lng := sent_or (mf_lng f) (ms_lng m),
     ms_language := sent_or (mf_language f) (ms_language m), ms_notifications := sent_or (mf_notifications f) (ms_notifications m),
     ms_push := sent_or (mf_push f) (ms_push m), ms_active := sent_or (mf_active f) (ms_active m)\<rparr>"

definition approval_effect :: "instant \<Rightarrow> approval_status option \<Rightarrow> master \<Rightarrow> master" where
  "approval_effect now a m =
    (case a of
       Some APPROVED \<Rightarrow> m\<lparr>ms_active := True, approved_at := Some now, ms_rejected_reason := []\<rparr>
     | Some REJECTED_APPROVAL \<Rightarrow> m\<lparr>ms_active := False, approved_at := None\<rparr>
     | _ \<Rightarrow> m)"

definition new_password :: "(string \<Rightarrow> string) \<Rightarrow> string option \<Rightarrow> master \<Rightarrow> master" where
  "new_password mk p m = (case p of Some (c # cs) \<Rightarrow> m\<lparr>ms_password := mk (c # cs)\<rparr> | _ \<Rightarrow> m)"

definition DashboardMaster_update :: "(string \<Rightarrow> string) \<Rightarrow> instant \<Rightarrow> master_form \<Rightarrow> master \<Rightarrow> master" where
  "DashboardMaster_update mk now f m =
    save_password mk (set_fields f (new_password mk (mf_password f) (approval_effect now (mf_approval f) m)))"

text \<open>The phone number is unique among the other masters.\<close>

definition phone_free :: "row_id option \<Rightarrow> string option \<Rightarrow> accounts_db \<Rightarrow> bool" where
  "phone_free self phone db =
    (case phone of None \<Rightarrow> True
     | Some p \<Rightarrow> \<not> list_ex (\<lambda>m. ms_phone m = p \<and> (case self of None \<Rightarrow> True | Some k \<Rightarrow> ms_id m \<noteq> k)) (masters db))"

definition DashboardMasterDetail_patch ::
  "(string \<Rightarrow> string) \<Rightarrow> instant \<Rightarrow> row_id \<Rightarrow> master_form \<Rightarrow> accounts_db \<Rightarrow> accounts_db res" where
  "DashboardMasterDetail_patch mk now pk f db =
    (case get_row ms_id pk (masters db) of
       None \<Rightarrow> Inl (NotFound ''Master'')
     | Some _ \<Rightarrow>
         if \<not> phone_free (Some pk) (mf_phone f) db then Inl (ValidationError ''phone: unique'')
         else Inr (db\<lparr>masters := upd_row ms_id pk (DashboardMaster_update mk now f) (masters db)\<rparr>))"

text \<open>A master created by the back office: the defaults of the model, approved and active.\<close>

definition default_master :: "row_id \<Rightarrow> string \<Rightarrow> string \<Rightarrow> master" where
  "default_master k phone first_name =
    \<lparr>ms_id = k, ms_phone = phone, ms_first_name = first_name, ms_last_name = [], ms_password = [], specialization = [],
     daraja = None, ms_address = [], approval_status = APPROVED, approved_at = None, ms_rejected_reason = [],
     is_online = False, is_available = True, is_blocked = False, blocked_at = None, block_reason = [], ms_lat = None,
     ms_lng = None, last_location_at = None, ms_language = LANG_UZ, ms_notifications = True, ms_push = True,
     ms_fcm_token = [], ms_active = True\<rparr>"

definition DashboardMasterList_create :: "(string \<Rightarrow> string) \<Rightarrow> master_form \<Rightarrow> accounts_db \<Rightarrow> accounts_db res" where
  "DashboardMasterList_create mk f db =
    (case (mf_phone f, mf_first_name f) of
       (Some p, Some n) \<Rightarrow>
         if \<not> phone_free None (Some p) db then Inl (ValidationError ''phone: unique'')
         else let m = set_fields f (default_master (fresh_id ms_id (masters db)) p n)
              in Inr (db\<lparr>masters := add_row (save_password mk (m\<lparr>ms_password := sent_or (mf_password f) []\<rparr>)) (masters db)\<rparr>)
     | _ \<Rightarrow> Inl (ValidationError ''required''))"

section \<open>Internal API: create and update\<close>

text \<open>\<open>str.partition\<close> at the first space, after stripping.\<close>

definition split_full_name :: "string \<Rightarrow> string \<times> string" where
  "split_full_name value =
    (let v = strip value
     in (takeWhile (\<lambda>c. c \<noteq> CHR '' '') v, tl (dropWhile (\<lambda>c. c \<noteq> CHR '' '') v)))"

record internal_master_form =
  im_fields :: master_form
  im_full_name :: "string option"
  im_role :: "string option"
  im_status :: "master_state option"

definition blank :: "string option \<Rightarrow> bool" where
  "blank s = (case s of None \<Rightarrow> True | Some v \<Rightarrow> v = [])"

definition InternalMasterWrite_validate :: "internal_master_form \<Rightarrow> master_form" where
  "InternalMasterWrite_validate i =
    (let f = im_fields i;
         name = strip (sent_or (im_full_name i) []);
         rl = strip (sent_or (im_role i) []);
         f1 = (if name \<noteq> [] \<and> blank (mf_first_name f)
               then f\<lparr>mf_first_name := Some (fst (split_full_name name)), mf_last_name := Some (snd (split_full_name name))\<rparr> else f)
     in if rl \<noteq> [] \<and> blank (mf_specialization f1) then f1\<lparr>mf_specialization := Some rl\<rparr> else f1)"

definition InternalMasterWrite_update :: "(string \<Rightarrow> string) \<Rightarrow> instant \<Rightarrow> internal_master_form \<Rightarrow> master \<Rightarrow> master" where
  "InternalMasterWrite_update mk now i m =
    (let f = InternalMasterWrite_validate i;
         m1 = new_password mk (mf_password f) (set_fields f m);
         m2 = (case im_status i of None \<Rightarrow> m1 | Some st \<Rightarrow> apply_master_status now st m1)
     in save_password mk m2)"

definition MasterDetailAPIView_update ::
  "(string \<Rightarrow> string) \<Rightarrow> instant \<Rightarrow> row_id \<Rightarrow> internal_master_form \<Rightarrow> accounts_db \<Rightarrow> accounts_db res" where
  "MasterDetailAPIView_update mk now pk i db =
    (case get_row ms_id pk (masters db) of
       None \<Rightarrow> Inl (NotFound ''Master'')
     | Some _ \<Rightarrow>
         if \<not> phone_free (Some pk) (mf_phone (im_fields i)) db then Inl (ValidationError ''phone: unique'')
         else Inr (db\<lparr>masters := upd_row ms_id pk (InternalMasterWrite_update mk now i) (masters db)\<rparr>))"

section \<open>Admin actions\<close>

definition on_selected :: "row_id list \<Rightarrow> (master \<Rightarrow> master) \<Rightarrow> accounts_db \<Rightarrow> accounts_db" where
  "on_selected ks f db = db\<lparr>masters := map (\<lambda>m. if ms_id m \<in> set ks then f m else m) (masters db)\<rparr>"

definition approve_masters :: "instant \<Rightarrow> row_id list \<Rightarrow> accounts_db \<Rightarrow> accounts_db" where
  "approve_masters now ks = on_selected ks (\<lambda>m. m\<lparr>approval_status := APPROVED, ms_active := True, ms_rejected_reason := [],
     approved_at := Some now\<rparr>)"

definition reject_masters :: "row_id list \<Rightarrow> accounts_db \<Rightarrow> accounts_db" where
  "reject_masters ks = on_selected ks (\<lambda>m. m\<lparr>approval_status := REJECTED_APPROVAL, ms_active := False, approved_at := None\<rparr>)"

definition block_masters :: "instant \<Rightarrow> row_id list \<Rightarrow> accounts_db \<Rightarrow> accounts_db" where
  "block_masters now ks = on_selected ks (block_master now [])"

definition unblock_masters :: "row_id list \<Rightarrow> accounts_db \<Rightarrow> accounts_db" where
  "unblock_masters ks = on_selected ks unblock_master"

section \<open>Lists\<close>

text \<open>\<open>str.split(",")\<close>.\<close>

fun split_commas :: "string \<Rightarrow> string list" where
  "split_commas [] = [[]]"
| "split_commas (c # cs) =
    (if c = CHR '','' then [] # split_commas cs
     else case split_commas cs of w # ws \<Rightarrow> (c # w) # ws | [] \<Rightarrow> [[c]])"

definition filter_masters_by_specialization :: "string \<Rightarrow> master list \<Rightarrow> master list" where
  "filter_masters_by_specialization raw ms =
    (let terms = filter (\<lambda>t. t \<noteq> []) (map strip (split_commas raw))
     in if raw = [] \<or> terms = [] then ms
        else filter (\<lambda>m. list_ex (icontains (specialization m)) terms) ms)"

definition specialization_counts :: "master list \<Rightarrow> (string \<times> nat) list" where
  "specialization_counts ms =
    map (\<lambda>s. (s, length (filter (\<lambda>m. specialization m = s) ms)))
      (remdups (filter (\<lambda>s. s \<noteq> []) (map specialization ms)))"

definition search_masters :: "string \<Rightarrow> master list \<Rightarrow> master list" where
  "search_masters s ms =
    (if s = [] then ms
     else filter (\<lambda>m. icontains (ms_first_name m) s \<or> icontains (ms_last_name m) s \<or> icontains (ms_phone m) s) ms)"

definition DashboardMasterList_get_queryset :: "query \<Rightarrow> accounts_db \<Rightarrow> master list" where
  "DashboardMasterList_get_queryset q db =
    (let ms = filter_masters_by_specialization (param q ''specialization'') (search_masters (param q ''search'') (rev (masters db)))
     in case state_of (param q ''status'') of
          None \<Rightarrow> ms
        | Some Active \<Rightarrow> filter (\<lambda>m. \<not> is_blocked m \<and> ms_active m \<and> is_online m \<and> is_available m) ms
        | Some Busy \<Rightarrow> filter (\<lambda>m. \<not> is_blocked m \<and> ms_active m \<and> is_online m \<and> \<not> is_available m) ms
        | Some Inactive \<Rightarrow> filter (\<lambda>m. \<not> is_blocked m \<and> ms_active m \<and> \<not> is_online m) ms
        | Some Blocked \<Rightarrow> filter is_blocked ms)"

definition DashboardAvailableMasters_get_queryset :: "accounts_db \<Rightarrow> master list" where
  "DashboardAvailableMasters_get_queryset db =
    filter (\<lambda>m. \<not> is_blocked m \<and> ms_active m \<and> is_online m \<and> is_available m) (masters db)"

definition DashboardBlockedMasterList_get_queryset :: "query \<Rightarrow> accounts_db \<Rightarrow> master list" where
  "DashboardBlockedMasterList_get_queryset q db =
    filter_masters_by_specialization (param q ''specialization'') (search_masters (param q ''search'') (filter is_blocked (masters db)))"

definition approval_of :: "string \<Rightarrow> approval_status" where
  "approval_of s = (if s = ''approved'' then APPROVED else if s = ''rejected'' then REJECTED_APPROVAL else PENDING_APPROVAL)"

definition DashboardMasterApplicationList_get_queryset :: "query \<Rightarrow> accounts_db \<Rightarrow> master list" where
  "DashboardMasterApplicationList_get_queryset q db =
    filter_masters_by_specialization (param q ''specialization'')
      (search_masters (param q ''search'')
        (filter (\<lambda>m. approval_status m = approval_of (param q ''approval_status'')) (rev (masters db))))"

definition MasterCollectionAPIView_get_queryset :: "query \<Rightarrow> accounts_db \<Rightarrow> master list" where
  "MasterCollectionAPIView_get_queryset q db =
    (let s = (if param q ''search'' \<noteq> [] then param q ''search'' else param q ''q'');
         found = (if s = [] then masters db
                  else filter (\<lambda>m. icontains (ms_first_name m) s \<or> icontains (ms_last_name m) s \<or> icontains (ms_phone m) s
                                 \<or> icontains (specialization m) s) (masters db));
         ms = filter_masters_by_specialization (param q ''specialization'') found
     in case state_of (param q ''status'') of None \<Rightarrow> ms | Some st \<Rightarrow> filter (\<lambda>m. master_status m = st) ms)"

definition AvailableMastersAPIView_get_queryset :: "accounts_db \<Rightarrow> master list" where
  "AvailableMastersAPIView_get_queryset db = filter (\<lambda>m. ms_active m \<and> is_available m) (masters db)"

definition MasterStats_counts :: "accounts_db \<Rightarrow> master_state \<Rightarrow> nat" where
  "MasterStats_counts db st = length (filter (\<lambda>m. master_status m = st) (masters db))"

end
