(* ===== verification/Master_Props.thy ===== *)
theory Master_Props
  imports Master_Admin
begin

text \<open>
  Properties of the moderation of masters: what a status set through one interface reads as,
  and whom a block keeps out.
\<close>

lemma save_password_fields [simp]:
  "ms_id (save_password mk m) = ms_id m" "ms_phone (save_password mk m) = ms_phone m"
  "ms_active (save_password mk m) = ms_active m" "approval_status (save_password mk m) = approval_status m"
  "is_blocked (save_password mk m) = is_blocked m" "is_online (save_password mk m) = is_online m"
  "is_available (save_password mk m) = is_available m"
  by (simp_all add: save_password_def)

lemma block_master_fields [simp]:
  "ms_id (block_master now r m) = ms_id m" "ms_phone (block_master now r m) = ms_phone m"
  "\<not> ms_active (block_master now r m)" "is_blocked (block_master now r m)"
  "approval_status (block_master now r m) = approval_status m"
  by (simp_all add: block_master_def)

lemma unblock_master_fields [simp]:
  "ms_id (unblock_master m) = ms_id m" "ms_phone (unblock_master m) = ms_phone m"
  "ms_active (unblock_master m)" "\<not> is_blocked (unblock_master m)"
  "approval_status (unblock_master m) = approval_status m"
  by (simp_all add: unblock_master_def)

lemma apply_status_id [simp]: "ms_id (apply_master_status now st m) = ms_id m"
  by (cases st) (simp_all add: apply_master_status_def)

lemma master_status_apply: "master_status (apply_master_status now st m) = st"
  by (cases st) (simp_all add: master_status_def apply_master_status_def)

lemma master_status_save [simp]: "master_status (save_password mk m) = master_status m"
  by (simp add: master_status_def)

lemma status_partition:
  "MasterStats_counts db Active + MasterStats_counts db Busy + MasterStats_counts db Inactive + MasterStats_counts db Blocked =
    length (masters db)"
proof -
  have "length (filter (\<lambda>m. master_status m = Active) ms) + length (filter (\<lambda>m. master_status m = Busy) ms) +
      length (filter (\<lambda>m. master_status m = Inactive) ms) + length (filter (\<lambda>m. master_status m = Blocked) ms) = length ms" for ms
    by (induction ms) (auto, metis master_state.exhaust)
  then show ?thesis by (simp add: MasterStats_counts_def)
qed

definition mk_id :: "string \<Rightarrow> string" where
  "mk_id s = ''pbkdf2_'' @ s"

text \<open>A status written through the internal API is the status it reads back, whatever the
  master's flags were, and no other master changes; the four counts of the statistics
  always add up to the number of masters.\<close>

theorem internal_status_round_trip:
  assumes "MasterStatusAPIView_patch mk now pk value db = Inr db'"
  shows "(\<exists>m. get_row ms_id pk (masters db') = Some m \<and> state_of value = Some (master_status m)) \<and>
    (k = pk \<or> get_row ms_id k (masters db') = get_row ms_id k (masters db)) \<and>
    MasterStats_counts db' Active + MasterStats_counts db' Busy + MasterStats_counts db' Inactive + MasterStats_counts db' Blocked =
      length (masters db)"
proof -
  obtain m st where m: "get_row ms_id pk (masters db) = Some m" and st: "state_of value = Some st"
    and db': "db' = db\<lparr>masters := upd_row ms_id pk (\<lambda>m. save_password mk (apply_master_status now st m)) (masters db)\<rparr>"
    using assms by (auto simp: MasterStatusAPIView_patch_def save_master_def split: option.splits)
  have "length (masters db') = length (masters db)" by (simp add: db' upd_row_def)
  then show ?thesis using m st status_partition [of db'] by (simp add: db' get_row_upd master_status_apply)
qed

theorem internal_status_round_trip_witness:
  "\<exists>db'. MasterStatusAPIView_patch mk_id 7 3 ''busy'' (empty_accounts\<lparr>masters := [default_master 3 ''+998901112233'' ''Ali'']\<rparr>) = Inr db' \<and>
    MasterStats_counts db' Active + MasterStats_counts db' Busy + MasterStats_counts db' Inactive + MasterStats_counts db' Blocked = 1"
proof -
  let ?db = "empty_accounts\<lparr>masters := [default_master 3 ''+998901112233'' ''Ali'']\<rparr>"
  obtain db' where "MasterStatusAPIView_patch mk_id 7 3 ''busy'' ?db = Inr db'"
    by (simp add: MasterStatusAPIView_patch_def state_of_def save_master_def default_master_def)
  with internal_status_round_trip [OF this] show ?thesis by simp
qed

section \<open>Blocked masters\<close>

definition shut_out :: "(token \<Rightarrow> string) \<Rightarrow> (string \<Rightarrow> token option) \<Rightarrow> row_id \<Rightarrow> accounts_db \<Rightarrow> bool" where
  "shut_out sign verify k db =
    ((\<forall>check phone pw m. MasterLogin_validate check phone pw db = Inr m \<longrightarrow> ms_id m \<noteq> k) \<and>
     (\<forall>now t m. get_role_user verify now t db = Some (MasterSubject m) \<longrightarrow> ms_id m \<noteq> k) \<and>
     (\<forall>now t m. authenticate verify now t db = Inr (Some (MasterSubject m)) \<longrightarrow> ms_id m \<noteq> k) \<and>
     (\<forall>now t tks tk. verify t = Some tk \<and> tk_role tk = RoleMaster \<and> Refresh_create sign verify now t db = Inr tks \<longrightarrow> tk_sub tk \<noteq> Some k))"

lemma active_masterD: "active_master k db = Some m \<Longrightarrow> ms_id m = k \<and> ms_active m \<and> approval_status m = APPROVED \<and> m \<in> set (masters db)"
  by (auto simp: active_master_def dest: get_row_SomeD)

lemma active_master_iff:
  "keys_distinct ms_id (masters db) \<Longrightarrow>
    active_master k db = Some m \<longleftrightarrow> get_row ms_id k (masters db) = Some m \<and> ms_active m \<and> approval_status m = APPROVED"
  by (simp add: active_master_def get_row_filter_iff)

lemma inactive_shut_out:
  assumes "\<And>m. m \<in> set (masters db) \<Longrightarrow> ms_id m = k \<Longrightarrow> \<not> (ms_active m \<and> approval_status m = APPROVED)"
  shows "shut_out sign verify k db"
  unfolding shut_out_def
proof (intro conjI allI impI)
  have none: "active_master k db = None" using assms active_masterD [of k db] by (cases "active_master k db") blast+
  have other: "ms_id m \<noteq> k" if "active_master j db = Some m" for j m
    using none active_masterD [OF that] that by auto
  show "ms_id m \<noteq> k" if "MasterLogin_validate check phone pw db = Inr m" for check phone pw m
    using that assms
    by (auto simp: MasterLogin_validate_def split: option.splits if_splits dest: get_row_in) (metis approval_status.exhaust get_row_in)
  show "ms_id m \<noteq> k" if "get_role_user verify now t db = Some (MasterSubject m)" for now t m
    using that by (auto simp: get_role_user_def split: option.splits role.splits dest: other)
  show "ms_id m \<noteq> k" if "authenticate verify now t db = Inr (Some (MasterSubject m))" for now t m
    using that by (auto simp: authenticate_def split: option.splits role.splits list.splits if_splits dest: other)
  show "tk_sub tk \<noteq> Some k" if "verify t = Some tk \<and> tk_role tk = RoleMaster \<and> Refresh_create sign verify now t db = Inr tks" for now t tks tk
    using that none by (auto simp: Refresh_create_def read_token_def split: if_splits)
qed

text \<open>C24: A block takes effect at once and on every way in: the master can neither log in with the
  password, nor use an access token issued before the block over REST or a websocket, nor
  exchange a refresh token. Lifting the block lets an approved master in again.\<close>

theorem blocked_master_locked_out:
  assumes "DashboardMasterBlock_post mk now pk True reason db = Inr db1" and "keys_distinct ms_id (masters db)"
  shows "shut_out sign verify pk db1 \<and>
    (\<exists>db2. DashboardMasterBlock_post mk now pk False reason' db1 = Inr db2 \<and>
      (active_master pk db2 \<noteq> None) = (\<exists>m. get_row ms_id pk (masters db) = Some m \<and> is_approved m))"
proof -
  let ?blk = "\<lambda>m. save_password mk (block_master now (sent_or reason []) m)"
  let ?un = "\<lambda>m. save_password mk (unblock_master m)"
  obtain m where m: "get_row ms_id pk (masters db) = Some m" and db1: "db1 = db\<lparr>masters := upd_row ms_id pk ?blk (masters db)\<rparr>"
    using assms(1) by (auto simp: DashboardMasterBlock_post_def save_master_def DashboardMasterBlock_save_def split: option.splits)
  let ?db2 = "db1\<lparr>masters := upd_row ms_id pk ?un (masters db1)\<rparr>"
  have "shut_out sign verify pk db1"
  proof (rule inactive_shut_out)
    fix r assume "r \<in> set (masters db1)" and "ms_id r = pk"
    then have u: "r \<in> set (upd_row ms_id pk ?blk (masters db))" and k: "ms_id r = pk" unfolding db1 by simp_all
    from in_upd_row [OF u] k obtain r0 where "r = ?blk r0" by (elim disjE bexE conjE) simp_all
    then show "\<not> (ms_active r \<and> approval_status r = APPROVED)" by simp
  qed
  moreover have "DashboardMasterBlock_post mk now pk False reason' db1 = Inr ?db2"
  proof -
    have "get_row ms_id pk (masters db1) = Some (?blk m)" using m by (simp add: db1 get_row_upd)
    then show ?thesis by (simp add: DashboardMasterBlock_post_def save_master_def DashboardMasterBlock_save_def)
  qed
  moreover have "(active_master pk ?db2 \<noteq> None) = is_approved m"
  proof -
    have d: "keys_distinct ms_id (masters ?db2)" using assms(2) by (simp add: db1 keys_distinct_upd)
    have "get_row ms_id pk (masters ?db2) = Some (?un (?blk m))" using m by (simp add: db1 get_row_upd)
    then have "active_master pk ?db2 = Some r \<longleftrightarrow> r = ?un (?blk m) \<and> is_approved m" for r
      using active_master_iff [OF d, of pk r] by (auto simp: is_approved_def)
    then show ?thesis by (cases "active_master pk ?db2") auto
  qed
  ultimately show ?thesis using m by auto
qed

theorem blocked_master_locked_out_witness:
  "\<exists>db1. DashboardMasterBlock_post mk_id 7 3 True None (empty_accounts\<lparr>masters := [default_master 3 ''+998901112233'' ''Ali'']\<rparr>) = Inr db1 \<and>
    shut_out plain_sign plain_verify 3 db1"
proof -
  let ?db = "empty_accounts\<lparr>masters := [default_master 3 ''+998901112233'' ''Ali'']\<rparr>"
  obtain db1 where r: "DashboardMasterBlock_post mk_id 7 3 True None ?db = Inr db1"
    by (simp add: DashboardMasterBlock_post_def save_master_def default_master_def)
  have "keys_distinct ms_id (masters ?db)" by (simp add: keys_distinct_def)
  with blocked_master_locked_out [OF r] r show ?thesis by blast
qed

text \<open>The dashboard's status form sets what it reads back only for masters that are not blocked.
  On a blocked master it leaves the block in place and the account active: the dashboard goes
  on showing the master as blocked while the master's token is accepted.\<close>

theorem status_form_readmits_blocked:
  assumes "DashboardMasterStatus_patch pk st db = Inr db'" and "get_row ms_id pk (masters db) = Some m"
    and "keys_distinct ms_id (masters db)"
  shows "\<exists>m'. get_row ms_id pk (masters db') = Some m' \<and> is_blocked m' = is_blocked m \<and>
    (get_status m' = st) = (st = Blocked \<or> \<not> is_blocked m) \<and>
    (active_master pk db' = Some m') = (st \<noteq> Blocked \<and> is_approved m)"
proof -
  let ?m' = "DashboardMasterStatus_save st m"
  have db': "db' = db\<lparr>masters := upd_row ms_id pk (DashboardMasterStatus_save st) (masters db)\<rparr>"
    using assms(1,2) by (simp add: DashboardMasterStatus_patch_def save_master_fields_def)
  have id: "ms_id (DashboardMasterStatus_save st r) = ms_id r" for r by (cases st) (simp_all add: DashboardMasterStatus_save_def)
  have row: "get_row ms_id pk (masters db') = Some ?m'" using assms(2) by (simp add: db' get_row_upd id)
  have d: "keys_distinct ms_id (masters db')" using assms(3) by (simp add: db' keys_distinct_upd id)
  have "(active_master pk db' = Some ?m') = (st \<noteq> Blocked \<and> is_approved m)"
    using active_master_iff [OF d, of pk ?m'] row by (cases st) (simp_all add: is_approved_def DashboardMasterStatus_save_def)
  moreover have "is_blocked ?m' = is_blocked m" "(get_status ?m' = st) = (st = Blocked \<or> \<not> is_blocked m)"
    by (cases st; simp add: DashboardMasterStatus_save_def get_status_def)+
  ultimately show ?thesis using row by blast
qed

theorem status_form_readmits_blocked_witness:
  "\<exists>db' m'. DashboardMasterStatus_patch 3 Active (empty_accounts\<lparr>masters := [block_master 7 [] (default_master 3 ''+998901112233'' ''Ali'')]\<rparr>) = Inr db' \<and>
     is_blocked m' \<and> get_status m' \<noteq> Active \<and> active_master 3 db' = Some m'"
proof -
  let ?m = "block_master 7 [] (default_master 3 ''+998901112233'' ''Ali'')"
  let ?db = "empty_accounts\<lparr>masters := [?m]\<rparr>"
  have g: "get_row ms_id 3 (masters ?db) = Some ?m" and "keys_distinct ms_id (masters ?db)" and a: "is_approved ?m"
    by (simp_all add: keys_distinct_def default_master_def is_approved_def)
  moreover obtain db' where r: "DashboardMasterStatus_patch 3 Active ?db = Inr db'"
    using g by (simp add: DashboardMasterStatus_patch_def save_master_fields_def)
  ultimately have "\<exists>m'. get_row ms_id 3 (masters db') = Some m' \<and> is_blocked m' = is_blocked ?m \<and>
    (get_status m' = Active) = (Active = Blocked \<or> \<not> is_blocked ?m) \<and>
    (active_master 3 db' = Some m') = (Active \<noteq> Blocked \<and> is_approved ?m)"
    using status_form_readmits_blocked [OF r g] by blast
  then show ?thesis using r a by auto
qed

end
