(* ===== verification/Tracking.thy ===== *)
theory Tracking
  imports Order_Props Accounts
begin

text \<open>
  Live tracking of an order: \<open>src/apps/orders/tracking.py\<close>, the location endpoint and the
  tracking views of \<open>src/apps/orders/views.py\<close>, and the websocket consumers
  \<open>src/apps/orders/consumers.py\<close>.

  \<^item> Coordinates are counted in units of \<open>10 ^ -8\<close> degrees, distances in hundredths of a
    kilometre. The great-circle distance (floating point trigonometry) is a parameter \<open>dist\<close>.
  \<^item> Location updates write the master and the tracking rows of orders, so they act on the
    pair of the account tables and the order tables.
\<close>

section \<open>Steps\<close>

definition TRACKING_STEPS :: "(order_status \<times> string \<times> string) list" where
  "TRACKING_STEPS =
    [(NEW, ''searching_master'', ''Usta qidirilmoqda''), (ACCEPTED, ''master_accepted'', ''Usta qabul qildi''),
     (ON_WAY, ''master_on_way'', ''Usta yo'lda''), (ARRIVED, ''master_arrived'', ''Usta yetib keldi''),
     (COMPLETED, ''master_finished'', ''Usta ishni tugatgan'')]"

definition RECEIPT_READY_STATUSES :: "order_status list" where
  "RECEIPT_READY_STATUSES = [AWAITING_PAYMENT, COMPLETED]"

fun status_display :: "order_status \<Rightarrow> string" where
  "status_display NEW = ''Yangi''"
| "status_display ACCEPTED = ''Qabul qilindi''"
| "status_display ON_WAY = ''Yo'lda''"
| "status_display ARRIVED = ''Yetib keldi''"
| "status_display AWAITING_PAYMENT = ''To'lov kutilmoqda''"
| "status_display COMPLETED = ''Yakunlandi''"
| "status_display CANCELLED = ''Bekor qilindi''"
| "status_display REJECTED = ''Rad etildi''"

fun status_value :: "order_status \<Rightarrow> string" where
  "status_value NEW = ''new''"
| "status_value ACCEPTED = ''accepted''"
| "status_value ON_WAY = ''on_way''"
| "status_value ARRIVED = ''arrived''"
| "status_value AWAITING_PAYMENT = ''awaiting_payment''"
| "status_value COMPLETED = ''completed''"
| "status_value CANCELLED = ''cancelled''"
| "status_value REJECTED = ''rejected''"

definition TERMINAL_STATUS_LABELS :: "order_status \<Rightarrow> (string \<times> string) option" where
  "TERMINAL_STATUS_LABELS st =
    (if st = CANCELLED then Some (''cancelled'', ''Buyurtma bekor qilingan'')
     else if st = REJECTED then Some (''rejected'', ''Buyurtma rad etilgan'') else None)"

record tracking_step =
  st_key :: string
  st_status :: order_status
  st_label :: string
  st_step :: nat
  st_is_active :: bool
  st_is_completed :: bool

record tracking_view =
  tv_key :: string
  tv_label :: string
  tv_step :: "nat option"
  tv_total :: nat
  tv_steps :: "tracking_step list"

text \<open>\<open>next(... enumerate ...)\<close>: the position of the first step with the status.\<close>

fun step_index :: "order_status \<Rightarrow> (order_status \<times> string \<times> string) list \<Rightarrow> nat option" where
  "step_index st [] = None"
| "step_index st ((s, k, l) # rest) = (if s = st then Some 0 else map_option Suc (step_index st rest))"

definition tracking_state :: "order_status \<Rightarrow> tracking_view" where
  "tracking_state status =
    (let st = (if status = AWAITING_PAYMENT then COMPLETED else status);
         current = step_index st TRACKING_STEPS;
         (key, label) = (case current of
            None \<Rightarrow> (case TERMINAL_STATUS_LABELS status of
                Some kl \<Rightarrow> kl | None \<Rightarrow> (status_value status, status_display status))
          | Some i \<Rightarrow> snd (TRACKING_STEPS ! i))
     in \<lparr>tv_key = key, tv_label = label, tv_step = map_option Suc current, tv_total = length TRACKING_STEPS,
         tv_steps = map (\<lambda>(i, s, k, l). \<lparr>st_key = k, st_status = s, st_label = l, st_step = Suc i,
             st_is_active = (current = Some i),
             st_is_completed = (case current of None \<Rightarrow> False | Some c \<Rightarrow> i \<le> c)\<rparr>) (enumerate 0 TRACKING_STEPS)\<rparr>)"

section \<open>Distance and time of arrival\<close>

type_synonym distance_fun = "int \<Rightarrow> int \<Rightarrow> int \<Rightarrow> int \<Rightarrow> int"

definition distance_km :: "distance_fun \<Rightarrow> int option \<Rightarrow> int option \<Rightarrow> int option \<Rightarrow> int option \<Rightarrow> int option" where
  "distance_km dist a b c d =
    (case (a, b, c, d) of (Some lat1, Some lng1, Some lat2, Some lng2) \<Rightarrow> Some (dist lat1 lng1 lat2 lng2) | _ \<Rightarrow> None)"

text \<open>\<open>max(int(round(distance / speed * 60)), 1)\<close> with the distance in hundredths.\<close>

definition eta_minutes :: "int option \<Rightarrow> int \<Rightarrow> nat option" where
  "eta_minutes distance speed =
    (case distance of
       None \<Rightarrow> None
     | Some d \<Rightarrow>
         let v = (if speed \<le> 0 then 30 else speed)
         in Some (nat (max (round_half_even (d * 60) (v * 100)) 1)))"

section \<open>Payload\<close>

text \<open>\<open>a or b\<close> on optional numbers: zero counts as missing.\<close>

definition or_num :: "'a::zero option \<Rightarrow> 'a option \<Rightarrow> 'a option" where
  "or_num a b = (case a of None \<Rightarrow> b | Some x \<Rightarrow> if x = 0 then b else Some x)"

record tracking_payload =
  tp_order :: row_id
  tp_status :: order_status
  tp_state :: tracking_view
  tp_receipt_approved :: bool
  tp_receipt_available :: bool
  tp_receipt_url :: "row_id option"
  tp_master :: "row_id option"
  tp_master_phone :: "string option"
  tp_lat :: "int option"
  tp_lng :: "int option"
  tp_distance :: "int option"
  tp_eta :: "nat option"

definition master_of :: "order \<Rightarrow> accounts_db \<Rightarrow> master option" where
  "master_of ord a = (case o_master ord of None \<Rightarrow> None | Some k \<Rightarrow> get_row ms_id k (masters a))"

definition build_payload :: "distance_fun \<Rightarrow> order \<Rightarrow> accounts_db \<Rightarrow> sys \<Rightarrow> tracking_payload" where
  "build_payload dist ord a s =
    (let tr = get_row ot_order (o_id ord) (trackings s);
         m = master_of ord a;
         lat = or_num (Option.bind tr master_lat) (Option.bind m ms_lat);
         lng = or_num (Option.bind tr master_lng) (Option.bind m ms_lng);
         stored = Option.bind tr ot_distance_km;
         d = (if stored = None then distance_km dist lat lng (Some (o_lat ord)) (Some (o_lng ord)) else stored);
         eta = or_num (Option.bind tr ot_eta_minutes) (eta_minutes d 30);
         ready = (o_status ord \<in> set RECEIPT_READY_STATUSES \<and> receipt_approved_at ord \<noteq> None)
     in \<lparr>tp_order = o_id ord, tp_status = o_status ord, tp_state = tracking_state (o_status ord),
         tp_receipt_approved = (receipt_approved_at ord \<noteq> None), tp_receipt_available = ready,
         tp_receipt_url = (if ready then Some (o_id ord) else None), tp_master = map_option ms_id m,
         tp_master_phone = map_option ms_phone m, tp_lat = lat, tp_lng = lng, tp_distance = d, tp_eta = eta\<rparr>)"

section \<open>Location updates\<close>

definition update_or_create_tracking :: "row_id \<Rightarrow> int \<Rightarrow> int \<Rightarrow> int option \<Rightarrow> nat option \<Rightarrow> sys \<Rightarrow> sys" where
  "update_or_create_tracking oid lat lng d eta s =
    (let row = \<lparr>ot_order = oid, master_lat = Some lat, master_lng = Some lng, ot_distance_km = d, ot_eta_minutes = eta\<rparr>
     in case get_row ot_order oid (trackings s) of
          None \<Rightarrow> s\<lparr>trackings := add_row row (trackings s)\<rparr>
        | Some _ \<Rightarrow> s\<lparr>trackings := upd_row ot_order oid (\<lambda>_. row) (trackings s)\<rparr>)"

text \<open>The orders one update reaches.\<close>

definition tracked_orders :: "row_id \<Rightarrow> row_id option \<Rightarrow> sys \<Rightarrow> order list" where
  "tracked_orders user oid s =
    (case oid of
       Some k \<Rightarrow> filter (\<lambda>ord. o_id ord = k \<and> o_master ord = Some user) (orders s)
     | None \<Rightarrow> filter (\<lambda>ord. o_master ord = Some user \<and> o_status ord \<in> set ACTIVE_ORDER_STATUSES) (orders s))"

definition refresh_one ::
  "distance_fun \<Rightarrow> int \<Rightarrow> int \<Rightarrow> int option \<Rightarrow> nat option \<Rightarrow> accounts_db \<Rightarrow> order \<Rightarrow> sys \<times> tracking_payload list \<Rightarrow>
    sys \<times> tracking_payload list" where
  "refresh_one dist lat lng dh eh a ord acc =
    (case acc of (s, ps) \<Rightarrow>
       let d = (case dh of None \<Rightarrow> distance_km dist (Some lat) (Some lng) (Some (o_lat ord)) (Some (o_lng ord)) | Some _ \<Rightarrow> dh);
           eta = (case eh of None \<Rightarrow> eta_minutes d 30 | Some _ \<Rightarrow> eh);
           s1 = update_or_create_tracking (o_id ord) lat lng d eta s
       in (s1, ps @ [build_payload dist ord a s1]))"

definition refresh_master_order_tracking ::
  "distance_fun \<Rightarrow> row_id \<Rightarrow> int \<Rightarrow> int \<Rightarrow> row_id option \<Rightarrow> int option \<Rightarrow> nat option \<Rightarrow> accounts_db \<Rightarrow> sys \<Rightarrow>
    sys \<times> tracking_payload list" where
  "refresh_master_order_tracking dist user lat lng oid dh eh a s =
    fold (refresh_one dist lat lng dh eh a) (tracked_orders user oid s) (s, [])"

record location_input =
  li_lat :: int
  li_lng :: int
  li_online :: "bool option"
  li_available :: "bool option"
  li_order :: "row_id option"
  li_distance :: "int option"
  li_eta :: "nat option"

text \<open>The position is saved before the order is looked up.\<close>

definition MasterLocationUpdateView_post ::
  "distance_fun \<Rightarrow> instant \<Rightarrow> row_id \<Rightarrow> location_input \<Rightarrow> accounts_db \<times> sys \<Rightarrow>
    (accounts_db \<times> sys) \<times> (tracking_payload list) res" where
  "MasterLocationUpdateView_post dist now user i db =
    (case db of (a, s) \<Rightarrow>
       let a1 = a\<lparr>masters := upd_row ms_id user (\<lambda>m. m\<lparr>ms_lat := Some (li_lat i), ms_lng := Some (li_lng i),
               is_online := sent_or (li_online i) True, is_available := sent_or (li_available i) True,
               last_location_at := Some now\<rparr>) (masters a)\<rparr>
       in if (\<exists>k. li_order i = Some k) \<and> tracked_orders user (li_order i) s = []
          then ((a1, s), Inl (NotFound ''Order''))
          else let (s1, ps) = refresh_master_order_tracking dist user (li_lat i) (li_lng i) (li_order i) (li_distance i) (li_eta i) a1 s
               in ((a1, s1), Inr ps))"

text \<open>A frame on the master's socket: text that is not JSON, JSON that is not an object, or an
  object; its coordinates are \<open>None\<close> when they are missing or not numbers. Saving the position of a
  master whose row was deleted meanwhile raises. An \<open>order_id\<close> that is
  not a UUID makes the query of the orders raise, after the position has been saved.\<close>

datatype frame =
    NotJson
  | NotAnObject
  | BadOrderId "int option" "int option"
  | LocationFrame "int option" "int option" "row_id option" "int option" "nat option"

datatype ws_reply =
    WsError string
  | WsSaved "tracking_payload list"
  | WsCrash

definition save_position :: "instant \<Rightarrow> row_id \<Rightarrow> int \<Rightarrow> int \<Rightarrow> accounts_db \<Rightarrow> accounts_db" where
  "save_position now user y x a =
    a\<lparr>masters := upd_row ms_id user (\<lambda>m. m\<lparr>ms_lat := Some y, ms_lng := Some x, last_location_at := Some now,
        is_online := True\<rparr>) (masters a)\<rparr>"

definition persist_master_location ::
  "distance_fun \<Rightarrow> instant \<Rightarrow> row_id \<Rightarrow> int option \<Rightarrow> int option \<Rightarrow> row_id option \<Rightarrow> int option \<Rightarrow> nat option \<Rightarrow>
    accounts_db \<times> sys \<Rightarrow> (accounts_db \<times> sys) \<times> tracking_payload list option" where
  "persist_master_location dist now user lat lng oid dh eh db =
    (case (lat, lng, db) of
       (Some y, Some x, (a, s)) \<Rightarrow>
         let a1 = save_position now user y x a;
             (s1, ps) = refresh_master_order_tracking dist user y x oid dh eh a1 s
         in ((a1, s1), if oid \<noteq> None \<and> ps = [] then None else Some ps)
     | _ \<Rightarrow> (db, None))"

definition MasterTrackingConsumer_receive ::
  "distance_fun \<Rightarrow> instant \<Rightarrow> row_id \<Rightarrow> frame \<Rightarrow> accounts_db \<times> sys \<Rightarrow> (accounts_db \<times> sys) \<times> ws_reply" where
  "MasterTrackingConsumer_receive dist now user f db =
    (case f of
       NotJson \<Rightarrow> (db, WsError ''invalid JSON payload'')
     | NotAnObject \<Rightarrow> (db, WsCrash)
     | BadOrderId (Some y) (Some x) \<Rightarrow> (case db of (a, s) \<Rightarrow> ((save_position now user y x a, s), WsCrash))
     | BadOrderId _ _ \<Rightarrow> (db, WsError ''lat/lng required (or order not found)'')
     | LocationFrame lat lng oid dh eh \<Rightarrow>
         if lat \<noteq> None \<and> lng \<noteq> None \<and> get_row ms_id user (masters (fst db)) = None then (db, WsCrash)
         else (case persist_master_location dist now user lat lng oid dh eh db of
            (db1, None) \<Rightarrow> (db1, WsError ''lat/lng required (or order not found)'')
          | (db1, Some ps) \<Rightarrow> (db1, WsSaved ps)))"

text \<open>Who may open the sockets and the tracking view.\<close>

definition MasterTrackingConsumer_connect :: "subject option \<Rightarrow> bool" where
  "MasterTrackingConsumer_connect u = IsMaster u"

definition client_can_track :: "row_id \<Rightarrow> row_id \<Rightarrow> sys \<Rightarrow> bool" where
  "client_can_track c oid s = list_ex (\<lambda>ord. o_id ord = oid \<and> o_client ord = c) (orders s)"

definition ClientTrackingConsumer_connect ::
  "distance_fun \<Rightarrow> subject option \<Rightarrow> row_id \<Rightarrow> accounts_db \<Rightarrow> sys \<Rightarrow> sys \<times> tracking_payload option" where
  "ClientTrackingConsumer_connect dist u oid a s =
    (case u of
       Some (ClientSubject c) \<Rightarrow>
         if client_can_track (cl_id c) oid s
         then (case get_row o_id oid (filter (\<lambda>ord. o_client ord = cl_id c) (orders s)) of
                 None \<Rightarrow> (s, None)
               | Some ord \<Rightarrow> let s1 = ensure_tracking oid s in (s1, Some (build_payload dist ord a s1)))
         else (s, None)
     | _ \<Rightarrow> (s, None))"

definition MasterOrderTrackView_get :: "distance_fun \<Rightarrow> row_id \<Rightarrow> row_id \<Rightarrow> accounts_db \<Rightarrow> sys \<Rightarrow> tracking_payload res" where
  "MasterOrderTrackView_get dist user pk a s =
    (case get_row o_id pk (filter (\<lambda>ord. o_master ord = Some user \<or>
        list_ex (\<lambda>r. om_order r = o_id ord \<and> om_master r = user \<and> om_active r) (order_masters s)) (orders s)) of
       None \<Rightarrow> Inl (NotFound ''Order'')
     | Some ord \<Rightarrow> Inr (build_payload dist ord a s))"

definition ClientOrderTrackView_get :: "distance_fun \<Rightarrow> row_id \<Rightarrow> row_id \<Rightarrow> accounts_db \<Rightarrow> sys \<Rightarrow> tracking_payload res" where
  "ClientOrderTrackView_get dist user pk a s =
    (case get_row o_id pk (filter (\<lambda>ord. o_client ord = user) (orders s)) of
       None \<Rightarrow> Inl (NotFound ''Order'')
     | Some ord \<Rightarrow> Inr (build_payload dist ord a s))"

end
