(* ===== verification/Tracking_Props.thy ===== *)
theory Tracking_Props
  imports Tracking Account_Props
begin

text \<open>
  Properties of the tracking screen and of location updates.
\<close>

section \<open>The steps of the screen\<close>

definition step_no :: "order_status \<Rightarrow> nat option" where
  "step_no st = tv_step (tracking_state st)"

lemma step_no_simps [simp]:
  "step_no NEW = Some 1" "step_no ACCEPTED = Some 2" "step_no ON_WAY = Some 3" "step_no ARRIVED = Some 4"
  "step_no AWAITING_PAYMENT = Some 5" "step_no COMPLETED = Some 5" "step_no CANCELLED = None" "step_no REJECTED = None"
  by (simp_all add: step_no_def tracking_state_def TRACKING_STEPS_def Let_def TERMINAL_STATUS_LABELS_def)

text \<open>No step back: the screen leaves the line of steps for good, or moves to a later step.\<close>

definition no_step_back :: "order_status \<Rightarrow> order_status \<Rightarrow> bool" where
  "no_step_back a b =
    (case step_no a of None \<Rightarrow> step_no b = None | Some i \<Rightarrow> (case step_no b of None \<Rightarrow> True | Some j \<Rightarrow> i \<le> j))"

lemma no_step_back_refl: "no_step_back a a"
  by (simp add: no_step_back_def split: option.split)

lemma no_step_back_trans: "no_step_back a b \<Longrightarrow> no_step_back b c \<Longrightarrow> no_step_back a c"
  by (auto simp: no_step_back_def split: option.splits)

lemma no_step_back_edge: "lifecycle_edge a b \<Longrightarrow> no_step_back a b"
  by (cases a; cases b) (simp_all add: no_step_back_def)

lemma steps_marked:
  "map st_is_completed (tv_steps (tracking_state st)) =
     (case step_no st of None \<Rightarrow> replicate 5 False | Some n \<Rightarrow> replicate n True @ replicate (5 - n) False)"
  "filter st_is_active (tv_steps (tracking_state st)) = [] \<longleftrightarrow> step_no st = None"
  "length (filter st_is_active (tv_steps (tracking_state st))) \<le> 1"
  by (cases st; simp add: tracking_state_def TRACKING_STEPS_def Let_def TERMINAL_STATUS_LABELS_def numeral_eq_Suc)+

text \<open>The client's tracking screen never goes back: whatever masters, the client and the
  payment provider do, the step shown for an order stays or moves forward, or the order has
  left the line of steps (cancelled, rejected) and stays out of it. The steps shown as done
  are exactly those up to the current one, and an order that waits for payment already
  shows the last step.\<close>

theorem tracking_never_goes_back:
  assumes "user_step\<^sup>*\<^sup>* s s'" and "order_inv s" and "get_order oid s = Some old"
  shows "\<exists>new. get_order oid s' = Some new \<and> no_step_back (o_status old) (o_status new) \<and>
    map st_is_completed (tv_steps (tracking_state (o_status new))) =
      (case step_no (o_status new) of None \<Rightarrow> replicate 5 False | Some n \<Rightarrow> replicate n True @ replicate (5 - n) False) \<and>
    length (filter st_is_active (tv_steps (tracking_state (o_status new)))) = (if step_no (o_status new) = None then 0 else 1) \<and>
    (o_status new = AWAITING_PAYMENT \<longrightarrow> step_no (o_status new) = Some (tv_total (tracking_state (o_status new))))"
proof -
  obtain new where new: "get_order oid s' = Some new" "no_step_back (o_status old) (o_status new)"
    using user_steps_relate [OF assms, of no_step_back] no_step_back_refl no_step_back_trans no_step_back_edge by blast
  have "length (filter st_is_active (tv_steps (tracking_state (o_status new)))) = (if step_no (o_status new) = None then 0 else 1)"
    using steps_marked(2,3) [of "o_status new"] by (cases "filter st_is_active (tv_steps (tracking_state (o_status new)))") auto
  moreover have "tv_total (tracking_state st) = 5" for st
    by (simp add: tracking_state_def TRACKING_STEPS_def Let_def case_prod_beta)
  ultimately show ?thesis using new steps_marked(1) by auto
qed

theorem tracking_never_goes_back_witness:
  "\<exists>new. get_order 1 paid_sys = Some new \<and> no_step_back AWAITING_PAYMENT (o_status new)"
proof -
  have "user_step\<^sup>*\<^sup>* checked_sys paid_sys" using example_steps(5) by blast
  moreover have "get_order 1 checked_sys = Some (hd (orders checked_sys))"
    and "o_status (hd (orders checked_sys)) = AWAITING_PAYMENT"
    by code_simp+
  ultimately show ?thesis using tracking_never_goes_back [OF _ checked_inv] by metis
qed

section \<open>Location updates\<close>

lemma update_or_create_row:
  "get_row ot_order k (trackings (update_or_create_tracking oid lat lng d eta s)) =
    (if k = oid then Some \<lparr>ot_order = oid, master_lat = Some lat, master_lng = Some lng, ot_distance_km = d, ot_eta_minutes = eta\<rparr>
     else get_row ot_order k (trackings s))"
  by (auto simp: update_or_create_tracking_def Let_def get_row_add get_row_replace split: option.splits)

lemma update_or_create_tables [simp]:
  "orders (update_or_create_tracking oid lat lng d eta s) = orders s"
  "wallet (update_or_create_tracking oid lat lng d eta s) = wallet s"
  "outbox (update_or_create_tracking oid lat lng d eta s) = outbox s"
  by (simp_all add: update_or_create_tracking_def Let_def split: option.split)

definition hint_eta :: "distance_fun \<Rightarrow> int \<Rightarrow> int \<Rightarrow> int option \<Rightarrow> nat option \<Rightarrow> order \<Rightarrow> nat" where
  "hint_eta dist lat lng dh eh ord =
    (case eh of Some n \<Rightarrow> n | None \<Rightarrow>
       the (eta_minutes (case dh of None \<Rightarrow> Some (dist lat lng (o_lat ord) (o_lng ord)) | Some _ \<Rightarrow> dh) 30))"

lemma eta_positive: "eta_minutes d v = Some n \<Longrightarrow> 1 \<le> n"
  by (auto simp: eta_minutes_def Let_def split: option.splits)

lemma hint_eta_positive: "eh \<noteq> Some 0 \<Longrightarrow> 1 \<le> hint_eta dist lat lng dh eh ord"
  by (cases eh; cases dh) (auto simp: hint_eta_def eta_minutes_def Let_def)

lemma refresh_one_eq:
  "refresh_one dist lat lng dh eh a ord (s, ps) =
    (let s1 = update_or_create_tracking (o_id ord) lat lng
         (case dh of None \<Rightarrow> Some (dist lat lng (o_lat ord) (o_lng ord)) | Some _ \<Rightarrow> dh) (Some (hint_eta dist lat lng dh eh ord)) s
     in (s1, ps @ [build_payload dist ord a s1]))"
  by (cases eh; cases dh) (simp_all add: refresh_one_def distance_km_def hint_eta_def eta_minutes_def Let_def)

lemma payload_order [simp]: "tp_order (build_payload dist ord a s) = o_id ord"
  by (simp add: build_payload_def Let_def)

lemma payload_fresh:
  assumes "get_row ot_order (o_id ord) (trackings s) =
      Some \<lparr>ot_order = o_id ord, master_lat = Some lat, master_lng = Some lng, ot_distance_km = d, ot_eta_minutes = Some n\<rparr>"
    and "lat \<noteq> 0" and "lng \<noteq> 0" and "1 \<le> n"
  shows "tp_lat (build_payload dist ord a s) = Some lat" "tp_lng (build_payload dist ord a s) = Some lng"
    "tp_eta (build_payload dist ord a s) = Some n"
  using assms by (simp_all add: build_payload_def or_num_def Let_def)

definition shows_position :: "int \<Rightarrow> int \<Rightarrow> tracking_payload \<Rightarrow> bool" where
  "shows_position lat lng p = (tp_lat p = Some lat \<and> tp_lng p = Some lng \<and> (\<exists>n \<ge> 1. tp_eta p = Some n))"

lemma refresh_fold:
  assumes "lat \<noteq> 0" and "lng \<noteq> 0" and "eh \<noteq> Some 0"
  shows "fold (refresh_one dist lat lng dh eh a) ords (s, ps) = (s', ps') \<Longrightarrow>
    map tp_order ps' = map tp_order ps @ map o_id ords \<and> orders s' = orders s \<and> wallet s' = wallet s \<and> outbox s' = outbox s \<and>
    (list_all (shows_position lat lng) ps \<longrightarrow> list_all (shows_position lat lng) ps') \<and>
    (\<forall>k. k \<notin> o_id ` set ords \<longrightarrow> get_row ot_order k (trackings s') = get_row ot_order k (trackings s))"
proof (induction ords arbitrary: s ps)
  case (Cons ord ords)
  let ?d = "case dh of None \<Rightarrow> Some (dist lat lng (o_lat ord) (o_lng ord)) | Some _ \<Rightarrow> dh"
  let ?s1 = "update_or_create_tracking (o_id ord) lat lng ?d (Some (hint_eta dist lat lng dh eh ord)) s"
  let ?p = "build_payload dist ord a ?s1"
  have run: "fold (refresh_one dist lat lng dh eh a) ords (?s1, ps @ [?p]) = (s', ps')"
    using Cons.prems by (simp add: refresh_one_eq Let_def)
  have pos: "1 \<le> hint_eta dist lat lng dh eh ord" by (rule hint_eta_positive [OF assms(3)])
  have "shows_position lat lng ?p"
    unfolding shows_position_def
    using payload_fresh [where s = ?s1 and ord = ord and d = ?d and n = "hint_eta dist lat lng dh eh ord", OF _ assms(1,2) pos] pos
    by (auto simp: update_or_create_row)
  with Cons.IH [OF run] show ?case by (auto simp: update_or_create_row)
qed simp

text \<open>C25: A position a master sends reaches the orders it should and no others: the order named
  in the request, which has to be the master's own, or else every order the master is
  working on. Each of them gets one broadcast that shows the new position and an arrival
  time of at least a minute; no other order's tracking changes, and no order, wallet or
  notification is touched. A foreign or unknown order is refused.\<close>

theorem location_reaches_own_orders:
  assumes "MasterLocationUpdateView_post dist now user i (a, s) = ((a', s'), r)"
    and "li_lat i \<noteq> 0" and "li_lng i \<noteq> 0" and "li_eta i \<noteq> Some 0"
  shows "(case r of
      Inr ps \<Rightarrow> map tp_order ps = map o_id (tracked_orders user (li_order i) s) \<and> list_all (shows_position (li_lat i) (li_lng i)) ps
    | Inl er \<Rightarrow> er = NotFound ''Order'' \<and> s' = s \<and> (\<exists>k. li_order i = Some k \<and> tracked_orders user (Some k) s = [])) \<and>
    orders s' = orders s \<and> wallet s' = wallet s \<and> outbox s' = outbox s \<and>
    (k \<in> o_id ` set (tracked_orders user (li_order i) s) \<or> get_row ot_order k (trackings s') = get_row ot_order k (trackings s)) \<and>
    list_all (\<lambda>ord. o_master ord = Some user) (tracked_orders user (li_order i) s)"
proof -
  have own: "list_all (\<lambda>ord. o_master ord = Some user) (tracked_orders user (li_order i) s)"
    by (auto simp: tracked_orders_def list_all_iff split: option.splits)
  show ?thesis
  proof (cases "(\<exists>k. li_order i = Some k) \<and> tracked_orders user (li_order i) s = []")
    case True
    then show ?thesis using assms(1) own by (auto simp: MasterLocationUpdateView_post_def Let_def)
  next
    case False
    then obtain a1 ps where r: "r = Inr ps" and
      run: "fold (refresh_one dist (li_lat i) (li_lng i) (li_distance i) (li_eta i) a1) (tracked_orders user (li_order i) s) (s, []) = (s', ps)"
      using assms(1) by (auto simp: MasterLocationUpdateView_post_def Let_def refresh_master_order_tracking_def simp del: not_ex split: prod.splits)
    from refresh_fold [OF assms(2-4) run] own r show ?thesis by auto
  qed
qed

definition example_location :: location_input where
  "example_location = \<lparr>li_lat = 4130100000, li_lng = 6925100000, li_online = None, li_available = None, li_order = None,
     li_distance = Some 120, li_eta = None\<rparr>"

theorem location_reaches_own_orders_witness:
  "\<exists>db ps. MasterLocationUpdateView_post (\<lambda>a b c d. 0) 6000 7 example_location (empty_accounts\<lparr>masters := []\<rparr>, accepted_sys) = (db, Inr ps) \<and>
     map tp_order ps = [1] \<and> list_all (shows_position 4130100000 6925100000) ps"
proof -
  obtain a' s' r where run:
    "MasterLocationUpdateView_post (\<lambda>a b c d. 0) 6000 7 example_location (empty_accounts\<lparr>masters := []\<rparr>, accepted_sys) = ((a', s'), r)"
    by (metis surj_pair)
  have orders: "map o_id (tracked_orders 7 None accepted_sys) = [1]" by code_simp
  from location_reaches_own_orders [OF run] orders run show ?thesis
    by (cases r) (auto simp: example_location_def)
qed

lemma bad_frames_crash:
  "snd (MasterTrackingConsumer_receive dist now user NotAnObject db) = WsCrash"
  "snd (MasterTrackingConsumer_receive dist now user (BadOrderId (Some y) (Some x)) db) = WsCrash"
  by (simp_all add: MasterTrackingConsumer_receive_def split: prod.split)

end
