(* ===== verification/Calendar.thy ===== *)
theory Calendar
  imports Prelude
begin

text \<open>
  Dates, as far as the reports of the backend use them: the ordinal of a date, its year, month
  and weekday, the first day of a month, and the local date of an instant. This is the
  proleptic Gregorian calendar of Python's \<open>datetime\<close>.

  The main result is \<open>in_month_range\<close>: filtering by year and month selects the days from the
  first of the month to the day before the first of the next.
\<close>

section \<open>Calendar\<close>

definition DAYS_BEFORE_MONTH :: "int list" where
  "DAYS_BEFORE_MONTH = [0, 0, 31, 59, 90, 120, 151, 181, 212, 243, 273, 304, 334]"

text \<open>Year and month of an ordinal, by cycles of 400, 100, 4 and 1 years.\<close>

definition ord2ym :: "int \<Rightarrow> int \<times> int" where
  "ord2ym d =
    (let n = d - 1;
         n400 = n div 146097; n' = n mod 146097;
         n100 = n' div 36524; n'' = n' mod 36524;
         n4 = n'' div 1461; n''' = n'' mod 1461;
         n1 = n''' div 365; k = n''' mod 365;
         year = 400 * n400 + 100 * n100 + 4 * n4 + n1 + 1
     in if n1 = 4 \<or> n100 = 4 then (year - 1, 12)
        else let leap = (n1 = 3 \<and> (n4 \<noteq> 24 \<or> n100 = 3));
                 m = (k + 50) div 32;
                 bef = DAYS_BEFORE_MONTH ! nat m + (if 2 < m \<and> leap then 1 else 0)
             in (year, if k < bef then m - 1 else m))"

definition year_of :: "int \<Rightarrow> int" where "year_of d = fst (ord2ym d)"

definition month_of :: "int \<Rightarrow> int" where "month_of d = snd (ord2ym d)"

definition weekday :: "int \<Rightarrow> nat" where "weekday d = nat ((d + 6) mod 7)"

definition is_leap :: "int \<Rightarrow> bool" where
  "is_leap y = (y mod 4 = 0 \<and> (y mod 100 \<noteq> 0 \<or> y mod 400 = 0))"

text \<open>The ordinal of a date; the year has to lie in the range of the type.\<close>

definition first_of_month :: "int \<Rightarrow> int \<Rightarrow> int" where
  "first_of_month y m =
    (let p = y - 1 in p * 365 + p div 4 - p div 100 + p div 400 + DAYS_BEFORE_MONTH ! nat m + (if 2 < m \<and> is_leap y then 1 else 0) + 1)"

definition make_date :: "int \<Rightarrow> int \<Rightarrow> int res" where
  "make_date y m = (if 1 \<le> y \<and> y \<le> 9999 then Inr (first_of_month y m) else Inl (ServerError ''year is out of range''))"

definition local_date :: "instant \<Rightarrow> int" where
  "local_date t = (t + 18000000) div 86400000 + 719163"

section \<open>The range of a month\<close>

text \<open>The days before a year, and the cycles they are made of.\<close>

definition days_before_year :: "int \<Rightarrow> int" where
  "days_before_year y = (let p = y - 1 in p * 365 + p div 4 - p div 100 + p div 400)"

definition next_first :: "int \<Rightarrow> int \<Rightarrow> int" where
  "next_first y m = (if m = 12 then first_of_month (y + 1) 1 else first_of_month y (m + 1))"

lemma mod_top: "1 \<le> z \<Longrightarrow> z \<le> n \<Longrightarrow> (z :: int) mod n = 0 \<longleftrightarrow> z = n"
  by (cases "z = n") auto

lemma div_pred:
  assumes "0 < (q :: int)"
  shows "y div q = (y - 1) div q + (if y mod q = 0 then 1 else 0)"
proof (cases "y mod q = 0")
  case True
  then have "y - 1 = q * (y div q - 1) + (q - 1)" using mult_div_mod_eq [of q y] by (simp add: right_diff_distrib)
  from int_div_pos_eq [OF this] assms True show ?thesis by simp
next
  case False
  have "0 \<le> y mod q" "y mod q < q" using assms by simp_all
  with False have "0 \<le> y mod q - 1" "y mod q - 1 < q" by linarith+
  moreover have "y - 1 = q * (y div q) + (y mod q - 1)" using mult_div_mod_eq [of q y] by simp
  ultimately have "(y - 1) div q = y div q" by (intro int_div_pos_eq [of "y - 1" q "y div q" "y mod q - 1"])
  then show ?thesis using False by simp
qed

lemma cycles:
  fixes a b c e :: int
  assumes "0 \<le> b" "b \<le> 3" "0 \<le> c" "c \<le> 24" "0 \<le> e" "e \<le> 3"
  defines "y \<equiv> 400 * a + 100 * b + 4 * c + e + 1"
  shows "days_before_year y = 146097 * a + 36524 * b + 1461 * c + 365 * e"
    and "is_leap y \<longleftrightarrow> e = 3 \<and> (c \<noteq> 24 \<or> b = 3)"
proof -
  have "(y - 1) div 4 = 100 * a + 25 * b + c" "(y - 1) div 100 = 4 * a + b" "(y - 1) div 400 = a"
    using assms by (simp_all add: y_def)
  then show "days_before_year y = 146097 * a + 36524 * b + 1461 * c + 365 * e"
    by (simp add: days_before_year_def Let_def y_def)
  have "y = (e + 1) + 4 * (100 * a + 25 * b + c)" by (simp add: y_def)
  then have "y mod 4 = (e + 1) mod 4" by (simp only: mod_mult_self2)
  moreover have "y = (4 * c + e + 1) + 100 * (4 * a + b)" by (simp add: y_def)
  then have "y mod 100 = (4 * c + e + 1) mod 100" by (simp only: mod_mult_self2)
  moreover have "y = (100 * b + 4 * c + e + 1) + 400 * a" by (simp add: y_def)
  then have "y mod 400 = (100 * b + 4 * c + e + 1) mod 400" by (simp only: mod_mult_self2)
  moreover have "(e + 1) mod 4 = 0 \<longleftrightarrow> e + 1 = 4" "(4 * c + e + 1) mod 100 = 0 \<longleftrightarrow> 4 * c + e + 1 = 100"
    "(100 * b + 4 * c + e + 1) mod 400 = 0 \<longleftrightarrow> 100 * b + 4 * c + e + 1 = 400"
    using assms(1-6) by (intro mod_top; simp)+
  ultimately have "y mod 4 = 0 \<longleftrightarrow> e + 1 = 4" "y mod 100 = 0 \<longleftrightarrow> 4 * c + e + 1 = 100" "y mod 400 = 0 \<longleftrightarrow> 100 * b + 4 * c + e + 1 = 400"
    by (simp_all only:)
  then show "is_leap y \<longleftrightarrow> e = 3 \<and> (c \<noteq> 24 \<or> b = 3)" using assms(1-6) by (auto simp: is_leap_def)
qed

lemma first_of_month_eq:
  "first_of_month y m = days_before_year y + DAYS_BEFORE_MONTH ! nat m + (if 2 < m \<and> is_leap y then 1 else 0) + 1"
  by (simp add: first_of_month_def days_before_year_def Let_def)

lemma next_year: "days_before_year (y + 1) = days_before_year y + (if is_leap y then 366 else 365)"
proof -
  define A B C where "A = (y - 1) div 4" and "B = (y - 1) div 100" and "C = (y - 1) div 400"
  define f g h where "f = (y mod 4 = 0)" and "g = (y mod 100 = 0)" and "h = (y mod 400 = 0)"
  have d: "y div 4 = A + (if f then 1 else 0)" "y div 100 = B + (if g then 1 else 0)" "y div 400 = C + (if h then 1 else 0)"
    unfolding A_def B_def C_def f_def g_def h_def by (rule div_pred; simp)+
  have "h \<Longrightarrow> g" unfolding g_def h_def using dvd_trans [of 100 400 y] by (simp add: mod_eq_0_iff_dvd)
  moreover have "g \<Longrightarrow> f" unfolding f_def g_def using dvd_trans [of 4 100 y] by (simp add: mod_eq_0_iff_dvd)
  moreover have "is_leap y = (f \<and> (\<not> g \<or> h))" by (simp only: is_leap_def f_def g_def h_def)
  moreover have "days_before_year (y + 1) = y * 365 + y div 4 - y div 100 + y div 400"
    by (simp add: days_before_year_def Let_def)
  moreover have "days_before_year y = (y - 1) * 365 + A - B + C"
    by (simp add: days_before_year_def Let_def A_def B_def C_def)
  ultimately show ?thesis unfolding d by (cases f; cases g; cases h) simp_all
qed

text \<open>Within a year: day \<open>k\<close> (from 0) lies in the month found.\<close>

definition month_in_year :: "bool \<Rightarrow> int \<Rightarrow> int" where
  "month_in_year leap k =
    (let m = (k + 50) div 32; bef = DAYS_BEFORE_MONTH ! nat m + (if 2 < m \<and> leap then 1 else 0)
     in if k < bef then m - 1 else m)"

definition month_start :: "bool \<Rightarrow> int \<Rightarrow> int" where
  "month_start leap m = (if m = 13 then (if leap then 366 else 365) else DAYS_BEFORE_MONTH ! nat m + (if 2 < m \<and> leap then 1 else 0))"

lemma month_cases: "1 \<le> m \<Longrightarrow> m \<le> 12 \<Longrightarrow> m \<in> {1, 2, 3, 4, 5, 6, 7, 8, 9, 10, 11, 12 :: int}"
proof -
  assume "1 \<le> m" and "m \<le> 12"
  then have "m \<in> set [1..12]" by simp
  then show ?thesis by (simp add: upto.simps)
qed

lemma month_in_year_range:
  assumes "0 \<le> k" and "k < 365"
  shows "1 \<le> month_in_year leap k \<and> month_in_year leap k \<le> 12 \<and>
    month_start leap (month_in_year leap k) \<le> k \<and> k < month_start leap (month_in_year leap k + 1)"
proof -
  define m where "m = (k + 50) div 32"
  have r: "32 * m - 50 \<le> k" "k \<le> 32 * m - 19" unfolding m_def by presburger+
  then have "1 \<le> m" "m \<le> 12" using assms by linarith+
  then have "m \<in> {1, 2, 3, 4, 5, 6, 7, 8, 9, 10, 11, 12}" by (rule month_cases)
  then show ?thesis
    using r assms
    by (cases leap) (elim insertE emptyE;
      simp add: month_in_year_def month_start_def Let_def m_def [symmetric] DAYS_BEFORE_MONTH_def nat_diff_distrib)+
qed

lemma ord2ym_normal:
  fixes d :: int
  defines "n \<equiv> d - 1"
  defines "a \<equiv> n div 146097" and "n1 \<equiv> n mod 146097"
  defines "b \<equiv> n1 div 36524" and "n2 \<equiv> n1 mod 36524"
  defines "c \<equiv> n2 div 1461" and "n3 \<equiv> n2 mod 1461"
  defines "e \<equiv> n3 div 365" and "k \<equiv> n3 mod 365"
  shows "ord2ym d =
    (if e = 4 \<or> b = 4 then (400 * a + 100 * b + 4 * c + e, 12)
     else (400 * a + 100 * b + 4 * c + e + 1, month_in_year (e = 3 \<and> (c \<noteq> 24 \<or> b = 3)) k))"
  unfolding ord2ym_def month_in_year_def Let_def a_def b_def c_def e_def k_def n1_def n2_def n3_def n_def
  by (simp only: add_diff_cancel_right')

lemma ord2ym_range:
  assumes "ord2ym d = (y, m)"
  shows "1 \<le> m \<and> m \<le> 12 \<and> (\<exists>j. d = days_before_year y + 1 + j \<and> month_start (is_leap y) m \<le> j \<and> j < month_start (is_leap y) (m + 1))"
proof -
  define n where "n = d - 1"
  define a where "a = n div 146097"
  define n1 where "n1 = n mod 146097"
  define b where "b = n1 div 36524"
  define n2 where "n2 = n1 mod 36524"
  define c where "c = n2 div 1461"
  define n3 where "n3 = n2 mod 1461"
  define e where "e = n3 div 365"
  define k where "k = n3 mod 365"
  note defs = n_def a_def n1_def b_def n2_def c_def n3_def e_def k_def
  have eqs: "d = 1 + 146097 * a + n1" "n1 = 36524 * b + n2" "n2 = 1461 * c + n3" "n3 = 365 * e + k"
    by (simp_all add: defs)
  have bounds: "0 \<le> n1" "n1 < 146097" "0 \<le> n2" "n2 < 36524" "0 \<le> n3" "n3 < 1461" "0 \<le> k" "k < 365"
    by (simp_all add: n1_def n2_def n3_def k_def)
  then have small: "0 \<le> b" "b \<le> 4" "0 \<le> c" "c \<le> 24" "0 \<le> e" "e \<le> 4" using eqs by linarith+
  have ym: "(y, m) = (if e = 4 \<or> b = 4 then (400 * a + 100 * b + 4 * c + e, 12)
     else (400 * a + 100 * b + 4 * c + e + 1, month_in_year (e = 3 \<and> (c \<noteq> 24 \<or> b = 3)) k))"
    using ord2ym_normal [of d] assms unfolding defs by simp
  consider (normal) "b \<le> 3" "e \<le> 3" | (leap_day) "e = 4" "b \<le> 3" "c \<noteq> 24" "k = 0"
    | (cycle_day) "b = 4" "n2 = 0" "c = 0" "e = 0" "k = 0"
  proof (cases "b = 4")
    case True
    then have "n2 = 0" using eqs bounds by linarith
    then show ?thesis using that(3) True eqs bounds small by linarith
  next
    case False
    show ?thesis
    proof (cases "e = 4")
      case True
      then have "k = 0" "n3 = 1460" using eqs bounds by linarith+
      moreover have "c \<noteq> 24" using \<open>n3 = 1460\<close> eqs bounds by auto
      ultimately show ?thesis using that(2) False True small by linarith
    next
      case F2: False
      then show ?thesis using that(1) False small by linarith
    qed
  qed
  then show ?thesis
  proof cases
    case normal
    then have y: "y = 400 * a + 100 * b + 4 * c + e + 1" and m: "m = month_in_year (e = 3 \<and> (c \<noteq> 24 \<or> b = 3)) k"
      using ym by auto
    note cyc = cycles [of b c e a, OF small(1) normal(1) small(3,4,5) normal(2), folded y]
    have "d = days_before_year y + 1 + k" using cyc(1) eqs by simp
    moreover have "m = month_in_year (is_leap y) k" using m cyc(2) by simp
    ultimately show ?thesis using month_in_year_range [OF bounds(7,8), of "is_leap y"] by auto
  next
    case leap_day
    then have y: "y = 400 * a + 100 * b + 4 * c + 3 + 1" and m: "m = 12" using ym by auto
    note cyc = cycles [of b c 3 a, OF small(1) leap_day(2) small(3,4), folded y]
    have "is_leap y" "d = days_before_year y + 1 + 365" using cyc leap_day eqs by simp_all
    then show ?thesis using m by (intro conjI exI [of _ 365]) (simp_all add: month_start_def DAYS_BEFORE_MONTH_def)
  next
    case cycle_day
    then have y: "y = 400 * a + 100 * 3 + 4 * 24 + 3 + 1" and m: "m = 12" using ym by auto
    note cyc = cycles [of 3 24 3 a, folded y]
    have "is_leap y" "d = days_before_year y + 1 + 365" using cyc cycle_day eqs by simp_all
    then show ?thesis using m by (intro conjI exI [of _ 365]) (simp_all add: month_start_def DAYS_BEFORE_MONTH_def)
  qed
qed

lemma dby_mono: "y \<le> y' \<Longrightarrow> days_before_year y \<le> days_before_year y'"
  by (induction y' rule: int_ge_induct) (auto simp: next_year split: if_splits)

lemma month_start_step: "1 \<le> m \<Longrightarrow> m \<le> 12 \<Longrightarrow> month_start l m < month_start l (m + 1)"
  by (drule (1) month_cases, cases l) (elim insertE emptyE; simp add: month_start_def DAYS_BEFORE_MONTH_def)+

lemma month_start_mono:
  assumes "m \<le> m'" and "1 \<le> m" and "m' \<le> 13"
  shows "month_start l m \<le> month_start l m'"
  using assms(1,3)
proof (induction m' rule: int_ge_induct)
  case (step i)
  then show ?case using month_start_step [of i l] assms(2) by simp
qed simp

lemma month_start_1 [simp]: "month_start l 1 = 0" and month_start_13 [simp]: "month_start l 13 = (if l then 366 else 365)"
  by (simp_all add: month_start_def DAYS_BEFORE_MONTH_def)

lemma first_eq: "1 \<le> m \<Longrightarrow> m \<le> 12 \<Longrightarrow> first_of_month y m = days_before_year y + 1 + month_start (is_leap y) m"
  by (simp add: first_of_month_eq month_start_def)

lemma next_first_eq:
  assumes "1 \<le> m" and "m \<le> 12"
  shows "next_first y m = days_before_year y + 1 + month_start (is_leap y) (m + 1)"
  using assms by (cases "m = 12") (simp_all add: next_first_def first_eq next_year)

lemma day_in_one_year:
  assumes "days_before_year y < d" and "d \<le> days_before_year (y + 1)"
    and "days_before_year y' < d" and "d \<le> days_before_year (y' + 1)"
  shows "y = y'"
proof (rule linorder_cases [of y y'])
  assume "y < y'"
  then show ?thesis using dby_mono [of "y + 1" y'] assms by simp
next
  assume "y' < y"
  then show ?thesis using dby_mono [of "y' + 1" y] assms by simp
qed

lemma month_within_year:
  assumes "d = days_before_year y + 1 + j" and "month_start (is_leap y) m \<le> j" and "j < month_start (is_leap y) (m + 1)"
    and "1 \<le> m" "m \<le> 12"
  shows "days_before_year y < d \<and> d \<le> days_before_year (y + 1)"
  using assms month_start_mono [of 1 m "is_leap y"] month_start_mono [of "m + 1" 13 "is_leap y"]
  by (simp add: next_year)

lemma year_of_range: "year_of d = y \<longleftrightarrow> days_before_year y < d \<and> d \<le> days_before_year (y + 1)"
proof -
  obtain y' m' where ym: "ord2ym d = (y', m')" by (cases "ord2ym d")
  from ord2ym_range [OF ym] month_within_year have "days_before_year y' < d \<and> d \<le> days_before_year (y' + 1)" by blast
  then show ?thesis using ym day_in_one_year [of y d y'] by (auto simp: year_of_def)
qed

lemma day_in_one_month:
  assumes "d = days_before_year y + 1 + j" and "month_start (is_leap y) m \<le> j" and "j < month_start (is_leap y) (m + 1)"
    and "d = days_before_year y' + 1 + j'" and "month_start (is_leap y') m' \<le> j'" and "j' < month_start (is_leap y') (m' + 1)"
    and "1 \<le> m" "m \<le> 12" "1 \<le> m'" "m' \<le> 12"
  shows "y = y' \<and> m = m'"
proof -
  have y: "y = y'"
    using month_within_year [OF assms(1-3,7,8)] month_within_year [OF assms(4-6,9,10)] day_in_one_year by blast
  have "m = m'"
  proof (rule linorder_cases [of m m'])
    assume "m < m'"
    then show ?thesis using month_start_mono [of "m + 1" m' "is_leap y"] assms y by simp
  next
    assume "m' < m"
    then show ?thesis using month_start_mono [of "m' + 1" m "is_leap y"] assms y by simp
  qed
  with y show ?thesis by blast
qed

lemma in_month_range:
  assumes "1 \<le> m" and "m \<le> 12"
  shows "(year_of d = y \<and> month_of d = m) \<longleftrightarrow> first_of_month y m \<le> d \<and> d < next_first y m"
proof -
  obtain y' m' where ym: "ord2ym d = (y', m')" by (cases "ord2ym d")
  from ord2ym_range [OF ym] obtain j' where r: "1 \<le> m'" "m' \<le> 12" "d = days_before_year y' + 1 + j'"
    "month_start (is_leap y') m' \<le> j'" "j' < month_start (is_leap y') (m' + 1)" by blast
  show ?thesis
  proof
    assume "year_of d = y \<and> month_of d = m"
    then have "y' = y" "m' = m" using ym by (simp_all add: year_of_def month_of_def)
    then show "first_of_month y m \<le> d \<and> d < next_first y m" using r by (simp add: first_eq next_first_eq)
  next
    assume "first_of_month y m \<le> d \<and> d < next_first y m"
    then have "d = days_before_year y + 1 + (d - days_before_year y - 1)"
      "month_start (is_leap y) m \<le> d - days_before_year y - 1" "d - days_before_year y - 1 < month_start (is_leap y) (m + 1)"
      using assms by (simp_all add: first_eq next_first_eq)
    from day_in_one_month [OF this r(3-5) assms r(1,2)] show "year_of d = y \<and> month_of d = m"
      using ym by (simp add: year_of_def month_of_def)
  qed
qed

lemma month_of_bounds: "1 \<le> month_of d \<and> month_of d \<le> 12"
  using ord2ym_range [of d "year_of d" "month_of d"] by (simp add: year_of_def month_of_def)

end
