(* ===== verification/Finance.thy ===== *)
theory Finance
  imports Order_Views Accounts Calendar
begin

text \<open>
  The figures of the dashboard: \<open>src/apps/dashboard/services.py\<close>, the finance views of
  \<open>src/apps/dashboard/views.py\<close>, and their counterparts in \<open>src/apps/internal_api/views.py\<close>.

  \<^item> Dates are ordinals (1 is 1 January of year 1), as \<open>date.toordinal\<close> counts them; the local
    date of an instant is taken in the time zone of the settings, five hours ahead of UTC.
  \<^item> The date on which an order row was last written (\<open>updated_at\<close>) is a column of its own:
    \<open>updated_on\<close> gives it by the key of the order.
  \<^item> Shares, millions and percentages are computed in exact arithmetic.
\<close>

section \<open>Names\<close>

definition WEEKDAY_UZ :: "string list" where
  "WEEKDAY_UZ = [''Dush'', ''Sesh'', ''Chor'', ''Pay'', ''Jum'', ''Shan'', ''Yak'']"

definition MONTH_UZ :: "string list" where
  "MONTH_UZ = [''Yan'', ''Fev'', ''Mart'', ''Apr'', ''May'', ''Iyun'', ''Iyul'', ''Avg'', ''Sen'', ''Okt'', ''Noy'', ''Dek'']"

section \<open>Data\<close>

record expense_row =
  ex_amount :: money
  ex_date :: int

record finance_db =
  fin_sys :: sys
  fin_accounts :: accounts_db
  updated_on :: "row_id \<Rightarrow> int"
  company_expenses :: "expense_row list"
  warehouse_expenses :: "expense_row list"

definition created_on :: "order \<Rightarrow> int" where
  "created_on ord = local_date (o_created_at ord)"

definition fin_orders :: "finance_db \<Rightarrow> order list" where
  "fin_orders db = orders (fin_sys db)"

definition master_expense_rows :: "finance_db \<Rightarrow> expense_row list" where
  "master_expense_rows db = map (\<lambda>x. \<lparr>ex_amount = me_amount x, ex_date = me_date x\<rparr>) (expenses (wallet (fin_sys db)))"

section \<open>Numbers\<close>

text \<open>\<open>int(value)\<close>: whole units, towards zero.\<close>

definition uzs :: "money \<Rightarrow> int" where
  "uzs a = (if a < 0 then - ((- a) div 100) else a div 100)"

fun group_thousands :: "string \<Rightarrow> string" where
  "group_thousands (a # b # c # d # rest) = a # b # c # CHR '','' # group_thousands (d # rest)"
| "group_thousands s = s"

definition format_uzs :: "money \<Rightarrow> string" where
  "format_uzs a = (if uzs a < 0 then ''-'' else []) @ rev (group_thousands (rev (nat_str (nat \<bar>uzs a\<bar>)))) @ '' so'm''"

datatype direction = Up | Down | Flat

definition percent_change :: "int \<Rightarrow> int \<Rightarrow> int \<times> direction" where
  "percent_change current previous =
    (if previous = 0 then (if 0 < current then (100, Up) else (0, Flat))
     else let grows = (current - previous) * sgn previous
          in (\<bar>current - previous\<bar> * 100 div \<bar>previous\<bar>, if 0 < grows then Up else if grows < 0 then Down else Flat))"

record card =
  cd_value :: int
  cd_formatted :: string
  cd_percent :: int
  cd_direction :: direction

definition card_for :: "money \<Rightarrow> money \<Rightarrow> card" where
  "card_for current previous =
    \<lparr>cd_value = uzs current, cd_formatted = format_uzs current, cd_percent = fst (percent_change current previous),
     cd_direction = snd (percent_change current previous)\<rparr>"

text \<open>An amount in millions with two decimals, in hundredths of a million.\<close>

definition million2 :: "money \<Rightarrow> int" where
  "million2 a = round_half_even a 1000000"

section \<open>Sums over periods\<close>

definition completed_income :: "(int \<Rightarrow> bool) \<Rightarrow> finance_db \<Rightarrow> money" where
  "completed_income P db =
    sum_rows total_amount (filter (\<lambda>ord. o_status ord = COMPLETED \<and> P (updated_on db (o_id ord))) (fin_orders db))"

definition expense_sum :: "(int \<Rightarrow> bool) \<Rightarrow> expense_row list \<Rightarrow> money" where
  "expense_sum P rows = sum_rows ex_amount (filter (\<lambda>x. P (ex_date x)) rows)"

record breakdown =
  bd_master :: money
  bd_company :: money
  bd_warehouse :: money
  bd_total :: money

definition expense_breakdown :: "(int \<Rightarrow> bool) \<Rightarrow> finance_db \<Rightarrow> breakdown" where
  "expense_breakdown P db =
    (let m = expense_sum P (master_expense_rows db); c = expense_sum P (company_expenses db);
         w = expense_sum P (warehouse_expenses db)
     in \<lparr>bd_master = m, bd_company = c, bd_warehouse = w, bd_total = m + c + w\<rparr>)"

definition in_year :: "int \<Rightarrow> int \<Rightarrow> bool" where
  "in_year y d = (year_of d = y)"

definition in_month :: "int \<Rightarrow> int \<Rightarrow> int \<Rightarrow> bool" where
  "in_month y m d = (year_of d = y \<and> month_of d = m)"

record finance_summary =
  fs_month :: "int option"
  fs_label :: string
  fs_income :: card
  fs_expense :: card
  fs_profit :: card
  fs_master :: int
  fs_company :: int
  fs_warehouse :: int
  fs_orders :: nat
  fs_pending :: nat

definition period_of :: "int \<Rightarrow> int option \<Rightarrow> int \<Rightarrow> bool" where
  "period_of y m = (case m of None \<Rightarrow> in_year y | Some k \<Rightarrow> in_month y k)"

definition previous_period :: "int \<Rightarrow> int option \<Rightarrow> int \<Rightarrow> bool" where
  "previous_period y m =
    (case m of None \<Rightarrow> in_year (y - 1) | Some k \<Rightarrow> if 1 < k then in_month y (k - 1) else in_month (y - 1) 12)"

definition get_finance_summary :: "int \<Rightarrow> int option \<Rightarrow> finance_db \<Rightarrow> finance_summary" where
  "get_finance_summary y m db =
    (let P = period_of y m; Q = previous_period y m;
         income = completed_income P db; prev_income = completed_income Q db;
         expense = expense_breakdown P db; prev_expense = expense_breakdown Q db;
         profit = income - bd_total expense; prev_profit = prev_income - bd_total prev_expense
     in \<lparr>fs_month = m,
         fs_label = (case m of None \<Rightarrow> int_str y | Some k \<Rightarrow> MONTH_UZ ! nat (k - 1) @ '' '' @ int_str y),
         fs_income = card_for income prev_income, fs_expense = card_for (bd_total expense) (bd_total prev_expense),
         fs_profit = card_for profit prev_profit, fs_master = uzs (bd_master expense), fs_company = uzs (bd_company expense),
         fs_warehouse = uzs (bd_warehouse expense),
         fs_orders = length (filter (\<lambda>ord. o_status ord = COMPLETED \<and> P (updated_on db (o_id ord))) (fin_orders db)),
         fs_pending = length (filter (\<lambda>r. wr_status r = W_PENDING) (withdraw_requests (wallet (fin_sys db))))\<rparr>)"

section \<open>Charts\<close>

definition get_income_expense :: "int \<Rightarrow> finance_db \<Rightarrow> (int \<times> string \<times> int \<times> int) list" where
  "get_income_expense y db =
    map (\<lambda>m. (m, MONTH_UZ ! nat (m - 1), million2 (completed_income (in_month y m) db),
              million2 (bd_total (expense_breakdown (in_month y m) db)))) [1..12]"

definition get_income_dynamics :: "int \<Rightarrow> finance_db \<Rightarrow> (int \<times> string \<times> int) list" where
  "get_income_dynamics target db =
    map (\<lambda>i. let d = target - 6 + i in (d, WEEKDAY_UZ ! weekday d, million2 (completed_income (\<lambda>x. x = d) db))) [0..6]"

record week_day =
  wd_date :: int
  wd_total :: nat
  wd_new :: nat
  wd_accepted :: nat
  wd_on_way :: nat
  wd_arrived :: nat
  wd_completed :: nat
  wd_cancelled :: nat
  wd_rejected :: nat

definition count_on :: "int \<Rightarrow> order_status list \<Rightarrow> finance_db \<Rightarrow> nat" where
  "count_on d sts db = length (filter (\<lambda>ord. created_on ord = d \<and> o_status ord \<in> set sts) (fin_orders db))"

definition get_weekly_orders :: "int \<Rightarrow> finance_db \<Rightarrow> week_day list" where
  "get_weekly_orders target db =
    map (\<lambda>i. let d = target - 6 + i in
      \<lparr>wd_date = d, wd_total = length (filter (\<lambda>ord. created_on ord = d) (fin_orders db)), wd_new = count_on d [NEW] db,
       wd_accepted = count_on d [ACCEPTED] db, wd_on_way = count_on d [ON_WAY] db, wd_arrived = count_on d [ARRIVED] db,
       wd_completed = count_on d [COMPLETED] db, wd_cancelled = count_on d [CANCELLED] db,
       wd_rejected = count_on d [REJECTED] db\<rparr>) [0..6]"

record internal_day =
  id_date :: int
  id_total :: nat
  id_new :: nat
  id_on_way :: nat
  id_in_progress :: nat
  id_completed :: nat
  id_cancelled :: nat

definition internal_weekly_orders :: "int \<Rightarrow> finance_db \<Rightarrow> internal_day list" where
  "internal_weekly_orders target db =
    map (\<lambda>i. let d = target - 6 + i in
      \<lparr>id_date = d, id_total = length (filter (\<lambda>ord. created_on ord = d) (fin_orders db)), id_new = count_on d [NEW] db,
       id_on_way = count_on d [ON_WAY] db, id_in_progress = count_on d [ACCEPTED, ARRIVED] db,
       id_completed = count_on d [COMPLETED] db, id_cancelled = count_on d [CANCELLED, REJECTED] db\<rparr>) [0..6]"

text \<open>The slice \<open>[:limit]\<close> of a query; a negative bound is refused by the framework.\<close>

definition slice :: "int \<Rightarrow> 'a list \<Rightarrow> 'a list res" where
  "slice limit rows = (if limit < 0 then Inl (ServerError ''Negative indexing is not supported.'') else Inr (take (nat limit) rows))"

text \<open>Grouping by service, the largest group first.\<close>

definition service_groups :: "(order \<Rightarrow> bool) \<Rightarrow> (order \<Rightarrow> int) \<Rightarrow> order list \<Rightarrow> (row_id \<times> int) list" where
  "service_groups P f ords =
    (let rows = filter P ords
     in sort_key (\<lambda>(s, n). - n) (map (\<lambda>s. (s, sum_rows (\<lambda>ord. if o_service ord = s then f ord else 0) rows))
          (remdups (map o_service rows))))"

record share =
  sh_service :: row_id
  sh_value :: int
  sh_percent :: int
  sh_color :: nat

definition shares :: "(row_id \<times> int) list \<Rightarrow> share list" where
  "shares items =
    (let total = sum_list (map snd items)
     in map (\<lambda>(i, s, n). \<lparr>sh_service = s, sh_value = n, sh_percent = (if total = 0 then 0 else round_half_even (n * 100) total),
          sh_color = i mod 5\<rparr>) (enumerate 0 items))"

definition get_orders_by_service :: "int \<Rightarrow> int \<Rightarrow> int \<Rightarrow> finance_db \<Rightarrow> (int \<times> share list) res" where
  "get_orders_by_service date_from date_to limit db =
    bindE (slice limit (service_groups (\<lambda>ord. date_from \<le> created_on ord \<and> created_on ord \<le> date_to) (\<lambda>_. 1) (fin_orders db)))
      (\<lambda>items. Inr (sum_list (map snd items), shares items))"

definition get_income_by_service :: "int \<Rightarrow> int \<Rightarrow> int \<Rightarrow> finance_db \<Rightarrow> (int \<times> share list) res" where
  "get_income_by_service date_from date_to limit db =
    bindE (slice limit (service_groups (\<lambda>ord. o_status ord = COMPLETED \<and> date_from \<le> updated_on db (o_id ord) \<and>
        updated_on db (o_id ord) \<le> date_to) total_amount (fin_orders db)))
      (\<lambda>rows. let items = filter (\<lambda>(s, n). n \<noteq> 0) rows in Inr (uzs (sum_list (map snd items)), shares items))"

definition get_top_clients :: "int option \<Rightarrow> int option \<Rightarrow> nat \<Rightarrow> finance_db \<Rightarrow> (row_id \<times> nat \<times> money) list" where
  "get_top_clients date_from date_to limit db =
    (let P = (\<lambda>ord. o_status ord = COMPLETED \<and> (case date_from of None \<Rightarrow> True | Some d \<Rightarrow> d \<le> updated_on db (o_id ord)) \<and>
                (case date_to of None \<Rightarrow> True | Some d \<Rightarrow> updated_on db (o_id ord) \<le> d));
         rows = filter P (fin_orders db);
         stats = map (\<lambda>c. (cl_id c, length (filter (\<lambda>ord. o_client ord = cl_id c) rows),
                           sum_rows (\<lambda>ord. if o_client ord = cl_id c then total_amount ord else 0) rows)) (clients (fin_accounts db))
     in take limit (sort_key (\<lambda>(c, n, a). - a) (sort_key (\<lambda>(c, n, a). - int n) (filter (\<lambda>(c, n, a). 0 < n) stats))))"

section \<open>Statistics of a day\<close>

record day_stats =
  ds_orders :: "int \<times> (int \<times> direction)"
  ds_masters :: "int \<times> (int \<times> direction)"
  ds_income :: card
  ds_expense :: card

definition get_stats :: "int \<Rightarrow> finance_db \<Rightarrow> day_stats" where
  "get_stats d db =
    (let n = int (length (filter (\<lambda>ord. created_on ord = d) (fin_orders db)));
         n' = int (length (filter (\<lambda>ord. created_on ord = d - 1) (fin_orders db)));
         m = int (length (filter (\<lambda>x. ms_active x \<and> is_online x) (masters (fin_accounts db))))
     in \<lparr>ds_orders = (n, percent_change n n'), ds_masters = (m, percent_change m m),
         ds_income = card_for (completed_income (\<lambda>x. x = d) db) (completed_income (\<lambda>x. x = d - 1) db),
         ds_expense = card_for (bd_total (expense_breakdown (\<lambda>x. x = d) db)) (bd_total (expense_breakdown (\<lambda>x. x = d - 1) db))\<rparr>)"

definition internal_get_stats :: "int \<Rightarrow> finance_db \<Rightarrow> day_stats" where
  "internal_get_stats d db =
    (let n = int (length (filter (\<lambda>ord. created_on ord = d) (fin_orders db)));
         n' = int (length (filter (\<lambda>ord. created_on ord = d - 1) (fin_orders db)));
         m = int (length (filter (\<lambda>x. ms_active x \<and> is_available x) (masters (fin_accounts db))))
     in \<lparr>ds_orders = (n, percent_change n n'), ds_masters = (m, percent_change m m),
         ds_income = card_for (completed_income (\<lambda>x. x = d) db) (completed_income (\<lambda>x. x = d - 1) db),
         ds_expense = card_for (expense_sum (\<lambda>x. x = d) (master_expense_rows db)) (expense_sum (\<lambda>x. x = d - 1) (master_expense_rows db))\<rparr>)"

definition internal_income_expense :: "int \<Rightarrow> finance_db \<Rightarrow> (int \<times> string \<times> int \<times> int) list" where
  "internal_income_expense y db =
    map (\<lambda>m. (m, MONTH_UZ ! nat (m - 1), million2 (completed_income (in_month y m) db),
              million2 (expense_sum (in_month y m) (master_expense_rows db)))) [1..12]"

section \<open>Parameters of the requests\<close>

text \<open>\<open>int(text)\<close>: an optional sign and digits (ASCII), blanks around them ignored.\<close>

fun digits_value :: "int \<Rightarrow> string \<Rightarrow> int option" where
  "digits_value acc [] = Some acc"
| "digits_value acc (c # cs) = (if ascii_digit c then digits_value (acc * 10 + int (byte c) - 48) cs else None)"

definition parse_int :: "string \<Rightarrow> int option" where
  "parse_int s =
    (case strip s of
       [] \<Rightarrow> None
     | c # cs \<Rightarrow>
         if c = CHR ''-'' then (if cs = [] then None else map_option uminus (digits_value 0 cs))
         else if c = CHR ''+'' then (if cs = [] then None else digits_value 0 cs)
         else digits_value 0 (c # cs))"

definition finance_int_param :: "query \<Rightarrow> string \<Rightarrow> int \<Rightarrow> int res" where
  "finance_int_param q name dflt =
    (if param q name = [] then Inr dflt
     else case parse_int (param q name) of None \<Rightarrow> Inl (ValidationError name) | Some n \<Rightarrow> Inr n)"

definition finance_month :: "int \<Rightarrow> query \<Rightarrow> (int \<times> int option) res" where
  "finance_month today q =
    bindE (finance_int_param q ''year'' (year_of today)) (\<lambda>y.
      if param q ''period'' = ''year'' then Inr (y, None)
      else bindE (finance_int_param q ''month'' (month_of today)) (\<lambda>m.
        if 1 \<le> m \<and> m \<le> 12 then Inr (y, Some m) else Inl (ValidationError ''month'')))"

text \<open>The validated \<open>date_from\<close>, \<open>date_to\<close> and \<open>limit\<close> of the range serializer are arguments.\<close>

definition finance_range :: "int \<Rightarrow> query \<Rightarrow> int option \<Rightarrow> int option \<Rightarrow> (int \<times> int) res" where
  "finance_range today q date_from date_to =
    bindE (finance_month today q) (\<lambda>(y, m).
    bindE (case m of
             Some k \<Rightarrow> bindE (make_date y k) (\<lambda>a.
               bindE (if k = 12 then bindE (make_date y 12) (\<lambda>b. Inr (b + 30)) else bindE (make_date y (k + 1)) (\<lambda>b. Inr (b - 1)))
                 (\<lambda>b. Inr (a, b)))
           | None \<Rightarrow> bindE (make_date y 1) (\<lambda>a. bindE (make_date y 12) (\<lambda>b. Inr (a, b + 30))))
      (\<lambda>(a, b). Inr (sent_or date_from a, sent_or date_to b)))"

definition DashboardFinanceSummary_get :: "int \<Rightarrow> query \<Rightarrow> finance_db \<Rightarrow> finance_summary res" where
  "DashboardFinanceSummary_get today q db =
    bindE (finance_month today q) (\<lambda>(y, m). Inr (get_finance_summary y m db))"

definition DashboardIncomeByService_get ::
  "int \<Rightarrow> query \<Rightarrow> int option \<Rightarrow> int option \<Rightarrow> nat \<Rightarrow> finance_db \<Rightarrow> (int \<times> share list) res" where
  "DashboardIncomeByService_get today q df dt limit db =
    bindE (finance_range today q df dt) (\<lambda>(a, b). get_income_by_service a b (int limit) db)"

definition DashboardTopClients_get ::
  "int \<Rightarrow> query \<Rightarrow> int option \<Rightarrow> int option \<Rightarrow> nat \<Rightarrow> finance_db \<Rightarrow> (row_id \<times> nat \<times> money) list res" where
  "DashboardTopClients_get today q df dt limit db =
    bindE (finance_range today q df dt) (\<lambda>(a, b). Inr (get_top_clients (Some a) (Some b) limit db))"

definition parse_limit :: "query \<Rightarrow> int \<Rightarrow> int" where
  "parse_limit q dflt =
    (case map_of q ''limit'' of
       None \<Rightarrow> min dflt 100
     | Some s \<Rightarrow> (case parse_int s of None \<Rightarrow> dflt | Some n \<Rightarrow> min n 100))"

definition internal_orders_by_service :: "int \<Rightarrow> query \<Rightarrow> int option \<Rightarrow> int option \<Rightarrow> finance_db \<Rightarrow> (int \<times> share list) res" where
  "internal_orders_by_service today q df dt db =
    (let b = sent_or dt today; a = sent_or df (b - 6) in get_orders_by_service a b (parse_limit q 10) db)"

end
