(* ===== verification/Finance_Props.thy ===== *)
theory Finance_Props
  imports Finance Order_Props "HOL-Library.Multiset"
begin

text \<open>
  Properties of the reports: the figures of months, years, ranges and services agree with
  each other, shares are exact up to rounding, and where the charts leave something out.
\<close>

section \<open>Months and years\<close>

lemma sum_rows_months:
  assumes "\<And>r. r \<in> set rows \<Longrightarrow> 1 \<le> month_of (day r) \<and> month_of (day r) \<le> 12"
  shows "(\<Sum>m \<leftarrow> [1..12]. sum_rows f (filter (\<lambda>r. in_month y m (day r)) rows)) = sum_rows f (filter (\<lambda>r. in_year y (day r)) rows)"
  using assms
proof (induction rows)
  case (Cons r rows)
  have month: "month_of (day r) \<in> {1, 2, 3, 4, 5, 6, 7, 8, 9, 10, 11, 12}"
    using Cons.prems [of r] by (intro month_cases) simp_all
  have "(\<Sum>m \<leftarrow> [1..12]. sum_rows f (filter (\<lambda>r. in_month y m (day r)) (r # rows))) =
      (\<Sum>m \<leftarrow> [1..12]. if in_month y m (day r) then f r else 0) + (\<Sum>m \<leftarrow> [1..12]. sum_rows f (filter (\<lambda>r. in_month y m (day r)) rows))"
    by (simp add: sum_list_addf [symmetric] if_distrib cong: if_cong)
       (rule arg_cong [of _ _ sum_list], simp)
  moreover have "(\<Sum>m \<leftarrow> [1..12]. if in_month y m (day r) then f r else 0) = (if in_year y (day r) then f r else 0)"
    using month by (auto simp: in_month_def in_year_def upto.simps)
  ultimately show ?case using Cons by simp
qed simp

lemma filter_filter_status:
  "filter (\<lambda>ord. o_status ord = COMPLETED \<and> P (g ord)) ords = filter (\<lambda>ord. P (g ord)) (filter (\<lambda>ord. o_status ord = COMPLETED) ords)"
  by (induction ords) auto

lemma income_months: "(\<Sum>m \<leftarrow> [1..12]. completed_income (in_month y m) db) = completed_income (in_year y) db"
  using sum_rows_months [of "filter (\<lambda>ord. o_status ord = COMPLETED) (fin_orders db)" "\<lambda>ord. updated_on db (o_id ord)" total_amount y]
  by (simp add: completed_income_def filter_filter_status month_of_bounds)

lemma expense_months: "(\<Sum>m \<leftarrow> [1..12]. expense_sum (in_month y m) rows) = expense_sum (in_year y) rows"
  using sum_rows_months [of rows ex_date ex_amount y] by (simp add: expense_sum_def month_of_bounds)

section \<open>Groups\<close>

lemma sum_list_one: "distinct ks \<Longrightarrow> x \<in> set ks \<Longrightarrow> sum_list (map (\<lambda>s. if x = s then c else 0) ks) = (c :: int)"
proof (induction ks)
  case (Cons k ks)
  have "sum_list (map (\<lambda>s. if k = s then c else 0) ks) = 0" if "k \<notin> set ks" for k
    using that by (induction ks) auto
  with Cons show ?case by (cases "x = k") auto
qed simp

lemma groups_sum:
  "distinct ks \<Longrightarrow> o_service ` set rows \<subseteq> set ks \<Longrightarrow>
    sum_list (map (\<lambda>s. sum_rows (\<lambda>ord. if o_service ord = s then f ord else 0) rows) ks) = sum_rows f rows"
proof (induction rows)
  case (Cons r rows)
  have "sum_list (map (\<lambda>s. if o_service r = s then f r else 0) ks) = f r"
    using Cons.prems by (intro sum_list_one) auto
  with Cons show ?case by (simp add: sum_list_addf)
qed (simp add: sum_list_0)

lemma sum_list_sort_key: "sum_list (map f (sort_key g xs)) = (sum_list (map f xs) :: int)"
  by (metis mset_map mset_sort sum_mset_sum_list)

lemma service_groups_sum: "sum_list (map snd (service_groups P f ords)) = sum_rows f (filter P ords)"
  using groups_sum [of "remdups (map o_service (filter P ords))" "filter P ords" f]
  by (simp add: service_groups_def sum_list_sort_key Let_def comp_def)

lemma sum_nonzero: "sum_list (map snd (filter (\<lambda>(s, n). n \<noteq> 0) xs)) = (sum_list (map snd xs) :: int)"
  by (induction xs) auto

lemma service_groups_length: "length (service_groups P f ords) \<le> length (remdups (map o_service ords))"
proof -
  have "length (remdups (map o_service (filter P ords))) = card (o_service ` set (filter P ords))"
    by (simp add: length_remdups_card_conv)
  also have "\<dots> \<le> card (o_service ` set ords)" by (intro card_mono) auto
  also have "\<dots> = length (remdups (map o_service ords))" by (simp add: length_remdups_card_conv)
  finally show ?thesis by (simp add: service_groups_def Let_def)
qed

section \<open>Ranges\<close>

lemma december: "next_first y 12 = first_of_month y 12 + 31"
  by (simp add: next_first_eq first_eq month_start_def DAYS_BEFORE_MONTH_def)

lemma in_year_range: "in_year y d \<longleftrightarrow> first_of_month y 1 \<le> d \<and> d \<le> first_of_month y 12 + 30"
proof -
  have "next_first y 12 = days_before_year (y + 1) + 1" by (simp add: next_first_def first_eq)
  then show ?thesis using december [of y] by (auto simp: in_year_def year_of_range first_eq)
qed

lemma make_date_Inr: "make_date y m = Inr d \<Longrightarrow> d = first_of_month y m"
  by (auto simp: make_date_def split: if_splits)

lemma finance_monthD:
  assumes "finance_month today q = Inr (y, Some m)"
  shows "1 \<le> m" and "m \<le> 12"
  using assms by (auto simp: finance_month_def split: if_splits)

lemma finance_range_period:
  assumes "finance_range today q None None = Inr (a, b)" and "finance_month today q = Inr (y, m)"
  shows "period_of y m = (\<lambda>d. a \<le> d \<and> d \<le> b)"
proof (cases m)
  case None
  then have "a = first_of_month y 1" "b = first_of_month y 12 + 30"
    using assms by (auto simp: finance_range_def sent_or_def dest!: make_date_Inr)
  with None show ?thesis by (simp add: period_of_def in_year_range fun_eq_iff)
next
  case (Some k)
  have k: "1 \<le> k" "k \<le> 12" using finance_monthD assms(2) Some by blast+
  have ab: "a = first_of_month y k" "b = next_first y k - 1"
    using assms Some december [of y] by (auto simp: finance_range_def sent_or_def next_first_def dest!: make_date_Inr split: if_splits)
  with Some show ?thesis
    by (auto simp: period_of_def in_month_def in_month_range [OF k] fun_eq_iff)
qed


definition example_finance :: finance_db where
  "example_finance = \<lparr>fin_sys = paid_sys, fin_accounts = \<lparr>clients = [], masters = [], staff = [], otp_records = [], fcm_devices = [],
     otp_cache = (\<lambda>p. None), otp_cooldown = (\<lambda>p. None), otp_block = (\<lambda>p. None), sms_log = []\<rparr>,
     updated_on = (\<lambda>k. 739800), company_expenses = [], warehouse_expenses = []\<rparr>"


section \<open>Changes\<close>

text \<open>The arrow on a card points the right way when the figure it compares with is positive,
  and the percentage is the exact change rounded down. Against a loss it is turned round: a
  profit that improves on last month's loss is shown as falling, a deeper loss as rising,
  and a loss after a month that broke even as no change.\<close>

theorem change_arrow:
  "(0 < previous \<longrightarrow>
     (snd (percent_change current previous) = Up) = (previous < current) \<and>
     (snd (percent_change current previous) = Down) = (current < previous) \<and>
     previous * fst (percent_change current previous) \<le> \<bar>current - previous\<bar> * 100 \<and>
     \<bar>current - previous\<bar> * 100 < previous * (fst (percent_change current previous) + 1)) \<and>
   (previous < 0 \<longrightarrow>
     (snd (percent_change current previous) = Up) = (current < previous) \<and>
     (snd (percent_change current previous) = Down) = (previous < current)) \<and>
   (current < 0 \<longrightarrow> percent_change current 0 = (0, Flat))"
proof -
  have "previous * (z div previous) \<le> z" "z < previous * (z div previous + 1)" if "0 < previous" for z
  proof -
    have "previous * (z div previous) + z mod previous = z" "0 \<le> z mod previous" "z mod previous < previous"
      using that by simp_all
    moreover have "previous * (z div previous + 1) = previous * (z div previous) + previous" by (simp add: distrib_left)
    ultimately show "previous * (z div previous) \<le> z" "z < previous * (z div previous + 1)" by linarith+
  qed
  then show ?thesis by (auto simp: percent_change_def Let_def mult_less_0_iff zero_less_mult_iff)
qed

theorem change_arrow_witness:
  "snd (percent_change 5000 (- 10000)) = Down \<and> snd (percent_change 15000 10000) = Up"
  using change_arrow [of "- 10000" 5000] change_arrow [of 10000 15000] by simp

section \<open>Weekly charts\<close>

lemma status_split:
  "length (filter (\<lambda>ord. P ord) ords) =
    (\<Sum>st \<leftarrow> enum_class.enum. length (filter (\<lambda>ord. P ord \<and> o_status ord = st) ords))"
proof (induction ords)
  case (Cons ord ords)
  show ?case using Cons by (cases "o_status ord") (auto simp: enum_order_status_def)
qed (simp add: enum_order_status_def)

lemma count_on_one: "count_on d [st] db = length (filter (\<lambda>ord. created_on ord = d \<and> o_status ord = st) (fin_orders db))"
  by (simp add: count_on_def)

lemma weekly_missing:
  assumes "w \<in> set (get_weekly_orders target db)"
  shows "wd_total w = wd_new w + wd_accepted w + wd_on_way w + wd_arrived w + wd_completed w + wd_cancelled w + wd_rejected w +
    count_on (wd_date w) [AWAITING_PAYMENT] db"
proof -
  obtain d where w: "w = \<lparr>wd_date = d, wd_total = length (filter (\<lambda>ord. created_on ord = d) (fin_orders db)), wd_new = count_on d [NEW] db,
       wd_accepted = count_on d [ACCEPTED] db, wd_on_way = count_on d [ON_WAY] db, wd_arrived = count_on d [ARRIVED] db,
       wd_completed = count_on d [COMPLETED] db, wd_cancelled = count_on d [CANCELLED] db,
       wd_rejected = count_on d [REJECTED] db\<rparr>"
    using assms unfolding get_weekly_orders_def Let_def by (elim imageE [OF list.set_map [THEN equalityD1, THEN subsetD]]) blast
  have "length (filter (\<lambda>ord. created_on ord = d) (fin_orders db)) = (\<Sum>st \<leftarrow> enum_class.enum. count_on d [st] db)"
    unfolding count_on_one by (rule status_split)
  then show ?thesis unfolding w by (simp add: enum_order_status_def)
qed

section \<open>Shares\<close>

lemma share_bounds:
  assumes "sh \<in> set (shares items)" and "list_all (\<lambda>(s, n). 0 \<le> n) items"
  shows "0 \<le> sh_percent sh \<and> 2 * \<bar>sh_value sh * 100 - sum_list (map snd items) * sh_percent sh\<bar> \<le> sum_list (map snd items)"
proof -
  let ?t = "sum_list (map snd items)"
  have t: "0 \<le> ?t" using assms(2) by (intro sum_list_nonneg) (auto simp: list_all_iff)
  obtain i s n where e: "(i, s, n) \<in> set (enumerate 0 items)" and sh: "sh_value sh = n"
    "sh_percent sh = (if ?t = 0 then 0 else round_half_even (n * 100) ?t)"
    using assms(1) by (auto simp: shares_def Let_def)
  have sn: "(s, n) \<in> set items" using e nth_mem [of i items] by (simp add: in_set_enumerate_eq)
  then have n: "0 \<le> n" using assms(2) by (auto simp: list_all_iff)
  show ?thesis
  proof (cases "?t = 0")
    case True
    have "n \<in> set (map snd items)" using sn by force
    then have "n \<le> ?t" using assms(2) by (intro member_le_sum_list) (auto simp: list_all_iff)
    with True sh n show ?thesis by simp
  next
    case False
    then show ?thesis using sh t n round_half_even_bounds [of ?t "n * 100"] round_half_even_nonneg [of ?t "n * 100"] by simp
  qed
qed

end
