(* ===== verification/Order_Lists.thy ===== *)
theory Order_Lists
  imports Master_Admin Tracking Finance
begin

text \<open>
  What masters, clients, the dashboard and the internal API see of the orders: the lists, tabs,
  boards and counters of \<open>src/apps/orders/views.py\<close>, \<open>src/apps/dashboard/views.py\<close> and
  \<open>src/apps/internal_api/views.py\<close>.

  \<^item> Lists ordered by \<open>-created_at\<close> are the table backwards; a list with no order of its own is
    in the order of the model, which is the same.
  \<^item> \<open>uuid_of\<close> reads a UUID and gives the key it stands for; \<open>slug_of\<close> gives the slug of a
    category. Lists ordered by a text column are in the order of the table.
\<close>

section \<open>Common filters\<close>

record lookups =
  uuid_of :: "string \<Rightarrow> row_id option"
  slug_of :: "row_id \<Rightarrow> string"

definition newest :: "sys \<Rightarrow> order list" where
  "newest s = rev (orders s)"

definition category_of :: "sys \<Rightarrow> order \<Rightarrow> row_id" where
  "category_of s ord = (case get_row sv_id (o_service ord) (catalog s) of None \<Rightarrow> 0 | Some v \<Rightarrow> sv_category v)"

definition by_category :: "lookups \<Rightarrow> query \<Rightarrow> sys \<Rightarrow> order list \<Rightarrow> order list" where
  "by_category lk q s = filter_by_category (uuid_of lk) q (category_of s) (\<lambda>ord. slug_of lk (category_of s ord))"

definition assigned_to :: "row_id \<Rightarrow> sys \<Rightarrow> order \<Rightarrow> bool" where
  "assigned_to m s ord = list_ex (\<lambda>r. om_order r = o_id ord \<and> om_master r = m) (order_masters s)"

definition actively_assigned_to :: "row_id \<Rightarrow> sys \<Rightarrow> order \<Rightarrow> bool" where
  "actively_assigned_to m s ord = list_ex (\<lambda>r. om_order r = o_id ord \<and> om_master r = m \<and> om_active r) (order_masters s)"

definition has_active_master :: "sys \<Rightarrow> order \<Rightarrow> bool" where
  "has_active_master s ord = list_ex (\<lambda>r. om_order r = o_id ord \<and> om_active r) (order_masters s)"

definition status_of :: "string \<Rightarrow> order_status option" where
  "status_of v = find (\<lambda>st. status_value st = v) enum_class.enum"

definition count_rows :: "('r \<Rightarrow> bool) \<Rightarrow> 'r list \<Rightarrow> nat" where
  "count_rows P rows = length (filter P rows)"

section \<open>Masters and clients\<close>

definition MasterOrderList_get_queryset :: "lookups \<Rightarrow> row_id \<Rightarrow> query \<Rightarrow> int option \<Rightarrow> sys \<Rightarrow> order list" where
  "MasterOrderList_get_queryset lk user q date s =
    (let tab = param q ''tab'';
         mine = filter (actively_assigned_to user s) (newest s);
         tabbed = (if tab \<in> {''yangi'', ''new'', ''available''} then filter (\<lambda>ord. o_status ord = NEW) mine
                   else if tab \<in> {''joriy'', ''in_process''}
                   then filter (\<lambda>ord. o_status ord \<in> set MASTER_IN_PROGRESS_STATUSES) mine
                   else if tab \<in> {''completed'', ''bajarilgan''} then filter (\<lambda>ord. o_status ord = COMPLETED) mine
                   else mine);
         found = by_category lk q s tabbed
     in case date of None \<Rightarrow> found | Some d \<Rightarrow> filter (\<lambda>ord. scheduled_date ord = d) found)"

definition MasterOrderDetail_get :: "row_id \<Rightarrow> row_id \<Rightarrow> sys \<Rightarrow> order res" where
  "MasterOrderDetail_get user pk s =
    get_or_404 ''Order'' (get_row o_id pk (filter (\<lambda>ord. assigned_to user s ord \<or> o_master ord = Some user) (orders s)))"

text \<open>The unread notifications are counted by the notification tables, see there. The average
  rating is the sum of the ratings and their number.\<close>

record home_stats =
  hs_today_income :: money
  hs_today_orders :: nat
  hs_orders :: nat
  hs_new :: nat
  hs_in_process :: nat
  hs_average :: "int \<times> nat"
  hs_wallet :: master_wallet
  hs_low_stock :: nat

definition home_stats_of :: "int \<Rightarrow> row_id \<Rightarrow> sys \<Rightarrow> home_stats" where
  "home_stats_of today user s =
    (let led = filter (\<lambda>ord. o_master ord = Some user) (orders s);
         rated = filter (\<lambda>r. rv_master r = user) (reviews s)
     in \<lparr>hs_today_income = sum_rows total_amount (filter (\<lambda>ord. o_status ord = COMPLETED \<and> scheduled_date ord = today) led),
         hs_today_orders = count_rows (\<lambda>ord. scheduled_date ord = today) led, hs_orders = length led,
         hs_new = count_rows (\<lambda>ord. assigned_to user s ord \<and> o_status ord = NEW) (orders s),
         hs_in_process = count_rows (\<lambda>ord. assigned_to user s ord \<and> o_status ord \<in> set MASTER_IN_PROGRESS_STATUSES) (orders s),
         hs_average = (sum_rows rv_rating rated, length rated), hs_wallet = wallet_of user (wallet s),
         hs_low_stock = count_rows (\<lambda>r. mi_master r = user \<and> mi_quantity r \<le> mi_low_threshold r) (inventory (warehouse s))\<rparr>)"

text \<open>The view creates the wallet of a master who has none yet.\<close>

definition MasterHomeStats_get :: "int \<Rightarrow> row_id \<Rightarrow> sys \<Rightarrow> sys \<times> home_stats" where
  "MasterHomeStats_get today user s =
    (let s1 = s\<lparr>wallet := get_or_create_wallet user (wallet s)\<rparr> in (s1, home_stats_of today user s1))"

definition ClientOrderList_get_queryset :: "lookups \<Rightarrow> row_id \<Rightarrow> query \<Rightarrow> sys \<Rightarrow> order list" where
  "ClientOrderList_get_queryset lk user q s =
    (let found = by_category lk q s (filter (\<lambda>ord. o_client ord = user) (newest s)); v = param q ''status''
     in if v = [] then found else filter (\<lambda>ord. status_value (o_status ord) = v) found)"

definition ClientRecentOrders_get_queryset :: "row_id \<Rightarrow> sys \<Rightarrow> order list" where
  "ClientRecentOrders_get_queryset user s = take 5 (filter (\<lambda>ord. o_client ord = user) (newest s))"

definition home_active_orders :: "row_id \<Rightarrow> sys \<Rightarrow> order list" where
  "home_active_orders user s =
    take 5 (filter (\<lambda>ord. o_client ord = user \<and> o_status ord \<notin> {COMPLETED, CANCELLED, REJECTED}) (newest s))"

text \<open>Nearby masters: the radius and the distances are in hundredths of a kilometre; the point is
  \<open>None\<close> when a coordinate is missing.\<close>

definition NearbyMasterList_get_queryset ::
  "distance_fun \<Rightarrow> query \<Rightarrow> (int \<times> int) option \<Rightarrow> int \<Rightarrow> accounts_db \<Rightarrow> (master \<times> int option \<times> nat option) list" where
  "NearbyMasterList_get_queryset dist q point radius a =
    (let ms = filter_masters_by_specialization (param q ''specialization'')
                (filter (\<lambda>m. is_online m \<and> ms_active m \<and> is_available m) (masters a))
     in case point of
          None \<Rightarrow> map (\<lambda>m. (m, None, None)) ms
        | Some (lat, lng) \<Rightarrow>
            map (\<lambda>(m, d). (m, Some d, eta_minutes (Some d) 30))
              (sort_key snd
                (filter (\<lambda>(m, d). d \<le> radius)
                  (concat (map (\<lambda>m. case distance_km dist (Some lat) (Some lng) (ms_lat m) (ms_lng m) of
                                      None \<Rightarrow> [] | Some d \<Rightarrow> [(m, d)]) ms)))))"

section \<open>Dashboard\<close>

definition bool_param :: "string option \<Rightarrow> bool option" where
  "bool_param v = map_option (\<lambda>s. lower s \<in> {''1'', ''true'', ''yes'', ''on''}) v"

datatype order_tab = TabAll | TabYangi | TabYolda | TabBajarilmoqda | TabYakunlangan | TabBekor

definition ORDER_TAB_ALIASES :: "(string \<times> order_tab) list" where
  "ORDER_TAB_ALIASES =
    [(''all'', TabAll), (''barchasi'', TabAll), (''yangi'', TabYangi), (''new'', TabYangi), (''yo'lda'', TabYolda),
     (''yolda'', TabYolda), (''on_way'', TabYolda), (''bajarilmoqda'', TabBajarilmoqda), (''in_progress'', TabBajarilmoqda),
     (''yakunlangan'', TabYakunlangan), (''completed'', TabYakunlangan), (''bekor'', TabBekor),
     (''bekor qilingan'', TabBekor), (''cancelled'', TabBekor)]"

definition apply_order_tab :: "sys \<Rightarrow> string \<Rightarrow> order list \<Rightarrow> order list" where
  "apply_order_tab s tab rows =
    (case map_of ORDER_TAB_ALIASES (lower (strip tab)) of
       None \<Rightarrow> rows
     | Some TabAll \<Rightarrow> rows
     | Some TabYangi \<Rightarrow> filter (\<lambda>ord. o_status ord = NEW \<and> \<not> has_active_master s ord) rows
     | Some TabYolda \<Rightarrow> filter (\<lambda>ord. o_status ord = ON_WAY) rows
     | Some TabBajarilmoqda \<Rightarrow>
         filter (\<lambda>ord. o_status ord \<in> {ACCEPTED, ARRIVED} \<or> (o_status ord = NEW \<and> has_active_master s ord)) rows
     | Some TabYakunlangan \<Rightarrow> filter (\<lambda>ord. o_status ord = COMPLETED) rows
     | Some TabBekor \<Rightarrow> filter (\<lambda>ord. o_status ord \<in> {CANCELLED, REJECTED}) rows)"

definition client_row :: "accounts_db \<Rightarrow> order \<Rightarrow> client option" where
  "client_row a ord = get_row cl_id (o_client ord) (clients a)"

definition order_matches :: "lookups \<Rightarrow> accounts_db \<Rightarrow> sys \<Rightarrow> string \<Rightarrow> order \<Rightarrow> bool" where
  "order_matches lk a s v ord =
    (icontains (o_address_text ord) v \<or> icontains (o_note ord) v \<or>
     (case client_row a ord of None \<Rightarrow> False
      | Some c \<Rightarrow> icontains (cl_phone c) v \<or> icontains (cl_first_name c) v \<or> icontains (cl_last_name c) v) \<or>
     (case master_of ord a of None \<Rightarrow> False | Some m \<Rightarrow> icontains (ms_first_name m) v \<or> icontains (ms_last_name m) v) \<or>
     icontains (service_str (o_service ord) s) v \<or> uuid_of lk v = Some (o_id ord))"

definition payment_value :: "payment_type option \<Rightarrow> string" where
  "payment_value pt = (case pt of None \<Rightarrow> [] | Some PT_CASH \<Rightarrow> ''cash'' | Some PT_ONLINE \<Rightarrow> ''online''
     | Some PT_CARD \<Rightarrow> ''card'' | Some PT_PLASTIC \<Rightarrow> ''plastic'')"

text \<open>The keys and dates of the query are read by the framework: they are arguments.\<close>

record order_filters =
  of_client :: "row_id option"
  of_master :: "row_id option"
  of_service :: "row_id option"
  of_from :: "int option"
  of_to :: "int option"

definition keep_if :: "'a option \<Rightarrow> ('a \<Rightarrow> 'r \<Rightarrow> bool) \<Rightarrow> 'r list \<Rightarrow> 'r list" where
  "keep_if x P rows = (case x of None \<Rightarrow> rows | Some v \<Rightarrow> filter (P v) rows)"

definition DashboardOrderList_get_queryset :: "lookups \<Rightarrow> query \<Rightarrow> order_filters \<Rightarrow> accounts_db \<Rightarrow> sys \<Rightarrow> order list" where
  "DashboardOrderList_get_queryset lk q f a s =
    (let r0 = newest s;
         r1 = (if param q ''search'' = [] then r0 else filter (order_matches lk a s (param q ''search'')) r0);
         r2 = apply_order_tab s (param q ''tab'') r1;
         r3 = (if param q ''status'' = [] then r2 else filter (\<lambda>ord. status_value (o_status ord) = param q ''status'') r2);
         r4 = (if param q ''payment_type'' = [] then r3 else filter (\<lambda>ord. payment_value (o_payment_type ord) = param q ''payment_type'') r3);
         r5 = keep_if (of_client f) (\<lambda>c ord. o_client ord = c) r4;
         r6 = keep_if (of_master f) (\<lambda>m ord. o_master ord = Some m \<or> actively_assigned_to m s ord) r5;
         r7 = keep_if (of_service f) (\<lambda>v ord. o_service ord = v) r6;
         r8 = by_category lk q s r7;
         r9 = keep_if (of_from f) (\<lambda>d ord. d \<le> created_on ord) r8
     in keep_if (of_to f) (\<lambda>d ord. created_on ord \<le> d) r9)"

text \<open>The board: one column per status; \<open>int(...)\<close> of the limit is not guarded.\<close>

definition DashboardOrderBoard_get :: "lookups \<Rightarrow> query \<Rightarrow> sys \<Rightarrow> (order_status \<times> nat \<times> order list) list res" where
  "DashboardOrderBoard_get lk q s =
    (case (case map_of q ''limit'' of None \<Rightarrow> Some 10 | Some v \<Rightarrow> parse_int v) of
       None \<Rightarrow> Inl (ServerError ''invalid literal for int()'')
     | Some limit \<Rightarrow>
         if limit < 0 then Inl (ServerError ''Negative indexing is not supported.'')
         else Inr (map (\<lambda>st. let rows = by_category lk q s (filter (\<lambda>ord. o_status ord = st) (newest s))
                             in (st, length rows, take (nat limit) rows)) enum_class.enum))"

definition dashboard_active :: "order_status list" where
  "dashboard_active = [NEW, ACCEPTED, ON_WAY, ARRIVED]"

definition DashboardTodayOrders_get_queryset :: "int \<Rightarrow> sys \<Rightarrow> order list" where
  "DashboardTodayOrders_get_queryset today s =
    filter (\<lambda>ord. created_on ord = today \<and> o_status ord \<in> set dashboard_active) (newest s)"

definition DashboardClientOrders_get_queryset :: "lookups \<Rightarrow> query \<Rightarrow> row_id \<Rightarrow> sys \<Rightarrow> order list" where
  "DashboardClientOrders_get_queryset lk q pk s = by_category lk q s (filter (\<lambda>ord. o_client ord = pk) (newest s))"

definition DashboardMasterOrders_get_queryset :: "lookups \<Rightarrow> query \<Rightarrow> row_id \<Rightarrow> sys \<Rightarrow> order list" where
  "DashboardMasterOrders_get_queryset lk q pk s = by_category lk q s (filter (\<lambda>ord. o_master ord = Some pk) (newest s))"

definition DashboardClientList_get_queryset :: "query \<Rightarrow> accounts_db \<Rightarrow> client list" where
  "DashboardClientList_get_queryset q a =
    (let v = param q ''search'';
         found = (if v = [] then rev (clients a)
                  else filter (\<lambda>c. icontains (cl_first_name c) v \<or> icontains (cl_last_name c) v \<or> icontains (cl_phone c) v) (rev (clients a)))
     in case bool_param (map_of q ''is_active'') of None \<Rightarrow> found | Some b \<Rightarrow> filter (\<lambda>c. cl_active c = b) found)"

record client_stats =
  cs_orders :: nat
  cs_completed :: nat
  cs_active :: nat
  cs_cancelled :: nat
  cs_spent :: money
  cs_last :: "instant option"

definition DashboardClientStats_get :: "row_id \<Rightarrow> accounts_db \<Rightarrow> sys \<Rightarrow> client_stats res" where
  "DashboardClientStats_get pk a s =
    (case get_row cl_id pk (clients a) of
       None \<Rightarrow> Inl (NotFound ''Client'')
     | Some _ \<Rightarrow>
         let rows = filter (\<lambda>ord. o_client ord = pk) (orders s);
             done = filter (\<lambda>ord. o_status ord = COMPLETED) rows
         in Inr \<lparr>cs_orders = length rows, cs_completed = length done,
              cs_active = count_rows (\<lambda>ord. o_status ord \<in> set dashboard_active) rows,
              cs_cancelled = count_rows (\<lambda>ord. o_status ord = CANCELLED) rows, cs_spent = sum_rows total_amount done,
              cs_last = (if rows = [] then None else Some (fold max (map o_created_at rows) (o_created_at (hd rows))))\<rparr>)"

datatype found = FoundService row_id | FoundOrder row_id | FoundClient row_id | FoundMaster row_id

definition DashboardSearch_get :: "lookups \<Rightarrow> string \<Rightarrow> accounts_db \<Rightarrow> sys \<Rightarrow> found list" where
  "DashboardSearch_get lk raw a s =
    (let v = strip raw in
     if length v < 2 then []
     else take 10
       (map (FoundService \<circ> sv_id) (take 5 (filter (\<lambda>x. sv_active x \<and> (icontains (sv_name x) v \<or> icontains (sv_description x) v)) (catalog s))) @
        map (FoundOrder \<circ> o_id) (take 5 (filter (\<lambda>ord. icontains (o_address_text ord) v \<or> icontains (o_note ord) v \<or>
            (case client_row a ord of None \<Rightarrow> False | Some c \<Rightarrow> icontains (cl_phone c) v) \<or> uuid_of lk v = Some (o_id ord)) (newest s))) @
        map (FoundClient \<circ> cl_id) (take 5 (filter (\<lambda>c. icontains (cl_first_name c) v \<or> icontains (cl_last_name c) v \<or> icontains (cl_phone c) v) (clients a))) @
        map (FoundMaster \<circ> ms_id) (take 5 (search_masters v (masters a)))))"

definition get_can_cancel :: "order \<Rightarrow> bool" where
  "get_can_cancel ord = (o_status ord \<in> {NEW, ACCEPTED, ON_WAY})"

definition get_can_rate :: "sys \<Rightarrow> order \<Rightarrow> bool" where
  "get_can_rate s ord = (o_status ord = COMPLETED \<and> \<not> list_ex (\<lambda>r. rv_order r = o_id ord) (reviews s))"

section \<open>Internal API\<close>

definition dashboard_order_status :: "order \<Rightarrow> string" where
  "dashboard_order_status ord =
    (case o_status ord of NEW \<Rightarrow> ''new'' | ACCEPTED \<Rightarrow> ''accepted'' | ON_WAY \<Rightarrow> ''on_way'' | ARRIVED \<Rightarrow> ''in_progress''
     | COMPLETED \<Rightarrow> ''completed'' | CANCELLED \<Rightarrow> ''cancelled'' | REJECTED \<Rightarrow> ''cancelled'' | AWAITING_PAYMENT \<Rightarrow> ''awaiting_payment'')"

definition dashboard_payment_status :: "order \<Rightarrow> string" where
  "dashboard_payment_status ord = (if o_status ord = COMPLETED \<and> 0 < total_amount ord then ''paid'' else ''unpaid'')"

definition ORDER_STATUS_COLORS :: "string list" where
  "ORDER_STATUS_COLORS = [''new'', ''on_way'', ''in_progress'', ''completed'', ''cancelled'', ''delayed'']"

definition get_receipt_status :: "order \<Rightarrow> string" where
  "get_receipt_status ord =
    (if receipt_approved_at ord \<noteq> None then ''approved''
     else if o_status ord = COMPLETED then ''pending_master_confirmation'' else ''not_ready'')"

definition get_can_download_receipt :: "order \<Rightarrow> bool" where
  "get_can_download_receipt ord = (o_status ord = COMPLETED \<and> receipt_approved_at ord \<noteq> None)"

definition OrderReceiptDownloadAPIView_get :: "row_id \<Rightarrow> sys \<Rightarrow> order res" where
  "OrderReceiptDownloadAPIView_get pk s =
    bindE (get_or_404 ''Order'' (get_order pk s)) (\<lambda>ord.
      if o_status ord \<notin> {AWAITING_PAYMENT, COMPLETED} \<or> receipt_approved_at ord = None
      then Inl (PermissionDenied ''Check hali usta tomonidan yuborilmagan'') else Inr ord)"

definition OrderCollectionAPIView_get_queryset :: "lookups \<Rightarrow> query \<Rightarrow> order_filters \<Rightarrow> sys \<Rightarrow> order list" where
  "OrderCollectionAPIView_get_queryset lk q f s =
    (let r1 = keep_if (of_from f) (\<lambda>d ord. d \<le> created_on ord) (newest s);
         r2 = keep_if (of_to f) (\<lambda>d ord. created_on ord \<le> d) r1;
         r3 = keep_if (of_master f) (\<lambda>m ord. o_master ord = Some m) r2;
         r4 = keep_if (of_client f) (\<lambda>c ord. o_client ord = c) r3;
         r5 = keep_if (of_service f) (\<lambda>v ord. o_service ord = v) r4;
         r6 = by_category lk q s r5
     in if param q ''status'' = [] then r6 else filter (\<lambda>ord. dashboard_order_status ord = param q ''status'') r6)"

text \<open>\<open>counts[key] += 1\<close> raises when the dictionary has no such key.\<close>

fun count_statuses :: "(string \<times> nat) list \<Rightarrow> order list \<Rightarrow> (string \<times> nat) list res" where
  "count_statuses counts [] = Inr counts"
| "count_statuses counts (ord # rest) =
    (case map_of counts (dashboard_order_status ord) of
       None \<Rightarrow> Inl (ServerError ''KeyError'')
     | Some n \<Rightarrow> count_statuses (map (\<lambda>(k, i). (k, if k = dashboard_order_status ord then Suc i else i)) counts) rest)"

definition OrderMetaAPIView_get :: "sys \<Rightarrow> (nat \<times> (string \<times> nat) list) res" where
  "OrderMetaAPIView_get s =
    bindE (count_statuses (map (\<lambda>k. (k, 0)) ORDER_STATUS_COLORS) (orders s)) (\<lambda>counts. Inr (length (orders s), counts))"

text \<open>The slice of a Python list: a negative bound counts from the end.\<close>

definition py_take :: "int \<Rightarrow> 'a list \<Rightarrow> 'a list" where
  "py_take n xs = (if 0 \<le> n then take (nat n) xs else take (length xs - nat (- n)) xs)"

definition OrderBoardAPIView_get :: "lookups \<Rightarrow> query \<Rightarrow> sys \<Rightarrow> (string \<times> nat \<times> order list) list" where
  "OrderBoardAPIView_get lk q s =
    (let rows = by_category lk q s (newest s)
     in map (\<lambda>k. let items = filter (\<lambda>ord. dashboard_order_status ord = k) rows
                 in (k, length items, py_take (parse_limit q 20) items)) ORDER_STATUS_COLORS)"

definition OrderExportAPIView_get :: "lookups \<Rightarrow> query \<Rightarrow> sys \<Rightarrow> order list" where
  "OrderExportAPIView_get lk q s = by_category lk q s (newest s)"

definition MasterOrdersAPIView_get_queryset :: "lookups \<Rightarrow> query \<Rightarrow> row_id \<Rightarrow> sys \<Rightarrow> order list" where
  "MasterOrdersAPIView_get_queryset lk q pk s = by_category lk q s (filter (\<lambda>ord. o_master ord = Some pk) (newest s))"

definition MasterScheduleAPIView_get_queryset :: "lookups \<Rightarrow> query \<Rightarrow> row_id \<Rightarrow> sys \<Rightarrow> order list" where
  "MasterScheduleAPIView_get_queryset lk q pk s =
    by_category lk q s (sort_key scheduled_date (sort_key scheduled_time (sort_key o_created_at
      (filter (\<lambda>ord. o_master ord = Some pk \<and> o_status ord \<notin> {COMPLETED, CANCELLED, REJECTED}) (orders s)))))"

definition MasterIncomeAPIView_get :: "row_id \<Rightarrow> accounts_db \<Rightarrow> sys \<Rightarrow> (nat \<times> money) res" where
  "MasterIncomeAPIView_get pk a s =
    (case get_row ms_id pk (masters a) of
       None \<Rightarrow> Inl (NotFound ''Master'')
     | Some _ \<Rightarrow> let rows = filter (\<lambda>ord. o_master ord = Some pk \<and> o_status ord = COMPLETED) (orders s)
                 in Inr (length rows, sum_rows total_amount rows))"

definition ClientOrdersAPIView_get_queryset :: "lookups \<Rightarrow> query \<Rightarrow> row_id \<Rightarrow> sys \<Rightarrow> order list" where
  "ClientOrdersAPIView_get_queryset lk q pk s = by_category lk q s (filter (\<lambda>ord. o_client ord = pk) (newest s))"

definition ClientStatsAPIView_get :: "row_id \<Rightarrow> accounts_db \<Rightarrow> sys \<Rightarrow> (nat \<times> money \<times> int option) res" where
  "ClientStatsAPIView_get pk a s =
    (case get_row cl_id pk (clients a) of
       None \<Rightarrow> Inl (NotFound ''Client'')
     | Some _ \<Rightarrow> let rows = filter (\<lambda>ord. o_client ord = pk) (newest s)
                 in Inr (length rows, sum_rows total_amount rows, if rows = [] then None else Some (created_on (hd rows))))"

definition ClientCollectionAPIView_get_queryset :: "query \<Rightarrow> accounts_db \<Rightarrow> client list" where
  "ClientCollectionAPIView_get_queryset q a =
    (let v = (if param q ''search'' \<noteq> [] then param q ''search'' else param q ''q'');
         found = (if v = [] then clients a
                  else filter (\<lambda>c. icontains (cl_first_name c) v \<or> icontains (cl_last_name c) v \<or> icontains (cl_phone c) v) (clients a))
     in if param q ''is_active'' \<in> {''true'', ''false''} then filter (\<lambda>c. cl_active c = (param q ''is_active'' = ''true'')) found else found)"

definition OrderAssignmentOptions_get :: "row_id \<Rightarrow> accounts_db \<Rightarrow> sys \<Rightarrow> (row_id \<times> master_state \<times> bool) list res" where
  "OrderAssignmentOptions_get pk a s =
    bindE (get_or_404 ''Order'' (get_order pk s)) (\<lambda>ord.
      Inr (map (\<lambda>m. (ms_id m, master_status m, o_master ord = Some (ms_id m))) (filter ms_active (masters a))))"

end
