(* ===== verification/Order_List_Props.thy ===== *)
theory Order_List_Props
  imports Order_Lists Finance_Props
begin

text \<open>
  Properties of the lists: which orders a tab, a board or a counter shows, and which it loses.
\<close>

section \<open>Tabs of the dashboard\<close>

definition tab_rows :: "sys \<Rightarrow> string \<Rightarrow> order list" where
  "tab_rows s tab = apply_order_tab s tab (orders s)"

lemma tab_aliases:
  "map_of ORDER_TAB_ALIASES (lower (strip ''yangi'')) = Some TabYangi" "map_of ORDER_TAB_ALIASES (lower (strip ''yo'lda'')) = Some TabYolda"
  "map_of ORDER_TAB_ALIASES (lower (strip ''bajarilmoqda'')) = Some TabBajarilmoqda"
  "map_of ORDER_TAB_ALIASES (lower (strip ''yakunlangan'')) = Some TabYakunlangan" "map_of ORDER_TAB_ALIASES (lower (strip ''bekor'')) = Some TabBekor"
  by code_simp+

lemma tab_sum:
  "length (filter (\<lambda>ord. o_status ord = NEW \<and> \<not> A ord) rows) + length (filter (\<lambda>ord. o_status ord = ON_WAY) rows) +
   length (filter (\<lambda>ord. o_status ord \<in> {ACCEPTED, ARRIVED} \<or> (o_status ord = NEW \<and> A ord)) rows) +
   length (filter (\<lambda>ord. o_status ord = COMPLETED) rows) + length (filter (\<lambda>ord. o_status ord \<in> {CANCELLED, REJECTED}) rows) +
   count_rows (\<lambda>ord. o_status ord = AWAITING_PAYMENT) rows = length rows"
proof (induction rows)
  case (Cons ord rows)
  then show ?case by (cases "o_status ord"; cases "A ord") (simp_all add: count_rows_def)
qed (simp add: count_rows_def)

text \<open>The five tabs of the dashboard's order page show every order once, except those that wait
  for payment: no tab shows them, although the badge of such an order names the tab of the
  orders in progress.\<close>

theorem tabs_lose_awaiting_payment:
  "length (tab_rows s ''yangi'') + length (tab_rows s ''yo'lda'') + length (tab_rows s ''bajarilmoqda'') +
     length (tab_rows s ''yakunlangan'') + length (tab_rows s ''bekor'') + count_rows (\<lambda>ord. o_status ord = AWAITING_PAYMENT) (orders s) =
     length (orders s) \<and>
   (tab \<in> {''yangi'', ''yo'lda'', ''bajarilmoqda'', ''yakunlangan'', ''bekor''} \<longrightarrow>
     \<not> list_ex (\<lambda>ord. o_status ord = AWAITING_PAYMENT) (tab_rows s tab)) \<and>
   STATUS_TAB AWAITING_PAYMENT = ''bajarilmoqda''"
proof -
  have rows: "tab_rows s ''yangi'' = filter (\<lambda>ord. o_status ord = NEW \<and> \<not> has_active_master s ord) (orders s)"
    "tab_rows s ''yo'lda'' = filter (\<lambda>ord. o_status ord = ON_WAY) (orders s)"
    "tab_rows s ''bajarilmoqda'' = filter (\<lambda>ord. o_status ord \<in> {ACCEPTED, ARRIVED} \<or> (o_status ord = NEW \<and> has_active_master s ord)) (orders s)"
    "tab_rows s ''yakunlangan'' = filter (\<lambda>ord. o_status ord = COMPLETED) (orders s)"
    "tab_rows s ''bekor'' = filter (\<lambda>ord. o_status ord \<in> {CANCELLED, REJECTED}) (orders s)"
    by (simp_all only: tab_rows_def apply_order_tab_def tab_aliases option.case order_tab.case)
  have "\<not> list_ex (\<lambda>ord. o_status ord = AWAITING_PAYMENT) (tab_rows s tab)"
    if "tab \<in> {''yangi'', ''yo'lda'', ''bajarilmoqda'', ''yakunlangan'', ''bekor''}"
    using that by (elim insertE emptyE) (simp_all only: rows, auto simp: list_ex_iff)
  then show ?thesis using tab_sum [of "has_active_master s" "orders s"] by (simp only: rows) simp
qed

theorem tabs_lose_awaiting_payment_witness:
  "map o_status (orders checked_sys) = [AWAITING_PAYMENT] \<and> tab_rows checked_sys ''bajarilmoqda'' = []"
proof -
  have o: "map o_status (orders checked_sys) = [AWAITING_PAYMENT]" by (rule example_statuses(3))
  then have c: "count_rows (\<lambda>ord. o_status ord = AWAITING_PAYMENT) (orders checked_sys) = 1" "length (orders checked_sys) = 1"
    by (auto simp: count_rows_def map_eq_Cons_conv)
  with tabs_lose_awaiting_payment [of checked_sys "''yangi''"] o show ?thesis by simp
qed

section \<open>Counters of the internal API\<close>

lemma count_statuses_error:
  "(\<exists>er. count_statuses counts rows = Inl er) \<longleftrightarrow> list_ex (\<lambda>ord. dashboard_order_status ord \<notin> fst ` set counts) rows"
proof (induction rows arbitrary: counts)
  case (Cons ord rows)
  have keys: "fst ` set (map (\<lambda>(k, i). (k, if k = x then Suc i else i)) counts) = fst ` set counts" for x
    by (force simp: image_iff)
  note keys' = keys [unfolded set_map]
  show ?case
  proof (cases "map_of counts (dashboard_order_status ord)")
    case None
    moreover from None have "dashboard_order_status ord \<notin> fst ` set counts" by (simp add: map_of_eq_None_iff)
    ultimately show ?thesis by simp
  next
    case (Some n)
    then have "dashboard_order_status ord \<in> fst ` set counts" by (metis domI domIff map_of_eq_None_iff option.distinct(1))
    with Some show ?thesis by (simp add: Cons.IH keys')
  qed
qed simp

lemma no_color: "dashboard_order_status ord \<notin> set ORDER_STATUS_COLORS \<longleftrightarrow> o_status ord \<in> {ACCEPTED, AWAITING_PAYMENT}"
  by (cases "o_status ord") (simp_all add: dashboard_order_status_def ORDER_STATUS_COLORS_def)

lemma board_sum:
  "sum_list (map (\<lambda>k. length (filter (\<lambda>ord. dashboard_order_status ord = k) rows)) ORDER_STATUS_COLORS) +
    count_rows (\<lambda>ord. o_status ord \<in> {ACCEPTED, AWAITING_PAYMENT}) rows = length rows"
proof (induction rows)
  case (Cons ord rows)
  then show ?case
    by (cases "o_status ord") (simp_all add: dashboard_order_status_def ORDER_STATUS_COLORS_def count_rows_def)
qed (simp add: ORDER_STATUS_COLORS_def count_rows_def)



section \<open>A master's own lists\<close>

lemma active_assigned: "actively_assigned_to m s ord \<Longrightarrow> assigned_to m s ord"
  by (auto simp: actively_assigned_to_def assigned_to_def list_ex_iff)

lemma assigned_to_wallet: "assigned_to m (s\<lparr>wallet := w\<rparr>) ord = assigned_to m s ord"
  by (simp add: assigned_to_def)

text \<open>The counter of new orders on the home screen also counts orders the master was taken off;
  the list behind it does not show them.\<close>

lemma home_counts_removed:
  "hs_new (snd (MasterHomeStats_get today user s)) =
    length (MasterOrderList_get_queryset lk user [(''tab'', ''new'')] None s) +
    count_rows (\<lambda>ord. assigned_to user s ord \<and> \<not> actively_assigned_to user s ord \<and> o_status ord = NEW) (orders s)"
proof -
  have list: "MasterOrderList_get_queryset lk user [(''tab'', ''new'')] None s =
      filter (\<lambda>ord. o_status ord = NEW) (filter (actively_assigned_to user s) (newest s))"
    by (simp add: MasterOrderList_get_queryset_def param_def by_category_def filter_by_category_def category_param_def)
  have "length (filter (\<lambda>ord. assigned_to user s ord \<and> o_status ord = NEW) rows) =
      length (filter (\<lambda>ord. o_status ord = NEW) (filter (actively_assigned_to user s) rows)) +
      length (filter (\<lambda>ord. assigned_to user s ord \<and> \<not> actively_assigned_to user s ord \<and> o_status ord = NEW) rows)" for rows
    using active_assigned by (induction rows) auto
  from this [of "orders s"] show ?thesis
    by (simp add: list MasterHomeStats_get_def home_stats_of_def assigned_to_wallet Let_def count_rows_def newest_def rev_filter [symmetric])
qed

end
