(* ===== verification/Order_Refinement.thy ===== *)
theory Order_Refinement
  imports Order_Money
begin

text \<open>
  What the orders promise, as an abstract machine, and that the endpoints of masters, clients and the
  payment provider implement it; and that an order that is being worked on can always be finished.
\<close>

section \<open>Simulation\<close>

text \<open>A concrete machine implements an abstract one: from states where the invariant holds every concrete
  step is a sequence of abstract steps between the abstractions.\<close>

locale simulation =
  fixes cstep :: "'c \<Rightarrow> 'c \<Rightarrow> bool"
    and astep :: "'a \<Rightarrow> 'a \<Rightarrow> bool"
    and alpha :: "'c \<Rightarrow> 'a"
    and inv :: "'c \<Rightarrow> bool"
  assumes inv_step: "inv s \<Longrightarrow> cstep s s' \<Longrightarrow> inv s'"
    and sim_step: "inv s \<Longrightarrow> cstep s s' \<Longrightarrow> astep\<^sup>*\<^sup>* (alpha s) (alpha s')"
begin

lemma inv_steps: "cstep\<^sup>*\<^sup>* s s' \<Longrightarrow> inv s \<Longrightarrow> inv s'"
  by (induction rule: rtranclp_induct) (auto intro: inv_step)

lemma sim_steps: "cstep\<^sup>*\<^sup>* s s' \<Longrightarrow> inv s \<Longrightarrow> astep\<^sup>*\<^sup>* (alpha s) (alpha s')"
proof (induction rule: rtranclp_induct)
  case (step y z)
  then show ?case using sim_step [OF inv_steps [OF step(1)]] by (metis rtranclp_trans)
qed simp

text \<open>What the abstract machine never loses, the concrete one never loses.\<close>

lemma stable_transfer:
  assumes "\<And>x y. P x \<Longrightarrow> astep x y \<Longrightarrow> P y" and "cstep\<^sup>*\<^sup>* s s'" and "inv s" and "P (alpha s)"
  shows "P (alpha s')"
proof -
  have "astep\<^sup>*\<^sup>* (alpha s) (alpha s')" by (rule sim_steps [OF assms(2,3)])
  then show ?thesis using assms(4) by (induction rule: rtranclp_induct) (auto intro: assms(1))
qed

end

section \<open>The abstract machine\<close>

text \<open>The status of each order, and what each master has on the two balances.\<close>

record ledger_view =
  stage :: "row_id \<Rightarrow> order_status option"
  earned :: "row_id \<Rightarrow> wallet_method \<Rightarrow> money"

definition settle :: "row_id option \<Rightarrow> wallet_method \<Rightarrow> money \<Rightarrow> ledger_view \<Rightarrow> ledger_view" where
  "settle who meth amount v =
    v\<lparr>earned := (\<lambda>m k. earned v m k + (if who = Some m \<and> k = meth then amount else 0))\<rparr>"

text \<open>An order is placed as new; it moves along the life cycle without money; or it is paid, which
  completes it and credits at most one balance of one master.\<close>

inductive spec_step :: "ledger_view \<Rightarrow> ledger_view \<Rightarrow> bool" where
  place: "stage v k = None \<Longrightarrow> spec_step v (v\<lparr>stage := (stage v)(k \<mapsto> NEW)\<rparr>)"
| move: "stage v k = Some a \<Longrightarrow> lifecycle_edge a b \<Longrightarrow> b \<noteq> COMPLETED \<Longrightarrow> spec_step v (v\<lparr>stage := (stage v)(k \<mapsto> b)\<rparr>)"
| pay: "stage v k = Some AWAITING_PAYMENT \<Longrightarrow> 0 < amount \<Longrightarrow>
    spec_step v (settle who meth amount (v\<lparr>stage := (stage v)(k \<mapsto> COMPLETED)\<rparr>))"

inductive_cases spec_stepE: "spec_step v v'"

definition view_of :: "sys \<Rightarrow> ledger_view" where
  "view_of s = \<lparr>stage = (\<lambda>k. map_option o_status (get_order k s)), earned = wallet_balance (wallet s)\<rparr>"

lemma view_same: "orders s' = orders s \<Longrightarrow> wallet s' = wallet s \<Longrightarrow> view_of s' = view_of s"
  by (simp add: view_of_def get_order_def)

lemma replaces_spec:
  assumes "replaces (status_row lifecycle_edge) s s'"
  shows "spec_step\<^sup>*\<^sup>* (view_of s) (view_of s')"
proof (cases "orders s' = orders s")
  case True
  then show ?thesis using assms view_same [of s' s] by (simp add: replaces_def)
next
  case False
  with assms obtain old new where old: "get_order (o_id old) s = Some old" and R: "status_row lifecycle_edge old new"
    and id: "o_id new = o_id old" and upd: "orders s' = upd_row o_id (o_id old) (\<lambda>_. new) (orders s)" and w: "wallet s' = wallet s"
    by (auto simp: replaces_def)
  have "get_order k s' = (if k = o_id old then Some new else get_order k s)" for k
    using old id by (auto simp: get_order_def upd get_row_replace)
  then have v: "view_of s' = (view_of s)\<lparr>stage := (stage (view_of s))(o_id old \<mapsto> o_status new)\<rparr>"
    by (auto simp: view_of_def w)
  have st: "stage (view_of s) (o_id old) = Some (o_status old)" using old by (simp add: view_of_def)
  show ?thesis
  proof (cases "o_status new = o_status old")
    case True
    with st have "view_of s' = view_of s" unfolding v by (simp add: fun_upd_idem)
    then show ?thesis by simp
  next
    case False
    then have "lifecycle_edge (o_status old) (o_status new)" "o_status new \<noteq> COMPLETED" using R by (auto simp: status_row_def)
    from spec_step.move [OF st this] show ?thesis unfolding v by blast
  qed
qed

lemma create_spec:
  assumes "OrderSerializer_create e client oc s = Inr (s', ord)"
  shows "spec_step\<^sup>*\<^sup>* (view_of s) (view_of s')"
proof -
  let ?k = "fresh_id o_id (orders s)"
  obtain db did where "s' = ensure_tracking ?k (fst (insert_order
      ((recalculate_total (new_order e client oc))\<lparr>o_device := did\<rparr>) (s\<lparr>profiles := db\<rparr>)))"
    using assms by (auto simp: OrderSerializer_create_def Let_def case_prod_beta)
  then have rows: "orders s' = add_row (((recalculate_total (new_order e client oc))\<lparr>o_device := did\<rparr>)\<lparr>o_id := ?k\<rparr>) (orders s)"
    and w: "wallet s' = wallet s" by simp_all
  have "o_status (new_order e client oc) = NEW" by (simp add: new_order_def)
  then have "view_of s' = (view_of s)\<lparr>stage := (stage (view_of s))(?k \<mapsto> NEW)\<rparr>"
    by (auto simp: view_of_def w get_order_def rows get_row_add split: option.split)
  moreover have "stage (view_of s) ?k = None" by (simp add: view_of_def get_order_def)
  ultimately show ?thesis using spec_step.place by (metis r_into_rtranclp)
qed

lemma view_completed:
  assumes "get_order oid s = Some ord" and "o_id ord = oid" and "o_id new = oid" and "o_status new = COMPLETED"
    and "orders s' = upd_row o_id oid (\<lambda>_. new) (orders s)"
  shows "stage (view_of s') = (stage (view_of s))(oid \<mapsto> COMPLETED)"
proof -
  have "get_order k s' = (if k = oid then Some new else get_order k s)" for k
    using assms by (auto simp: get_order_def get_row_replace)
  with assms(4) show ?thesis by (auto simp: view_of_def)
qed

lemma complete_spec:
  assumes "complete_paid_order e oid pt s = Inr (s', ok)"
  shows "spec_step\<^sup>*\<^sup>* (view_of s) (view_of s')"
  using assms
proof (cases rule: complete_paid_order_InrD)
  case (2 ord new)
  have id: "o_id ord = oid" by (rule get_order_id [OF 2(1)])
  have stage: "stage (view_of s') = (stage (view_of s))(oid \<mapsto> COMPLETED)"
    using id 2(4) by (intro view_completed [OF 2(1) id _ _ 2(5)]) simp_all
  have due: "stage (view_of s) oid = Some AWAITING_PAYMENT" using 2(1,3) by (simp add: view_of_def)
  show ?thesis
  proof (cases "o_master ord = None \<or> total_amount ord = 0")
    case True
    with 2(9) have "earned (view_of s') = earned (view_of s)" by (simp add: view_of_def)
    with stage have "view_of s' = settle None CASH 1 ((view_of s)\<lparr>stage := (stage (view_of s))(oid \<mapsto> COMPLETED)\<rparr>)"
      by (simp add: settle_def)
    then show ?thesis using spec_step.pay [OF due, of 1 None CASH] by auto
  next
    case False
    then obtain m d t where m: "o_master ord = Some m" and post: "post_wallet_transaction m IN (total_amount ord) (wallet_method_of pt) d (Some oid)
        (env_now e) (wallet s) = Inr (wallet s', t)"
      using 2(10) by (cases "o_master ord") auto
    then have credit: "credit_master d (Some oid) (env_now e) m (wallet_method_of pt) (total_amount ord) (wallet s) = Some (wallet s')"
      by (simp add: credit_master_def)
    then have pos: "0 < total_amount ord" using wl.credit_refused by (metis not_le option.distinct(1))
    have "earned (view_of s') = (\<lambda>x k. earned (view_of s) x k + (if Some m = Some x \<and> k = wallet_method_of pt then total_amount ord else 0))"
      using wl.credit_balance [OF credit] by (auto simp: view_of_def fun_eq_iff)
    with stage have "view_of s' = settle (Some m) (wallet_method_of pt) (total_amount ord)
        ((view_of s)\<lparr>stage := (stage (view_of s))(oid \<mapsto> COMPLETED)\<rparr>)"
      by (simp add: settle_def)
    then show ?thesis using spec_step.pay [OF due pos] by auto
  qed
qed simp

lemma user_step_spec:
  assumes "order_inv s" and "user_step s s'"
  shows "spec_step\<^sup>*\<^sup>* (view_of s) (view_of s')"
proof (cases "\<exists>e client oc ord. OrderSerializer_create e client oc s = Inr (s', ord)")
  case True
  then show ?thesis using create_spec by blast
next
  case False
  have B: "books_inv (orders s) (wallet s)" using assms(1) by (simp add: order_inv_def)
  from assms(2) show ?thesis
  proof (cases rule: user_step.cases)
    case (pay e user pk pm)
    then show ?thesis using pay_InrD [OF books_invD(1) [OF B]] complete_spec replaces_spec by blast
  next
    case (paid e pk)
    then show ?thesis using mark_paid_InrD complete_spec replaces_spec by blast
  qed (use books_invD(1) [OF B] False in \<open>blast intro: replaces_spec row_change\<close>)+
qed

interpretation order_machine: simulation user_step spec_step view_of order_inv
  by unfold_locales (blast intro: user_step_inv user_step_spec)+

lemma spec_keeps_completed: "stage x k = Some COMPLETED \<Longrightarrow> spec_step x y \<Longrightarrow> stage y k = Some COMPLETED"
  by (auto elim!: spec_stepE simp: settle_def)

lemma spec_earned: "spec_step x y \<Longrightarrow> earned x m meth \<le> earned y m meth"
  by (auto elim!: spec_stepE simp: settle_def)



section \<open>Every open order can be finished\<close>

lemma pay_cash_completes:
  assumes "order_inv s" and "get_order k s = Some ord" and "o_status ord = AWAITING_PAYMENT" and "\<not> is_paid ord"
    and "o_master ord = Some m" and "0 \<le> total_amount ord"
  shows "\<exists>s' new. ClientOrderPayView_post e (o_client ord) k (Some PT_CASH) s = Inr s' \<and> get_order k s' = Some new \<and>
    o_status new = COMPLETED \<and> is_paid new \<and> service_fee new = service_fee ord \<and> total_amount new = total_amount ord \<and>
    wallet_balance (wallet s') m CASH = wallet_balance (wallet s) m CASH + total_amount ord"
proof -
  have id: "o_id ord = k" by (rule get_order_id [OF assms(2)])
  have keys: "keys_distinct o_id (orders s)" using assms(1) by (simp add: order_inv_def books_inv_def)
  have row: "get_row o_id k (filter (owned_by_client (o_client ord)) (orders s)) = Some ord"
    using get_row_filter_iff [OF keys, of k "owned_by_client (o_client ord)" ord] assms(2) by (simp add: get_order_def owned_by_client_def)
  let ?new = "ord\<lparr>o_status := COMPLETED, o_payment_type := Some PT_CASH, is_paid := True, paid_at := Some (env_now e)\<rparr>"
  have run: "ClientOrderPayView_post e (o_client ord) k (Some PT_CASH) s = bindE (complete_paid_order e k PT_CASH s) (\<lambda>(s1, _). Inr s1)"
    using row assms(3,4) by (simp add: ClientOrderPayView_post_def)
  show ?thesis
  proof (cases "total_amount ord = 0")
    case True
    then have "complete_paid_order e k PT_CASH s = Inr (save_order ord ?new s, True)"
      using assms(2,3,5) by (simp add: complete_paid_order_def)
    with run True assms(2) id show ?thesis
      by (intro exI [of _ "save_order ord ?new s"] exI [of _ ?new]) simp
  next
    case False
    let ?d = "service_str (o_service ord) (save_order ord ?new s)"
    obtain w where w: "credit_master ?d (Some k) (env_now e) m CASH (total_amount ord) (wallet s) = Some w"
      using wl.credit_succeeds [of "total_amount ord"] False assms(6) by (metis order_le_less)
    then obtain t where "post_wallet_transaction m IN (total_amount ord) CASH ?d (Some k) (env_now e) (wallet s) = Inr (w, t)"
      by (auto simp: credit_master_def split: sum.splits prod.splits)
    then have "complete_paid_order e k PT_CASH s = Inr ((save_order ord ?new s)\<lparr>wallet := w\<rparr>, True)"
      using assms(2,3,5) False by (simp add: complete_paid_order_def wallet_method_of_def)
    with run wl.credit_balance [OF w, of m CASH] assms(2) id show ?thesis
      by (intro exI [of _ "(save_order ord ?new s)\<lparr>wallet := w\<rparr>"] exI [of _ ?new]) (simp add: get_order_def get_row_replace)
  qed
qed

lemma check_submits:
  assumes "order_inv s" and "get_order k s = Some ord" and "o_status ord \<in> {ACCEPTED, ON_WAY, ARRIVED}" and "o_master ord = Some m"
  shows "\<exists>s' new. MasterOrderCompleteView_post e m k \<lparr>ci_service_fee = fee, ci_comment = None, ci_used_items = []\<rparr> s = Inr s' \<and>
    get_order k s' = Some new \<and> o_status new = AWAITING_PAYMENT \<and> o_client new = o_client ord \<and> o_master new = Some m \<and>
    is_paid new = is_paid ord \<and> service_fee new = fee \<and> 0 \<le> total_amount new \<and> wallet s' = wallet s"
proof -
  let ?ci = "\<lparr>ci_service_fee = fee, ci_comment = None, ci_used_items = []\<rparr>"
  have id: "o_id ord = k" by (rule get_order_id [OF assms(2)])
  have keys: "keys_distinct o_id (orders s)" using assms(1) by (simp add: order_inv_def books_inv_def)
  have row: "get_row o_id k (filter (owned_by_master m) (orders s)) = Some ord"
    using get_row_filter_iff [OF keys, of k "owned_by_master m" ord] assms(2,4) by (simp add: get_order_def owned_by_master_def)
  let ?new = "submitted_row e ?ci (usage_total k s) 0 ord"
  have "MasterOrderCompleteView_post e m k ?ci s = Inr (save_order ord ?new s)"
    using row assms(2,3) by (auto simp: MasterOrderCompleteView_post_def OrderCompleteSerializer_validate_def COMPLETABLE_STATUSES_def
        OrderCompleteSerializer_save_def)
  moreover have "0 \<le> total_amount ?new"
    by (simp add: submitted_row_def check_totals_def Let_def quantize2_nonneg)
  ultimately show ?thesis
    using assms(2,4) id
    by (intro exI [of _ "save_order ord ?new s"] exI [of _ ?new]) (simp add: submitted_row_def check_totals_def Let_def)
qed

lemma accept_leads:
  assumes "get_order k s = Some ord" and "o_status ord = NEW" and "get_row om_key (k, m) (filter om_active (order_masters s)) = Some a"
  shows "\<exists>s' new. MasterOrderAcceptView_post m k s = Inr s' \<and> get_order k s' = Some new \<and> o_status new = ACCEPTED \<and>
    o_master new = Some m \<and> is_paid new = is_paid ord \<and> o_client new = o_client ord \<and> wallet s' = wallet s"
proof -
  let ?new = "ord\<lparr>o_master := Some m, o_status := ACCEPTED\<rparr>"
  obtain s' where run: "MasterOrderAcceptView_post m k s = Inr s'"
    and rows: "orders s' = orders (save_order ord ?new s)" and w: "wallet s' = wallet s"
    using assms by (simp add: MasterOrderAcceptView_post_def Let_def)
  have "get_order k s' = Some ?new"
    using assms(1) get_order_id [OF assms(1)] get_order_cong [of s' "save_order ord ?new s" k] rows by simp
  with run w show ?thesis by (intro exI [of _ s'] exI [of _ ?new]) simp
qed

text \<open>C5: Every order that is unpaid and being worked on, or new with a master assigned to it, can be
  finished: the master accepts it, sends a check for any fee, the client pays in cash; each request
  succeeds, the order is completed and paid, and the master's cash balance has grown by its total.\<close>

theorem open_order_can_complete:
  assumes "order_inv s" and "get_order k s = Some ord" and "\<not> is_paid ord"
    and "o_status ord \<in> {ACCEPTED, ON_WAY, ARRIVED} \<and> o_master ord = Some m \<or>
      o_status ord = NEW \<and> get_row om_key (k, m) (filter om_active (order_masters s)) \<noteq> None"
  shows "\<exists>s' new. user_step\<^sup>*\<^sup>* s s' \<and> get_order k s' = Some new \<and> o_status new = COMPLETED \<and> is_paid new \<and>
    service_fee new = fee \<and> 0 \<le> total_amount new \<and>
    wallet_balance (wallet s') m CASH = wallet_balance (wallet s) m CASH + total_amount new"
proof -
  obtain s0 o0 where s0: "user_step\<^sup>*\<^sup>* s s0" "order_inv s0" "get_order k s0 = Some o0" "o_status o0 \<in> {ACCEPTED, ON_WAY, ARRIVED}"
    "o_master o0 = Some m" "\<not> is_paid o0" "wallet s0 = wallet s"
  proof (cases "o_status ord = NEW")
    case True
    then obtain s1 new where "MasterOrderAcceptView_post m k s = Inr s1" "get_order k s1 = Some new" "o_status new = ACCEPTED"
      "o_master new = Some m" "is_paid new = is_paid ord" "wallet s1 = wallet s"
      using accept_leads [OF assms(2) True, of m] assms(4) by auto
    with that [of s1 new] user_step.accept user_step_inv assms(1,3) show ?thesis by (metis insertI1 r_into_rtranclp)
  next
    case False
    with that [of s ord] assms show ?thesis by auto
  qed
  obtain s1 o1 where s1: "MasterOrderCompleteView_post undefined m k \<lparr>ci_service_fee = fee, ci_comment = None, ci_used_items = []\<rparr> s0 = Inr s1"
    "get_order k s1 = Some o1" "o_status o1 = AWAITING_PAYMENT" "o_master o1 = Some m" "is_paid o1 = is_paid o0" "service_fee o1 = fee"
    "0 \<le> total_amount o1" "wallet s1 = wallet s0"
    using check_submits [OF s0(2-5)] by metis
  have inv1: "order_inv s1" using user_step_inv [OF user_step.check [OF s1(1)] s0(2)] .
  obtain s2 o2 where s2: "ClientOrderPayView_post undefined (o_client o1) k (Some PT_CASH) s1 = Inr s2" "get_order k s2 = Some o2"
    "o_status o2 = COMPLETED" "is_paid o2" "service_fee o2 = service_fee o1" "total_amount o2 = total_amount o1"
    "wallet_balance (wallet s2) m CASH = wallet_balance (wallet s1) m CASH + total_amount o1"
    using pay_cash_completes [OF inv1 s1(2,3) _ s1(4,7)] s1(5) s0(6) by metis
  have "user_step\<^sup>*\<^sup>* s s2"
    using s0(1) user_step.check [OF s1(1)] user_step.pay [OF s2(1)] by (meson rtranclp.rtrancl_into_rtrancl)
  with s2 s1 s0 show ?thesis by metis
qed

theorem open_order_can_complete_witness:
  "\<exists>s' new. user_step\<^sup>*\<^sup>* accepted_sys s' \<and> get_order 1 s' = Some new \<and> o_status new = COMPLETED \<and> is_paid new \<and> service_fee new = 15000000"
proof -
  have inv: "order_inv accepted_sys"
    using user_step_inv [OF example_steps(3)] order_step_inv [OF example_steps(2) order_step_inv [OF example_steps(1) empty_sys_inv]] by blast
  have row: "get_order 1 accepted_sys = Some (hd (orders accepted_sys))" "\<not> is_paid (hd (orders accepted_sys))"
    "o_status (hd (orders accepted_sys)) = ACCEPTED" "o_master (hd (orders accepted_sys)) = Some 7"
    by code_simp+
  from open_order_can_complete [OF inv row(1,2), of 7 15000000] row(3,4) show ?thesis by blast
qed

text \<open>An order that was paid before its check was sent stays behind: once it awaits payment, it is
  neither payable nor completed by any request of masters, clients or the payment provider.\<close>

lemma prepaid_order_stuck:
  assumes "order_inv s" and "get_order k s = Some ord" and "is_paid ord"
  shows "mark_order_paid e k s = Inr s" "\<exists>er. ClientOrderPayView_post e user k pt s = Inl er"
proof -
  show "mark_order_paid e k s = Inr s" using assms by (simp add: mark_order_paid_def)
  have "is_paid x" if "get_row o_id k (filter (owned_by_client user) (orders s)) = Some x" for x
    using get_row_filter [OF _ that] assms by (simp add: order_inv_def books_inv_def get_order_def)
  then show "\<exists>er. ClientOrderPayView_post e user k pt s = Inl er"
    by (cases "get_row o_id k (filter (owned_by_client user) (orders s))") (auto simp: ClientOrderPayView_post_def)
qed

end
