(* ===== verification/Market.thy ===== *)
theory Market
  imports Order_Lists
begin

text \<open>
  The marketplace: \<open>src/apps/market/\<close> (models, services, serializers and the client's views)
  and the marketplace pages of \<open>src/apps/dashboard/\<close>.

  \<^item> An amount is counted in hundredths, a number of pieces is a whole number.
  \<^item> Uploaded image files are not modelled, the rows that hold them are. \<open>uuid\<close> reads a UUID and
    gives the key it stands for. Query bounds on prices are read by the framework: they are
    arguments.
\<close>

section \<open>Tables\<close>

record market_category =
  mc_id :: row_id
  mc_name :: string
  mc_slug :: string

datatype product_condition = COND_NEW | COND_USED

record market_product =
  mk_id :: row_id
  mk_category :: "row_id option"
  mk_seller :: "row_id option"
  mk_name :: string
  mk_description :: string
  mk_condition :: product_condition
  mk_price :: money
  mk_quantity :: int
  mk_active :: bool
  mk_moderated :: bool

record market_image =
  im_id :: row_id
  im_product :: row_id

record market_favorite =
  mf_id :: row_id
  mf_client :: row_id
  mf_product :: row_id

datatype market_status = MO_PENDING | MO_CONFIRMED | MO_DELIVERED | MO_CANCELLED

record market_order =
  mo_id :: row_id
  mo_client :: row_id
  mo_product :: row_id
  mo_quantity :: int
  mo_address :: string
  mo_phone :: string
  mo_note :: string
  mo_total :: money
  mo_status :: market_status

record market_db =
  market_categories :: "market_category list"
  market_products :: "market_product list"
  images :: "market_image list"
  favorites :: "market_favorite list"
  market_orders :: "market_order list"

definition empty_market :: market_db where
  "empty_market = \<lparr>market_categories = [], market_products = [], images = [], favorites = [], market_orders = []\<rparr>"

fun condition_value :: "product_condition \<Rightarrow> string" where
  "condition_value COND_NEW = ''new''"
| "condition_value COND_USED = ''used''"

fun market_status_value :: "market_status \<Rightarrow> string" where
  "market_status_value MO_PENDING = ''pending''"
| "market_status_value MO_CONFIRMED = ''confirmed''"
| "market_status_value MO_DELIVERED = ''delivered''"
| "market_status_value MO_CANCELLED = ''cancelled''"

section \<open>Orders\<close>

record order_fields =
  mof_address :: string
  mof_phone :: string
  mof_note :: string
  mof_status :: market_status

text \<open>\<open>MarketOrder.save\<close> of a new row takes the price of the moment.\<close>

definition create_market_order :: "row_id \<Rightarrow> market_product \<Rightarrow> int \<Rightarrow> order_fields \<Rightarrow> market_db \<Rightarrow> market_db \<times> market_order" where
  "create_market_order client p n f db =
    (let r = \<lparr>mo_id = fresh_id mo_id (market_orders db), mo_client = client, mo_product = mk_id p, mo_quantity = n,
              mo_address = mof_address f, mo_phone = mof_phone f, mo_note = mof_note f,
              mo_total = mk_price p * n, mo_status = mof_status f\<rparr>
     in (db\<lparr>market_orders := add_row r (market_orders db)\<rparr>, r))"

definition visible :: "market_product \<Rightarrow> bool" where
  "visible p = (mk_active p \<and> mk_moderated p)"

definition place_market_order :: "row_id \<Rightarrow> row_id \<Rightarrow> int \<Rightarrow> order_fields \<Rightarrow> market_db \<Rightarrow> (market_db \<times> market_order) res" where
  "place_market_order client pid n f db =
    (case get_row mk_id pid (market_products db) of
       None \<Rightarrow> Inl (ServerError ''MarketProduct matching query does not exist.'')
     | Some p \<Rightarrow>
         if \<not> (mk_active p \<and> mk_moderated p) then Inl (ValidationError ''Mahsulot mavjud emas'')
         else if n > mk_quantity p then Inl (ValidationError ''Omborda yetarli mahsulot yo'q'')
         else
           let p1 = p\<lparr>mk_quantity := mk_quantity p - n\<rparr>;
               db1 = db\<lparr>market_products := upd_row mk_id pid (\<lambda>_. p1) (market_products db)\<rparr>
           in Inr (create_market_order client p1 n f db1))"

text \<open>The serializers check that the product exists and that the number is not negative
  (\<open>PositiveIntegerField\<close>) before they call the service; the client's one leaves the status at
  its default.\<close>

definition validate_market_order :: "row_id \<Rightarrow> int \<Rightarrow> market_db \<Rightarrow> unit res" where
  "validate_market_order pid n db =
    (if get_row mk_id pid (market_products db) = None then Inl (ValidationError ''Invalid pk - object does not exist.'')
     else if n < 0 then Inl (ValidationError ''Ensure this value is greater than or equal to 0.'') else Inr ())"

definition MarketOrderCreate_post :: "row_id \<Rightarrow> row_id \<Rightarrow> int \<Rightarrow> order_fields \<Rightarrow> market_db \<Rightarrow> (market_db \<times> market_order) res" where
  "MarketOrderCreate_post user pid n f db =
    bindE (validate_market_order pid n db) (\<lambda>_. place_market_order user pid n (f\<lparr>mof_status := MO_PENDING\<rparr>) db)"

definition DashboardMarketOrder_create :: "row_id \<Rightarrow> row_id \<Rightarrow> int \<Rightarrow> order_fields \<Rightarrow> market_db \<Rightarrow> (market_db \<times> market_order) res" where
  "DashboardMarketOrder_create client pid n f db =
    bindE (validate_market_order pid n db) (\<lambda>_. place_market_order client pid n f db)"

text \<open>A PATCH of the dashboard writes the fields it carries and nothing else: neither the stock nor
  the total follow.\<close>

record market_order_patch =
  op_client :: "row_id option"
  op_product :: "row_id option"
  op_quantity :: "int option"
  op_address :: "string option"
  op_phone :: "string option"
  op_note :: "string option"
  op_status :: "market_status option"

definition apply_order_patch :: "market_order_patch \<Rightarrow> market_order \<Rightarrow> market_order" where
  "apply_order_patch p r =
    r\<lparr>mo_client := sent_or (op_client p) (mo_client r), mo_product := sent_or (op_product p) (mo_product r),
      mo_quantity := sent_or (op_quantity p) (mo_quantity r), mo_address := sent_or (op_address p) (mo_address r),
      mo_phone := sent_or (op_phone p) (mo_phone r), mo_note := sent_or (op_note p) (mo_note r),
      mo_status := sent_or (op_status p) (mo_status r)\<rparr>"

definition DashboardMarketOrder_update :: "row_id \<Rightarrow> market_order_patch \<Rightarrow> market_db \<Rightarrow> market_db res" where
  "DashboardMarketOrder_update pk p db =
    bindE (get_or_404 ''MarketOrder'' (get_row mo_id pk (market_orders db))) (\<lambda>r.
      bindE (validate_market_order (sent_or (op_product p) (mo_product r)) (sent_or (op_quantity p) 0) db) (\<lambda>_.
        Inr (db\<lparr>market_orders := upd_row mo_id pk (\<lambda>_. apply_order_patch p r) (market_orders db)\<rparr>)))"

definition DashboardMarketOrder_destroy :: "row_id \<Rightarrow> market_db \<Rightarrow> market_db res" where
  "DashboardMarketOrder_destroy pk db =
    bindE (get_or_404 ''MarketOrder'' (get_row mo_id pk (market_orders db))) (\<lambda>_.
      Inr (db\<lparr>market_orders := del_row mo_id pk (market_orders db)\<rparr>))"

section \<open>Products\<close>

record market_product_input =
  ki_category :: "row_id option"
  ki_seller :: "row_id option"
  ki_name :: string
  ki_description :: string
  ki_condition :: product_condition
  ki_price :: money
  ki_quantity :: int
  ki_active :: bool
  ki_moderated :: bool
  ki_images :: nat

definition save_images :: "row_id \<Rightarrow> nat \<Rightarrow> market_db \<Rightarrow> market_db" where
  "save_images pid n db =
    db\<lparr>images := fold (\<lambda>_ rows. add_row \<lparr>im_id = fresh_id im_id rows, im_product = pid\<rparr> rows) [0..<n] (images db)\<rparr>"

definition create_product :: "market_product_input \<Rightarrow> market_db \<Rightarrow> (market_db \<times> market_product) res" where
  "create_product i db =
    (if ki_quantity i < 0 then Inl (ValidationError ''Ensure this value is greater than or equal to 0.'')
     else
       let p = \<lparr>mk_id = fresh_id mk_id (market_products db), mk_category = ki_category i, mk_seller = ki_seller i, mk_name = ki_name i,
                mk_description = ki_description i, mk_condition = ki_condition i, mk_price = ki_price i,
                mk_quantity = ki_quantity i, mk_active = ki_active i, mk_moderated = ki_moderated i\<rparr>
       in Inr (save_images (mk_id p) (ki_images i) (db\<lparr>market_products := add_row p (market_products db)\<rparr>), p))"

text \<open>A client's listing is active and waits for moderation; its seller is the client.\<close>

definition ClientListingCreate_perform_create :: "row_id \<Rightarrow> market_product_input \<Rightarrow> market_db \<Rightarrow> (market_db \<times> market_product) res" where
  "ClientListingCreate_perform_create user i db =
    create_product (i\<lparr>ki_seller := Some user, ki_active := True, ki_moderated := False\<rparr>) db"

definition DashboardMarketProduct_create :: "market_product_input \<Rightarrow> market_db \<Rightarrow> (market_db \<times> market_product) res" where
  "DashboardMarketProduct_create i db = create_product i db"

record market_product_patch =
  kp_category :: "row_id option option"
  kp_seller :: "row_id option option"
  kp_name :: "string option"
  kp_description :: "string option"
  kp_condition :: "product_condition option"
  kp_price :: "money option"
  kp_quantity :: "int option"
  kp_active :: "bool option"
  kp_moderated :: "bool option"
  kp_images :: nat

definition apply_product_patch :: "market_product_patch \<Rightarrow> market_product \<Rightarrow> market_product" where
  "apply_product_patch i p =
    p\<lparr>mk_category := sent_or (kp_category i) (mk_category p), mk_seller := sent_or (kp_seller i) (mk_seller p),
      mk_name := sent_or (kp_name i) (mk_name p), mk_description := sent_or (kp_description i) (mk_description p),
      mk_condition := sent_or (kp_condition i) (mk_condition p), mk_price := sent_or (kp_price i) (mk_price p),
      mk_quantity := sent_or (kp_quantity i) (mk_quantity p), mk_active := sent_or (kp_active i) (mk_active p),
      mk_moderated := sent_or (kp_moderated i) (mk_moderated p)\<rparr>"

definition DashboardMarketProduct_update :: "row_id \<Rightarrow> market_product_patch \<Rightarrow> market_db \<Rightarrow> market_db res" where
  "DashboardMarketProduct_update pk i db =
    bindE (get_or_404 ''MarketProduct'' (get_row mk_id pk (market_products db))) (\<lambda>p.
      if sent_or (kp_quantity i) 0 < 0 then Inl (ValidationError ''Ensure this value is greater than or equal to 0.'')
      else Inr (save_images pk (kp_images i)
             (db\<lparr>market_products := upd_row mk_id pk (\<lambda>_. apply_product_patch i p) (market_products db)\<rparr>)))"

text \<open>Deleting a row of products takes its images and favourites along; a row that orders refer to is
  protected.\<close>

definition delete_product_row :: "row_id \<Rightarrow> market_db \<Rightarrow> market_db res" where
  "delete_product_row pk db =
    (if list_ex (\<lambda>r. mo_product r = pk) (market_orders db) then Inl (ServerError ''ProtectedError'')
     else Inr (db\<lparr>market_products := del_row mk_id pk (market_products db), images := filter (\<lambda>r. im_product r \<noteq> pk) (images db),
                  favorites := filter (\<lambda>r. mf_product r \<noteq> pk) (favorites db)\<rparr>))"

datatype delete_result = Deleted | Archived

definition DashboardMarketProduct_delete :: "row_id \<Rightarrow> market_db \<Rightarrow> (market_db \<times> delete_result) res" where
  "DashboardMarketProduct_delete pk db =
    bindE (get_or_404 ''MarketProduct'' (get_row mk_id pk (market_products db))) (\<lambda>p.
      if list_ex (\<lambda>r. mo_product r = pk) (market_orders db)
      then Inr (db\<lparr>market_products := upd_row mk_id pk (\<lambda>_. p\<lparr>mk_active := False, mk_moderated := False\<rparr>) (market_products db)\<rparr>, Archived)
      else bindE (delete_product_row pk db) (\<lambda>db1. Inr (db1, Deleted)))"

definition DashboardMarketProductImage_perform_create :: "row_id \<Rightarrow> market_db \<Rightarrow> market_db res" where
  "DashboardMarketProductImage_perform_create pid db =
    bindE (get_or_404 ''MarketProduct'' (get_row mk_id pid (market_products db))) (\<lambda>_. Inr (save_images pid 1 db))"

definition DashboardMarketProductImage_destroy :: "row_id \<Rightarrow> market_db \<Rightarrow> market_db res" where
  "DashboardMarketProductImage_destroy pk db =
    bindE (get_or_404 ''MarketProductImage'' (get_row im_id pk (images db))) (\<lambda>_.
      Inr (db\<lparr>images := del_row im_id pk (images db)\<rparr>))"

section \<open>Categories\<close>

definition check_slug :: "row_id option \<Rightarrow> string \<Rightarrow> market_db \<Rightarrow> unit res" where
  "check_slug self v db =
    guardE (\<not> list_ex (\<lambda>c. mc_slug c = v \<and> Some (mc_id c) \<noteq> self) (market_categories db))
      (ValidationError ''market category with this slug already exists.'')"

definition DashboardMarketCategory_create :: "string \<Rightarrow> string \<Rightarrow> market_db \<Rightarrow> (market_db \<times> market_category) res" where
  "DashboardMarketCategory_create n v db =
    bindE (check_slug None v db) (\<lambda>_.
      let c = \<lparr>mc_id = fresh_id mc_id (market_categories db), mc_name = n, mc_slug = v\<rparr>
      in Inr (db\<lparr>market_categories := add_row c (market_categories db)\<rparr>, c))"

definition DashboardMarketCategory_update :: "row_id \<Rightarrow> string option \<Rightarrow> string option \<Rightarrow> market_db \<Rightarrow> market_db res" where
  "DashboardMarketCategory_update pk n v db =
    bindE (get_or_404 ''MarketCategory'' (get_row mc_id pk (market_categories db))) (\<lambda>c.
      bindE (check_slug (Some pk) (sent_or v (mc_slug c)) db) (\<lambda>_.
        Inr (db\<lparr>market_categories := upd_row mc_id pk (\<lambda>_. c\<lparr>mc_name := sent_or n (mc_name c), mc_slug := sent_or v (mc_slug c)\<rparr>)
              (market_categories db)\<rparr>)))"

text \<open>\<open>on_delete=SET_NULL\<close>: the products of a deleted category stay without one.\<close>

definition DashboardMarketCategory_destroy :: "row_id \<Rightarrow> market_db \<Rightarrow> market_db res" where
  "DashboardMarketCategory_destroy pk db =
    bindE (get_or_404 ''MarketCategory'' (get_row mc_id pk (market_categories db))) (\<lambda>_.
      Inr (db\<lparr>market_categories := del_row mc_id pk (market_categories db),
             market_products := map (\<lambda>p. if mk_category p = Some pk then p\<lparr>mk_category := None\<rparr> else p) (market_products db)\<rparr>))"

text \<open>The same when a client's account is deleted: orders and favourites go, listings stay without a
  seller.\<close>

definition delete_market_client :: "row_id \<Rightarrow> market_db \<Rightarrow> market_db" where
  "delete_market_client c db =
    db\<lparr>market_products := map (\<lambda>p. if mk_seller p = Some c then p\<lparr>mk_seller := None\<rparr> else p) (market_products db),
       favorites := filter (\<lambda>r. mf_client r \<noteq> c) (favorites db),
       market_orders := filter (\<lambda>r. mo_client r \<noteq> c) (market_orders db)\<rparr>"

section \<open>Favourites\<close>

text \<open>\<open>get_or_create\<close>, and the deletion of a row that was there. The product is \<open>None\<close> when the
  request carries no UUID.\<close>

definition MarketFavoriteToggle_post :: "row_id \<Rightarrow> row_id option \<Rightarrow> market_db \<Rightarrow> (market_db \<times> bool) res" where
  "MarketFavoriteToggle_post user pid db =
    (case pid of
       None \<Rightarrow> Inl (ValidationError ''To'g'ri product id yuboring'')
     | Some k \<Rightarrow>
         bindE (get_or_404 ''MarketProduct'' (get_row mk_id k (filter visible (market_products db)))) (\<lambda>p.
           case find (\<lambda>r. mf_client r = user \<and> mf_product r = k) (favorites db) of
             Some r \<Rightarrow> Inr (db\<lparr>favorites := del_row mf_id (mf_id r) (favorites db)\<rparr>, False)
           | None \<Rightarrow> Inr (db\<lparr>favorites := add_row \<lparr>mf_id = fresh_id mf_id (favorites db), mf_client = user, mf_product = k\<rparr>
               (favorites db)\<rparr>, True)))"

definition get_is_favorite :: "row_id option \<Rightarrow> row_id \<Rightarrow> market_db \<Rightarrow> bool" where
  "get_is_favorite user pid db =
    (case user of None \<Rightarrow> False | Some c \<Rightarrow> list_ex (\<lambda>r. mf_client r = c \<and> mf_product r = pid) (favorites db))"

section \<open>Lists\<close>

definition category_row :: "market_db \<Rightarrow> market_product \<Rightarrow> market_category option" where
  "category_row db p = (case mk_category p of None \<Rightarrow> None | Some k \<Rightarrow> get_row mc_id k (market_categories db))"

definition or_param :: "query \<Rightarrow> string list \<Rightarrow> string" where
  "or_param q ks = (case filter (\<lambda>v. v \<noteq> []) (map (param q) ks) of [] \<Rightarrow> [] | v # _ \<Rightarrow> v)"

definition product_matches :: "market_db \<Rightarrow> string \<Rightarrow> market_product \<Rightarrow> bool" where
  "product_matches db v p =
    (icontains (mk_name p) v \<or> icontains (mk_description p) v \<or>
     (case category_row db p of None \<Rightarrow> False | Some c \<Rightarrow> icontains (mc_name c) v \<or> icontains (mc_slug c) v))"

definition MarketProductList_get_queryset ::
  "(string \<Rightarrow> row_id option) \<Rightarrow> query \<Rightarrow> money option \<Rightarrow> money option \<Rightarrow> market_db \<Rightarrow> market_product list" where
  "MarketProductList_get_queryset uuid q lo hi db =
    (let category = or_param q [''category'', ''category_id'', ''category_slug''];
         search = or_param q [''q'', ''search''];
         r0 = filter visible (rev (market_products db));
         r1 = (if category \<noteq> [] \<and> category \<notin> {''all'', ''hammasi''}
               then (case uuid category of
                       Some k \<Rightarrow> filter (\<lambda>p. mk_category p = Some k) r0
                     | None \<Rightarrow> filter (\<lambda>p. map_option mc_slug (category_row db p) = Some category) r0)
               else r0);
         r2 = (if param q ''condition'' = [] then r1 else filter (\<lambda>p. condition_value (mk_condition p) = param q ''condition'') r1);
         r3 = (if search = [] then r2 else filter (product_matches db search) r2);
         r4 = keep_if lo (\<lambda>v p. v \<le> mk_price p) r3
     in keep_if hi (\<lambda>v p. mk_price p \<le> v) r4)"

definition MarketProductDetail_get :: "row_id \<Rightarrow> market_db \<Rightarrow> market_product res" where
  "MarketProductDetail_get pk db = get_or_404 ''MarketProduct'' (get_row mk_id pk (filter visible (market_products db)))"

definition MarketCategoryList_get_queryset :: "market_db \<Rightarrow> (market_category \<times> nat) list" where
  "MarketCategoryList_get_queryset db =
    map (\<lambda>c. (c, count_rows (\<lambda>p. mk_category p = Some (mc_id c) \<and> mk_active p \<and> mk_moderated p) (market_products db))) (market_categories db)"

text \<open>\<open>filter_by_category\<close> over the product of a row; a product without category matches none.\<close>

definition product_category :: "market_db \<Rightarrow> row_id \<Rightarrow> market_category option" where
  "product_category db pid = Option.bind (get_row mk_id pid (market_products db)) (category_row db)"

definition by_product_category :: "(string \<Rightarrow> row_id option) \<Rightarrow> query \<Rightarrow> market_db \<Rightarrow> ('r \<Rightarrow> row_id) \<Rightarrow> 'r list \<Rightarrow> 'r list" where
  "by_product_category uuid q db pid rows =
    (case category_param q of
       None \<Rightarrow> rows
     | Some v \<Rightarrow> (case uuid v of
                   Some k \<Rightarrow> filter (\<lambda>r. map_option mc_id (product_category db (pid r)) = Some k) rows
                 | None \<Rightarrow> filter (\<lambda>r. map_option mc_slug (product_category db (pid r)) = Some v) rows))"

definition MarketOrderList_get_queryset :: "(string \<Rightarrow> row_id option) \<Rightarrow> row_id \<Rightarrow> query \<Rightarrow> market_db \<Rightarrow> market_order list" where
  "MarketOrderList_get_queryset uuid user q db =
    by_product_category uuid q db mo_product (filter (\<lambda>r. mo_client r = user) (rev (market_orders db)))"

definition MarketFavoriteList_get_queryset :: "(string \<Rightarrow> row_id option) \<Rightarrow> row_id \<Rightarrow> query \<Rightarrow> market_db \<Rightarrow> market_favorite list" where
  "MarketFavoriteList_get_queryset uuid user q db =
    by_product_category uuid q db mf_product (filter (\<lambda>r. mf_client r = user) (favorites db))"

definition DashboardMarketCategoryList_get_queryset :: "query \<Rightarrow> market_db \<Rightarrow> (market_category \<times> nat) list" where
  "DashboardMarketCategoryList_get_queryset q db =
    (let v = param q ''search''
     in map (\<lambda>c. (c, count_rows (\<lambda>p. mk_category p = Some (mc_id c)) (market_products db)))
          (if v = [] then market_categories db else filter (\<lambda>c. icontains (mc_name c) v \<or> icontains (mc_slug c) v) (market_categories db)))"

definition DashboardMarketProductList_get_queryset :: "query \<Rightarrow> row_id option \<Rightarrow> market_db \<Rightarrow> (market_product \<times> nat) list" where
  "DashboardMarketProductList_get_queryset q category db =
    (let v = param q ''search''; r0 = rev (market_products db);
         r1 = (if v = [] then r0 else filter (\<lambda>p. icontains (mk_name p) v \<or> icontains (mk_description p) v) r0);
         r2 = (if param q ''condition'' = [] then r1 else filter (\<lambda>p. condition_value (mk_condition p) = param q ''condition'') r1);
         r3 = keep_if category (\<lambda>k p. mk_category p = Some k) r2;
         r4 = keep_if (bool_param (map_of q ''is_active'')) (\<lambda>b p. mk_active p = b) r3;
         r5 = keep_if (bool_param (map_of q ''is_moderated'')) (\<lambda>b p. mk_moderated p = b) r4
     in map (\<lambda>p. (p, count_rows (\<lambda>r. mo_product r = mk_id p) (market_orders db))) r5)"

definition DashboardMarketOrderList_get_queryset ::
  "(string \<Rightarrow> row_id option) \<Rightarrow> query \<Rightarrow> row_id option \<Rightarrow> row_id option \<Rightarrow> market_db \<Rightarrow> market_order list" where
  "DashboardMarketOrderList_get_queryset uuid q client product db =
    (let r0 = rev (market_orders db);
         r1 = (if param q ''status'' = [] then r0 else filter (\<lambda>r. market_status_value (mo_status r) = param q ''status'') r0);
         r2 = keep_if client (\<lambda>c r. mo_client r = c) r1;
         r3 = keep_if product (\<lambda>k r. mo_product r = k) r2
     in by_product_category uuid q db mo_product r3)"

end
