(* ===== verification/Market_Props.thy ===== *)
theory Market_Props
  imports Market
begin

text \<open>
  Properties of the marketplace: the invariant of its tables along every history of requests,
  the balance between stock and orders, totals that are never changed, favourites.
\<close>

section \<open>Invariant\<close>

definition product_ids :: "market_db \<Rightarrow> row_id set" where
  "product_ids db = mk_id ` set (market_products db)"

definition market_inv :: "market_db \<Rightarrow> bool" where
  "market_inv db \<longleftrightarrow>
    keys_distinct mk_id (market_products db) \<and> keys_distinct mo_id (market_orders db) \<and> keys_distinct mf_id (favorites db) \<and>
    keys_distinct mc_id (market_categories db) \<and> keys_distinct mc_slug (market_categories db) \<and>
    keys_distinct (\<lambda>r. (mf_client r, mf_product r)) (favorites db) \<and>
    list_all (\<lambda>p. 0 \<le> mk_quantity p) (market_products db) \<and>
    mo_product ` set (market_orders db) \<subseteq> product_ids db \<and> mf_product ` set (favorites db) \<subseteq> product_ids db \<and>
    im_product ` set (images db) \<subseteq> product_ids db"

lemma market_inv_empty: "market_inv empty_market"
  by (simp add: market_inv_def empty_market_def)

text \<open>A second unique column after the replacement of a row.\<close>

lemma unique_replace:
  assumes "keys_distinct key rows" and "keys_distinct f rows" and "\<forall>x \<in> set rows. f x = f r' \<longrightarrow> key x = k"
  shows "keys_distinct f (upd_row key k (\<lambda>_. r') rows)"
  using assms
proof (induction rows)
  case (Cons a rows)
  have IH: "keys_distinct f (upd_row key k (\<lambda>_. r') rows)" using Cons by (simp add: keys_distinct_def)
  show ?case
  proof (cases "key a = k")
    case True
    then have k: "k \<notin> key ` set rows" using Cons.prems(1) by (auto simp: keys_distinct_def)
    then have "f r' \<notin> f ` set rows" using Cons.prems(3) by fastforce
    with Cons.prems(2) True upd_row_notin [OF k, of "\<lambda>_. r'"] show ?thesis by (simp add: keys_distinct_def upd_row_def)
  next
    case False
    then have "f a \<noteq> f r'" using Cons.prems(3) by auto
    then have "f a \<notin> f ` set (upd_row key k (\<lambda>_. r') rows)"
      using Cons.prems(2) by (auto simp: keys_distinct_def dest!: in_upd_row) 
    moreover have "upd_row key k (\<lambda>_. r') (a # rows) = a # upd_row key k (\<lambda>_. r') rows" using False by (simp add: upd_row_def)
    ultimately show ?thesis using IH by (simp add: keys_distinct_def)
  qed
qed (simp add: upd_row_def)

text \<open>How the tables may change.\<close>

lemma inv_products:
  assumes "market_inv db" and "map mk_id ps = map mk_id (market_products db)" and "list_all (\<lambda>p. 0 \<le> mk_quantity p) ps"
  shows "market_inv (db\<lparr>market_products := ps\<rparr>)"
proof -
  have "mk_id ` set ps = mk_id ` set (market_products db)" using assms(2) by (metis set_map)
  with assms show ?thesis by (simp add: market_inv_def product_ids_def keys_distinct_def)
qed

lemma inv_replace_product [inv_intros]:
  assumes "market_inv db" and "mk_id p = k" and "0 \<le> mk_quantity p"
  shows "market_inv (db\<lparr>market_products := upd_row mk_id k (\<lambda>_. p) (market_products db)\<rparr>)"
proof (rule inv_products [OF assms(1)])
  show "map mk_id (upd_row mk_id k (\<lambda>_. p) (market_products db)) = map mk_id (market_products db)"
    using assms(2) by (rule keys_replace)
next
  show "list_all (\<lambda>p. 0 \<le> mk_quantity p) (upd_row mk_id k (\<lambda>_. p) (market_products db))"
    using assms by (auto simp: market_inv_def list_all_iff upd_row_def)
qed

lemma inv_map_products:
  assumes "market_inv db" and "\<And>p. mk_id (f p) = mk_id p" and "\<And>p. mk_quantity (f p) = mk_quantity p"
  shows "market_inv (db\<lparr>market_products := map f (market_products db)\<rparr>)"
  using assms by (intro inv_products) (auto simp: market_inv_def list_all_iff)

lemma inv_add_product [inv_intros]:
  assumes "market_inv db" and "mk_id p = fresh_id mk_id (market_products db)" and "0 \<le> mk_quantity p"
  shows "market_inv (db\<lparr>market_products := add_row p (market_products db)\<rparr>)"
  using assms keys_distinct_add [of mk_id "market_products db" p]
  by (auto simp: market_inv_def product_ids_def list_all_iff add_row_def)

lemma inv_add_order [inv_intros]:
  assumes "market_inv db" and "mo_id r = fresh_id mo_id (market_orders db)" and "mo_product r \<in> product_ids db"
  shows "market_inv (db\<lparr>market_orders := add_row r (market_orders db)\<rparr>)"
  using assms keys_distinct_add [of mo_id "market_orders db" r]
  by (auto simp: market_inv_def product_ids_def add_row_def)

lemma inv_replace_order [inv_intros]:
  assumes "market_inv db" and "mo_id r = k" and "mo_product r \<in> product_ids db"
  shows "market_inv (db\<lparr>market_orders := upd_row mo_id k (\<lambda>_. r) (market_orders db)\<rparr>)"
  using assms keys_distinct_replace [of mo_id "market_orders db" r k]
  by (auto simp: market_inv_def product_ids_def dest!: in_upd_row)

lemma inv_filter_rows:
  assumes "market_inv db"
  shows "market_inv (db\<lparr>market_orders := filter P (market_orders db)\<rparr>)" "market_inv (db\<lparr>favorites := filter Q (favorites db)\<rparr>)"
    "market_inv (db\<lparr>images := filter R (images db)\<rparr>)"
  using assms by (auto simp: market_inv_def product_ids_def keys_distinct_filter)

lemma inv_categories:
  "market_inv db \<Longrightarrow> keys_distinct mc_id cs \<Longrightarrow> keys_distinct mc_slug cs \<Longrightarrow> market_inv (db\<lparr>market_categories := cs\<rparr>)"
  by (simp add: market_inv_def product_ids_def)

lemma inv_save_images [inv_intros]:
  assumes "market_inv db" and "pid \<in> product_ids db"
  shows "market_inv (save_images pid n db)"
proof -
  have "im_product ` set (fold (\<lambda>_ rows. add_row \<lparr>im_id = fresh_id im_id rows, im_product = pid\<rparr> rows) xs rows)
      \<subseteq> insert pid (im_product ` set rows)" for xs :: "nat list" and rows
  proof (induction xs arbitrary: rows)
    case (Cons x xs)
    show ?case using Cons.IH [of "add_row \<lparr>im_id = fresh_id im_id rows, im_product = pid\<rparr> rows"] by auto
  qed auto
  then have "im_product ` set (images (save_images pid n db)) \<subseteq> insert pid (im_product ` set (images db))"
    by (simp add: save_images_def)
  also have "\<dots> \<subseteq> product_ids db" using assms by (simp add: market_inv_def)
  finally show ?thesis using assms(1) by (simp add: market_inv_def product_ids_def save_images_def)
qed

lemma save_images_tables [simp]:
  "market_products (save_images pid n db) = market_products db" "market_orders (save_images pid n db) = market_orders db"
  "favorites (save_images pid n db) = favorites db" "market_categories (save_images pid n db) = market_categories db"
  by (simp_all add: save_images_def)

section \<open>Operations\<close>

lemma place_market_order_cases:
  assumes "place_market_order client pid n f db = Inr (db', r)"
  obtains p where "get_row mk_id pid (market_products db) = Some p" "visible p" "n \<le> mk_quantity p"
    "db' = db\<lparr>market_products := upd_row mk_id pid (\<lambda>_. p\<lparr>mk_quantity := mk_quantity p - n\<rparr>) (market_products db),
              market_orders := add_row r (market_orders db)\<rparr>"
    "mo_id r = fresh_id mo_id (market_orders db)" "mo_client r = client" "mo_product r = pid" "mo_quantity r = n"
    "mo_total r = mk_price p * n" "mo_status r = mof_status f"
proof (cases "get_row mk_id pid (market_products db)")
  case (Some p)
  have "visible p" "n \<le> mk_quantity p"
    and eq: "create_market_order client (p\<lparr>mk_quantity := mk_quantity p - n\<rparr>) n f
      (db\<lparr>market_products := upd_row mk_id pid (\<lambda>_. p\<lparr>mk_quantity := mk_quantity p - n\<rparr>) (market_products db)\<rparr>) = (db', r)"
    using assms Some by (auto simp: place_market_order_def visible_def Let_def split: if_splits)
  with that [OF Some] get_row_key [OF Some] show ?thesis
    by (auto simp: create_market_order_def Let_def)
qed (use assms in \<open>simp add: place_market_order_def\<close>)

lemma product_idI: "get_row mk_id k (market_products db) = Some p \<Longrightarrow> k \<in> product_ids db"
  using get_row_SomeD [of mk_id k "market_products db" p] by (auto simp: product_ids_def)

lemma product_ids_replace [simp]:
  "mk_id p = k \<Longrightarrow> mk_id ` set (upd_row mk_id k (\<lambda>_. p) ps) = mk_id ` set ps"
  by (metis keys_replace set_map)

lemma place_keeps_inv:
  assumes "place_market_order client pid n f db = Inr (db', r)" and "market_inv db"
  shows "market_inv db'"
  using assms(1)
proof (rule place_market_order_cases)
  fix p
  assume p: "get_row mk_id pid (market_products db) = Some p" "n \<le> mk_quantity p"
    "mo_id r = fresh_id mo_id (market_orders db)" "mo_product r = pid"
    and db': "db' = db\<lparr>market_products := upd_row mk_id pid (\<lambda>_. p\<lparr>mk_quantity := mk_quantity p - n\<rparr>) (market_products db),
              market_orders := add_row r (market_orders db)\<rparr>"
  let ?db1 = "db\<lparr>market_products := upd_row mk_id pid (\<lambda>_. p\<lparr>mk_quantity := mk_quantity p - n\<rparr>) (market_products db)\<rparr>"
  have id: "mk_id p = pid" by (rule get_row_key [OF p(1)])
  have "market_inv ?db1" using assms(2) id p(2) by (intro inv_replace_product) simp_all
  moreover have "pid \<in> product_ids ?db1" using product_idI [OF p(1)] id by (simp add: product_ids_def)
  ultimately show "market_inv db'" using inv_add_order [of ?db1 r] p(3,4) by (simp add: db')
qed

lemma create_product_keeps_inv:
  "create_product i db = Inr (db', p) \<Longrightarrow> market_inv db \<Longrightarrow> market_inv db'"
  by (auto simp: create_product_def Let_def product_ids_def split: if_splits intro!: inv_intros)

lemma update_product_keeps_inv:
  assumes "DashboardMarketProduct_update pk i db = Inr db'" and "market_inv db"
  shows "market_inv db'"
proof -
  from assms(1) obtain p where p: "get_row mk_id pk (market_products db) = Some p" and sent: "\<not> sent_or (kp_quantity i) 0 < 0"
    and db': "db' = save_images pk (kp_images i)
      (db\<lparr>market_products := upd_row mk_id pk (\<lambda>_. apply_product_patch i p) (market_products db)\<rparr>)"
    by (auto simp: DashboardMarketProduct_update_def split: if_splits)
  have "0 \<le> mk_quantity p" using assms(2) get_row_in [OF p] by (auto simp: market_inv_def list_all_iff)
  then have pos: "0 \<le> mk_quantity (apply_product_patch i p)"
    using sent by (auto simp: apply_product_patch_def sent_or_def split: option.splits)
  have id: "mk_id (apply_product_patch i p) = pk" using get_row_key [OF p] by (simp add: apply_product_patch_def)
  show ?thesis
    unfolding db' using inv_replace_product [OF assms(2) id pos] id product_idI [OF p]
    by (intro inv_save_images) (simp_all add: product_ids_def)
qed

lemma apply_order_patch_keeps [simp]:
  "mo_id (apply_order_patch p r) = mo_id r" "mo_total (apply_order_patch p r) = mo_total r"
  "mo_product (apply_order_patch p r) = sent_or (op_product p) (mo_product r)"
  by (simp_all add: apply_order_patch_def)

lemma update_order_cases:
  assumes "DashboardMarketOrder_update pk p db = Inr db'"
  obtains r where "get_row mo_id pk (market_orders db) = Some r" "sent_or (op_product p) (mo_product r) \<in> product_ids db"
    "db' = db\<lparr>market_orders := upd_row mo_id pk (\<lambda>_. apply_order_patch p r) (market_orders db)\<rparr>"
proof -
  from assms obtain r where r: "get_row mo_id pk (market_orders db) = Some r"
    and ok: "validate_market_order (sent_or (op_product p) (mo_product r)) (sent_or (op_quantity p) 0) db = Inr ()"
    and db': "db' = db\<lparr>market_orders := upd_row mo_id pk (\<lambda>_. apply_order_patch p r) (market_orders db)\<rparr>"
    by (auto simp: DashboardMarketOrder_update_def)
  have "sent_or (op_product p) (mo_product r) \<in> product_ids db"
    using ok by (auto simp: validate_market_order_def product_ids_def get_row_None_iff split: if_splits)
  with that [OF r _ db'] show ?thesis by simp
qed

lemma delete_product_keeps_inv:
  assumes "DashboardMarketProduct_delete pk db = Inr (db', x)" and "market_inv db"
  shows "market_inv db'"
proof -
  obtain p where p: "get_row mk_id pk (market_products db) = Some p"
    using assms(1) by (auto simp: DashboardMarketProduct_delete_def)
  show ?thesis
  proof (cases "list_ex (\<lambda>r. mo_product r = pk) (market_orders db)")
    case True
    then have "db' = db\<lparr>market_products := upd_row mk_id pk (\<lambda>_. p\<lparr>mk_active := False, mk_moderated := False\<rparr>) (market_products db)\<rparr>"
      using assms(1) p by (simp add: DashboardMarketProduct_delete_def)
    moreover have "0 \<le> mk_quantity p" using assms(2) get_row_in [OF p] by (auto simp: market_inv_def list_all_iff)
    ultimately show ?thesis using assms(2) get_row_key [OF p] by (auto intro: inv_replace_product)
  next
    case False
    then have "db' = db\<lparr>market_products := del_row mk_id pk (market_products db), images := filter (\<lambda>r. im_product r \<noteq> pk) (images db),
                  favorites := filter (\<lambda>r. mf_product r \<noteq> pk) (favorites db)\<rparr>"
      using assms(1) p by (simp add: DashboardMarketProduct_delete_def delete_product_row_def)
    moreover from this have "product_ids db' = product_ids db - {pk}" by (auto simp: product_ids_def set_del_row)
    moreover have "pk \<notin> mo_product ` set (market_orders db)" using False by (auto simp: list_ex_iff)
    ultimately show ?thesis
      using assms(2) by (auto simp: market_inv_def keys_distinct_del keys_distinct_filter list_all_iff set_del_row)
  qed
qed

lemma toggle_keeps_inv:
  assumes "MarketFavoriteToggle_post user pid db = Inr (db', b)" and "market_inv db"
  shows "market_inv db'"
proof -
  obtain k p where k: "pid = Some k" and p: "get_row mk_id k (filter visible (market_products db)) = Some p"
    using assms(1) by (auto simp: MarketFavoriteToggle_post_def split: option.splits)
  have kin: "k \<in> product_ids db" using get_row_SomeD [OF p] by (auto simp: product_ids_def)
  show ?thesis
  proof (cases "find (\<lambda>r. mf_client r = user \<and> mf_product r = k) (favorites db)")
    case (Some r)
    then have "db' = db\<lparr>favorites := del_row mf_id (mf_id r) (favorites db)\<rparr>"
      using assms(1) k p by (simp add: MarketFavoriteToggle_post_def)
    then show ?thesis using inv_filter_rows(2) [OF assms(2)] by (simp add: del_row_def)
  next
    case None
    then have db': "db' = db\<lparr>favorites := add_row \<lparr>mf_id = fresh_id mf_id (favorites db), mf_client = user, mf_product = k\<rparr> (favorites db)\<rparr>"
      using assms(1) k p by (simp add: MarketFavoriteToggle_post_def)
    have "(user, k) \<notin> (\<lambda>r. (mf_client r, mf_product r)) ` set (favorites db)"
      using None by (auto simp: find_None_iff)
    then have "keys_distinct mf_id (favorites db')" "keys_distinct (\<lambda>r. (mf_client r, mf_product r)) (favorites db')"
      using assms(2) fresh_id_notin [of mf_id "favorites db"] by (simp_all add: db' market_inv_def keys_distinct_add)
    then show ?thesis
      using assms(2) kin by (simp add: db' market_inv_def product_ids_def)
  qed
qed

lemma category_ops_keep_inv:
  "DashboardMarketCategory_create n v db = Inr (db', c) \<Longrightarrow> market_inv db \<Longrightarrow> market_inv db'"
  "DashboardMarketCategory_update pk n' v' db = Inr db' \<Longrightarrow> market_inv db \<Longrightarrow> market_inv db'"
  "DashboardMarketCategory_destroy pk db = Inr db' \<Longrightarrow> market_inv db \<Longrightarrow> market_inv db'"
proof -
  assume run: "DashboardMarketCategory_create n v db = Inr (db', c)" and inv: "market_inv db"
  then have "v \<notin> mc_slug ` set (market_categories db)"
    by (auto simp: DashboardMarketCategory_create_def check_slug_def list_ex_iff)
  moreover have db': "db' = db\<lparr>market_categories := add_row \<lparr>mc_id = fresh_id mc_id (market_categories db), mc_name = n, mc_slug = v\<rparr>
      (market_categories db)\<rparr>"
    using run by (auto simp: DashboardMarketCategory_create_def Let_def)
  ultimately show "market_inv db'"
    using inv fresh_id_notin [of mc_id "market_categories db"]
    by (simp add: db' market_inv_def product_ids_def keys_distinct_add del: fresh_id_notin)
next
  assume run: "DashboardMarketCategory_update pk n' v' db = Inr db'" and inv: "market_inv db"
  obtain c where c: "get_row mc_id pk (market_categories db) = Some c"
    and free: "\<not> list_ex (\<lambda>x. mc_slug x = sent_or v' (mc_slug c) \<and> mc_id x \<noteq> pk) (market_categories db)"
    and db': "db' = db\<lparr>market_categories := upd_row mc_id pk
      (\<lambda>_. c\<lparr>mc_name := sent_or n' (mc_name c), mc_slug := sent_or v' (mc_slug c)\<rparr>) (market_categories db)\<rparr>"
    using run by (auto simp: DashboardMarketCategory_update_def check_slug_def)
  have "keys_distinct mc_slug (market_categories db')"
    using inv free by (auto simp: db' market_inv_def list_ex_iff intro: unique_replace)
  moreover have "keys_distinct mc_id (market_categories db')"
    using inv get_row_key [OF c] by (simp add: db' market_inv_def keys_distinct_replace)
  ultimately show "market_inv db'" using inv by (simp add: db' market_inv_def product_ids_def)
next
  assume run: "DashboardMarketCategory_destroy pk db = Inr db'" and inv: "market_inv db"
  let ?f = "\<lambda>p. if mk_category p = Some pk then p\<lparr>mk_category := None\<rparr> else p"
  have "market_inv (db\<lparr>market_products := map ?f (market_products db)\<rparr>)" using inv by (intro inv_map_products) auto
  then have "market_inv (db\<lparr>market_products := map ?f (market_products db), market_categories := del_row mc_id pk (market_categories db)\<rparr>)"
    using inv by (intro inv_categories) (simp_all add: market_inv_def keys_distinct_del del_row_def keys_distinct_filter)
  moreover have "db' = db\<lparr>market_products := map ?f (market_products db), market_categories := del_row mc_id pk (market_categories db)\<rparr>"
    using run by (auto simp: DashboardMarketCategory_destroy_def)
  ultimately show "market_inv db'" by simp
qed

section \<open>Histories\<close>

text \<open>What clients do, and what the dashboard does without touching the orders and the stock that are
  there.\<close>

inductive sale_step :: "market_db \<Rightarrow> market_db \<Rightarrow> bool" where
  client_order: "MarketOrderCreate_post user pid n f db = Inr (db', r) \<Longrightarrow> sale_step db db'"
| dashboard_order: "DashboardMarketOrder_create client pid n f db = Inr (db', r) \<Longrightarrow> sale_step db db'"
| favorite: "MarketFavoriteToggle_post user pid' db = Inr (db', b) \<Longrightarrow> sale_step db db'"
| listing: "ClientListingCreate_perform_create user i db = Inr (db', p) \<Longrightarrow> sale_step db db'"
| new_product: "DashboardMarketProduct_create i db = Inr (db', p) \<Longrightarrow> sale_step db db'"
| new_image: "DashboardMarketProductImage_perform_create pid db = Inr db' \<Longrightarrow> sale_step db db'"
| del_image: "DashboardMarketProductImage_destroy pk db = Inr db' \<Longrightarrow> sale_step db db'"
| new_category: "DashboardMarketCategory_create n' v db = Inr (db', c) \<Longrightarrow> sale_step db db'"
| edit_category: "DashboardMarketCategory_update pk nm sl db = Inr db' \<Longrightarrow> sale_step db db'"
| del_category: "DashboardMarketCategory_destroy pk db = Inr db' \<Longrightarrow> sale_step db db'"

inductive market_step :: "market_db \<Rightarrow> market_db \<Rightarrow> bool" where
  sale: "sale_step db db' \<Longrightarrow> market_step db db'"
| edit_order: "DashboardMarketOrder_update pk p db = Inr db' \<Longrightarrow> market_step db db'"
| del_order: "DashboardMarketOrder_destroy pk db = Inr db' \<Longrightarrow> market_step db db'"
| edit_product: "DashboardMarketProduct_update pk i db = Inr db' \<Longrightarrow> market_step db db'"
| del_product: "DashboardMarketProduct_delete pk db = Inr (db', x) \<Longrightarrow> market_step db db'"
| del_client: "market_step db (delete_market_client c db)"

lemma sale_step_inv: "sale_step db db' \<Longrightarrow> market_inv db \<Longrightarrow> market_inv db'"
proof (induction rule: sale_step.induct)
  case (del_image pk db db')
  then show ?case using inv_filter_rows(3) [OF del_image(2)] by (auto simp: DashboardMarketProductImage_destroy_def del_row_def)
next
  case (new_image pid db db')
  then show ?case by (auto simp: DashboardMarketProductImage_perform_create_def product_idI intro!: inv_save_images)
qed (auto simp: MarketOrderCreate_post_def DashboardMarketOrder_create_def ClientListingCreate_perform_create_def
    DashboardMarketProduct_create_def intro: place_keeps_inv create_product_keeps_inv toggle_keeps_inv category_ops_keep_inv)

lemma market_step_inv: "market_step db db' \<Longrightarrow> market_inv db \<Longrightarrow> market_inv db'"
proof (induction rule: market_step.induct)
  case (edit_order pk p db db')
  from edit_order(1) show ?case
  proof (rule update_order_cases)
    fix r
    assume r: "get_row mo_id pk (market_orders db) = Some r" "sent_or (op_product p) (mo_product r) \<in> product_ids db"
      and db': "db' = db\<lparr>market_orders := upd_row mo_id pk (\<lambda>_. apply_order_patch p r) (market_orders db)\<rparr>"
    show "market_inv db'"
      unfolding db' using edit_order(2) r get_row_key [OF r(1)] by (intro inv_replace_order) simp_all
  qed
next
  case (del_order pk db db')
  then show ?case using inv_filter_rows(1) [OF del_order(2)] by (auto simp: DashboardMarketOrder_destroy_def del_row_def)
next
  case (del_client db c)
  let ?f = "\<lambda>p. if mk_seller p = Some c then p\<lparr>mk_seller := None\<rparr> else p"
  have "market_inv (db\<lparr>market_products := map ?f (market_products db)\<rparr>)" using del_client by (intro inv_map_products) auto
  from inv_filter_rows(1) [OF inv_filter_rows(2) [OF this]] show ?case by (simp add: delete_market_client_def)
qed (auto intro: sale_step_inv update_product_keeps_inv delete_product_keeps_inv)

text \<open>Totals: no request changes the total of an order that stays.\<close>

definition same_stock :: "market_product list \<Rightarrow> market_product list \<Rightarrow> bool" where
  "same_stock ps ps' \<longleftrightarrow> (\<forall>k p. get_row mk_id k ps = Some p \<longrightarrow>
     (\<exists>p'. get_row mk_id k ps' = Some p' \<and> mk_price p' = mk_price p \<and> mk_quantity p' = mk_quantity p))"

lemma same_stock_intros [simp]:
  "same_stock ps ps" "same_stock ps (add_row p ps)"
  by (auto simp: same_stock_def get_row_add)

lemma same_stock_map:
  assumes "\<And>p. mk_id (f p) = mk_id p \<and> mk_price (f p) = mk_price p \<and> mk_quantity (f p) = mk_quantity p"
  shows "same_stock ps (map f ps)"
proof -
  have "get_row mk_id k (map f ps) = map_option f (get_row mk_id k ps)" for k using assms by (induction ps) auto
  with assms show ?thesis by (auto simp: same_stock_def)
qed

lemma sale_orders:
  "sale_step db db' \<Longrightarrow> market_orders db' = market_orders db \<and> same_stock (market_products db) (market_products db') \<or>
    (\<exists>r p. market_orders db' = add_row r (market_orders db) \<and> mo_id r = fresh_id mo_id (market_orders db) \<and>
       get_row mk_id (mo_product r) (market_products db) = Some p \<and> visible p \<and> mo_quantity r \<le> mk_quantity p \<and> 0 \<le> mo_quantity r \<and>
       mo_total r = mk_price p * mo_quantity r \<and>
       market_products db' = upd_row mk_id (mo_product r) (\<lambda>_. p\<lparr>mk_quantity := mk_quantity p - mo_quantity r\<rparr>) (market_products db))"
proof (induction rule: sale_step.induct)
  case (client_order user pid n f db db' r)
  then have "place_market_order user pid n (f\<lparr>mof_status := MO_PENDING\<rparr>) db = Inr (db', r)" "0 \<le> n"
    by (auto simp: MarketOrderCreate_post_def validate_market_order_def split: if_splits)
  then show ?case by (auto elim!: place_market_order_cases)
next
  case (dashboard_order client pid n f db db' r)
  then have "place_market_order client pid n f db = Inr (db', r)" "0 \<le> n"
    by (auto simp: DashboardMarketOrder_create_def validate_market_order_def split: if_splits)
  then show ?case by (auto elim!: place_market_order_cases)
next
  case (favorite user pid db db' b)
  then show ?case by (auto simp: MarketFavoriteToggle_post_def split: option.splits)
qed (auto simp: ClientListingCreate_perform_create_def DashboardMarketProduct_create_def create_product_def Let_def
    DashboardMarketProductImage_perform_create_def DashboardMarketProductImage_destroy_def DashboardMarketCategory_create_def
    DashboardMarketCategory_update_def DashboardMarketCategory_destroy_def same_stock_map split: if_splits)

lemma total_kept:
  assumes "market_step db db'" and "get_row mo_id k (market_orders db) = Some r" and "get_row mo_id k (market_orders db') = Some r'"
    and "market_inv db"
  shows "mo_total r' = mo_total r"
  using assms
proof (induction rule: market_step.induct)
  case (sale db db')
  from sale_orders [OF sale(1)] sale(2,3) show ?case by (auto simp: get_row_add)
next
  case (edit_order pk p db db')
  from edit_order(1) show ?case
  proof (rule update_order_cases)
    fix r0
    assume r0: "get_row mo_id pk (market_orders db) = Some r0"
      and db': "db' = db\<lparr>market_orders := upd_row mo_id pk (\<lambda>_. apply_order_patch p r0) (market_orders db)\<rparr>"
    show "mo_total r' = mo_total r"
      using edit_order(2,3) r0 get_row_key [OF r0] by (auto simp: db' get_row_replace split: if_splits)
  qed
next
  case (del_order pk db db')
  then show ?case by (auto simp: DashboardMarketOrder_destroy_def get_row_del split: if_splits)
next
  case (edit_product pk i db db')
  then show ?case by (auto simp: DashboardMarketProduct_update_def split: if_splits)
next
  case (del_product pk db db' x)
  then show ?case by (auto simp: DashboardMarketProduct_delete_def delete_product_row_def split: if_splits)
next
  case (del_client db c)
  have "get_row mo_id k (filter (\<lambda>r. mo_client r \<noteq> c) (market_orders db)) = Some r'"
    using del_client(2) by (simp add: delete_market_client_def)
  then show ?case using get_row_filter [of mo_id "market_orders db" k _ r'] del_client(1,3) by (auto simp: market_inv_def)
qed

text \<open>The pieces of a product that orders have taken.\<close>

definition sold :: "row_id \<Rightarrow> market_db \<Rightarrow> int" where
  "sold k db = sum_rows mo_quantity (filter (\<lambda>r. mo_product r = k) (market_orders db))"

definition balance_kept :: "market_db \<Rightarrow> market_db \<Rightarrow> bool" where
  "balance_kept db db' \<longleftrightarrow> (\<forall>k p. get_row mk_id k (market_products db) = Some p \<longrightarrow>
     (\<exists>p'. get_row mk_id k (market_products db') = Some p' \<and> mk_price p' = mk_price p \<and>
        mk_quantity p' + sold k db' = mk_quantity p + sold k db \<and> sold k db \<le> sold k db'))"

lemma balance_kept_trans: "balance_kept a b \<Longrightarrow> balance_kept b c \<Longrightarrow> balance_kept a c"
  unfolding balance_kept_def by (metis order_trans)

lemma sale_balance: "sale_step db db' \<Longrightarrow> balance_kept db db'"
proof -
  assume "sale_step db db'"
  from sale_orders [OF this] show ?thesis
  proof (elim disjE exE conjE)
    assume "market_orders db' = market_orders db" and "same_stock (market_products db) (market_products db')"
    then show ?thesis unfolding balance_kept_def same_stock_def sold_def by fastforce
  next
    fix r p
    assume o: "market_orders db' = add_row r (market_orders db)" and p: "get_row mk_id (mo_product r) (market_products db) = Some p"
      and n: "0 \<le> mo_quantity r"
      and ps: "market_products db' = upd_row mk_id (mo_product r) (\<lambda>_. p\<lparr>mk_quantity := mk_quantity p - mo_quantity r\<rparr>) (market_products db)"
    have sold: "sold k db' = sold k db + (if mo_product r = k then mo_quantity r else 0)" for k
      by (simp add: sold_def o sum_rows_filter sum_rows_add)
    have row: "get_row mk_id k (market_products db') =
        (if k = mo_product r then Some (p\<lparr>mk_quantity := mk_quantity p - mo_quantity r\<rparr>) else get_row mk_id k (market_products db))" for k
      unfolding ps using get_row_key [OF p] p by (subst get_row_replace) auto
    show ?thesis unfolding balance_kept_def row sold using p n by auto
  qed
qed

lemma sales_balance: "sale_step\<^sup>*\<^sup>* db db' \<Longrightarrow> balance_kept db db'"
proof (induction rule: rtranclp_induct)
  case base
  show ?case by (simp add: balance_kept_def)
qed (blast intro: balance_kept_trans sale_balance)

lemma sales_inv: "sale_step\<^sup>*\<^sup>* db db' \<Longrightarrow> market_inv db \<Longrightarrow> market_inv db'"
  by (induction rule: rtranclp_induct) (auto intro: sale_step_inv)

lemma reachable_inv: "market_step\<^sup>*\<^sup>* empty_market db \<Longrightarrow> market_inv db"
  by (induction rule: rtranclp_induct) (auto intro: market_step_inv market_inv_empty)

section \<open>Claims\<close>

text \<open>C29: Whatever clients and the dashboard do with the marketplace, no stock is negative, an order, a
  favourite or an image never refers to a product that is gone, nobody has a product twice among the
  favourites, two categories never share a slug; and no request, whatever it edits, changes the total
  of an order that stays: an order keeps the price of the moment it was placed.\<close>

theorem market_history_consistent:
  assumes "market_step\<^sup>*\<^sup>* empty_market db" and "market_step db db'"
  shows "market_inv db' \<and>
    (\<forall>k r r'. get_row mo_id k (market_orders db) = Some r \<and> get_row mo_id k (market_orders db') = Some r' \<longrightarrow> mo_total r' = mo_total r)"
  using reachable_inv [OF assms(1)] market_step_inv [OF assms(2)] total_kept [OF assms(2)] by blast

text \<open>C28: Sales never lose or invent a piece: along any sequence of orders, new listings, favourites,
  image and category edits the stock of a product plus what orders have taken of it stays the same,
  stock never falls below zero, prices stay, and what was ordered stays ordered.\<close>

theorem sales_conserve_stock:
  assumes "sale_step\<^sup>*\<^sup>* db db'" and "market_inv db" and "get_row mk_id k (market_products db) = Some p"
  shows "\<exists>p'. get_row mk_id k (market_products db') = Some p' \<and> mk_price p' = mk_price p \<and>
    mk_quantity p' + sold k db' = mk_quantity p + sold k db \<and> 0 \<le> mk_quantity p' \<and> sold k db \<le> sold k db'"
proof -
  obtain p' where p': "get_row mk_id k (market_products db') = Some p'" "mk_price p' = mk_price p"
      "mk_quantity p' + sold k db' = mk_quantity p + sold k db" "sold k db \<le> sold k db'"
    using sales_balance [OF assms(1)] assms(3) unfolding balance_kept_def by blast
  moreover have "0 \<le> mk_quantity p'"
    using sales_inv [OF assms(1,2)] get_row_in [OF p'(1)] by (auto simp: market_inv_def list_all_iff)
  ultimately show ?thesis by blast
qed

text \<open>An example: a client lists a drill, the dashboard approves it, another client orders two of three.\<close>

definition drill :: market_product_input where
  "drill = \<lparr>ki_category = None, ki_seller = None, ki_name = ''Drel'', ki_description = [], ki_condition = COND_USED,
     ki_price = 45000000, ki_quantity = 3, ki_active = False, ki_moderated = False, ki_images = 1\<rparr>"

definition approve :: market_product_patch where
  "approve = \<lparr>kp_category = None, kp_seller = None, kp_name = None, kp_description = None, kp_condition = None, kp_price = None,
     kp_quantity = None, kp_active = None, kp_moderated = Some True, kp_images = 0\<rparr>"

definition delivery :: order_fields where
  "delivery = \<lparr>mof_address = ''Chilonzor'', mof_phone = ''998901112233'', mof_note = [], mof_status = MO_PENDING\<rparr>"

definition listed_market :: market_db where
  "listed_market = (case ClientListingCreate_perform_create 5 drill empty_market of Inr (db, _) \<Rightarrow> db | Inl _ \<Rightarrow> empty_market)"

definition approved_market :: market_db where
  "approved_market = (case DashboardMarketProduct_update 1 approve listed_market of Inr db \<Rightarrow> db | Inl _ \<Rightarrow> empty_market)"

definition ordered_market :: market_db where
  "ordered_market = (case MarketOrderCreate_post 6 1 2 delivery approved_market of Inr (db, _) \<Rightarrow> db | Inl _ \<Rightarrow> empty_market)"

definition cancel :: market_order_patch where
  "cancel = \<lparr>op_client = None, op_product = None, op_quantity = None, op_address = None, op_phone = None, op_note = None,
     op_status = Some MO_CANCELLED\<rparr>"

definition cancelled_market :: market_db where
  "cancelled_market = (case DashboardMarketOrder_update 1 cancel ordered_market of Inr db \<Rightarrow> db | Inl _ \<Rightarrow> empty_market)"

lemma example_market_runs:
  "map_sum id fst (ClientListingCreate_perform_create 5 drill empty_market) = Inr listed_market"
  "DashboardMarketProduct_update 1 approve listed_market = Inr approved_market"
  "map_sum id fst (MarketOrderCreate_post 6 1 2 delivery approved_market) = Inr ordered_market"
  "DashboardMarketOrder_update 1 cancel ordered_market = Inr cancelled_market"
  by code_simp+

lemma run_fst: "map_sum id fst r = Inr db \<Longrightarrow> \<exists>x. r = Inr (db, x)"
  by (cases r) auto

lemma example_market_history:
  "market_step\<^sup>*\<^sup>* empty_market ordered_market" "market_step ordered_market cancelled_market"
  "sale_step\<^sup>*\<^sup>* approved_market ordered_market" "market_step\<^sup>*\<^sup>* empty_market approved_market"
proof -
  have a: "sale_step empty_market listed_market" "sale_step approved_market ordered_market"
    using run_fst [OF example_market_runs(1)] run_fst [OF example_market_runs(3)] listing client_order by blast+
  then show start: "market_step\<^sup>*\<^sup>* empty_market approved_market"
    using edit_product [OF example_market_runs(2)] by (meson converse_rtranclp_into_rtranclp rtranclp.rtrancl_refl sale)
  show "market_step\<^sup>*\<^sup>* empty_market ordered_market" using start a(2) by (meson rtranclp.rtrancl_into_rtrancl sale)
  show "market_step ordered_market cancelled_market" using example_market_runs(4) by (rule edit_order)
  show "sale_step\<^sup>*\<^sup>* approved_market ordered_market" using a(2) by blast
qed

theorem market_history_consistent_witness:
  "market_inv cancelled_market \<and> map mo_total (market_orders cancelled_market) = [90000000] \<and>
   map mo_status (market_orders cancelled_market) = [MO_CANCELLED]"
proof -
  have "map mo_total (market_orders cancelled_market) = [90000000]" "map mo_status (market_orders cancelled_market) = [MO_CANCELLED]"
    by code_simp+
  with market_history_consistent [OF example_market_history(1,2)] show ?thesis by blast
qed

theorem sales_conserve_stock_witness:
  "\<exists>p. get_row mk_id 1 (market_products ordered_market) = Some p \<and> mk_quantity p + sold 1 ordered_market = 3 \<and> mk_quantity p = 1"
proof -
  have row: "get_row mk_id 1 (market_products approved_market) = Some (hd (market_products approved_market))"
    and was: "mk_quantity (hd (market_products approved_market)) + sold 1 approved_market = 3"
    and now: "map_option mk_quantity (get_row mk_id 1 (market_products ordered_market)) = Some 1"
    by code_simp+
  from sales_conserve_stock [OF example_market_history(3) reachable_inv [OF example_market_history(4)] row] was now show ?thesis by auto
qed

section \<open>Single requests\<close>

text \<open>A refused order says why: the product is hidden, or there are too few pieces.\<close>

lemma order_refusals:
  assumes "get_row mk_id pid (market_products db) = Some p" and "0 \<le> n"
  shows "(\<exists>db' r. MarketOrderCreate_post user pid n f db = Inr (db', r)) \<longleftrightarrow> visible p \<and> n \<le> mk_quantity p"
  using assms
  by (auto simp: MarketOrderCreate_post_def validate_market_order_def place_market_order_def visible_def Let_def create_market_order_def)

text \<open>A client's listing stays out of the shop until it is approved.\<close>

lemma listing_hidden:
  assumes "ClientListingCreate_perform_create user i db = Inr (db', p)"
  shows "\<not> visible p" "p \<notin> set (MarketProductList_get_queryset uuid q lo hi db')"
    "\<exists>er. MarketOrderCreate_post client (mk_id p) n f db' = Inl er"
proof -
  have p: "\<not> visible p" "get_row mk_id (mk_id p) (market_products db') = Some p"
    using assms by (auto simp: ClientListingCreate_perform_create_def create_product_def Let_def visible_def get_row_add split: if_splits)
  then show "\<not> visible p" by simp
  have "set (MarketProductList_get_queryset uuid q lo hi db') \<subseteq> {p. visible p}"
    by (auto simp: MarketProductList_get_queryset_def Let_def keep_if_def split: option.splits if_splits)
  with p show "p \<notin> set (MarketProductList_get_queryset uuid q lo hi db')" by blast
  show "\<exists>er. MarketOrderCreate_post client (mk_id p) n f db' = Inl er"
    using p by (auto simp: MarketOrderCreate_post_def validate_market_order_def place_market_order_def visible_def)
qed

text \<open>Deleting a product always succeeds: one with orders is archived, and then leaves every list.\<close>

lemma delete_product_total:
  assumes "get_row mk_id pk (market_products db) = Some p"
  shows "\<exists>db' x. DashboardMarketProduct_delete pk db = Inr (db', x) \<and> market_orders db' = market_orders db \<and>
    (x = Archived) = list_ex (\<lambda>r. mo_product r = pk) (market_orders db) \<and>
    (\<forall>p'. MarketProductDetail_get pk db' \<noteq> Inr p')"
proof -
  have gone: "get_row mk_id pk (filter visible ps) = None" if "\<forall>q \<in> set ps. mk_id q = pk \<longrightarrow> \<not> visible q" for ps
    using that by (auto simp: get_row_None_iff)
  show ?thesis
  proof (cases "list_ex (\<lambda>r. mo_product r = pk) (market_orders db)")
    case True
    let ?ps = "upd_row mk_id pk (\<lambda>_. p\<lparr>mk_active := False, mk_moderated := False\<rparr>) (market_products db)"
    have "\<forall>q \<in> set ?ps. mk_id q = pk \<longrightarrow> \<not> visible q" by (auto simp: visible_def dest!: in_upd_row)
    with True assms gone show ?thesis by (simp add: DashboardMarketProduct_delete_def MarketProductDetail_get_def)
  next
    case False
    have "\<forall>q \<in> set (del_row mk_id pk (market_products db)). mk_id q = pk \<longrightarrow> \<not> visible q" by (simp add: set_del_row)
    with False assms gone show ?thesis
      by (simp add: DashboardMarketProduct_delete_def delete_product_row_def MarketProductDetail_get_def)
  qed
qed

text \<open>Cancelling an order, or deleting it, gives no piece back.\<close>

lemma cancel_keeps_stock:
  "DashboardMarketOrder_update pk p db = Inr db' \<Longrightarrow> market_products db' = market_products db"
  "DashboardMarketOrder_destroy pk db = Inr db' \<Longrightarrow> market_products db' = market_products db"
  by (auto simp: DashboardMarketOrder_update_def DashboardMarketOrder_destroy_def)

text \<open>Pressing the heart twice leaves the favourites as they were.\<close>

lemma favorite_twice:
  assumes "MarketFavoriteToggle_post user pid db = Inr (db1, True)" and "market_inv db"
  shows "MarketFavoriteToggle_post user pid db1 = Inr (db, False)"
proof -
  obtain k p where k: "pid = Some k" and p: "get_row mk_id k (filter visible (market_products db)) = Some p"
    and none: "find (\<lambda>r. mf_client r = user \<and> mf_product r = k) (favorites db) = None"
    and db1: "db1 = db\<lparr>favorites := add_row \<lparr>mf_id = fresh_id mf_id (favorites db), mf_client = user, mf_product = k\<rparr> (favorites db)\<rparr>"
    using assms(1) by (auto simp: MarketFavoriteToggle_post_def split: option.splits)
  have "find P (rows @ [x]) = Some x" if "find P rows = None" "P x" for P rows and x :: market_favorite
    using that by (induction rows) (auto split: if_splits)
  from this [OF none] have found: "find (\<lambda>r. mf_client r = user \<and> mf_product r = k) (favorites db1) =
      Some \<lparr>mf_id = fresh_id mf_id (favorites db), mf_client = user, mf_product = k\<rparr>"
    by (simp add: db1 add_row_def)
  have "del_row mf_id (fresh_id mf_id (favorites db)) (favorites db) = favorites db"
    by (auto simp: del_row_def filter_id_conv dest: fresh_id_neq)
  with k p found show ?thesis by (simp add: MarketFavoriteToggle_post_def db1 add_row_def del_row_def)
qed

end
