(* ===== verification/Support.thy ===== *)
theory Support
  imports Order_Lists
begin

text \<open>
  The support chat between clients or masters and the staff: \<open>src/apps/support/\<close> (models, services,
  views, websocket consumers, admin site) and the message pages of \<open>src/apps/dashboard/\<close>.

  \<^item> What the channel layer delivers is kept as a list of events, in the order of sending.
  \<^item> Attachments are stored files without logic and are left out.
\<close>

section \<open>Tables\<close>

text \<open>A participant names the role and the key of an account; it is also the group of sockets the
  participant's events go to (\<open>support_group\<close>).\<close>

datatype participant = PClient row_id | PMaster row_id

datatype participant_role = ROLE_CLIENT | ROLE_MASTER

datatype sender_role = FROM_CLIENT | FROM_MASTER | FROM_ADMIN

record support_chat =
  sc_id :: row_id
  sc_role :: participant_role
  sc_client :: "row_id option"
  sc_master :: "row_id option"
  sc_unread :: nat
  sc_updated :: instant

record support_message =
  msg_id :: row_id
  msg_chat :: "row_id option"
  msg_sender :: sender_role
  msg_client :: "row_id option"
  msg_master :: "row_id option"
  msg_admin :: "row_id option"
  msg_text :: string
  msg_read :: bool
  msg_created :: instant

datatype support_event =
    ChatMessage participant row_id
  | ChatUpdate row_id nat
  | ChatRead participant row_id

record support_db =
  chats :: "support_chat list"
  messages :: "support_message list"
  events :: "support_event list"

definition empty_support :: support_db where
  "empty_support = \<lparr>chats = [], messages = [], events = []\<rparr>"

section \<open>Services\<close>

definition get_or_create_client_chat :: "instant \<Rightarrow> row_id \<Rightarrow> support_db \<Rightarrow> support_db \<times> support_chat" where
  "get_or_create_client_chat now c db =
    (case get_row sc_client (Some c) (chats db) of
       Some chat \<Rightarrow> (db, chat)
     | None \<Rightarrow>
         let chat = \<lparr>sc_id = fresh_id sc_id (chats db), sc_role = ROLE_CLIENT, sc_client = Some c, sc_master = None,
                     sc_unread = 0, sc_updated = now\<rparr>
         in (db\<lparr>chats := add_row chat (chats db)\<rparr>, chat))"

definition get_or_create_master_chat :: "instant \<Rightarrow> row_id \<Rightarrow> support_db \<Rightarrow> support_db \<times> support_chat" where
  "get_or_create_master_chat now m db =
    (case get_row sc_master (Some m) (chats db) of
       Some chat \<Rightarrow> (db, chat)
     | None \<Rightarrow>
         let chat = \<lparr>sc_id = fresh_id sc_id (chats db), sc_role = ROLE_MASTER, sc_client = None, sc_master = Some m,
                     sc_unread = 0, sc_updated = now\<rparr>
         in (db\<lparr>chats := add_row chat (chats db)\<rparr>, chat))"

definition get_or_create_support_chat :: "instant \<Rightarrow> subject \<Rightarrow> support_db \<Rightarrow> (support_db \<times> support_chat) option" where
  "get_or_create_support_chat now user db =
    (case user of
       MasterSubject m \<Rightarrow> Some (get_or_create_master_chat now (ms_id m) db)
     | ClientSubject c \<Rightarrow> Some (get_or_create_client_chat now (cl_id c) db)
     | StaffSubject _ \<Rightarrow> None)"

definition chat_group :: "support_chat \<Rightarrow> participant option" where
  "chat_group chat =
    (case sc_role chat of
       ROLE_MASTER \<Rightarrow> map_option PMaster (sc_master chat)
     | ROLE_CLIENT \<Rightarrow> map_option PClient (sc_client chat))"

definition user_can_access_chat :: "subject \<Rightarrow> support_chat \<Rightarrow> bool" where
  "user_can_access_chat user chat =
    (case user of
       StaffSubject s \<Rightarrow> su_staff s
     | MasterSubject m \<Rightarrow> sc_role chat = ROLE_MASTER \<and> sc_master chat = Some (ms_id m)
     | ClientSubject c \<Rightarrow> sc_role chat = ROLE_CLIENT \<and> sc_client chat = Some (cl_id c))"

definition touch_chat :: "instant \<Rightarrow> row_id \<Rightarrow> bool \<Rightarrow> support_db \<Rightarrow> support_db" where
  "touch_chat now k increment db =
    db\<lparr>chats := upd_row sc_id k (\<lambda>r. r\<lparr>sc_updated := now, sc_unread := (if increment then sc_unread r + 1 else sc_unread r)\<rparr>) (chats db)\<rparr>"

definition new_message :: "instant \<Rightarrow> support_chat \<Rightarrow> subject \<Rightarrow> string \<Rightarrow> row_id \<Rightarrow> support_message" where
  "new_message now chat sender content k =
    (case sender of
       MasterSubject m \<Rightarrow> \<lparr>msg_id = k, msg_chat = Some (sc_id chat), msg_sender = FROM_MASTER, msg_client = None,
         msg_master = Some (ms_id m), msg_admin = None, msg_text = content, msg_read = False, msg_created = now\<rparr>
     | ClientSubject c \<Rightarrow> \<lparr>msg_id = k, msg_chat = Some (sc_id chat), msg_sender = FROM_CLIENT, msg_client = Some (cl_id c),
         msg_master = None, msg_admin = None, msg_text = content, msg_read = False, msg_created = now\<rparr>
     | StaffSubject s \<Rightarrow> \<lparr>msg_id = k, msg_chat = Some (sc_id chat), msg_sender = FROM_ADMIN,
         msg_client = (if sc_role chat = ROLE_MASTER then None else sc_client chat),
         msg_master = (if sc_role chat = ROLE_MASTER then sc_master chat else None),
         msg_admin = Some (su_id s), msg_text = content, msg_read = False, msg_created = now\<rparr>)"

definition from_participant :: "subject \<Rightarrow> bool" where
  "from_participant sender = (case sender of StaffSubject _ \<Rightarrow> False | _ \<Rightarrow> True)"

definition create_support_message :: "instant \<Rightarrow> support_chat \<Rightarrow> subject \<Rightarrow> string \<Rightarrow> support_db \<Rightarrow> support_db \<times> support_message" where
  "create_support_message now chat sender content db =
    (let m = new_message now chat sender content (fresh_id msg_id (messages db))
     in (touch_chat now (sc_id chat) (from_participant sender) (db\<lparr>messages := add_row m (messages db)\<rparr>), m))"

definition chat_messages :: "row_id \<Rightarrow> support_db \<Rightarrow> support_message list" where
  "chat_messages k db = filter (\<lambda>m. msg_chat m = Some k) (sort_key msg_created (messages db))"

definition incoming_unread :: "row_id \<Rightarrow> support_message \<Rightarrow> bool" where
  "incoming_unread k m = (msg_chat m = Some k \<and> \<not> msg_read m \<and> msg_sender m \<noteq> FROM_ADMIN)"

definition mark_messages_read_by_admin :: "row_id \<Rightarrow> support_db \<Rightarrow> support_db \<times> nat" where
  "mark_messages_read_by_admin k db =
    (db\<lparr>messages := map (\<lambda>m. if incoming_unread k m then m\<lparr>msg_read := True\<rparr> else m) (messages db)\<rparr>,
     count_rows (incoming_unread k) (messages db))"

definition send_event :: "support_event \<Rightarrow> support_db \<Rightarrow> support_db" where
  "send_event e db = db\<lparr>events := events db @ [e]\<rparr>"

definition broadcast_read_receipt :: "support_chat \<Rightarrow> support_db \<Rightarrow> support_db" where
  "broadcast_read_receipt chat db =
    (case chat_group chat of None \<Rightarrow> db | Some g \<Rightarrow> send_event (ChatRead g (sc_id chat)) db)"

definition mark_chat_read_by_admin :: "instant \<Rightarrow> support_chat \<Rightarrow> support_db \<Rightarrow> support_db \<times> bool" where
  "mark_chat_read_by_admin now chat db =
    (case mark_messages_read_by_admin (sc_id chat) db of
       (db1, updated) \<Rightarrow>
         if sc_unread chat = 0 \<and> updated = 0 then (db1, False)
         else
           let db2 = db1\<lparr>chats := upd_row sc_id (sc_id chat) (\<lambda>r. r\<lparr>sc_unread := 0, sc_updated := now\<rparr>) (chats db1)\<rparr>
           in (if updated \<noteq> 0 then broadcast_read_receipt chat db2 else db2, True))"

text \<open>The event carries the counter of the row after the change.\<close>

definition broadcast_admin_update :: "row_id \<Rightarrow> support_db \<Rightarrow> support_db" where
  "broadcast_admin_update k db =
    (case get_row sc_id k (chats db) of None \<Rightarrow> db | Some chat \<Rightarrow> send_event (ChatUpdate k (sc_unread chat)) db)"

definition broadcast_support_message :: "support_message \<Rightarrow> support_db \<Rightarrow> support_db" where
  "broadcast_support_message m db =
    (case msg_chat m of
       None \<Rightarrow> db
     | Some k \<Rightarrow>
         (case get_row sc_id k (chats db) of
            None \<Rightarrow> db
          | Some chat \<Rightarrow>
              (case chat_group chat of
                 None \<Rightarrow> db
               | Some g \<Rightarrow> broadcast_admin_update k (send_event (ChatMessage g (msg_id m)) db))))"

text \<open>An admin opens a chat: reads it and, when something changed, tells the other admins.\<close>

definition open_chat_as_admin :: "instant \<Rightarrow> support_chat \<Rightarrow> support_db \<Rightarrow> support_db \<times> bool" where
  "open_chat_as_admin now chat db =
    (case mark_chat_read_by_admin now chat db of
       (db1, upd) \<Rightarrow> (if upd then broadcast_admin_update (sc_id chat) db1 else db1, upd))"

definition mark_support_thread_read_by_admin :: "instant \<Rightarrow> row_id option \<Rightarrow> row_id option \<Rightarrow> support_db \<Rightarrow> support_db \<times> bool" where
  "mark_support_thread_read_by_admin now client master db =
    (case (case client of
             Some c \<Rightarrow> get_row sc_client (Some c) (chats db)
           | None \<Rightarrow> (case master of Some m \<Rightarrow> get_row sc_master (Some m) (chats db) | None \<Rightarrow> None)) of
       None \<Rightarrow> (db, False)
     | Some chat \<Rightarrow> open_chat_as_admin now chat db)"

section \<open>Views of clients and masters\<close>

text \<open>The field trims the text and refuses a blank one.\<close>

definition validate_text :: "string \<Rightarrow> string res" where
  "validate_text v = (let t = strip v in if t = [] then Inl (ValidationError ''This field may not be blank.'') else Inr t)"

definition send_message :: "instant \<Rightarrow> support_chat \<Rightarrow> subject \<Rightarrow> string \<Rightarrow> support_db \<Rightarrow> support_db \<times> support_message" where
  "send_message now chat sender content db =
    (case create_support_message now chat sender content db of (db1, m) \<Rightarrow> (broadcast_support_message m db1, m))"

definition SupportListCreate_get :: "instant \<Rightarrow> subject \<Rightarrow> support_db \<Rightarrow> support_db \<times> support_message list" where
  "SupportListCreate_get now user db =
    (case get_or_create_support_chat now user db of
       None \<Rightarrow> (db, [])
     | Some (db1, chat) \<Rightarrow> (db1, chat_messages (sc_id chat) db1))"

definition SupportListCreate_post :: "instant \<Rightarrow> subject \<Rightarrow> string \<Rightarrow> support_db \<Rightarrow> (support_db \<times> support_message) res" where
  "SupportListCreate_post now user txt db =
    bindE (validate_text txt) (\<lambda>content.
      case get_or_create_support_chat now user db of
        None \<Rightarrow> Inl (ServerError ''NoneType object has no attribute participant_role'')
      | Some (db1, chat) \<Rightarrow> Inr (send_message now chat user content db1))"

definition SupportChatMe_get :: "instant \<Rightarrow> subject \<Rightarrow> support_db \<Rightarrow> (support_db \<times> support_chat) option" where
  "SupportChatMe_get now user db = get_or_create_support_chat now user db"

section \<open>Websockets\<close>

text \<open>A frame: text that is not JSON; JSON that is not an object, or whose text is not a string; or an
  object with the texts under its three keys.\<close>

datatype chat_frame =
    FrameNotJson
  | FrameBadShape
  | FrameText "string option" "string option" "string option"

datatype chat_reply = Silent | ReplyError string | Delivered row_id | SocketCrash

definition or_text :: "string option \<Rightarrow> string \<Rightarrow> string" where
  "or_text v d = (case v of None \<Rightarrow> d | Some t \<Rightarrow> if t = [] then d else t)"

definition frame_content :: "string option \<Rightarrow> string option \<Rightarrow> string option \<Rightarrow> string" where
  "frame_content content msg txt = strip (or_text content (or_text msg (or_text txt [])))"

definition SupportConsumer_connect ::
  "instant \<Rightarrow> participant_role \<Rightarrow> subject option \<Rightarrow> support_db \<Rightarrow> (support_db \<times> row_id \<times> support_message list) option" where
  "SupportConsumer_connect now role user db =
    (case user of
       Some (ClientSubject c) \<Rightarrow>
         (if role = ROLE_CLIENT
          then (case get_or_create_client_chat now (cl_id c) db of (db1, chat) \<Rightarrow> Some (db1, sc_id chat, chat_messages (sc_id chat) db1))
          else None)
     | Some (MasterSubject m) \<Rightarrow>
         (if role = ROLE_MASTER
          then (case get_or_create_master_chat now (ms_id m) db of (db1, chat) \<Rightarrow> Some (db1, sc_id chat, chat_messages (sc_id chat) db1))
          else None)
     | _ \<Rightarrow> None)"

text \<open>Both consumers, of participants and of admins, receive alike; the chat was bound on connect.\<close>

definition SupportConsumer_receive :: "instant \<Rightarrow> row_id \<Rightarrow> subject \<Rightarrow> chat_frame \<Rightarrow> support_db \<Rightarrow> support_db \<times> chat_reply" where
  "SupportConsumer_receive now k user f db =
    (case f of
       FrameNotJson \<Rightarrow> (db, Silent)
     | FrameBadShape \<Rightarrow> (db, SocketCrash)
     | FrameText content msg txt \<Rightarrow>
         let t = frame_content content msg txt in
         if t = [] then (db, ReplyError ''content (or message) required'')
         else (case get_row sc_id k (chats db) of
                 None \<Rightarrow> (db, SocketCrash)
               | Some chat \<Rightarrow> (case send_message now chat user t db of (db1, m) \<Rightarrow> (db1, Delivered (msg_id m)))))"

definition get_allowed_chat :: "row_id \<Rightarrow> subject \<Rightarrow> support_db \<Rightarrow> support_chat option" where
  "get_allowed_chat k user db =
    (case get_row sc_id k (chats db) of
       None \<Rightarrow> None
     | Some chat \<Rightarrow> if user_can_access_chat user chat then Some chat else None)"

definition AdminSupportChatConsumer_connect ::
  "instant \<Rightarrow> row_id \<Rightarrow> subject option \<Rightarrow> support_db \<Rightarrow> (support_db \<times> support_message list) option" where
  "AdminSupportChatConsumer_connect now k user db =
    (case user of
       Some (StaffSubject s) \<Rightarrow>
         (if \<not> su_staff s then None
          else case get_allowed_chat k (StaffSubject s) db of
                 None \<Rightarrow> None
               | Some chat \<Rightarrow>
                   (if chat_group chat = None then None
                    else case open_chat_as_admin now chat db of (db1, _) \<Rightarrow> Some (db1, chat_messages k db1)))
     | _ \<Rightarrow> None)"

definition AdminSupportLobbyConsumer_connect :: "subject option \<Rightarrow> bool" where
  "AdminSupportLobbyConsumer_connect user = IsStaffOrAdminUser user"

section \<open>Views of the staff\<close>

definition latest_message :: "row_id \<Rightarrow> support_db \<Rightarrow> support_message option" where
  "latest_message k db = (case rev (chat_messages k db) of [] \<Rightarrow> None | m # _ \<Rightarrow> Some m)"

definition AdminSupportChatList_get :: "support_db \<Rightarrow> (support_chat \<times> support_message option) list" where
  "AdminSupportChatList_get db = map (\<lambda>chat. (chat, latest_message (sc_id chat) db)) (sort_key (\<lambda>r. - sc_updated r) (chats db))"

definition AdminSupportMessageList_get ::
  "instant \<Rightarrow> subject \<Rightarrow> row_id option \<Rightarrow> support_db \<Rightarrow> (support_db \<times> support_message list) res" where
  "AdminSupportMessageList_get now user k db =
    (case k of
       None \<Rightarrow> Inl (ValidationError ''chat query param required'')
     | Some i \<Rightarrow>
         bindE (get_or_404 ''SupportChat'' (get_row sc_id i (chats db))) (\<lambda>chat.
           if \<not> user_can_access_chat user chat then Inr (db, [])
           else case open_chat_as_admin now chat db of (db1, _) \<Rightarrow> Inr (db1, chat_messages i db1)))"

definition SupportChatAdmin_reply :: "instant \<Rightarrow> subject \<Rightarrow> row_id \<Rightarrow> string \<Rightarrow> support_db \<Rightarrow> support_db" where
  "SupportChatAdmin_reply now user k txt db =
    (let content = strip txt in
     case get_row sc_id k (chats db) of
       None \<Rightarrow> db
     | Some chat \<Rightarrow> if content = [] then db else fst (send_message now chat user content db))"

definition SupportChatAdmin_open :: "instant \<Rightarrow> row_id \<Rightarrow> support_db \<Rightarrow> support_db \<times> support_message list" where
  "SupportChatAdmin_open now k db =
    (case get_row sc_id k (chats db) of
       None \<Rightarrow> (db, [])
     | Some chat \<Rightarrow> (case open_chat_as_admin now chat db of (db1, _) \<Rightarrow> (db1, chat_messages k db1)))"

definition SupportChatAdmin_get_queryset :: "support_db \<Rightarrow> support_chat list" where
  "SupportChatAdmin_get_queryset db =
    sort_key (\<lambda>r. if 0 < sc_unread r then (0 :: nat) else 1) (sort_key (\<lambda>r. - sc_updated r) (chats db))"

record support_thread =
  th_chat :: row_id
  th_last :: support_message
  th_unread :: nat

definition DashboardSupportThreadList_get :: "support_db \<Rightarrow> support_thread list" where
  "DashboardSupportThreadList_get db =
    sort_key (\<lambda>t. if 0 < th_unread t then (0 :: nat) else 1)
      (sort_key (\<lambda>t. - msg_created (th_last t))
        (concat (map (\<lambda>chat. case latest_message (sc_id chat) db of
                    None \<Rightarrow> []
                  | Some m \<Rightarrow> [\<lparr>th_chat = sc_id chat, th_last = m,
                      th_unread = count_rows (incoming_unread (sc_id chat)) (messages db)\<rparr>])
          (sort_key (\<lambda>r. - sc_updated r) (chats db)))))"

definition DashboardSupportMessageList_get ::
  "instant \<Rightarrow> row_id option \<Rightarrow> row_id option \<Rightarrow> bool option \<Rightarrow> support_db \<Rightarrow> support_db \<times> support_message list" where
  "DashboardSupportMessageList_get now client master is_read db =
    (let db1 = fst (mark_support_thread_read_by_admin now client master db);
         r1 = keep_if client (\<lambda>c m. msg_client m = Some c) (sort_key msg_created (messages db1));
         r2 = keep_if master (\<lambda>k m. msg_master m = Some k) r1
     in (db1, keep_if is_read (\<lambda>b m. msg_read m = b) r2))"

text \<open>A reply of the dashboard is written without a chat; the chat of its client, or else of its
  master, is attached afterwards. A message to nobody stays without a chat.\<close>

definition dashboard_message ::
  "instant \<Rightarrow> staff_user \<Rightarrow> row_id option \<Rightarrow> row_id option \<Rightarrow> string \<Rightarrow> bool \<Rightarrow> row_id \<Rightarrow> support_message" where
  "dashboard_message now user client master content is_read k =
    \<lparr>msg_id = k, msg_chat = None, msg_sender = FROM_ADMIN, msg_client = client, msg_master = master,
     msg_admin = Some (su_id user), msg_text = content, msg_read = is_read, msg_created = now\<rparr>"

definition attach_reply :: "instant \<Rightarrow> support_message \<Rightarrow> support_db \<times> support_chat \<Rightarrow> support_db \<times> support_message" where
  "attach_reply now m found =
    (case found of (db, chat) \<Rightarrow>
       let m1 = m\<lparr>msg_chat := Some (sc_id chat)\<rparr>;
           db1 = touch_chat now (sc_id chat) False (db\<lparr>messages := upd_row msg_id (msg_id m) (\<lambda>_. m1) (messages db)\<rparr>)
       in (broadcast_support_message m1 db1, m1))"

definition DashboardSupportMessage_perform_create ::
  "instant \<Rightarrow> staff_user \<Rightarrow> row_id option \<Rightarrow> row_id option \<Rightarrow> string \<Rightarrow> bool \<Rightarrow> support_db \<Rightarrow> (support_db \<times> support_message) res" where
  "DashboardSupportMessage_perform_create now user client master txt is_read db =
    bindE (validate_text txt) (\<lambda>content.
      let m = dashboard_message now user client master content is_read (fresh_id msg_id (messages db));
          db1 = db\<lparr>messages := add_row m (messages db)\<rparr>
      in Inr (case client of
           Some c \<Rightarrow> attach_reply now m (get_or_create_client_chat now c db1)
         | None \<Rightarrow> (case master of
             Some k \<Rightarrow> attach_reply now m (get_or_create_master_chat now k db1)
           | None \<Rightarrow> (broadcast_support_message m db1, m))))"

definition DashboardSupportMessageRead_post :: "row_id \<Rightarrow> support_db \<Rightarrow> support_db res" where
  "DashboardSupportMessageRead_post pk db =
    bindE (get_or_404 ''SupportMessage'' (get_row msg_id pk (messages db))) (\<lambda>_.
      Inr (db\<lparr>messages := upd_row msg_id pk (\<lambda>m. m\<lparr>msg_read := True\<rparr>) (messages db)\<rparr>))"

record message_patch =
  pm_sender :: "sender_role option"
  pm_client :: "row_id option option"
  pm_master :: "row_id option option"
  pm_text :: "string option"
  pm_read :: "bool option"

definition DashboardSupportMessage_update :: "row_id \<Rightarrow> message_patch \<Rightarrow> support_db \<Rightarrow> support_db res" where
  "DashboardSupportMessage_update pk p db =
    bindE (get_or_404 ''SupportMessage'' (get_row msg_id pk (messages db))) (\<lambda>m.
      bindE (case pm_text p of None \<Rightarrow> Inr (msg_text m) | Some v \<Rightarrow> validate_text v) (\<lambda>t.
        Inr (db\<lparr>messages := upd_row msg_id pk (\<lambda>_. m\<lparr>msg_sender := sent_or (pm_sender p) (msg_sender m),
            msg_client := sent_or (pm_client p) (msg_client m), msg_master := sent_or (pm_master p) (msg_master m),
            msg_text := t, msg_read := sent_or (pm_read p) (msg_read m)\<rparr>) (messages db)\<rparr>)))"

definition DashboardSupportMessage_destroy :: "row_id \<Rightarrow> support_db \<Rightarrow> support_db res" where
  "DashboardSupportMessage_destroy pk db =
    bindE (get_or_404 ''SupportMessage'' (get_row msg_id pk (messages db))) (\<lambda>_.
      Inr (db\<lparr>messages := del_row msg_id pk (messages db)\<rparr>))"

end
