(* ===== verification/Support_Props.thy ===== *)
theory Support_Props
  imports Support
begin

text \<open>
  Properties of the support chat: one chat per participant, the counter of unread messages, who sees
  which message.
\<close>

section \<open>Invariant\<close>

text \<open>A chat belongs to one participant, and no other chat does.\<close>

definition chat_ok :: "support_chat \<Rightarrow> bool" where
  "chat_ok chat = (case sc_role chat of
     ROLE_CLIENT \<Rightarrow> sc_client chat \<noteq> None \<and> sc_master chat = None
   | ROLE_MASTER \<Rightarrow> sc_master chat \<noteq> None \<and> sc_client chat = None)"

text \<open>The participant of a message of a chat is the participant of the chat.\<close>

definition belongs :: "support_message \<Rightarrow> support_chat \<Rightarrow> bool" where
  "belongs m chat = (case sc_role chat of ROLE_CLIENT \<Rightarrow> msg_client m = sc_client chat | ROLE_MASTER \<Rightarrow> msg_master m = sc_master chat)"

definition placed :: "support_chat list \<Rightarrow> support_message \<Rightarrow> bool" where
  "placed cs m = (case msg_chat m of None \<Rightarrow> True
     | Some k \<Rightarrow> (case get_row sc_id k cs of None \<Rightarrow> False | Some chat \<Rightarrow> belongs m chat))"

definition threads_ok :: "support_db \<Rightarrow> bool" where
  "threads_ok db \<longleftrightarrow>
    keys_distinct sc_id (chats db) \<and> keys_distinct chat_group (chats db) \<and> list_all chat_ok (chats db) \<and>
    keys_distinct msg_id (messages db) \<and>
    list_all (placed (chats db)) (messages db)"

definition unread_messages :: "row_id \<Rightarrow> support_db \<Rightarrow> nat" where
  "unread_messages k db = count_rows (incoming_unread k) (messages db)"

definition counters_exact :: "support_db \<Rightarrow> bool" where
  "counters_exact db \<longleftrightarrow> list_all (\<lambda>chat. sc_unread chat = unread_messages (sc_id chat) db) (chats db)"

definition support_inv :: "support_db \<Rightarrow> bool" where
  "support_inv db \<longleftrightarrow> threads_ok db \<and> counters_exact db"

lemma support_inv_empty: "support_inv empty_support"
  by (simp add: support_inv_def threads_ok_def counters_exact_def empty_support_def)

lemma chat_updates [simp]:
  "chat_ok (r\<lparr>sc_updated := u\<rparr>) = chat_ok r" "chat_ok (r\<lparr>sc_unread := n\<rparr>) = chat_ok r"
  "chat_group (r\<lparr>sc_updated := u\<rparr>) = chat_group r" "chat_group (r\<lparr>sc_unread := n\<rparr>) = chat_group r"
  "belongs m (r\<lparr>sc_updated := u\<rparr>) = belongs m r" "belongs m (r\<lparr>sc_unread := n\<rparr>) = belongs m r"
  by (cases "sc_role r"; simp add: chat_ok_def chat_group_def belongs_def)+

section \<open>Events leave the tables alone\<close>

lemma send_event_tables [simp]:
  "chats (send_event e db) = chats db" "messages (send_event e db) = messages db"
  by (simp_all add: send_event_def)

lemma broadcast_tables [simp]:
  "chats (broadcast_admin_update k db) = chats db" "messages (broadcast_admin_update k db) = messages db"
  "chats (broadcast_read_receipt c db) = chats db" "messages (broadcast_read_receipt c db) = messages db"
  "chats (broadcast_support_message m db) = chats db" "messages (broadcast_support_message m db) = messages db"
  by (simp_all add: broadcast_admin_update_def broadcast_read_receipt_def broadcast_support_message_def split: option.split)

lemma inv_tables:
  "chats db' = chats db \<Longrightarrow> messages db' = messages db \<Longrightarrow> support_inv db' = support_inv db"
  by (simp add: support_inv_def threads_ok_def counters_exact_def unread_messages_def)

section \<open>Chats\<close>

lemma group_client: "chat_ok chat \<Longrightarrow> sc_client chat = Some c \<longleftrightarrow> chat_group chat = Some (PClient c)"
  by (auto simp: chat_ok_def chat_group_def split: participant_role.splits)

lemma group_master: "chat_ok chat \<Longrightarrow> sc_master chat = Some m \<longleftrightarrow> chat_group chat = Some (PMaster m)"
  by (auto simp: chat_ok_def chat_group_def split: participant_role.splits)

lemma get_row_cong: "(\<And>r. r \<in> set rows \<Longrightarrow> (key r = k) = (key' r = k')) \<Longrightarrow> get_row key k rows = get_row key' k' rows"
  by (induction rows) auto

text \<open>A new chat has a fresh key, so no message refers to it.\<close>

lemma fresh_chat_unread:
  assumes "threads_ok db"
  shows "unread_messages (fresh_id sc_id (chats db)) db = 0"
proof -
  have "msg_chat m \<noteq> Some (fresh_id sc_id (chats db))" if "m \<in> set (messages db)" for m
  proof
    assume "msg_chat m = Some (fresh_id sc_id (chats db))"
    moreover have "placed (chats db) m" using assms that by (simp add: threads_ok_def list_all_iff)
    ultimately show False by (simp add: placed_def)
  qed
  then show ?thesis by (auto simp: unread_messages_def count_rows_def incoming_unread_def filter_empty_conv)
qed

lemma placed_add: "placed cs m \<Longrightarrow> placed (add_row chat cs) m"
  by (auto simp: placed_def get_row_add split: option.splits)

lemma add_chat_inv:
  assumes "support_inv db" and "sc_id chat = fresh_id sc_id (chats db)" and "chat_ok chat" and "sc_unread chat = 0"
    and "chat_group chat \<notin> chat_group ` set (chats db)"
  shows "support_inv (db\<lparr>chats := add_row chat (chats db)\<rparr>)"
proof -
  have "sc_id chat \<notin> sc_id ` set (chats db)" using fresh_id_notin [of sc_id "chats db"] assms(2) by simp
  then have "threads_ok (db\<lparr>chats := add_row chat (chats db)\<rparr>)"
    using assms by (simp add: support_inv_def threads_ok_def keys_distinct_add list_all_iff placed_add)
  moreover have "counters_exact (db\<lparr>chats := add_row chat (chats db)\<rparr>)"
    using assms fresh_chat_unread [of db] by (auto simp: support_inv_def counters_exact_def list_all_iff unread_messages_def)
  ultimately show ?thesis by (simp add: support_inv_def)
qed

lemma client_chat:
  assumes "support_inv db" and "get_or_create_client_chat now c db = (db', chat)"
  shows "support_inv db'" "get_row sc_id (sc_id chat) (chats db') = Some chat" "sc_role chat = ROLE_CLIENT" "sc_client chat = Some c"
    "messages db' = messages db"
proof -
  have ok: "list_all chat_ok (chats db)" and ids: "keys_distinct sc_id (chats db)"
    using assms(1) by (auto simp: support_inv_def threads_ok_def)
  have "support_inv db' \<and> get_row sc_id (sc_id chat) (chats db') = Some chat \<and> sc_role chat = ROLE_CLIENT \<and> sc_client chat = Some c \<and>
      messages db' = messages db"
  proof (cases "get_row sc_client (Some c) (chats db)")
    case (Some x)
    with assms(2) have eq: "db' = db" "chat = x" by (auto simp: get_or_create_client_chat_def)
    have "chat_ok x" "sc_client x = Some c" using ok get_row_SomeD [OF Some] by (auto simp: list_all_iff)
    then have "sc_role x = ROLE_CLIENT" by (auto simp: chat_ok_def split: participant_role.splits)
    with eq Some assms(1) get_row_SomeD [OF Some] get_row_unique [OF ids, of x] show ?thesis by simp
  next
    case None
    let ?new = "\<lparr>sc_id = fresh_id sc_id (chats db), sc_role = ROLE_CLIENT, sc_client = Some c, sc_master = None, sc_unread = 0, sc_updated = now\<rparr>"
    from None assms(2) have eq: "db' = db\<lparr>chats := add_row ?new (chats db)\<rparr>" "chat = ?new"
      by (auto simp: get_or_create_client_chat_def Let_def)
    have "chat_group x \<noteq> Some (PClient c)" if "x \<in> set (chats db)" for x
      using None that ok group_client [of x c] by (force simp: get_row_None_iff list_all_iff)
    then have "Some (PClient c) \<notin> chat_group ` set (chats db)" by force
    moreover have "chat_group ?new = Some (PClient c)" by (simp add: chat_group_def)
    ultimately have "support_inv db'"
      unfolding eq(1) using assms(1) by (intro add_chat_inv) (simp_all add: chat_ok_def)
    then show ?thesis using eq by (simp add: get_row_add)
  qed
  then show "support_inv db'" "get_row sc_id (sc_id chat) (chats db') = Some chat" "sc_role chat = ROLE_CLIENT" "sc_client chat = Some c"
    "messages db' = messages db" by simp_all
qed

lemma master_chat:
  assumes "support_inv db" and "get_or_create_master_chat now k db = (db', chat)"
  shows "support_inv db'" "get_row sc_id (sc_id chat) (chats db') = Some chat" "sc_role chat = ROLE_MASTER" "sc_master chat = Some k"
    "messages db' = messages db"
proof -
  have ok: "list_all chat_ok (chats db)" and ids: "keys_distinct sc_id (chats db)"
    using assms(1) by (auto simp: support_inv_def threads_ok_def)
  have "support_inv db' \<and> get_row sc_id (sc_id chat) (chats db') = Some chat \<and> sc_role chat = ROLE_MASTER \<and> sc_master chat = Some k \<and>
      messages db' = messages db"
  proof (cases "get_row sc_master (Some k) (chats db)")
    case (Some x)
    with assms(2) have eq: "db' = db" "chat = x" by (auto simp: get_or_create_master_chat_def)
    have "chat_ok x" "sc_master x = Some k" using ok get_row_SomeD [OF Some] by (auto simp: list_all_iff)
    then have "sc_role x = ROLE_MASTER" by (auto simp: chat_ok_def split: participant_role.splits)
    with eq Some assms(1) get_row_SomeD [OF Some] get_row_unique [OF ids, of x] show ?thesis by simp
  next
    case None
    let ?new = "\<lparr>sc_id = fresh_id sc_id (chats db), sc_role = ROLE_MASTER, sc_client = None, sc_master = Some k, sc_unread = 0, sc_updated = now\<rparr>"
    from None assms(2) have eq: "db' = db\<lparr>chats := add_row ?new (chats db)\<rparr>" "chat = ?new"
      by (auto simp: get_or_create_master_chat_def Let_def)
    have "chat_group x \<noteq> Some (PMaster k)" if "x \<in> set (chats db)" for x
      using None that ok group_master [of x k] by (force simp: get_row_None_iff list_all_iff)
    then have "Some (PMaster k) \<notin> chat_group ` set (chats db)" by force
    moreover have "chat_group ?new = Some (PMaster k)" by (simp add: chat_group_def)
    ultimately have "support_inv db'"
      unfolding eq(1) using assms(1) by (intro add_chat_inv) (simp_all add: chat_ok_def)
    then show ?thesis using eq by (simp add: get_row_add)
  qed
  then show "support_inv db'" "get_row sc_id (sc_id chat) (chats db') = Some chat" "sc_role chat = ROLE_MASTER" "sc_master chat = Some k"
    "messages db' = messages db" by simp_all
qed

section \<open>Messages\<close>

lemma get_touched:
  "get_row sc_id i (chats (touch_chat now k b db)) =
    map_option (\<lambda>r. if i = k then r\<lparr>sc_updated := now, sc_unread := (if b then sc_unread r + 1 else sc_unread r)\<rparr> else r)
      (get_row sc_id i (chats db))"
  unfolding touch_chat_def by (simp add: get_row_upd option.map_ident)

lemma touch_messages [simp]: "messages (touch_chat now k b db) = messages db"
  by (simp add: touch_chat_def)

lemma touched_chats:
  assumes "c \<in> set (chats (touch_chat now k b db))"
  obtains c0 where "c0 \<in> set (chats db)" "sc_id c = sc_id c0" "chat_ok c = chat_ok c0"
    "sc_unread c = sc_unread c0 + (if b \<and> sc_id c0 = k then 1 else 0)"
  using assms
  by (auto simp: touch_chat_def upd_row_def split: if_splits)

lemma placed_touch: "placed (chats (touch_chat now k b db)) m = placed (chats db) m"
  by (auto simp: placed_def get_touched split: option.splits)

lemma touch_threads: "threads_ok db \<Longrightarrow> threads_ok (touch_chat now k b db)"
proof -
  assume ok: "threads_ok db"
  have "map sc_id (chats (touch_chat now k b db)) = map sc_id (chats db)"
    "map chat_group (chats (touch_chat now k b db)) = map chat_group (chats db)"
    by (auto simp: touch_chat_def upd_row_def)
  then have "keys_distinct sc_id (chats (touch_chat now k b db))" "keys_distinct chat_group (chats (touch_chat now k b db))"
    using ok by (auto simp: threads_ok_def keys_distinct_def)
  moreover have "list_all chat_ok (chats (touch_chat now k b db))"
    using ok by (auto simp: threads_ok_def list_all_iff elim!: touched_chats)
  ultimately show ?thesis
    using ok placed_touch [of now k b db] by (simp add: threads_ok_def list_all_iff)
qed

text \<open>A new message of a chat, and the counter that goes with it.\<close>

lemma add_message_inv:
  assumes "support_inv db" and "get_row sc_id k (chats db) = Some chat" and "msg_chat m = Some k" and "belongs m chat"
    and "msg_id m \<notin> msg_id ` set (messages db)" and "b = incoming_unread k m"
  shows "support_inv (touch_chat now k b (db\<lparr>messages := add_row m (messages db)\<rparr>))"
proof -
  let ?db1 = "db\<lparr>messages := add_row m (messages db)\<rparr>"
  have "threads_ok ?db1"
    using assms by (auto simp: support_inv_def threads_ok_def list_all_iff keys_distinct_add placed_def split: option.splits)
  then have "threads_ok (touch_chat now k b ?db1)" by (rule touch_threads)
  moreover have "unread_messages i (touch_chat now k b ?db1) = unread_messages i db + (if b \<and> i = k then 1 else 0)" for i
    using assms(3,6) by (auto simp: unread_messages_def count_rows_def add_row_def incoming_unread_def)
  then have "counters_exact (touch_chat now k b ?db1)"
    using assms(1) by (auto simp: support_inv_def counters_exact_def list_all_iff elim!: touched_chats)
  ultimately show ?thesis by (simp add: support_inv_def)
qed

text \<open>The sender writes in a chat of its own, or is staff.\<close>

definition may_write :: "subject \<Rightarrow> support_chat \<Rightarrow> bool" where
  "may_write user chat = (case user of
     StaffSubject _ \<Rightarrow> True
   | MasterSubject m \<Rightarrow> sc_role chat = ROLE_MASTER \<and> sc_master chat = Some (ms_id m)
   | ClientSubject c \<Rightarrow> sc_role chat = ROLE_CLIENT \<and> sc_client chat = Some (cl_id c))"

lemma new_message_fields:
  "msg_id (new_message now chat user t k) = k" "msg_chat (new_message now chat user t k) = Some (sc_id chat)"
  "may_write user chat \<Longrightarrow> belongs (new_message now chat user t k) chat"
  "incoming_unread (sc_id chat) (new_message now chat user t k) = from_participant user"
  by (auto simp: new_message_def belongs_def may_write_def incoming_unread_def from_participant_def
      split: subject.splits participant_role.splits)

lemma send_message_inv:
  assumes "support_inv db" and "get_row sc_id (sc_id chat) (chats db) = Some chat" and "may_write user chat"
    and "send_message now chat user t db = (db', m)"
  shows "support_inv db'"
proof -
  let ?m = "new_message now chat user t (fresh_id msg_id (messages db))"
  have "support_inv (touch_chat now (sc_id chat) (from_participant user) (db\<lparr>messages := add_row ?m (messages db)\<rparr>))"
    using assms new_message_fields(3) [OF assms(3)] by (intro add_message_inv) (simp_all add: new_message_fields(1,2,4))
  moreover have "db' = broadcast_support_message ?m (touch_chat now (sc_id chat) (from_participant user) (db\<lparr>messages := add_row ?m (messages db)\<rparr>))"
    using assms(4) by (auto simp: send_message_def create_support_message_def Let_def)
  ultimately show ?thesis
    using inv_tables [OF broadcast_tables(5,6)] by simp
qed

section \<open>Reading\<close>

lemma mark_read_inv:
  assumes "support_inv db" and "get_row sc_id (sc_id chat) (chats db) = Some chat"
    and "mark_chat_read_by_admin now chat db = (db', b)"
  shows "support_inv db'" "unread_messages (sc_id chat) db' = 0" "b = (0 < unread_messages (sc_id chat) db)"
    "get_row sc_id (sc_id chat) (chats db') = Some (if b then chat\<lparr>sc_unread := 0, sc_updated := now\<rparr> else chat)"
proof -
  let ?k = "sc_id chat"
  let ?ms = "map (\<lambda>m. if incoming_unread ?k m then m\<lparr>msg_read := True\<rparr> else m) (messages db)"
  let ?cs = "if b then upd_row sc_id ?k (\<lambda>r. r\<lparr>sc_unread := 0, sc_updated := now\<rparr>) (chats db) else chats db"
  have cnt: "sc_unread chat = unread_messages ?k db"
    using assms(1) get_row_in [OF assms(2)] by (auto simp: support_inv_def counters_exact_def list_all_iff)
  then show b: "b = (0 < unread_messages ?k db)"
    using assms(3) by (auto simp: mark_chat_read_by_admin_def mark_messages_read_by_admin_def unread_messages_def Let_def split: if_splits)
  have tabs: "messages db' = ?ms" "chats db' = ?cs"
    using assms(3) by (auto simp: mark_chat_read_by_admin_def mark_messages_read_by_admin_def Let_def split: if_splits)
  have unread: "unread_messages i db' = (if i = ?k then 0 else unread_messages i db)" for i
  proof -
    have "incoming_unread i (if incoming_unread ?k m then m\<lparr>msg_read := True\<rparr> else m) = (i \<noteq> ?k \<and> incoming_unread i m)" for m
      by (auto simp: incoming_unread_def)
    then show ?thesis by (simp add: unread_messages_def count_rows_def tabs(1) filter_map comp_def)
  qed
  then show "unread_messages ?k db' = 0" by simp
  show "get_row sc_id ?k (chats db') = Some (if b then chat\<lparr>sc_unread := 0, sc_updated := now\<rparr> else chat)"
    using assms(2) by (simp add: tabs(2) get_row_upd)
  have "map sc_id (chats db') = map sc_id (chats db)" "map chat_group (chats db') = map chat_group (chats db)"
    by (auto simp: tabs(2) upd_row_def)
  then have "keys_distinct sc_id (chats db')" "keys_distinct chat_group (chats db')"
    using assms(1) by (auto simp: support_inv_def threads_ok_def keys_distinct_def)
  moreover have "list_all chat_ok (chats db')"
    using assms(1) by (auto simp: support_inv_def threads_ok_def tabs(2) list_all_iff upd_row_def)
  moreover have "map msg_id (messages db') = map msg_id (messages db)" by (simp add: tabs(1))
  then have "keys_distinct msg_id (messages db')" using assms(1) by (simp add: support_inv_def threads_ok_def keys_distinct_def)
  moreover have "placed (chats db') (if incoming_unread ?k m then m\<lparr>msg_read := True\<rparr> else m) = placed (chats db) m" for m
    by (auto simp: placed_def tabs(2) get_row_upd belongs_def split: option.splits participant_role.splits)
  then have "list_all (placed (chats db')) (messages db')"
    using assms(1) by (simp add: support_inv_def threads_ok_def tabs(1) list.pred_map comp_def)
  ultimately have "threads_ok db'" by (simp add: threads_ok_def)
  moreover have "sc_unread c = unread_messages (sc_id c) db'" if "c \<in> set (chats db')" for c
  proof -
    have "sc_unread c0 = unread_messages (sc_id c0) db" if "c0 \<in> set (chats db)" for c0
      using assms(1) that by (auto simp: support_inv_def counters_exact_def list_all_iff)
    with that b show ?thesis by (auto simp: unread tabs(2) upd_row_def split: if_splits)
  qed
  ultimately show "support_inv db'" by (simp add: support_inv_def counters_exact_def list_all_iff)
qed

lemma open_chat_inv:
  assumes "support_inv db" and "get_row sc_id (sc_id chat) (chats db) = Some chat"
    and "open_chat_as_admin now chat db = (db', b)"
  shows "support_inv db'" "unread_messages (sc_id chat) db' = 0"
proof -
  obtain db1 where db1: "mark_chat_read_by_admin now chat db = (db1, b)"
    and db': "db' = (if b then broadcast_admin_update (sc_id chat) db1 else db1)"
    using assms(3) by (auto simp: open_chat_as_admin_def split: prod.splits)
  have "chats db' = chats db1" "messages db' = messages db1" by (simp_all add: db')
  then show "support_inv db'" "unread_messages (sc_id chat) db' = 0"
    using mark_read_inv(1,2) [OF assms(1,2) db1] inv_tables [of db' db1] by (simp_all add: unread_messages_def)
qed

text \<open>Opening a chat again changes nothing and tells nobody.\<close>

lemma open_chat_twice:
  assumes "support_inv db" and "get_row sc_id k (chats db) = Some chat" and "open_chat_as_admin now chat db = (db1, b)"
    and "get_row sc_id k (chats db1) = Some chat1"
  shows "open_chat_as_admin later chat1 db1 = (db1, False)"
proof -
  have k: "sc_id chat = k" "sc_id chat1 = k" using get_row_key [OF assms(2)] get_row_key [OF assms(4)] by simp_all
  have inv: "support_inv db1" "unread_messages k db1 = 0" using open_chat_inv [OF assms(1) _ assms(3)] assms(2) k(1) by simp_all
  then have "sc_unread chat1 = 0"
    using get_row_in [OF assms(4)] k(2) by (auto simp: support_inv_def counters_exact_def list_all_iff)
  moreover have "map (\<lambda>m. if incoming_unread k m then m\<lparr>msg_read := True\<rparr> else m) (messages db1) = messages db1"
    using inv(2) by (intro map_idI) (auto simp: unread_messages_def count_rows_def filter_empty_conv)
  ultimately show ?thesis
    using inv(2) k(2) by (simp add: open_chat_as_admin_def mark_chat_read_by_admin_def mark_messages_read_by_admin_def unread_messages_def)
qed

section \<open>Replies of the dashboard\<close>

lemma touch_inv: "support_inv db \<Longrightarrow> support_inv (touch_chat now k False db)"
  using touch_threads [of db now k False]
  by (auto simp: support_inv_def counters_exact_def list_all_iff unread_messages_def elim!: touched_chats)

lemma add_reply_inv:
  assumes "support_inv db" and "msg_id m \<notin> msg_id ` set (messages db)" and "msg_chat m = None"
  shows "support_inv (db\<lparr>messages := add_row m (messages db)\<rparr>)"
  using assms keys_distinct_add [of msg_id "messages db" m]
  by (simp add: support_inv_def threads_ok_def counters_exact_def placed_def unread_messages_def count_rows_def add_row_def incoming_unread_def)

lemma attach_inv:
  assumes "support_inv db" and "msg_id m1 = i" and "msg_sender m1 = FROM_ADMIN"
    and "\<And>m0. m0 \<in> set (messages db) \<Longrightarrow> msg_id m0 = i \<Longrightarrow> msg_sender m0 = FROM_ADMIN" and "placed (chats db) m1"
  shows "support_inv (db\<lparr>messages := upd_row msg_id i (\<lambda>_. m1) (messages db)\<rparr>)"
proof -
  have "unread_messages k (db\<lparr>messages := upd_row msg_id i (\<lambda>_. m1) (messages db)\<rparr>) = unread_messages k db" for k
  proof -
    have "incoming_unread k (if msg_id m = i then m1 else m) = incoming_unread k m" if "m \<in> set (messages db)" for m
      using assms(3,4) that by (auto simp: incoming_unread_def)
    then have "filter (\<lambda>m. incoming_unread k (if msg_id m = i then m1 else m)) (messages db) = filter (incoming_unread k) (messages db)"
      by (rule filter_cong [OF refl])
    then show ?thesis by (simp add: unread_messages_def count_rows_def upd_row_def filter_map comp_def)
  qed
  moreover have "list_all (placed (chats db)) (upd_row msg_id i (\<lambda>_. m1) (messages db))"
    using assms(1,5) by (auto simp: support_inv_def threads_ok_def list_all_iff dest!: in_upd_row)
  ultimately show ?thesis
    using assms(1,2) by (simp add: support_inv_def threads_ok_def counters_exact_def keys_distinct_replace)
qed

lemma attach_reply_inv:
  assumes "support_inv db2" and "get_row sc_id (sc_id chat) (chats db2) = Some chat" and "belongs m chat" and "msg_sender m = FROM_ADMIN"
    and "\<And>m0. m0 \<in> set (messages db2) \<Longrightarrow> msg_id m0 = msg_id m \<Longrightarrow> msg_sender m0 = FROM_ADMIN"
    and "attach_reply now m (db2, chat) = (db', m')"
  shows "support_inv db'"
proof -
  let ?m1 = "m\<lparr>msg_chat := Some (sc_id chat)\<rparr>"
  have "belongs ?m1 chat" using assms(3) by (simp add: belongs_def split: participant_role.splits)
  then have "support_inv (db2\<lparr>messages := upd_row msg_id (msg_id m) (\<lambda>_. ?m1) (messages db2)\<rparr>)"
    using assms by (intro attach_inv) (simp_all add: placed_def)
  from touch_inv [OF this] show ?thesis
    using assms(6) inv_tables [OF broadcast_tables(5,6)] by (auto simp: attach_reply_def Let_def)
qed

lemma dashboard_reply_inv:
  assumes "support_inv db" and "DashboardSupportMessage_perform_create now user client master txt rd db = Inr (db', m')"
  shows "support_inv db'"
proof -
  obtain t where t: "validate_text txt = Inr t" using assms(2) by (auto simp: DashboardSupportMessage_perform_create_def)
  define m where "m = dashboard_message now user client master t rd (fresh_id msg_id (messages db))"
  define db1 where "db1 = db\<lparr>messages := add_row m (messages db)\<rparr>"
  have m: "msg_id m \<notin> msg_id ` set (messages db)" "msg_chat m = None" "msg_sender m = FROM_ADMIN" "msg_client m = client" "msg_master m = master"
    by (simp_all add: m_def dashboard_message_def)
  have inv1: "support_inv db1" unfolding db1_def by (rule add_reply_inv [OF assms(1) m(1,2)])
  have admin: "msg_sender m0 = FROM_ADMIN" if "m0 \<in> set (messages db1)" "msg_id m0 = msg_id m" for m0
    using that m(1,3) by (auto simp: db1_def) (metis imageI)
  have run: "(db', m') = (case client of
         Some c \<Rightarrow> attach_reply now m (get_or_create_client_chat now c db1)
       | None \<Rightarrow> (case master of Some k \<Rightarrow> attach_reply now m (get_or_create_master_chat now k db1)
         | None \<Rightarrow> (broadcast_support_message m db1, m)))"
    unfolding db1_def m_def using assms(2) t by (simp add: DashboardSupportMessage_perform_create_def Let_def)
  consider c where "client = Some c" | k where "client = None" "master = Some k" | "client = None" "master = None"
    by (cases client; cases master) auto
  then show ?thesis
  proof cases
    case (1 c)
    obtain db2 chat where g: "get_or_create_client_chat now c db1 = (db2, chat)" by (metis surj_pair)
    note chat = client_chat [OF inv1 g]
    have "belongs m chat" using chat(3,4) 1 m(4) by (simp add: belongs_def)
    with attach_reply_inv [OF chat(1,2) _ m(3)] admin chat(5) run 1 g show ?thesis by (metis option.simps(5))
  next
    case (2 k)
    obtain db2 chat where g: "get_or_create_master_chat now k db1 = (db2, chat)" by (metis surj_pair)
    note chat = master_chat [OF inv1 g]
    have "belongs m chat" using chat(3,4) 2 m(5) by (simp add: belongs_def)
    with attach_reply_inv [OF chat(1,2) _ m(3)] admin chat(5) run 2 g show ?thesis by (metis option.simps(4,5))
  next
    case 3
    then show ?thesis using run inv1 inv_tables [OF broadcast_tables(5,6)] by simp
  qed
qed

section \<open>Histories\<close>

text \<open>A socket is bound to a chat when it connects: a participant's to the participant's own chat.\<close>

definition bound :: "subject \<Rightarrow> row_id \<Rightarrow> support_db \<Rightarrow> bool" where
  "bound user k db = (case get_row sc_id k (chats db) of None \<Rightarrow> True | Some chat \<Rightarrow> may_write user chat)"

inductive support_step :: "support_db \<Rightarrow> support_db \<Rightarrow> bool" where
  own_list: "SupportListCreate_get now user db = (db', ms) \<Longrightarrow> support_step db db'"
| own_post: "SupportListCreate_post now user txt db = Inr (db', m) \<Longrightarrow> support_step db db'"
| own_chat: "SupportChatMe_get now user db = Some (db', chat) \<Longrightarrow> support_step db db'"
| socket_open: "SupportConsumer_connect now role u db = Some (db', k, ms) \<Longrightarrow> support_step db db'"
| socket_frame: "bound user k db \<Longrightarrow> SupportConsumer_receive now k user f db = (db', r) \<Longrightarrow> support_step db db'"
| admin_socket: "AdminSupportChatConsumer_connect now k u db = Some (db', ms) \<Longrightarrow> support_step db db'"
| admin_list: "AdminSupportMessageList_get now (StaffSubject st) i db = Inr (db', ms) \<Longrightarrow> support_step db db'"
| admin_reply: "support_step db (SupportChatAdmin_reply now (StaffSubject st) k txt db)"
| admin_open: "SupportChatAdmin_open now k db = (db', ms) \<Longrightarrow> support_step db db'"
| dashboard_list: "DashboardSupportMessageList_get now client master rd db = (db', ms) \<Longrightarrow> support_step db db'"
| dashboard_reply: "DashboardSupportMessage_perform_create now st client master txt rd' db = Inr (db', m) \<Longrightarrow> support_step db db'"

lemma own_chat_inv:
  assumes "support_inv db" and "get_or_create_support_chat now user db = Some (db', chat)"
  shows "support_inv db'" "get_row sc_id (sc_id chat) (chats db') = Some chat" "may_write user chat" "messages db' = messages db"
  using assms client_chat [OF assms(1)] master_chat [OF assms(1)]
  by (auto simp: get_or_create_support_chat_def may_write_def split: subject.splits)

lemma thread_row:
  assumes "support_inv db" and "r \<in> set (chats db)"
  shows "get_row sc_id (sc_id r) (chats db) = Some r"
  using assms get_row_unique [of sc_id "chats db" r] by (simp add: support_inv_def threads_ok_def)

lemma support_step_inv: "support_step db db' \<Longrightarrow> support_inv db \<Longrightarrow> support_inv db'"
proof (induction rule: support_step.induct)
  case (own_list now user db db' ms)
  then show ?case using own_chat_inv(1) [of db now user] by (auto simp: SupportListCreate_get_def split: option.splits)
next
  case (own_post now user v db db' m)
  then obtain db1 chat t where g: "get_or_create_support_chat now user db = Some (db1, chat)" and s: "send_message now chat user t db1 = (db', m)"
    by (auto simp: SupportListCreate_post_def split: option.splits)
  from send_message_inv [OF own_chat_inv(1-3) [OF own_post(2) g] s] show ?case .
next
  case (own_chat now user db db' chat)
  then show ?case using own_chat_inv(1) by (auto simp: SupportChatMe_get_def)
next
  case (socket_open now role u db db' k ms)
  then show ?case
    using client_chat(1) [OF socket_open(2)] master_chat(1) [OF socket_open(2)]
    by (auto simp: SupportConsumer_connect_def split: option.splits subject.splits if_splits prod.splits)
next
  case (socket_frame user k db now f db' r)
  show ?case
  proof (cases "db' = db")
    case False
    then obtain chat t m where c: "get_row sc_id k (chats db) = Some chat" and s: "send_message now chat user t db = (db', m)"
      using socket_frame(2) by (auto simp: SupportConsumer_receive_def Let_def split: chat_frame.splits if_splits option.splits prod.splits)
    have k: "sc_id chat = k" by (rule get_row_key [OF c])
    have "may_write user chat" using socket_frame(1) c by (simp add: bound_def)
    with send_message_inv [OF socket_frame(3) _ _ s] c k show ?thesis by simp
  qed (use socket_frame in \<open>simp\<close>)
next
  case (admin_socket now k u db db' ms)
  then obtain chat b where c: "get_row sc_id k (chats db) = Some chat" and opn: "open_chat_as_admin now chat db = (db', b)"
    by (auto simp: AdminSupportChatConsumer_connect_def get_allowed_chat_def split: option.splits subject.splits if_splits prod.splits)
  with open_chat_inv(1) [OF admin_socket(2) _ opn] get_row_key [OF c] show ?case by simp
next
  case (admin_list now st i db db' ms)
  show ?case
  proof (cases "db' = db")
    case False
    then obtain k chat b where c: "get_row sc_id k (chats db) = Some chat" and opn: "open_chat_as_admin now chat db = (db', b)"
      using admin_list(1) by (auto simp: AdminSupportMessageList_get_def split: option.splits if_splits prod.splits)
    with open_chat_inv(1) [OF admin_list(2) _ opn] get_row_key [OF c] show ?thesis by simp
  qed (use admin_list in \<open>simp\<close>)
next
  case (admin_reply db now st k v)
  show ?case
  proof (cases "get_row sc_id k (chats db)")
    case (Some chat)
    obtain db1 m where s: "send_message now chat (StaffSubject st) (strip v) db = (db1, m)" by (metis surj_pair)
    have "support_inv db1" using send_message_inv [OF admin_reply _ _ s] Some get_row_key [OF Some] by (simp add: may_write_def)
    then show ?thesis using Some s admin_reply by (simp add: SupportChatAdmin_reply_def Let_def)
  qed (use admin_reply in \<open>simp add: SupportChatAdmin_reply_def Let_def\<close>)
next
  case (admin_open now k db db' ms)
  show ?case
  proof (cases "get_row sc_id k (chats db)")
    case (Some chat)
    then obtain b where opn: "open_chat_as_admin now chat db = (db', b)"
      using admin_open(1) by (auto simp: SupportChatAdmin_open_def split: prod.splits)
    with open_chat_inv(1) [OF admin_open(2) _ opn] Some get_row_key [OF Some] show ?thesis by simp
  qed (use admin_open in \<open>simp add: SupportChatAdmin_open_def\<close>)
next
  case (dashboard_list now client master rd db db' ms)
  then have db': "db' = fst (mark_support_thread_read_by_admin now client master db)"
    by (simp add: DashboardSupportMessageList_get_def Let_def)
  show ?case
  proof (cases "db' = db")
    case False
    then obtain chat b where c: "chat \<in> set (chats db)" and opn: "open_chat_as_admin now chat db = (db', b)"
      using db' by (auto simp: mark_support_thread_read_by_admin_def split: option.splits dest: get_row_in) (metis get_row_in surjective_pairing)+
    from open_chat_inv(1) [OF dashboard_list(2) thread_row [OF dashboard_list(2) c] opn] show ?thesis .
  qed (use dashboard_list in \<open>simp\<close>)
next
  case (dashboard_reply now st client master v rd' db db' m)
  then show ?case using dashboard_reply_inv by blast
qed

lemma support_reachable: "support_step\<^sup>*\<^sup>* empty_support db \<Longrightarrow> support_inv db"
  by (induction rule: rtranclp_induct) (auto intro: support_step_inv support_inv_empty)

section \<open>Claims\<close>

lemma broadcast_events:
  "get_row sc_id k (chats db) = Some c \<Longrightarrow> chat_group c = Some g \<Longrightarrow> msg_chat m = Some k \<Longrightarrow>
    events (broadcast_support_message m db) = events db @ [ChatMessage g (msg_id m), ChatUpdate k (sc_unread c)]"
  by (simp add: broadcast_support_message_def broadcast_admin_update_def send_event_def)

lemma touch_events [simp]: "events (touch_chat now k b db) = events db"
  by (simp add: touch_chat_def)

lemma thread_list_rows:
  assumes "th \<in> set (DashboardSupportThreadList_get db)"
  obtains chat where "chat \<in> set (chats db)" "th_chat th = sc_id chat" "th_unread th = unread_messages (sc_id chat) db"
  using assms
  by (auto simp: DashboardSupportThreadList_get_def unread_messages_def split: option.splits)



text \<open>Marking one message as read from the dashboard leaves the counter of its chat one too high: the
  admin's list goes on announcing a new message in a chat where every message is read, until somebody
  opens the chat. Deleting an unread message does the same.\<close>

theorem single_read_leaves_counter:
  assumes "support_inv db" and "get_row sc_id k (chats db) = Some chat" and "get_row msg_id pk (messages db) = Some m"
    and "incoming_unread k m" and "DashboardSupportMessageRead_post pk db = Inr db1" and "DashboardSupportMessage_destroy pk db = Inr db2"
  shows "get_row sc_id k (chats db1) = Some chat \<and> sc_unread chat = unread_messages k db1 + 1 \<and>
    get_row sc_id k (chats db2) = Some chat \<and> sc_unread chat = unread_messages k db2 + 1"
proof -
  have db1: "db1 = db\<lparr>messages := upd_row msg_id pk (\<lambda>m. m\<lparr>msg_read := True\<rparr>) (messages db)\<rparr>"
    using assms(5) by (auto simp: DashboardSupportMessageRead_post_def)
  have db2: "db2 = db\<lparr>messages := del_row msg_id pk (messages db)\<rparr>"
    using assms(6) by (auto simp: DashboardSupportMessage_destroy_def)
  have ids: "keys_distinct msg_id (messages db)" using assms(1) by (simp add: support_inv_def threads_ok_def)
  have len: "int (length (filter (incoming_unread k) xs)) = sum_rows (\<lambda>m. if incoming_unread k m then 1 else 0) xs" for xs
    by (induction xs) simp_all
  have cnt: "int (unread_messages k d) = sum_rows (\<lambda>m. if incoming_unread k m then 1 else 0) (messages d)" for d
    using len [of "messages d"] by (simp add: unread_messages_def count_rows_def)
  have "sc_unread chat = unread_messages k db"
    using assms(1) get_row_SomeD [OF assms(2)] by (auto simp: support_inv_def counters_exact_def list_all_iff)
  moreover have "int (unread_messages k db1) = int (unread_messages k db) - 1"
    unfolding cnt db1 using sum_rows_upd [OF ids assms(3), of "\<lambda>m. if incoming_unread k m then 1 else 0" "\<lambda>m. m\<lparr>msg_read := True\<rparr>"] assms(4)
    by (simp add: incoming_unread_def)
  moreover have "int (unread_messages k db2) = int (unread_messages k db) - 1"
    unfolding cnt db2 using sum_rows_del [OF ids assms(3), of "\<lambda>m. if incoming_unread k m then 1 else 0"] assms(4) by simp
  ultimately show ?thesis using assms(2) by (simp add: db1 db2)
qed

section \<open>Example\<close>

definition asking :: subject where
  "asking = ClientSubject (new_client 4 ''+998901112233'')"

definition asked_db :: support_db where
  "asked_db = (case SupportListCreate_post 1000 asking ''Usta kelmadi'' empty_support of Inr (db, _) \<Rightarrow> db | Inl _ \<Rightarrow> empty_support)"

lemma asked_run: "map_sum id fst (SupportListCreate_post 1000 asking ''Usta kelmadi'' empty_support) = Inr asked_db"
  by code_simp

lemma asked_reachable: "support_step\<^sup>*\<^sup>* empty_support asked_db"
proof -
  obtain m where "SupportListCreate_post 1000 asking ''Usta kelmadi'' empty_support = Inr (asked_db, m)"
    using asked_run by (cases "SupportListCreate_post 1000 asking ''Usta kelmadi'' empty_support") auto
  then show ?thesis by (blast intro: own_post)
qed



theorem single_read_leaves_counter_witness:
  "\<exists>db1. DashboardSupportMessageRead_post 1 asked_db = Inr db1 \<and> map sc_unread (chats db1) = [1] \<and> unread_messages 1 db1 = 0"
proof -
  have rows: "get_row sc_id 1 (chats asked_db) = Some (hd (chats asked_db))"
    "get_row msg_id 1 (messages asked_db) = Some (hd (messages asked_db))" "incoming_unread 1 (hd (messages asked_db))"
    "map sc_unread (chats asked_db) = [1]"
    by code_simp+
  then obtain db1 db2 where ops: "DashboardSupportMessageRead_post 1 asked_db = Inr db1" "DashboardSupportMessage_destroy 1 asked_db = Inr db2"
    by (auto simp: DashboardSupportMessageRead_post_def DashboardSupportMessage_destroy_def)
  have "chats db1 = chats asked_db" using ops(1) by (auto simp: DashboardSupportMessageRead_post_def)
  with single_read_leaves_counter [OF support_reachable [OF asked_reachable] rows(1-3) ops] rows(1,4) ops(1) show ?thesis
    by (auto simp: map_eq_Cons_conv)
qed

end
