(* ===== verification/Notifications.thy ===== *)
theory Notifications
  imports Support
begin

text \<open>
  Notifications: \<open>src/apps/notifications/\<close> (model, services, views, consumers) and the notification
  pages of \<open>src/apps/dashboard/\<close>.

  \<^item> Events on the sockets and push messages are kept as lists, in the order of sending. The push
    provider is not modelled: \<open>pushes\<close> are the calls of \<open>PushClient.send_many\<close>.
  \<^item> \<open>pending\<close> are the calls that wait for the commit of the surrounding transaction; \<open>None\<close> outside
    of a transaction.
  \<^item> The JSON data of a notification is an association list of texts.
\<close>

section \<open>Tables\<close>

record notification =
  nt_id :: row_id
  nt_role :: participant_role
  nt_client :: "row_id option"
  nt_master :: "row_id option"
  nt_title :: string
  nt_body :: string
  nt_data :: "(string \<times> string) list"
  nt_read :: bool

record push =
  pu_tokens :: "string list"
  pu_title :: string
  pu_body :: string
  pu_data :: "(string \<times> string) list"

datatype notification_event =
    NotificationEvent participant string notification
  | ReadAllEvent participant

record notification_db =
  notifications :: "notification list"
  sent_events :: "notification_event list"
  pushes :: "push list"
  pending :: "push list option"

definition empty_notifications :: notification_db where
  "empty_notifications = \<lparr>notifications = [], sent_events = [], pushes = [], pending = None\<rparr>"

section \<open>Delivery\<close>

definition target_group :: "notification \<Rightarrow> participant option" where
  "target_group n =
    (case nt_role n of
       ROLE_MASTER \<Rightarrow> map_option PMaster (nt_master n)
     | ROLE_CLIENT \<Rightarrow> map_option PClient (nt_client n))"

definition broadcast_notification :: "string \<Rightarrow> notification \<Rightarrow> notification_db \<Rightarrow> notification_db" where
  "broadcast_notification ev n db =
    (case target_group n of
       None \<Rightarrow> db
     | Some g \<Rightarrow> db\<lparr>sent_events := sent_events db @ [NotificationEvent g ev n]\<rparr>)"

definition broadcast_notification_read_all :: "participant \<Rightarrow> notification_db \<Rightarrow> notification_db" where
  "broadcast_notification_read_all g db = db\<lparr>sent_events := sent_events db @ [ReadAllEvent g]\<rparr>"

fun role_value :: "participant_role \<Rightarrow> string" where
  "role_value ROLE_CLIENT = ''client''"
| "role_value ROLE_MASTER = ''master''"

text \<open>\<open>dict.update\<close>.\<close>

definition dict_put :: "string \<times> string \<Rightarrow> (string \<times> string) list \<Rightarrow> (string \<times> string) list" where
  "dict_put kv d =
    (if fst kv \<in> fst ` set d then map (\<lambda>e. if fst e = fst kv then kv else e) d else d @ [kv])"

definition push_payload :: "string \<Rightarrow> notification \<Rightarrow> (string \<times> string) list" where
  "push_payload ev n =
    fold dict_put (nt_data n)
      [(''event'', ev), (''notification_id'', nat_str (nt_id n)), (''role'', role_value (nt_role n))]"

text \<open>The switches of the account a notification is for.\<close>

definition push_allowed :: "notification \<Rightarrow> accounts_db \<Rightarrow> bool" where
  "push_allowed n a =
    (case nt_role n of
       ROLE_MASTER \<Rightarrow> (case Option.bind (nt_master n) (\<lambda>k. get_row ms_id k (masters a)) of
                        None \<Rightarrow> False | Some m \<Rightarrow> ms_notifications m \<and> ms_push m)
     | ROLE_CLIENT \<Rightarrow> (case Option.bind (nt_client n) (\<lambda>k. get_row cl_id k (clients a)) of
                        None \<Rightarrow> False | Some c \<Rightarrow> cl_notifications c \<and> cl_push c))"

definition device_matches :: "notification \<Rightarrow> fcm_device \<Rightarrow> bool" where
  "device_matches n d =
    (fd_active d \<and>
     (case nt_role n of
        ROLE_MASTER \<Rightarrow> fd_role d = RoleMaster \<and> fd_master d = nt_master n
      | ROLE_CLIENT \<Rightarrow> fd_role d = RoleClient \<and> fd_client d = nt_client n))"

definition push_tokens :: "notification \<Rightarrow> accounts_db \<Rightarrow> string list" where
  "push_tokens n a = map fd_token (filter (device_matches n) (fcm_devices a))"

text \<open>\<open>transaction.on_commit\<close>: at once outside of a transaction.\<close>

definition on_commit :: "push \<Rightarrow> notification_db \<Rightarrow> notification_db" where
  "on_commit p db =
    (case pending db of
       None \<Rightarrow> db\<lparr>pushes := pushes db @ [p]\<rparr>
     | Some ps \<Rightarrow> db\<lparr>pending := Some (ps @ [p])\<rparr>)"

definition send_push_notification :: "string \<Rightarrow> notification \<Rightarrow> accounts_db \<Rightarrow> notification_db \<Rightarrow> notification_db" where
  "send_push_notification ev n a db =
    (if \<not> push_allowed n a then db
     else let tokens = push_tokens n a in
       if tokens = [] then db
       else on_commit \<lparr>pu_tokens = tokens, pu_title = nt_title n, pu_body = nt_body n, pu_data = push_payload ev n\<rparr> db)"

definition begin_transaction :: "notification_db \<Rightarrow> notification_db" where
  "begin_transaction db = db\<lparr>pending := Some []\<rparr>"

definition commit_transaction :: "notification_db \<Rightarrow> notification_db" where
  "commit_transaction db =
    (case pending db of None \<Rightarrow> db | Some ps \<Rightarrow> db\<lparr>pushes := pushes db @ ps, pending := None\<rparr>)"

text \<open>A rollback restores the tables and drops what waits; what the sockets got is out.\<close>

definition rollback_transaction :: "notification list \<Rightarrow> notification_db \<Rightarrow> notification_db" where
  "rollback_transaction rows db = db\<lparr>notifications := rows, pending := None\<rparr>"

text \<open>A notification of the apps is delivered and not stored.\<close>

record notice =
  nc_role :: participant_role
  nc_client :: "row_id option"
  nc_master :: "row_id option"
  nc_title :: string
  nc_body :: string
  nc_data :: "(string \<times> string) list"

definition notification_of :: "row_id \<Rightarrow> notice \<Rightarrow> notification" where
  "notification_of k i =
    \<lparr>nt_id = k, nt_role = nc_role i, nt_client = nc_client i, nt_master = nc_master i, nt_title = nc_title i,
     nt_body = nc_body i, nt_data = nc_data i, nt_read = False\<rparr>"

definition create_notification :: "string \<Rightarrow> notice \<Rightarrow> accounts_db \<Rightarrow> notification_db \<Rightarrow> notification_db" where
  "create_notification ev i a db =
    (let n = notification_of (fresh_id nt_id (notifications db)) i
     in send_push_notification ev n a (broadcast_notification ev n db))"

section \<open>Views of clients and masters\<close>

definition own_notification :: "subject \<Rightarrow> notification \<Rightarrow> bool" where
  "own_notification user n =
    (case user of
       MasterSubject m \<Rightarrow> nt_master n = Some (ms_id m)
     | ClientSubject c \<Rightarrow> nt_client n = Some (cl_id c)
     | StaffSubject _ \<Rightarrow> False)"

definition NotificationList_get_queryset :: "subject \<Rightarrow> notification_db \<Rightarrow> notification list" where
  "NotificationList_get_queryset user db = filter (own_notification user) (rev (notifications db))"

text \<open>\<open>.get(pk=pk)\<close> raises \<open>DoesNotExist\<close>, which nothing catches.\<close>

definition NotificationRead_patch :: "subject \<Rightarrow> row_id \<Rightarrow> notification_db \<Rightarrow> notification_db res" where
  "NotificationRead_patch user pk db =
    (case get_row nt_id pk (filter (own_notification user) (notifications db)) of
       None \<Rightarrow> Inl (ServerError ''Notification matching query does not exist.'')
     | Some n \<Rightarrow>
         let n1 = n\<lparr>nt_read := True\<rparr>
         in Inr (broadcast_notification ''notification.read'' n1
              (db\<lparr>notifications := upd_row nt_id pk (\<lambda>_. n1) (notifications db)\<rparr>)))"

definition NotificationReadAll_patch :: "subject \<Rightarrow> notification_db \<Rightarrow> notification_db" where
  "NotificationReadAll_patch user db =
    (let db1 = db\<lparr>notifications := map (\<lambda>n. if own_notification user n then n\<lparr>nt_read := True\<rparr> else n) (notifications db)\<rparr>
     in case user of
          MasterSubject m \<Rightarrow> broadcast_notification_read_all (PMaster (ms_id m)) db1
        | ClientSubject c \<Rightarrow> broadcast_notification_read_all (PClient (cl_id c)) db1
        | StaffSubject _ \<Rightarrow> db1)"

definition unread_notifications :: "subject \<Rightarrow> notification_db \<Rightarrow> nat" where
  "unread_notifications user db = count_rows (\<lambda>n. own_notification user n \<and> \<not> nt_read n) (notifications db)"

definition NotificationConsumer_connect :: "participant_role \<Rightarrow> subject option \<Rightarrow> participant option" where
  "NotificationConsumer_connect role user =
    (case user of
       Some (ClientSubject c) \<Rightarrow> if role = ROLE_CLIENT then Some (PClient (cl_id c)) else None
     | Some (MasterSubject m) \<Rightarrow> if role = ROLE_MASTER then Some (PMaster (ms_id m)) else None
     | _ \<Rightarrow> None)"

section \<open>Dashboard\<close>

definition validate_target :: "participant_role \<Rightarrow> row_id option \<Rightarrow> row_id option \<Rightarrow> unit res" where
  "validate_target role client master =
    (if role = ROLE_CLIENT \<and> client = None then Inl (ValidationError ''Client notification uchun client kerak'')
     else if role = ROLE_MASTER \<and> master = None then Inl (ValidationError ''Master notification uchun master kerak'')
     else Inr ())"

definition DashboardNotification_perform_create ::
  "notice \<Rightarrow> bool \<Rightarrow> accounts_db \<Rightarrow> notification_db \<Rightarrow> (notification_db \<times> notification) res" where
  "DashboardNotification_perform_create i is_read a db =
    bindE (validate_target (nc_role i) (nc_client i) (nc_master i)) (\<lambda>_.
      let n = (notification_of (fresh_id nt_id (notifications db)) i)\<lparr>nt_read := is_read\<rparr>;
          db1 = db\<lparr>notifications := add_row n (notifications db)\<rparr>
      in Inr (send_push_notification ''notification.created'' n a (broadcast_notification ''notification.created'' n db1), n))"

record notification_patch =
  np_role :: "participant_role option"
  np_client :: "row_id option option"
  np_master :: "row_id option option"
  np_title :: "string option"
  np_body :: "string option"
  np_data :: "(string \<times> string) list option"
  np_read :: "bool option"

text \<open>\<open>attrs.get("client") or self.instance.client\<close>: a null in the request counts as missing here, and is
  then written.\<close>

definition patched_or_old :: "row_id option option \<Rightarrow> row_id option \<Rightarrow> row_id option" where
  "patched_or_old new old = (case new of Some (Some k) \<Rightarrow> Some k | _ \<Rightarrow> old)"

definition DashboardNotification_update :: "row_id \<Rightarrow> notification_patch \<Rightarrow> notification_db \<Rightarrow> notification_db res" where
  "DashboardNotification_update pk p db =
    bindE (get_or_404 ''Notification'' (get_row nt_id pk (notifications db))) (\<lambda>n.
      bindE (validate_target (sent_or (np_role p) (nt_role n)) (patched_or_old (np_client p) (nt_client n))
          (patched_or_old (np_master p) (nt_master n))) (\<lambda>_.
        Inr (db\<lparr>notifications := upd_row nt_id pk (\<lambda>_. n\<lparr>nt_role := sent_or (np_role p) (nt_role n),
            nt_client := sent_or (np_client p) (nt_client n), nt_master := sent_or (np_master p) (nt_master n),
            nt_title := sent_or (np_title p) (nt_title n), nt_body := sent_or (np_body p) (nt_body n),
            nt_data := sent_or (np_data p) (nt_data n), nt_read := sent_or (np_read p) (nt_read n)\<rparr>) (notifications db)\<rparr>)))"

definition DashboardNotification_destroy :: "row_id \<Rightarrow> notification_db \<Rightarrow> notification_db res" where
  "DashboardNotification_destroy pk db =
    bindE (get_or_404 ''Notification'' (get_row nt_id pk (notifications db))) (\<lambda>_.
      Inr (db\<lparr>notifications := del_row nt_id pk (notifications db)\<rparr>))"

definition DashboardNotificationList_get_queryset :: "query \<Rightarrow> notification_db \<Rightarrow> notification list" where
  "DashboardNotificationList_get_queryset q db =
    (let r0 = rev (notifications db);
         r1 = (if param q ''role'' = [] then r0 else filter (\<lambda>n. role_value (nt_role n) = param q ''role'') r0)
     in keep_if (bool_param (map_of q ''is_read'')) (\<lambda>b n. nt_read n = b) r1)"

definition DashboardNotificationUnreadCount_get :: "notification_db \<Rightarrow> nat" where
  "DashboardNotificationUnreadCount_get db = count_rows (\<lambda>n. \<not> nt_read n) (notifications db)"

definition DashboardNotificationRead_post :: "row_id \<Rightarrow> notification_db \<Rightarrow> notification_db res" where
  "DashboardNotificationRead_post pk db =
    bindE (get_or_404 ''Notification'' (get_row nt_id pk (notifications db))) (\<lambda>_.
      Inr (db\<lparr>notifications := upd_row nt_id pk (\<lambda>n. n\<lparr>nt_read := True\<rparr>) (notifications db)\<rparr>))"

definition DashboardNotificationReadAll_post :: "notification_db \<Rightarrow> notification_db" where
  "DashboardNotificationReadAll_post db =
    db\<lparr>notifications := map (\<lambda>n. if nt_read n then n else n\<lparr>nt_read := True\<rparr>) (notifications db)\<rparr>"

end
