(* ===== verification/Notification_Props.thy ===== *)
theory Notification_Props
  imports Notifications
begin

text \<open>
  Properties of notifications: who gets a push, what a rollback leaves, whose notifications a request
  marks as read.
\<close>

section \<open>Delivery\<close>

lemma send_push_tables [simp]:
  "notifications (send_push_notification ev n a db) = notifications db"
  "sent_events (send_push_notification ev n a db) = sent_events db"
  by (simp_all add: send_push_notification_def on_commit_def Let_def split: option.split)

lemma broadcast_keeps [simp]:
  "notifications (broadcast_notification ev n db) = notifications db" "pushes (broadcast_notification ev n db) = pushes db"
  "pending (broadcast_notification ev n db) = pending db"
  by (simp_all add: broadcast_notification_def split: option.split)

text \<open>The push a notification gives rise to, if any.\<close>

definition due_push :: "string \<Rightarrow> notification \<Rightarrow> accounts_db \<Rightarrow> push list" where
  "due_push ev n a =
    (if push_allowed n a \<and> push_tokens n a \<noteq> []
     then [\<lparr>pu_tokens = push_tokens n a, pu_title = nt_title n, pu_body = nt_body n, pu_data = push_payload ev n\<rparr>] else [])"

lemma send_push_effect:
  "pending db = None \<Longrightarrow> pushes (send_push_notification ev n a db) = pushes db @ due_push ev n a"
  "pending db = None \<Longrightarrow> pending (send_push_notification ev n a db) = None"
  "pending db = Some ps \<Longrightarrow> pushes (send_push_notification ev n a db) = pushes db"
  "pending db = Some ps \<Longrightarrow> pending (send_push_notification ev n a db) = Some (ps @ due_push ev n a)"
  by (auto simp: send_push_notification_def on_commit_def due_push_def Let_def)

text \<open>A run of notifications, as the views and signals of one request create them.\<close>

definition create_all :: "(string \<times> notice) list \<Rightarrow> accounts_db \<Rightarrow> notification_db \<Rightarrow> notification_db" where
  "create_all ns a db = fold (\<lambda>(ev, i) d. create_notification ev i a d) ns db"

definition due_all :: "(string \<times> notice) list \<Rightarrow> accounts_db \<Rightarrow> row_id \<Rightarrow> push list" where
  "due_all ns a k = concat (map (\<lambda>(ev, i). due_push ev (notification_of k i) a) ns)"

lemma create_all_effect:
  "notifications (create_all ns a db) = notifications db"
  "pending db = None \<Longrightarrow>
    pushes (create_all ns a db) = pushes db @ due_all ns a (fresh_id nt_id (notifications db)) \<and> pending (create_all ns a db) = None"
  "pending db = Some ps \<Longrightarrow>
    pushes (create_all ns a db) = pushes db \<and>
    pending (create_all ns a db) = Some (ps @ due_all ns a (fresh_id nt_id (notifications db)))"
  by (induction ns arbitrary: db ps)
    (auto simp: create_all_def due_all_def create_notification_def Let_def send_push_effect split: prod.splits)

text \<open>The account a notification is for, with both of its switches on.\<close>

definition both_switches_on :: "notification \<Rightarrow> accounts_db \<Rightarrow> bool" where
  "both_switches_on n a =
    (case nt_role n of
       ROLE_CLIENT \<Rightarrow> (\<exists>c \<in> set (clients a). nt_client n = Some (cl_id c) \<and> cl_notifications c \<and> cl_push c)
     | ROLE_MASTER \<Rightarrow> (\<exists>m \<in> set (masters a). nt_master n = Some (ms_id m) \<and> ms_notifications m \<and> ms_push m))"

lemma allowed_switches: "push_allowed n a \<Longrightarrow> both_switches_on n a"
  by (auto simp: push_allowed_def both_switches_on_def split: participant_role.splits option.splits bind_splits
      dest!: get_row_SomeD)

text \<open>C32: A notification pushes to phones only when its account has both switches on, and then to
  the active devices of that account only; nothing is stored. Within a transaction no push leaves
  before the commit: a rollback drops them all, a commit sends exactly those that autocommit would
  have sent, in the same order.\<close>

theorem push_follows_settings_and_commit:
  assumes "pending db = None"
  shows "pushes (rollback_transaction (notifications db) (create_all ns a (begin_transaction db))) = pushes db \<and>
    pushes (commit_transaction (create_all ns a (begin_transaction db))) = pushes (create_all ns a db) \<and>
    pushes (create_all ns a db) = pushes db @ due_all ns a (fresh_id nt_id (notifications db)) \<and>
    notifications (create_all ns a db) = notifications db \<and>
    (due_push ev n a \<noteq> [] \<longrightarrow> both_switches_on n a \<and>
      (\<forall>tk \<in> set (pu_tokens (hd (due_push ev n a))). \<exists>d \<in> set (fcm_devices a). fd_token d = tk \<and> fd_active d \<and>
         target_group n = (if fd_role d = RoleMaster then map_option PMaster (fd_master d) else map_option PClient (fd_client d))))"
proof -
  have "both_switches_on n a \<and> (\<forall>tk \<in> set (pu_tokens (hd (due_push ev n a))). \<exists>d \<in> set (fcm_devices a). fd_token d = tk \<and> fd_active d \<and>
         target_group n = (if fd_role d = RoleMaster then map_option PMaster (fd_master d) else map_option PClient (fd_client d)))"
    if "due_push ev n a \<noteq> []"
    using that allowed_switches [of n a]
    by (auto simp: due_push_def push_tokens_def device_matches_def target_group_def split: if_splits participant_role.splits)
  then show ?thesis
    using assms create_all_effect(1,2) [where ns = ns and a = a and db = db] create_all_effect(1,3) [where ns = ns and a = a and db = "begin_transaction db"]
    by (simp add: begin_transaction_def rollback_transaction_def commit_transaction_def)
qed

section \<open>Reading\<close>

lemma read_all_rows:
  "notifications (NotificationReadAll_patch user db) =
    map (\<lambda>n. if own_notification user n then n\<lparr>nt_read := True\<rparr> else n) (notifications db)"
  by (simp add: NotificationReadAll_patch_def broadcast_notification_read_all_def Let_def split: subject.split)

lemma own_read [simp]: "own_notification user (n\<lparr>nt_read := b\<rparr>) = own_notification user n"
  by (simp add: own_notification_def split: subject.split)

text \<open>Reading touches one's own notifications only. A request to read one of them marks it and tells
  the own sockets, nobody else's list changes; reading all of them leaves none unread and every other
  account's as they were. Reading a foreign or unknown one changes nothing, but answers with a server
  error instead of not found.\<close>

theorem reading_is_own:
  assumes "keys_distinct nt_id (notifications db)" and "\<not> (own_notification user n \<and> own_notification other n)"
    and "n \<in> set (notifications db)"
  shows "unread_notifications user (NotificationReadAll_patch user db) = 0 \<and>
    (own_notification other n \<longrightarrow> n \<in> set (NotificationList_get_queryset other (NotificationReadAll_patch user db))) \<and>
    (case NotificationRead_patch user (nt_id n) db of
       Inr db' \<Rightarrow> own_notification user n \<and> get_row nt_id (nt_id n) (notifications db') = Some (n\<lparr>nt_read := True\<rparr>) \<and>
         (\<forall>k. k \<noteq> nt_id n \<longrightarrow> get_row nt_id k (notifications db') = get_row nt_id k (notifications db))
     | Inl er \<Rightarrow> \<not> own_notification user n \<and> http_status er = 500)"
proof -
  have row: "get_row nt_id (nt_id n) (notifications db) = Some n" by (rule get_row_unique [OF assms(1,3)])
  have filt: "get_row nt_id (nt_id n) (filter (own_notification user) (notifications db)) = (if own_notification user n then Some n else None)"
  proof (cases "own_notification user n")
    case True
    then show ?thesis using get_row_filter_iff [OF assms(1), of "nt_id n" "own_notification user" n] row by simp
  next
    case False
    then show ?thesis
      using get_row_filter [OF assms(1), of "nt_id n" "own_notification user"] row
      by (cases "get_row nt_id (nt_id n) (filter (own_notification user) (notifications db))") auto
  qed
  have "unread_notifications user (NotificationReadAll_patch user db) = 0"
    by (auto simp: unread_notifications_def count_rows_def read_all_rows filter_empty_conv)
  moreover have "n \<in> set (NotificationList_get_queryset other (NotificationReadAll_patch user db))" if "own_notification other n"
    using that assms(2,3) by (auto simp: NotificationList_get_queryset_def read_all_rows image_iff intro!: bexI [of _ n])
  moreover have "case NotificationRead_patch user (nt_id n) db of
       Inr db' \<Rightarrow> own_notification user n \<and> get_row nt_id (nt_id n) (notifications db') = Some (n\<lparr>nt_read := True\<rparr>) \<and>
         (\<forall>k. k \<noteq> nt_id n \<longrightarrow> get_row nt_id k (notifications db') = get_row nt_id k (notifications db))
     | Inl er \<Rightarrow> \<not> own_notification user n \<and> http_status er = 500"
    using filt row by (auto simp: NotificationRead_patch_def Let_def get_row_replace)
  ultimately show ?thesis by blast
qed

text \<open>The bell of the dashboard: reading everything silences it.\<close>

lemma dashboard_read_all: "DashboardNotificationUnreadCount_get (DashboardNotificationReadAll_post db) = 0"
  by (auto simp: DashboardNotificationUnreadCount_get_def DashboardNotificationReadAll_post_def count_rows_def filter_empty_conv)

text \<open>What the dashboard creates has a target; an edit can take it away.\<close>

lemma created_has_target:
  "DashboardNotification_perform_create i rd a db = Inr (db', n) \<Longrightarrow> target_group n \<noteq> None"
  by (auto simp: DashboardNotification_perform_create_def validate_target_def target_group_def notification_of_def Let_def
      split: if_splits participant_role.splits)

section \<open>Example\<close>

definition reachable_client :: client where
  "reachable_client = (new_client 4 ''+998901112233'')\<lparr>cl_notifications := True, cl_push := True\<rparr>"

definition phone_accounts :: accounts_db where
  "phone_accounts = empty_accounts\<lparr>clients := [reachable_client],
     fcm_devices := [\<lparr>fd_id = 1, fd_role = RoleClient, fd_client = Some 4, fd_master = None, fd_token = ''tok'', fd_platform = [], fd_active = True\<rparr>]\<rparr>"

definition arrived_notice :: notice where
  "arrived_notice = \<lparr>nc_role = ROLE_CLIENT, nc_client = Some 4, nc_master = None, nc_title = ''Usta yetib keldi'', nc_body = [], nc_data = []\<rparr>"

theorem push_follows_settings_and_commit_witness:
  "map pu_tokens (pushes (commit_transaction (create_all [(''order.status'', arrived_notice)] phone_accounts (begin_transaction empty_notifications))))
     = [[''tok'']] \<and>
   pushes (rollback_transaction [] (create_all [(''order.status'', arrived_notice)] phone_accounts (begin_transaction empty_notifications))) = []"
proof -
  have none: "pending empty_notifications = None" "pushes empty_notifications = []" "notifications empty_notifications = []"
    by (simp_all add: empty_notifications_def)
  have c: "cl_id reachable_client = 4" "cl_notifications reachable_client" "cl_push reachable_client"
    by (simp_all add: reachable_client_def new_client_def)
  have "map pu_tokens (due_all [(''order.status'', arrived_notice)] phone_accounts k) = [[''tok'']]" for k
    by (simp add: due_all_def due_push_def push_allowed_def push_tokens_def device_matches_def notification_of_def arrived_notice_def
        phone_accounts_def c)
  with push_follows_settings_and_commit [OF none(1), of "[(''order.status'', arrived_notice)]" phone_accounts] none(2,3)
  show ?thesis by simp
qed

definition two_notifications :: notification_db where
  "two_notifications = empty_notifications\<lparr>notifications := [notification_of 1 arrived_notice, notification_of 2 (arrived_notice\<lparr>nc_client := Some 5\<rparr>)]\<rparr>"

theorem reading_is_own_witness:
  "\<exists>er. NotificationRead_patch (ClientSubject reachable_client) 2 two_notifications = Inl er \<and> http_status er = 500 \<and>
     unread_notifications (ClientSubject reachable_client) (NotificationReadAll_patch (ClientSubject reachable_client) two_notifications) = 0"
proof -
  let ?n = "notification_of 2 (arrived_notice\<lparr>nc_client := Some 5\<rparr>)" and ?u = "ClientSubject reachable_client"
  have "keys_distinct nt_id (notifications two_notifications)" "?n \<in> set (notifications two_notifications)"
    by (simp_all add: two_notifications_def notification_of_def keys_distinct_def)
  moreover have foreign: "\<not> own_notification ?u ?n"
    by (simp add: own_notification_def notification_of_def arrived_notice_def reachable_client_def new_client_def)
  moreover have "nt_id ?n = 2" by (simp add: notification_of_def)
  ultimately show ?thesis
    using reading_is_own [of two_notifications ?u ?n ?u]
    by (cases "NotificationRead_patch ?u 2 two_notifications") auto
qed

end
