(* ===== verification/Catalog.thy ===== *)
theory Catalog
  imports Market Payme_Model
begin

text \<open>
  The catalog of services and tariffs: \<open>src/apps/services/\<close>, the service and tariff pages of
  \<open>src/apps/dashboard/\<close> and those of \<open>src/apps/internal_api/\<close>.

  \<^item> State: \<open>catalog_db\<close> holds categories, price variants and the features of tariffs; services and
    tariffs are the tables of the system in \<open>core\<close>, where orders and subscriptions refer to them.
  \<^item> Texts arrive trimmed, and numbers that the serializers require not to be negative arrive as
    \<^typ>\<open>nat\<close>: what the framework's fields refuse before is not in the model. Icons are left out.
  \<^item> \<open>uuid\<close> reads a UUID and gives the key it stands for. Rows that compare equal in the numeric
    part of an ordering are in the order of the table.
\<close>

section \<open>Tables\<close>

record service_category =
  sc_id :: row_id
  sc_name :: string
  sc_slug :: string
  sc_active :: bool
  sc_sort_order :: nat

record service_price =
  spr_id :: row_id
  spr_service :: row_id
  spr_title :: string
  spr_price :: money
  spr_unit :: string
  spr_active :: bool

record tariff_feature =
  tff_id :: row_id
  tff_tariff :: row_id
  tff_title :: string
  tff_sort_order :: nat

record catalog_db =
  service_categories :: "service_category list"
  service_prices :: "service_price list"
  tariff_features :: "tariff_feature list"
  core :: sys

definition services_of :: "row_id \<Rightarrow> catalog_db \<Rightarrow> service list" where
  "services_of cid db = filter (\<lambda>v. sv_category v = cid) (catalog (core db))"

definition prices_of :: "row_id \<Rightarrow> catalog_db \<Rightarrow> service_price list" where
  "prices_of sid db = filter (\<lambda>p. spr_service p = sid) (service_prices db)"

definition tariff_table :: "catalog_db \<Rightarrow> tariff list" where
  "tariff_table db = tariffs (profiles (core db))"

definition set_catalog :: "service list \<Rightarrow> catalog_db \<Rightarrow> catalog_db" where
  "set_catalog rows db = db\<lparr>core := (core db)\<lparr>catalog := rows\<rparr>\<rparr>"

definition set_tariffs :: "tariff list \<Rightarrow> catalog_db \<Rightarrow> catalog_db" where
  "set_tariffs rows db = db\<lparr>core := (core db)\<lparr>profiles := (profiles (core db))\<lparr>tariffs := rows\<rparr>\<rparr>\<rparr>"

section \<open>What clients see\<close>

text \<open>The nested serializers: the services of a category, the price variants of a service. None of
  them looks at \<open>is_active\<close>.\<close>

definition service_data :: "catalog_db \<Rightarrow> service \<Rightarrow> service \<times> service_price list" where
  "service_data db v = (v, prices_of (sv_id v) db)"

definition category_data :: "catalog_db \<Rightarrow> service_category \<Rightarrow> service_category \<times> (service \<times> service_price list) list" where
  "category_data db c = (c, map (service_data db) (services_of (sc_id c) db))"

definition ServiceCategoryList_get_queryset ::
  "(string \<Rightarrow> row_id option) \<Rightarrow> query \<Rightarrow> catalog_db \<Rightarrow> service_category list" where
  "ServiceCategoryList_get_queryset uuid q db =
    (let rows = sort_key sc_sort_order (filter sc_active (service_categories db));
         found = filter_by_category uuid q sc_id sc_slug rows;
         v = param q ''search''
     in if v = [] then found else filter (\<lambda>c. icontains (sc_name c) v \<or> icontains (sc_slug c) v) found)"

definition ServiceCategoryList_get where
  "ServiceCategoryList_get uuid q db = map (category_data db) (ServiceCategoryList_get_queryset uuid q db)"

definition ServicePriceView_get :: "row_id \<Rightarrow> catalog_db \<Rightarrow> (service \<times> service_price list) res" where
  "ServicePriceView_get pk db =
    bindE (get_or_404 ''Service'' (get_row sv_id pk (filter sv_active (catalog (core db))))) (\<lambda>v.
      Inr (service_data db v))"

section \<open>Categories\<close>

definition slug_char :: "char \<Rightarrow> bool" where
  "slug_char c = (ascii_digit c \<or> (65 \<le> byte c \<and> byte c \<le> 90) \<or> (97 \<le> byte c \<and> byte c \<le> 122) \<or> c \<in> {CHR ''-'', CHR ''_''})"

definition slug_taken :: "row_id option \<Rightarrow> string \<Rightarrow> catalog_db \<Rightarrow> bool" where
  "slug_taken self v db = list_ex (\<lambda>c. sc_slug c = v \<and> Some (sc_id c) \<noteq> self) (service_categories db)"

definition validate_slug :: "row_id option \<Rightarrow> string \<Rightarrow> catalog_db \<Rightarrow> unit res" where
  "validate_slug self v db =
    (if v = [] \<or> \<not> list_all slug_char v then Inl (ValidationError ''Enter a valid slug consisting of letters, numbers, underscores or hyphens.'')
     else guardE (\<not> slug_taken self v db) (ValidationError ''service category with this slug already exists.''))"

record category_patch =
  scp_name :: "string option"
  scp_slug :: "string option"
  scp_active :: "bool option"
  scp_sort_order :: "nat option"

definition apply_category_patch :: "category_patch \<Rightarrow> service_category \<Rightarrow> service_category" where
  "apply_category_patch p c =
    c\<lparr>sc_name := sent_or (scp_name p) (sc_name c), sc_slug := sent_or (scp_slug p) (sc_slug c),
      sc_active := sent_or (scp_active p) (sc_active c), sc_sort_order := sent_or (scp_sort_order p) (sc_sort_order c)\<rparr>"

definition validate_category :: "row_id option \<Rightarrow> category_patch \<Rightarrow> catalog_db \<Rightarrow> unit res" where
  "validate_category self p db =
    (if scp_name p = Some [] then Inl (ValidationError ''This field may not be blank.'')
     else case scp_slug p of None \<Rightarrow> Inr () | Some v \<Rightarrow> validate_slug self v db)"

text \<open>The database refuses a second row with the same slug.\<close>

definition insert_category :: "category_patch \<Rightarrow> catalog_db \<Rightarrow> (catalog_db \<times> service_category) res" where
  "insert_category p db =
    (let c = apply_category_patch p \<lparr>sc_id = fresh_id sc_id (service_categories db), sc_name = [], sc_slug = [],
               sc_active = True, sc_sort_order = 0\<rparr>
     in if slug_taken None (sc_slug c) db then Inl (IntegrityError ''services_servicecategory.slug'')
        else Inr (db\<lparr>service_categories := add_row c (service_categories db)\<rparr>, c))"

definition update_category :: "row_id \<Rightarrow> category_patch \<Rightarrow> service_category \<Rightarrow> catalog_db \<Rightarrow> (catalog_db \<times> service_category) res" where
  "update_category pk p c db =
    (let c1 = apply_category_patch p c
     in if slug_taken (Some pk) (sc_slug c1) db then Inl (IntegrityError ''services_servicecategory.slug'')
        else Inr (db\<lparr>service_categories := upd_row sc_id pk (\<lambda>_. c1) (service_categories db)\<rparr>, c1))"

definition DashboardServiceCategory_create :: "category_patch \<Rightarrow> catalog_db \<Rightarrow> (catalog_db \<times> service_category) res" where
  "DashboardServiceCategory_create p db =
    bindE (validate_category None p db) (\<lambda>_.
      bindE (guardE (scp_name p \<noteq> None \<and> scp_slug p \<noteq> None) (ValidationError ''This field is required.'')) (\<lambda>_.
        insert_category p db))"

definition DashboardServiceCategory_update :: "row_id \<Rightarrow> category_patch \<Rightarrow> catalog_db \<Rightarrow> (catalog_db \<times> service_category) res" where
  "DashboardServiceCategory_update pk p db =
    bindE (get_or_404 ''ServiceCategory'' (get_row sc_id pk (service_categories db))) (\<lambda>c.
      bindE (validate_category (Some pk) p db) (\<lambda>_. update_category pk p c db))"

text \<open>The services of a deleted category go with it, their price variants too; services that orders
  refer to are protected.\<close>

definition has_orders :: "row_id \<Rightarrow> catalog_db \<Rightarrow> bool" where
  "has_orders sid db = list_ex (\<lambda>ord. o_service ord = sid) (orders (core db))"

definition delete_services :: "row_id list \<Rightarrow> catalog_db \<Rightarrow> catalog_db res" where
  "delete_services ids db =
    (if list_ex (\<lambda>sid. has_orders sid db) ids then Inl (ServerError ''ProtectedError'')
     else Inr (set_catalog (filter (\<lambda>v. sv_id v \<notin> set ids) (catalog (core db)))
            (db\<lparr>service_prices := filter (\<lambda>p. spr_service p \<notin> set ids) (service_prices db)\<rparr>)))"

definition DashboardServiceCategory_destroy :: "row_id \<Rightarrow> catalog_db \<Rightarrow> catalog_db res" where
  "DashboardServiceCategory_destroy pk db =
    bindE (get_or_404 ''ServiceCategory'' (get_row sc_id pk (service_categories db))) (\<lambda>_.
      bindE (delete_services (map sv_id (services_of pk db)) db) (\<lambda>db1.
        Inr (db1\<lparr>service_categories := del_row sc_id pk (service_categories db1)\<rparr>)))"

text \<open>The internal API: a request without a slug gets the name in small letters with hyphens for
  blanks, after the checks of the fields, in updates as well as in creations.\<close>

definition hyphenate :: "string \<Rightarrow> string" where
  "hyphenate v = map (\<lambda>c. if c = CHR '' '' then CHR ''-'' else c) (lower v)"

definition InternalCategory_validate :: "category_patch \<Rightarrow> category_patch" where
  "InternalCategory_validate p =
    (case (scp_slug p, scp_name p) of
       (None, Some n) \<Rightarrow> p\<lparr>scp_slug := Some (hyphenate n)\<rparr>
     | _ \<Rightarrow> p)"

definition InternalCategory_create :: "category_patch \<Rightarrow> catalog_db \<Rightarrow> (catalog_db \<times> service_category) res" where
  "InternalCategory_create p db =
    bindE (validate_category None p db) (\<lambda>_.
      bindE (guardE (scp_name p \<noteq> None) (ValidationError ''This field is required.'')) (\<lambda>_.
        insert_category (InternalCategory_validate p) db))"

definition InternalCategory_update :: "row_id \<Rightarrow> category_patch \<Rightarrow> catalog_db \<Rightarrow> (catalog_db \<times> service_category) res" where
  "InternalCategory_update pk p db =
    bindE (get_or_404 ''ServiceCategory'' (get_row sc_id pk (service_categories db))) (\<lambda>c.
      bindE (validate_category (Some pk) p db) (\<lambda>_. update_category pk (InternalCategory_validate p) c db))"

definition ServiceCategoryToggle_patch :: "row_id \<Rightarrow> (string \<times> json) list \<Rightarrow> catalog_db \<Rightarrow> catalog_db res" where
  "ServiceCategoryToggle_patch pk data db =
    bindE (get_or_404 ''ServiceCategory'' (get_row sc_id pk (service_categories db))) (\<lambda>c.
      Inr (db\<lparr>service_categories := upd_row sc_id pk (\<lambda>_. c\<lparr>sc_active := truthy (json_get data ''is_active'')\<rparr>) (service_categories db)\<rparr>))"

definition get_services_count :: "catalog_db \<Rightarrow> service_category \<Rightarrow> nat" where
  "get_services_count db c = length (services_of (sc_id c) db)"

definition get_base_tariff :: "catalog_db \<Rightarrow> service_category \<Rightarrow> money" where
  "get_base_tariff db c =
    (case sort (map base_price (filter sv_active (services_of (sc_id c) db))) of [] \<Rightarrow> 0 | p # _ \<Rightarrow> p)"

section \<open>Services\<close>

record service_patch =
  svp_category :: "row_id option"
  svp_name :: "string option"
  svp_description :: "string option"
  svp_price :: "money option"
  svp_active :: "bool option"

definition apply_service_patch :: "service_patch \<Rightarrow> service \<Rightarrow> service" where
  "apply_service_patch p v =
    v\<lparr>sv_category := sent_or (svp_category p) (sv_category v), sv_name := sent_or (svp_name p) (sv_name v),
      sv_description := sent_or (svp_description p) (sv_description v), base_price := sent_or (svp_price p) (base_price v),
      sv_active := sent_or (svp_active p) (sv_active v)\<rparr>"

definition category_exists :: "row_id option \<Rightarrow> catalog_db \<Rightarrow> bool" where
  "category_exists cid db = (case cid of None \<Rightarrow> True | Some k \<Rightarrow> get_row sc_id k (service_categories db) \<noteq> None)"

definition validate_service :: "service_patch \<Rightarrow> catalog_db \<Rightarrow> unit res" where
  "validate_service p db =
    (if svp_name p = Some [] then Inl (ValidationError ''This field may not be blank.'')
     else guardE (category_exists (svp_category p) db) (ValidationError ''Invalid pk - object does not exist.''))"

definition insert_service :: "service_patch \<Rightarrow> catalog_db \<Rightarrow> catalog_db \<times> service" where
  "insert_service p db =
    (let v = apply_service_patch p \<lparr>sv_id = fresh_id sv_id (catalog (core db)), sv_category = 0, sv_name = [], sv_description = [],
               base_price = 0, sv_mxik = [], sv_package_code = [], sv_vat_percent = 12, sv_active = True\<rparr>
     in (set_catalog (add_row v (catalog (core db))) db, v))"

definition DashboardService_create :: "service_patch \<Rightarrow> catalog_db \<Rightarrow> (catalog_db \<times> service) res" where
  "DashboardService_create p db =
    bindE (validate_service p db) (\<lambda>_.
      bindE (guardE (svp_name p \<noteq> None \<and> svp_category p \<noteq> None) (ValidationError ''This field is required.'')) (\<lambda>_.
        Inr (insert_service p db)))"

definition DashboardService_update :: "row_id \<Rightarrow> service_patch \<Rightarrow> catalog_db \<Rightarrow> catalog_db res" where
  "DashboardService_update pk p db =
    bindE (get_or_404 ''Service'' (get_row sv_id pk (catalog (core db)))) (\<lambda>v.
      bindE (validate_service p db) (\<lambda>_.
        Inr (set_catalog (upd_row sv_id pk (\<lambda>_. apply_service_patch p v) (catalog (core db))) db)))"

definition DashboardService_destroy :: "row_id \<Rightarrow> catalog_db \<Rightarrow> catalog_db res" where
  "DashboardService_destroy pk db =
    bindE (get_or_404 ''Service'' (get_row sv_id pk (catalog (core db)))) (\<lambda>_. delete_services [pk] db)"

text \<open>The internal serializer accepts the category under two names and requires neither: without one
  the row violates the column's constraint. When both come, \<open>category_id\<close> is the one that stays.\<close>

definition internal_category :: "row_id option \<Rightarrow> row_id option \<Rightarrow> row_id option" where
  "internal_category category category_id = (case category_id of None \<Rightarrow> category | Some k \<Rightarrow> Some k)"

definition InternalService_create :: "row_id option \<Rightarrow> service_patch \<Rightarrow> catalog_db \<Rightarrow> (catalog_db \<times> service) res" where
  "InternalService_create category_id p db =
    bindE (validate_service p db) (\<lambda>_.
      bindE (guardE (category_exists category_id db) (ValidationError ''Invalid pk - object does not exist.'')) (\<lambda>_.
        bindE (guardE (svp_name p \<noteq> None) (ValidationError ''This field is required.'')) (\<lambda>_.
          let p1 = p\<lparr>svp_category := internal_category (svp_category p) category_id\<rparr>
          in if svp_category p1 = None then Inl (IntegrityError ''services_service.category_id'')
             else Inr (insert_service p1 db))))"

definition InternalService_update :: "row_id \<Rightarrow> row_id option \<Rightarrow> service_patch \<Rightarrow> catalog_db \<Rightarrow> catalog_db res" where
  "InternalService_update pk category_id p db =
    bindE (get_or_404 ''Service'' (get_row sv_id pk (catalog (core db)))) (\<lambda>v.
      bindE (validate_service p db) (\<lambda>_.
        bindE (guardE (category_exists category_id db) (ValidationError ''Invalid pk - object does not exist.'')) (\<lambda>_.
          Inr (set_catalog (upd_row sv_id pk
                (\<lambda>_. apply_service_patch (p\<lparr>svp_category := internal_category (svp_category p) category_id\<rparr>) v)
                (catalog (core db))) db))))"

section \<open>Price variants\<close>

record price_patch =
  prp_title :: "string option"
  prp_price :: "money option"
  prp_unit :: "string option"
  prp_active :: "bool option"

definition apply_price_patch :: "price_patch \<Rightarrow> service_price \<Rightarrow> service_price" where
  "apply_price_patch p r =
    r\<lparr>spr_title := sent_or (prp_title p) (spr_title r), spr_price := sent_or (prp_price p) (spr_price r),
      spr_unit := sent_or (prp_unit p) (spr_unit r), spr_active := sent_or (prp_active p) (spr_active r)\<rparr>"

definition DashboardServicePrice_get_queryset :: "row_id \<Rightarrow> catalog_db \<Rightarrow> service_price list" where
  "DashboardServicePrice_get_queryset sid db = prices_of sid db"

definition DashboardServicePrice_create :: "row_id \<Rightarrow> price_patch \<Rightarrow> catalog_db \<Rightarrow> catalog_db res" where
  "DashboardServicePrice_create sid p db =
    bindE (guardE (prp_title p \<noteq> None \<and> prp_title p \<noteq> Some [] \<and> prp_price p \<noteq> None) (ValidationError ''This field is required.'')) (\<lambda>_.
      bindE (get_or_404 ''Service'' (get_row sv_id sid (catalog (core db)))) (\<lambda>_.
        Inr (db\<lparr>service_prices := add_row (apply_price_patch p
               \<lparr>spr_id = fresh_id spr_id (service_prices db), spr_service = sid, spr_title = [], spr_price = 0, spr_unit = [], spr_active = True\<rparr>)
             (service_prices db)\<rparr>)))"

definition DashboardServicePrice_update :: "row_id \<Rightarrow> price_patch \<Rightarrow> catalog_db \<Rightarrow> catalog_db res" where
  "DashboardServicePrice_update pk p db =
    bindE (get_or_404 ''ServicePrice'' (get_row spr_id pk (service_prices db))) (\<lambda>r.
      bindE (guardE (prp_title p \<noteq> Some []) (ValidationError ''This field may not be blank.'')) (\<lambda>_.
        Inr (db\<lparr>service_prices := upd_row spr_id pk (\<lambda>_. apply_price_patch p r) (service_prices db)\<rparr>)))"

definition DashboardServicePrice_destroy :: "row_id \<Rightarrow> catalog_db \<Rightarrow> catalog_db res" where
  "DashboardServicePrice_destroy pk db =
    bindE (get_or_404 ''ServicePrice'' (get_row spr_id pk (service_prices db))) (\<lambda>_.
      Inr (db\<lparr>service_prices := del_row spr_id pk (service_prices db)\<rparr>))"

section \<open>Tariffs\<close>

record tariff_patch =
  tfp_name :: "string option"
  tfp_price :: "money option"
  tfp_duration :: "nat option"
  tfp_popular :: "bool option"
  tfp_active :: "bool option"
  tfp_sort_order :: "nat option"

definition apply_tariff_patch :: "tariff_patch \<Rightarrow> tariff \<Rightarrow> tariff" where
  "apply_tariff_patch p t =
    t\<lparr>tf_name := sent_or (tfp_name p) (tf_name t), tf_price := sent_or (tfp_price p) (tf_price t),
      duration_days := sent_or (tfp_duration p) (duration_days t), tf_popular := sent_or (tfp_popular p) (tf_popular t),
      tf_active := sent_or (tfp_active p) (tf_active t), tf_sort_order := sent_or (tfp_sort_order p) (tf_sort_order t)\<rparr>"

definition insert_tariff :: "tariff_patch \<Rightarrow> catalog_db \<Rightarrow> (catalog_db \<times> tariff) res" where
  "insert_tariff p db =
    bindE (guardE (tfp_name p \<noteq> None \<and> tfp_name p \<noteq> Some [] \<and> tfp_price p \<noteq> None) (ValidationError ''This field is required.'')) (\<lambda>_.
      let t = apply_tariff_patch p \<lparr>tf_id = fresh_id tf_id (tariff_table db), tf_name = [], tf_price = 0, duration_days = 30,
                tf_popular = False, tf_active = True, tf_sort_order = 0\<rparr>
      in Inr (set_tariffs (add_row t (tariff_table db)) db, t))"

definition update_tariff :: "row_id \<Rightarrow> tariff_patch \<Rightarrow> catalog_db \<Rightarrow> (catalog_db \<times> tariff) res" where
  "update_tariff pk p db =
    bindE (get_or_404 ''Tariff'' (get_row tf_id pk (tariff_table db))) (\<lambda>t.
      bindE (guardE (tfp_name p \<noteq> Some []) (ValidationError ''This field may not be blank.'')) (\<lambda>_.
        Inr (set_tariffs (upd_row tf_id pk (\<lambda>_. apply_tariff_patch p t) (tariff_table db)) db, apply_tariff_patch p t)))"

definition DashboardTariff_create :: "tariff_patch \<Rightarrow> catalog_db \<Rightarrow> (catalog_db \<times> tariff) res" where
  "DashboardTariff_create p db = insert_tariff p db"

definition DashboardTariff_update :: "row_id \<Rightarrow> tariff_patch \<Rightarrow> catalog_db \<Rightarrow> (catalog_db \<times> tariff) res" where
  "DashboardTariff_update pk p db = update_tariff pk p db"

text \<open>The features of a deleted tariff go with it; the clients who had it stay without a tariff, their
  date of expiry stays.\<close>

definition drop_tariff :: "row_id \<Rightarrow> subscription \<Rightarrow> subscription" where
  "drop_tariff pk b = (if current_tariff b = Some pk then b\<lparr>current_tariff := None\<rparr> else b)"

definition Tariff_destroy :: "row_id \<Rightarrow> catalog_db \<Rightarrow> catalog_db res" where
  "Tariff_destroy pk db =
    bindE (get_or_404 ''Tariff'' (get_row tf_id pk (tariff_table db))) (\<lambda>_.
      let pdb = profiles (core db);
          pdb1 = pdb\<lparr>tariffs := del_row tf_id pk (tariffs pdb), subscriptions := map (drop_tariff pk) (subscriptions pdb)\<rparr>
      in Inr (db\<lparr>tariff_features := filter (\<lambda>f. tff_tariff f \<noteq> pk) (tariff_features db), core := (core db)\<lparr>profiles := pdb1\<rparr>\<rparr>))"

definition features_of :: "row_id \<Rightarrow> catalog_db \<Rightarrow> tariff_feature list" where
  "features_of tid db =
    sort_key tff_sort_order (sort_key tff_id (filter (\<lambda>f. tff_tariff f = tid) (tariff_features db)))"

record feature_patch =
  ftp_title :: "string option"
  ftp_sort_order :: "nat option"

definition apply_feature_patch :: "feature_patch \<Rightarrow> tariff_feature \<Rightarrow> tariff_feature" where
  "apply_feature_patch p f =
    f\<lparr>tff_title := sent_or (ftp_title p) (tff_title f), tff_sort_order := sent_or (ftp_sort_order p) (tff_sort_order f)\<rparr>"

definition add_feature :: "row_id \<Rightarrow> string \<times> nat \<Rightarrow> tariff_feature list \<Rightarrow> tariff_feature list" where
  "add_feature tid x rows =
    add_row \<lparr>tff_id = fresh_id tff_id rows, tff_tariff = tid, tff_title = fst x, tff_sort_order = snd x\<rparr> rows"

definition DashboardTariffFeature_create :: "row_id \<Rightarrow> feature_patch \<Rightarrow> catalog_db \<Rightarrow> catalog_db res" where
  "DashboardTariffFeature_create tid p db =
    bindE (guardE (ftp_title p \<noteq> None \<and> ftp_title p \<noteq> Some []) (ValidationError ''This field is required.'')) (\<lambda>_.
      bindE (get_or_404 ''Tariff'' (get_row tf_id tid (tariff_table db))) (\<lambda>_.
        Inr (db\<lparr>tariff_features := add_feature tid (sent_or (ftp_title p) [], sent_or (ftp_sort_order p) 0) (tariff_features db)\<rparr>)))"

definition DashboardTariffFeature_update :: "row_id \<Rightarrow> feature_patch \<Rightarrow> catalog_db \<Rightarrow> catalog_db res" where
  "DashboardTariffFeature_update pk p db =
    bindE (get_or_404 ''TariffFeature'' (get_row tff_id pk (tariff_features db))) (\<lambda>f.
      bindE (guardE (ftp_title p \<noteq> Some []) (ValidationError ''This field may not be blank.'')) (\<lambda>_.
        Inr (db\<lparr>tariff_features := upd_row tff_id pk (\<lambda>_. apply_feature_patch p f) (tariff_features db)\<rparr>)))"

definition DashboardTariffFeature_destroy :: "row_id \<Rightarrow> catalog_db \<Rightarrow> catalog_db res" where
  "DashboardTariffFeature_destroy pk db =
    bindE (get_or_404 ''TariffFeature'' (get_row tff_id pk (tariff_features db))) (\<lambda>_.
      Inr (db\<lparr>tariff_features := del_row tff_id pk (tariff_features db)\<rparr>))"

text \<open>The internal API speaks of a period instead of days and replaces all features at once.\<close>

datatype tariff_period = Monthly | Yearly

definition InternalTariff_validate :: "tariff_period option \<Rightarrow> tariff_patch \<Rightarrow> tariff_patch" where
  "InternalTariff_validate period p =
    (case (period, tfp_duration p) of
       (Some pd, None) \<Rightarrow> p\<lparr>tfp_duration := Some (if pd = Yearly then 365 else 30)\<rparr>
     | _ \<Rightarrow> p)"

definition save_features :: "row_id \<Rightarrow> string list option \<Rightarrow> catalog_db \<Rightarrow> catalog_db" where
  "save_features tid features db =
    (case features of
       None \<Rightarrow> db
     | Some titles \<Rightarrow>
         let kept = filter (\<lambda>f. tff_tariff f \<noteq> tid) (tariff_features db)
         in db\<lparr>tariff_features := fold (add_feature tid) (zip titles [0..<length titles]) kept\<rparr>)"

definition validate_features :: "string list option \<Rightarrow> unit res" where
  "validate_features features =
    guardE (case features of None \<Rightarrow> True | Some titles \<Rightarrow> [] \<notin> set titles) (ValidationError ''This field may not be blank.'')"

definition InternalTariff_create ::
  "tariff_period option \<Rightarrow> string list option \<Rightarrow> tariff_patch \<Rightarrow> catalog_db \<Rightarrow> (catalog_db \<times> tariff) res" where
  "InternalTariff_create period features p db =
    bindE (validate_features features) (\<lambda>_.
      bindE (insert_tariff (InternalTariff_validate period p) db) (\<lambda>(db1, t).
        Inr (save_features (tf_id t) features db1, t)))"

definition InternalTariff_update ::
  "row_id \<Rightarrow> tariff_period option \<Rightarrow> string list option \<Rightarrow> tariff_patch \<Rightarrow> catalog_db \<Rightarrow> (catalog_db \<times> tariff) res" where
  "InternalTariff_update pk period features p db =
    bindE (get_or_404 ''Tariff'' (get_row tf_id pk (tariff_table db))) (\<lambda>_.
      bindE (validate_features features) (\<lambda>_.
        bindE (update_tariff pk (InternalTariff_validate period p) db) (\<lambda>(db1, t).
          Inr (save_features (tf_id t) features db1, t))))"

definition get_period :: "tariff \<Rightarrow> tariff_period" where
  "get_period t = (if duration_days t \<ge> 365 then Yearly else Monthly)"

definition get_features :: "tariff \<Rightarrow> catalog_db \<Rightarrow> string list" where
  "get_features t db = map tff_title (features_of (tf_id t) db)"

definition get_clients_count :: "tariff \<Rightarrow> catalog_db \<Rightarrow> nat" where
  "get_clients_count t db = count_rows (\<lambda>b. current_tariff b = Some (tf_id t)) (subscriptions (profiles (core db)))"

text \<open>The endpoint that subscribes through the internal API names the tariff and stores nothing.\<close>

definition SubscribeTariff_post :: "(string \<Rightarrow> row_id option) \<Rightarrow> query \<Rightarrow> catalog_db \<Rightarrow> tariff res" where
  "SubscribeTariff_post uuid data db =
    (let v = or_param data [''tariff'', ''tariff_id'']
     in if v = [] then Inl (NotFound ''Tariff'')
        else case uuid v of
          None \<Rightarrow> Inl (ServerError ''ValidationError'')
        | Some k \<Rightarrow> get_or_404 ''Tariff'' (get_row tf_id k (tariff_table db)))"

section \<open>Lists\<close>

definition by_sort_order :: "tariff list \<Rightarrow> tariff list" where
  "by_sort_order ts = sort_key tf_sort_order (sort_key tf_price ts)"

definition CurrentTariff_get :: "catalog_db \<Rightarrow> tariff option" where
  "CurrentTariff_get db = (case by_sort_order (filter tf_active (tariff_table db)) of [] \<Rightarrow> None | t # _ \<Rightarrow> Some t)"

definition true_false :: "string \<Rightarrow> bool option" where
  "true_false v = (if v \<in> {''true'', ''false''} then Some (v = ''true'') else None)"

definition DashboardTariff_get_queryset :: "query \<Rightarrow> catalog_db \<Rightarrow> tariff list" where
  "DashboardTariff_get_queryset q db =
    by_sort_order (keep_if (bool_param (map_of q ''is_active'')) (\<lambda>b t. tf_active t = b) (tariff_table db))"

definition TariffCollection_get_queryset :: "query \<Rightarrow> catalog_db \<Rightarrow> tariff list" where
  "TariffCollection_get_queryset q db =
    (let r0 = keep_if (true_false (param q ''is_active'')) (\<lambda>b t. tf_active t = b) (tariff_table db);
         r1 = (if param q ''period'' = ''monthly'' then filter (\<lambda>t. duration_days t < 365) r0 else r0);
         r2 = (if param q ''period'' = ''yearly'' then filter (\<lambda>t. duration_days t \<ge> 365) r1 else r1)
     in by_sort_order r2)"

record tariff_meta =
  tm_monthly :: nat
  tm_yearly :: nat
  tm_active :: nat
  tm_inactive :: nat

definition TariffMeta_get :: "catalog_db \<Rightarrow> tariff_meta" where
  "TariffMeta_get db =
    \<lparr>tm_monthly = count_rows (\<lambda>t. duration_days t < 365) (tariff_table db), tm_yearly = count_rows (\<lambda>t. duration_days t \<ge> 365) (tariff_table db),
     tm_active = count_rows tf_active (tariff_table db), tm_inactive = count_rows (\<lambda>t. \<not> tf_active t) (tariff_table db)\<rparr>"

definition category_matches :: "string \<Rightarrow> service_category \<Rightarrow> bool" where
  "category_matches v c = (icontains (sc_name c) v \<or> icontains (sc_slug c) v)"

definition DashboardServiceCategory_get_queryset :: "query \<Rightarrow> catalog_db \<Rightarrow> service_category list" where
  "DashboardServiceCategory_get_queryset q db =
    (let v = param q ''search'';
         r0 = (if v = [] then service_categories db else filter (category_matches v) (service_categories db))
     in sort_key sc_sort_order (keep_if (bool_param (map_of q ''is_active'')) (\<lambda>b c. sc_active c = b) r0))"

definition ServiceCategoryCollection_get_queryset :: "query \<Rightarrow> catalog_db \<Rightarrow> service_category list" where
  "ServiceCategoryCollection_get_queryset q db =
    (let v = or_param q [''search'', ''q''];
         r0 = (if v = [] then service_categories db else filter (category_matches v) (service_categories db))
     in sort_key sc_sort_order (keep_if (true_false (param q ''is_active'')) (\<lambda>b c. sc_active c = b) r0))"

definition category_of_service :: "catalog_db \<Rightarrow> service \<Rightarrow> service_category option" where
  "category_of_service db v = get_row sc_id (sv_category v) (service_categories db)"

definition by_category_order :: "catalog_db \<Rightarrow> service list \<Rightarrow> service list" where
  "by_category_order db = sort_key (\<lambda>v. case category_of_service db v of None \<Rightarrow> 0 | Some c \<Rightarrow> sc_sort_order c)"

text \<open>A category that is not a UUID reaches the database lookup and raises.\<close>

definition in_category :: "(string \<Rightarrow> row_id option) \<Rightarrow> string \<Rightarrow> service list \<Rightarrow> service list res" where
  "in_category uuid v rows =
    (if v = [] then Inr rows
     else case uuid v of None \<Rightarrow> Inl (ServerError ''ValidationError'') | Some k \<Rightarrow> Inr (filter (\<lambda>x. sv_category x = k) rows))"

definition DashboardService_get_queryset :: "(string \<Rightarrow> row_id option) \<Rightarrow> query \<Rightarrow> catalog_db \<Rightarrow> service list res" where
  "DashboardService_get_queryset uuid q db =
    (let v = param q ''search'';
         r0 = (if v = [] then catalog (core db)
               else filter (\<lambda>x. icontains (sv_name x) v \<or> icontains (sv_description x) v) (catalog (core db)))
     in bindE (in_category uuid (param q ''category'') r0) (\<lambda>r1.
          Inr (by_category_order db (keep_if (bool_param (map_of q ''is_active'')) (\<lambda>b x. sv_active x = b) r1))))"

definition ServiceCollection_get_queryset :: "(string \<Rightarrow> row_id option) \<Rightarrow> query \<Rightarrow> catalog_db \<Rightarrow> service list res" where
  "ServiceCollection_get_queryset uuid q db =
    (let v = or_param q [''search'', ''q''];
         r0 = (if v = [] then catalog (core db)
               else filter (\<lambda>x. icontains (sv_name x) v \<or> icontains (sv_description x) v \<or>
                      (case category_of_service db x of None \<Rightarrow> False | Some c \<Rightarrow> icontains (sc_name c) v)) (catalog (core db)))
     in bindE (in_category uuid (or_param q [''category'', ''category_id'']) r0) (\<lambda>r1.
          Inr (by_category_order db (keep_if (true_false (param q ''is_active'')) (\<lambda>b x. sv_active x = b) r1))))"

definition CategoryServices_get_queryset :: "row_id \<Rightarrow> catalog_db \<Rightarrow> service list" where
  "CategoryServices_get_queryset pk db = services_of pk db"

record service_meta =
  svm_categories :: "(service_category \<times> nat \<times> money) list"
  svm_all :: nat
  svm_active :: nat
  svm_inactive :: nat

definition ServiceMeta_get :: "catalog_db \<Rightarrow> service_meta" where
  "ServiceMeta_get db =
    \<lparr>svm_categories = map (\<lambda>c. (c, get_services_count db c, get_base_tariff db c)) (sort_key sc_sort_order (service_categories db)),
     svm_all = length (catalog (core db)), svm_active = count_rows sv_active (catalog (core db)),
     svm_inactive = count_rows (\<lambda>x. \<not> sv_active x) (catalog (core db))\<rparr>"

end
