(* ===== verification/Catalog_Props.thy ===== *)
theory Catalog_Props
  imports Catalog Market_Props Order_Props References
begin

text \<open>
  What holds of the catalog: references and uniqueness along every history of the dashboard, the
  internal API and the clients' subscriptions; what the internal API writes of a tariff is what it
  reads back; the corners of its category endpoints.
\<close>

section \<open>Invariant\<close>

definition held_tariffs :: "subscription list \<Rightarrow> row_id set" where
  "held_tariffs subs = {k. \<exists>b \<in> set subs. current_tariff b = Some k}"

lemma held_subscribe: "held_tariffs (add_row b (del_row f u subs)) \<subseteq> {k. current_tariff b = Some k} \<union> held_tariffs subs"
  by (auto simp: held_tariffs_def set_del_row)

lemma held_drop: "held_tariffs (map (drop_tariff pk) subs) \<subseteq> held_tariffs subs - {pk}"
  by (auto simp: held_tariffs_def drop_tariff_def split: if_splits)

definition catalog_inv :: "catalog_db \<Rightarrow> bool" where
  "catalog_inv db \<longleftrightarrow>
    keys_distinct sc_id (service_categories db) \<and> keys_distinct sc_slug (service_categories db) \<and>
    keys_distinct sv_id (catalog (core db)) \<and> keys_distinct spr_id (service_prices db) \<and>
    keys_distinct tf_id (tariff_table db) \<and> keys_distinct tff_id (tariff_features db) \<and>
    refs sv_category (catalog (core db)) sc_id (service_categories db) \<and>
    refs spr_service (service_prices db) sv_id (catalog (core db)) \<and>
    refs o_service (orders (core db)) sv_id (catalog (core db)) \<and>
    refs tff_tariff (tariff_features db) tf_id (tariff_table db) \<and>
    held_tariffs (subscriptions (profiles (core db))) \<subseteq> tf_id ` set (tariff_table db)"

lemma catalog_updates [simp]:
  "service_categories (set_catalog rows db) = service_categories db" "service_prices (set_catalog rows db) = service_prices db"
  "tariff_features (set_catalog rows db) = tariff_features db" "tariff_table (set_catalog rows db) = tariff_table db"
  "catalog (core (set_catalog rows db)) = rows" "orders (core (set_catalog rows db)) = orders (core db)"
  "profiles (core (set_catalog rows db)) = profiles (core db)"
  "service_categories (set_tariffs ts db) = service_categories db" "service_prices (set_tariffs ts db) = service_prices db"
  "tariff_features (set_tariffs ts db) = tariff_features db" "tariff_table (set_tariffs ts db) = ts"
  "catalog (core (set_tariffs ts db)) = catalog (core db)" "orders (core (set_tariffs ts db)) = orders (core db)"
  "subscriptions (profiles (core (set_tariffs ts db))) = subscriptions (profiles (core db))"
  "addresses (profiles (core (set_tariffs ts db))) = addresses (profiles (core db))"
  by (simp_all add: set_catalog_def set_tariffs_def tariff_table_def)

lemma tariff_table_updates [simp]:
  "tariff_table (db\<lparr>service_categories := cs\<rparr>) = tariff_table db" "tariff_table (db\<lparr>service_prices := ps\<rparr>) = tariff_table db"
  "tariff_table (db\<lparr>tariff_features := fs\<rparr>) = tariff_table db"
  by (simp_all add: tariff_table_def)

lemma patches_keep_keys [simp]:
  "sc_id (apply_category_patch p c) = sc_id c" "sv_id (apply_service_patch p' v) = sv_id v"
  "spr_id (apply_price_patch q r) = spr_id r" "spr_service (apply_price_patch q r) = spr_service r"
  "tf_id (apply_tariff_patch q' t) = tf_id t" "tff_id (apply_feature_patch g f) = tff_id f"
  "tff_tariff (apply_feature_patch g f) = tff_tariff f"
  by (simp_all add: apply_category_patch_def apply_service_patch_def apply_price_patch_def apply_tariff_patch_def
      apply_feature_patch_def)

section \<open>Categories and services\<close>

lemma slug_not_taken:
  "\<not> slug_taken self v db \<longleftrightarrow> (\<forall>c \<in> set (service_categories db). sc_slug c = v \<longrightarrow> Some (sc_id c) = self)"
  by (auto simp: slug_taken_def list_ex_iff)

lemma insert_category_inv:
  assumes "insert_category p db = Inr (db', c)" and "catalog_inv db"
  shows "catalog_inv db' \<and> core db' = core db"
proof -
  have free: "\<not> slug_taken None (sc_slug c) db" and id: "sc_id c = fresh_id sc_id (service_categories db)"
    and db': "db' = db\<lparr>service_categories := add_row c (service_categories db)\<rparr>"
    using assms(1) by (auto simp: insert_category_def Let_def split: if_splits)
  have "sc_slug c \<notin> sc_slug ` set (service_categories db)" using free by (auto simp: slug_not_taken)
  moreover have "sc_id c \<notin> sc_id ` set (service_categories db)" using fresh_id_notin id by metis
  ultimately show ?thesis using assms(2) by (simp add: db' catalog_inv_def keys_distinct_add refs_intros)
qed

lemma update_category_inv:
  assumes "update_category pk p c db = Inr (db', c')" and "get_row sc_id pk (service_categories db) = Some c" and "catalog_inv db"
  shows "catalog_inv db' \<and> core db' = core db"
proof -
  have id: "sc_id c = pk" by (rule get_row_key [OF assms(2)])
  have free: "\<not> slug_taken (Some pk) (sc_slug c') db" and c': "c' = apply_category_patch p c"
    and db': "db' = db\<lparr>service_categories := upd_row sc_id pk (\<lambda>_. c') (service_categories db)\<rparr>"
    using assms(1) by (auto simp: update_category_def Let_def split: if_splits)
  have "keys_distinct sc_slug (upd_row sc_id pk (\<lambda>_. c') (service_categories db))"
    using assms(3) free by (intro unique_replace) (auto simp: catalog_inv_def slug_not_taken)
  then show ?thesis using assms(3) id c' by (simp add: db' catalog_inv_def keys_distinct_replace refs_intros)
qed

lemma category_writes_inv:
  "DashboardServiceCategory_create p db = Inr (db', c) \<Longrightarrow> catalog_inv db \<Longrightarrow> catalog_inv db' \<and> core db' = core db"
  "DashboardServiceCategory_update pk p db = Inr (db', c) \<Longrightarrow> catalog_inv db \<Longrightarrow> catalog_inv db' \<and> core db' = core db"
  "InternalCategory_create p db = Inr (db', c) \<Longrightarrow> catalog_inv db \<Longrightarrow> catalog_inv db' \<and> core db' = core db"
  "InternalCategory_update pk p db = Inr (db', c) \<Longrightarrow> catalog_inv db \<Longrightarrow> catalog_inv db' \<and> core db' = core db"
  by (auto simp: DashboardServiceCategory_create_def DashboardServiceCategory_update_def InternalCategory_create_def
      InternalCategory_update_def dest: insert_category_inv update_category_inv)

lemma toggle_category_inv:
  assumes "ServiceCategoryToggle_patch pk data db = Inr db'" and "catalog_inv db"
  shows "catalog_inv db' \<and> core db' = core db"
proof -
  obtain c where c: "get_row sc_id pk (service_categories db) = Some c"
    and db': "db' = db\<lparr>service_categories := upd_row sc_id pk (\<lambda>_. c\<lparr>sc_active := truthy (json_get data ''is_active'')\<rparr>) (service_categories db)\<rparr>"
    using assms(1) by (auto simp: ServiceCategoryToggle_patch_def)
  have id: "sc_id c = pk" by (rule get_row_key [OF c])
  have "\<forall>x \<in> set (service_categories db). sc_slug x = sc_slug c \<longrightarrow> sc_id x = pk"
    using assms(2) get_row_in [OF c] id by (auto simp: catalog_inv_def keys_distinct_def distinct_map inj_on_def)
  then have "keys_distinct sc_slug (upd_row sc_id pk (\<lambda>_. c\<lparr>sc_active := truthy (json_get data ''is_active'')\<rparr>) (service_categories db))"
    using assms(2) by (intro unique_replace) (auto simp: catalog_inv_def)
  then show ?thesis using assms(2) id by (simp add: db' catalog_inv_def keys_distinct_replace refs_intros)
qed

text \<open>Deleting services: none of them has an order, their price variants go with them.\<close>

lemma delete_services_run:
  assumes "delete_services ids db = Inr db'"
  shows "db' = set_catalog (filter (\<lambda>v. sv_id v \<notin> set ids) (catalog (core db)))
      (db\<lparr>service_prices := filter (\<lambda>p. spr_service p \<notin> set ids) (service_prices db)\<rparr>)"
    "\<forall>ord \<in> set (orders (core db)). o_service ord \<notin> set ids"
  using assms by (auto simp: delete_services_def has_orders_def list_ex_iff split: if_splits)

lemma delete_services_inv:
  assumes "delete_services ids db = Inr db'" and "catalog_inv db"
  shows "catalog_inv db'" "orders (core db') = orders (core db)" "service_categories db' = service_categories db"
proof -
  note run = delete_services_run [OF assms(1)]
  have "refs spr_service (service_prices db') sv_id (catalog (core db'))"
    using assms(2) refs_rest [of spr_service "service_prices db" sv_id "catalog (core db)" "\<lambda>k. k \<notin> set ids"]
    by (simp add: run(1) catalog_inv_def)
  moreover have "refs o_service (orders (core db')) sv_id (catalog (core db'))"
    using assms(2) run(2) refs_filter_target [of o_service "orders (core db)" sv_id "catalog (core db)" "\<lambda>k. k \<notin> set ids"]
    by (simp add: run(1) catalog_inv_def)
  ultimately show "catalog_inv db'" using assms(2) by (simp add: run(1) catalog_inv_def keys_distinct_filter refs_filter)
  show "orders (core db') = orders (core db)" "service_categories db' = service_categories db" by (simp_all add: run(1))
qed

lemma delete_category_inv:
  assumes "DashboardServiceCategory_destroy pk db = Inr db'" and "catalog_inv db"
  shows "catalog_inv db' \<and> orders (core db') = orders (core db)"
proof -
  obtain db1 where db1: "delete_services (map sv_id (services_of pk db)) db = Inr db1"
    and db': "db' = db1\<lparr>service_categories := del_row sc_id pk (service_categories db1)\<rparr>"
    using assms(1) by (auto simp: DashboardServiceCategory_destroy_def)
  note inv = delete_services_inv [OF db1 assms(2)]
  have "\<forall>v \<in> set (catalog (core db1)). sv_category v \<noteq> pk"
    using delete_services_run(1) [OF db1] by (auto simp: services_of_def)
  then have "refs sv_category (catalog (core db1)) sc_id (del_row sc_id pk (service_categories db1))"
    using inv(1) by (intro refs_del_target) (simp_all add: catalog_inv_def)
  then show ?thesis
    using inv by (simp add: db' catalog_inv_def keys_distinct_del) (simp add: del_row_def keys_distinct_filter)
qed

lemma insert_service_inv:
  assumes "catalog_inv db" and "svp_category p = Some k" and "k \<in> sc_id ` set (service_categories db)"
  shows "catalog_inv (fst (insert_service p db)) \<and> orders (core (fst (insert_service p db))) = orders (core db)"
  using assms fresh_id_notin [of sv_id "catalog (core db)"]
  by (simp add: insert_service_def Let_def catalog_inv_def keys_distinct_add refs_intros apply_service_patch_def sent_or_def
      del: fresh_id_notin)

lemma replace_service_inv:
  assumes "catalog_inv db" and "get_row sv_id pk (catalog (core db)) = Some v" and "category_exists (svp_category p) db"
  shows "catalog_inv (set_catalog (upd_row sv_id pk (\<lambda>_. apply_service_patch p v) (catalog (core db))) db)"
proof -
  have "sv_id v = pk" by (rule get_row_key [OF assms(2)])
  moreover have "sv_category (apply_service_patch p v) \<in> sc_id ` set (service_categories db)"
    using assms get_row_in [OF assms(2)]
    by (auto simp: apply_service_patch_def sent_or_def category_exists_def catalog_inv_def refs_def get_row_None_iff
        split: option.splits)
  ultimately show ?thesis using assms(1) by (simp add: catalog_inv_def keys_distinct_replace refs_intros)
qed

lemma category_exists_Some: "category_exists (Some k) db \<longleftrightarrow> k \<in> sc_id ` set (service_categories db)"
  by (auto simp: category_exists_def get_row_None_iff)

lemma validate_service_category: "validate_service p db = Inr () \<Longrightarrow> category_exists (svp_category p) db"
  by (simp add: validate_service_def split: if_splits)

lemma internal_category_exists:
  "category_exists a db \<Longrightarrow> category_exists b db \<Longrightarrow> category_exists (internal_category a b) db"
  by (cases b) (simp_all add: internal_category_def)

lemma service_writes_inv:
  "DashboardService_create p db = Inr (db', v) \<Longrightarrow> catalog_inv db \<Longrightarrow> catalog_inv db' \<and> orders (core db') = orders (core db)"
  "DashboardService_update pk p db = Inr db' \<Longrightarrow> catalog_inv db \<Longrightarrow> catalog_inv db' \<and> orders (core db') = orders (core db)"
  "DashboardService_destroy pk db = Inr db' \<Longrightarrow> catalog_inv db \<Longrightarrow> catalog_inv db' \<and> orders (core db') = orders (core db)"
proof -
  assume run: "DashboardService_create p db = Inr (db', v)" and inv: "catalog_inv db"
  then obtain k where k: "svp_category p = Some k" and ok: "validate_service p db = Inr ()" and db': "insert_service p db = (db', v)"
    by (auto simp: DashboardService_create_def)
  have "k \<in> sc_id ` set (service_categories db)" using validate_service_category [OF ok] k by (simp add: category_exists_Some)
  from insert_service_inv [OF inv k this] db' show "catalog_inv db' \<and> orders (core db') = orders (core db)" by simp
next
  assume "DashboardService_update pk p db = Inr db'" and "catalog_inv db"
  then show "catalog_inv db' \<and> orders (core db') = orders (core db)"
    using validate_service_category by (auto simp: DashboardService_update_def intro!: replace_service_inv)
next
  assume "DashboardService_destroy pk db = Inr db'" and "catalog_inv db"
  then show "catalog_inv db' \<and> orders (core db') = orders (core db)"
    using delete_services_inv by (auto simp: DashboardService_destroy_def)
qed

lemma internal_service_writes_inv:
  "InternalService_create cid p db = Inr (db', v) \<Longrightarrow> catalog_inv db \<Longrightarrow> catalog_inv db' \<and> orders (core db') = orders (core db)"
  "InternalService_update pk cid p db = Inr db' \<Longrightarrow> catalog_inv db \<Longrightarrow> catalog_inv db' \<and> orders (core db') = orders (core db)"
proof -
  let ?p = "p\<lparr>svp_category := internal_category (svp_category p) cid\<rparr>"
  assume run: "InternalService_create cid p db = Inr (db', v)" and inv: "catalog_inv db"
  then have ok: "validate_service p db = Inr ()" "category_exists cid db" and db': "insert_service ?p db = (db', v)"
    and sent: "svp_category ?p \<noteq> None"
    by (auto simp: InternalService_create_def Let_def split: if_splits)
  from sent obtain k where k: "svp_category ?p = Some k" by blast
  have "category_exists (Some k) db"
    using internal_category_exists [OF validate_service_category [OF ok(1)] ok(2)] k by simp
  from insert_service_inv [OF inv k this [unfolded category_exists_Some]] db'
  show "catalog_inv db' \<and> orders (core db') = orders (core db)" by simp
next
  assume "InternalService_update pk cid p db = Inr db'" and "catalog_inv db"
  then show "catalog_inv db' \<and> orders (core db') = orders (core db)"
    using validate_service_category internal_category_exists
    by (auto simp: InternalService_update_def intro!: replace_service_inv)
qed

section \<open>Price variants, tariffs and features\<close>

lemma price_writes_inv:
  "DashboardServicePrice_create sid q db = Inr db' \<Longrightarrow> catalog_inv db \<Longrightarrow> catalog_inv db' \<and> core db' = core db"
  "DashboardServicePrice_update pk q db = Inr db' \<Longrightarrow> catalog_inv db \<Longrightarrow> catalog_inv db' \<and> core db' = core db"
  "DashboardServicePrice_destroy pk db = Inr db' \<Longrightarrow> catalog_inv db \<Longrightarrow> catalog_inv db' \<and> core db' = core db"
proof -
  assume "DashboardServicePrice_create sid q db = Inr db'" and "catalog_inv db"
  then show "catalog_inv db' \<and> core db' = core db"
    using fresh_id_notin [of spr_id "service_prices db"]
    by (auto simp: DashboardServicePrice_create_def catalog_inv_def keys_distinct_add refs_intros refs_in simp del: fresh_id_notin)
next
  assume run: "DashboardServicePrice_update pk q db = Inr db'" and inv: "catalog_inv db"
  then obtain r where r: "get_row spr_id pk (service_prices db) = Some r"
    and db': "db' = db\<lparr>service_prices := upd_row spr_id pk (\<lambda>_. apply_price_patch q r) (service_prices db)\<rparr>"
    by (auto simp: DashboardServicePrice_update_def)
  have "spr_service r \<in> sv_id ` set (catalog (core db))" using inv get_row_in [OF r] by (auto simp: catalog_inv_def refs_def)
  then show "catalog_inv db' \<and> core db' = core db"
    using inv get_row_key [OF r] by (simp add: db' catalog_inv_def keys_distinct_replace refs_intros)
next
  assume "DashboardServicePrice_destroy pk db = Inr db'" and "catalog_inv db"
  then show "catalog_inv db' \<and> core db' = core db"
    by (auto simp: DashboardServicePrice_destroy_def catalog_inv_def keys_distinct_del refs_intros)
qed

text \<open>What the tariff pages leave alone.\<close>

definition same_shop :: "catalog_db \<Rightarrow> catalog_db \<Rightarrow> bool" where
  "same_shop db db' \<longleftrightarrow> orders (core db') = orders (core db) \<and> catalog (core db') = catalog (core db) \<and>
    service_categories db' = service_categories db \<and> service_prices db' = service_prices db"

lemma insert_tariff_run:
  assumes "insert_tariff p db = Inr (db', t)"
  shows "db' = set_tariffs (add_row t (tariff_table db)) db" "tf_id t = fresh_id tf_id (tariff_table db)"
  using assms by (auto simp: insert_tariff_def Let_def)

lemma insert_tariff_inv:
  assumes "insert_tariff p db = Inr (db', t)" and "catalog_inv db"
  shows "catalog_inv db'" "same_shop db db'" "tf_id t \<in> tf_id ` set (tariff_table db')"
proof -
  note run = insert_tariff_run [OF assms(1)]
  have "tf_id t \<notin> tf_id ` set (tariff_table db)" using run(2) fresh_id_notin by metis
  then show "catalog_inv db'" using assms(2) by (simp add: run(1) catalog_inv_def keys_distinct_add refs_intros subset_insertI2)
  show "same_shop db db'" "tf_id t \<in> tf_id ` set (tariff_table db')" by (simp_all add: run(1) same_shop_def)
qed

lemma update_tariff_run:
  assumes "update_tariff pk p db = Inr (db', t)"
  obtains t0 where "get_row tf_id pk (tariff_table db) = Some t0" "t = apply_tariff_patch p t0"
    "db' = set_tariffs (upd_row tf_id pk (\<lambda>_. t) (tariff_table db)) db" "tf_id t = pk"
  using assms get_row_key [of tf_id pk "tariff_table db"] by (auto simp: update_tariff_def)

lemma update_tariff_inv:
  assumes "update_tariff pk p db = Inr (db', t)" and "catalog_inv db"
  shows "catalog_inv db'" "same_shop db db'" "tf_id t \<in> tf_id ` set (tariff_table db')"
proof -
  obtain t0 where t0: "get_row tf_id pk (tariff_table db) = Some t0" and id: "tf_id t = pk"
    and db': "db' = set_tariffs (upd_row tf_id pk (\<lambda>_. t) (tariff_table db)) db"
    using update_tariff_run [OF assms(1)] by metis
  show "catalog_inv db'"
    using assms(2) id by (simp add: db' catalog_inv_def keys_distinct_replace refs_intros key_set_replace)
  show "same_shop db db'" by (simp add: db' same_shop_def)
  show "tf_id t \<in> tf_id ` set (tariff_table db')"
    using refs_in [OF t0] id by (simp add: db' key_set_replace)
qed

lemma delete_tariff_inv:
  assumes "Tariff_destroy pk db = Inr db'" and "catalog_inv db"
  shows "catalog_inv db' \<and> same_shop db db'"
proof -
  let ?subs = "subscriptions (profiles (core db))"
  obtain t where t: "get_row tf_id pk (tariff_table db) = Some t" using assms(1) by (auto simp: Tariff_destroy_def)
  have tabs: "tariff_features db' = filter (\<lambda>f. tff_tariff f \<noteq> pk) (tariff_features db)"
    "tariff_table db' = del_row tf_id pk (tariff_table db)"
    "subscriptions (profiles (core db')) = map (drop_tariff pk) ?subs" and shop: "same_shop db db'"
    using assms(1) t by (auto simp: Tariff_destroy_def Let_def tariff_table_def same_shop_def)
  have "refs tff_tariff (tariff_features db') tf_id (tariff_table db')"
    using assms(2) refs_rest [of tff_tariff "tariff_features db" tf_id "tariff_table db" "\<lambda>k. k \<noteq> pk"]
    by (simp add: tabs catalog_inv_def del_row_def)
  moreover have "held_tariffs (subscriptions (profiles (core db'))) \<subseteq> tf_id ` set (tariff_table db')"
    using assms(2) held_drop [of pk ?subs] by (auto simp: tabs catalog_inv_def set_del_row)
  ultimately show ?thesis
    using assms(2) shop by (simp add: catalog_inv_def tabs keys_distinct_del keys_distinct_filter same_shop_def)
qed

lemma add_feature_inv:
  assumes "catalog_inv db" and "tid \<in> tf_id ` set (tariff_table db)"
  shows "catalog_inv (db\<lparr>tariff_features := add_feature tid x (tariff_features db)\<rparr>)"
  using assms fresh_id_notin [of tff_id "tariff_features db"]
  by (simp add: catalog_inv_def add_feature_def keys_distinct_add refs_intros del: fresh_id_notin)

lemma add_features_inv:
  assumes "catalog_inv db" and "tid \<in> tf_id ` set (tariff_table db)"
  shows "catalog_inv (db\<lparr>tariff_features := fold (add_feature tid) xs (tariff_features db)\<rparr>)"
  using assms
proof (induction xs arbitrary: db)
  case (Cons x xs)
  from Cons.IH [OF add_feature_inv [OF Cons.prems, of x]] Cons.prems(2) show ?case by simp
qed simp

lemma save_features_inv:
  assumes "catalog_inv db" and "tid \<in> tf_id ` set (tariff_table db)"
  shows "catalog_inv (save_features tid fs db)" "same_shop db (save_features tid fs db)"
proof -
  have "catalog_inv (db\<lparr>tariff_features := filter (\<lambda>f. tff_tariff f \<noteq> tid) (tariff_features db)\<rparr>)"
    using assms(1) by (simp add: catalog_inv_def keys_distinct_filter refs_filter)
  from add_features_inv [OF this] assms show "catalog_inv (save_features tid fs db)"
    by (simp add: save_features_def Let_def split: option.split)
  show "same_shop db (save_features tid fs db)" by (simp add: save_features_def Let_def same_shop_def split: option.split)
qed

lemma same_shop_trans: "same_shop a b \<Longrightarrow> same_shop b c \<Longrightarrow> same_shop a c"
  by (simp add: same_shop_def)

lemma feature_writes_inv:
  "DashboardTariffFeature_create tid g db = Inr db' \<Longrightarrow> catalog_inv db \<Longrightarrow> catalog_inv db' \<and> same_shop db db'"
  "DashboardTariffFeature_update pk g db = Inr db' \<Longrightarrow> catalog_inv db \<Longrightarrow> catalog_inv db' \<and> same_shop db db'"
  "DashboardTariffFeature_destroy pk db = Inr db' \<Longrightarrow> catalog_inv db \<Longrightarrow> catalog_inv db' \<and> same_shop db db'"
proof -
  assume "DashboardTariffFeature_create tid g db = Inr db'" and "catalog_inv db"
  then show "catalog_inv db' \<and> same_shop db db'"
    using add_feature_inv refs_in by (fastforce simp: DashboardTariffFeature_create_def same_shop_def)
next
  assume run: "DashboardTariffFeature_update pk g db = Inr db'" and inv: "catalog_inv db"
  then obtain f where f: "get_row tff_id pk (tariff_features db) = Some f"
    and db': "db' = db\<lparr>tariff_features := upd_row tff_id pk (\<lambda>_. apply_feature_patch g f) (tariff_features db)\<rparr>"
    by (auto simp: DashboardTariffFeature_update_def)
  have "tff_tariff f \<in> tf_id ` set (tariff_table db)" using inv get_row_in [OF f] by (auto simp: catalog_inv_def refs_def)
  then show "catalog_inv db' \<and> same_shop db db'"
    using inv get_row_key [OF f] by (simp add: db' catalog_inv_def keys_distinct_replace refs_intros same_shop_def)
next
  assume "DashboardTariffFeature_destroy pk db = Inr db'" and "catalog_inv db"
  then show "catalog_inv db' \<and> same_shop db db'"
    by (auto simp: DashboardTariffFeature_destroy_def catalog_inv_def keys_distinct_del refs_intros same_shop_def)
qed

lemma internal_tariff_writes_inv:
  "InternalTariff_create period fs p db = Inr (db', t) \<Longrightarrow> catalog_inv db \<Longrightarrow> catalog_inv db' \<and> same_shop db db'"
  "InternalTariff_update pk period fs p db = Inr (db', t) \<Longrightarrow> catalog_inv db \<Longrightarrow> catalog_inv db' \<and> same_shop db db'"
proof -
  assume run: "InternalTariff_create period fs p db = Inr (db', t)" and inv: "catalog_inv db"
  then obtain db1 where db1: "insert_tariff (InternalTariff_validate period p) db = Inr (db1, t)" and db': "db' = save_features (tf_id t) fs db1"
    by (auto simp: InternalTariff_create_def)
  from insert_tariff_inv [OF db1 inv] save_features_inv [of db1 "tf_id t" fs] db'
  show "catalog_inv db' \<and> same_shop db db'" by (auto intro: same_shop_trans)
next
  assume run: "InternalTariff_update pk period fs p db = Inr (db', t)" and inv: "catalog_inv db"
  then obtain db1 where db1: "update_tariff pk (InternalTariff_validate period p) db = Inr (db1, t)" and db': "db' = save_features (tf_id t) fs db1"
    by (auto simp: InternalTariff_update_def)
  from update_tariff_inv [OF db1 inv] save_features_inv [of db1 "tf_id t" fs] db'
  show "catalog_inv db' \<and> same_shop db db'" by (auto intro: same_shop_trans)
qed

text \<open>A client subscribes to a tariff of the table.\<close>

lemma subscribe_inv:
  assumes "TariffSubscribeView_post now user tid (profiles (core db)) = Inr pdb" and "catalog_inv db"
  shows "catalog_inv (db\<lparr>core := (core db)\<lparr>profiles := pdb\<rparr>\<rparr>)"
proof -
  obtain t where t: "get_row tf_id tid (filter tf_active (tariff_table db)) = Some t"
    and tabs: "tariffs pdb = tariff_table db"
      "subscriptions pdb = add_row \<lparr>sb_client = user, current_tariff = Some tid,
                    tariff_expires_at = Some (now + int (duration_days t) * ms_per_day)\<rparr>
                  (del_row sb_client user (subscriptions (profiles (core db))))"
    using assms(1) by (auto simp: TariffSubscribeView_post_def TariffListView_get_queryset_def tariff_table_def split: option.splits)
  have "tid \<in> tf_id ` set (tariff_table db)" using get_row_SomeD [OF t] by auto
  then have "held_tariffs (subscriptions pdb) \<subseteq> tf_id ` set (tariff_table db)"
    using assms(2) by (auto simp: tabs catalog_inv_def dest!: subsetD [OF held_subscribe])
  then show ?thesis using assms(2) tabs(1) by (simp add: catalog_inv_def tariff_table_def)
qed

section \<open>Histories\<close>

inductive catalog_step :: "catalog_db \<Rightarrow> catalog_db \<Rightarrow> bool" where
  new_category: "DashboardServiceCategory_create p db = Inr (db', c) \<Longrightarrow> catalog_step db db'"
| edit_category: "DashboardServiceCategory_update pk p db = Inr (db', c) \<Longrightarrow> catalog_step db db'"
| del_category: "DashboardServiceCategory_destroy pk db = Inr db' \<Longrightarrow> catalog_step db db'"
| internal_new_category: "InternalCategory_create p db = Inr (db', c) \<Longrightarrow> catalog_step db db'"
| internal_edit_category: "InternalCategory_update pk p db = Inr (db', c) \<Longrightarrow> catalog_step db db'"
| toggle_category: "ServiceCategoryToggle_patch pk data db = Inr db' \<Longrightarrow> catalog_step db db'"
| new_service: "DashboardService_create sp db = Inr (db', v) \<Longrightarrow> catalog_step db db'"
| edit_service: "DashboardService_update pk sp db = Inr db' \<Longrightarrow> catalog_step db db'"
| del_service: "DashboardService_destroy pk db = Inr db' \<Longrightarrow> catalog_step db db'"
| internal_new_service: "InternalService_create cid sp db = Inr (db', v) \<Longrightarrow> catalog_step db db'"
| internal_edit_service: "InternalService_update pk cid sp db = Inr db' \<Longrightarrow> catalog_step db db'"
| new_price: "DashboardServicePrice_create sid q db = Inr db' \<Longrightarrow> catalog_step db db'"
| edit_price: "DashboardServicePrice_update pk q db = Inr db' \<Longrightarrow> catalog_step db db'"
| del_price: "DashboardServicePrice_destroy pk db = Inr db' \<Longrightarrow> catalog_step db db'"
| new_tariff: "DashboardTariff_create tp db = Inr (db', t) \<Longrightarrow> catalog_step db db'"
| edit_tariff: "DashboardTariff_update pk tp db = Inr (db', t) \<Longrightarrow> catalog_step db db'"
| del_tariff: "Tariff_destroy pk db = Inr db' \<Longrightarrow> catalog_step db db'"
| new_feature: "DashboardTariffFeature_create pk g db = Inr db' \<Longrightarrow> catalog_step db db'"
| edit_feature: "DashboardTariffFeature_update pk g db = Inr db' \<Longrightarrow> catalog_step db db'"
| del_feature: "DashboardTariffFeature_destroy pk db = Inr db' \<Longrightarrow> catalog_step db db'"
| internal_new_tariff: "InternalTariff_create period fs tp db = Inr (db', t) \<Longrightarrow> catalog_step db db'"
| internal_edit_tariff: "InternalTariff_update pk period fs tp db = Inr (db', t) \<Longrightarrow> catalog_step db db'"
| subscribe: "TariffSubscribeView_post now user tid (profiles (core db)) = Inr pdb \<Longrightarrow>
    catalog_step db (db\<lparr>core := (core db)\<lparr>profiles := pdb\<rparr>\<rparr>)"

lemma catalog_step_inv:
  assumes "catalog_step db db'" and "catalog_inv db"
  shows "catalog_inv db' \<and> orders (core db') = orders (core db)"
  using assms
proof cases
  case del_category then show ?thesis using delete_category_inv [OF _ assms(2)] by blast
next
  case new_service then show ?thesis using service_writes_inv(1) [OF _ assms(2)] by blast
next
  case edit_service then show ?thesis using service_writes_inv(2) [OF _ assms(2)] by blast
next
  case del_service then show ?thesis using service_writes_inv(3) [OF _ assms(2)] by blast
next
  case internal_new_service then show ?thesis using internal_service_writes_inv(1) [OF _ assms(2)] by blast
next
  case internal_edit_service then show ?thesis using internal_service_writes_inv(2) [OF _ assms(2)] by blast
next
  case del_tariff then show ?thesis using delete_tariff_inv [OF _ assms(2)] by (auto simp: same_shop_def)
next
  case new_tariff then show ?thesis
    using insert_tariff_inv [OF _ assms(2)] by (auto simp: DashboardTariff_create_def same_shop_def)
next
  case edit_tariff then show ?thesis
    using update_tariff_inv [OF _ assms(2)] by (auto simp: DashboardTariff_update_def same_shop_def)
next
  case subscribe then show ?thesis using subscribe_inv [OF _ assms(2)] by auto
qed (use category_writes_inv [OF _ assms(2)] toggle_category_inv [OF _ assms(2)] price_writes_inv [OF _ assms(2)]
    feature_writes_inv [OF _ assms(2)] internal_tariff_writes_inv [OF _ assms(2)] in \<open>auto simp: same_shop_def\<close>)

lemma catalog_steps_inv:
  "catalog_step\<^sup>*\<^sup>* db db' \<Longrightarrow> catalog_inv db \<Longrightarrow> catalog_inv db' \<and> orders (core db') = orders (core db)"
  by (induction rule: rtranclp_induct) (use catalog_step_inv in auto)

text \<open>C33: Along every history of the dashboard, the internal API and the clients' subscriptions the
  catalog stays well formed: keys and slugs are unique, every service has its category, every price
  variant its service, every feature and every subscription its tariff; no order is touched, and the
  service of every order stays in the catalog.\<close>

theorem catalog_history_well_formed:
  assumes "catalog_step\<^sup>*\<^sup>* db db'" and "catalog_inv db"
  shows "catalog_inv db' \<and> orders (core db') = orders (core db) \<and>
    (\<forall>ord \<in> set (orders (core db)). get_row sv_id (o_service ord) (catalog (core db')) \<noteq> None)"
proof -
  from catalog_steps_inv [OF assms] have inv: "catalog_inv db'" and same: "orders (core db') = orders (core db)" by simp_all
  have "get_row sv_id (o_service ord) (catalog (core db')) \<noteq> None" if "ord \<in> set (orders (core db))" for ord
    using inv same that by (auto simp: catalog_inv_def refs_def get_row_None_iff)
  with inv same show ?thesis by simp
qed

section \<open>What the internal API writes of a tariff\<close>

lemma fresh_id_gt: "r \<in> set rows \<Longrightarrow> key r < fresh_id key rows"
  using fold_max_in [of r rows key 0] by (simp add: fresh_id_def)

lemma added_features:
  obtains new where "fold (add_feature tid) xs rows = rows @ new" "map (\<lambda>f. (tff_title f, tff_sort_order f)) new = xs"
    "\<forall>f \<in> set new. tff_tariff f = tid" "sorted (map tff_id new)" "\<forall>f \<in> set new. \<forall>r \<in> set rows. tff_id r < tff_id f"
proof (induction xs arbitrary: rows thesis)
  case Nil
  then show ?case by simp
next
  case (Cons x xs)
  let ?f = "\<lparr>tff_id = fresh_id tff_id rows, tff_tariff = tid, tff_title = fst x, tff_sort_order = snd x\<rparr>"
  obtain new where new: "fold (add_feature tid) xs (rows @ [?f]) = (rows @ [?f]) @ new"
    "map (\<lambda>f. (tff_title f, tff_sort_order f)) new = xs" "\<forall>f \<in> set new. tff_tariff f = tid" "sorted (map tff_id new)"
    "\<forall>f \<in> set new. \<forall>r \<in> set (rows @ [?f]). tff_id r < tff_id f"
    by (rule Cons.IH)
  have "add_feature tid x rows = rows @ [?f]" by (simp add: add_feature_def add_row_def)
  with new show ?case
    using fresh_id_gt [of _ rows tff_id] by (intro Cons.prems [of "?f # new"]) (auto simp: less_imp_le)
qed

lemma features_after_save:
  "get_features t (save_features (tf_id t) (Some titles) db) = titles"
  "tf_id u \<noteq> tf_id t \<Longrightarrow> get_features u (save_features (tf_id t) fs db) = get_features u db"
proof -
  have others: "filter (\<lambda>f. tff_tariff f = k) (tariff_features (save_features (tf_id t) fs db)) = filter (\<lambda>f. tff_tariff f = k) (tariff_features db)"
    if "k \<noteq> tf_id t" for k fs
  proof (cases fs)
    case (Some xs)
    obtain new where "fold (add_feature (tf_id t)) (zip xs [0..<length xs]) (filter (\<lambda>f. tff_tariff f \<noteq> tf_id t) (tariff_features db)) =
        filter (\<lambda>f. tff_tariff f \<noteq> tf_id t) (tariff_features db) @ new" "\<forall>f \<in> set new. tff_tariff f = tf_id t"
      by (rule added_features)
    moreover from this(2) have "filter (\<lambda>f. tff_tariff f = k) new = []" using that by (simp add: filter_empty_conv)
    moreover have "filter (\<lambda>f. tff_tariff f \<noteq> tf_id t \<and> tff_tariff f = k) (tariff_features db) = filter (\<lambda>f. tff_tariff f = k) (tariff_features db)"
      using that by (intro filter_cong) auto
    ultimately show ?thesis by (simp add: save_features_def Some)
  qed (simp add: save_features_def)
  then show "tf_id u \<noteq> tf_id t \<Longrightarrow> get_features u (save_features (tf_id t) fs db) = get_features u db"
    by (simp add: get_features_def features_of_def)
  let ?kept = "filter (\<lambda>f. tff_tariff f \<noteq> tf_id t) (tariff_features db)"
  obtain new where new: "fold (add_feature (tf_id t)) (zip titles [0..<length titles]) ?kept = ?kept @ new"
    "map (\<lambda>f. (tff_title f, tff_sort_order f)) new = zip titles [0..<length titles]" "\<forall>f \<in> set new. tff_tariff f = tf_id t"
    "sorted (map tff_id new)"
    by (rule added_features)
  have "map tff_sort_order new = map snd (map (\<lambda>f. (tff_title f, tff_sort_order f)) new)" by simp
  also have "\<dots> = [0..<length titles]" by (simp only: new(2) map_snd_zip length_upt diff_zero)
  finally have sorted: "sorted (map tff_sort_order new)" by simp
  have "map tff_title new = map fst (map (\<lambda>f. (tff_title f, tff_sort_order f)) new)" by simp
  also have "\<dots> = titles" by (simp only: new(2) map_fst_zip length_upt diff_zero)
  finally have titles: "map tff_title new = titles" .
  have "filter (\<lambda>f. tff_tariff f = tf_id t) (?kept @ new) = new"
    using new(3) by (simp add: filter_empty_conv)
  then have "features_of (tf_id t) (save_features (tf_id t) (Some titles) db) = new"
    using new(1,4) sorted by (simp add: features_of_def save_features_def sort_key_id_if_sorted)
  then show "get_features t (save_features (tf_id t) (Some titles) db) = titles" by (simp add: get_features_def titles)
qed

lemma save_features_tariffs [simp]: "tariff_table (save_features tid fs db) = tariff_table db"
  by (simp add: save_features_def Let_def split: option.split)

lemma period_written:
  "tfp_duration p = None \<Longrightarrow> get_period (apply_tariff_patch (InternalTariff_validate (Some period) p) t) = period"
  by (cases period) (simp_all add: InternalTariff_validate_def apply_tariff_patch_def get_period_def sent_or_def)

text \<open>C37: A tariff written through the internal API is read back: the row is the one answered, the
  period is the one that was sent, the features are the sent titles in their order; the features of
  every other tariff stay.\<close>

theorem internal_tariff_round_trip:
  assumes "InternalTariff_create (Some period) (Some titles) p db = Inr (db', t) \<or>
      InternalTariff_update pk (Some period) (Some titles) p db = Inr (db', t)"
    and "tfp_duration p = None" and "catalog_inv db"
  shows "get_row tf_id (tf_id t) (tariff_table db') = Some t \<and> get_period t = period \<and> get_features t db' = titles \<and>
    (\<forall>u. tf_id u \<noteq> tf_id t \<longrightarrow> get_features u db' = get_features u db)"
proof -
  let ?p = "InternalTariff_validate (Some period) p"
  from assms(1) consider
      (create) db1 where "insert_tariff ?p db = Inr (db1, t)" "db' = save_features (tf_id t) (Some titles) db1"
    | (update) db1 where "update_tariff pk ?p db = Inr (db1, t)" "db' = save_features (tf_id t) (Some titles) db1"
    by (auto simp: InternalTariff_create_def InternalTariff_update_def)
  then obtain db1 where db1: "get_row tf_id (tf_id t) (tariff_table db1) = Some t" "get_period t = period"
    "tariff_features db1 = tariff_features db" "db' = save_features (tf_id t) (Some titles) db1"
  proof cases
    case create
    note run = insert_tariff_run [OF create(1)]
    have "get_period t = period" using create(1) period_written [OF assms(2)] by (auto simp: insert_tariff_def Let_def)
    with that [of db1] create(2) run show ?thesis by (simp add: get_row_add split: option.split)
  next
    case update
    then obtain t0 where t0: "get_row tf_id pk (tariff_table db) = Some t0" and t: "t = apply_tariff_patch ?p t0"
      and run: "db1 = set_tariffs (upd_row tf_id pk (\<lambda>_. t) (tariff_table db)) db" "tf_id t = pk"
      using update_tariff_run by blast
    have "get_row tf_id (tf_id t) (tariff_table db1) = Some t" using t0 run by (simp add: get_row_replace)
    moreover have "get_period t = period" using t period_written [OF assms(2)] by simp
    ultimately show ?thesis using that [of db1] update(2) run by simp
  qed
  have "get_features u db1 = get_features u db" for u by (simp add: get_features_def features_of_def db1(3))
  with db1 features_after_save [where t = t and db = db1] show ?thesis by simp
qed

section \<open>Corners of the internal category endpoints\<close>

text \<open>The internal API derives a slug from the name without checking it: a second category with
  the same name is answered with a server error where the dashboard reports a validation error; a
  new name alone also replaces the slug of an existing category; and switching a category with the
  text \<open>false\<close> switches it on.\<close>

theorem internal_category_corners:
  assumes "get_row sc_id pk (service_categories db) = Some c" and "catalog_inv db" and "n \<noteq> []"
    and "list_all slug_char (hyphenate n)"
  shows "(slug_taken None (hyphenate n) db \<longrightarrow>
      InternalCategory_create \<lparr>scp_name = Some n, scp_slug = None, scp_active = None, scp_sort_order = None\<rparr> db =
        Inl (IntegrityError ''services_servicecategory.slug'') \<and>
      (\<exists>msg. DashboardServiceCategory_create \<lparr>scp_name = Some n, scp_slug = Some (hyphenate n), scp_active = None, scp_sort_order = None\<rparr> db =
        Inl (ValidationError msg))) \<and>
    (\<not> slug_taken (Some pk) (hyphenate n) db \<longrightarrow>
      (\<exists>db' c'. InternalCategory_update pk \<lparr>scp_name = Some n, scp_slug = None, scp_active = None, scp_sort_order = None\<rparr> db = Inr (db', c') \<and>
        get_row sc_id pk (service_categories db') = Some c' \<and> sc_name c' = n \<and> sc_slug c' = hyphenate n)) \<and>
    (\<exists>db'. ServiceCategoryToggle_patch pk [(''is_active'', JStr ''false'')] db = Inr db' \<and>
      get_row sc_id pk (service_categories db') = Some (c\<lparr>sc_active := True\<rparr>))"
proof -
  have id: "sc_id c = pk" by (rule get_row_key [OF assms(1)])
  have hn: "hyphenate n \<noteq> []" using assms(3) by (simp add: hyphenate_def lower_def)
  let ?p = "\<lparr>scp_name = Some n, scp_slug = None, scp_active = None, scp_sort_order = None\<rparr>"
  let ?p' = "\<lparr>scp_name = Some n, scp_slug = Some (hyphenate n), scp_active = None, scp_sort_order = None\<rparr>"
  let ?c = "c\<lparr>sc_name := n, sc_slug := hyphenate n\<rparr>"
  have ok: "validate_category self ?p db = Inr ()" for self using assms(3) by (simp add: validate_category_def)
  have derived: "InternalCategory_validate ?p = ?p'" by (simp add: InternalCategory_validate_def)
  have "InternalCategory_create ?p db = Inl (IntegrityError ''services_servicecategory.slug'')" if "slug_taken None (hyphenate n) db"
    using that by (simp add: InternalCategory_create_def ok derived insert_category_def apply_category_patch_def sent_or_def Let_def)
  moreover have "\<exists>msg. DashboardServiceCategory_create ?p' db = Inl (ValidationError msg)" if "slug_taken None (hyphenate n) db"
    using that assms(3,4) hn by (simp add: DashboardServiceCategory_create_def validate_category_def validate_slug_def guardE_def)
  moreover have "InternalCategory_update pk ?p db =
      Inr (db\<lparr>service_categories := upd_row sc_id pk (\<lambda>_. ?c) (service_categories db)\<rparr>, ?c)"
    if "\<not> slug_taken (Some pk) (hyphenate n) db"
    using that assms(1) by (simp add: InternalCategory_update_def ok derived update_category_def apply_category_patch_def sent_or_def Let_def)
  moreover have "ServiceCategoryToggle_patch pk [(''is_active'', JStr ''false'')] db =
      Inr (db\<lparr>service_categories := upd_row sc_id pk (\<lambda>_. c\<lparr>sc_active := True\<rparr>) (service_categories db)\<rparr>)"
    using assms(1) by (simp add: ServiceCategoryToggle_patch_def json_get_def)
  ultimately show ?thesis using assms(1) id by (simp add: get_row_replace)
qed

section \<open>The public list\<close>

text \<open>The list of categories shows services that are switched off, the page of such a service does
  not exist.\<close>

lemma hidden_service_listed:
  assumes "c \<in> set (ServiceCategoryList_get_queryset uuid q db)" and "v \<in> set (catalog (core db))" and "catalog_inv db"
    and "sv_category v = sc_id c" and "\<not> sv_active v"
  shows "v \<in> fst ` set (snd (category_data db c))" "ServicePriceView_get (sv_id v) db = Inl (NotFound ''Service'')"
proof -
  show "v \<in> fst ` set (snd (category_data db c))"
    using assms by (force simp: category_data_def service_data_def services_of_def)
  have dist: "keys_distinct sv_id (catalog (core db))" using assms(3) by (simp add: catalog_inv_def)
  have "get_row sv_id (sv_id v) (filter sv_active (catalog (core db))) = None"
  proof (rule ccontr)
    assume "get_row sv_id (sv_id v) (filter sv_active (catalog (core db))) \<noteq> None"
    then obtain w where "get_row sv_id (sv_id v) (filter sv_active (catalog (core db))) = Some w" by blast
    then have "get_row sv_id (sv_id v) (catalog (core db)) = Some w" "sv_active w" using get_row_filter [OF dist] by blast+
    with get_row_unique [OF dist assms(2)] assms(5) show False by simp
  qed
  then show "ServicePriceView_get (sv_id v) db = Inl (NotFound ''Service'')" by (simp add: ServicePriceView_get_def get_or_404_def)
qed

text \<open>The counters of the tariff page count what its lists show.\<close>

lemma tariff_meta_counts:
  "length (TariffCollection_get_queryset [(''period'', ''monthly'')] db) = tm_monthly (TariffMeta_get db)"
  "length (TariffCollection_get_queryset [(''period'', ''yearly'')] db) = tm_yearly (TariffMeta_get db)"
  "length (TariffCollection_get_queryset [(''is_active'', ''true'')] db) = tm_active (TariffMeta_get db)"
  "tm_monthly (TariffMeta_get db) + tm_yearly (TariffMeta_get db) = length (tariff_table db)"
proof -
  have "length (filter P rows) + length (filter (\<lambda>x. \<not> P x) rows) = length rows" for P and rows :: "tariff list"
    by (rule sum_length_filter_compl)
  from this [of "\<lambda>t. duration_days t < 365"]
  show "tm_monthly (TariffMeta_get db) + tm_yearly (TariffMeta_get db) = length (tariff_table db)"
    by (simp add: TariffMeta_get_def count_rows_def not_less)
qed (simp_all add: TariffCollection_get_queryset_def TariffMeta_get_def count_rows_def by_sort_order_def param_def true_false_def
    keep_if_def Let_def)

section \<open>An example\<close>

definition tariffs_example :: profiles_db where
  "tariffs_example = \<lparr>addresses = [], devices = [],
     tariffs = [\<lparr>tf_id = 2, tf_name = ''Standart'', tf_price = 0, duration_days = 30, tf_popular = False, tf_active = True, tf_sort_order = 0\<rparr>],
     subscriptions = []\<rparr>"

definition price_example :: service_price where
  "price_example = \<lparr>spr_id = 1, spr_service = 1, spr_title = ''Tozalash'', spr_price = 5000000, spr_unit = ''dona'', spr_active = True\<rparr>"

definition catalog_example :: catalog_db where
  "catalog_example =
    \<lparr>service_categories = [\<lparr>sc_id = 1, sc_name = ''Iqlim'', sc_slug = ''iqlim'', sc_active = False, sc_sort_order = 0\<rparr>],
     service_prices = [price_example],
     tariff_features = [\<lparr>tff_id = 7, tff_tariff = 2, tff_title = ''Eski'', tff_sort_order = 0\<rparr>],
     core = created_sys\<lparr>profiles := tariffs_example\<rparr>\<rparr>"

lemma catalog_example_inv: "catalog_inv catalog_example"
proof -
  have m: "map o_service (orders created_sys) = [1]" "map sv_id (catalog created_sys) = [1]" "map sv_category (catalog created_sys) = [1]"
    by code_simp+
  have "o_service ` set (orders created_sys) = {1}" "sv_id ` set (catalog created_sys) = {1}" "sv_category ` set (catalog created_sys) = {1}"
    using m [THEN arg_cong, of set] by simp_all
  moreover have "distinct (map sv_id (catalog created_sys))" by (simp add: m)
  ultimately show ?thesis
    by (simp add: catalog_inv_def catalog_example_def tariffs_example_def price_example_def keys_distinct_def refs_def held_tariffs_def
        tariff_table_def)
qed

definition premium :: tariff_patch where
  "premium = \<lparr>tfp_name = Some ''Premium'', tfp_price = Some 9900000, tfp_duration = None, tfp_popular = None, tfp_active = None, tfp_sort_order = None\<rparr>"

lemma premium_run: "\<exists>db' t. InternalTariff_create (Some Yearly) (Some [''A'', ''B'']) premium catalog_example = Inr (db', t)"
  by (simp add: InternalTariff_create_def validate_features_def insert_tariff_def InternalTariff_validate_def premium_def Let_def)

theorem catalog_history_well_formed_witness:
  "\<exists>db'. catalog_step\<^sup>*\<^sup>* catalog_example db' \<and> catalog_inv db' \<and> length (orders (core db')) = 1"
proof -
  obtain db' t where "InternalTariff_create (Some Yearly) (Some [''A'', ''B'']) premium catalog_example = Inr (db', t)"
    using premium_run by blast
  then have steps: "catalog_step\<^sup>*\<^sup>* catalog_example db'" by (blast intro: catalog_step.intros)
  have "length (orders created_sys) = 1" by code_simp
  with catalog_history_well_formed [OF steps catalog_example_inv] have "catalog_inv db' \<and> length (orders (core db')) = 1"
    by (simp add: catalog_example_def)
  with steps show ?thesis by blast
qed

theorem internal_tariff_round_trip_witness:
  "\<exists>db' t. InternalTariff_create (Some Yearly) (Some [''A'', ''B'']) premium catalog_example = Inr (db', t) \<and>
    get_period t = Yearly \<and> get_features t db' = [''A'', ''B'']"
proof -
  obtain db' t where run: "InternalTariff_create (Some Yearly) (Some [''A'', ''B'']) premium catalog_example = Inr (db', t)"
    using premium_run by blast
  have "tfp_duration premium = None" by (simp add: premium_def)
  from internal_tariff_round_trip [OF disjI1 [OF run] this catalog_example_inv] run show ?thesis by blast
qed

theorem internal_category_corners_witness:
  "\<exists>db'. ServiceCategoryToggle_patch 1 [(''is_active'', JStr ''false'')] catalog_example = Inr db' \<and>
    map_option sc_active (get_row sc_id 1 (service_categories db')) = Some True"
proof -
  have c: "get_row sc_id 1 (service_categories catalog_example) = Some (hd (service_categories catalog_example))"
    by (simp add: catalog_example_def)
  have "list_all slug_char (hyphenate ''Iqlim'')" by code_simp
  from internal_category_corners [OF c catalog_example_inv _ this] show ?thesis by auto
qed

end
