(* ===== verification/Backups.thy ===== *)
theory Backups
  imports Catalog "HOL-Library.AList"
begin

text \<open>
  Database backups and the settings pages: \<open>src/apps/dashboard/backups.py\<close>, \<open>tasks.py\<close>, the
  command \<open>create_backup\<close>, and the pages of \<open>src/apps/dashboard/views.py\<close> that use them.

  \<^item> The directory of backups is the list of its files with their sizes; what a dump program does is
    a parameter: it either writes a file or leaves a part of one behind and fails.
  \<^item> A JSON object is a list of pairs; the order of its keys carries no meaning. A field that
    \<open>validated_data\<close> does not have is \<open>None\<close>.
  \<^item> The database commits every statement (no transaction spans a request), so a failure leaves what
    was written before it: operations that may fail half-way return the state beside the result.
  \<^item> Lists ordered by a text are in the order of the table.
\<close>

section \<open>State\<close>

datatype backup_source = MANUAL | AUTO

record backup =
  bk_id :: row_id
  bk_filename :: string
  bk_size :: nat
  bk_engine :: string
  bk_source :: backup_source
  bk_note :: string
  bk_created_by :: "row_id option"

record integration_setting =
  st_id :: row_id
  st_key :: string
  st_title :: string
  st_value :: json
  st_active :: bool

type_synonym disk = "(string \<times> nat) list"

record backup_db =
  backups :: "backup list"
  disk :: disk
  integrations :: "integration_setting list"

datatype dump_result = DumpWritten nat | DumpFailed nat string

text \<open>Time stamps and random suffixes of file names, the configured engine and default, what a dump to
  a file does, and the files the operating system refuses to delete.\<close>

record backup_env =
  be_stamp :: string
  be_hex :: string
  be_engine :: string
  be_dump :: "string \<Rightarrow> dump_result"
  be_keep :: int
  be_locked :: "string \<Rightarrow> bool"

definition on_disk :: "string \<Rightarrow> disk \<Rightarrow> bool" where
  "on_disk name d = (map_of d name \<noteq> None)"

section \<open>Configuration\<close>

definition AUTO_BACKUP_KEY :: string where
  "AUTO_BACKUP_KEY = ''auto_backup''"

definition DEFAULT_AUTO_CONFIG :: "(string \<times> json) list" where
  "DEFAULT_AUTO_CONFIG =
    [(''enabled'', JBool True), (''frequency'', JStr ''weekly''), (''day_of_week'', JInt 1), (''hour'', JInt 2), (''keep'', JNull)]"

definition get_auto_setting :: "backup_db \<Rightarrow> backup_db \<times> integration_setting" where
  "get_auto_setting db =
    (case get_row st_key AUTO_BACKUP_KEY (integrations db) of
       Some r \<Rightarrow> (db, r)
     | None \<Rightarrow>
         let r = \<lparr>st_id = fresh_id st_id (integrations db), st_key = AUTO_BACKUP_KEY, st_title = ''Avtomatik backup'',
                   st_value = JObj DEFAULT_AUTO_CONFIG, st_active = True\<rparr>
         in (db\<lparr>integrations := add_row r (integrations db)\<rparr>, r))"

text \<open>\<open>{**a, **b}\<close>: entries of \<open>b\<close> win; something that is not a mapping cannot be spread.\<close>

fun spread :: "(string \<times> json) list \<Rightarrow> json \<Rightarrow> (string \<times> json) list res" where
  "spread a (JObj b) = Inr (AList.merge a b)"
| "spread a v = (if truthy v then Inl (ServerError ''TypeError'') else Inr a)"

definition get_auto_config :: "backup_db \<Rightarrow> backup_db \<times> (string \<times> json) list res" where
  "get_auto_config db = (let (db1, r) = get_auto_setting db in (db1, spread DEFAULT_AUTO_CONFIG (st_value r)))"

definition set_auto_config :: "(string \<times> json) list \<Rightarrow> backup_db \<Rightarrow> backup_db \<times> (string \<times> json) list res" where
  "set_auto_config changes db =
    (let (db1, r) = get_auto_setting db;
         (db2, cfg) = get_auto_config db1
     in case cfg of
          Inl e \<Rightarrow> (db2, Inl e)
        | Inr c \<Rightarrow>
            let v = AList.merge c changes
            in (db2\<lparr>integrations := upd_row st_id (st_id r) (\<lambda>x. x\<lparr>st_value := JObj v\<rparr>) (integrations db2)\<rparr>, Inr v))"

definition auto_backup_enabled :: "backup_db \<Rightarrow> backup_db \<times> bool res" where
  "auto_backup_enabled db =
    (let (db1, cfg) = get_auto_config db
     in (db1, bindE cfg (\<lambda>c. Inr (case map_of c ''enabled'' of None \<Rightarrow> True | Some v \<Rightarrow> truthy v))))"

record backup_settings =
  bs_enabled :: "bool option"
  bs_weekly :: bool
  bs_day :: "int option"
  bs_hour :: "int option"
  bs_keep :: "int option option"

definition sent_field :: "string \<Rightarrow> ('a \<Rightarrow> json) \<Rightarrow> 'a option \<Rightarrow> (string \<times> json) list" where
  "sent_field k f x = (case x of None \<Rightarrow> [] | Some v \<Rightarrow> [(k, f v)])"

definition within :: "int \<Rightarrow> int \<Rightarrow> int option \<Rightarrow> bool" where
  "within lo hi x = (case x of None \<Rightarrow> True | Some i \<Rightarrow> lo \<le> i \<and> i \<le> hi)"

definition validate_settings :: "backup_settings \<Rightarrow> (string \<times> json) list res" where
  "validate_settings s =
    bindE (guardE (within 0 6 (bs_day s) \<and> within 0 23 (bs_hour s) \<and> (case bs_keep s of None \<Rightarrow> True | Some k \<Rightarrow> within 1 365 k))
            (ValidationError ''Ensure this value is in range.'')) (\<lambda>_.
      Inr (sent_field ''enabled'' JBool (bs_enabled s) @ (if bs_weekly s then [(''frequency'', JStr ''weekly'')] else []) @
           sent_field ''day_of_week'' JInt (bs_day s) @ sent_field ''hour'' JInt (bs_hour s) @
           sent_field ''keep'' (\<lambda>k. case k of None \<Rightarrow> JNull | Some i \<Rightarrow> JInt i) (bs_keep s)))"

definition DashboardBackupSettings_get :: "backup_db \<Rightarrow> backup_db \<times> (string \<times> json) list res" where
  "DashboardBackupSettings_get db = get_auto_config db"

definition DashboardBackupSettings_patch :: "backup_settings \<Rightarrow> backup_db \<Rightarrow> backup_db \<times> (string \<times> json) list res" where
  "DashboardBackupSettings_patch s db =
    (case validate_settings s of Inl e \<Rightarrow> (db, Inl e) | Inr changes \<Rightarrow> set_auto_config changes db)"

section \<open>Deleting and pruning\<close>

definition delete_file :: "backup_env \<Rightarrow> string \<Rightarrow> disk \<Rightarrow> disk" where
  "delete_file e name d = (if on_disk name d \<and> \<not> be_locked e name then AList.delete name d else d)"

definition delete_backup :: "backup_env \<Rightarrow> backup \<Rightarrow> backup_db \<Rightarrow> backup_db" where
  "delete_backup e b db =
    db\<lparr>disk := delete_file e (bk_filename b) (disk db), backups := del_row bk_id (bk_id b) (backups db)\<rparr>"

text \<open>The start of a slice; the query set refuses negative ones and what is not a number.\<close>

fun slice_start :: "json \<Rightarrow> nat res" where
  "slice_start (JInt i) = (if i < 0 then Inl (ServerError ''ValueError'') else Inr (nat i))"
| "slice_start (JBool b) = Inr (if b then 1 else 0)"
| "slice_start (JFloat n d) = (if n < 0 then Inl (ServerError ''ValueError'') else Inr (nat (n div int d)))"
| "slice_start JNull = Inr 0"
| "slice_start _ = Inl (ServerError ''TypeError'')"

definition keep_value :: "int \<Rightarrow> (string \<times> json) list \<Rightarrow> json" where
  "keep_value fallback cfg = (case map_of cfg ''keep'' of None \<Rightarrow> JInt fallback | Some v \<Rightarrow> if truthy v then v else JInt fallback)"

text \<open>The rows in their default order are the newest first.\<close>

definition prune_old_backups :: "backup_env \<Rightarrow> backup_db \<Rightarrow> backup_db \<times> unit res" where
  "prune_old_backups e db =
    (let (db1, cfg) = get_auto_config db
     in case bindE cfg (\<lambda>c. slice_start (keep_value (be_keep e) c)) of
          Inl err \<Rightarrow> (db1, Inl err)
        | Inr keep \<Rightarrow> (fold (delete_backup e) (drop keep (rev (backups db1))) db1, Inr ()))"

section \<open>Creating\<close>

definition engine_name :: "string \<Rightarrow> string" where
  "engine_name path =
    (if contains ''postgres'' path then ''postgresql'' else if contains ''sqlite'' path then ''sqlite''
     else rev (takeWhile (\<lambda>c. c \<noteq> CHR ''.'') (rev path)))"

definition suffixed_filename :: "backup_env \<Rightarrow> string" where
  "suffixed_filename e = ''backup_'' @ be_stamp e @ ''_'' @ be_hex e @ ''.sql''"

definition backup_filename :: "backup_env \<Rightarrow> backup_db \<Rightarrow> string" where
  "backup_filename e db =
    (let filename = ''backup_'' @ be_stamp e @ ''.sql''
     in if on_disk filename (disk db) \<or> get_row bk_filename filename (backups db) \<noteq> None
        then suffixed_filename e else filename)"

definition write_dump :: "backup_env \<Rightarrow> string \<Rightarrow> disk \<Rightarrow> disk \<times> nat res" where
  "write_dump e name d =
    (if engine_name (be_engine e) \<notin> {''sqlite'', ''postgresql''} then (d, Inl (ServerError ''RuntimeError''))
     else case be_dump e name of
       DumpWritten n \<Rightarrow> (AList.update name n d, Inr n)
     | DumpFailed n msg \<Rightarrow> (AList.update name n d, Inl (ServerError msg)))"

definition create_backup :: "backup_env \<Rightarrow> backup_source \<Rightarrow> row_id option \<Rightarrow> string \<Rightarrow> backup_db \<Rightarrow> backup_db \<times> backup res" where
  "create_backup e source user txt' db =
    (let name = backup_filename e db;
         (d1, dumped) = write_dump e name (disk db);
         db1 = db\<lparr>disk := d1\<rparr>
     in case dumped of
          Inl err \<Rightarrow> (db1, Inl err)
        | Inr n \<Rightarrow>
            if get_row bk_filename name (backups db) \<noteq> None then (db1, Inl (IntegrityError ''dashboard_dashboardbackup.filename''))
            else
              let b = \<lparr>bk_id = fresh_id bk_id (backups db), bk_filename = name, bk_size = n, bk_engine = engine_name (be_engine e),
                       bk_source = source, bk_note = txt', bk_created_by = user\<rparr>;
                  (db2, pruned) = prune_old_backups e (db1\<lparr>backups := add_row b (backups db)\<rparr>)
              in (db2, bindE pruned (\<lambda>_. Inr b)))"

definition DashboardBackup_create :: "backup_env \<Rightarrow> row_id \<Rightarrow> string \<Rightarrow> backup_db \<Rightarrow> backup_db \<times> backup res" where
  "DashboardBackup_create e user txt' db = create_backup e MANUAL (Some user) txt' db"

definition create_now :: "backup_env \<Rightarrow> row_id \<Rightarrow> backup_db \<Rightarrow> backup_db \<times> backup res" where
  "create_now e user db = create_backup e MANUAL (Some user) [] db"

definition create_backup_command :: "backup_env \<Rightarrow> bool \<Rightarrow> string \<Rightarrow> backup_db \<Rightarrow> backup_db \<times> backup res" where
  "create_backup_command e auto' txt' db = create_backup e (if auto' then AUTO else MANUAL) None txt' db"

text \<open>The weekly task; \<open>None\<close> stands for a skipped run.\<close>

definition create_weekly_backup :: "backup_env \<Rightarrow> backup_db \<Rightarrow> backup_db \<times> backup option res" where
  "create_weekly_backup e db =
    (let (db1, enabled) = auto_backup_enabled db
     in case enabled of
          Inl err \<Rightarrow> (db1, Inl err)
        | Inr b \<Rightarrow>
            if \<not> b then (db1, Inr None)
            else let (db2, r) = create_backup e AUTO None ''Haftalik avtomatik backup'' db1 in (db2, bindE r (\<lambda>x. Inr (Some x))))"

text \<open>The beat schedule is fixed: Monday (1) at two.\<close>

definition beat_schedule :: "nat \<times> nat" where
  "beat_schedule = (1, 2)"

definition DashboardBackup_get_queryset :: "backup_db \<Rightarrow> backup list" where
  "DashboardBackup_get_queryset db = rev (backups db)"

definition DashboardBackup_perform_destroy :: "backup_env \<Rightarrow> row_id \<Rightarrow> backup_db \<Rightarrow> backup_db res" where
  "DashboardBackup_perform_destroy e pk db =
    bindE (get_or_404 ''DashboardBackup'' (get_row bk_id pk (backups db))) (\<lambda>b. Inr (delete_backup e b db))"

text \<open>The admin site deletes the row only: \<open>DashboardBackupAdmin\<close> keeps the deletion of the framework.\<close>

definition DashboardBackupAdmin_delete :: "row_id \<Rightarrow> backup_db \<Rightarrow> backup_db" where
  "DashboardBackupAdmin_delete pk db = db\<lparr>backups := del_row bk_id pk (backups db)\<rparr>"

definition DashboardBackupDownload_get :: "row_id \<Rightarrow> backup_db \<Rightarrow> (string \<times> nat) res" where
  "DashboardBackupDownload_get pk db =
    bindE (get_or_404 ''DashboardBackup'' (get_row bk_id pk (backups db))) (\<lambda>b.
      case map_of (disk db) (bk_filename b) of
        None \<Rightarrow> Inl (NotFound ''Backup fayli topilmadi'')
      | Some n \<Rightarrow> Inr (bk_filename b, n))"

text \<open>The size for people: \<open>k\<close> counts the divisions by 1024; the number is printed with one decimal.\<close>

definition tenths_str :: "int \<Rightarrow> string" where
  "tenths_str n = int_str (n div 10) @ ''.'' @ int_str (n mod 10)"

fun size_in :: "string list \<Rightarrow> nat \<Rightarrow> nat \<Rightarrow> string" where
  "size_in [] n k = tenths_str (round_half_even (10 * int n) (1024 ^ k)) @ '' TB''"
| "size_in (u # us) n k =
    (if n < 1024 ^ Suc k
     then (if u = ''B'' then int_str (round_half_even (int n) (1024 ^ k)) else tenths_str (round_half_even (10 * int n) (1024 ^ k))) @ '' '' @ u
     else size_in us n (Suc k))"

definition get_size_human :: "backup \<Rightarrow> string" where
  "get_size_human b = size_in [''B'', ''KB'', ''MB'', ''GB''] (bk_size b) 0"

section \<open>Integration settings\<close>

record integration_patch =
  ip_key :: "string option"
  ip_title :: "string option"
  ip_value :: "json option"
  ip_active :: "bool option"

definition apply_integration_patch :: "integration_patch \<Rightarrow> integration_setting \<Rightarrow> integration_setting" where
  "apply_integration_patch p r =
    r\<lparr>st_key := sent_or (ip_key p) (st_key r), st_title := sent_or (ip_title p) (st_title r),
      st_value := sent_or (ip_value p) (st_value r), st_active := sent_or (ip_active p) (st_active r)\<rparr>"

definition validate_integration :: "row_id option \<Rightarrow> integration_patch \<Rightarrow> backup_db \<Rightarrow> unit res" where
  "validate_integration self p db =
    (if ip_title p = Some [] \<or> ip_key p = Some [] then Inl (ValidationError ''This field may not be blank.'')
     else if ip_value p = Some JNull then Inl (ValidationError ''This field may not be null.'')
     else case ip_key p of
       None \<Rightarrow> Inr ()
     | Some v \<Rightarrow> guardE (list_all slug_char v \<and> \<not> list_ex (\<lambda>r. st_key r = v \<and> Some (st_id r) \<noteq> self) (integrations db))
                   (ValidationError ''dashboard integration setting with this key already exists.''))"

definition DashboardIntegrationSetting_create :: "integration_patch \<Rightarrow> backup_db \<Rightarrow> backup_db res" where
  "DashboardIntegrationSetting_create p db =
    bindE (validate_integration None p db) (\<lambda>_.
      bindE (guardE (ip_key p \<noteq> None \<and> ip_title p \<noteq> None) (ValidationError ''This field is required.'')) (\<lambda>_.
        Inr (db\<lparr>integrations := add_row (apply_integration_patch p \<lparr>st_id = fresh_id st_id (integrations db), st_key = [], st_title = [],
               st_value = JObj [], st_active = True\<rparr>) (integrations db)\<rparr>)))"

definition DashboardIntegrationSetting_update :: "row_id \<Rightarrow> integration_patch \<Rightarrow> backup_db \<Rightarrow> backup_db res" where
  "DashboardIntegrationSetting_update pk p db =
    bindE (get_or_404 ''DashboardIntegrationSetting'' (get_row st_id pk (integrations db))) (\<lambda>r.
      bindE (validate_integration (Some pk) p db) (\<lambda>_.
        Inr (db\<lparr>integrations := upd_row st_id pk (\<lambda>_. apply_integration_patch p r) (integrations db)\<rparr>)))"

definition DashboardIntegrationSetting_destroy :: "row_id \<Rightarrow> backup_db \<Rightarrow> backup_db res" where
  "DashboardIntegrationSetting_destroy pk db =
    bindE (get_or_404 ''DashboardIntegrationSetting'' (get_row st_id pk (integrations db))) (\<lambda>_.
      Inr (db\<lparr>integrations := del_row st_id pk (integrations db)\<rparr>))"

definition DashboardIntegrationSetting_get_queryset :: "query \<Rightarrow> backup_db \<Rightarrow> integration_setting list" where
  "DashboardIntegrationSetting_get_queryset q db =
    keep_if (bool_param (map_of q ''is_active'')) (\<lambda>b r. st_active r = b) (integrations db)"

end
