(* ===== verification/Backup_Props.thy ===== *)
theory Backup_Props
  imports Backups
begin

text \<open>
  Retention of backups, failing dumps, and the settings of automatic backups.
\<close>

section \<open>Lists of rows\<close>

lemma rest_of_distinct:
  assumes "keys_distinct key rows"
  shows "filter (\<lambda>r. key r \<notin> key ` set (take m rows)) rows = drop m rows"
  using assms
proof (induction rows arbitrary: m)
  case (Cons a rows)
  show ?case
  proof (cases m)
    case (Suc k)
    have "filter (\<lambda>r. key r \<notin> key ` set (take m (a # rows))) (a # rows) =
        filter (\<lambda>r. key r \<noteq> key a \<and> key r \<notin> key ` set (take k rows)) rows"
      by (simp add: Suc)
    also have "\<dots> = filter (\<lambda>r. key r \<notin> key ` set (take k rows)) rows"
      using Cons.prems by (intro filter_cong) (auto simp: keys_distinct_def, metis imageI)
    finally show ?thesis using Cons by (simp add: Suc keys_distinct_def)
  qed simp
qed simp

lemma drop_rev_rows: "drop m (rev xs) = rev (take (length xs - m) xs)"
  by (cases "m \<le> length xs") (simp_all add: rev_take)

section \<open>Pruning\<close>

lemma backups_delete_file [simp]: "integrations (delete_backup e b db) = integrations db"
  by (simp add: delete_backup_def)

lemma map_of_delete_file:
  "map_of (delete_file e x d) n = (if n = x \<and> \<not> be_locked e x then None else map_of d n)"
  by (auto simp: delete_file_def on_disk_def delete_conv' split: if_splits)

lemma fold_delete_backups:
  "backups (fold (delete_backup e) xs db) = filter (\<lambda>c. bk_id c \<notin> bk_id ` set xs) (backups db)"
  by (induction xs arbitrary: db) (auto simp: delete_backup_def del_row_def intro!: filter_cong)

lemma fold_delete_disk:
  "map_of (disk (fold (delete_backup e) xs db)) n =
    (if n \<in> bk_filename ` set xs \<and> \<not> be_locked e n then None else map_of (disk db) n)"
  by (induction xs arbitrary: db) (auto simp: delete_backup_def map_of_delete_file)

definition backup_inv :: "backup_db \<Rightarrow> bool" where
  "backup_inv db \<longleftrightarrow> keys_distinct bk_id (backups db) \<and> keys_distinct bk_filename (backups db)"

definition config_of :: "backup_db \<Rightarrow> (string \<times> json) list res" where
  "config_of db = snd (get_auto_config db)"

lemma get_auto_config_tables:
  assumes "get_auto_config db = (db1, r)"
  shows "backups db1 = backups db" "disk db1 = disk db"
  using assms by (auto simp: get_auto_config_def get_auto_setting_def Let_def split: option.splits prod.splits)

lemma config_of_tables [simp]: "config_of (db\<lparr>backups := rows, disk := d\<rparr>) = config_of db" "config_of (db\<lparr>disk := d, backups := rows\<rparr>) = config_of db"
  by (simp_all add: config_of_def get_auto_config_def get_auto_setting_def Let_def split: option.splits)

lemma prune_run:
  assumes "prune_old_backups e db = (db', Inr u)" and "keys_distinct bk_id (backups db)"
  obtains cfg keep where "config_of db = Inr cfg" "slice_start (keep_value (be_keep e) cfg) = Inr keep"
    "backups db' = drop (length (backups db) - keep) (backups db)"
    "\<And>n. map_of (disk db') n =
      (if n \<in> bk_filename ` set (take (length (backups db) - keep) (backups db)) \<and> \<not> be_locked e n then None else map_of (disk db) n)"
proof -
  obtain db1 r where g: "get_auto_config db = (db1, r)" by fastforce
  with assms(1) obtain cfg keep where cfg: "r = Inr cfg" and keep: "slice_start (keep_value (be_keep e) cfg) = Inr keep"
    and db': "db' = fold (delete_backup e) (drop keep (rev (backups db1))) db1"
    by (auto simp: prune_old_backups_def Let_def split: sum.splits)
  note tabs = get_auto_config_tables [OF g]
  have gone: "set (drop keep (rev (backups db))) = set (take (length (backups db) - keep) (backups db))"
    by (simp add: drop_rev_rows)
  show ?thesis
  proof (rule that)
    show "config_of db = Inr cfg" by (simp add: config_of_def g cfg)
    show "slice_start (keep_value (be_keep e) cfg) = Inr keep" by (rule keep)
    show "backups db' = drop (length (backups db) - keep) (backups db)"
      unfolding db' fold_delete_backups tabs gone by (rule rest_of_distinct [OF assms(2)])
    show "map_of (disk db') n =
        (if n \<in> bk_filename ` set (take (length (backups db) - keep) (backups db)) \<and> \<not> be_locked e n then None else map_of (disk db) n)" for n
      unfolding db' fold_delete_disk tabs gone by (rule refl)
  qed
qed

section \<open>Creating a backup\<close>

lemma create_backup_run:
  assumes "create_backup e source user t db = (db', Inr b)"
  obtains db1 where "prune_old_backups e (db1\<lparr>backups := add_row b (backups db)\<rparr>) = (db', Inr ())"
    "db1 = db\<lparr>disk := AList.update (bk_filename b) (bk_size b) (disk db)\<rparr>"
    "get_row bk_filename (bk_filename b) (backups db) = None" "bk_id b = fresh_id bk_id (backups db)"
    "be_dump e (bk_filename b) = DumpWritten (bk_size b)" "bk_source b = source" "bk_created_by b = user"
    "bk_filename b = backup_filename e db"
proof -
  let ?name = "backup_filename e db"
  obtain d1 r where w: "write_dump e ?name (disk db) = (d1, r)" by fastforce
  with assms obtain n where r: "r = Inr n" and new: "get_row bk_filename ?name (backups db) = None"
    by (auto simp: create_backup_def Let_def split: sum.splits if_splits prod.splits)
  from w r have d1: "d1 = AList.update ?name n (disk db)" and dump: "be_dump e ?name = DumpWritten n"
    by (auto simp: write_dump_def split: if_splits dump_result.splits)
  define b0 where "b0 = \<lparr>bk_id = fresh_id bk_id (backups db), bk_filename = ?name, bk_size = n, bk_engine = engine_name (be_engine e),
     bk_source = source, bk_note = t, bk_created_by = user\<rparr>"
  obtain db2 u where p: "prune_old_backups e (db\<lparr>disk := d1, backups := add_row b0 (backups db)\<rparr>) = (db2, u)" by fastforce
  have "create_backup e source user t db = (db2, bindE u (\<lambda>_. Inr b0))"
    using p new by (simp add: create_backup_def Let_def w r b0_def)
  with assms have "db2 = db'" "u = Inr ()" "b = b0" by auto
  with p show ?thesis using dump d1 new by (intro that [of "db\<lparr>disk := d1\<rparr>"]) (simp_all add: b0_def)
qed

lemma retention:
  assumes run: "create_backup e source user t db = (db', Inr b)" and inv: "backup_inv db"
    and cfg: "config_of db = Inr cfg" and keep: "slice_start (keep_value (be_keep e) cfg) = Inr keep"
  shows "backups db' = drop (Suc (length (backups db)) - keep) (backups db @ [b])"
    "map_of (disk db') n =
      (if n \<in> bk_filename ` set (take (Suc (length (backups db)) - keep) (backups db @ [b])) \<and> \<not> be_locked e n then None
       else if n = bk_filename b then Some (bk_size b) else map_of (disk db) n)"
    "keys_distinct bk_id (backups db @ [b])" "keys_distinct bk_filename (backups db @ [b])"
proof -
  from run obtain db1 where p: "prune_old_backups e (db1\<lparr>backups := add_row b (backups db)\<rparr>) = (db', Inr ())"
    and db1: "db1 = db\<lparr>disk := AList.update (bk_filename b) (bk_size b) (disk db)\<rparr>"
    and new: "get_row bk_filename (bk_filename b) (backups db) = None" and id: "bk_id b = fresh_id bk_id (backups db)"
    by (rule create_backup_run)
  let ?db = "db1\<lparr>backups := add_row b (backups db)\<rparr>"
  have dist: "keys_distinct bk_id (backups db @ [b])" "keys_distinct bk_filename (backups db @ [b])"
    using inv id new fresh_id_notin [of bk_id "backups db"]
    by (auto simp: backup_inv_def keys_distinct_def get_row_None_iff simp del: fresh_id_notin)
  then show "keys_distinct bk_id (backups db @ [b])" "keys_distinct bk_filename (backups db @ [b])" by simp_all
  have d: "keys_distinct bk_id (backups ?db)" using dist by (simp add: add_row_def)
  obtain cfg' keep' where c: "config_of ?db = Inr cfg'" "slice_start (keep_value (be_keep e) cfg') = Inr keep'"
    and res: "backups db' = drop (length (backups ?db) - keep') (backups ?db)"
    "\<And>n. map_of (disk db') n =
      (if n \<in> bk_filename ` set (take (length (backups ?db) - keep') (backups ?db)) \<and> \<not> be_locked e n then None else map_of (disk ?db) n)"
    using prune_run [OF p d] by metis
  have "config_of ?db = config_of db" by (simp add: db1)
  with c cfg keep have "keep' = keep" by simp
  with res show "backups db' = drop (Suc (length (backups db)) - keep) (backups db @ [b])"
    "map_of (disk db') n =
      (if n \<in> bk_filename ` set (take (Suc (length (backups db)) - keep) (backups db @ [b])) \<and> \<not> be_locked e n then None
       else if n = bk_filename b then Some (bk_size b) else map_of (disk db) n)"
    by (simp_all add: db1 add_row_def update_conv')
qed

text \<open>C35: A successful backup leaves at most the configured number of backups, the newest ones and
  the new one among them; their files are on disk as they were written, the files of the dropped
  ones are gone unless the system refuses to delete them, and no other file is touched.\<close>

theorem retention_keeps_newest:
  assumes "create_backup e source user t db = (db', Inr b)" and "backup_inv db"
    and "config_of db = Inr cfg" and "slice_start (keep_value (be_keep e) cfg) = Inr keep" and "0 < keep"
  shows "length (backups db') = min keep (Suc (length (backups db))) \<and> backup_inv db' \<and>
    (\<exists>old. backups db @ [b] = old @ backups db' \<and>
      (\<forall>c \<in> set old. on_disk (bk_filename c) (disk db') \<longrightarrow> be_locked e (bk_filename c))) \<and>
    last (backups db') = b \<and> map_of (disk db') (bk_filename b) = Some (bk_size b) \<and>
    (\<forall>c \<in> set (backups db') - {b}. map_of (disk db') (bk_filename c) = map_of (disk db) (bk_filename c)) \<and>
    (\<forall>n. n \<notin> bk_filename ` set (backups db @ [b]) \<longrightarrow> map_of (disk db') n = map_of (disk db) n)"
proof -
  let ?all = "backups db @ [b]" and ?m = "Suc (length (backups db)) - keep"
  note ret = retention [OF assms(1-4)]
  have split: "?all = take ?m ?all @ backups db'" by (simp only: ret(1) append_take_drop_id)
  then have dist: "distinct (map bk_filename (take ?m ?all) @ map bk_filename (backups db'))"
    and ids: "distinct (map bk_id (take ?m ?all) @ map bk_id (backups db'))"
    using ret(3,4) by (metis keys_distinct_def map_append)+
  have len: "length (backups db') = min keep (Suc (length (backups db)))" by (simp add: ret(1))
  then have ne: "backups db' \<noteq> []" using assms(5) by auto
  have last': "last (backups db') = b" using split ne by (metis last_append last_snoc)
  then have b_in: "b \<in> set (backups db')" using ne by (metis last_in_set)
  have kept: "map_of (disk db') (bk_filename c) = (if bk_filename c = bk_filename b then Some (bk_size b) else map_of (disk db) (bk_filename c))"
    if "c \<in> set (backups db')" for c
  proof -
    have "bk_filename c \<notin> bk_filename ` set (take ?m ?all)" using dist that by auto
    then show ?thesis by (simp add: ret(2))
  qed
  have other: "bk_filename c \<noteq> bk_filename b" if "c \<in> set (backups db') - {b}" for c
    using dist b_in that by (auto simp: distinct_map inj_on_def)
  have "\<forall>c \<in> set (backups db') - {b}. map_of (disk db') (bk_filename c) = map_of (disk db) (bk_filename c)"
    using kept other by simp
  moreover have "\<forall>n. n \<notin> bk_filename ` set ?all \<longrightarrow> map_of (disk db') n = map_of (disk db) n"
    using set_take_subset [of ?m ?all] by (auto simp: ret(2))
  moreover have "\<forall>c \<in> set (take ?m ?all). on_disk (bk_filename c) (disk db') \<longrightarrow> be_locked e (bk_filename c)"
    by (auto simp: ret(2) on_disk_def split: if_splits)
  moreover have "backup_inv db'" using dist ids by (simp add: backup_inv_def keys_distinct_def)
  moreover have "map_of (disk db') (bk_filename b) = Some (bk_size b)" using kept [OF b_in] by simp
  ultimately show ?thesis using len last' split by blast
qed

text \<open>When the dump fails no row is written and nothing is pruned: every backup that is there
  keeps its row and its file, also when the new file name had to be made unique.\<close>

theorem failed_dump_keeps_backups:
  assumes "be_dump e (backup_filename e db) = DumpFailed n msg" and "engine_name (be_engine e) \<in> {''sqlite'', ''postgresql''}"
    and "get_row bk_filename (suffixed_filename e) (backups db) = None"
  shows "\<exists>db'. create_backup e source user t db = (db', Inl (ServerError msg)) \<and> backups db' = backups db \<and>
    (\<forall>c \<in> set (backups db). map_of (disk db') (bk_filename c) = map_of (disk db) (bk_filename c)) \<and>
    map_of (disk db') (backup_filename e db) = Some n"
proof -
  let ?name = "backup_filename e db"
  have "get_row bk_filename ?name (backups db) = None" using assms(3) by (simp add: backup_filename_def Let_def)
  then have "bk_filename c \<noteq> ?name" if "c \<in> set (backups db)" for c
    using that by (metis get_row_None_iff imageI)
  moreover have "write_dump e ?name (disk db) = (AList.update ?name n (disk db), Inl (ServerError msg))"
    using assms(1,2) by (simp add: write_dump_def)
  ultimately show ?thesis by (auto simp: create_backup_def Let_def update_conv')
qed

section \<open>Settings\<close>

lemma spread_merge: "map_of (AList.merge a b) k = (case map_of b k of Some v \<Rightarrow> Some v | None \<Rightarrow> map_of a k)"
  by (simp add: merge_conv' map_add_def)

lemma get_auto_setting_run:
  assumes "get_auto_setting db = (db1, r)"
  shows "get_row st_key AUTO_BACKUP_KEY (integrations db1) = Some r"
    "get_auto_setting db1 = (db1, r)" "keys_distinct st_id (integrations db) \<Longrightarrow> keys_distinct st_id (integrations db1)"
proof -
  show "get_row st_key AUTO_BACKUP_KEY (integrations db1) = Some r"
    using assms by (auto simp: get_auto_setting_def Let_def get_row_add split: option.splits)
  then show "get_auto_setting db1 = (db1, r)" by (simp add: get_auto_setting_def)
  show "keys_distinct st_id (integrations db) \<Longrightarrow> keys_distinct st_id (integrations db1)"
    using assms fresh_id_notin [of st_id "integrations db"]
    by (auto simp: get_auto_setting_def Let_def keys_distinct_add simp del: fresh_id_notin split: option.splits)
qed

text \<open>A change of the settings of automatic backups is read back: the sent fields have the sent
  values, every other field the value it had, defaults included.\<close>

theorem backup_settings_read_back:
  assumes "DashboardBackupSettings_patch s db = (db', Inr cfg)" and "keys_distinct st_id (integrations db)"
  shows "\<exists>changes old cfg'. validate_settings s = Inr changes \<and> config_of db = Inr old \<and>
    DashboardBackupSettings_get db' = (db', Inr cfg') \<and> map_of cfg' = map_of cfg \<and>
    (\<forall>k. map_of cfg k = (case map_of changes k of Some v \<Rightarrow> Some v | None \<Rightarrow> map_of old k)) \<and>
    (\<forall>k \<in> fst ` set DEFAULT_AUTO_CONFIG. map_of cfg k \<noteq> None)"
proof -
  obtain changes where ch: "validate_settings s = Inr changes" and set: "set_auto_config changes db = (db', Inr cfg)"
    using assms(1) by (auto simp: DashboardBackupSettings_patch_def split: sum.splits)
  obtain db1 r where s1: "get_auto_setting db = (db1, r)" by fastforce
  note run = get_auto_setting_run [OF s1]
  have g1: "get_auto_config db1 = (db1, spread DEFAULT_AUTO_CONFIG (st_value r))" by (simp add: get_auto_config_def run(2))
  have g0: "config_of db = spread DEFAULT_AUTO_CONFIG (st_value r)" by (simp add: config_of_def get_auto_config_def s1)
  from set obtain old where old: "spread DEFAULT_AUTO_CONFIG (st_value r) = Inr old" and cfg: "cfg = AList.merge old changes"
    and db': "db' = db1\<lparr>integrations := upd_row st_id (st_id r) (\<lambda>x. x\<lparr>st_value := JObj cfg\<rparr>) (integrations db1)\<rparr>"
    by (auto simp: set_auto_config_def s1 g1 Let_def split: sum.splits)
  have "get_row st_key AUTO_BACKUP_KEY (upd_row st_id (st_id r) (\<lambda>x. x\<lparr>st_value := JObj cfg\<rparr>) rows) = Some (r\<lparr>st_value := JObj cfg\<rparr>)"
    if "get_row st_key AUTO_BACKUP_KEY rows = Some r" for rows
    using that by (induction rows) (auto simp: upd_row_def split: if_splits)
  from this [OF run(1)] have get': "DashboardBackupSettings_get db' = (db', Inr (AList.merge DEFAULT_AUTO_CONFIG cfg))"
    by (simp add: DashboardBackupSettings_get_def get_auto_config_def get_auto_setting_def db')
  have defaults: "map_of old k \<noteq> None" if "map_of DEFAULT_AUTO_CONFIG k \<noteq> None" for k
    using that old by (cases "st_value r") (auto simp: spread_merge split: if_splits option.splits)
  then have full: "map_of cfg k \<noteq> None" if "map_of DEFAULT_AUTO_CONFIG k \<noteq> None" for k
    using that by (auto simp: cfg spread_merge split: option.split)
  have same: "map_of (AList.merge DEFAULT_AUTO_CONFIG cfg) k = map_of cfg k" for k
    using full [of k] by (cases "map_of DEFAULT_AUTO_CONFIG k") (auto simp: spread_merge split: option.split)
  have "map_of cfg k = (case map_of changes k of Some v \<Rightarrow> Some v | None \<Rightarrow> map_of old k)" for k by (simp add: cfg spread_merge)
  moreover have "map_of cfg k \<noteq> None" if "k \<in> fst ` set DEFAULT_AUTO_CONFIG" for k
    using full that by (simp add: map_of_eq_None_iff)
  ultimately show ?thesis
    by (intro exI [of _ changes] exI [of _ old] exI [of _ "AList.merge DEFAULT_AUTO_CONFIG cfg"])
      (use ch g0 old get' same in \<open>simp add: fun_eq_iff\<close>)
qed

section \<open>Corners\<close>

text \<open>The generic page of settings accepts any JSON: a value that is not an object makes every
  reading of the configuration fail, a backup after it is written and then answered with an error.\<close>

lemma broken_config:
  assumes "get_row st_key AUTO_BACKUP_KEY (integrations db) = Some r" and "st_value r = JStr v" and "v \<noteq> []"
  shows "get_auto_config db = (db, Inl (ServerError ''TypeError''))"
    "set_auto_config changes db = (db, Inl (ServerError ''TypeError''))"
    "create_weekly_backup e db = (db, Inl (ServerError ''TypeError''))"
  using assms
  by (simp_all add: set_auto_config_def get_auto_setting_def get_auto_config_def create_weekly_backup_def auto_backup_enabled_def)

text \<open>Deleting a backup over the admin site leaves its file on disk.\<close>

lemma admin_delete_keeps_file: "disk (DashboardBackupAdmin_delete pk db) = disk db"
  by (simp add: DashboardBackupAdmin_delete_def)

text \<open>A day and an hour that are set never reach the schedule.\<close>

section \<open>An example\<close>

definition backup_example_env :: backup_env where
  "backup_example_env = \<lparr>be_stamp = ''2026'', be_hex = ''ab12cd'', be_engine = ''django.db.backends.sqlite3'',
     be_dump = (\<lambda>n. DumpWritten 2048), be_keep = 30, be_locked = (\<lambda>n. False)\<rparr>"

definition backup_example :: backup_db where
  "backup_example = \<lparr>
     backups = [\<lparr>bk_id = 1, bk_filename = ''a.sql'', bk_size = 5, bk_engine = ''sqlite'', bk_source = AUTO, bk_note = [], bk_created_by = None\<rparr>,
       \<lparr>bk_id = 2, bk_filename = ''backup_2026.sql'', bk_size = 7, bk_engine = ''sqlite'', bk_source = AUTO, bk_note = [], bk_created_by = None\<rparr>],
     disk = [(''a.sql'', 5), (''backup_2026.sql'', 7)],
     integrations = [\<lparr>st_id = 1, st_key = ''auto_backup'', st_title = ''x'', st_value = JObj [(''keep'', JInt 2)], st_active = True\<rparr>]\<rparr>"

definition example_backup :: backup where
  "example_backup = \<lparr>bk_id = 3, bk_filename = ''backup_2026_ab12cd.sql'', bk_size = 2048, bk_engine = ''sqlite'', bk_source = MANUAL, bk_note = [],
     bk_created_by = Some 1\<rparr>"

lemma backup_example_runs:
  "map_prod (\<lambda>db. (backups db, disk db)) id (create_backup backup_example_env MANUAL (Some 1) [] backup_example) =
    (([backups backup_example ! 1, example_backup], [(''backup_2026.sql'', 7), (''backup_2026_ab12cd.sql'', 2048)]), Inr example_backup)"
  by code_simp

lemma backup_example_ok: "backup_inv backup_example"
  by (simp add: backup_inv_def backup_example_def keys_distinct_def)

lemma backup_example_config:
  "map_sum id (\<lambda>c. slice_start (keep_value (be_keep backup_example_env) c)) (config_of backup_example) = Inr (Inr 2)"
  by code_simp

theorem retention_keeps_newest_witness:
  "length (backups (fst (create_backup backup_example_env MANUAL (Some 1) [] backup_example))) = 2"
proof -
  obtain db' where run: "create_backup backup_example_env MANUAL (Some 1) [] backup_example = (db', Inr example_backup)"
    using backup_example_runs by (cases "create_backup backup_example_env MANUAL (Some 1) [] backup_example") simp
  obtain cfg where "config_of backup_example = Inr cfg" "slice_start (keep_value (be_keep backup_example_env) cfg) = Inr 2"
    using backup_example_config by (cases "config_of backup_example") auto
  from retention_keeps_newest [OF run backup_example_ok this] run show ?thesis by (simp add: backup_example_def)
qed

definition full_disk :: backup_env where
  "full_disk = backup_example_env\<lparr>be_dump := (\<lambda>n. DumpFailed 100 ''No space left on device'')\<rparr>"

theorem failed_dump_keeps_backups_witness:
  "backups (fst (create_backup full_disk AUTO None [] backup_example)) = backups backup_example"
proof -
  have "be_dump full_disk (backup_filename full_disk backup_example) = DumpFailed 100 ''No space left on device''"
    by (simp add: full_disk_def)
  moreover have "engine_name (be_engine full_disk) \<in> {''sqlite'', ''postgresql''}" by code_simp
  moreover have "get_row bk_filename (suffixed_filename full_disk) (backups backup_example) = None" by code_simp
  ultimately obtain db' where "create_backup full_disk AUTO None [] backup_example = (db', Inl (ServerError ''No space left on device''))"
    "backups db' = backups backup_example"
    using failed_dump_keeps_backups [where source = AUTO and user = None and t = "[]"] by metis
  then show ?thesis by simp
qed

definition keep_five :: backup_settings where
  "keep_five = \<lparr>bs_enabled = Some False, bs_weekly = False, bs_day = None, bs_hour = Some 3, bs_keep = Some (Some 5)\<rparr>"

theorem backup_settings_read_back_witness:
  "\<exists>db' cfg. DashboardBackupSettings_patch keep_five backup_example = (db', Inr cfg) \<and> map_of cfg ''day_of_week'' \<noteq> None"
proof -
  have ok: "case snd (DashboardBackupSettings_patch keep_five backup_example) of Inl e \<Rightarrow> False | Inr c \<Rightarrow> True" by code_simp
  obtain db' r where run: "DashboardBackupSettings_patch keep_five backup_example = (db', r)" by fastforce
  with ok obtain cfg where r: "r = Inr cfg" by (cases r) simp_all
  have "keys_distinct st_id (integrations backup_example)" by (simp add: backup_example_def keys_distinct_def)
  from backup_settings_read_back [OF run [unfolded r] this] have "map_of cfg ''day_of_week'' \<noteq> None"
    by (auto simp: DEFAULT_AUTO_CONFIG_def)
  with run r show ?thesis by blast
qed

lemma backup_example_size: "get_size_human example_backup = ''2.0 KB''"
proof -
  have "digit_char 2 = CHR ''2''" "digit_char 0 = CHR ''0''" by code_simp+
  then show ?thesis
    by (simp add: get_size_human_def example_backup_def round_half_even_def tenths_str_def int_str_def nat_str.simps Let_def)
qed

end
