(* ===== verification/Staff.thy ===== *)
theory Staff
  imports Master_Admin Payme_Model
begin

text \<open>
  The accounts of the dashboard: login, refresh and logout, the staff pages with their roles and
  permissions (\<open>src/apps/dashboard/serializers.py\<close>, \<open>views.py\<close>, \<open>models.py\<close>).

  \<^item> State: the framework's user table, the dashboard profiles and the blacklist of refresh tokens;
    \<open>with_staff\<close> shows the user table to the authentication of the accounts.
  \<^item> Passwords are checked by \<open>check\<close> and hashed by \<open>mk\<close>, tokens are signed and read by parameters.
    A token stands for its identifier on the blacklist; the claim
    \<open>username\<close> takes the place of \<open>phone\<close>. The permissions of a profile are any JSON.
\<close>

section \<open>State\<close>

record staff_account =
  sa_id :: row_id
  sa_username :: string
  sa_first_name :: string
  sa_last_name :: string
  sa_email :: string
  sa_password :: "string option"
  sa_staff :: bool
  sa_superuser :: bool
  sa_active :: bool

record staff_profile =
  sp_user :: row_id
  sp_role :: string
  sp_phone :: string
  sp_permissions :: json

record staff_db =
  staff_accounts :: "staff_account list"
  staff_profiles :: "staff_profile list"
  token_blacklist :: "string list"

definition as_subject :: "staff_account \<Rightarrow> staff_user" where
  "as_subject a = \<lparr>su_id = sa_id a, su_active = sa_active a, su_staff = sa_staff a\<rparr>"

definition with_staff :: "staff_db \<Rightarrow> accounts_db \<Rightarrow> accounts_db" where
  "with_staff sdb db = db\<lparr>staff := map as_subject (staff_accounts sdb)\<rparr>"

section \<open>Login, refresh, logout\<close>

definition issue_dashboard_tokens :: "(token \<Rightarrow> string) \<Rightarrow> instant \<Rightarrow> staff_account \<Rightarrow> issued_tokens" where
  "issue_dashboard_tokens sign now a =
    \<lparr>access_token = sign \<lparr>tk_refresh = False, tk_sub = Some (sa_id a), tk_role = RoleAdmin, tk_phone = sa_username a,
        tk_exp = now + ACCESS_TOKEN_DAYS * day_ms\<rparr>,
     refresh_token = sign \<lparr>tk_refresh = True, tk_sub = Some (sa_id a), tk_role = RoleAdmin, tk_phone = [],
        tk_exp = now + REFRESH_TOKEN_DAYS * day_ms\<rparr>,
     expires_in = ACCESS_TOKEN_DAYS * 24 * 60 * 60\<rparr>"

text \<open>The framework's \<open>authenticate\<close> finds the user by name, checks the password and refuses inactive
  users.\<close>

definition django_authenticate :: "(string \<Rightarrow> string \<Rightarrow> bool) \<Rightarrow> string \<Rightarrow> string \<Rightarrow> staff_db \<Rightarrow> staff_account option" where
  "django_authenticate check username password sdb =
    (case get_row sa_username username (staff_accounts sdb) of
       None \<Rightarrow> None
     | Some a \<Rightarrow> (case sa_password a of
                   None \<Rightarrow> None
                 | Some h \<Rightarrow> if check password h \<and> sa_active a then Some a else None))"

definition DashboardLogin_validate :: "(string \<Rightarrow> string \<Rightarrow> bool) \<Rightarrow> string \<Rightarrow> string \<Rightarrow> staff_db \<Rightarrow> staff_account res" where
  "DashboardLogin_validate check username password sdb =
    (case django_authenticate check username password sdb of
       None \<Rightarrow> Inl (ValidationError ''Username yoki parol noto'g'ri yoki user staff emas'')
     | Some a \<Rightarrow> if \<not> sa_active a \<or> \<not> sa_staff a then Inl (ValidationError ''Username yoki parol noto'g'ri yoki user staff emas'')
                 else Inr a)"

definition DashboardLogin_post ::
  "(token \<Rightarrow> string) \<Rightarrow> (string \<Rightarrow> string \<Rightarrow> bool) \<Rightarrow> instant \<Rightarrow> string \<Rightarrow> string \<Rightarrow> staff_db \<Rightarrow> issued_tokens res" where
  "DashboardLogin_post sign check now username password sdb =
    bindE (DashboardLogin_validate check username password sdb) (\<lambda>a. Inr (issue_dashboard_tokens sign now a))"

text \<open>\<open>RefreshToken(...)\<close> also looks at the blacklist.\<close>

definition unlisted :: "staff_db \<Rightarrow> (string \<Rightarrow> token option) \<Rightarrow> string \<Rightarrow> token option" where
  "unlisted sdb verify t = (if t \<in> set (token_blacklist sdb) then None else verify t)"

definition read_refresh :: "(string \<Rightarrow> token option) \<Rightarrow> instant \<Rightarrow> string \<Rightarrow> staff_db \<Rightarrow> token option" where
  "read_refresh verify now t sdb = read_token (unlisted sdb verify) True now t"

definition active_account :: "row_id \<Rightarrow> staff_db \<Rightarrow> staff_account option" where
  "active_account k sdb = get_row sa_id k (filter (\<lambda>a. sa_active a \<and> sa_staff a) (staff_accounts sdb))"

definition DashboardRefresh_create ::
  "(token \<Rightarrow> string) \<Rightarrow> (string \<Rightarrow> token option) \<Rightarrow> instant \<Rightarrow> string \<Rightarrow> staff_db \<Rightarrow> issued_tokens res" where
  "DashboardRefresh_create sign verify now t sdb =
    (case read_refresh verify now t sdb of
       None \<Rightarrow> Inl (ValidationError ''refresh_token'')
     | Some tk \<Rightarrow>
         if tk_role tk \<noteq> RoleAdmin then Inl (ValidationError ''Refresh token dashboard admin uchun emas'')
         else case tk_sub tk of
           None \<Rightarrow> Inl (ValidationError ''Admin user topilmadi'')
         | Some k \<Rightarrow> (case active_account k sdb of
                       None \<Rightarrow> Inl (ValidationError ''Admin user topilmadi'')
                     | Some a \<Rightarrow> Inr (issue_dashboard_tokens sign now a)))"

text \<open>Any refresh token the caller holds is put on the blacklist, whoever it belongs to.\<close>

definition DashboardLogout_save :: "(string \<Rightarrow> token option) \<Rightarrow> instant \<Rightarrow> string \<Rightarrow> staff_db \<Rightarrow> staff_db res" where
  "DashboardLogout_save verify now t sdb =
    (case read_refresh verify now t sdb of
       None \<Rightarrow> Inl (ValidationError ''refresh_token'')
     | Some _ \<Rightarrow> Inr (sdb\<lparr>token_blacklist := t # token_blacklist sdb\<rparr>))"

text \<open>The logout endpoints of masters and clients accept a refresh token and leave it alone.\<close>

definition MasterLogout_post :: "string option \<Rightarrow> staff_db \<Rightarrow> staff_db" where
  "MasterLogout_post t sdb = sdb"

section \<open>Roles and permissions\<close>

definition ADMIN_ROLE :: string where "ADMIN_ROLE = ''admin''"

definition OPERATOR_ROLE :: string where "OPERATOR_ROLE = ''operator''"

definition ROLES :: "(string \<times> string) list" where
  "ROLES = [(''admin'', ''Admin''), (''operator'', ''Operator''), (''warehouse'', ''Omborchi''), (''finance'', ''Moliyachi''), (''support'', ''Support'')]"

definition DASHBOARD_PERMISSION_LABELS :: "(string \<times> string) list" where
  "DASHBOARD_PERMISSION_LABELS =
    [(''dashboard'', ''Dashboard''), (''orders'', ''Buyurtmalar''), (''clients'', ''Mijozlar''), (''marketplace'', ''Marketplace''),
     (''tariffs'', ''Tariflar''), (''live'', ''Jonli kuzatuv''), (''live_tracking'', ''Jonli kuzatuv''), (''messages'', ''Xabarlar''),
     (''support'', ''Xabarlar''), (''services'', ''Xizmat va Narxlar''), (''masters'', ''Ustalar''), (''warehouse'', ''Ombor''),
     (''expenses'', ''Xarajatlar''), (''finance'', ''Moliya va Hisobot''), (''staff'', ''Xodimlar'')]"

text \<open>\<open>str.title()\<close>: a letter after something that is no letter is a capital, every other one small.\<close>

definition is_letter :: "char \<Rightarrow> bool" where
  "is_letter c = ((65 \<le> byte c \<and> byte c \<le> 90) \<or> (97 \<le> byte c \<and> byte c \<le> 122))"

fun title_from :: "bool \<Rightarrow> string \<Rightarrow> string" where
  "title_from inside [] = []"
| "title_from inside (c # cs) =
    (if is_letter c then (if inside then to_lower c else to_upper c) # title_from True cs else c # title_from False cs)"

definition label_or_title :: "(string \<times> string) list \<Rightarrow> string \<Rightarrow> string" where
  "label_or_title labels v =
    (case map_of labels v of
       Some l \<Rightarrow> l
     | None \<Rightarrow> title_from False (map (\<lambda>c. if c = CHR ''_'' then CHR '' '' else c) v))"

definition dashboard_permission_label :: "string \<Rightarrow> string" where
  "dashboard_permission_label v = label_or_title DASHBOARD_PERMISSION_LABELS v"

definition dashboard_role_label :: "string \<Rightarrow> string" where
  "dashboard_role_label v = label_or_title ROLES v"

text \<open>\<open>list(permissions or [])\<close>: a text is taken apart into characters, an object into its keys, a number
  raises. The labels look an entry up as it is; entries that are no texts are printed by \<open>repr\<close>.\<close>

fun py_list :: "json \<Rightarrow> json list res" where
  "py_list (JList xs) = Inr xs"
| "py_list (JObj kvs) = Inr (map (JStr \<circ> fst) kvs)"
| "py_list (JStr s) = Inr (map (\<lambda>c. JStr [c]) s)"
| "py_list v = (if truthy v then Inl (ServerError ''TypeError'') else Inr [])"

record permissions_payload =
  pm_permissions :: "json list"
  pm_count :: "nat option"
  pm_display :: string
  pm_label :: string

fun join_commas :: "string list \<Rightarrow> string" where
  "join_commas [] = []"
| "join_commas [v] = v"
| "join_commas (v # vs) = v @ '', '' @ join_commas vs"

definition dashboard_permissions_payload :: "(json \<Rightarrow> string) \<Rightarrow> staff_profile \<Rightarrow> staff_account \<Rightarrow> permissions_payload res" where
  "dashboard_permissions_payload repr p a =
    bindE (py_list (sp_permissions p)) (\<lambda>ps.
      let everything = (sa_superuser a \<or> sp_role p = ADMIN_ROLE)
      in Inr \<lparr>pm_permissions = ps, pm_count = (if everything then None else Some (length ps)),
              pm_display = (if everything then ''Barcha'' else nat_str (length ps) @ ''-ta bo'lim''),
              pm_label = (if everything then ''Barcha'' else join_commas (map (dashboard_permission_label \<circ> py_str repr) ps))\<rparr>)"

definition profile_of :: "row_id \<Rightarrow> staff_db \<Rightarrow> staff_profile option" where
  "profile_of k sdb = get_row sp_user k (staff_profiles sdb)"

section \<open>The staff pages\<close>

record profile_patch =
  spp_role :: "string option"
  spp_phone :: "string option"
  spp_permissions :: "json option"

record staff_patch =
  sap_username :: "string option"
  sap_first_name :: "string option"
  sap_last_name :: "string option"
  sap_full_name :: string
  sap_email :: "string option"
  sap_password :: "string option"
  sap_staff :: "bool option"
  sap_superuser :: "bool option"
  sap_active :: "bool option"
  sap_profile :: "profile_patch option"

text \<open>\<open>to_internal_value\<close>: a full name fills the names that are missing or empty.\<close>

definition empty_text :: "string option \<Rightarrow> bool" where
  "empty_text v = (v = None \<or> v = Some [])"

definition fill_names :: "staff_patch \<Rightarrow> staff_patch" where
  "fill_names p =
    (let full = strip (sap_full_name p)
     in if full \<noteq> [] \<and> empty_text (sap_first_name p)
        then let p1 = p\<lparr>sap_first_name := Some (fst (split_full_name full))\<rparr>;
                 surname = snd (split_full_name full)
             in if surname \<noteq> [] \<and> empty_text (sap_last_name p1) then p1\<lparr>sap_last_name := Some surname\<rparr> else p1
        else p)"

definition username_char :: "char \<Rightarrow> bool" where
  "username_char c = (ascii_digit c \<or> is_letter c \<or> c \<in> {CHR ''_'', CHR ''.'', CHR ''@'', CHR ''+'', CHR ''-''})"

definition validate_username :: "row_id option \<Rightarrow> string \<Rightarrow> staff_db \<Rightarrow> unit res" where
  "validate_username self v sdb =
    (if v = [] \<or> \<not> list_all username_char v then Inl (ValidationError ''Enter a valid username.'')
     else guardE (\<not> list_ex (\<lambda>a. sa_username a = v \<and> Some (sa_id a) \<noteq> self) (staff_accounts sdb))
       (ValidationError ''A user with that username already exists.''))"

definition validate_profile :: "profile_patch option \<Rightarrow> profile_patch option res" where
  "validate_profile p =
    (case p of
       None \<Rightarrow> Inr None
     | Some q \<Rightarrow>
         (case spp_role q of
            None \<Rightarrow> Inr (Some q)
          | Some r \<Rightarrow> if strip r = [] then Inl (ValidationError ''Rol bo'sh bo'lishi mumkin emas'')
                      else Inr (Some (q\<lparr>spp_role := Some (strip r)\<rparr>))))"

definition apply_profile_patch :: "profile_patch \<Rightarrow> staff_profile \<Rightarrow> staff_profile" where
  "apply_profile_patch q r =
    r\<lparr>sp_role := sent_or (spp_role q) (sp_role r), sp_phone := sent_or (spp_phone q) (sp_phone r),
      sp_permissions := sent_or (spp_permissions q) (sp_permissions r)\<rparr>"

definition new_profile :: "row_id \<Rightarrow> staff_profile" where
  "new_profile k = \<lparr>sp_user = k, sp_role = OPERATOR_ROLE, sp_phone = [], sp_permissions = JList []\<rparr>"

text \<open>An empty password counts as none: a new account then has no usable one, an old one keeps its.\<close>

definition set_password :: "(string \<Rightarrow> string) \<Rightarrow> string option \<Rightarrow> string option \<Rightarrow> string option" where
  "set_password mk sent old = (if empty_text sent then old else map_option mk sent)"

definition apply_staff_patch :: "(string \<Rightarrow> string) \<Rightarrow> staff_patch \<Rightarrow> staff_account \<Rightarrow> staff_account" where
  "apply_staff_patch mk p a =
    a\<lparr>sa_username := sent_or (sap_username p) (sa_username a), sa_first_name := sent_or (sap_first_name p) (sa_first_name a),
      sa_last_name := sent_or (sap_last_name p) (sa_last_name a), sa_email := sent_or (sap_email p) (sa_email a),
      sa_password := set_password mk (sap_password p) (sa_password a), sa_staff := sent_or (sap_staff p) (sa_staff a),
      sa_superuser := sent_or (sap_superuser p) (sa_superuser a), sa_active := sent_or (sap_active p) (sa_active a)\<rparr>"

text \<open>\<open>normalize_email\<close>: the part after the last \<open>@\<close> in small letters.\<close>

definition normalize_email :: "string \<Rightarrow> string" where
  "normalize_email v =
    (let domain = takeWhile (\<lambda>c. c \<noteq> CHR ''@'') (rev v)
     in if length domain = length v then v else take (length v - length domain) v @ lower (rev domain))"

definition new_account :: "(string \<Rightarrow> string) \<Rightarrow> staff_patch \<Rightarrow> row_id \<Rightarrow> staff_account" where
  "new_account mk p k =
    (let a = apply_staff_patch mk (p\<lparr>sap_staff := Some True\<rparr>)
           \<lparr>sa_id = k, sa_username = [], sa_first_name = [], sa_last_name = [], sa_email = [], sa_password = None, sa_staff = False,
            sa_superuser = False, sa_active = True\<rparr>
     in a\<lparr>sa_email := normalize_email (sa_email a)\<rparr>)"

definition first_profile :: "row_id \<Rightarrow> profile_patch option \<Rightarrow> staff_profile" where
  "first_profile k q = (case q of None \<Rightarrow> new_profile k | Some q' \<Rightarrow> apply_profile_patch q' (new_profile k))"

definition required_username :: "string option \<Rightarrow> staff_db \<Rightarrow> unit res" where
  "required_username v sdb =
    (case v of None \<Rightarrow> Inl (ValidationError ''This field is required.'') | Some n \<Rightarrow> validate_username None n sdb)"

definition DashboardStaff_create :: "(string \<Rightarrow> string) \<Rightarrow> staff_patch \<Rightarrow> staff_db \<Rightarrow> (staff_db \<times> staff_account) res" where
  "DashboardStaff_create mk p sdb =
    bindE (required_username (sap_username (fill_names p)) sdb) (\<lambda>_.
      bindE (validate_profile (sap_profile p)) (\<lambda>q.
        let a = new_account mk (fill_names p) (fresh_id sa_id (staff_accounts sdb))
        in Inr (sdb\<lparr>staff_accounts := add_row a (staff_accounts sdb),
                    staff_profiles := add_row (first_profile (sa_id a) q) (staff_profiles sdb)\<rparr>, a)))"

definition get_staff :: "row_id \<Rightarrow> staff_db \<Rightarrow> staff_account res" where
  "get_staff pk sdb = get_or_404 ''User'' (get_row sa_id pk (filter sa_staff (staff_accounts sdb)))"

definition save_profile :: "row_id \<Rightarrow> profile_patch option \<Rightarrow> staff_db \<Rightarrow> staff_db" where
  "save_profile k q sdb =
    (case q of
       None \<Rightarrow> sdb
     | Some q' \<Rightarrow>
         (case profile_of k sdb of
            None \<Rightarrow> sdb\<lparr>staff_profiles := add_row (apply_profile_patch q' (new_profile k)) (staff_profiles sdb)\<rparr>
          | Some r \<Rightarrow> sdb\<lparr>staff_profiles := upd_row sp_user k (\<lambda>_. apply_profile_patch q' r) (staff_profiles sdb)\<rparr>))"

definition DashboardStaff_update :: "(string \<Rightarrow> string) \<Rightarrow> row_id \<Rightarrow> staff_patch \<Rightarrow> staff_db \<Rightarrow> staff_db res" where
  "DashboardStaff_update mk pk p0 sdb =
    bindE (get_staff pk sdb) (\<lambda>a.
      let p = fill_names p0
      in bindE (case sap_username p of None \<Rightarrow> Inr () | Some v \<Rightarrow> validate_username (Some pk) v sdb) (\<lambda>_.
         bindE (validate_profile (sap_profile p)) (\<lambda>q.
           Inr (save_profile pk q (sdb\<lparr>staff_accounts := upd_row sa_id pk (\<lambda>_. apply_staff_patch mk p a) (staff_accounts sdb)\<rparr>)))))"

definition DashboardStaff_destroy :: "row_id \<Rightarrow> staff_db \<Rightarrow> staff_db res" where
  "DashboardStaff_destroy pk sdb =
    bindE (get_staff pk sdb) (\<lambda>_.
      Inr (sdb\<lparr>staff_accounts := del_row sa_id pk (staff_accounts sdb), staff_profiles := del_row sp_user pk (staff_profiles sdb)\<rparr>))"

definition DashboardStaff_get_queryset :: "query \<Rightarrow> bool option \<Rightarrow> staff_db \<Rightarrow> staff_account list" where
  "DashboardStaff_get_queryset q is_active sdb =
    (let r0 = filter sa_staff (staff_accounts sdb); v = param q ''search''; role = param q ''role'';
         r1 = (if v = [] then r0
               else filter (\<lambda>a. icontains (sa_username a) v \<or> icontains (sa_first_name a) v \<or> icontains (sa_last_name a) v \<or>
                      icontains (sa_email a) v \<or>
                      (case profile_of (sa_id a) sdb of None \<Rightarrow> False | Some r \<Rightarrow> icontains (sp_phone r) v)) r0);
         r2 = (if role = [] then r1 else filter (\<lambda>a. map_option sp_role (profile_of (sa_id a) sdb) = Some role) r1)
     in case is_active of None \<Rightarrow> r2 | Some b \<Rightarrow> filter (\<lambda>a. sa_active a = b) r2)"

text \<open>Who may call a page of the dashboard: the mixin asks for staff and nothing else.\<close>

definition dashboard_allows ::
  "(string \<Rightarrow> token option) \<Rightarrow> instant \<Rightarrow> string \<Rightarrow> staff_db \<Rightarrow> accounts_db \<Rightarrow> bool" where
  "dashboard_allows verify now header sdb db =
    (case authenticate verify now header (with_staff sdb db) of Inl e \<Rightarrow> False | Inr u \<Rightarrow> IsStaffOrAdminUser u)"

end
