(* ===== verification/Staff_Props.thy ===== *)
theory Staff_Props
  imports Staff Catalog_Props
begin

text \<open>
  What holds of the accounts of the dashboard: the tables stay well formed, who loses the staff flag
  or is switched off is locked out everywhere, logging out revokes a refresh token for good, and the
  permissions of a profile decide nothing.
\<close>

section \<open>Invariant\<close>

definition staff_inv :: "staff_db \<Rightarrow> bool" where
  "staff_inv sdb \<longleftrightarrow> keys_distinct sa_id (staff_accounts sdb) \<and> keys_distinct sa_username (staff_accounts sdb) \<and>
    keys_distinct sp_user (staff_profiles sdb) \<and> refs sp_user (staff_profiles sdb) sa_id (staff_accounts sdb)"

lemma apply_staff_patch_id [simp]: "sa_id (apply_staff_patch mk p a) = sa_id a"
  by (simp add: apply_staff_patch_def)

lemma apply_profile_patch_user [simp]: "sp_user (apply_profile_patch q r) = sp_user r" "sp_user (new_profile k) = k"
  by (simp_all add: apply_profile_patch_def new_profile_def)

lemma username_free:
  "validate_username self v sdb = Inr () \<Longrightarrow> a \<in> set (staff_accounts sdb) \<Longrightarrow> sa_username a = v \<Longrightarrow> Some (sa_id a) = self"
  by (auto simp: validate_username_def list_ex_iff split: if_splits)

lemma save_profile_inv:
  assumes "staff_inv sdb" and "k \<in> sa_id ` set (staff_accounts sdb)"
  shows "staff_inv (save_profile k q sdb)"
proof (cases q)
  case (Some q')
  show ?thesis
  proof (cases "profile_of k sdb")
    case None
    then have "k \<notin> sp_user ` set (staff_profiles sdb)" by (simp add: profile_of_def get_row_None_iff)
    with assms None Some show ?thesis by (simp add: save_profile_def staff_inv_def keys_distinct_add refs_intros)
  next
    case (Some r)
    then have "sp_user r = k" by (auto simp: profile_of_def dest: get_row_key)
    with assms Some \<open>q = Some q'\<close> show ?thesis by (simp add: save_profile_def staff_inv_def keys_distinct_replace refs_intros)
  qed
qed (simp add: save_profile_def assms)

lemma new_account_keys: "sa_id (new_account mk p k) = k" "sap_username p = Some v \<Longrightarrow> sa_username (new_account mk p k) = v"
  by (simp_all add: new_account_def Let_def apply_staff_patch_def sent_or_def)

lemma first_profile_user [simp]: "sp_user (first_profile k q) = k"
  by (simp add: first_profile_def split: option.split)

lemma create_staff_run:
  assumes "DashboardStaff_create mk p sdb = Inr (sdb', a)"
  obtains v r where "validate_username None v sdb = Inr ()" "sa_username a = v" "sa_id a = fresh_id sa_id (staff_accounts sdb)"
    "sp_user r = sa_id a"
    "sdb' = sdb\<lparr>staff_accounts := add_row a (staff_accounts sdb), staff_profiles := add_row r (staff_profiles sdb)\<rparr>"
proof -
  obtain q where q: "validate_profile (sap_profile p) = Inr q" and a: "a = new_account mk (fill_names p) (fresh_id sa_id (staff_accounts sdb))"
    and name: "required_username (sap_username (fill_names p)) sdb = Inr ()"
    and sdb': "sdb' = sdb\<lparr>staff_accounts := add_row a (staff_accounts sdb), staff_profiles := add_row (first_profile (sa_id a) q) (staff_profiles sdb)\<rparr>"
    using assms by (auto simp: DashboardStaff_create_def Let_def)
  obtain v where v: "sap_username (fill_names p) = Some v" "validate_username None v sdb = Inr ()"
    using name by (cases "sap_username (fill_names p)") (simp_all add: required_username_def)
  show ?thesis using that [OF v(2) _ _ first_profile_user sdb'] new_account_keys v(1) a by simp
qed

lemma create_staff_inv:
  assumes "DashboardStaff_create mk p sdb = Inr (sdb', a)" and "staff_inv sdb"
  shows "staff_inv sdb'"
proof -
  obtain v r where v: "validate_username None v sdb = Inr ()" and name: "sa_username a = v"
    and id: "sa_id a = fresh_id sa_id (staff_accounts sdb)" and r: "sp_user r = sa_id a"
    and sdb': "sdb' = sdb\<lparr>staff_accounts := add_row a (staff_accounts sdb), staff_profiles := add_row r (staff_profiles sdb)\<rparr>"
    by (rule create_staff_run [OF assms(1)])
  have "v \<notin> sa_username ` set (staff_accounts sdb)" using username_free [OF v] by auto
  moreover have new: "sa_id a \<notin> sa_id ` set (staff_accounts sdb)" using fresh_id_notin id by metis
  moreover have "sa_id a \<notin> sp_user ` set (staff_profiles sdb)" using assms(2) new by (auto simp: staff_inv_def refs_def)
  ultimately show ?thesis using assms(2) name r by (simp add: sdb' staff_inv_def keys_distinct_add refs_intros)
qed

lemma update_staff_run:
  assumes "DashboardStaff_update mk pk p sdb = Inr sdb'"
  obtains a q where "get_row sa_id pk (filter sa_staff (staff_accounts sdb)) = Some a" "sa_id a = pk"
    "\<forall>v. sap_username (fill_names p) = Some v \<longrightarrow> validate_username (Some pk) v sdb = Inr ()"
    "sdb' = save_profile pk q (sdb\<lparr>staff_accounts := upd_row sa_id pk (\<lambda>_. apply_staff_patch mk (fill_names p) a) (staff_accounts sdb)\<rparr>)"
  using assms get_row_key [of sa_id pk "filter sa_staff (staff_accounts sdb)"]
  by (fastforce simp: DashboardStaff_update_def get_staff_def Let_def split: option.splits)

lemma save_profile_accounts [simp]:
  "staff_accounts (save_profile k q sdb) = staff_accounts sdb" "token_blacklist (save_profile k q sdb) = token_blacklist sdb"
  by (simp_all add: save_profile_def split: option.split)

lemma update_staff_inv:
  assumes "DashboardStaff_update mk pk p sdb = Inr sdb'" and "staff_inv sdb"
  shows "staff_inv sdb'"
proof -
  obtain a q where a: "get_row sa_id pk (filter sa_staff (staff_accounts sdb)) = Some a" and id: "sa_id a = pk"
    and v: "\<forall>v. sap_username (fill_names p) = Some v \<longrightarrow> validate_username (Some pk) v sdb = Inr ()"
    and sdb': "sdb' = save_profile pk q (sdb\<lparr>staff_accounts := upd_row sa_id pk (\<lambda>_. apply_staff_patch mk (fill_names p) a) (staff_accounts sdb)\<rparr>)"
    using update_staff_run [OF assms(1)] by blast
  let ?a = "apply_staff_patch mk (fill_names p) a"
  have a_in: "a \<in> set (staff_accounts sdb)" using get_row_in [OF a] by simp
  have "\<forall>x \<in> set (staff_accounts sdb). sa_username x = sa_username ?a \<longrightarrow> sa_id x = pk"
  proof (cases "sap_username (fill_names p)")
    case None
    then have "sa_username ?a = sa_username a" by (simp add: apply_staff_patch_def sent_or_def)
    then show ?thesis using assms(2) a_in id by (auto simp: staff_inv_def keys_distinct_def distinct_map inj_on_def)
  next
    case (Some n)
    then show ?thesis using v username_free [of "Some pk" n sdb] by (auto simp: apply_staff_patch_def sent_or_def)
  qed
  then have "keys_distinct sa_username (upd_row sa_id pk (\<lambda>_. ?a) (staff_accounts sdb))"
    using assms(2) by (intro unique_replace) (simp_all add: staff_inv_def)
  then have "staff_inv (sdb\<lparr>staff_accounts := upd_row sa_id pk (\<lambda>_. ?a) (staff_accounts sdb)\<rparr>)"
    using assms(2) id by (simp add: staff_inv_def keys_distinct_replace refs_intros)
  then show ?thesis unfolding sdb' using id a_in
    by (intro save_profile_inv) (auto simp: key_set_replace)
qed

lemma delete_staff_inv:
  assumes "DashboardStaff_destroy pk sdb = Inr sdb'" and "staff_inv sdb"
  shows "staff_inv sdb'"
proof -
  have sdb': "sdb' = sdb\<lparr>staff_accounts := del_row sa_id pk (staff_accounts sdb), staff_profiles := del_row sp_user pk (staff_profiles sdb)\<rparr>"
    using assms(1) by (auto simp: DashboardStaff_destroy_def)
  have "refs sp_user (del_row sp_user pk (staff_profiles sdb)) sa_id (del_row sa_id pk (staff_accounts sdb))"
    using assms(2) by (intro refs_del_target refs_del) (auto simp: staff_inv_def set_del_row)
  then show ?thesis using assms(2) by (simp add: sdb' staff_inv_def keys_distinct_del) (simp add: del_row_def keys_distinct_filter)
qed

section \<open>Histories\<close>

inductive staff_step :: "staff_db \<Rightarrow> staff_db \<Rightarrow> bool" where
  create: "DashboardStaff_create mk p sdb = Inr (sdb', a) \<Longrightarrow> staff_step sdb sdb'"
| update: "DashboardStaff_update mk pk p sdb = Inr sdb' \<Longrightarrow> staff_step sdb sdb'"
| destroy: "DashboardStaff_destroy pk sdb = Inr sdb' \<Longrightarrow> staff_step sdb sdb'"
| logout: "DashboardLogout_save verify now t sdb = Inr sdb' \<Longrightarrow> staff_step sdb sdb'"

lemma staff_step_inv:
  assumes "staff_step sdb sdb'"
  shows "staff_inv sdb \<Longrightarrow> staff_inv sdb'" and "set (token_blacklist sdb) \<subseteq> set (token_blacklist sdb')"
proof -
  show "staff_inv sdb \<Longrightarrow> staff_inv sdb'" using assms
  proof cases
    case logout
    then show "staff_inv sdb \<Longrightarrow> staff_inv sdb'" by (auto simp: DashboardLogout_save_def staff_inv_def split: option.splits)
  qed (blast intro: create_staff_inv update_staff_inv delete_staff_inv)+
  show "set (token_blacklist sdb) \<subseteq> set (token_blacklist sdb')" using assms
  proof cases
    case update
    then show ?thesis by (rule update_staff_run) simp
  qed (auto simp: DashboardStaff_create_def DashboardStaff_destroy_def DashboardLogout_save_def Let_def split: option.splits)
qed

lemma staff_steps_inv: "staff_step\<^sup>*\<^sup>* sdb sdb' \<Longrightarrow> staff_inv sdb \<Longrightarrow> staff_inv sdb'"
  by (induction rule: rtranclp_induct) (use staff_step_inv(1) in auto)

lemma blacklist_grows: "staff_step\<^sup>*\<^sup>* sdb sdb' \<Longrightarrow> set (token_blacklist sdb) \<subseteq> set (token_blacklist sdb')"
  by (induction rule: rtranclp_induct) (use staff_step_inv(2) in auto)

section \<open>Locked out\<close>

definition may_enter :: "row_id \<Rightarrow> staff_db \<Rightarrow> bool" where
  "may_enter k sdb = (active_account k sdb \<noteq> None)"

lemma active_staff_with: "active_staff k (with_staff sdb db) = map_option as_subject (active_account k sdb)"
proof -
  have "get_row su_id k (filter (\<lambda>u. su_active u \<and> su_staff u) (map as_subject rows)) =
      map_option as_subject (get_row sa_id k (filter (\<lambda>a. sa_active a \<and> sa_staff a) rows))" for rows
    by (induction rows) (auto simp: as_subject_def)
  then show ?thesis by (simp add: active_staff_def active_account_def with_staff_def)
qed

text \<open>The ways in: a password, a refresh token, an access token over REST and over a websocket.\<close>

definition staff_shut_out :: "row_id \<Rightarrow> staff_db \<Rightarrow> bool" where
  "staff_shut_out k sdb \<longleftrightarrow>
    (\<forall>check u pw a. DashboardLogin_validate check u pw sdb = Inr a \<longrightarrow> sa_id a \<noteq> k) \<and>
    (\<forall>sign verify now t tk. verify t = Some tk \<and> tk_sub tk = Some k \<longrightarrow> (\<exists>e. DashboardRefresh_create sign verify now t sdb = Inl e)) \<and>
    (\<forall>verify now t tk db. verify t = Some tk \<and> tk_sub tk = Some k \<and> tk_role tk = RoleAdmin \<longrightarrow>
       get_role_user verify now t (with_staff sdb db) = None \<and>
       (\<forall>header. words header = [''Bearer'', t] \<longrightarrow> \<not> dashboard_allows verify now header sdb db))"

lemma shut_outI:
  assumes "active_account k sdb = None"
  shows "staff_shut_out k sdb"
proof -
  have login: "sa_id a \<noteq> k" if "DashboardLogin_validate check u pw sdb = Inr a" for check u pw a
  proof -
    have "a \<in> set (filter (\<lambda>a. sa_active a \<and> sa_staff a) (staff_accounts sdb))"
      using that by (auto simp: DashboardLogin_validate_def django_authenticate_def get_row_in split: option.splits if_splits)
    then show ?thesis using assms by (auto simp: active_account_def get_row_None_iff)
  qed
  have refresh: "\<exists>e. DashboardRefresh_create sign verify now t sdb = Inl e" if "verify t = Some tk" "tk_sub tk = Some k"
    for sign verify now t tk
    using that assms by (auto simp: DashboardRefresh_create_def read_refresh_def read_token_def unlisted_def split: option.split)
  have socket: "get_role_user verify now t (with_staff sdb db) = None"
    and rest: "words header = [''Bearer'', t] \<Longrightarrow> \<not> dashboard_allows verify now header sdb db"
    if "verify t = Some tk" "tk_sub tk = Some k" "tk_role tk = RoleAdmin" for verify now t tk db header
    by (simp_all add: that assms get_role_user_def dashboard_allows_def authenticate_def read_token_def active_staff_with)
  show ?thesis
    unfolding staff_shut_out_def by (intro conjI allI impI; (elim conjE)?) (rule login refresh socket rest; assumption)+
qed

lemma shut_out_rest:
  assumes "staff_shut_out k sdb" and "words header = [''Bearer'', t]" and "verify t = Some tk" and "tk_sub tk = Some k" and "tk_role tk = RoleAdmin"
  shows "\<not> dashboard_allows verify now header sdb db"
  using assms unfolding staff_shut_out_def by blast

text \<open>C34: Who is switched off, loses the staff flag or is deleted on the staff page cannot enter any
  more: not with the password, not with a refresh token, and an access token still running is refused
  over REST and over the websocket.\<close>

theorem dismissed_staff_locked_out:
  assumes "staff_inv sdb"
    and "(DashboardStaff_update mk pk p sdb = Inr sdb' \<and> (sap_active p = Some False \<or> sap_staff p = Some False)) \<or>
      DashboardStaff_destroy pk sdb = Inr sdb'"
  shows "staff_shut_out pk sdb' \<and> staff_inv sdb'"
  using assms(2)
proof
  assume upd: "DashboardStaff_update mk pk p sdb = Inr sdb' \<and> (sap_active p = Some False \<or> sap_staff p = Some False)"
  obtain a q where id: "sa_id a = pk"
    and run: "sdb' = save_profile pk q (sdb\<lparr>staff_accounts := upd_row sa_id pk (\<lambda>_. apply_staff_patch mk (fill_names p) a) (staff_accounts sdb)\<rparr>)"
    using update_staff_run [OF conjunct1 [OF upd]] by blast
  from run have sdb': "staff_accounts sdb' = upd_row sa_id pk (\<lambda>_. apply_staff_patch mk (fill_names p) a) (staff_accounts sdb)" by simp
  have "\<not> (sa_active (apply_staff_patch mk (fill_names p) a) \<and> sa_staff (apply_staff_patch mk (fill_names p) a))"
    using upd by (auto simp: apply_staff_patch_def fill_names_def sent_or_def Let_def split: if_splits)
  then have "active_account pk sdb' = None"
    by (auto simp: active_account_def get_row_None_iff sdb' dest!: in_upd_row)
  with update_staff_inv [OF _ assms(1)] upd shut_outI show ?thesis by blast
next
  assume del: "DashboardStaff_destroy pk sdb = Inr sdb'"
  then have "active_account pk sdb' = None"
    by (auto simp: DashboardStaff_destroy_def active_account_def get_row_None_iff set_del_row)
  with delete_staff_inv [OF del assms(1)] shut_outI show ?thesis by blast
qed

section \<open>Logging out\<close>

text \<open>A refresh token that was used to log out of the dashboard is refused from then on, whatever
  happens to the accounts afterwards; access tokens stay valid until they expire.\<close>

theorem logout_revokes_refresh:
  assumes "DashboardLogout_save verify now t sdb = Inr sdb1" and "staff_step\<^sup>*\<^sup>* sdb1 sdb2"
  shows "DashboardRefresh_create sign verify later t sdb2 = Inl (ValidationError ''refresh_token'') \<and>
    (\<exists>msg. DashboardLogout_save verify later t sdb2 = Inl (ValidationError msg)) \<and>
    dashboard_allows verify later header sdb1 db = dashboard_allows verify later header sdb db"
proof -
  have listed: "t \<in> set (token_blacklist sdb1)" and same: "staff_accounts sdb1 = staff_accounts sdb"
    using assms(1) by (auto simp: DashboardLogout_save_def split: option.splits)
  then have "t \<in> set (token_blacklist sdb2)" using blacklist_grows [OF assms(2)] by blast
  then have "read_refresh verify later t sdb2 = None" by (simp add: read_refresh_def unlisted_def read_token_def)
  with same show ?thesis by (simp add: DashboardRefresh_create_def DashboardLogout_save_def dashboard_allows_def with_staff_def)
qed

section \<open>Permissions\<close>

definition make_superuser :: staff_patch where
  "make_superuser = \<lparr>sap_username = None, sap_first_name = None, sap_last_name = None, sap_full_name = [], sap_email = None,
     sap_password = None, sap_staff = None, sap_superuser = Some True, sap_active = None, sap_profile = None\<rparr>"

text \<open>The role and the permissions of a profile never decide what a member of the staff may do:
  whoever is active staff may call every page of the dashboard, whatever the profile says, and may
  there make a superuser of the own account.\<close>

theorem permissions_decide_nothing:
  assumes "staff_inv sdb" and "a \<in> set (staff_accounts sdb)" and "sa_active a" and "sa_staff a"
    and "words header = [''Bearer'', t]" and "verify t = Some tk" and "\<not> tk_refresh tk" and "now < tk_exp tk"
    and "tk_sub tk = Some (sa_id a)" and "tk_role tk = RoleAdmin"
  shows "dashboard_allows verify now header (sdb\<lparr>staff_profiles := profiles'\<rparr>) db \<and>
    (\<exists>sdb'. DashboardStaff_update mk (sa_id a) make_superuser sdb = Inr sdb' \<and>
      get_row sa_id (sa_id a) (staff_accounts sdb') = Some (a\<lparr>sa_superuser := True\<rparr>))"
proof -
  have dist: "keys_distinct sa_id (staff_accounts sdb)" using assms(1) by (simp add: staff_inv_def)
  have row: "get_row sa_id (sa_id a) (staff_accounts sdb) = Some a" by (rule get_row_unique [OF dist assms(2)])
  then have "active_account (sa_id a) sdb = Some a" "get_row sa_id (sa_id a) (filter sa_staff (staff_accounts sdb)) = Some a"
    using assms(3,4) by (simp_all add: active_account_def get_row_filter_iff [OF dist])
  moreover have "active_account (sa_id a) (sdb\<lparr>staff_profiles := profiles'\<rparr>) = active_account (sa_id a) sdb"
    by (simp add: active_account_def)
  moreover have "fill_names make_superuser = make_superuser" by (simp add: fill_names_def make_superuser_def strip_def lstrip_def)
  moreover have "apply_staff_patch mk make_superuser a = a\<lparr>sa_superuser := True\<rparr>"
    by (simp add: apply_staff_patch_def make_superuser_def sent_or_def set_password_def empty_text_def)
  ultimately show ?thesis
    using assms(4-10) row
    by (simp add: dashboard_allows_def authenticate_def read_token_def active_staff_with IsStaffOrAdminUser_def as_subject_def
        DashboardStaff_update_def get_staff_def save_profile_def validate_profile_def make_superuser_def get_row_replace)
qed

section \<open>An example\<close>

definition operator_account :: staff_account where
  "operator_account = \<lparr>sa_id = 4, sa_username = ''dilnoza'', sa_first_name = [], sa_last_name = [], sa_email = [], sa_password = Some ''h'',
     sa_staff = True, sa_superuser = False, sa_active = True\<rparr>"

definition staff_example :: staff_db where
  "staff_example = \<lparr>staff_accounts = [operator_account],
     staff_profiles = [\<lparr>sp_user = 4, sp_role = ''support'', sp_phone = [], sp_permissions = JList [JStr ''support'']\<rparr>], token_blacklist = []\<rparr>"

definition staff_tokens :: "string \<Rightarrow> token option" where
  "staff_tokens t = (if t \<in> {''access'', ''refresh''}
     then Some \<lparr>tk_refresh = (t = ''refresh''), tk_sub = Some 4, tk_role = RoleAdmin, tk_phone = [], tk_exp = 1000\<rparr> else None)"

lemma staff_example_inv: "staff_inv staff_example"
  by (simp add: staff_inv_def staff_example_def operator_account_def keys_distinct_def refs_def)

definition dismiss :: staff_patch where
  "dismiss = make_superuser\<lparr>sap_superuser := None, sap_active := Some False\<rparr>"

theorem dismissed_staff_locked_out_witness:
  "\<exists>sdb'. DashboardStaff_update id 4 dismiss staff_example = Inr sdb' \<and>
    (\<forall>db. \<not> dashboard_allows staff_tokens 5 ''Bearer access'' sdb' db)"
proof -
  obtain sdb' where run: "DashboardStaff_update id 4 dismiss staff_example = Inr sdb'"
    by (simp add: DashboardStaff_update_def get_staff_def staff_example_def operator_account_def dismiss_def make_superuser_def fill_names_def
        strip_def lstrip_def validate_profile_def Let_def)
  have "sap_active dismiss = Some False" by (simp add: dismiss_def make_superuser_def)
  with dismissed_staff_locked_out [OF staff_example_inv, of id 4 dismiss sdb'] run have out: "staff_shut_out 4 sdb'" by blast
  have "words ''Bearer access'' = [''Bearer'', ''access'']" by code_simp
  moreover have "staff_tokens ''access'' = Some \<lparr>tk_refresh = False, tk_sub = Some 4, tk_role = RoleAdmin, tk_phone = [], tk_exp = 1000\<rparr>"
    by (simp add: staff_tokens_def)
  ultimately have "\<forall>db. \<not> dashboard_allows staff_tokens 5 ''Bearer access'' sdb' db"
    using shut_out_rest [OF out] by simp
  with run show ?thesis by blast
qed

theorem logout_revokes_refresh_witness:
  "\<exists>sdb'. DashboardLogout_save staff_tokens 5 ''refresh'' staff_example = Inr sdb' \<and>
    (\<exists>er. DashboardRefresh_create (\<lambda>_. []) staff_tokens 6 ''refresh'' sdb' = Inl er)"
proof -
  obtain sdb' where run: "DashboardLogout_save staff_tokens 5 ''refresh'' staff_example = Inr sdb'"
    by (simp add: DashboardLogout_save_def read_refresh_def read_token_def unlisted_def staff_example_def staff_tokens_def)
  from logout_revokes_refresh [OF run rtranclp.rtrancl_refl] run show ?thesis by blast
qed

theorem permissions_decide_nothing_witness:
  "\<exists>sdb'. DashboardStaff_update id 4 make_superuser staff_example = Inr sdb' \<and>
    map_option sa_superuser (get_row sa_id 4 (staff_accounts sdb')) = Some True"
proof -
  have "words ''Bearer access'' = [''Bearer'', ''access'']" by code_simp
  moreover have "staff_tokens ''access'' = Some \<lparr>tk_refresh = False, tk_sub = Some 4, tk_role = RoleAdmin, tk_phone = [], tk_exp = 1000\<rparr>"
    by (simp add: staff_tokens_def)
  moreover have "operator_account \<in> set (staff_accounts staff_example)" "sa_active operator_account" "sa_staff operator_account"
    "sa_id operator_account = 4"
    by (simp_all add: staff_example_def operator_account_def)
  ultimately have "\<exists>sdb'. DashboardStaff_update id 4 make_superuser staff_example = Inr sdb' \<and>
      get_row sa_id 4 (staff_accounts sdb') = Some (operator_account\<lparr>sa_superuser := True\<rparr>)"
    using permissions_decide_nothing [OF staff_example_inv, where a = operator_account and mk = id and now = 5] by simp
  then show ?thesis by auto
qed

end
