(* ===== verification/Gateways.thy ===== *)
theory Gateways
  imports Common Payme_Model
begin

text \<open>
  The clients of outside services: \<open>src/apps/integrations/adapters.py\<close>.

  \<^item> What the SMS gateway and the push service answer is a parameter: any answer to any call, given by
    the calls that were made before. \<open>calls\<close> is the log of what went over the network.
  \<^item> A raised exception is the left side of a result, with the text that \<open>str(exc)\<close> gives. The cache
    keeps the gateway's token with the moment it expires.
\<close>

section \<open>Answers\<close>

text \<open>A reply has a status code and, when its body is JSON, the id field and the status text.\<close>

record sms_body =
  body_id :: json
  body_status :: json

datatype login_answer = LoginRaises string | LoginToken string

datatype send_answer = SendRaises string | SendReply nat "sms_body option"

datatype sms_call = LoginCall login_answer | SendCall string string string send_answer

record sms_gateway =
  login_answer :: "sms_call list \<Rightarrow> login_answer"
  send_answer :: "sms_call list \<Rightarrow> string \<Rightarrow> send_answer"

record sms_state =
  eskiz_token :: "(string \<times> instant) option"
  calls :: "sms_call list"

record stub_result =
  sr_ok :: bool
  sr_provider :: string
  sr_error :: string

definition ESKIZ_TOKEN_TTL :: int where
  "ESKIZ_TOKEN_TTL = 60 * 60 * 24 * 25 * 1000"

section \<open>SMS\<close>

definition cached_token :: "instant \<Rightarrow> sms_state \<Rightarrow> string option" where
  "cached_token now s = (case eskiz_token s of Some (t, expiry) \<Rightarrow> if now < expiry \<and> t \<noteq> [] then Some t else None | None \<Rightarrow> None)"

definition sms_token :: "sms_gateway \<Rightarrow> instant \<Rightarrow> sms_state \<Rightarrow> sms_state \<times> (string + string)" where
  "sms_token g now s =
    (case cached_token now s of
       Some t \<Rightarrow> (s, Inr t)
     | None \<Rightarrow>
         let a = login_answer g (calls s); s1 = s\<lparr>calls := calls s @ [LoginCall a]\<rparr>
         in case a of
              LoginRaises e \<Rightarrow> (s1, Inl e)
            | LoginToken t \<Rightarrow> (s1\<lparr>eskiz_token := Some (t, now + ESKIZ_TOKEN_TTL)\<rparr>, Inr t))"

definition eskiz_ok :: "stub_result" where
  "eskiz_ok = \<lparr>sr_ok = True, sr_provider = ''eskiz'', sr_error = []\<rparr>"

text \<open>A body counts as accepted when it has an id or one of two status texts.\<close>

definition body_accepted :: "(json \<Rightarrow> string) \<Rightarrow> sms_body \<Rightarrow> bool" where
  "body_accepted repr b = (truthy (body_id b) \<or> lower (py_str repr (body_status b)) \<in> {''waiting'', ''success''})"

definition read_reply :: "(json \<Rightarrow> string) \<Rightarrow> nat \<Rightarrow> sms_body option \<Rightarrow> string + stub_result" where
  "read_reply repr code body =
    (if 400 \<le> code \<and> code < 600 then Inl ''HTTPError''
     else case body of
            None \<Rightarrow> Inl ''JSONDecodeError''
          | Some b \<Rightarrow> Inr (if body_accepted repr b then eskiz_ok else eskiz_ok\<lparr>sr_ok := False\<rparr>))"

function send_via_eskiz ::
  "(json \<Rightarrow> string) \<Rightarrow> sms_gateway \<Rightarrow> instant \<Rightarrow> string \<Rightarrow> string \<Rightarrow> bool \<Rightarrow> sms_state \<Rightarrow> sms_state \<times> (string + stub_result)" where
  "send_via_eskiz repr g now phone message retry s =
    (case sms_token g now s of
       (s1, Inl e) \<Rightarrow> (s1, Inl e)
     | (s1, Inr t) \<Rightarrow>
         (case send_answer g (calls s1) t of
            SendRaises e \<Rightarrow> (s1\<lparr>calls := calls s1 @ [SendCall (eskiz_phone phone) message t (SendRaises e)]\<rparr>, Inl e)
          | SendReply code body \<Rightarrow>
              if code = 401 \<and> retry
              then send_via_eskiz repr g now phone message False
                     (s1\<lparr>calls := calls s1 @ [SendCall (eskiz_phone phone) message t (SendReply code body)], eskiz_token := None\<rparr>)
              else (s1\<lparr>calls := calls s1 @ [SendCall (eskiz_phone phone) message t (SendReply code body)]\<rparr>, read_reply repr code body)))"
  by pat_completeness auto

text \<open>The recursion stops: the second call does not retry.\<close>

termination
  by (relation "measure (\<lambda>(repr, g, now, phone, message, retry, s). if retry then 1 else 0)") auto

declare send_via_eskiz.simps [simp del]

definition otp_message :: "string \<Rightarrow> string" where
  "otp_message code = ''Kodni hech kimga bermang! HomeX ilovasiga kirish uchun tasdiqlash kodi: '' @ code"

definition send_otp :: "(json \<Rightarrow> string) \<Rightarrow> string \<Rightarrow> sms_gateway \<Rightarrow> instant \<Rightarrow> string \<Rightarrow> string \<Rightarrow> sms_state \<Rightarrow> sms_state \<times> stub_result" where
  "send_otp repr provider g now phone code s =
    (if lower provider \<noteq> ''eskiz'' then (s, \<lparr>sr_ok = True, sr_provider = lower provider, sr_error = []\<rparr>)
     else case send_via_eskiz repr g now phone (otp_message code) True s of
            (s1, Inl e) \<Rightarrow> (s1, \<lparr>sr_ok = False, sr_provider = ''eskiz'', sr_error = e\<rparr>)
          | (s1, Inr r) \<Rightarrow> (s1, r))"

text \<open>The view does not wait: the answer of the gateway never reaches the request.\<close>

definition send_otp_async :: "(json \<Rightarrow> string) \<Rightarrow> string \<Rightarrow> sms_gateway \<Rightarrow> instant \<Rightarrow> string \<Rightarrow> string \<Rightarrow> sms_state \<Rightarrow> sms_state \<times> stub_result option" where
  "send_otp_async repr provider g now phone code s =
    (case send_otp repr provider g now phone code s of
       (s1, r) \<Rightarrow> (s1, if lower provider \<noteq> ''eskiz'' then Some r else None))"

section \<open>Push\<close>

text \<open>\<open>messaging.send\<close> gives an id or raises. Values are turned into texts: objects and lists by
  \<open>dumps\<close>, the rest by \<open>str\<close>.\<close>

definition stringify_fcm_data :: "(json \<Rightarrow> string) \<Rightarrow> (json \<Rightarrow> string) \<Rightarrow> (string \<times> json) list \<Rightarrow> (string \<times> string) list" where
  "stringify_fcm_data dumps repr data =
    map (\<lambda>(k, v). (k, case v of JObj kvs \<Rightarrow> dumps v | JList xs \<Rightarrow> dumps v | _ \<Rightarrow> py_str repr v)) (filter (\<lambda>(k, v). v \<noteq> JNull) data)"

type_synonym push_message = "string \<times> string \<times> string \<times> (string \<times> string) list"

definition push_send ::
  "(json \<Rightarrow> string) \<Rightarrow> (json \<Rightarrow> string) \<Rightarrow> string \<Rightarrow> (push_message \<Rightarrow> string + string) \<Rightarrow> string \<Rightarrow> string \<Rightarrow> string \<Rightarrow> (string \<times> json) list \<Rightarrow> stub_result" where
  "push_send dumps repr provider firebase token title body data =
    (if lower provider \<noteq> ''firebase'' then \<lparr>sr_ok = True, sr_provider = lower provider, sr_error = []\<rparr>
     else case firebase (token, title, body, stringify_fcm_data dumps repr data) of
            Inl e \<Rightarrow> \<lparr>sr_ok = False, sr_provider = ''firebase'', sr_error = e\<rparr>
          | Inr message_id \<Rightarrow> \<lparr>sr_ok = True, sr_provider = ''firebase'', sr_error = []\<rparr>)"

record many_result =
  mr_ok :: bool
  mr_success :: nat
  mr_failure :: nat
  mr_responses :: "stub_result list"

definition send_many ::
  "(json \<Rightarrow> string) \<Rightarrow> (json \<Rightarrow> string) \<Rightarrow> string \<Rightarrow> (push_message \<Rightarrow> string + string) \<Rightarrow> string list \<Rightarrow> string \<Rightarrow> string \<Rightarrow> (string \<times> json) list \<Rightarrow> many_result" where
  "send_many dumps repr provider firebase tokens title body data =
    (let results = map (\<lambda>t. push_send dumps repr provider firebase t title body data) tokens;
         success = length (filter sr_ok results)
     in \<lparr>mr_ok = (success = length results), mr_success = success, mr_failure = length results - success, mr_responses = results\<rparr>)"

text \<open>Which credentials the push service gets: the JSON text, then its base64 form, then a file, then
  the default of the machine. \<open>loads\<close> reads JSON and may fail.\<close>

datatype firebase_credential = CertificateDict json | CertificateFile string | ApplicationDefault

definition firebase_credentials :: "(string \<Rightarrow> json option) \<Rightarrow> string \<Rightarrow> string \<Rightarrow> string \<Rightarrow> string + firebase_credential" where
  "firebase_credentials loads credentials_json credentials_b64 credentials_path =
    (let certificate = (\<lambda>v. case loads v of None \<Rightarrow> Inl ''JSONDecodeError'' | Some j \<Rightarrow> Inr (CertificateDict j))
     in if credentials_json \<noteq> [] then certificate credentials_json
        else if credentials_b64 \<noteq> []
        then (case b64decode credentials_b64 of
                None \<Rightarrow> Inl ''binascii.Error''
              | Some v \<Rightarrow> if utf8_decodes v then certificate v else Inl ''UnicodeDecodeError'')
        else if credentials_path \<noteq> [] then Inr (CertificateFile credentials_path) else Inr ApplicationDefault)"

section \<open>Placeholders\<close>

definition create_payment :: "string \<Rightarrow> string \<Rightarrow> string" where
  "create_payment order_id payment_method = ''https://payments.example.test/'' @ order_id @ ''?method='' @ payment_method"

section \<open>How often, and with what result\<close>

fun is_send :: "sms_call \<Rightarrow> bool" where
  "is_send (SendCall p m t a) = True"
| "is_send (LoginCall a) = False"

fun accepted :: "(json \<Rightarrow> string) \<Rightarrow> sms_call \<Rightarrow> bool" where
  "accepted repr (SendCall p m t (SendReply code (Some b))) = (\<not> (400 \<le> code \<and> code < 600) \<and> body_accepted repr b)"
| "accepted repr c = False"

definition count_calls :: "(sms_call \<Rightarrow> bool) \<Rightarrow> sms_call list \<Rightarrow> nat" where
  "count_calls P cs = length (filter P cs)"

lemma count_calls_simps [simp]:
  "count_calls P [] = 0" "count_calls P (c # cs) = (if P c then Suc (count_calls P cs) else count_calls P cs)"
  "count_calls P (cs @ ds) = count_calls P cs + count_calls P ds"
  by (simp_all add: count_calls_def)

lemma sms_token_calls:
  assumes "sms_token g now s = (s1, r)"
  obtains new where "calls s1 = calls s @ new" "count_calls is_send new = 0" "count_calls (accepted repr) new = 0"
    "count_calls (Not \<circ> is_send) new \<le> 1"
proof (cases "cached_token now s")
  case (Some t)
  with assms have "s1 = s" by (simp add: sms_token_def)
  with that [of "[]"] show ?thesis by simp
next
  case None
  with assms that [of "[LoginCall (login_answer g (calls s))]"] show ?thesis
    by (auto simp: sms_token_def Let_def split: login_answer.splits)
qed

definition is_ok :: "string + stub_result \<Rightarrow> bool" where
  "is_ok r = (case r of Inl e \<Rightarrow> False | Inr x \<Rightarrow> sr_ok x)"

lemma read_reply_ok: "is_ok (read_reply repr code body) = accepted repr (SendCall p m t (SendReply code body))"
  by (cases body) (auto simp: is_ok_def read_reply_def eskiz_ok_def)

definition to_phone :: "string \<Rightarrow> string \<Rightarrow> sms_call \<Rightarrow> bool" where
  "to_phone phone message c = (case c of LoginCall a \<Rightarrow> True | SendCall p m t a \<Rightarrow> p = eskiz_phone phone \<and> m = message)"

definition attempt :: "(json \<Rightarrow> string) \<Rightarrow> string \<Rightarrow> string \<Rightarrow> sms_state \<Rightarrow> nat \<Rightarrow> sms_state \<times> (string + stub_result) \<Rightarrow> bool" where
  "attempt repr phone message s n out \<longleftrightarrow> (\<exists>new. calls (fst out) = calls s @ new \<and> count_calls is_send new \<le> n \<and>
    count_calls (Not \<circ> is_send) new \<le> n \<and> count_calls (accepted repr) new = (if is_ok (snd out) then 1 else 0) \<and>
    list_all (to_phone phone message) new)"

lemma attemptI:
  "calls (fst out) = calls s @ new \<Longrightarrow> count_calls is_send new \<le> n \<Longrightarrow> count_calls (Not \<circ> is_send) new \<le> n \<Longrightarrow>
   count_calls (accepted repr) new = (if is_ok (snd out) then 1 else 0) \<Longrightarrow> list_all (to_phone phone message) new \<Longrightarrow>
   attempt repr phone message s n out"
  unfolding attempt_def by blast

lemma no_sends: "count_calls is_send new = 0 \<Longrightarrow> list_all (to_phone phone message) new"
proof (induction new)
  case (Cons c new)
  then show ?case by (cases c) (simp_all add: to_phone_def)
qed simp

text \<open>One round: the token, then the message.\<close>

lemma one_round:
  assumes "code = 401 \<Longrightarrow> \<not> retry" and "sms_token g now s = (s1, Inr t)" and "send_answer g (calls s1) t = SendReply code body"
  shows "attempt repr phone message s 1 (send_via_eskiz repr g now phone message retry s)"
proof -
  obtain new where new: "calls s1 = calls s @ new" "count_calls is_send new = 0" "count_calls (accepted repr) new = 0"
    "count_calls (Not \<circ> is_send) new \<le> 1"
    by (rule sms_token_calls [OF assms(2)])
  let ?c = "SendCall (eskiz_phone phone) message t (SendReply code body)"
  have "send_via_eskiz repr g now phone message retry s = (s1\<lparr>calls := calls s1 @ [?c]\<rparr>, read_reply repr code body)"
    using assms by (subst send_via_eskiz.simps) auto
  then show ?thesis
    using new no_sends [OF new(2)] read_reply_ok [of repr code body "eskiz_phone phone" message t]
    by (intro attemptI [where new = "new @ [?c]"]) (simp_all add: to_phone_def)
qed

lemma failed_round:
  assumes "\<And>t code body. sms_token g now s = (s1, Inr t) \<Longrightarrow> send_answer g (calls s1) t \<noteq> SendReply code body"
    and "sms_token g now s = (s1, r)"
  shows "attempt repr phone message s 1 (send_via_eskiz repr g now phone message retry s)"
proof -
  obtain new where new: "calls s1 = calls s @ new" "count_calls is_send new = 0" "count_calls (accepted repr) new = 0"
    "count_calls (Not \<circ> is_send) new \<le> 1"
    by (rule sms_token_calls [OF assms(2)])
  show ?thesis
  proof (cases r)
    case (Inl er)
    then have "send_via_eskiz repr g now phone message retry s = (s1, Inl er)"
      using assms(2) by (subst send_via_eskiz.simps) simp
    with new no_sends [OF new(2)] show ?thesis by (intro attemptI [where new = new]) (simp_all add: is_ok_def)
  next
    case (Inr t)
    then obtain er where er: "send_answer g (calls s1) t = SendRaises er"
      using assms by (cases "send_answer g (calls s1) t") auto
    let ?c = "SendCall (eskiz_phone phone) message t (SendRaises er)"
    have "send_via_eskiz repr g now phone message retry s = (s1\<lparr>calls := calls s1 @ [?c]\<rparr>, Inl er)"
      using assms(2) Inr er by (subst send_via_eskiz.simps) simp
    with new no_sends [OF new(2)] show ?thesis
      by (intro attemptI [where new = "new @ [?c]"]) (simp_all add: is_ok_def to_phone_def)
  qed
qed

lemma last_round: "attempt repr phone message s 1 (send_via_eskiz repr g now phone message False s)"
proof -
  obtain s1 r where tok: "sms_token g now s = (s1, r)" by fastforce
  show ?thesis
  proof (cases "\<exists>t code body. r = Inr t \<and> send_answer g (calls s1) t = SendReply code body")
    case True
    with tok show ?thesis using one_round by blast
  next
    case False
    with tok show ?thesis by (intro failed_round [OF _ tok]) auto
  qed
qed

lemma both_rounds: "attempt repr phone message s 2 (send_via_eskiz repr g now phone message True s)"
proof -
  obtain s1 r where tok: "sms_token g now s = (s1, r)" by fastforce
  have more: "attempt repr phone message s 1 out \<Longrightarrow> attempt repr phone message s 2 out" for out
    by (force simp: attempt_def)
  show ?thesis
  proof (cases "\<exists>t body. r = Inr t \<and> send_answer g (calls s1) t = SendReply 401 body")
    case True
    then obtain t body where r: "r = Inr t" and a: "send_answer g (calls s1) t = SendReply 401 body" by blast
    obtain new where new: "calls s1 = calls s @ new" "count_calls is_send new = 0" "count_calls (accepted repr) new = 0"
      "count_calls (Not \<circ> is_send) new \<le> 1"
      by (rule sms_token_calls [OF tok])
    let ?c = "SendCall (eskiz_phone phone) message t (SendReply 401 body)"
    let ?s2 = "s1\<lparr>calls := calls s1 @ [?c], eskiz_token := None\<rparr>"
    have run: "send_via_eskiz repr g now phone message True s = send_via_eskiz repr g now phone message False ?s2"
      using tok r a by (subst send_via_eskiz.simps) simp
    have "\<not> accepted repr ?c" by (cases body) simp_all
    moreover from last_round [of repr phone message ?s2 g now, unfolded attempt_def]
    obtain new2 where "calls (fst (send_via_eskiz repr g now phone message False ?s2)) = calls ?s2 @ new2"
      "count_calls is_send new2 \<le> 1" "count_calls (Not \<circ> is_send) new2 \<le> 1"
      "count_calls (accepted repr) new2 = (if is_ok (snd (send_via_eskiz repr g now phone message False ?s2)) then 1 else 0)"
      "list_all (to_phone phone message) new2" by blast
    ultimately show ?thesis
      unfolding run using new no_sends [OF new(2)]
      by (intro attemptI [where new = "new @ [?c] @ new2"]) (simp_all add: to_phone_def)
  next
    case False
    show ?thesis
    proof (cases "\<exists>t code body. r = Inr t \<and> send_answer g (calls s1) t = SendReply code body")
      case True
      then obtain t code body where r: "r = Inr t" and a: "send_answer g (calls s1) t = SendReply code body" by blast
      with False have "code \<noteq> 401" by blast
      then show ?thesis using one_round [of code True g now s s1 t body repr phone message] tok r a by (intro more) simp
    next
      case no: False
      with tok show ?thesis by (intro more failed_round [OF _ tok]) auto
    qed
  qed
qed

text \<open>C36: Sending a code ends whatever the gateway answers: it never raises, makes at most two attempts
  and two logins, every attempt goes to the digits of the number and carries the code, and the result
  is good exactly when the gateway accepted the message, which it does at most once.\<close>

theorem sms_attempts_bounded:
  assumes "lower provider = ''eskiz''"
  shows "\<exists>new. calls (fst (send_otp repr provider g now phone code s)) = calls s @ new \<and>
    count_calls is_send new \<le> 2 \<and> count_calls (Not \<circ> is_send) new \<le> 2 \<and>
    list_all (to_phone phone (otp_message code)) new \<and>
    count_calls (accepted repr) new = (if sr_ok (snd (send_otp repr provider g now phone code s)) then 1 else 0)"
proof -
  let ?out = "send_via_eskiz repr g now phone (otp_message code) True s"
  have "fst (send_otp repr provider g now phone code s) = fst ?out" "sr_ok (snd (send_otp repr provider g now phone code s)) = is_ok (snd ?out)"
    using assms by (simp_all add: send_otp_def is_ok_def split: prod.split sum.split)
  with both_rounds [of repr phone "otp_message code" s g now, unfolded attempt_def] show ?thesis by auto
qed

definition expired_gateway :: sms_gateway where
  "expired_gateway = \<lparr>login_answer = (\<lambda>cs. LoginToken ''new''),
     send_answer = (\<lambda>cs t. if t = ''new'' then SendReply 200 (Some \<lparr>body_id = JInt 7, body_status = JNull\<rparr>) else SendReply 401 None)\<rparr>"

definition expired_state :: sms_state where
  "expired_state = \<lparr>eskiz_token = Some (''old'', 100), calls = []\<rparr>"

theorem sms_attempts_bounded_witness:
  "\<exists>new. calls (fst (send_otp (\<lambda>_. []) ''Eskiz'' expired_gateway 5 ''+998 90'' ''123456'' expired_state)) = new \<and> count_calls is_send new \<le> 2"
proof -
  have "lower ''Eskiz'' = ''eskiz''" by code_simp
  from sms_attempts_bounded [OF this, of "\<lambda>_. []" expired_gateway 5 "''+998 90''" "''123456''" expired_state]
  show ?thesis by (auto simp: expired_state_def)
qed

text \<open>An expired token costs one refused attempt and one login, then the message leaves.\<close>

lemma expired_token_recovers:
  "snd (send_via_eskiz repr expired_gateway 5 phone m True expired_state) = Inr eskiz_ok"
  by (subst send_via_eskiz.simps, simp add: expired_gateway_def expired_state_def sms_token_def cached_token_def Let_def,
      subst send_via_eskiz.simps, simp add: sms_token_def cached_token_def read_reply_def body_accepted_def Let_def)

lemma all_kept: "(length (filter P xs) = length xs) = (\<forall>x \<in> set xs. P x)"
proof
  assume same: "length (filter P xs) = length xs"
  show "\<forall>x \<in> set xs. P x"
  proof (rule ccontr)
    assume "\<not> (\<forall>x \<in> set xs. P x)"
    then obtain x where "x \<in> set xs" "\<not> P x" by blast
    then have "length (filter P xs) < length xs" by (rule length_filter_less)
    with same show False by simp
  qed
qed simp

text \<open>A device that fails does not stop the others; the counters add up, and no device at all counts
  as a success.\<close>

lemma push_counts:
  "mr_success (send_many d r provider fb tokens title body data) + mr_failure (send_many d r provider fb tokens title body data) = length tokens"
  "mr_ok (send_many d r provider fb tokens title body data) = (\<forall>t \<in> set tokens. sr_ok (push_send d r provider fb t title body data))"
proof -
  let ?rs = "map (\<lambda>t. push_send d r provider fb t title body data) tokens"
  have "length (filter sr_ok ?rs) \<le> length ?rs" by (rule length_filter_le)
  then show "mr_success (send_many d r provider fb tokens title body data) + mr_failure (send_many d r provider fb tokens title body data) = length tokens"
    by (simp add: send_many_def Let_def)
  have "(length (filter sr_ok ?rs) = length ?rs) = (\<forall>x \<in> set ?rs. sr_ok x)"
    by (rule all_kept)
  then show "mr_ok (send_many d r provider fb tokens title body data) = (\<forall>t \<in> set tokens. sr_ok (push_send d r provider fb t title body data))"
    by (simp add: send_many_def Let_def)
qed

end
