(* ===== verification/Account_Deletion.thy ===== *)
theory Account_Deletion
  imports Market Notifications Payme_Model
begin

text \<open>
  Deleting an account: \<open>DeleteAccountView\<close> of \<open>src/apps/accounts/views.py\<close>, the deletion of clients
  and masters by the dashboard and the internal API, and what the \<open>on_delete\<close> rules of all models do
  with the rows that refer to the account.

  \<^item> State: \<open>site\<close>, the tables of all components that refer to accounts.
  \<^item> The framework collects the rows of a cascade first and deletes them in one transaction: a
    protected row anywhere makes the whole deletion fail.
  \<^item> Certificates and documents of a master (stored files) go with the account and are not in the state;
    neither are live streams, which stay and lose their reference.
\<close>

section \<open>State\<close>

record site =
  si_accounts :: accounts_db
  si_main :: sys
  si_txs :: "payme_transaction list"
  si_market :: market_db
  si_support :: support_db
  si_notices :: notification_db

section \<open>Orders\<close>

text \<open>What goes with a set of orders: everything that hangs on them; ledger rows lose their reference,
  payments protect them.\<close>

definition null_order :: "row_id list \<Rightarrow> wallet_transaction \<Rightarrow> wallet_transaction" where
  "null_order oids t = (case wt_order t of None \<Rightarrow> t | Some k \<Rightarrow> if k \<in> set oids then t\<lparr>wt_order := None\<rparr> else t)"

definition delete_orders :: "row_id list \<Rightarrow> sys \<Rightarrow> sys" where
  "delete_orders oids s =
    s\<lparr>orders := filter (\<lambda>ord. o_id ord \<notin> set oids) (orders s),
      order_masters := filter (\<lambda>r. om_order r \<notin> set oids) (order_masters s),
      order_assistants := filter (\<lambda>r. om_order r \<notin> set oids) (order_assistants s),
      usages := filter (\<lambda>u. ou_order u \<notin> set oids) (usages s),
      trackings := filter (\<lambda>t. ot_order t \<notin> set oids) (trackings s),
      reviews := filter (\<lambda>r. rv_order r \<notin> set oids) (reviews s),
      wallet := (wallet s)\<lparr>wallet_transactions := map (null_order oids) (wallet_transactions (wallet s))\<rparr>\<rparr>"

section \<open>Clients\<close>

definition client_orders :: "row_id \<Rightarrow> sys \<Rightarrow> row_id list" where
  "client_orders c s = map o_id (filter (\<lambda>ord. o_client ord = c) (orders s))"

text \<open>Addresses and devices go, a device also with its address; orders of others that used one of them
  lose the reference.\<close>

definition gone_addresses :: "row_id \<Rightarrow> profiles_db \<Rightarrow> row_id list" where
  "gone_addresses c db = map ca_id (filter (\<lambda>a. ca_client a = c) (addresses db))"

definition device_gone :: "row_id \<Rightarrow> profiles_db \<Rightarrow> client_device \<Rightarrow> bool" where
  "device_gone c db d = (cd_client d = c \<or> cd_address d \<in> set (gone_addresses c db))"

definition gone_devices :: "row_id \<Rightarrow> profiles_db \<Rightarrow> row_id list" where
  "gone_devices c db = map cd_id (filter (device_gone c db) (devices db))"

definition null_if :: "row_id list \<Rightarrow> row_id option \<Rightarrow> row_id option" where
  "null_if ks v = (case v of None \<Rightarrow> None | Some k \<Rightarrow> if k \<in> set ks then None else Some k)"

definition delete_client_profile :: "row_id \<Rightarrow> sys \<Rightarrow> sys" where
  "delete_client_profile c s =
    (let db = profiles s in
     s\<lparr>profiles := db\<lparr>addresses := filter (\<lambda>a. ca_client a \<noteq> c) (addresses db),
                      devices := filter (\<lambda>d. \<not> device_gone c db d) (devices db),
                      subscriptions := filter (\<lambda>b. sb_client b \<noteq> c) (subscriptions db)\<rparr>,
       orders := map (\<lambda>ord. ord\<lparr>o_address := null_if (gone_addresses c db) (o_address ord),
                                o_device := null_if (gone_devices c db) (o_device ord)\<rparr>) (orders s),
       reviews := filter (\<lambda>r. rv_client r \<noteq> c) (reviews s)\<rparr>)"

text \<open>Chats, with their messages, and messages of the account.\<close>

definition delete_chats :: "(support_chat \<Rightarrow> bool) \<Rightarrow> (support_message \<Rightarrow> bool) \<Rightarrow> support_db \<Rightarrow> support_db" where
  "delete_chats of_account by_account db =
    (let ks = map sc_id (filter of_account (chats db)) in
     db\<lparr>chats := filter (\<lambda>r. sc_id r \<notin> set ks) (chats db),
        messages := filter (\<lambda>m. \<not> by_account m \<and> (case msg_chat m of None \<Rightarrow> True | Some k \<Rightarrow> k \<notin> set ks)) (messages db)\<rparr>)"

definition delete_notifications :: "(notification \<Rightarrow> bool) \<Rightarrow> notification_db \<Rightarrow> notification_db" where
  "delete_notifications of_account db = db\<lparr>notifications := filter (\<lambda>n. \<not> of_account n) (notifications db)\<rparr>"

definition delete_client :: "row_id \<Rightarrow> site \<Rightarrow> site res" where
  "delete_client c w =
    (let s = si_main w; oids = client_orders c s in
     if list_ex (\<lambda>t. tx_order t \<in> set oids) (si_txs w) then Inl (ServerError ''ProtectedError'')
     else Inr (w\<lparr>si_accounts := (si_accounts w)\<lparr>clients := del_row cl_id c (clients (si_accounts w)),
                    fcm_devices := filter (\<lambda>d. fd_client d \<noteq> Some c) (fcm_devices (si_accounts w))\<rparr>,
                 si_main := delete_client_profile c (delete_orders oids s),
                 si_market := delete_market_client c (si_market w),
                 si_support := delete_chats (\<lambda>r. sc_client r = Some c) (\<lambda>m. msg_client m = Some c) (si_support w),
                 si_notices := delete_notifications (\<lambda>n. nt_client n = Some c) (si_notices w)\<rparr>))"

section \<open>Masters\<close>

text \<open>A master who was ever assigned to an order, or whose parts were used in one, is protected. The
  wallet with its ledger and the inventory go with the account.\<close>

definition master_protected :: "row_id \<Rightarrow> sys \<Rightarrow> bool" where
  "master_protected m s =
    (list_ex (\<lambda>r. om_master r = m) (order_masters s) \<or> list_ex (\<lambda>r. om_master r = m) (order_assistants s) \<or>
     list_ex (\<lambda>u. list_ex (\<lambda>i. mi_id i = ou_inventory u \<and> mi_master i = m) (inventory (warehouse s))) (usages s))"

definition null_master :: "row_id \<Rightarrow> order \<Rightarrow> order" where
  "null_master m ord =
    ord\<lparr>o_master := null_if [m] (o_master ord), receipt_approved_by := null_if [m] (receipt_approved_by ord)\<rparr>"

definition delete_master_wallet :: "row_id \<Rightarrow> wallet_db \<Rightarrow> wallet_db" where
  "delete_master_wallet m db =
    db\<lparr>wallets := filter (\<lambda>r. mw_master r \<noteq> m) (wallets db),
       wallet_transactions := filter (\<lambda>t. wt_master t \<noteq> m) (wallet_transactions db),
       withdraw_requests := filter (\<lambda>r. wr_master r \<noteq> m) (withdraw_requests db),
       expenses := filter (\<lambda>r. me_master r \<noteq> m) (expenses db)\<rparr>"

definition delete_master_stock :: "row_id \<Rightarrow> warehouse_db \<Rightarrow> warehouse_db" where
  "delete_master_stock m db =
    db\<lparr>inventory := filter (\<lambda>i. mi_master i \<noteq> m) (inventory db),
       movements := map (\<lambda>r. r\<lparr>sm_master := null_if [m] (sm_master r)\<rparr>) (movements db)\<rparr>"

definition delete_master :: "row_id \<Rightarrow> site \<Rightarrow> site res" where
  "delete_master m w =
    (let s = si_main w in
     if master_protected m s then Inl (ServerError ''ProtectedError'')
     else Inr (w\<lparr>si_accounts := (si_accounts w)\<lparr>masters := del_row ms_id m (masters (si_accounts w)),
                    fcm_devices := filter (\<lambda>d. fd_master d \<noteq> Some m) (fcm_devices (si_accounts w))\<rparr>,
                 si_main := s\<lparr>orders := map (null_master m) (orders s), reviews := filter (\<lambda>r. rv_master r \<noteq> m) (reviews s),
                    wallet := delete_master_wallet m (wallet s), warehouse := delete_master_stock m (warehouse s)\<rparr>,
                 si_support := delete_chats (\<lambda>r. sc_master r = Some m) (\<lambda>x. msg_master x = Some m) (si_support w),
                 si_notices := delete_notifications (\<lambda>n. nt_master n = Some m) (si_notices w)\<rparr>))"

section \<open>Staff\<close>

definition null_assigner :: "row_id \<Rightarrow> order_master \<Rightarrow> order_master" where
  "null_assigner u r = r\<lparr>om_assigned_by := null_if [u] (om_assigned_by r)\<rparr>"

definition delete_staff :: "row_id \<Rightarrow> site \<Rightarrow> site" where
  "delete_staff u w =
    (let s = si_main w in
     w\<lparr>si_accounts := (si_accounts w)\<lparr>staff := del_row su_id u (staff (si_accounts w))\<rparr>,
       si_main := s\<lparr>order_masters := map (null_assigner u) (order_masters s), order_assistants := map (null_assigner u) (order_assistants s)\<rparr>,
       si_support := (si_support w)\<lparr>messages := map (\<lambda>m. m\<lparr>msg_admin := null_if [u] (msg_admin m)\<rparr>) (messages (si_support w))\<rparr>\<rparr>)"

section \<open>Requests\<close>

text \<open>The account view deletes whoever sends the request, without a question and at any time; the
  detail pages of dashboard and internal API delete the account of the URL.\<close>

definition DeleteAccountView_delete :: "subject \<Rightarrow> site \<Rightarrow> site res" where
  "DeleteAccountView_delete user w =
    (case user of
       ClientSubject c \<Rightarrow> delete_client (cl_id c) w
     | MasterSubject m \<Rightarrow> delete_master (ms_id m) w
     | StaffSubject u \<Rightarrow> Inr (delete_staff (su_id u) w))"

definition ClientDetail_destroy :: "row_id \<Rightarrow> site \<Rightarrow> site res" where
  "ClientDetail_destroy pk w =
    bindE (get_or_404 ''Client'' (get_row cl_id pk (clients (si_accounts w)))) (\<lambda>_. delete_client pk w)"

definition MasterDetail_destroy :: "row_id \<Rightarrow> site \<Rightarrow> site res" where
  "MasterDetail_destroy pk w =
    bindE (get_or_404 ''Master'' (get_row ms_id pk (masters (si_accounts w)))) (\<lambda>_. delete_master pk w)"

end
