(* ===== verification/Cascades.thy ===== *)
theory Cascades
  imports References
begin

text \<open>
  Foreign keys under deletions: rules for the cascades and the emptied columns of a deletion, one row
  or a set of rows at a time.
\<close>

section \<open>Deleting one row, or a set of them\<close>

lemma refs_del_both:
  "refs f rows key tbl \<Longrightarrow> (\<And>r. r \<in> set rows \<Longrightarrow> P r \<Longrightarrow> f r \<noteq> k) \<Longrightarrow> refs f (filter P rows) key (del_row key k tbl)"
  unfolding del_row_def by (rule refs_cascade)

lemma orefs_del_both:
  "orefs f rows key tbl \<Longrightarrow> (\<And>r. r \<in> set rows \<Longrightarrow> P r \<Longrightarrow> f r \<noteq> Some k) \<Longrightarrow> orefs f (filter P rows) key (del_row key k tbl)"
  unfolding del_row_def by (rule orefs_cascade) auto

lemma refs_drop:
  "refs f rows key tbl \<Longrightarrow> (\<And>r. r \<in> set rows \<Longrightarrow> P r \<Longrightarrow> f r \<notin> K) \<Longrightarrow> refs f (filter P rows) key (filter (\<lambda>x. key x \<notin> K) tbl)"
  by (rule refs_cascade)

lemma orefs_drop:
  "orefs f rows key tbl \<Longrightarrow> (\<And>r k. r \<in> set rows \<Longrightarrow> P r \<Longrightarrow> f r = Some k \<Longrightarrow> k \<notin> K) \<Longrightarrow>
    orefs f (filter P rows) key (filter (\<lambda>x. key x \<notin> K) tbl)"
  by (rule orefs_cascade)

lemma refs_map_rows: "refs f rows key tbl \<Longrightarrow> (\<And>r. f (g r) = f r) \<Longrightarrow> refs f (map g rows) key tbl"
  by (simp add: refs_map)

lemma orefs_map_rows: "orefs f rows key tbl \<Longrightarrow> (\<And>r. f (g r) = f r) \<Longrightarrow> orefs f (map g rows) key tbl"
  by (simp add: orefs_def)

lemma orefs_map_target: "(\<And>x. key (g x) = key x) \<Longrightarrow> orefs f rows key (map g tbl) = orefs f rows key tbl"
  by (simp add: orefs_def image_image)

lemma orefs_filter: "orefs f rows key tbl \<Longrightarrow> orefs f (filter P rows) key tbl"
  by (auto simp: orefs_def)

text \<open>\<open>SET_NULL\<close> on the rows that stay.\<close>

lemma orefs_null_drop:
  assumes "orefs f rows key tbl" and "\<And>r j. f (g r) = Some j \<Longrightarrow> f r = Some j \<and> j \<notin> K"
  shows "orefs f (map g rows) key (filter (\<lambda>x. key x \<notin> K) tbl)"
proof -
  have "orefs f (map g (filter (\<lambda>_. True) rows)) key (filter (\<lambda>x. key x \<notin> K) tbl)"
    by (rule orefs_set_null [OF assms(1)]) (rule assms(2))
  then show ?thesis by simp
qed

lemma orefs_null_del:
  assumes "orefs f rows key tbl" and "\<And>r j. f (g r) = Some j \<Longrightarrow> f r = Some j \<and> j \<noteq> k"
  shows "orefs f (map g rows) key (del_row key k tbl)"
proof -
  have "f r = Some j \<and> j \<notin> {k}" if "f (g r) = Some j" for r j
    using assms(2) [OF that] by simp
  from orefs_null_drop [OF assms(1) this] show ?thesis by (simp add: del_row_def)
qed

lemma orefs_code [code]:
  "orefs f rows key tbl = list_all (\<lambda>r. case f r of None \<Rightarrow> True | Some k \<Rightarrow> k \<in> set (map key tbl)) rows"
  by (auto simp: orefs_def list_all_iff split: option.splits)

end
