(* ===== verification/Deletion_Props.thy ===== *)
theory Deletion_Props
  imports Account_Deletion Support_Props Market_Props Notification_Props Order_Props Cascades
begin

text \<open>
  What a deletion of an account leaves behind: no dangling reference in any table, the other accounts
  as they were, balanced books; and what it takes away that the business may want to keep.
\<close>

section \<open>References\<close>

text \<open>Every key of a client, a master or an order that a row holds is the key of a row.\<close>

definition client_refs :: "site \<Rightarrow> bool" where
  "client_refs w \<longleftrightarrow> (let cs = clients (si_accounts w); s = si_main w; k = si_market w in
    refs o_client (orders s) cl_id cs \<and> refs rv_client (reviews s) cl_id cs \<and>
    refs ca_client (addresses (profiles s)) cl_id cs \<and> refs cd_client (devices (profiles s)) cl_id cs \<and>
    refs sb_client (subscriptions (profiles s)) cl_id cs \<and> orefs fd_client (fcm_devices (si_accounts w)) cl_id cs \<and>
    refs mf_client (favorites k) cl_id cs \<and> refs mo_client (market_orders k) cl_id cs \<and> orefs mk_seller (market_products k) cl_id cs \<and>
    orefs sc_client (chats (si_support w)) cl_id cs \<and> orefs msg_client (messages (si_support w)) cl_id cs \<and>
    orefs nt_client (notifications (si_notices w)) cl_id cs)"

definition master_refs :: "site \<Rightarrow> bool" where
  "master_refs w \<longleftrightarrow> (let ms = masters (si_accounts w); s = si_main w; b = wallet s; h = warehouse s in
    orefs o_master (orders s) ms_id ms \<and> orefs receipt_approved_by (orders s) ms_id ms \<and>
    refs om_master (order_masters s) ms_id ms \<and> refs om_master (order_assistants s) ms_id ms \<and>
    refs rv_master (reviews s) ms_id ms \<and> refs mw_master (wallets b) ms_id ms \<and> refs wt_master (wallet_transactions b) ms_id ms \<and>
    refs wr_master (withdraw_requests b) ms_id ms \<and> refs me_master (expenses b) ms_id ms \<and> refs mi_master (inventory h) ms_id ms \<and>
    orefs sm_master (movements h) ms_id ms \<and> orefs fd_master (fcm_devices (si_accounts w)) ms_id ms \<and>
    orefs sc_master (chats (si_support w)) ms_id ms \<and> orefs msg_master (messages (si_support w)) ms_id ms \<and>
    orefs nt_master (notifications (si_notices w)) ms_id ms)"

definition staff_refs :: "site \<Rightarrow> bool" where
  "staff_refs w \<longleftrightarrow> (let us = staff (si_accounts w) in
    orefs om_assigned_by (order_masters (si_main w)) su_id us \<and> orefs om_assigned_by (order_assistants (si_main w)) su_id us \<and>
    orefs msg_admin (messages (si_support w)) su_id us)"

definition inner_refs :: "site \<Rightarrow> bool" where
  "inner_refs w \<longleftrightarrow> (let s = si_main w; os = orders s; p = profiles s in
    refs om_order (order_masters s) o_id os \<and> refs om_order (order_assistants s) o_id os \<and> refs ou_order (usages s) o_id os \<and>
    refs ot_order (trackings s) o_id os \<and> refs rv_order (reviews s) o_id os \<and> orefs wt_order (wallet_transactions (wallet s)) o_id os \<and>
    refs tx_order (si_txs w) o_id os \<and> refs ou_inventory (usages s) mi_id (inventory (warehouse s)) \<and>
    orefs o_address os ca_id (addresses p) \<and> orefs o_device os cd_id (devices p) \<and> refs cd_address (devices p) ca_id (addresses p) \<and>
    orefs msg_chat (messages (si_support w)) sc_id (chats (si_support w)))"

definition site_refs :: "site \<Rightarrow> bool" where
  "site_refs w \<longleftrightarrow> client_refs w \<and> master_refs w \<and> staff_refs w \<and> inner_refs w"

section \<open>The tables after a deletion\<close>

lemma null_if_simps [simp]: "null_if ks None = None" "(null_if ks (Some k) = Some j) = (k = j \<and> k \<notin> set ks)"
  by (auto simp: null_if_def)

lemma null_if_Some: "null_if ks v = Some k \<Longrightarrow> v = Some k \<and> k \<notin> set ks"
  by (auto simp: null_if_def split: option.splits if_splits)

lemma null_order_keeps [simp]:
  "wt_id (null_order oids t) = wt_id t" "wt_master (null_order oids t) = wt_master t" "wt_amount (null_order oids t) = wt_amount t"
  "wt_type (null_order oids t) = wt_type t" "wt_method (null_order oids t) = wt_method t"
  by (simp_all add: null_order_def split: option.split)

lemma null_order_ref: "wt_order (null_order oids t) = null_if oids (wt_order t)"
  by (simp add: null_order_def null_if_def split: option.split)

lemma delete_client_run:
  assumes "delete_client c w = Inr w'"
  shows "\<not> list_ex (\<lambda>t. tx_order t \<in> set (client_orders c (si_main w))) (si_txs w)"
    and "w' = w\<lparr>si_accounts := (si_accounts w)\<lparr>clients := del_row cl_id c (clients (si_accounts w)),
                    fcm_devices := filter (\<lambda>d. fd_client d \<noteq> Some c) (fcm_devices (si_accounts w))\<rparr>,
                 si_main := delete_client_profile c (delete_orders (client_orders c (si_main w)) (si_main w)),
                 si_market := delete_market_client c (si_market w),
                 si_support := delete_chats (\<lambda>r. sc_client r = Some c) (\<lambda>m. msg_client m = Some c) (si_support w),
                 si_notices := delete_notifications (\<lambda>n. nt_client n = Some c) (si_notices w)\<rparr>"
  using assms by (simp_all add: delete_client_def Let_def split: if_splits)

lemma client_main:
  fixes c s defines "s' \<equiv> delete_client_profile c (delete_orders (client_orders c s) s)"
  shows "orders s' = map (\<lambda>ord. ord\<lparr>o_address := null_if (gone_addresses c (profiles s)) (o_address ord),
        o_device := null_if (gone_devices c (profiles s)) (o_device ord)\<rparr>) (filter (\<lambda>ord. o_id ord \<notin> set (client_orders c s)) (orders s))"
    and "order_masters s' = filter (\<lambda>r. om_order r \<notin> set (client_orders c s)) (order_masters s)"
    and "order_assistants s' = filter (\<lambda>r. om_order r \<notin> set (client_orders c s)) (order_assistants s)"
    and "usages s' = filter (\<lambda>r. ou_order r \<notin> set (client_orders c s)) (usages s)"
    and "trackings s' = filter (\<lambda>r. ot_order r \<notin> set (client_orders c s)) (trackings s)"
    and "reviews s' = filter (\<lambda>r. rv_client r \<noteq> c) (filter (\<lambda>r. rv_order r \<notin> set (client_orders c s)) (reviews s))"
    and "wallet s' = (wallet s)\<lparr>wallet_transactions := map (null_order (client_orders c s)) (wallet_transactions (wallet s))\<rparr>"
    and "warehouse s' = warehouse s" and "catalog s' = catalog s" and "tariffs (profiles s') = tariffs (profiles s)"
    and "addresses (profiles s') = filter (\<lambda>a. ca_client a \<noteq> c) (addresses (profiles s))"
    and "devices (profiles s') = filter (\<lambda>d. \<not> device_gone c (profiles s) d) (devices (profiles s))"
    and "subscriptions (profiles s') = filter (\<lambda>b. sb_client b \<noteq> c) (subscriptions (profiles s))"
  by (simp_all add: s'_def delete_client_profile_def delete_orders_def Let_def)

lemma client_orders_iff: "ord \<in> set (orders s) \<Longrightarrow> o_id ord \<notin> set (client_orders c s) \<Longrightarrow> o_client ord \<noteq> c"
  by (auto simp: client_orders_def)

lemmas drop_intros = refs_del_both orefs_del_both refs_drop orefs_drop orefs_null_del orefs_null_drop

lemma delete_client_client_refs:
  assumes "delete_client c w = Inr w'" and "client_refs w"
  shows "client_refs w'"
proof -
  let ?s = "si_main w" and ?cs = "clients (si_accounts w)"
  note run = delete_client_run(2) [OF assms(1)]
  have refs: "refs o_client (orders ?s) cl_id ?cs" "refs rv_client (reviews ?s) cl_id ?cs"
    "refs ca_client (addresses (profiles ?s)) cl_id ?cs" "refs cd_client (devices (profiles ?s)) cl_id ?cs"
    "refs sb_client (subscriptions (profiles ?s)) cl_id ?cs" "orefs fd_client (fcm_devices (si_accounts w)) cl_id ?cs"
    "refs mf_client (favorites (si_market w)) cl_id ?cs" "refs mo_client (market_orders (si_market w)) cl_id ?cs"
    "orefs mk_seller (market_products (si_market w)) cl_id ?cs" "orefs sc_client (chats (si_support w)) cl_id ?cs"
    "orefs msg_client (messages (si_support w)) cl_id ?cs" "orefs nt_client (notifications (si_notices w)) cl_id ?cs"
    using assms(2) by (simp_all add: client_refs_def Let_def)
  have orders: "refs o_client (orders (si_main w')) cl_id (clients (si_accounts w'))"
    by (simp add: run client_main) (intro refs_map_rows refs_del_both refs(1), auto dest: client_orders_iff)
  have reviews: "refs rv_client (reviews (si_main w')) cl_id (clients (si_accounts w'))"
    by (simp add: run client_main) (intro refs_del_both refs_filter refs(2), auto)
  have profiles: "refs ca_client (addresses (profiles (si_main w'))) cl_id (clients (si_accounts w'))"
    "refs cd_client (devices (profiles (si_main w'))) cl_id (clients (si_accounts w'))"
    "refs sb_client (subscriptions (profiles (si_main w'))) cl_id (clients (si_accounts w'))"
    by (simp_all add: run client_main) (intro refs_del_both refs; auto simp: device_gone_def)+
  have market: "refs mf_client (favorites (si_market w')) cl_id (clients (si_accounts w'))"
    "refs mo_client (market_orders (si_market w')) cl_id (clients (si_accounts w'))"
    "orefs mk_seller (market_products (si_market w')) cl_id (clients (si_accounts w'))"
    by (simp_all add: run delete_market_client_def) (intro drop_intros refs; auto split: if_splits)+
  have rest: "orefs fd_client (fcm_devices (si_accounts w')) cl_id (clients (si_accounts w'))"
    "orefs nt_client (notifications (si_notices w')) cl_id (clients (si_accounts w'))"
    by (simp_all add: run delete_notifications_def) (intro drop_intros refs; auto)+
  have support: "orefs sc_client (chats (si_support w')) cl_id (clients (si_accounts w'))"
    "orefs msg_client (messages (si_support w')) cl_id (clients (si_accounts w'))"
    by (simp_all add: run delete_chats_def Let_def) (intro drop_intros refs; auto)+
  from orders reviews profiles market rest support show ?thesis by (simp add: client_refs_def Let_def)
qed

lemma delete_client_master_refs:
  assumes "delete_client c w = Inr w'" and "master_refs w"
  shows "master_refs w'"
proof -
  note run = delete_client_run(2) [OF assms(1)]
  show ?thesis using assms(2)
    by (simp add: master_refs_def Let_def run client_main delete_chats_def delete_notifications_def)
      (simp add: refs_filter orefs_filter orefs_map_rows refs_map_rows)
qed

lemma delete_client_staff_refs:
  assumes "delete_client c w = Inr w'" and "staff_refs w"
  shows "staff_refs w'"
  using assms(2) by (simp add: staff_refs_def Let_def delete_client_run(2) [OF assms(1)] client_main delete_chats_def orefs_filter)

text \<open>A row that is not among the deleted ones keeps its key, whatever column chose the deleted ones.\<close>

lemma orefs_null_stays:
  assumes "orefs f rows key tbl" and "\<And>r j. f (g r) = Some j \<Longrightarrow> f r = Some j \<and> j \<notin> key ` set (filter P tbl)"
  shows "orefs f (map g (filter Q rows)) key (filter (\<lambda>x. \<not> P x) tbl)"
  unfolding orefs_def
proof (intro ballI allI impI)
  fix r k assume "r \<in> set (map g (filter Q rows))" and k: "f r = Some k"
  then obtain r0 where r0: "r0 \<in> set rows" "r = g r0" by auto
  have keep: "f r0 = Some k \<and> k \<notin> key ` set (filter P tbl)" by (rule assms(2)) (use k r0(2) in simp)
  then have "k \<in> key ` set tbl" using assms(1) r0(1) unfolding orefs_def by blast
  from this conjunct2 [OF keep] show "k \<in> key ` set (filter (\<lambda>x. \<not> P x) tbl)" by (rule key_stays)
qed

lemma refs_stays:
  assumes "refs f rows key tbl" and "\<And>r. r \<in> set rows \<Longrightarrow> Q r \<Longrightarrow> f r \<notin> key ` set (filter P tbl)"
  shows "refs f (filter Q rows) key (filter (\<lambda>x. \<not> P x) tbl)"
  unfolding refs_def
proof
  fix k assume "k \<in> f ` set (filter Q rows)"
  then obtain r where r: "r \<in> set rows" "Q r" "k = f r" by auto
  have "k \<in> key ` set tbl" using assms(1) r(1,3) unfolding refs_def by blast
  moreover have "k \<notin> key ` set (filter P tbl)" using assms(2) [OF r(1,2)] r(3) by simp
  ultimately show "k \<in> key ` set (filter (\<lambda>x. \<not> P x) tbl)" by (rule key_stays)
qed

lemma delete_chats_refs:
  assumes "orefs msg_chat (messages db) sc_id (chats db)"
  shows "orefs msg_chat (messages (delete_chats p q db)) sc_id (chats (delete_chats p q db))"
  by (simp add: delete_chats_def Let_def) (rule orefs_drop [OF assms], simp)

lemma delete_client_inner_refs:
  assumes "delete_client c w = Inr w'" and "inner_refs w"
  shows "inner_refs w'"
proof -
  let ?s = "si_main w" and ?K = "set (client_orders c (si_main w))"
  let ?os = "orders ?s" and ?p = "profiles ?s"
  note run = delete_client_run(2) [OF assms(1)]
  have refs: "refs om_order (order_masters ?s) o_id ?os" "refs om_order (order_assistants ?s) o_id ?os" "refs ou_order (usages ?s) o_id ?os"
    "refs ot_order (trackings ?s) o_id ?os" "refs rv_order (reviews ?s) o_id ?os"
    and wt: "orefs wt_order (wallet_transactions (wallet ?s)) o_id ?os" and tx: "refs tx_order (si_txs w) o_id ?os"
    and inv: "refs ou_inventory (usages ?s) mi_id (inventory (warehouse ?s))"
    and adr: "orefs o_address ?os ca_id (addresses ?p)" and dev: "orefs o_device ?os cd_id (devices ?p)"
    and dadr: "refs cd_address (devices ?p) ca_id (addresses ?p)"
    and chat: "orefs msg_chat (messages (si_support w)) sc_id (chats (si_support w))"
    using assms(2) by (simp_all add: inner_refs_def Let_def)
  let ?os' = "filter (\<lambda>ord. o_id ord \<notin> ?K) ?os"
  have hang: "refs om_order (filter (\<lambda>r. om_order r \<notin> ?K) (order_masters ?s)) o_id ?os'"
    "refs om_order (filter (\<lambda>r. om_order r \<notin> ?K) (order_assistants ?s)) o_id ?os'"
    "refs ou_order (filter (\<lambda>r. ou_order r \<notin> ?K) (usages ?s)) o_id ?os'"
    "refs ot_order (filter (\<lambda>r. ot_order r \<notin> ?K) (trackings ?s)) o_id ?os'"
    "refs rv_order (filter (\<lambda>r. rv_order r \<notin> ?K) (reviews ?s)) o_id ?os'"
    by (rule refs_drop [OF refs(1)] refs_drop [OF refs(2)] refs_drop [OF refs(3)] refs_drop [OF refs(4)] refs_drop [OF refs(5)]; assumption)+
  have wt': "orefs wt_order (map (null_order (client_orders c ?s)) (wallet_transactions (wallet ?s))) o_id ?os'"
    by (rule orefs_null_drop [OF wt]) (auto simp: null_order_ref dest: null_if_Some)
  have "\<forall>t \<in> set (si_txs w). tx_order t \<notin> ?K" using delete_client_run(1) [OF assms(1)] by (auto simp: list_ex_iff)
  from refs_filter_target [OF tx this] have tx': "refs tx_order (si_txs w) o_id ?os'" .
  let ?g = "\<lambda>ord. ord\<lparr>o_address := null_if (gone_addresses c ?p) (o_address ord), o_device := null_if (gone_devices c ?p) (o_device ord)\<rparr>"
  have adr': "orefs o_address (map ?g ?os') ca_id (filter (\<lambda>a. \<not> ca_client a = c) (addresses ?p))"
    by (rule orefs_null_stays [OF adr]) (auto simp: gone_addresses_def dest!: null_if_Some)
  have dev': "orefs o_device (map ?g ?os') cd_id (filter (\<lambda>d. \<not> device_gone c ?p d) (devices ?p))"
    by (rule orefs_null_stays [OF dev]) (auto simp: gone_devices_def dest!: null_if_Some)
  have dadr': "refs cd_address (filter (\<lambda>d. \<not> device_gone c ?p d) (devices ?p)) ca_id (filter (\<lambda>a. \<not> ca_client a = c) (addresses ?p))"
    by (rule refs_stays [OF dadr]) (auto simp: device_gone_def gone_addresses_def)
  have "inner_refs w' \<longleftrightarrow> orefs msg_chat (messages (si_support w')) sc_id (chats (si_support w'))"
    using hang wt' tx' refs_filter [OF inv] adr' dev' dadr' refs_filter [OF hang(5)]
    by (simp add: inner_refs_def Let_def run client_main refs_map_target orefs_map_target)
  then show ?thesis using delete_chats_refs [OF chat] by (simp add: run)
qed

section \<open>Masters and staff\<close>

lemma delete_master_run:
  assumes "delete_master m w = Inr w'"
  shows "\<not> master_protected m (si_main w)"
    and "w' = w\<lparr>si_accounts := (si_accounts w)\<lparr>masters := del_row ms_id m (masters (si_accounts w)),
                    fcm_devices := filter (\<lambda>d. fd_master d \<noteq> Some m) (fcm_devices (si_accounts w))\<rparr>,
                 si_main := (si_main w)\<lparr>orders := map (null_master m) (orders (si_main w)),
                    reviews := filter (\<lambda>r. rv_master r \<noteq> m) (reviews (si_main w)),
                    wallet := delete_master_wallet m (wallet (si_main w)), warehouse := delete_master_stock m (warehouse (si_main w))\<rparr>,
                 si_support := delete_chats (\<lambda>r. sc_master r = Some m) (\<lambda>x. msg_master x = Some m) (si_support w),
                 si_notices := delete_notifications (\<lambda>n. nt_master n = Some m) (si_notices w)\<rparr>"
  using assms by (simp_all add: delete_master_def Let_def split: if_splits)

lemma null_master_keeps [simp]:
  "o_id (null_master m ord) = o_id ord" "o_client (null_master m ord) = o_client ord" "o_address (null_master m ord) = o_address ord"
  "o_device (null_master m ord) = o_device ord" "o_status (null_master m ord) = o_status ord" "paid_at (null_master m ord) = paid_at ord"
  "o_master (null_master m ord) = null_if [m] (o_master ord)" "receipt_approved_by (null_master m ord) = null_if [m] (receipt_approved_by ord)"
  by (simp_all add: null_master_def)

lemma null_assigner_keeps [simp]:
  "om_order (null_assigner u r) = om_order r" "om_master (null_assigner u r) = om_master r" "om_active (null_assigner u r) = om_active r"
  "om_assigned_by (null_assigner u r) = null_if [u] (om_assigned_by r)"
  by (simp_all add: null_assigner_def)

lemma delete_master_master_refs:
  assumes "delete_master m w = Inr w'" and "master_refs w"
  shows "master_refs w'"
proof -
  let ?s = "si_main w" and ?ms = "masters (si_accounts w)"
  note run = delete_master_run(2) [OF assms(1)]
  have refs: "orefs o_master (orders ?s) ms_id ?ms" "orefs receipt_approved_by (orders ?s) ms_id ?ms"
    "refs rv_master (reviews ?s) ms_id ?ms" "refs mw_master (wallets (wallet ?s)) ms_id ?ms"
    "refs wt_master (wallet_transactions (wallet ?s)) ms_id ?ms" "refs wr_master (withdraw_requests (wallet ?s)) ms_id ?ms"
    "refs me_master (expenses (wallet ?s)) ms_id ?ms" "refs mi_master (inventory (warehouse ?s)) ms_id ?ms"
    "orefs sm_master (movements (warehouse ?s)) ms_id ?ms" "orefs fd_master (fcm_devices (si_accounts w)) ms_id ?ms"
    "orefs sc_master (chats (si_support w)) ms_id ?ms" "orefs msg_master (messages (si_support w)) ms_id ?ms"
    "orefs nt_master (notifications (si_notices w)) ms_id ?ms"
    and held: "refs om_master (order_masters ?s) ms_id ?ms" "refs om_master (order_assistants ?s) ms_id ?ms"
    using assms(2) by (simp_all add: master_refs_def Let_def)
  have free: "\<forall>r \<in> set (order_masters ?s). om_master r \<noteq> m" "\<forall>r \<in> set (order_assistants ?s). om_master r \<noteq> m"
    using delete_master_run(1) [OF assms(1)] by (auto simp: master_protected_def list_ex_iff)
  have orders: "orefs o_master (orders (si_main w')) ms_id (masters (si_accounts w'))"
    "orefs receipt_approved_by (orders (si_main w')) ms_id (masters (si_accounts w'))"
    by (simp_all add: run) (intro orefs_null_del refs; auto dest: null_if_Some)+
  have assigned: "refs om_master (order_masters (si_main w')) ms_id (masters (si_accounts w'))"
    "refs om_master (order_assistants (si_main w')) ms_id (masters (si_accounts w'))"
    by (simp_all add: run refs_del_target held free)
  have money: "refs mw_master (wallets (wallet (si_main w'))) ms_id (masters (si_accounts w'))"
    "refs wt_master (wallet_transactions (wallet (si_main w'))) ms_id (masters (si_accounts w'))"
    "refs wr_master (withdraw_requests (wallet (si_main w'))) ms_id (masters (si_accounts w'))"
    "refs me_master (expenses (wallet (si_main w'))) ms_id (masters (si_accounts w'))"
    "refs rv_master (reviews (si_main w')) ms_id (masters (si_accounts w'))"
    by (simp_all add: run delete_master_wallet_def) (intro refs_del_both refs; simp)+
  have stock: "refs mi_master (inventory (warehouse (si_main w'))) ms_id (masters (si_accounts w'))"
    "orefs sm_master (movements (warehouse (si_main w'))) ms_id (masters (si_accounts w'))"
    by (simp_all add: run delete_master_stock_def) (intro refs_del_both orefs_null_del refs; auto dest: null_if_Some)+
  have rest: "orefs fd_master (fcm_devices (si_accounts w')) ms_id (masters (si_accounts w'))"
    "orefs nt_master (notifications (si_notices w')) ms_id (masters (si_accounts w'))"
    "orefs sc_master (chats (si_support w')) ms_id (masters (si_accounts w'))"
    "orefs msg_master (messages (si_support w')) ms_id (masters (si_accounts w'))"
    by (simp_all add: run delete_notifications_def delete_chats_def Let_def) (intro drop_intros refs; auto)+
  from orders assigned money stock rest show ?thesis by (simp add: master_refs_def Let_def)
qed

lemma delete_master_other_refs:
  assumes "delete_master m w = Inr w'"
  shows "client_refs w \<Longrightarrow> client_refs w'" "staff_refs w \<Longrightarrow> staff_refs w'"
proof -
  note run = delete_master_run(2) [OF assms]
  show "client_refs w \<Longrightarrow> client_refs w'"
    by (simp add: client_refs_def Let_def run delete_chats_def delete_notifications_def)
      (simp add: refs_filter orefs_filter refs_map_rows)
  show "staff_refs w \<Longrightarrow> staff_refs w'"
    by (simp add: staff_refs_def Let_def run delete_chats_def orefs_filter)
qed

lemma delete_master_inner_refs:
  assumes "delete_master m w = Inr w'" and "inner_refs w"
  shows "inner_refs w'"
proof -
  let ?s = "si_main w"
  note run = delete_master_run(2) [OF assms(1)]
  have inv: "refs ou_inventory (usages ?s) mi_id (inventory (warehouse ?s))"
    and chat: "orefs msg_chat (messages (si_support w)) sc_id (chats (si_support w))"
    using assms(2) by (simp_all add: inner_refs_def Let_def)
  have unused: "\<forall>u \<in> set (usages ?s). \<forall>i \<in> set (inventory (warehouse ?s)). mi_id i = ou_inventory u \<longrightarrow> mi_master i \<noteq> m"
    using delete_master_run(1) [OF assms(1)] by (auto simp: master_protected_def list_ex_iff)
  have "refs ou_inventory (filter (\<lambda>_. True) (usages ?s)) mi_id (filter (\<lambda>i. \<not> mi_master i = m) (inventory (warehouse ?s)))"
    by (rule refs_stays [OF inv]) (use unused in force)
  then show ?thesis
    using assms(2) delete_chats_refs [OF chat]
    by (simp add: inner_refs_def Let_def run delete_master_wallet_def delete_master_stock_def)
      (simp add: refs_map_target orefs_map_target orefs_map_rows refs_filter orefs_filter)
qed

lemma delete_staff_refs:
  assumes "site_refs w"
  shows "site_refs (delete_staff u w)"
proof -
  have "staff_refs (delete_staff u w)"
    using assms unfolding site_refs_def staff_refs_def Let_def
    by (simp add: delete_staff_def Let_def) (intro conjI orefs_null_del; auto dest: null_if_Some)
  moreover have "client_refs (delete_staff u w)" "inner_refs (delete_staff u w)" "master_refs (delete_staff u w)"
    using assms by (simp_all add: site_refs_def client_refs_def inner_refs_def master_refs_def Let_def delete_staff_def orefs_map_rows refs_map_rows)
  ultimately show ?thesis by (simp add: site_refs_def)
qed

section \<open>Every deletion\<close>

definition account_gone :: "subject \<Rightarrow> site \<Rightarrow> bool" where
  "account_gone user w =
    (case user of
       ClientSubject c \<Rightarrow> cl_id c \<notin> cl_id ` set (clients (si_accounts w))
     | MasterSubject m \<Rightarrow> ms_id m \<notin> ms_id ` set (masters (si_accounts w))
     | StaffSubject u \<Rightarrow> su_id u \<notin> su_id ` set (staff (si_accounts w)))"

definition is_client :: "subject \<Rightarrow> row_id \<Rightarrow> bool" where
  "is_client user k = (case user of ClientSubject c \<Rightarrow> cl_id c = k | _ \<Rightarrow> False)"

definition is_master :: "subject \<Rightarrow> row_id \<Rightarrow> bool" where
  "is_master user k = (case user of MasterSubject m \<Rightarrow> ms_id m = k | _ \<Rightarrow> False)"

text \<open>No other account changes, no wallet of another master, no order of another client.\<close>

definition same_job :: "order option \<Rightarrow> order option \<Rightarrow> bool" where
  "same_job a b = (map_option (\<lambda>ord. (o_client ord, o_service ord, o_status ord, total_amount ord, is_paid ord)) a =
     map_option (\<lambda>ord. (o_client ord, o_service ord, o_status ord, total_amount ord, is_paid ord)) b)"

definition others_kept :: "subject \<Rightarrow> site \<Rightarrow> site \<Rightarrow> bool" where
  "others_kept user w w' \<longleftrightarrow>
    (\<forall>k. \<not> is_client user k \<longrightarrow> get_row cl_id k (clients (si_accounts w')) = get_row cl_id k (clients (si_accounts w))) \<and>
    (\<forall>k. \<not> is_master user k \<longrightarrow> get_row ms_id k (masters (si_accounts w')) = get_row ms_id k (masters (si_accounts w)) \<and>
       wallet_of k (wallet (si_main w')) = wallet_of k (wallet (si_main w))) \<and>
    (\<forall>oid ord. get_order oid (si_main w) = Some ord \<and> \<not> is_client user (o_client ord) \<longrightarrow>
       same_job (get_order oid (si_main w')) (get_order oid (si_main w)))"

lemma get_row_map: "(\<And>r. key (g r) = key r) \<Longrightarrow> get_row key k (map g rows) = map_option g (get_row key k rows)"
  by (induction rows) auto

lemma gone_key: "k \<notin> key ` set (del_row key k rows)"
  by (auto simp: set_del_row)

lemma get_row_del_row: "j \<noteq> k \<Longrightarrow> get_row key j (del_row key k rows) = get_row key j rows"
  by (simp add: get_row_del)

lemma delete_client_others:
  assumes "delete_client (cl_id c) w = Inr w'" and "keys_distinct o_id (orders (si_main w))"
  shows "others_kept (ClientSubject c) w w' \<and> account_gone (ClientSubject c) w'"
proof -
  let ?s = "si_main w" and ?K = "set (client_orders (cl_id c) (si_main w))"
  note run = delete_client_run(2) [OF assms(1)]
  have "same_job (get_order oid (si_main w')) (get_order oid ?s)"
    if ord: "get_order oid ?s = Some ord" and other: "o_client ord \<noteq> cl_id c" for oid ord
  proof -
    have "oid \<notin> ?K"
    proof
      assume "oid \<in> ?K"
      then obtain x where x: "x \<in> set (orders ?s)" "o_client x = cl_id c" "o_id x = oid" by (auto simp: client_orders_def)
      from get_row_unique [OF assms(2) x(1)] x(3) ord have "x = ord" by (simp add: get_order_def)
      with x(2) other show False by simp
    qed
    then show ?thesis
      by (simp add: get_order_def run client_main same_job_def get_row_map get_row_filter_key [of "\<lambda>k. k \<notin> ?K" oid] option.map_comp comp_def)
  qed
  moreover have "wallet_of k (wallet (si_main w')) = wallet_of k (wallet ?s)" for k
    by (rule wallet_of_cong) (simp add: run client_main)
  moreover have "clients (si_accounts w') = del_row cl_id (cl_id c) (clients (si_accounts w))" "masters (si_accounts w') = masters (si_accounts w)"
    by (simp_all add: run)
  ultimately show ?thesis
    by (simp add: others_kept_def is_client_def is_master_def account_gone_def get_row_del_row gone_key)
qed

lemma delete_master_others:
  assumes "delete_master (ms_id m) w = Inr w'"
  shows "others_kept (MasterSubject m) w w' \<and> account_gone (MasterSubject m) w'"
proof -
  note run = delete_master_run(2) [OF assms(1)]
  have "same_job (get_order oid (si_main w')) (Some ord)" if "get_order oid (si_main w) = Some ord" for oid ord
    using that by (simp add: get_order_def run same_job_def get_row_map null_master_def option.map_comp comp_def)
  moreover have "wallet_of k (wallet (si_main w')) = wallet_of k (wallet (si_main w))" if "k \<noteq> ms_id m" for k
    using that by (simp add: wallet_of_def run delete_master_wallet_def get_row_del_row [unfolded del_row_def])
  moreover have "masters (si_accounts w') = del_row ms_id (ms_id m) (masters (si_accounts w))" "clients (si_accounts w') = clients (si_accounts w)"
    by (simp_all add: run)
  ultimately show ?thesis
    by (simp add: others_kept_def is_client_def is_master_def account_gone_def get_row_del_row gone_key)
qed

lemma delete_staff_others: "others_kept (StaffSubject u) w (delete_staff (su_id u) w) \<and> account_gone (StaffSubject u) (delete_staff (su_id u) w)"
  by (simp add: others_kept_def is_client_def is_master_def account_gone_def delete_staff_def Let_def gone_key get_order_def same_job_def)

section \<open>The books\<close>

lemma delete_client_books:
  assumes "delete_client c w = Inr w'" and "order_inv (si_main w)"
  shows "order_inv (si_main w')"
proof -
  let ?s = "si_main w" and ?K = "set (client_orders c (si_main w))"
  note run = delete_client_run(2) [OF assms(1)]
  let ?os = "filter (\<lambda>ord. o_id ord \<notin> ?K) (orders ?s)"
  have null: "null_order ks = (\<lambda>t. case wt_order t of None \<Rightarrow> t | Some k \<Rightarrow> if k \<in> set ks then t\<lparr>wt_order := None\<rparr> else t)" for ks
    by (simp add: fun_eq_iff null_order_def)
  have B: "books_inv ?os (wallet (si_main w'))"
    using drop_orders_books [of "orders ?s" "wallet ?s" ?K] assms(2) by (simp add: order_inv_def run client_main null)
  note books = books_invD [OF B]
  have same: "map o_id (orders (si_main w')) = map o_id ?os"
    "\<And>ord. ord \<in> set (orders (si_main w')) \<Longrightarrow> \<exists>x \<in> set ?os. o_status ord = o_status x \<and> paid_at ord = paid_at x"
    by (auto simp: run client_main)
  have "completed_ref oid (orders (si_main w')) = completed_ref oid ?os" for oid
    by (simp add: completed_ref_def run client_main get_row_map split: option.split)
  then have "books_inv (orders (si_main w')) (wallet (si_main w'))"
    using books same by (simp add: books_inv_def list_all_iff keys_distinct_def) metis
  then show ?thesis using assms(2) by (simp add: order_inv_def run client_main)
qed

lemma distinct_concat_filter: "distinct (concat (map f xs)) \<Longrightarrow> distinct (concat (map f (filter P xs)))"
  by (induction xs) auto

lemma master_wallet_books:
  assumes "books_inv os w"
  shows "books_inv os (delete_master_wallet m w)"
proof -
  let ?w = "delete_master_wallet m w" and ?f = "\<lambda>t. case wt_order t of None \<Rightarrow> [] | Some oid \<Rightarrow> [oid :: row_id]"
  note B = books_invD [OF assms]
  note W = wallet_invD [OF B(3)]
  have refs: "order_refs ?w = concat (map ?f (filter (\<lambda>t. wt_master t \<noteq> m) (wallet_transactions w)))"
    by (simp add: order_refs_def delete_master_wallet_def)
  have "wallet_synced k ?w" for k
  proof (cases "k = m")
    case True
    then show ?thesis by (intro wallet_synced_outside) (auto simp: delete_master_wallet_def)
  next
    case False
    then have "ledger_sum k ty meth ?w = ledger_sum k ty meth w" for ty meth
      by (auto simp: ledger_sum_def delete_master_wallet_def sum_rows_filter intro!: sum_rows_cong)
    moreover have "wallet_of k ?w = wallet_of k w"
      using False by (simp add: wallet_of_def delete_master_wallet_def get_row_del_row [unfolded del_row_def])
    ultimately show ?thesis using wallet_inv_synced [OF B(3), of k] by (simp only: wallet_synced_def)
  qed
  then have "wallet_inv ?w"
    using W by (intro wallet_invI) (auto simp: delete_master_wallet_def keys_distinct_filter)
  moreover have "distinct (order_refs ?w)"
    unfolding refs by (rule distinct_concat_filter) (use B(4) in \<open>simp add: order_refs_def\<close>)
  moreover have "set (order_refs ?w) \<subseteq> set (order_refs w)" unfolding refs by (auto simp: order_refs_def)
  ultimately show ?thesis using B(1,2,5) by (auto simp: books_inv_def list_all_iff)
qed

lemma delete_master_books:
  assumes "delete_master m w = Inr w'" and "order_inv (si_main w)"
  shows "order_inv (si_main w')"
proof -
  let ?s = "si_main w"
  note run = delete_master_run(2) [OF assms(1)]
  have B: "books_inv (orders ?s) (wallet (si_main w'))"
    using master_wallet_books assms(2) by (simp add: order_inv_def run)
  note books = books_invD [OF B]
  have delta: "movement_delta (r\<lparr>sm_master := v\<rparr>) = movement_delta r" for r v by (simp add: movement_delta_def)
  have "completed_ref oid (orders (si_main w')) = completed_ref oid (orders ?s)" for oid
    by (simp add: completed_ref_def run get_row_map split: option.split)
  then have "books_inv (orders (si_main w')) (wallet (si_main w'))"
    using books by (simp add: books_inv_def list_all_iff keys_distinct_def run comp_def)
  moreover have "warehouse_inv (warehouse (si_main w'))"
  proof (rule warehouse_invI)
    have inv: "warehouse_inv (warehouse ?s)" using assms(2) by (simp add: order_inv_def)
    show "warehouse_wf (warehouse (si_main w'))"
      using warehouse_invD(1) [OF inv]
      by (simp add: run warehouse_wf_def delete_master_stock_def keys_distinct_filter) (auto simp: keys_distinct_def list_all_iff comp_def)
    show "product_qty pid (warehouse (si_main w')) = stock_ledger pid (warehouse (si_main w'))" for pid
      using warehouse_invD(2) [OF inv, of pid]
      by (simp add: run delete_master_stock_def product_qty_def stock_ledger_def sum_rows_def delta comp_def cong: if_cong)
  qed
  ultimately show ?thesis by (simp add: order_inv_def)
qed

lemma delete_staff_books: "order_inv (si_main (delete_staff u w)) = order_inv (si_main w)"
  by (simp add: order_inv_def delete_staff_def Let_def)

section \<open>The result\<close>


section \<open>What protects, and what is lost\<close>

text \<open>Only a payment through Payme keeps a client: an order being worked on does not.\<close>

lemma client_deletion_refused:
  "delete_client c w = Inl er \<longleftrightarrow>
    er = ServerError ''ProtectedError'' \<and> (\<exists>t \<in> set (si_txs w). \<exists>ord \<in> set (orders (si_main w)). o_id ord = tx_order t \<and> o_client ord = c)"
proof -
  have "list_ex (\<lambda>t. tx_order t \<in> set (client_orders c (si_main w))) (si_txs w) \<longleftrightarrow>
      (\<exists>t \<in> set (si_txs w). \<exists>ord \<in> set (orders (si_main w)). o_id ord = tx_order t \<and> o_client ord = c)"
    unfolding list_ex_iff client_orders_def by force
  then show ?thesis by (auto simp: delete_client_def Let_def)
qed

lemma client_orders_vanish:
  assumes "delete_client c w = Inr w'" and "ord \<in> set (orders (si_main w))" and "o_client ord = c"
  shows "get_order (o_id ord) (si_main w') = None"
proof -
  have "o_id ord \<in> set (client_orders c (si_main w))" using assms(2,3) by (auto simp: client_orders_def)
  then show ?thesis by (auto simp: get_order_def delete_client_run(2) [OF assms(1)] client_main get_row_None_iff)
qed

text \<open>A master who was never assigned takes the parts in hand along: they leave the stock without a
  movement, and the ledger of the master's earnings goes too.\<close>

definition held_by :: "row_id \<Rightarrow> row_id \<Rightarrow> warehouse_db \<Rightarrow> qty" where
  "held_by m pid db = sum_rows (\<lambda>i. if mi_master i = m \<and> mi_product i = pid then mi_quantity i else 0) (inventory db)"

lemma master_takes_stock:
  assumes "delete_master m w = Inr w'"
  shows "total_stock pid (warehouse (si_main w')) = total_stock pid (warehouse (si_main w)) - held_by m pid (warehouse (si_main w))"
    and "length (movements (warehouse (si_main w'))) = length (movements (warehouse (si_main w)))"
proof -
  note run = delete_master_run(2) [OF assms]
  have "sum_rows (\<lambda>i. if mi_product i = pid then mi_quantity i else 0) (filter (\<lambda>i. mi_master i \<noteq> m) is) =
      sum_rows (\<lambda>i. if mi_product i = pid then mi_quantity i else 0) is - sum_rows (\<lambda>i. if mi_master i = m \<and> mi_product i = pid then mi_quantity i else 0) is" for "is"
    by (induction "is") (auto simp: sum_rows_def)
  then show "total_stock pid (warehouse (si_main w')) = total_stock pid (warehouse (si_main w)) - held_by m pid (warehouse (si_main w))"
    by (simp add: total_stock_def held_by_def inventory_qty_def product_qty_def run delete_master_stock_def)
  show "length (movements (warehouse (si_main w'))) = length (movements (warehouse (si_main w)))"
    by (simp add: run delete_master_stock_def)
qed

section \<open>An example\<close>

definition example_master :: "row_id \<Rightarrow> master" where
  "example_master k = blank_master \<lparr>rg_first_name = ''Usta'', rg_last_name = None, rg_phone = nat_str k, rg_specialization = None\<rparr> k"

definition deletion_example :: site where
  "deletion_example = \<lparr>si_accounts = \<lparr>clients = [new_client 4 ''+998901234567'', new_client 5 ''+998900000000''],
       masters = [example_master 7, example_master 8], staff = [\<lparr>su_id = 1, su_active = True, su_staff = True\<rparr>], otp_records = [],
       fcm_devices = [], otp_cache = (\<lambda>_. None), otp_cooldown = (\<lambda>_. None), otp_block = (\<lambda>_. None), sms_log = []\<rparr>,
     si_main = checked_sys, si_txs = [], si_market = empty_market, si_support = empty_support, si_notices = empty_notifications\<rparr>"

lemma deletion_example_refs: "client_refs deletion_example" "master_refs deletion_example" "staff_refs deletion_example" "inner_refs deletion_example"
  by code_simp+


end
