(* ===== verification/Order_Screens.thy ===== *)
theory Order_Screens
  imports Catalog Notifications
begin

text \<open>
  What an order looks like on the screens: the serializers of \<open>src/apps/orders/serializers.py\<close>,
  \<open>src/apps/dashboard/serializers.py\<close> and \<open>src/apps/internal_api/serializers.py\<close> with their derived
  fields, the rows of the receipt (\<open>src/apps/orders/receipts.py\<close>), the reviews of a master and the
  client's home and start screens (\<open>src/apps/orders/views.py\<close>, \<open>src/apps/accounts/views.py\<close>).

  \<^item> \<open>uuid_text\<close> gives the text of a key, \<open>origin\<close> what \<open>build_absolute_uri\<close> puts before a path when the
    serializer has a request.
  \<^item> Columns shown as they are stored are the row itself; constants of the answer (labels of the
    navigation, addresses of the sockets) carry no logic. How the receipt is set on paper is not modelled.
\<close>

section \<open>Codes and texts\<close>

definition first_group :: "string \<Rightarrow> string" where
  "first_group u = takeWhile (\<lambda>c. c \<noteq> CHR ''-'') u"

definition order_code :: "(row_id \<Rightarrow> string) \<Rightarrow> row_id \<Rightarrow> string" where
  "order_code uuid_text oid = ''HX'' @ map to_upper (first_group (uuid_text oid))"

definition dashboard_code :: "(row_id \<Rightarrow> string) \<Rightarrow> row_id \<Rightarrow> string" where
  "dashboard_code uuid_text oid = ''ORD-'' @ map to_upper (first_group (uuid_text oid))"

definition order_receipt_filename :: "(row_id \<Rightarrow> string) \<Rightarrow> row_id \<Rightarrow> string" where
  "order_receipt_filename uuid_text oid = ''homex-order-'' @ lower (order_code uuid_text oid) @ ''-receipt.pdf''"

definition payment_label :: "payment_type option \<Rightarrow> string option" where
  "payment_label pt = map_option (\<lambda>p. case p of PT_CASH \<Rightarrow> ''Naqd'' | PT_ONLINE \<Rightarrow> ''Online'' | PT_CARD \<Rightarrow> ''Karta''
     | PT_PLASTIC \<Rightarrow> ''Plastik'') pt"

text \<open>\<open>{value:,.2f} so'm\<close>\<close>

definition receipt_money :: "money \<Rightarrow> string" where
  "receipt_money a =
    (let m = nat \<bar>a\<bar> in
     (if a < 0 then ''-'' else []) @ rev (group_thousands (rev (nat_str (m div 100)))) @ ''.'' @
     [digit_char (m mod 100 div 10), digit_char (m mod 10)] @ '' so'm'')"

definition two_digits :: "nat \<Rightarrow> string" where
  "two_digits n = [digit_char (n div 10), digit_char (n mod 10)]"

definition clock_text :: "instant \<Rightarrow> string" where
  "clock_text t = (let mins = nat ((t + 18000000) mod 86400000 div 60000) in two_digits (mins div 60) @ '':'' @ two_digits (mins mod 60))"

definition day_of_month :: "int \<Rightarrow> int" where
  "day_of_month d = d - first_of_month (year_of d) (month_of d) + 1"

definition format_datetime :: "instant option \<Rightarrow> string" where
  "format_datetime v = (case v of None \<Rightarrow> ''-'' | Some t \<Rightarrow>
     let d = local_date t in int_str (year_of d) @ ''-'' @ two_digits (nat (month_of d)) @ ''-'' @ two_digits (nat (day_of_month d)) @
       '' '' @ clock_text t)"

definition master_name :: "master \<Rightarrow> string" where
  "master_name m = full_name (ms_first_name m) (ms_last_name m)"

definition name_or_phone :: "string \<Rightarrow> string \<Rightarrow> string" where
  "name_or_phone name phone = (if name = [] then phone else name)"

section \<open>The receipt\<close>

definition category_name :: "row_id \<Rightarrow> catalog_db \<Rightarrow> string" where
  "category_name sid db =
    (case get_row sv_id sid (catalog (core db)) of None \<Rightarrow> [] | Some v \<Rightarrow>
       (case get_row service_category.sc_id (sv_category v) (service_categories db) of None \<Rightarrow> [] | Some c \<Rightarrow> sc_name c))"

definition receipt_rows :: "accounts_db \<Rightarrow> catalog_db \<Rightarrow> order \<Rightarrow> (string \<times> string) list" where
  "receipt_rows a db ord =
    [(''Check tasdiqlangan vaqt'', format_datetime (receipt_approved_at ord)),
     (''Usta'', case master_of ord a of None \<Rightarrow> ''-'' | Some m \<Rightarrow> name_or_phone (master_name m) (ms_phone m)),
     (''Usta telefon'', case master_of ord a of None \<Rightarrow> ''-'' | Some m \<Rightarrow> ms_phone m),
     (''Xizmat'', service_str (o_service ord) (core db)),
     (''Kategoriya'', category_name (o_service ord) db),
     (''To'lov turi'', sent_or (payment_label (o_payment_type ord)) ''-''),
     (''Xizmat haqi'', receipt_money (service_fee ord)),
     (''Ishlatilgan uskunalar jami'', receipt_money (inventory_total ord)),
     (''Bonus ishlatilgan'', receipt_money (bonus_used ord)),
     (''Jami summa'', receipt_money (total_amount ord))]"

text \<open>\<open>escape\<close> of every cell: the paragraphs of the receipt are read as markup.\<close>

fun escape :: "string \<Rightarrow> string" where
  "escape [] = []"
| "escape (c # rest) =
    (if c = CHR ''&'' then ''&amp;'' else if c = CHR ''<'' then ''&lt;'' else if c = CHR ''>'' then ''&gt;'' else [c]) @ escape rest"

definition receipt_cells :: "accounts_db \<Rightarrow> catalog_db \<Rightarrow> order \<Rightarrow> (string \<times> string) list" where
  "receipt_cells a db ord = map (\<lambda>(label, v). (escape label, escape v)) (receipt_rows a db ord)"

section \<open>An order for its client and its master\<close>

definition OrderSerializer_can_download :: "order \<Rightarrow> bool" where
  "OrderSerializer_can_download ord = (o_status ord \<in> {AWAITING_PAYMENT, COMPLETED} \<and> receipt_approved_at ord \<noteq> None)"

definition receipt_path :: "(row_id \<Rightarrow> string) \<Rightarrow> row_id \<Rightarrow> string" where
  "receipt_path uuid_text oid = ''/api/v1/client/orders/'' @ uuid_text oid @ ''/receipt/download/''"

definition get_receipt_download_url :: "(row_id \<Rightarrow> string) \<Rightarrow> string option \<Rightarrow> order \<Rightarrow> string option" where
  "get_receipt_download_url uuid_text origin ord =
    (if \<not> OrderSerializer_can_download ord then None else Some (sent_or origin [] @ receipt_path uuid_text (o_id ord)))"

definition OrderSerializer_receipt_status :: "order \<Rightarrow> string" where
  "OrderSerializer_receipt_status ord = (if receipt_approved_at ord \<noteq> None then ''approved'' else ''not_ready'')"

definition usage_line :: "sys \<Rightarrow> inventory_usage \<Rightarrow> inventory_usage \<times> string" where
  "usage_line s u =
    (u, case get_row mi_id (ou_inventory u) (inventory (warehouse s)) of None \<Rightarrow> [] | Some i \<Rightarrow>
          (case get_row pr_id (mi_product i) (products (warehouse s)) of None \<Rightarrow> [] | Some p \<Rightarrow> pr_name p))"

record order_screen =
  os_order :: order
  os_status_label :: string
  os_tracking :: tracking_view
  os_payment_label :: "string option"
  os_master_phone :: "string option"
  os_usages :: "(inventory_usage \<times> string) list"
  os_device :: "client_device option"
  os_can_cancel :: bool
  os_can_rate :: bool
  os_can_download :: bool
  os_receipt_status :: string
  os_receipt_url :: "string option"
  os_filename :: string

definition OrderSerializer_data :: "(row_id \<Rightarrow> string) \<Rightarrow> string option \<Rightarrow> accounts_db \<Rightarrow> sys \<Rightarrow> order \<Rightarrow> order_screen" where
  "OrderSerializer_data uuid_text origin a s ord =
    \<lparr>os_order = ord, os_status_label = status_display (o_status ord), os_tracking = tracking_state (o_status ord),
     os_payment_label = payment_label (o_payment_type ord), os_master_phone = map_option ms_phone (master_of ord a),
     os_usages = map (usage_line s) (filter (\<lambda>u. ou_order u = o_id ord) (usages s)),
     os_device = Option.bind (o_device ord) (\<lambda>d. get_row cd_id d (devices (profiles s))),
     os_can_cancel = get_can_cancel ord, os_can_rate = get_can_rate s ord, os_can_download = OrderSerializer_can_download ord,
     os_receipt_status = OrderSerializer_receipt_status ord, os_receipt_url = get_receipt_download_url uuid_text origin ord,
     os_filename = order_receipt_filename uuid_text (o_id ord)\<rparr>"

definition ClientOrderDetail_get :: "(row_id \<Rightarrow> string) \<Rightarrow> string option \<Rightarrow> row_id \<Rightarrow> row_id \<Rightarrow> accounts_db \<Rightarrow> sys \<Rightarrow> order_screen res" where
  "ClientOrderDetail_get uuid_text origin user pk a s =
    bindE (get_or_404 ''Order'' (get_row o_id pk (filter (owned_by_client user) (orders s)))) (\<lambda>ord.
      Inr (OrderSerializer_data uuid_text origin a s ord))"

section \<open>An order on the dashboard and in the internal API\<close>

definition active_assigned :: "order_master list \<Rightarrow> row_id \<Rightarrow> row_id list" where
  "active_assigned rows oid = map om_master (filter (\<lambda>r. om_order r = oid \<and> om_active r) rows)"

record dashboard_screen =
  ds_order :: order
  ds_code :: string
  ds_status_label :: string
  ds_tab :: string
  ds_payment_label :: "string option"
  ds_masters :: "row_id list"
  ds_masters_count :: nat
  ds_assistants :: "row_id list"
  ds_assistants_count :: nat
  ds_can_cancel :: bool
  ds_can_rate :: bool
  ds_time :: string

definition DashboardOrderSerializer_data :: "(row_id \<Rightarrow> string) \<Rightarrow> sys \<Rightarrow> order \<Rightarrow> dashboard_screen" where
  "DashboardOrderSerializer_data uuid_text s ord =
    \<lparr>ds_order = ord, ds_code = dashboard_code uuid_text (o_id ord), ds_status_label = status_display (o_status ord),
     ds_tab = STATUS_TAB (o_status ord), ds_payment_label = payment_label (o_payment_type ord),
     ds_masters = active_assigned (order_masters s) (o_id ord), ds_masters_count = length (active_assigned (order_masters s) (o_id ord)),
     ds_assistants = active_assigned (order_assistants s) (o_id ord),
     ds_assistants_count = length (active_assigned (order_assistants s) (o_id ord)),
     ds_can_cancel = get_can_cancel ord, ds_can_rate = get_can_rate s ord, ds_time = clock_text (o_created_at ord)\<rparr>"

text \<open>The internal API names the client by phone when there is no name, the master never.\<close>

definition client_name :: "client \<Rightarrow> string" where
  "client_name c = name_or_phone (full_name (cl_first_name c) (cl_last_name c)) (cl_phone c)"

definition internal_receipt_url :: "(row_id \<Rightarrow> string) \<Rightarrow> order \<Rightarrow> string option" where
  "internal_receipt_url uuid_text ord =
    (if \<not> get_can_download_receipt ord then None else Some (''/api/v1/orders/'' @ uuid_text (o_id ord) @ ''/receipt/download/''))"

record internal_screen =
  iv_code :: string
  iv_client_name :: "string option"
  iv_service_name :: string
  iv_master_name :: "string option"
  iv_master_phone :: "string option"
  iv_status :: string
  iv_status_label :: string
  iv_payment_status :: string
  iv_payment_status_label :: string
  iv_price :: money
  iv_scheduled :: "int \<times> int"
  iv_time :: string
  iv_receipt_status :: string
  iv_receipt_url :: "string option"
  iv_filename :: string
  iv_can_download :: bool

definition InternalOrderSerializer_data :: "(row_id \<Rightarrow> string) \<Rightarrow> accounts_db \<Rightarrow> sys \<Rightarrow> order \<Rightarrow> internal_screen" where
  "InternalOrderSerializer_data uuid_text a s ord =
    \<lparr>iv_code = order_code uuid_text (o_id ord), iv_client_name = map_option client_name (client_row a ord),
     iv_service_name = service_str (o_service ord) s, iv_master_name = map_option master_name (master_of ord a),
     iv_master_phone = map_option ms_phone (master_of ord a), iv_status = dashboard_order_status ord,
     iv_status_label = status_display (o_status ord), iv_payment_status = dashboard_payment_status ord,
     iv_payment_status_label = (if dashboard_payment_status ord = ''paid'' then ''To'langan'' else ''To'lanmagan''),
     iv_price = total_amount ord, iv_scheduled = (scheduled_date ord, scheduled_time ord), iv_time = clock_text (o_created_at ord),
     iv_receipt_status = get_receipt_status ord, iv_receipt_url = internal_receipt_url uuid_text ord,
     iv_filename = order_receipt_filename uuid_text (o_id ord), iv_can_download = get_can_download_receipt ord\<rparr>"

section \<open>Reviews of a master\<close>

definition MasterReviewList_get_queryset :: "row_id \<Rightarrow> int option \<Rightarrow> string option \<Rightarrow> sys \<Rightarrow> review list" where
  "MasterReviewList_get_queryset user rating official s =
    (let r0 = filter (\<lambda>r. rv_master r = user) (rev (reviews s));
         r1 = (case rating of None \<Rightarrow> r0 | Some v \<Rightarrow> filter (\<lambda>r. rv_rating r = v) r0)
     in case official of None \<Rightarrow> r1 | Some v \<Rightarrow> filter (\<lambda>r. is_official r = (lower v = ''true'')) r1)"

text \<open>The average is the sum of the ratings and their number.\<close>

definition MasterReviewSummary_get :: "row_id \<Rightarrow> sys \<Rightarrow> (int \<times> nat) \<times> nat \<times> (int \<times> nat) list" where
  "MasterReviewSummary_get user s =
    (let rows = filter (\<lambda>r. rv_master r = user) (reviews s)
     in ((sum_rows rv_rating rows, length rows), length rows, map (\<lambda>i. (i, count_rows (\<lambda>r. rv_rating r = i) rows)) [1..5]))"

section \<open>Home and start screen of a client\<close>

record home_banner =
  hb_id :: row_id
  hb_image :: "string option"
  hb_url :: string
  hb_active :: bool

definition absolute :: "string option \<Rightarrow> string \<Rightarrow> string" where
  "absolute origin path = (case origin of None \<Rightarrow> path | Some host \<Rightarrow> host @ path)"

definition as_home_payload :: "string option \<Rightarrow> home_banner \<Rightarrow> string option \<times> string option" where
  "as_home_payload origin b =
    (let image = map_option (absolute origin) (hb_image b);
         url = (if hb_url b = [] then None
                else if hd (hb_url b) = CHR ''/'' then Some (absolute origin (hb_url b)) else Some (hb_url b))
     in (image, if url = None then image else url))"

text \<open>One blank banner stands in when there is none.\<close>

definition get_home_banners :: "string option \<Rightarrow> home_banner list \<Rightarrow> (string option \<times> string option) list" where
  "get_home_banners origin rows =
    (let banners = map (as_home_payload origin) (filter hb_active rows) in if banners = [] then [(None, None)] else banners)"

definition home_services :: "catalog_db \<Rightarrow> (service_category \<times> (service \<times> service_price list) list) list" where
  "home_services db = map (category_data db) (sort_key sc_sort_order (filter sc_active (service_categories db)))"

definition default_address :: "row_id \<Rightarrow> sys \<Rightarrow> client_address option" where
  "default_address user s = find (\<lambda>a. ca_client a = user \<and> is_default a) (addresses (profiles s))"

record client_home =
  ch_services :: "(service_category \<times> (service \<times> service_price list) list) list"
  ch_banners :: "(string option \<times> string option) list"
  ch_active_orders :: "order list"
  ch_nearby :: "master list"
  ch_address :: "client_address option"
  ch_active_count :: nat
  ch_unread :: nat
  ch_devices :: nat

definition own_devices :: "row_id \<Rightarrow> sys \<Rightarrow> client_device list" where
  "own_devices user s = filter (\<lambda>d. cd_client d = user) (devices (profiles s))"

text \<open>Anyone may ask; only a client gets more than services and banners.\<close>

definition ClientHome_get ::
  "string option \<Rightarrow> subject option \<Rightarrow> home_banner list \<Rightarrow> accounts_db \<Rightarrow> catalog_db \<Rightarrow> notification_db \<Rightarrow> client_home" where
  "ClientHome_get origin user banners a db ndb =
    (let public = \<lparr>ch_services = home_services db, ch_banners = get_home_banners origin banners, ch_active_orders = [], ch_nearby = [],
                   ch_address = None, ch_active_count = 0, ch_unread = 0, ch_devices = 0\<rparr>
     in case user of
          Some (ClientSubject c) \<Rightarrow>
            let s = core db; active = home_active_orders (cl_id c) s
            in public\<lparr>ch_active_orders := active, ch_nearby := take 10 (filter is_online (masters a)),
                 ch_address := default_address (cl_id c) s, ch_active_count := length active,
                 ch_unread := unread_notifications (ClientSubject c) ndb, ch_devices := length (own_devices (cl_id c) s)\<rparr>
        | _ \<Rightarrow> public)"

record client_start =
  cst_home :: client_home
  cst_recent :: "order list"
  cst_addresses :: nat
  cst_devices :: "client_device list"
  cst_tariffs :: "tariff list"
  cst_current_tariff :: "string option"
  cst_market :: "(market_category \<times> nat) list"

definition current_tariff_name :: "row_id \<Rightarrow> sys \<Rightarrow> string option" where
  "current_tariff_name user s =
    Option.bind (get_row sb_client user (subscriptions (profiles s))) (\<lambda>b.
      Option.bind (current_tariff b) (\<lambda>t. map_option tf_name (get_row tf_id t (tariffs (profiles s)))))"

text \<open>All products of a category are counted, hidden ones too.\<close>

definition market_overview :: "market_db \<Rightarrow> (market_category \<times> nat) list" where
  "market_overview mdb = take 12 (map (\<lambda>c. (c, count_rows (\<lambda>p. mk_category p = Some (mc_id c)) (market_products mdb))) (market_categories mdb))"

definition ClientAppBootstrap_get ::
  "string option \<Rightarrow> client \<Rightarrow> home_banner list \<Rightarrow> accounts_db \<Rightarrow> catalog_db \<Rightarrow> market_db \<Rightarrow> notification_db \<Rightarrow> client_start" where
  "ClientAppBootstrap_get origin c banners a db mdb ndb =
    (let s = core db
     in \<lparr>cst_home = (ClientHome_get origin (Some (ClientSubject c)) banners a db ndb)\<lparr>ch_nearby := []\<rparr>,
         cst_recent = ClientRecentOrders_get_queryset (cl_id c) s,
         cst_addresses = count_rows (\<lambda>x. ca_client x = cl_id c) (addresses (profiles s)),
         cst_devices = take 5 (own_devices (cl_id c) s),
         cst_tariffs = take 6 (by_sort_order (filter tf_active (tariffs (profiles s)))),
         cst_current_tariff = current_tariff_name (cl_id c) s, cst_market = market_overview mdb\<rparr>)"

end
