(* ===== verification/Order_Screen_Props.thy ===== *)
theory Order_Screen_Props
  imports Order_Screens Order_Props
begin

text \<open>
  What a screen offers and what the endpoints behind it accept; the receipt; the figures of the
  reviews and of the home screen.
\<close>

section \<open>Each button\<close>

lemma own_row:
  assumes "get_row o_id pk (orders s) = Some ord" and "keys_distinct o_id (orders s)"
  shows "get_row o_id pk (filter P (orders s)) = (if P ord then Some ord else None)"
proof (cases "P ord")
  case True
  with get_row_filter_iff [OF assms(2), of pk P ord] assms(1) show ?thesis by simp
next
  case False
  have "get_row o_id pk (filter P (orders s)) \<noteq> Some r" for r
    using get_row_filter_iff [OF assms(2), of pk P r] assms(1) False by auto
  with False show ?thesis by (cases "get_row o_id pk (filter P (orders s))") auto
qed

lemma ClientOrderDetail_row:
  assumes "ClientOrderDetail_get uuid_text origin user pk a s = Inr scr" and "keys_distinct o_id (orders s)"
  shows "\<exists>ord. get_row o_id pk (orders s) = Some ord \<and> o_client ord = user \<and> scr = OrderSerializer_data uuid_text origin a s ord"
  using assms get_row_filter_iff [OF assms(2), of pk "owned_by_client user"]
  by (auto simp: ClientOrderDetail_get_def owned_by_client_def get_or_404_def split: option.splits)

text \<open>What the client has: an order of the own, under its key.\<close>

definition own_order :: "row_id \<Rightarrow> row_id \<Rightarrow> sys \<Rightarrow> order \<Rightarrow> bool" where
  "own_order user pk s ord \<longleftrightarrow> get_row o_id pk (orders s) = Some ord \<and> o_client ord = user \<and> keys_distinct o_id (orders s)"

lemma own_order_get:
  "own_order user pk s ord \<Longrightarrow> get_row o_id pk (filter (owned_by_client user) (orders s)) = Some ord"
  "own_order user pk s ord \<Longrightarrow>
    get_row o_id pk (filter (\<lambda>r. owned_by_client user r \<and> o_status r = COMPLETED) (orders s)) = (if o_status ord = COMPLETED then Some ord else None)"
  by (auto simp: own_order_def own_row owned_by_client_def)

lemma cancel_accepted:
  assumes "own_order user pk s ord" and "reason_valid reason = Inr ()"
  shows "(\<exists>s'. ClientOrderCancelView_post user pk reason s = Inr s') \<longleftrightarrow> get_can_cancel ord"
  using own_order_get(1) [OF assms(1)] assms(2)
  by (simp add: ClientOrderCancelView_post_def lock_order_for_transition_def get_can_cancel_def get_or_404_def Let_def)

lemma download_accepted:
  assumes "own_order user pk s ord"
  shows "(\<exists>r. ClientOrderReceiptDownloadView_get user pk s = Inr r) \<longleftrightarrow> OrderSerializer_can_download ord"
  using own_order_get(1) [OF assms]
  by (simp add: ClientOrderReceiptDownloadView_get_def get_or_404_def receipt_ready_def OrderSerializer_can_download_def)

lemma rate_accepted:
  assumes "own_order user pk s ord" and "1 \<le> rating" and "rating \<le> 5"
  shows "(\<exists>s'. ClientOrderRateView_post user pk rating comment s = Inr s') \<longleftrightarrow> get_can_rate s ord \<and> o_master ord \<noteq> None"
proof -
  have "o_id ord = pk" using assms(1) by (auto simp: own_order_def dest: get_row_key)
  then show ?thesis
    using own_order_get(2) [OF assms(1)] assms(2,3)
    by (auto simp: ClientOrderRateView_post_def get_or_404_def validate_rating_def guardE_def get_can_rate_def Let_def split: option.split)
qed

lemma cancel_result:
  assumes "own_order user pk s ord" and "ClientOrderCancelView_post user pk reason s = Inr s'"
  shows "\<exists>ord'. own_order user pk s' ord' \<and> o_status ord' = CANCELLED"
proof -
  have key: "o_id ord = pk" using assms(1) by (auto simp: own_order_def dest: get_row_key)
  let ?new = "ord\<lparr>o_status := CANCELLED, cancel_reason := reason\<rparr>"
  have "orders s' = upd_row o_id pk (\<lambda>_. ?new) (orders s)"
    using own_order_get(1) [OF assms(1)] assms(2) key
    by (auto simp: ClientOrderCancelView_post_def lock_order_for_transition_def get_or_404_def Let_def send_def split: if_splits option.splits)
  then show ?thesis using assms(1) key by (auto simp: own_order_def get_row_replace intro!: keys_distinct_replace)
qed

lemma rate_result:
  assumes "own_order user pk s ord" and "ClientOrderRateView_post user pk rating comment s = Inr s'"
  shows "\<exists>ord'. own_order user pk s' ord' \<and> o_status ord' = COMPLETED \<and> \<not> get_can_rate s' ord'"
proof -
  have "o_id ord = pk" using assms(1) by (auto simp: own_order_def dest: get_row_key)
  then show ?thesis
    using own_order_get(2) [OF assms(1)] assms
    by (auto simp: ClientOrderRateView_post_def get_or_404_def get_can_rate_def Let_def send_def add_row_def own_order_def
        split: option.splits if_splits)
qed

section \<open>Screen and endpoints agree\<close>


text \<open>The paid order of the example: the receipt can be downloaded, the master rated, once.\<close>

definition no_accounts :: accounts_db where
  "no_accounts = \<lparr>clients = [], masters = [], staff = [], otp_records = [], fcm_devices = [], otp_cache = (\<lambda>_. None),
     otp_cooldown = (\<lambda>_. None), otp_block = (\<lambda>_. None), sms_log = []\<rparr>"


text \<open>The exception: an order an administrator brought to its payment without a master is offered for
  rating once it is paid, and the request fails with a violated column.\<close>

definition masterless_sys :: sys where
  "masterless_sys = or_stay (ClientOrderPayView_post example_env 4 1 (Some PT_CASH))
     (or_stay (DashboardOrderStatusSerializer_save 1 AWAITING_PAYMENT None None) created_sys)"

lemma masterless_rating_fails:
  "order_step\<^sup>*\<^sup>* created_sys masterless_sys"
  "list_all (\<lambda>ord. o_id ord = 1 \<and> o_client ord = 4 \<and> get_can_rate masterless_sys ord) (orders masterless_sys) \<and> orders masterless_sys \<noteq> []"
  "ClientOrderRateView_post 4 1 5 comment masterless_sys = Inl (IntegrityError ''reviews.master'')"
proof -
  let ?w = "or_stay (DashboardOrderStatusSerializer_save 1 AWAITING_PAYMENT None None) created_sys"
  have "DashboardOrderStatusSerializer_save 1 AWAITING_PAYMENT None None created_sys = Inr ?w"
    "ClientOrderPayView_post example_env 4 1 (Some PT_CASH) ?w = Inr masterless_sys" by code_simp+
  then show "order_step\<^sup>*\<^sup>* created_sys masterless_sys"
    using order_step.dash_status order_step.user user_step.pay
    by (meson rtranclp.rtrancl_refl rtranclp.rtrancl_into_rtrancl)
  show "list_all (\<lambda>ord. o_id ord = 1 \<and> o_client ord = 4 \<and> get_can_rate masterless_sys ord) (orders masterless_sys) \<and> orders masterless_sys \<noteq> []"
    by code_simp
  show "ClientOrderRateView_post 4 1 5 comment masterless_sys = Inl (IntegrityError ''reviews.master'')"
    by code_simp
qed

text \<open>The internal API hides a receipt that it hands out.\<close>

lemma internal_hides_ready_receipt:
  "iv_can_download (InternalOrderSerializer_data uuid_text a s ord) = (OrderSerializer_can_download ord \<and> o_status ord \<noteq> AWAITING_PAYMENT)"
  by (auto simp: InternalOrderSerializer_data_def get_can_download_receipt_def OrderSerializer_can_download_def)

section \<open>The receipt\<close>

text \<open>No text of an order is read as markup, and none is lost: the cells can be read back.\<close>

lemma escape_no_markup: "CHR ''<'' \<notin> set (escape v)" "CHR ''>'' \<notin> set (escape v)"
  by (induction v) auto

lemma escape_inj: "escape v = escape w \<Longrightarrow> v = w"
proof (induction v arbitrary: w)
  case Nil
  then show ?case by (cases w) (auto split: if_splits)
next
  case (Cons c rest)
  then show ?case by (cases w) (auto split: if_splits)
qed

lemma receipt_cells_clean:
  "list_all (\<lambda>(label, v). CHR ''<'' \<notin> set v \<and> CHR ''>'' \<notin> set v) (receipt_cells a db ord)"
  by (simp add: receipt_cells_def list_all_iff escape_no_markup split: prod.splits)

section \<open>Reviews\<close>

lemma star_sum: "list_all (\<lambda>r. 1 \<le> rv_rating r \<and> rv_rating r \<le> 5) rows \<Longrightarrow>
    length rows = (\<Sum>i \<leftarrow> [1..5]. count_rows (\<lambda>r. rv_rating r = i) rows) \<and>
    sum_rows rv_rating rows = (\<Sum>i \<leftarrow> [1..5]. i * int (count_rows (\<lambda>r. rv_rating r = i) rows))"
proof (induction rows)
  case Nil
  then show ?case by (simp add: count_rows_def sum_rows_def upto.simps)
next
  case (Cons r rows)
  then have "rv_rating r \<in> {1, 2, 3, 4, 5}" by auto
  with Cons show ?case by (auto simp: count_rows_def sum_rows_def upto.simps)
qed

text \<open>Ratings come in through one view that checks them: the stars of the summary add up to the number
  and the average of the reviews.\<close>

definition ratings_valid :: "sys \<Rightarrow> bool" where
  "ratings_valid s = list_all (\<lambda>r. 1 \<le> rv_rating r \<and> rv_rating r \<le> 5) (reviews s)"

lemma rating_kept:
  assumes "ratings_valid s" and "ClientOrderRateView_post user pk rating comment s = Inr s'"
  shows "ratings_valid s'"
  using assms by (auto simp: ratings_valid_def ClientOrderRateView_post_def validate_rating_def guardE_def Let_def send_def add_row_def
      get_or_404_def split: option.splits if_splits)

lemma summary_adds_up:
  assumes "ratings_valid s" and "MasterReviewSummary_get user s = ((points, n), count, stars)"
  shows "n = count" and "(\<Sum>(i, k) \<leftarrow> stars. k) = count" and "(\<Sum>(i, k) \<leftarrow> stars. i * int k) = points"
proof -
  let ?rows = "filter (\<lambda>r. rv_master r = user) (reviews s)"
  have "list_all (\<lambda>r. 1 \<le> rv_rating r \<and> rv_rating r \<le> 5) ?rows"
    using assms(1) by (simp add: ratings_valid_def list_all_iff)
  from star_sum [OF this] assms(2)
  show "n = count" "(\<Sum>(i, k) \<leftarrow> stars. k) = count" "(\<Sum>(i, k) \<leftarrow> stars. i * int k) = points"
    by (auto simp: MasterReviewSummary_get_def Let_def comp_def)
qed

section \<open>Home screen\<close>

text \<open>The number of active orders counts the rows shown, so it never exceeds five; what is shown is the
  client's own.\<close>

lemma home_count_capped:
  assumes "ch = ClientHome_get origin (Some (ClientSubject c)) banners a db ndb"
  shows "ch_active_count ch = min 5 (count_rows (\<lambda>ord. o_client ord = cl_id c \<and> o_status ord \<notin> {COMPLETED, CANCELLED, REJECTED}) (orders (core db)))"
    and "\<forall>ord \<in> set (ch_active_orders ch). o_client ord = cl_id c"
proof -
  have rev: "length (filter P (rev xs)) = length (filter P xs)" for P and xs :: "order list"
    by (simp add: rev_filter [symmetric])
  show "ch_active_count ch = min 5 (count_rows (\<lambda>ord. o_client ord = cl_id c \<and> o_status ord \<notin> {COMPLETED, CANCELLED, REJECTED}) (orders (core db)))"
    using rev by (simp add: assms ClientHome_get_def home_active_orders_def newest_def count_rows_def Let_def min.commute)
  show "\<forall>ord \<in> set (ch_active_orders ch). o_client ord = cl_id c"
    by (auto simp: assms ClientHome_get_def home_active_orders_def Let_def dest: in_set_takeD)
qed

text \<open>The masters on the home screen are those online, also busy ones; the list of nearby masters has
  the available ones only.\<close>

lemma home_shows_busy_masters:
  assumes "masters a = [m]" and "is_online m" and "\<not> is_available m"
  shows "ch_nearby (ClientHome_get origin (Some (ClientSubject c)) banners a db ndb) = [m]"
    and "NearbyMasterList_get_queryset dist q point radius a = []"
  using assms by (auto simp: ClientHome_get_def Let_def NearbyMasterList_get_queryset_def filter_masters_by_specialization_def
      split: option.split)

lemma nobody_sees_public_home:
  "\<not> (\<exists>c. user = Some (ClientSubject c)) \<Longrightarrow>
    ClientHome_get origin user banners a db ndb = ClientHome_get origin None banners a' db ndb'"
  by (auto simp: ClientHome_get_def Let_def split: option.split subject.split)

end
