(* ===== verification/Live_Board.thy ===== *)
theory Live_Board
  imports Order_Screens Master_Admin
begin

text \<open>
  The live board of the dashboard: \<open>src/apps/dashboard/realtime.py\<close> and \<open>consumers.py\<close>, and the signal
  of a saved master, \<open>src/apps/accounts/signals.py\<close>.

  \<^item> The signal of a saved order puts \<open>DashboardEvent\<close>s into the outbox (\<open>sync_order_status\<close> of
    \<open>Order_Model\<close>); \<open>broadcast_dashboard_order\<close> reads the order again and builds the frame the sockets
    receive. The channel layer that carries frames to the sockets is not modelled.
  \<^item> Names, phones and times of a frame are those of the rows.
\<close>

section \<open>Masters\<close>

definition master_status_value :: "master \<Rightarrow> string" where
  "master_status_value m =
    (if is_blocked m then ''blocked''
     else if \<not> ms_active m then ''inactive''
     else if is_online m \<and> is_available m then ''active''
     else if is_online m then ''busy''
     else ''inactive'')"

record master_frame =
  mfr_id :: row_id
  mfr_full_name :: string
  mfr_phone :: string
  mfr_status :: string
  mfr_fields :: "bool \<times> bool \<times> bool \<times> bool \<times> approval_status"
  mfr_last_location :: "instant option"

definition master_realtime_payload :: "master \<Rightarrow> master_frame" where
  "master_realtime_payload m =
    \<lparr>mfr_id = ms_id m, mfr_full_name = master_name m, mfr_phone = ms_phone m, mfr_status = master_status_value m,
     mfr_fields = status_fields m, mfr_last_location = last_location_at m\<rparr>"

section \<open>Frames\<close>

record order_frame =
  ofr_order :: row_id
  ofr_status :: order_status
  ofr_old_status :: "order_status option"
  ofr_tab :: string
  ofr_master :: "row_id option"
  ofr_old_master :: "row_id option"
  ofr_master_frame :: "master_frame option"
  ofr_assigned :: "row_id list"
  ofr_assigned_frames :: "master_frame option list"

datatype board_frame = OrderFrame string order_frame | MasterFrame master_frame "row_id list"

definition order_realtime_payload ::
  "accounts_db \<Rightarrow> sys \<Rightarrow> order_status option \<Rightarrow> row_id option \<Rightarrow> order \<Rightarrow> order_frame" where
  "order_realtime_payload a s old_status old_master ord =
    \<lparr>ofr_order = o_id ord, ofr_status = o_status ord, ofr_old_status = old_status, ofr_tab = STATUS_TAB (o_status ord),
     ofr_master = o_master ord, ofr_old_master = old_master, ofr_master_frame = map_option master_realtime_payload (master_of ord a),
     ofr_assigned = active_assigned (order_masters s) (o_id ord),
     ofr_assigned_frames = map (\<lambda>m. map_option master_realtime_payload (get_row ms_id m (masters a)))
       (active_assigned (order_masters s) (o_id ord))\<rparr>"

text \<open>The order is read again; one that is gone sends nothing.\<close>

definition broadcast_dashboard_order ::
  "accounts_db \<Rightarrow> sys \<Rightarrow> string \<Rightarrow> order_status option \<Rightarrow> row_id option \<Rightarrow> row_id \<Rightarrow> board_frame list" where
  "broadcast_dashboard_order a s event old_status old_master oid =
    (case get_order oid s of
       None \<Rightarrow> [] | Some ord \<Rightarrow> [OrderFrame event (order_realtime_payload a s old_status old_master ord)])"

definition MASTER_STATUS_ORDER_STATUSES :: "order_status list" where
  "MASTER_STATUS_ORDER_STATUSES = [NEW, ACCEPTED, ON_WAY, ARRIVED]"

definition orders_of_master :: "row_id \<Rightarrow> sys \<Rightarrow> row_id list" where
  "orders_of_master m s =
    map o_id (filter (\<lambda>ord. (o_master ord = Some m \<or> actively_assigned_to m s ord) \<and> o_status ord \<in> set MASTER_STATUS_ORDER_STATUSES) (orders s))"

definition broadcast_dashboard_master_status :: "master \<Rightarrow> sys \<Rightarrow> board_frame list" where
  "broadcast_dashboard_master_status m s = [MasterFrame (master_realtime_payload m) (orders_of_master (ms_id m) s)]"

text \<open>The receiver of a saved master (\<open>sync_master_status\<close> of \<open>Accounts\<close>) decides whether a frame is sent.\<close>

definition master_saved_frames :: "master option \<Rightarrow> master \<Rightarrow> sys \<Rightarrow> board_frame list" where
  "master_saved_frames loaded m s = (if sync_master_status loaded m then broadcast_dashboard_master_status m s else [])"

section \<open>Sockets\<close>

definition DashboardOrderConsumer_connect :: "subject option \<Rightarrow> bool" where
  "DashboardOrderConsumer_connect user = (case user of Some (StaffSubject u) \<Rightarrow> su_staff u | _ \<Rightarrow> False)"

definition dashboard_order_event :: "board_frame \<Rightarrow> string \<times> row_id" where
  "dashboard_order_event f = (case f of OrderFrame event p \<Rightarrow> (event, ofr_order p) | MasterFrame p _ \<Rightarrow> (''master.status_changed'', mfr_id p))"

text \<open>What a board shows that takes every frame it receives: the status of an order is that of its last
  frame.\<close>

fun apply_frame :: "board_frame \<Rightarrow> (row_id \<rightharpoonup> order_status) \<Rightarrow> row_id \<rightharpoonup> order_status" where
  "apply_frame (OrderFrame event p) shown = shown(ofr_order p \<mapsto> ofr_status p)"
| "apply_frame (MasterFrame p oids) shown = shown"

definition frames_of :: "accounts_db \<Rightarrow> sys \<Rightarrow> event list \<Rightarrow> board_frame list" where
  "frames_of a s evs =
    concat (map (\<lambda>ev. case ev of DashboardEvent name oid \<Rightarrow> broadcast_dashboard_order a s name None None oid | _ \<Rightarrow> []) evs)"

end
