(* ===== verification/Live_Board_Props.thy ===== *)
theory Live_Board_Props
  imports Live_Board Order_Props
begin

text \<open>
  Every change of an order's status, through whatever endpoint, reaches the board and the client; what
  a frame about a master says, and what the board is never told.
\<close>

section \<open>Announced changes\<close>

definition client_told :: "event list \<Rightarrow> row_id \<Rightarrow> order_status \<Rightarrow> bool" where
  "client_told evs oid st = (\<exists>c t b. NotifyClient c t b oid st \<in> set evs)"

text \<open>Between two states: events are only appended, and an order whose status is not what it was is on
  the board as created, or as changed with its client told the status it has now.\<close>

definition status_told :: "event list \<Rightarrow> sys \<Rightarrow> order \<Rightarrow> bool" where
  "status_told evs s new \<longleftrightarrow>
    (\<exists>old. get_order (o_id new) s = Some old \<and> o_status old = o_status new) \<or>
    DashboardEvent ''order.created'' (o_id new) \<in> set evs \<or>
    DashboardEvent ''order.status_changed'' (o_id new) \<in> set evs \<and> client_told evs (o_id new) (o_status new)"

definition announced :: "sys \<Rightarrow> sys \<Rightarrow> bool" where
  "announced s s' \<longleftrightarrow> (\<exists>evs. outbox s' = outbox s @ evs \<and> (\<forall>oid new. get_order oid s' = Some new \<longrightarrow> status_told evs s new))"

lemma announcedI:
  "outbox s' = outbox s @ evs \<Longrightarrow> (\<And>oid new. get_order oid s' = Some new \<Longrightarrow> status_told evs s new) \<Longrightarrow> announced s s'"
  by (auto simp: announced_def)

lemma announced_trans:
  assumes "announced s m" and "announced m s'"
  shows "announced s s'"
proof -
  obtain e1 where o1: "outbox m = outbox s @ e1" and t1: "\<And>oid new. get_order oid m = Some new \<Longrightarrow> status_told e1 s new"
    using assms(1) by (auto simp: announced_def)
  obtain e2 where o2: "outbox s' = outbox m @ e2" and t2: "\<And>oid new. get_order oid s' = Some new \<Longrightarrow> status_told e2 m new"
    using assms(2) by (auto simp: announced_def)
  have "status_told (e1 @ e2) s new" if got: "get_order oid s' = Some new" for oid new
  proof -
    have oid: "o_id new = oid" using got by (rule get_order_id)
    consider (same) mid where "get_order oid m = Some mid" "o_status mid = o_status new"
      | (told) "DashboardEvent ''order.created'' oid \<in> set e2 \<or>
          DashboardEvent ''order.status_changed'' oid \<in> set e2 \<and> client_told e2 oid (o_status new)"
      using t2 [OF got] oid by (auto simp: status_told_def)
    then show ?thesis
    proof cases
      case same
      with t1 [OF same(1)] get_order_id [OF same(1)] oid show ?thesis by (auto simp: status_told_def client_told_def)
    next
      case told
      with oid show ?thesis by (auto simp: status_told_def client_told_def)
    qed
  qed
  with o1 o2 show ?thesis by (intro announcedI [of _ _ "e1 @ e2"]) auto
qed

lemma status_told_same: "get_order oid s = Some new \<Longrightarrow> status_told evs s new"
  by (auto simp: status_told_def dest: get_order_id)

lemma announced_same: "orders s' = orders s \<Longrightarrow> outbox s' = outbox s @ evs \<Longrightarrow> announced s s'"
  by (rule announcedI [of _ _ evs]) (auto simp: get_order_def intro: status_told_same [unfolded get_order_def])

lemma announced_refl [simp]: "announced s s"
  by (rule announced_same [of _ _ "[]"]) simp_all

lemma announced_cong: "announced s m \<Longrightarrow> orders s' = orders m \<Longrightarrow> outbox s' = outbox m @ evs \<Longrightarrow> announced s s'"
  by (rule announced_trans [OF _ announced_same])

lemma announced_wrapped:
  "announced s m \<Longrightarrow> announced s (ensure_tracking oid m)" "announced s m \<Longrightarrow> announced s (send evs m)"
  by (rule announced_cong [of _ _ _ "[]"], simp_all, rule announced_cong [of _ m], simp_all)

lemma announced_from: "announced m s' \<Longrightarrow> orders m = orders s \<Longrightarrow> outbox m = outbox s \<Longrightarrow> announced s s'"
  by (rule announced_trans [OF announced_same [of _ _ "[]"]]) simp_all

lemma notify_outbox: "\<exists>t b evs. outbox (notify_status_change ord s) = outbox s @ NotifyClient (o_client ord) t b (o_id ord) (o_status ord) # evs"
  by (auto simp: notify_status_change_def Let_def case_prod_beta)

lemma announced_save:
  assumes "get_order (o_id old) s = Some old" and "o_id new = o_id old"
  shows "announced s (save_order old new s)"
proof (cases "o_status old = o_status new")
  case True
  have "\<exists>evs. outbox (save_order old new s) = outbox s @ evs"
    using True by (simp add: save_order_def sync_order_status_def Let_def)
  then obtain evs where "outbox (save_order old new s) = outbox s @ evs" ..
  then show ?thesis
  proof (rule announcedI)
    fix oid r
    assume "get_order oid (save_order old new s) = Some r"
    then have "get_order oid s = Some r \<or> r = new" using assms by (simp split: if_splits)
    then show "status_told evs s r"
      using True assms status_told_same by (auto simp: status_told_def)
  qed
next
  case False
  let ?s1 = "send [DashboardEvent ''order.status_changed'' (o_id new)] (ensure_tracking (o_id new)
      (s\<lparr>orders := upd_row o_id (o_id old) (\<lambda>_. new) (orders s)\<rparr>))"
  obtain t b evs where n: "outbox (notify_status_change new ?s1) = outbox ?s1 @ NotifyClient (o_client new) t b (o_id new) (o_status new) # evs"
    using notify_outbox by blast
  have "\<exists>tail. outbox (save_order old new s) = outbox (notify_status_change new ?s1) @ tail"
    using False by (auto simp: save_order_def sync_order_status_def Let_def)
  then obtain tail where o: "outbox (save_order old new s) = outbox s @
      (DashboardEvent ''order.status_changed'' (o_id new) # NotifyClient (o_client new) t b (o_id new) (o_status new) # evs @ tail)"
    using n by auto
  show ?thesis
  proof (rule announcedI [OF o])
    fix oid r
    assume r: "get_order oid (save_order old new s) = Some r"
    show "status_told (DashboardEvent ''order.status_changed'' (o_id new) # NotifyClient (o_client new) t b (o_id new) (o_status new) # evs @ tail) s r"
    proof (cases "oid = o_id old")
      case True
      then have "r = new" using r assms by simp
      then show ?thesis by (auto simp: status_told_def client_told_def)
    next
      case False
      then show ?thesis using r assms by (auto intro: status_told_same)
    qed
  qed
qed

lemma announced_insert: "announced s (fst (insert_order ord s))"
proof (rule announcedI [of _ _ "[DashboardEvent ''order.created'' (fresh_id o_id (orders s))]"])
  show "outbox (fst (insert_order ord s)) = outbox s @ [DashboardEvent ''order.created'' (fresh_id o_id (orders s))]"
    by (simp add: insert_order_def Let_def sync_order_status_def)
  show "status_told [DashboardEvent ''order.created'' (fresh_id o_id (orders s))] s new"
    if "get_order oid (fst (insert_order ord s)) = Some new" for oid new
    using that by (auto simp: get_order_def get_row_add status_told_def split: option.splits if_splits dest: get_row_key)
qed

section \<open>Each endpoint\<close>

named_theorems tells

lemma patch_order_id [simp]: "o_id (patch_order p ord) = o_id ord"
  by (simp add: patch_order_def)

lemma accept_tells [tells]:
  assumes "MasterOrderAcceptView_post user pk s = Inr s'"
  shows "announced s s'"
proof -
  define m where "m ord = (if o_status ord = NEW
      then ensure_tracking pk (save_order ord (ord\<lparr>o_master := Some user, o_status := ACCEPTED\<rparr>) s) else s)" for ord
  obtain ord where ord: "get_order pk s = Some ord" and s': "orders s' = orders (m ord)" "outbox s' = outbox (m ord)"
    using assms by (auto simp: MasterOrderAcceptView_post_def Let_def m_def [symmetric] simp del: save_order_tables ensure_tracking_tables split: if_splits)
  have "announced s (save_order ord (ord\<lparr>o_master := Some user, o_status := ACCEPTED\<rparr>) s)"
    by (rule announced_save [OF get_orderD [OF ord, THEN conjunct1]]) simp
  then have m: "announced s (m ord)" by (cases "o_status ord = NEW") (auto simp: m_def intro: announced_wrapped)
  show ?thesis by (rule announced_cong [OF m, of _ "[]"]) (simp_all add: s')
qed

lemma owned_row:
  assumes "keys_distinct o_id (orders s)" and "get_row o_id pk (filter P (orders s)) = Some ord"
  shows "get_order (o_id ord) s = Some ord"
  by (rule owned_orderD(1) [OF assms])

lemma locked_tells:
  assumes "keys_distinct o_id (orders s)" and "lock_order_for_transition pk st P s = Inr ord" and "o_id new = o_id ord"
  shows "announced s (save_order ord new s)"
  by (rule announced_save [OF lock_orderD(1) [OF assms(1,2)] assms(3)])

lemma on_way_tells [tells]:
  "keys_distinct o_id (orders s) \<Longrightarrow> MasterOrderOnWayView_post user pk s = Inr s' \<Longrightarrow> announced s s'"
  by (auto simp: MasterOrderOnWayView_post_def intro!: announced_wrapped locked_tells)

lemma start_tells [tells]:
  "keys_distinct o_id (orders s) \<Longrightarrow> MasterOrderStartView_post user pk s = Inr s' \<Longrightarrow> announced s s'"
  by (auto simp: MasterOrderStartView_post_def OrderStartSerializer_save_def split: if_splits
      intro!: announced_wrapped announced_save owned_row)

lemma reject_tells [tells]:
  "keys_distinct o_id (orders s) \<Longrightarrow> MasterOrderRejectView_post user pk reason s = Inr s' \<Longrightarrow> announced s s'"
  by (auto simp: MasterOrderRejectView_post_def intro!: locked_tells)

lemma cancel_tells [tells]:
  "keys_distinct o_id (orders s) \<Longrightarrow> ClientOrderCancelView_post user pk reason s = Inr s' \<Longrightarrow> announced s s'"
  by (auto simp: ClientOrderCancelView_post_def Let_def split: option.split intro!: announced_wrapped locked_tells)

lemma confirm_tells [tells]:
  "keys_distinct o_id (orders s) \<Longrightarrow> MasterOrderReceiptConfirmView_post e user pk s = Inr s' \<Longrightarrow> announced s s'"
  by (auto simp: MasterOrderReceiptConfirmView_post_def approve_order_receipt_def split: if_splits
      intro!: announced_wrapped announced_save owned_row)

lemma rate_tells [tells]:
  assumes "ClientOrderRateView_post user pk rating comment s = Inr s'"
  shows "announced s s'"
proof -
  have "orders s' = orders s \<and> (\<exists>evs. outbox s' = outbox s @ evs)"
    using assms by (auto simp: ClientOrderRateView_post_def Let_def split: if_splits option.splits)
  then show ?thesis by (auto intro: announced_same)
qed

lemma create_usage_outbox [simp]: "outbox (create_usage oid iid n pr s) = outbox s"
  by (simp add: create_usage_def)

lemma recalculate_total_id [simp]: "o_id (recalculate_total ord) = o_id ord"
  by (simp add: recalculate_total_def)

lemma use_part_tells [tells]:
  assumes "keys_distinct o_id (orders s)" and "UseInventoryView_post user iid oid n s = Inr s'"
  shows "announced s s'"
  using assms(2)
proof (rule UseInventoryView_InrD)
  fix i p ord w s1
  assume ord: "get_row o_id oid (filter (owned_by_master user) (orders s)) = Some ord"
    and s1: "s1 = create_usage oid iid n (sale_price p) (s\<lparr>warehouse := w\<rparr>)"
    and s': "s' = save_order ord (recalculate_total (ord\<lparr>inventory_total := usage_total oid s1\<rparr>)) s1"
  have "get_order (o_id ord) s1 = Some ord" using owned_row [OF assms(1) ord] by (simp add: s1 get_order_def)
  then show "announced s s'" unfolding s' by (intro announced_from [OF announced_save]) (simp_all add: s1)
qed

lemma consume_items_outbox: "consume_items oid m items tot s = Inr (s', tot') \<Longrightarrow> outbox s' = outbox s"
  by (induction oid m items tot s rule: consume_items.induct) (auto simp: Let_def split: option.splits if_splits)

lemma check_tells [tells]:
  assumes "MasterOrderCompleteView_post e user pk ci s = Inr s'"
  shows "announced s s'"
  using assms
proof (rule check_InrD)
  fix ord s1 lt
  assume ord: "get_order pk s = Some ord" and items: "consume_items pk (o_master ord) (ci_used_items ci) 0 s = Inr (s1, lt)"
    and s': "s' = save_order ord (submitted_row e ci (usage_total pk s1) lt ord) s1"
  have same: "orders s1 = orders s" "outbox s1 = outbox s" using consume_items_tables [OF items] consume_items_outbox [OF items] by auto
  have "get_order (o_id ord) s1 = Some ord"
    using get_orderD [OF ord, THEN conjunct1] by (simp only: get_order_def same)
  then show "announced s s'" unfolding s' by (intro announced_from [OF announced_save]) (simp_all add: same)
qed

lemma complete_paid_tells:
  assumes "complete_paid_order e oid pt s = Inr (s', ok)"
  shows "announced s s'"
proof -
  obtain ord where ord: "get_order oid s = Some ord"
    and s': "s' = s \<or> (\<exists>w. s' = (save_order ord (ord\<lparr>o_status := COMPLETED, o_payment_type := Some pt, is_paid := True,
        paid_at := Some (env_now e)\<rparr>) s)\<lparr>wallet := w\<rparr>)"
    using assms by (auto simp: complete_paid_order_def Let_def split: if_splits option.splits prod.splits) (metis sys.surjective sys.update_convs(8))+
  have "announced s (save_order ord (ord\<lparr>o_status := COMPLETED, o_payment_type := Some pt, is_paid := True, paid_at := Some (env_now e)\<rparr>) s)"
    by (rule announced_save [OF get_orderD [OF ord, THEN conjunct1]]) simp
  with s' show ?thesis by (auto intro: announced_cong [of _ _ _ "[]"])
qed

lemma pay_tells [tells]:
  assumes "keys_distinct o_id (orders s)" and "ClientOrderPayView_post e user pk method s = Inr s'"
  shows "announced s s'"
proof -
  obtain ord where ord: "get_row o_id pk (filter (owned_by_client user) (orders s)) = Some ord"
    using assms(2) by (auto simp: ClientOrderPayView_post_def)
  note row = owned_row [OF assms(1) ord]
  let ?ord1 = "ord\<lparr>o_payment_type := Some PT_ONLINE\<rparr>"
  let ?s1 = "save_order ord ?ord1 s"
  let ?s2 = "save_order ?ord1 (recalculate_total ?ord1) ?s1"
  have "announced s ?s1" by (rule announced_save [OF row]) simp
  moreover have "announced ?s1 ?s2" by (rule announced_save) (simp_all add: row)
  ultimately have s2: "announced s ?s2" by (rule announced_trans)
  have "(\<exists>ok. complete_paid_order e pk PT_CASH s = Inr (s', ok)) \<or> (\<exists>evs. s' = send evs ?s2) \<or> s' = ?s2"
    using assms(2) ord by (auto simp: ClientOrderPayView_post_def Let_def split: if_splits option.splits)
  with s2 show ?thesis by (auto intro: complete_paid_tells announced_wrapped)
qed

lemma paid_tells [tells]:
  assumes "mark_order_paid e pk s = Inr s'"
  shows "announced s s'"
proof -
  obtain ord where ord: "get_order pk s = Some ord" using assms by (auto simp: mark_order_paid_def)
  note row = get_orderD [OF ord, THEN conjunct1]
  consider "s' = s" | ok where "complete_paid_order e pk PT_ONLINE s = Inr (s', ok)"
    | s1 where "complete_paid_order e pk PT_ONLINE s = Inr (s1, False)"
        "s' = save_order ord (ord\<lparr>is_paid := True, paid_at := Some (env_now e)\<rparr>) s1"
    using assms ord by (auto simp: mark_order_paid_def split: if_splits)
  then show ?thesis
  proof cases
    case 3
    then have "s1 = s" by (auto simp: complete_paid_order_def Let_def split: if_splits option.splits)
    with 3 show ?thesis by (simp add: announced_save row)
  qed (auto intro: complete_paid_tells)
qed

lemma payment_cancelled_tells [tells]:
  assumes "mark_order_payment_cancelled pk s = Inr s'"
  shows "announced s s'"
proof -
  obtain ord where ord: "get_order pk s = Some ord" and "s' = s \<or> s' = save_order ord (ord\<lparr>is_paid := False\<rparr>) s"
    using assms by (auto simp: mark_order_payment_cancelled_def split: if_splits)
  with announced_save [OF get_orderD [OF ord, THEN conjunct1]] show ?thesis by auto
qed

lemma create_tells [tells]:
  assumes "OrderSerializer_create e client oc s = Inr (s', ord)"
  shows "announced s s'"
proof -
  obtain db did where "s' = ensure_tracking (fresh_id o_id (orders s)) (fst (insert_order
      ((recalculate_total (new_order e client oc))\<lparr>o_device := did\<rparr>) (s\<lparr>profiles := db\<rparr>)))"
    using assms by (auto simp: OrderSerializer_create_def Let_def case_prod_beta)
  then show ?thesis by (auto intro!: announced_wrapped announced_from [OF announced_insert])
qed

lemma dash_create_tells [tells]:
  "DashboardOrderSerializer_create e p s = Inr s' \<Longrightarrow> announced s s'"
  by (auto simp: DashboardOrderSerializer_create_def Let_def case_prod_beta intro!: announced_wrapped announced_insert)

lemma dash_update_tells [tells]:
  assumes "DashboardOrderSerializer_update pk p s = Inr s'"
  shows "announced s s'"
proof -
  obtain ord p1 where ord: "get_order pk s = Some ord" and s': "s' = ensure_tracking pk (save_order ord
        (if touches_total p1 then recalculate_total (patch_order p1 ord) else patch_order p1 ord) s)"
    using assms by (auto simp: DashboardOrderSerializer_update_def Let_def)
  show ?thesis unfolding s'
    by (intro announced_wrapped announced_save [OF get_orderD [OF ord, THEN conjunct1]]) simp
qed

lemma dash_status_tells [tells]:
  assumes "DashboardOrderStatusSerializer_save pk st cr rr s = Inr s'"
  shows "announced s s'"
proof -
  obtain ord where ord: "get_order pk s = Some ord"
    and s': "s' = ensure_tracking pk (save_order ord (status_write st cr rr ord) s)"
    using assms by (auto simp: DashboardOrderStatusSerializer_save_def split: if_splits)
  show ?thesis unfolding s'
    by (intro announced_wrapped announced_save [OF get_orderD [OF ord, THEN conjunct1]]) (simp add: status_write_def Let_def)
qed

lemma dash_assign_tells [tells]: "announced s (fst (DashboardOrderAssignSerializer_save admin pk ms as m s))"
proof -
  let ?s' = "fst (DashboardOrderAssignSerializer_save admin pk ms as m s)"
  have "orders ?s' = orders s \<and> (\<exists>evs. outbox ?s' = outbox s @ evs)"
    by (auto simp: DashboardOrderAssignSerializer_save_def Let_def case_prod_beta split: option.split)
  then show ?thesis by (auto intro: announced_same)
qed

lemma admin_assign_tells [tells]:
  "OrderAdmin_assign_row all_masters admin pk mids aids s = Inr s' \<Longrightarrow> announced s s'"
  by (auto simp: OrderAdmin_assign_row_def Let_def case_prod_beta intro!: announced_wrapped announced_same [of _ _ "[]"])

lemma internal_create_tells [tells]:
  assumes "InternalOrderWriteSerializer_create e w s = Inr s'"
  shows "announced s s'"
proof -
  obtain ord where s': "s' = save_order (snd (insert_order ord s)) (recalculate_total (snd (insert_order ord s))) (fst (insert_order ord s))"
    using assms by (auto simp: InternalOrderWriteSerializer_create_def Let_def case_prod_beta split: if_splits)
  have "get_order (o_id (snd (insert_order ord s))) (fst (insert_order ord s)) = Some (snd (insert_order ord s))"
    using fresh_id_neq [of _ "orders s" o_id] by (auto simp: get_order_def get_row_add split: option.split dest!: get_row_SomeD)
  then show ?thesis unfolding s' by (intro announced_trans [OF announced_insert announced_save]) simp_all
qed

lemma internal_update_tells [tells]:
  assumes "InternalOrderWriteSerializer_update e pk w s = Inr s'"
  shows "announced s s'"
proof -
  obtain ord p where ord: "get_order pk s = Some ord"
    and s': "s' = save_order ord (recalculate_total (case iw_price w of None \<Rightarrow> patch_order p ord
        | Some a \<Rightarrow> (patch_order p ord)\<lparr>service_fee := a, total_amount := a\<rparr>)) s"
    using assms by (auto simp: InternalOrderWriteSerializer_update_def Let_def)
  show ?thesis unfolding s'
    by (intro announced_save [OF get_orderD [OF ord, THEN conjunct1]]) (simp split: option.split)
qed

lemma internal_assign_tells [tells]:
  assumes "OrderAssignAPIView_patch known pk mid s = Inr s'"
  shows "announced s s'"
proof -
  obtain ord where ord: "get_order pk s = Some ord"
    and s': "s' = save_order ord (if mid \<noteq> None \<and> o_status ord = NEW then ord\<lparr>o_master := mid, o_status := ACCEPTED\<rparr>
        else ord\<lparr>o_master := mid\<rparr>) s"
    using assms by (auto simp: OrderAssignAPIView_patch_def Let_def split: if_splits)
  show ?thesis unfolding s' by (intro announced_save [OF get_orderD [OF ord, THEN conjunct1]]) simp
qed

lemma destroy_tells [tells]:
  assumes "Order_destroy protected pk s = Inr s'"
  shows "announced s s'"
proof (rule announcedI [of _ _ "[]"])
  show "outbox s' = outbox s @ []" using assms by (auto simp: Order_destroy_def split: if_splits)
  fix oid new
  assume "get_order oid s' = Some new"
  then have "get_order oid s = Some new"
    using assms by (auto simp: Order_destroy_def get_order_def get_row_del split: if_splits)
  then show "status_told [] s new" by (rule status_told_same)
qed

lemma user_step_tells: "user_step s s' \<Longrightarrow> keys_distinct o_id (orders s) \<Longrightarrow> announced s s'"
  by (induction rule: user_step.induct) (auto intro: tells)

lemma order_step_tells: "order_step s s' \<Longrightarrow> keys_distinct o_id (orders s) \<Longrightarrow> announced s s'"
  by (induction rule: order_step.induct) (auto intro: tells user_step_tells announced_same [of _ _ "[]"])

lemma order_steps_tell: "order_step\<^sup>*\<^sup>* s s' \<Longrightarrow> order_inv s \<Longrightarrow> announced s s'"
proof (induction rule: rtranclp_induct)
  case (step m s')
  have "order_inv m" using order_steps_inv [OF step.hyps(1) step.prems] .
  then have "announced m s'" using order_step_tells [OF step.hyps(2)] by (simp add: order_inv_def books_inv_def)
  with step.IH [OF step.prems] show ?case by (rule announced_trans)
qed simp

section \<open>The board follows\<close>

text \<open>A board that is watched while requests run: after each request it takes the frames of the events
  the request appended. The rows of a frame are those after the request.\<close>

definition board_shows :: "sys \<Rightarrow> (row_id \<rightharpoonup> order_status) \<Rightarrow> bool" where
  "board_shows s shown \<longleftrightarrow> (\<forall>oid ord. get_order oid s = Some ord \<longrightarrow> shown oid = Some (o_status ord))"

inductive watching :: "accounts_db \<Rightarrow> sys \<times> (row_id \<rightharpoonup> order_status) \<Rightarrow> sys \<times> (row_id \<rightharpoonup> order_status) \<Rightarrow> bool" for a where
  request: "order_step s s' \<Longrightarrow> outbox s' = outbox s @ evs \<Longrightarrow>
    watching a (s, shown) (s', fold apply_frame (frames_of a s' evs) shown)"

inductive_cases watchingE: "watching a (s, shown) (s', shown')"

lemma frames_simps [simp]:
  "frames_of a s [] = []"
  "frames_of a s (ev # evs) =
    (case ev of DashboardEvent name oid \<Rightarrow> broadcast_dashboard_order a s name None None oid | _ \<Rightarrow> []) @ frames_of a s evs"
  by (simp_all add: frames_of_def)

text \<open>A frame shows the current status; an order nobody broadcasts keeps what was shown.\<close>

lemma apply_frames:
  assumes "get_order oid s = Some ord"
  shows "fold apply_frame (frames_of a s evs) shown oid =
    (if \<exists>name. DashboardEvent name oid \<in> set evs then Some (o_status ord) else shown oid)"
proof (induction evs arbitrary: shown)
  case (Cons ev evs)
  show ?case
  proof (cases ev)
    case (DashboardEvent name k)
    show ?thesis
    proof (cases "get_order k s")
      case None
      then have "k \<noteq> oid" using assms by auto
      with None show ?thesis by (auto simp: DashboardEvent broadcast_dashboard_order_def Cons.IH)
    next
      case (Some r)
      then have "o_id r = k" by (rule get_order_id)
      with Some assms show ?thesis
        by (auto simp: DashboardEvent broadcast_dashboard_order_def order_realtime_payload_def Cons.IH)
    qed
  qed (simp_all add: Cons.IH)
qed simp

lemma board_shows_step:
  assumes "watching a (s, shown) (s', shown')" and "order_inv s" and "board_shows s shown"
  shows "board_shows s' shown'"
  using assms(1)
proof (rule watchingE)
  fix evs
  assume step: "order_step s s'" and evs: "outbox s' = outbox s @ evs" and shown': "shown' = fold apply_frame (frames_of a s' evs) shown"
  have "announced s s'" using order_step_tells [OF step] assms(2) by (simp add: order_inv_def books_inv_def)
  then have told: "status_told evs s new" if "get_order oid s' = Some new" for oid new
    using evs that by (auto simp: announced_def)
  show "board_shows s' shown'"
    unfolding board_shows_def
  proof (intro allI impI)
    fix oid new
    assume new: "get_order oid s' = Some new"
    then have "o_id new = oid" by (rule get_order_id)
    with told [OF new] assms(3) show "shown' oid = Some (o_status new)"
      by (auto simp: shown' apply_frames [OF new] status_told_def board_shows_def)
  qed
qed

lemma watching_steps: "(watching a)\<^sup>*\<^sup>* w w' \<Longrightarrow> order_step\<^sup>*\<^sup>* (fst w) (fst w')"
  by (induction rule: rtranclp_induct) (auto elim!: watching.cases intro: rtranclp.rtrancl_into_rtrancl)

text \<open>C40: However masters, clients, administrators and the payment provider change orders, a board that
  receives the frames shows the current status of every order, and the client of every order whose
  status is another one than before has been told the status it has now.\<close>

theorem live_board_follows:
  assumes "(watching a)\<^sup>*\<^sup>* (s, shown) (s', shown')" and "order_inv s" and "board_shows s shown"
  shows "board_shows s' shown' \<and>
    (\<exists>evs. outbox s' = outbox s @ evs \<and>
      (\<forall>oid old new. get_order oid s = Some old \<and> get_order oid s' = Some new \<and> o_status old \<noteq> o_status new \<longrightarrow>
        DashboardEvent ''order.created'' oid \<in> set evs \<or> client_told evs oid (o_status new)))"
proof
  have "order_inv (fst w') \<and> board_shows (fst w') (snd w')" if "(watching a)\<^sup>*\<^sup>* (s, shown) w'" for w'
    using that
  proof (induction rule: rtranclp_induct)
    case (step w w')
    then have "order_step (fst w) (fst w')" by (auto elim: watching.cases)
    with step order_step_inv board_shows_step show ?case by (cases w; cases w') auto
  qed (use assms in simp)
  from this [OF assms(1)] show "board_shows s' shown'" by simp
  have "announced s s'" using order_steps_tell [OF watching_steps [OF assms(1), unfolded fst_conv] assms(2)] .
  then obtain evs where evs: "outbox s' = outbox s @ evs" and told: "\<And>oid new. get_order oid s' = Some new \<Longrightarrow> status_told evs s new"
    by (auto simp: announced_def)
  have "DashboardEvent ''order.created'' oid \<in> set evs \<or> client_told evs oid (o_status new)"
    if "get_order oid s = Some old \<and> get_order oid s' = Some new \<and> o_status old \<noteq> o_status new" for oid old new
    using told [of oid new] that by (auto simp: status_told_def dest: get_order_id)
  with evs show "\<exists>evs. outbox s' = outbox s @ evs \<and>
      (\<forall>oid old new. get_order oid s = Some old \<and> get_order oid s' = Some new \<and> o_status old \<noteq> o_status new \<longrightarrow>
        DashboardEvent ''order.created'' oid \<in> set evs \<or> client_told evs oid (o_status new))"
    by blast
qed

text \<open>The payment of the example: the board turns to completed and the client is told.\<close>

definition board_accounts :: accounts_db where
  "board_accounts = \<lparr>clients = [], masters = [], staff = [], otp_records = [], fcm_devices = [], otp_cache = (\<lambda>_. None),
     otp_cooldown = (\<lambda>_. None), otp_block = (\<lambda>_. None), sms_log = []\<rparr>"

definition payment_events :: "event list" where
  "payment_events = drop (length (outbox checked_sys)) (outbox paid_sys)"

theorem live_board_follows_witness:
  "\<exists>shown'. (watching board_accounts)\<^sup>*\<^sup>* (checked_sys, [1 \<mapsto> AWAITING_PAYMENT]) (paid_sys, shown') \<and> board_shows paid_sys shown' \<and> shown' 1 = Some COMPLETED"
proof -
  let ?shown' = "fold apply_frame (frames_of board_accounts paid_sys payment_events) [1 \<mapsto> AWAITING_PAYMENT]"
  have "outbox paid_sys = outbox checked_sys @ payment_events" by code_simp
  then have run: "(watching board_accounts)\<^sup>*\<^sup>* (checked_sys, [1 \<mapsto> AWAITING_PAYMENT]) (paid_sys, ?shown')"
    using watching.request order_step.user [OF example_steps(5)] by blast
  have inv: "order_inv checked_sys"
    using order_steps_inv [OF _ empty_sys_inv, of checked_sys] example_steps order_step.user
    by (meson rtranclp.rtrancl_refl rtranclp.rtrancl_into_rtrancl)
  have "map (\<lambda>ord. (o_id ord, o_status ord)) (orders checked_sys) = [(1, AWAITING_PAYMENT)]" by code_simp
  then have "board_shows checked_sys [1 \<mapsto> AWAITING_PAYMENT]"
    by (auto simp: board_shows_def get_order_def dest!: get_row_SomeD)
  from live_board_follows [OF run inv this] have "board_shows paid_sys ?shown'" by (rule conjunct1)
  moreover have "?shown' 1 = Some COMPLETED" by code_simp
  ultimately show ?thesis using run by blast
qed

section \<open>What the board is not told\<close>

text \<open>A deleted order sends nothing and stays on the board.\<close>

lemma deleted_order_stays_on_board:
  assumes "Order_destroy protected pk s = Inr s'"
  shows "outbox s' = outbox s" and "get_order pk s' = None"
  using assms by (auto simp: Order_destroy_def get_order_def get_row_del split: if_splits)

text \<open>The first master the internal API writes into an order that is past new is not broadcast: the
  receiver asks for a master before and after.\<close>

lemma silent_first_master:
  assumes "OrderAssignAPIView_patch known pk mid s = Inr s'" and "get_order pk s = Some ord" and "o_master ord = None" and "o_status ord \<noteq> NEW"
  shows "outbox s' = outbox s" and "\<exists>new. get_order pk s' = Some new \<and> o_master new = mid"
proof -
  have row: "get_order (o_id ord) s = Some ord" "o_id ord = pk" using get_orderD [OF assms(2)] by auto
  have s': "s' = save_order ord (ord\<lparr>o_master := mid\<rparr>) s"
    using assms by (auto simp: OrderAssignAPIView_patch_def Let_def split: if_splits)
  show "outbox s' = outbox s" using assms(3) by (simp add: s' save_order_def sync_order_status_def Let_def)
  show "\<exists>new. get_order pk s' = Some new \<and> o_master new = mid" using row by (simp add: s')
qed

section \<open>Masters on the board\<close>

text \<open>A change of the status shown is always sent; new masters and other edits are not.\<close>

lemma master_status_announced:
  "master_status_value old \<noteq> master_status_value m \<Longrightarrow>
    master_saved_frames (Some old) m s = [MasterFrame (master_realtime_payload m) (orders_of_master (ms_id m) s)]"
proof -
  assume change: "master_status_value old \<noteq> master_status_value m"
  have "master_status_value old = master_status_value m" if "status_fields old = status_fields m"
    using that by (simp add: status_fields_def master_status_value_def)
  with change show ?thesis by (auto simp: master_saved_frames_def sync_master_status_def broadcast_dashboard_master_status_def)
qed

lemma master_edit_silent: "status_fields old = status_fields m \<Longrightarrow> master_saved_frames (Some old) m s = []"
  by (simp add: master_saved_frames_def sync_master_status_def)

text \<open>The orders of the frame: open orders of the master, without those that await payment.\<close>

lemma unpaid_order_not_named:
  assumes "keys_distinct o_id (orders s)" and "ord \<in> set (orders s)" and "o_status ord = AWAITING_PAYMENT"
  shows "o_id ord \<notin> set (orders_of_master m s)"
proof
  assume "o_id ord \<in> set (orders_of_master m s)"
  then obtain x where x: "x \<in> set (orders s)" "o_id x = o_id ord" "o_status x \<in> set MASTER_STATUS_ORDER_STATUSES"
    by (auto simp: orders_of_master_def)
  with get_row_unique [OF assms(1) assms(2)] get_row_unique [OF assms(1) x(1)] have "x = ord" by simp
  with x(3) assms(3) show False by (simp add: MASTER_STATUS_ORDER_STATUSES_def)
qed

text \<open>The live status and the status of the internal API differ for masters who are dismissed, and for
  those who are offline and not available.\<close>

lemma two_statuses:
  "master_status_value m = (case master_status m of Blocked \<Rightarrow> ''blocked'' | Active \<Rightarrow> ''active'' | Busy \<Rightarrow> ''busy'' | Inactive \<Rightarrow> ''inactive'')
    \<longleftrightarrow> is_blocked m \<or> ms_active m \<and> (is_available m \<or> is_online m)"
  by (auto simp: master_status_value_def master_status_def)

end
