(* ===== verification/People.thy ===== *)
theory People
  imports Live_Board
begin

text \<open>
  Clients and masters as the back office keeps them: the client pages of \<open>src/apps/dashboard/\<close> and the
  clients, masters, search and express orders of \<open>src/apps/internal_api/\<close>.

  \<^item> State: the accounts with the tables of orders and profiles; the tariff of a client is a
    subscription, see \<open>Profiles\<close>.
  \<^item> The phone number is stored as it was typed: only the sign-in normalizes it.
  \<^item> \<open>total_spent\<close> and \<open>total_orders\<close> of a client are columns no code of the repository writes; where they
    are read they are an argument. Texts come trimmed by the framework; avatars are left out.
\<close>

section \<open>Fields of a client\<close>

record client_form =
  cf_phone :: "string option"
  cf_first_name :: "string option"
  cf_last_name :: "string option"
  cf_language :: "language option"
  cf_notifications :: "bool option"
  cf_push :: "bool option"
  cf_active :: "bool option"
  cf_tariff :: "row_id option option"
  cf_expires :: "instant option option"

definition set_client_fields :: "client_form \<Rightarrow> client \<Rightarrow> client" where
  "set_client_fields f c = c\<lparr>cl_phone := sent_or (cf_phone f) (cl_phone c), cl_first_name := sent_or (cf_first_name f) (cl_first_name c),
     cl_last_name := sent_or (cf_last_name f) (cl_last_name c), cl_language := sent_or (cf_language f) (cl_language c),
     cl_notifications := sent_or (cf_notifications f) (cl_notifications c), cl_push := sent_or (cf_push f) (cl_push c),
     cl_active := sent_or (cf_active f) (cl_active c)\<rparr>"

text \<open>Tariff and date of a client; a client without a row has neither.\<close>

definition set_subscription :: "row_id \<Rightarrow> client_form \<Rightarrow> profiles_db \<Rightarrow> profiles_db" where
  "set_subscription c f db =
    (if cf_tariff f = None \<and> cf_expires f = None then db
     else let old = get_row sb_client c (subscriptions db)
          in db\<lparr>subscriptions := add_row
               \<lparr>sb_client = c, current_tariff = sent_or (cf_tariff f) (Option.bind old current_tariff),
                tariff_expires_at = sent_or (cf_expires f) (Option.bind old tariff_expires_at)\<rparr>
               (del_row sb_client c (subscriptions db))\<rparr>)"

definition client_phone_free :: "row_id option \<Rightarrow> string option \<Rightarrow> accounts_db \<Rightarrow> bool" where
  "client_phone_free self phone db =
    (case phone of None \<Rightarrow> True
     | Some p \<Rightarrow> \<not> list_ex (\<lambda>c. cl_phone c = p \<and> (case self of None \<Rightarrow> True | Some k \<Rightarrow> cl_id c \<noteq> k)) (clients db))"

definition validate_client :: "row_id option \<Rightarrow> client_form \<Rightarrow> accounts_db \<Rightarrow> profiles_db \<Rightarrow> unit res" where
  "validate_client self f a db =
    bindE (guardE (self = None \<longrightarrow> cf_phone f \<noteq> None) (ValidationError ''phone: required'')) (\<lambda>_.
    bindE (guardE (case cf_phone f of None \<Rightarrow> True | Some p \<Rightarrow> p \<noteq> [] \<and> length p \<le> 20) (ValidationError ''phone'')) (\<lambda>_.
    bindE (guardE (client_phone_free self (cf_phone f) a) (ValidationError ''phone: unique'')) (\<lambda>_.
      guardE (case cf_tariff f of Some (Some t) \<Rightarrow> list_ex (\<lambda>x. tf_id x = t) (tariffs db) | _ \<Rightarrow> True)
        (ValidationError ''current_tariff''))))"

definition insert_client :: "client_form \<Rightarrow> accounts_db \<Rightarrow> sys \<Rightarrow> accounts_db \<times> sys \<times> row_id" where
  "insert_client f a s =
    (let k = fresh_id cl_id (clients a)
     in (a\<lparr>clients := add_row (set_client_fields f (new_client k [])) (clients a)\<rparr>,
         s\<lparr>profiles := set_subscription k f (profiles s)\<rparr>, k))"

definition update_client :: "row_id \<Rightarrow> client_form \<Rightarrow> accounts_db \<Rightarrow> sys \<Rightarrow> accounts_db \<times> sys" where
  "update_client k f a s =
    (a\<lparr>clients := upd_row cl_id k (set_client_fields f) (clients a)\<rparr>, s\<lparr>profiles := set_subscription k f (profiles s)\<rparr>)"

section \<open>Dashboard\<close>

definition DashboardClient_create :: "client_form \<Rightarrow> accounts_db \<Rightarrow> sys \<Rightarrow> (accounts_db \<times> sys) res" where
  "DashboardClient_create f a s =
    bindE (validate_client None f a (profiles s)) (\<lambda>_. let (a1, s1, k) = insert_client f a s in Inr (a1, s1))"

definition DashboardClient_update :: "row_id \<Rightarrow> client_form \<Rightarrow> accounts_db \<Rightarrow> sys \<Rightarrow> (accounts_db \<times> sys) res" where
  "DashboardClient_update pk f a s =
    bindE (get_or_404 ''Client'' (get_row cl_id pk (clients a))) (\<lambda>_.
    bindE (validate_client (Some pk) f a (profiles s)) (\<lambda>_. Inr (update_client pk f a s)))"

text \<open>The derived fields: totals are computed from the orders.\<close>

definition own_addresses :: "row_id \<Rightarrow> profiles_db \<Rightarrow> client_address list" where
  "own_addresses c db = filter (\<lambda>x. ca_client x = c) (addresses db)"

definition primary_address :: "row_id \<Rightarrow> profiles_db \<Rightarrow> client_address option" where
  "primary_address c db =
    (case find is_default (own_addresses c db) of
       Some x \<Rightarrow> Some x
     | None \<Rightarrow> (case own_addresses c db of [] \<Rightarrow> None | x # _ \<Rightarrow> Some x))"

record client_card =
  cc_full_name :: string
  cc_tariff :: "string option"
  cc_addresses :: nat
  cc_address :: "string option"
  cc_total_spent :: money
  cc_total_orders :: nat
  cc_last_order :: "instant option"

definition last_order :: "row_id \<Rightarrow> sys \<Rightarrow> order option" where
  "last_order c s = (case filter (\<lambda>ord. o_client ord = c) (newest s) of [] \<Rightarrow> None | ord # _ \<Rightarrow> Some ord)"

definition DashboardClientSerializer_data :: "sys \<Rightarrow> client \<Rightarrow> client_card" where
  "DashboardClientSerializer_data s c =
    \<lparr>cc_full_name = client_name c, cc_tariff = current_tariff_name (cl_id c) s, cc_addresses = length (own_addresses (cl_id c) (profiles s)),
     cc_address = map_option ca_address_text (primary_address (cl_id c) (profiles s)),
     cc_total_spent = sum_rows total_amount (filter (\<lambda>ord. o_client ord = cl_id c \<and> o_status ord = COMPLETED) (orders s)),
     cc_total_orders = count_rows (\<lambda>ord. o_client ord = cl_id c) (orders s),
     cc_last_order = map_option o_created_at (last_order (cl_id c) s)\<rparr>"

section \<open>Internal API: clients\<close>

record internal_client_form =
  icf_fields :: client_form
  icf_full_name :: "string option"
  icf_address :: "string option"
  icf_lat :: "int option"
  icf_lng :: "int option"

definition InternalClientWrite_validate :: "internal_client_form \<Rightarrow> client_form" where
  "InternalClientWrite_validate i =
    (let f = icf_fields i; name = strip (sent_or (icf_full_name i) [])
     in if name \<noteq> [] \<and> blank (cf_first_name f)
        then f\<lparr>cf_first_name := Some (fst (split_full_name name)), cf_last_name := Some (snd (split_full_name name))\<rparr> else f)"

text \<open>\<open>_save_address\<close>: the primary address is overwritten and becomes the default; without one a new
  row needs both coordinates, else the text is dropped.\<close>

definition save_address :: "row_id \<Rightarrow> string \<Rightarrow> int option \<Rightarrow> int option \<Rightarrow> profiles_db \<Rightarrow> profiles_db" where
  "save_address c address lat lng db =
    (if address = [] then db
     else let place = (case (lat, lng) of (Some x, Some y) \<Rightarrow> Some (x, y) | _ \<Rightarrow> None)
          in case primary_address c db of
               Some old \<Rightarrow>
                 db\<lparr>addresses := upd_row ca_id (ca_id old) (\<lambda>x. x\<lparr>ca_label := ''Asosiy'', ca_address_text := address, is_default := True,
                      ca_lat := (case place of None \<Rightarrow> ca_lat x | Some p \<Rightarrow> fst p),
                      ca_lng := (case place of None \<Rightarrow> ca_lng x | Some p \<Rightarrow> snd p)\<rparr>) (addresses db)\<rparr>
             | None \<Rightarrow>
                 (case place of
                    None \<Rightarrow> db
                  | Some p \<Rightarrow> fst (create_address \<lparr>ca_id = 0, ca_client = c, ca_label = ''Asosiy'', ca_address_text = address,
                                 ca_lat = fst p, ca_lng = snd p, is_default = True\<rparr> db)))"

definition InternalClient_create :: "internal_client_form \<Rightarrow> accounts_db \<Rightarrow> sys \<Rightarrow> (accounts_db \<times> sys) res" where
  "InternalClient_create i a s =
    bindE (validate_client None (icf_fields i) a (profiles s)) (\<lambda>_.
      let (a1, s1, k) = insert_client (InternalClientWrite_validate i) a s
      in Inr (a1, s1\<lparr>profiles := save_address k (sent_or (icf_address i) []) (icf_lat i) (icf_lng i) (profiles s1)\<rparr>))"

definition InternalClient_update :: "row_id \<Rightarrow> internal_client_form \<Rightarrow> accounts_db \<Rightarrow> sys \<Rightarrow> (accounts_db \<times> sys) res" where
  "InternalClient_update pk i a s =
    bindE (get_or_404 ''Client'' (get_row cl_id pk (clients a))) (\<lambda>_.
    bindE (validate_client (Some pk) (icf_fields i) a (profiles s)) (\<lambda>_.
      let (a1, s1) = update_client pk (InternalClientWrite_validate i) a s
      in Inr (a1, s1\<lparr>profiles := save_address pk (sent_or (icf_address i) []) (icf_lat i) (icf_lng i) (profiles s1)\<rparr>)))"

text \<open>The stored totals: an argument, see above.\<close>

record internal_client =
  ic_full_name :: string
  ic_address :: string
  ic_totals :: "money \<times> nat"
  ic_last_order :: "int option"
  ic_tariff :: "string option"

definition InternalClientSerializer_data :: "(row_id \<Rightarrow> money \<times> nat) \<Rightarrow> sys \<Rightarrow> client \<Rightarrow> internal_client" where
  "InternalClientSerializer_data stored s c =
    \<lparr>ic_full_name = client_name c,
     ic_address = (case primary_address (cl_id c) (profiles s) of None \<Rightarrow> [] | Some x \<Rightarrow> ca_address_text x),
     ic_totals = stored (cl_id c), ic_last_order = map_option created_on (last_order (cl_id c) s), ic_tariff = current_tariff_name (cl_id c) s\<rparr>"

record client_summary =
  csm_clients :: nat
  csm_active :: nat
  csm_new :: nat
  csm_spent :: money
  csm_orders :: nat

definition ClientSummary_get :: "(row_id \<Rightarrow> money \<times> nat) \<Rightarrow> accounts_db \<Rightarrow> client_summary" where
  "ClientSummary_get stored a =
    \<lparr>csm_clients = length (clients a), csm_active = count_rows cl_active (clients a),
     csm_new = count_rows (\<lambda>c. snd (stored (cl_id c)) = 0) (clients a),
     csm_spent = sum_rows (\<lambda>c. fst (stored (cl_id c))) (clients a),
     csm_orders = sum_list (map (\<lambda>c. snd (stored (cl_id c))) (clients a))\<rparr>"

section \<open>Internal API: masters\<close>

text \<open>The first name is a required field of the model: a full name alone does not do.\<close>

definition MasterCollection_create :: "(string \<Rightarrow> string) \<Rightarrow> instant \<Rightarrow> internal_master_form \<Rightarrow> accounts_db \<Rightarrow> accounts_db res" where
  "MasterCollection_create mk now i a =
    (case (mf_phone (im_fields i), mf_first_name (im_fields i)) of
       (Some p, Some n) \<Rightarrow>
         if p = [] \<or> n = [] then Inl (ValidationError ''blank'')
         else if \<not> phone_free None (Some p) a then Inl (ValidationError ''phone: unique'')
         else let f = InternalMasterWrite_validate i;
                  m1 = new_password mk (mf_password f) (set_fields f (default_master (fresh_id ms_id (masters a)) p n));
                  m2 = (case im_status i of None \<Rightarrow> m1 | Some st \<Rightarrow> apply_master_status now st m1)
              in Inr (a\<lparr>masters := add_row (save_password mk m2) (masters a)\<rparr>)
     | _ \<Rightarrow> Inl (ValidationError ''required''))"

record internal_master =
  imr_full_name :: string
  imr_status :: master_state
  imr_balance :: money
  imr_total_orders :: nat

definition InternalMasterSerializer_data :: "sys \<Rightarrow> master \<Rightarrow> internal_master" where
  "InternalMasterSerializer_data s m =
    \<lparr>imr_full_name = master_name m, imr_status = master_status m,
     imr_balance = (case get_row mw_master (ms_id m) (wallets (wallet s)) of None \<Rightarrow> 0 | Some w \<Rightarrow> balance_online w + balance_cash w),
     imr_total_orders = count_rows (\<lambda>ord. o_master ord = Some (ms_id m)) (orders s)\<rparr>"

definition MasterMeta_get :: "accounts_db \<Rightarrow> sys \<Rightarrow> nat \<times> (master_state \<times> nat) list \<times> (row_id \<times> string) list" where
  "MasterMeta_get a s =
    (length (masters a), map (\<lambda>st. (st, count_rows (\<lambda>m. master_status m = st) (masters a))) [Active, Busy, Inactive, Blocked],
     map (\<lambda>v. (sv_id v, sv_name v @ '' ustasi'')) (filter sv_active (catalog s)))"

definition MasterLocation_get :: "row_id \<Rightarrow> accounts_db \<Rightarrow> (int option \<times> int option \<times> master_state \<times> instant option) res" where
  "MasterLocation_get pk a =
    bindE (get_or_404 ''Master'' (get_row ms_id pk (masters a))) (\<lambda>m.
      Inr (ms_lat m, ms_lng m, master_status m, last_location_at m))"

section \<open>Internal API: search\<close>

text \<open>Services by name, the fifty newest orders by the text of their key, clients and masters by name and
  phone; five of each, ten in all.\<close>

definition InternalSearch_get :: "(row_id \<Rightarrow> string) \<Rightarrow> string \<Rightarrow> accounts_db \<Rightarrow> sys \<Rightarrow> found list" where
  "InternalSearch_get uuid_text raw a s =
    (let v = strip raw in
     if length v < 2 then []
     else take 10
       (map (FoundService \<circ> sv_id) (take 5 (filter (\<lambda>x. icontains (sv_name x) v \<and> sv_active x) (catalog s))) @
        map (FoundOrder \<circ> o_id) (take 5 (filter (\<lambda>ord. icontains (uuid_text (o_id ord)) v) (take 50 (newest s)))) @
        map (FoundClient \<circ> cl_id) (take 5 (filter (\<lambda>c. icontains (cl_first_name c) v \<or> icontains (cl_last_name c) v \<or> icontains (cl_phone c) v) (clients a))) @
        map (FoundMaster \<circ> ms_id) (take 5 (filter (\<lambda>m. icontains (ms_first_name m) v \<or> icontains (ms_last_name m) v \<or> icontains (ms_phone m) v) (masters a)))))"

section \<open>Internal API: express orders\<close>

text \<open>The client is looked up or created by the number of the request before anything of the order is
  checked, in no common transaction: the accounts after the request are part of the result.\<close>

record express_order =
  xo_phone :: "string option"
  xo_name :: string
  xo_service :: "row_id option"
  xo_price :: "money option"
  xo_address :: string
  xo_note :: string

definition express_payload :: "row_id \<Rightarrow> row_id \<Rightarrow> money \<Rightarrow> express_order \<Rightarrow> internal_write" where
  "express_payload c v price x =
    \<lparr>iw_client = Some c, iw_master = None, iw_service = Some v, iw_status = None, iw_payment_type = None, iw_price = Some price,
     iw_scheduled_at = Absent, iw_date = Absent, iw_time = Absent, iw_address = Some (xo_address x), iw_address_text = None,
     iw_lat = None, iw_lng = None, iw_note = Some (xo_note x), iw_cancelled_reason = None, iw_cancel_reason = None,
     iw_rejected_reason = None\<rparr>"

definition get_or_create_client :: "string \<Rightarrow> string \<Rightarrow> accounts_db \<Rightarrow> accounts_db \<times> row_id" where
  "get_or_create_client phone name a =
    (case get_row cl_phone phone (clients a) of
       Some c \<Rightarrow> (a, cl_id c)
     | None \<Rightarrow> let k = fresh_id cl_id (clients a)
               in (a\<lparr>clients := add_row ((new_client k phone)\<lparr>cl_first_name := name\<rparr>) (clients a)\<rparr>, k))"

definition OrderExpressCreate_post :: "env \<Rightarrow> express_order \<Rightarrow> accounts_db \<Rightarrow> sys \<Rightarrow> accounts_db \<times> sys res" where
  "OrderExpressCreate_post e x a s =
    (case xo_phone x of
       None \<Rightarrow> (a, Inl (IntegrityError ''clients.phone''))
     | Some phone \<Rightarrow>
         (let (a1, c) = get_or_create_client phone (xo_name x) a
          in (a1, case (xo_service x, xo_price x) of
                    (Some v, Some price) \<Rightarrow>
                      if \<not> list_ex (\<lambda>r. sv_id r = v \<and> sv_active r) (catalog s) then Inl (ValidationError ''service_id'')
                      else InternalOrderWriteSerializer_create e (express_payload c v price x) s
                  | _ \<Rightarrow> Inl (ValidationError ''may not be null''))))"

end
