(* ===== verification/People_Props.thy ===== *)
theory People_Props
  imports People Order_Props
begin

text \<open>
  The back office's clients: what is stored is what is read back, one default address, unique numbers;
  the accounts an express order leaves behind and the second account of a number typed otherwise.
\<close>

section \<open>Names\<close>

lemma strip_ends: "strip v = [] \<or> \<not> is_space (hd (strip v)) \<and> \<not> is_space (last (strip v))"
proof -
  define u where "u = dropWhile is_space v"
  have hd_u: "u \<noteq> [] \<Longrightarrow> \<not> is_space (hd u)" unfolding u_def by (rule hd_dropWhile)
  define t where "t = dropWhile is_space (rev u)"
  have v: "strip v = rev t" by (simp add: strip_def lstrip_def t_def u_def)
  have suffix: "rev u = takeWhile is_space (rev u) @ t" by (simp add: t_def)
  show ?thesis
  proof (cases "t = []")
    case False
    then have u: "u \<noteq> []" using suffix by auto
    have "hd u = last (rev u)" using u by (simp add: last_rev)
    also have "\<dots> = last t" using suffix False by (metis last_appendR)
    finally have "\<not> is_space (last t)" using hd_u [OF u] by simp
    moreover have "\<not> is_space (hd t)" using False unfolding t_def by (rule hd_dropWhile)
    ultimately show ?thesis using False by (simp add: v hd_rev last_rev)
  qed (simp add: v)
qed

lemma lstrip_id: "v = [] \<or> \<not> is_space (hd v) \<Longrightarrow> dropWhile is_space v = v"
  by (cases v) auto

lemma strip_id: "v = [] \<or> \<not> is_space (hd v) \<and> \<not> is_space (last v) \<Longrightarrow> strip v = v"
  using lstrip_id [of v] lstrip_id [of "rev v"] by (auto simp: strip_def lstrip_def hd_rev)

lemma strip_strip [simp]: "strip (strip v) = strip v"
  by (rule strip_id [OF strip_ends])

lemma strip_trailing:
  assumes "v \<noteq> []" and "\<not> is_space (hd v)" and "\<not> is_space (last v)"
  shows "strip (v @ '' '') = v"
proof -
  have "dropWhile is_space (v @ '' '') = v @ '' ''" using assms by (intro lstrip_id) simp
  moreover have "dropWhile is_space (rev (v @ '' '')) = rev v"
    using lstrip_id [of "rev v"] assms by (simp add: is_space_def hd_rev)
  ultimately show ?thesis by (simp add: strip_def lstrip_def)
qed

text \<open>Splitting a full name and putting it together again gives the stripped name.\<close>

lemma full_name_split: "full_name (fst (split_full_name name)) (snd (split_full_name name)) = strip name"
proof -
  let ?v = "strip name" and ?P = "\<lambda>c. c \<noteq> CHR '' ''"
  have parts: "?v = takeWhile ?P ?v @ dropWhile ?P ?v" by simp
  show ?thesis
  proof (cases "dropWhile ?P ?v")
    case Nil
    then have v: "takeWhile ?P ?v = ?v" using parts by simp
    show ?thesis
    proof (cases "?v = []")
      case True
      moreover have "strip '' '' = []" by (simp add: strip_def lstrip_def is_space_def)
      ultimately show ?thesis by (simp add: full_name_def split_full_name_def Let_def)
    next
      case False
      then show ?thesis
        using strip_ends [of name] strip_trailing
        unfolding full_name_def split_full_name_def Let_def fst_conv snd_conv v Nil list.sel(2) by auto
    qed
  next
    case (Cons c rest)
    then have "c = CHR '' ''" using hd_dropWhile [of ?P ?v] by simp
    then show ?thesis using Cons parts by (simp add: full_name_def split_full_name_def Let_def)
  qed
qed

section \<open>The tables of clients\<close>

definition clients_wf :: "accounts_db \<Rightarrow> bool" where
  "clients_wf a \<longleftrightarrow> keys_distinct cl_id (clients a) \<and> keys_distinct cl_phone (clients a)"

lemma set_client_fields_id [simp]: "cl_id (set_client_fields f c) = cl_id c" "cl_phone (set_client_fields f c) = sent_or (cf_phone f) (cl_phone c)"
  by (simp_all add: set_client_fields_def)

lemma validate_client_InrD:
  assumes "validate_client self f a db = Inr ()"
  shows "client_phone_free self (cf_phone f) a" and "self = None \<Longrightarrow> \<exists>p. cf_phone f = Some p"
  using assms by (auto simp: validate_client_def guardE_def split: if_splits)

lemma validate_internal [simp]: "cf_phone (InternalClientWrite_validate i) = cf_phone (icf_fields i)"
  by (simp add: InternalClientWrite_validate_def Let_def)

lemma insert_client_wf:
  assumes "clients_wf a" and "validate_client None f a db = Inr ()" and "cf_phone f' = cf_phone f" and "insert_client f' a s = (a', s', k)"
  shows "clients_wf a'"
proof -
  obtain p where p: "cf_phone f = Some p" and free: "client_phone_free None (Some p) a"
    using validate_client_InrD [OF assms(2)] by auto
  then show ?thesis
    using assms fresh_id_notin [of cl_id "clients a"]
    by (auto simp: insert_client_def clients_wf_def keys_distinct_def add_row_def Let_def client_phone_free_def list_ex_iff sent_or_def new_client_def)
qed

lemma keys_distinct_upd_other:
  assumes "keys_distinct key rows" and "keys_distinct ident rows"
    and "\<And>r. ident (f r) = ident r" and "\<And>r r'. r \<in> set rows \<Longrightarrow> r' \<in> set rows \<Longrightarrow> ident r = k \<Longrightarrow> ident r' \<noteq> k \<Longrightarrow> key (f r) \<noteq> key r'"
  shows "keys_distinct key (upd_row ident k f rows)"
proof -
  let ?g = "\<lambda>r. key (if ident r = k then f r else r)"
  have rows: "distinct rows" "inj_on key (set rows)" "inj_on ident (set rows)"
    using assms(1,2) by (auto simp: keys_distinct_def distinct_map)
  have "inj_on ?g (set rows)"
  proof (rule inj_onI)
    fix x y
    assume xy: "x \<in> set rows" "y \<in> set rows" "?g x = ?g y"
    show "x = y"
    proof (cases "ident x = k"; cases "ident y = k")
      assume "ident x = k" and "ident y = k"
      with xy rows(3) show "x = y" by (auto dest: inj_onD)
    next
      assume "ident x = k" and "ident y \<noteq> k"
      with xy assms(4) [OF xy(1,2)] show "x = y" by simp
    next
      assume "ident x \<noteq> k" and "ident y = k"
      with xy assms(4) [OF xy(2,1)] show "x = y" by simp
    next
      assume "ident x \<noteq> k" and "ident y \<noteq> k"
      with xy rows(2) show "x = y" by (auto dest: inj_onD)
    qed
  qed
  with rows(1) show ?thesis by (simp add: keys_distinct_def upd_row_def comp_def distinct_map)
qed

lemma update_client_wf:
  assumes "clients_wf a" and "validate_client (Some k) f a db = Inr ()" and "cf_phone f' = cf_phone f" and "update_client k f' a s = (a', s')"
  shows "clients_wf a'"
proof -
  have free: "client_phone_free (Some k) (cf_phone f') a" using validate_client_InrD(1) [OF assms(2)] assms(3) by simp
  have a': "clients a' = upd_row cl_id k (set_client_fields f') (clients a)" using assms(4) by (auto simp: update_client_def)
  have "keys_distinct cl_phone (upd_row cl_id k (set_client_fields f') (clients a))"
  proof (rule keys_distinct_upd_other)
    fix r r'
    assume rows: "r \<in> set (clients a)" "r' \<in> set (clients a)" "cl_id r = k" "cl_id r' \<noteq> k"
    then have "cl_phone r \<noteq> cl_phone r'"
      using assms(1) inj_onD [of cl_phone "set (clients a)" r r'] by (auto simp: clients_wf_def keys_distinct_def distinct_map)
    then show "cl_phone (set_client_fields f' r) \<noteq> cl_phone r'"
      using free rows by (cases "cf_phone f'") (auto simp: client_phone_free_def list_ex_iff sent_or_def)
  qed (use assms(1) in \<open>auto simp: clients_wf_def\<close>)
  moreover have "keys_distinct cl_id (upd_row cl_id k (set_client_fields f') (clients a))"
    using assms(1) by (intro keys_distinct_upd) (auto simp: clients_wf_def)
  ultimately show ?thesis by (simp add: clients_wf_def a')
qed

text \<open>The requests of the back office on clients.\<close>

inductive client_step :: "accounts_db \<times> sys \<Rightarrow> accounts_db \<times> sys \<Rightarrow> bool" where
  dash_create: "DashboardClient_create f a s = Inr w \<Longrightarrow> client_step (a, s) w"
| dash_update: "DashboardClient_update pk f a s = Inr w \<Longrightarrow> client_step (a, s) w"
| internal_create: "InternalClient_create i a s = Inr w \<Longrightarrow> client_step (a, s) w"
| internal_update: "InternalClient_update pk i a s = Inr w \<Longrightarrow> client_step (a, s) w"
| express: "OrderExpressCreate_post e x a s = (a', r) \<Longrightarrow> client_step (a, s) (a', case r of Inl _ \<Rightarrow> s | Inr s' \<Rightarrow> s')"

lemma get_or_create_client_wf:
  assumes "clients_wf a" and "get_or_create_client phone name a = (a', k)"
  shows "clients_wf a'"
  using assms fresh_id_notin [of cl_id "clients a"]
  by (auto simp: get_or_create_client_def clients_wf_def keys_distinct_def add_row_def new_client_def Let_def get_row_None_iff
      split: option.splits)

lemma client_step_wf:
  assumes "client_step w w'" and "clients_wf (fst w)"
  shows "clients_wf (fst w')"
  using assms
proof (induction rule: client_step.induct)
  case (dash_create f a s w)
  then show ?case using insert_client_wf [of a f "profiles s" f s] by (auto simp: DashboardClient_create_def Let_def split: prod.splits)
next
  case (dash_update pk f a s w)
  then show ?case using update_client_wf [of a pk f "profiles s" f s "fst w" "snd w"] by (auto simp: DashboardClient_update_def)
next
  case (internal_create i a s w)
  then show ?case using insert_client_wf [of a "icf_fields i" "profiles s" "InternalClientWrite_validate i" s]
    by (auto simp: InternalClient_create_def Let_def split: prod.splits)
next
  case (internal_update pk i a s w)
  then show ?case using update_client_wf [of a pk "icf_fields i" "profiles s" "InternalClientWrite_validate i" s]
    by (auto simp: InternalClient_update_def Let_def split: prod.splits)
next
  case (express e x a s a' r)
  then show ?case using get_or_create_client_wf by (auto simp: OrderExpressCreate_post_def split: option.splits prod.splits)
qed

text \<open>Along every history of these requests keys and numbers stay unique.\<close>

theorem client_numbers_unique: "client_step\<^sup>*\<^sup>* w w' \<Longrightarrow> clients_wf (fst w) \<Longrightarrow> clients_wf (fst w')"
  by (induction rule: rtranclp_induct) (auto intro: client_step_wf)

section \<open>Default addresses\<close>

lemma defaults_filter: "defaults_of c db = map ca_id (filter is_default (own_addresses c db))"
  by (simp add: defaults_of_def own_addresses_def conj_commute)

lemma length_filter_le1: "length (filter P xs) \<le> 1 \<Longrightarrow> x \<in> set xs \<Longrightarrow> P x \<Longrightarrow> y \<in> set xs \<Longrightarrow> P y \<Longrightarrow> x = y"
  by (induction xs) (auto simp: filter_empty_conv split: if_splits)

lemma primary_in: "primary_address c db = Some x \<Longrightarrow> x \<in> set (own_addresses c db)"
  by (auto simp: primary_address_def find_Some_iff split: option.splits list.splits)

lemma primary_default: "primary_address c db = Some x \<Longrightarrow> y \<in> set (own_addresses c db) \<Longrightarrow> is_default y \<Longrightarrow> is_default x"
  by (auto simp: primary_address_def find_Some_iff find_None_iff split: option.splits list.splits)

text \<open>Saving the address through the internal API leaves at most one default, as it was: unlike an
  update through the client's own pages (lemma \<open>patch_leaves_two_defaults\<close> of \<open>Profiles\<close>).\<close>

lemma save_address_one_default:
  assumes "keys_distinct ca_id (addresses db)" and "\<forall>c. length (defaults_of c db) \<le> 1"
  shows "length (defaults_of c' (save_address c address lat lng db)) \<le> 1"
proof (cases "address = [] \<or> primary_address c db = None \<and> (lat = None \<or> lng = None)")
  case True
  then show ?thesis using assms(2) by (auto simp: save_address_def Let_def split: option.split)
next
  case False
  show ?thesis
  proof (cases "primary_address c db")
    case None
    then have "own_addresses c db = []" by (auto simp: primary_address_def split: option.splits list.splits)
    moreover obtain x y where "lat = Some x" "lng = Some y" using False None by auto
    ultimately show ?thesis using False None assms(2)
      by (auto simp: save_address_def create_address_def Let_def defaults_of_def own_addresses_def add_row_def filter_empty_conv)
  next
    case (Some old)
    define f where "f x = x\<lparr>ca_label := ''Asosiy'', ca_address_text := address, is_default := True,
        ca_lat := (case (case (lat, lng) of (Some x, Some y) \<Rightarrow> Some (x, y) | _ \<Rightarrow> None) of None \<Rightarrow> ca_lat x | Some p \<Rightarrow> fst p),
        ca_lng := (case (case (lat, lng) of (Some x, Some y) \<Rightarrow> Some (x, y) | _ \<Rightarrow> None) of None \<Rightarrow> ca_lng x | Some p \<Rightarrow> snd p)\<rparr>" for x :: client_address
    have db': "addresses (save_address c address lat lng db) = upd_row ca_id (ca_id old) f (addresses db)"
      using False Some by (simp add: save_address_def Let_def f_def [abs_def])
    have keep: "ca_client (f x) = ca_client x" "is_default (f x)" "ca_id (f x) = ca_id x" for x by (simp_all add: f_def)
    have old: "old \<in> set (addresses db)" "ca_client old = c" using primary_in [OF Some] by (auto simp: own_addresses_def)
    have one: "x = old" if "x \<in> set (addresses db)" "ca_id x = ca_id old" for x
      using get_row_unique [OF assms(1) old(1)] get_row_unique [OF assms(1) that(1)] that(2) by simp
    have "length (filter (\<lambda>x. ca_client x = c' \<and> is_default x) (upd_row ca_id (ca_id old) f (addresses db))) =
        length (filter (\<lambda>x. ca_client x = c' \<and> (is_default x \<or> ca_id x = ca_id old)) (addresses db))"
      using keep by (simp add: upd_row_def filter_map comp_def) (rule arg_cong [where f = length], rule filter_cong, auto)
    also have "\<dots> \<le> 1"
    proof (cases "c' = c \<and> (\<forall>x \<in> set (own_addresses c db). \<not> is_default x)")
      case True
      then have "filter (\<lambda>x. ca_client x = c' \<and> (is_default x \<or> ca_id x = ca_id old)) (addresses db) =
          filter (\<lambda>x. ca_id x = ca_id old \<and> ca_client x = c) (addresses db)"
        by (intro filter_cong) (auto simp: own_addresses_def)
      moreover have "length (filter (\<lambda>x. ca_id x = ca_id old \<and> ca_client x = c) rows) \<le> 1" if "keys_distinct ca_id rows" for rows
        using that by (induction rows) (auto simp: keys_distinct_def filter_empty_conv image_iff)
      ultimately show ?thesis using assms(1) by simp
    next
      case False
      have "filter (\<lambda>x. ca_client x = c' \<and> (is_default x \<or> ca_id x = ca_id old)) (addresses db) =
          filter (\<lambda>x. ca_client x = c' \<and> is_default x) (addresses db)"
        using False old primary_default [OF Some] one by (intro filter_cong) (auto simp: own_addresses_def)
      then show ?thesis using assms(2) [rule_format, of c'] by (simp add: defaults_of_def)
    qed
    finally show ?thesis by (simp add: defaults_of_def db')
  qed
qed

section \<open>What was typed in is what is shown\<close>

text \<open>A client created with a full name and an address with its place is read back so; without the place
  the address is dropped, without a word.\<close>

lemma fresh_client_addresses:
  assumes "\<forall>x \<in> set (addresses db). ca_client x \<in> cl_id ` set (clients a)"
  shows "own_addresses (fresh_id cl_id (clients a)) db = []"
proof -
  have "ca_client x \<noteq> fresh_id cl_id (clients a)" if "x \<in> set (addresses db)" for x
    using bspec [OF assms that] fresh_id_notin [of cl_id "clients a"] by metis
  then show ?thesis by (simp add: own_addresses_def filter_empty_conv)
qed

theorem internal_client_round_trip:
  assumes "InternalClient_create i a s = Inr (a', s')" and "icf_full_name i = Some name" and "strip name \<noteq> []"
    and "blank (cf_first_name (icf_fields i))" and "icf_address i = Some address" and "address \<noteq> []"
    and "icf_lat i = Some lat" and "icf_lng i = Some lng"
    and "\<forall>x \<in> set (addresses (profiles s)). ca_client x \<in> cl_id ` set (clients a)"
  shows "\<exists>c. get_row cl_id (fresh_id cl_id (clients a)) (clients a') = Some c \<and> Some (cl_phone c) = cf_phone (icf_fields i) \<and>
    ic_full_name (InternalClientSerializer_data stored s' c) = strip name \<and>
    ic_address (InternalClientSerializer_data stored s' c) = address"
proof -
  let ?k = "fresh_id cl_id (clients a)"
  let ?f = "InternalClientWrite_validate i"
  let ?c = "set_client_fields ?f (new_client ?k [])"
  have ok: "validate_client None (icf_fields i) a (profiles s) = Inr ()"
    and a': "clients a' = add_row ?c (clients a)"
    and s': "profiles s' = save_address ?k address (Some lat) (Some lng) (set_subscription ?k ?f (profiles s))"
    using assms(1,5,7,8) by (auto simp: InternalClient_create_def insert_client_def Let_def sent_or_def)
  obtain p where p: "cf_phone (icf_fields i) = Some p" using validate_client_InrD(2) [OF ok] by auto
  have "addresses (set_subscription ?k ?f (profiles s)) = addresses (profiles s)" by (simp add: set_subscription_def Let_def)
  then have "own_addresses ?k (set_subscription ?k ?f (profiles s)) = []"
    using fresh_client_addresses [OF assms(9)] by (simp add: own_addresses_def)
  then have "own_addresses ?k (profiles s') = [\<lparr>ca_id = fresh_id ca_id (addresses (profiles s)), ca_client = ?k, ca_label = ''Asosiy'',
      ca_address_text = address, ca_lat = lat, ca_lng = lng, is_default = True\<rparr>]"
    using assms(6) fresh_client_addresses [OF assms(9)]
    by (simp add: s' save_address_def primary_address_def create_address_def Let_def add_row_def own_addresses_def set_subscription_def)
  moreover have "full_name (cl_first_name ?c) (cl_last_name ?c) = strip name"
    using assms(2-4) full_name_split by (simp add: InternalClientWrite_validate_def set_client_fields_def sent_or_def Let_def)
  moreover have "get_row cl_id ?k (clients a') = Some ?c"
    using fresh_id_notin [of cl_id "clients a"] by (simp add: a' get_row_add new_client_def get_row_None_iff [THEN iffD2] split: option.split)
  ultimately show ?thesis
    using p assms(3) by (auto simp: InternalClientSerializer_data_def primary_address_def client_name_def name_or_phone_def sent_or_def new_client_def)
qed

lemma address_without_place_dropped:
  assumes "own_addresses c db = []" and "lat = None \<or> lng = None"
  shows "save_address c address lat lng db = db"
  using assms by (auto simp: save_address_def primary_address_def Let_def split: option.split)

section \<open>Figures of a client\<close>

text \<open>The dashboard computes them like its statistics; the summary of the internal API reads columns that
  nobody writes: with the zeros they start with every client is new.\<close>

lemma card_agrees_with_stats:
  assumes "DashboardClientStats_get pk a s = Inr st" and "get_row cl_id pk (clients a) = Some c"
  shows "cc_total_orders (DashboardClientSerializer_data s c) = cs_orders st" and "cc_total_spent (DashboardClientSerializer_data s c) = cs_spent st"
  using assms get_row_key [OF assms(2)]
  by (auto simp: DashboardClientStats_get_def DashboardClientSerializer_data_def Let_def count_rows_def conj_commute)

lemma summary_of_unwritten_columns:
  "ClientSummary_get (\<lambda>_. (0, 0)) a = \<lparr>csm_clients = length (clients a), csm_active = count_rows cl_active (clients a),
     csm_new = length (clients a), csm_spent = 0, csm_orders = 0\<rparr>"
  by (simp add: ClientSummary_get_def count_rows_def sum_rows_def)

section \<open>Accounts nobody asked for\<close>

text \<open>An express order that is refused has created its client.\<close>

lemma refused_express_creates_client:
  assumes "xo_phone x = Some phone" and "get_row cl_phone phone (clients a) = None" and "xo_price x = None"
  shows "snd (OrderExpressCreate_post e x a s) = Inl (ValidationError ''may not be null'')"
    and "length (clients (fst (OrderExpressCreate_post e x a s))) = Suc (length (clients a))"
  using assms by (auto simp: OrderExpressCreate_post_def get_or_create_client_def Let_def add_row_def split: option.split)

text \<open>A number stored as typed is not found by the sign-in, which normalizes: the client gets a second
  account.\<close>

lemma typed_number_gets_second_account:
  assumes "get_row cl_phone (normalize_phone raw) (clients a) = None"
  shows "VerifyOTP_create (normalize_phone raw) None a =
    (a\<lparr>clients := add_row (new_client (fresh_id cl_id (clients a)) (normalize_phone raw)) (clients a)\<rparr>,
     new_client (fresh_id cl_id (clients a)) (normalize_phone raw), True)"
  using assms by (simp add: VerifyOTP_create_def Let_def)

end
