(* ===== verification/Back_Office.thy ===== *)
theory Back_Office
  imports People
begin

text \<open>
  The remaining tables of the dashboard (\<open>src/apps/dashboard/models.py\<close>, \<open>serializers.py\<close>, \<open>views.py\<close>):
  assistants of an order, live streams and archived videos, the three kinds of expenses, and the
  masters on the map.

  \<^item> State: \<open>office_db\<close>, the tables of streams, company and warehouse expenses; assistants are a table of
    \<open>sys\<close>, the masters' expenses one of the wallet.
  \<^item> An assistant's row is identified by order and assistant, which are unique together; its remark, and
    the remarks and images of the other tables, are left out. Lists ordered by date are newest first.
\<close>

section \<open>Tables\<close>

datatype stream_status = LIVE | ARCHIVED | ENDED | OFFLINE

record live_stream =
  ls_id :: row_id
  ls_title :: string
  ls_service_name :: string
  ls_master :: "row_id option"
  ls_client :: "row_id option"
  ls_order :: "row_id option"
  ls_stream_url :: string
  ls_archive_url :: string
  ls_status :: stream_status
  ls_started_at :: "instant option"
  ls_ended_at :: "instant option"
  ls_duration :: nat
  ls_active :: bool

record company_expense =
  ce_id :: row_id
  ce_purpose :: string
  ce_name :: string
  ce_amount :: money
  ce_date :: int

record warehouse_expense =
  we_id :: row_id
  we_product :: "row_id option"
  we_purpose :: string
  we_name :: string
  we_amount :: money
  we_date :: int
  we_price :: "money option"
  we_quantity :: "qty option"

record office_db =
  live_streams :: "live_stream list"
  company_rows :: "company_expense list"
  warehouse_rows :: "warehouse_expense list"

section \<open>Assistants of an order\<close>

text \<open>The order comes from the address, so the serializer does not check the pair: a second row violates
  the column. Nobody is told.\<close>

definition OrderAssistant_get_queryset :: "row_id \<Rightarrow> sys \<Rightarrow> order_master list" where
  "OrderAssistant_get_queryset pk s = rev (filter (\<lambda>r. om_order r = pk) (order_assistants s))"

definition OrderAssistant_create :: "accounts_db \<Rightarrow> row_id option \<Rightarrow> row_id \<Rightarrow> row_id \<Rightarrow> bool \<Rightarrow> sys \<Rightarrow> sys res" where
  "OrderAssistant_create a admin pk assistant active s =
    bindE (guardE (list_ex (\<lambda>m. ms_id m = assistant) (masters a)) (ValidationError ''assistant'')) (\<lambda>_.
    bindE (get_or_404 ''Order'' (get_order pk s)) (\<lambda>_.
      if get_row om_key (pk, assistant) (order_assistants s) \<noteq> None then Inl (IntegrityError ''unique_together'')
      else Inr (s\<lparr>order_assistants := add_row \<lparr>om_order = pk, om_master = assistant, om_assigned_by = admin, has_accepted = False,
                   om_active = active\<rparr> (order_assistants s)\<rparr>)))"

definition OrderAssistant_update ::
  "accounts_db \<Rightarrow> row_id \<Rightarrow> row_id \<Rightarrow> row_id option \<Rightarrow> bool option \<Rightarrow> sys \<Rightarrow> sys res" where
  "OrderAssistant_update a pk old assistant active s =
    bindE (get_or_404 ''DashboardOrderAssistant'' (get_row om_key (pk, old) (order_assistants s))) (\<lambda>r.
      let new = sent_or assistant old
      in if \<not> (assistant = None \<or> list_ex (\<lambda>m. ms_id m = new) (masters a)) then Inl (ValidationError ''assistant'')
         else if new \<noteq> old \<and> get_row om_key (pk, new) (order_assistants s) \<noteq> None then Inl (IntegrityError ''unique_together'')
         else Inr (s\<lparr>order_assistants := upd_row om_key (pk, old)
                (\<lambda>r. r\<lparr>om_master := new, om_active := sent_or active (om_active r)\<rparr>) (order_assistants s)\<rparr>))"

definition OrderAssistant_destroy :: "row_id \<Rightarrow> row_id \<Rightarrow> sys \<Rightarrow> sys res" where
  "OrderAssistant_destroy pk assistant s =
    bindE (get_or_404 ''DashboardOrderAssistant'' (get_row om_key (pk, assistant) (order_assistants s))) (\<lambda>_.
      Inr (s\<lparr>order_assistants := del_row om_key (pk, assistant) (order_assistants s)\<rparr>))"

section \<open>Live streams\<close>

record stream_patch =
  stp_title :: "string option"
  stp_service_name :: "string option"
  stp_master :: "row_id option option"
  stp_client :: "row_id option option"
  stp_order :: "row_id option option"
  stp_stream_url :: "string option"
  stp_archive_url :: "string option"
  stp_status :: "stream_status option"
  stp_started_at :: "instant option option"
  stp_ended_at :: "instant option option"
  stp_duration :: "nat option"
  stp_active :: "bool option"

definition or_default :: "'a option \<Rightarrow> 'a \<Rightarrow> 'a option" where
  "or_default sent d = (case sent of None \<Rightarrow> Some d | Some v \<Rightarrow> Some v)"

text \<open>\<open>validate\<close>: with an order, sent or stored, client, master and service are filled in from it unless the
  request carries them.\<close>

definition validate_stream :: "live_stream option \<Rightarrow> stream_patch \<Rightarrow> sys \<Rightarrow> stream_patch" where
  "validate_stream inst p s =
    (let sent = (case stp_order p of Some (Some k) \<Rightarrow> Some k | _ \<Rightarrow> None);
         k = (case sent of Some k \<Rightarrow> Some k | None \<Rightarrow> Option.bind inst ls_order)
     in case Option.bind k (\<lambda>k. get_order k s) of
          None \<Rightarrow> p
        | Some ord \<Rightarrow> p\<lparr>stp_client := or_default (stp_client p) (Some (o_client ord)),
                        stp_master := or_default (stp_master p) (o_master ord),
                        stp_service_name := or_default (stp_service_name p) (service_str (o_service ord) s)\<rparr>)"

definition stream_keys_exist :: "stream_patch \<Rightarrow> accounts_db \<Rightarrow> sys \<Rightarrow> bool" where
  "stream_keys_exist p a s \<longleftrightarrow>
    (case stp_master p of Some (Some k) \<Rightarrow> list_ex (\<lambda>m. ms_id m = k) (masters a) | _ \<Rightarrow> True) \<and>
    (case stp_client p of Some (Some k) \<Rightarrow> list_ex (\<lambda>c. cl_id c = k) (clients a) | _ \<Rightarrow> True) \<and>
    (case stp_order p of Some (Some k) \<Rightarrow> list_ex (\<lambda>r. o_id r = k) (orders s) | _ \<Rightarrow> True)"

definition apply_stream_patch :: "stream_patch \<Rightarrow> live_stream \<Rightarrow> live_stream" where
  "apply_stream_patch p r = r\<lparr>ls_title := sent_or (stp_title p) (ls_title r), ls_service_name := sent_or (stp_service_name p) (ls_service_name r),
     ls_master := sent_or (stp_master p) (ls_master r), ls_client := sent_or (stp_client p) (ls_client r),
     ls_order := sent_or (stp_order p) (ls_order r), ls_stream_url := sent_or (stp_stream_url p) (ls_stream_url r),
     ls_archive_url := sent_or (stp_archive_url p) (ls_archive_url r), ls_status := sent_or (stp_status p) (ls_status r),
     ls_started_at := sent_or (stp_started_at p) (ls_started_at r), ls_ended_at := sent_or (stp_ended_at p) (ls_ended_at r),
     ls_duration := sent_or (stp_duration p) (ls_duration r), ls_active := sent_or (stp_active p) (ls_active r)\<rparr>"

definition blank_stream :: "row_id \<Rightarrow> live_stream" where
  "blank_stream k = \<lparr>ls_id = k, ls_title = [], ls_service_name = [], ls_master = None, ls_client = None, ls_order = None,
     ls_stream_url = [], ls_archive_url = [], ls_status = LIVE, ls_started_at = None, ls_ended_at = None, ls_duration = 0, ls_active = True\<rparr>"

definition LiveStream_create :: "stream_patch \<Rightarrow> accounts_db \<Rightarrow> sys \<Rightarrow> office_db \<Rightarrow> office_db res" where
  "LiveStream_create p a s db =
    (if blank (stp_title p) then Inl (ValidationError ''title'')
     else if \<not> stream_keys_exist p a s then Inl (ValidationError ''does_not_exist'')
     else Inr (db\<lparr>live_streams := add_row (apply_stream_patch (validate_stream None p s) (blank_stream (fresh_id ls_id (live_streams db))))
                (live_streams db)\<rparr>))"

definition LiveStream_update :: "row_id \<Rightarrow> stream_patch \<Rightarrow> accounts_db \<Rightarrow> sys \<Rightarrow> office_db \<Rightarrow> office_db res" where
  "LiveStream_update pk p a s db =
    bindE (get_or_404 ''DashboardLiveStream'' (get_row ls_id pk (live_streams db))) (\<lambda>r.
      if stp_title p = Some [] then Inl (ValidationError ''title'')
      else if \<not> stream_keys_exist p a s then Inl (ValidationError ''does_not_exist'')
      else Inr (db\<lparr>live_streams := upd_row ls_id pk (apply_stream_patch (validate_stream (Some r) p s)) (live_streams db)\<rparr>))"

definition LiveStream_destroy :: "row_id \<Rightarrow> office_db \<Rightarrow> office_db res" where
  "LiveStream_destroy pk db =
    bindE (get_or_404 ''DashboardLiveStream'' (get_row ls_id pk (live_streams db))) (\<lambda>_.
      Inr (db\<lparr>live_streams := del_row ls_id pk (live_streams db)\<rparr>))"

definition LiveStream_get_queryset :: "stream_status option \<Rightarrow> string option \<Rightarrow> office_db \<Rightarrow> live_stream list" where
  "LiveStream_get_queryset st active db =
    keep_if (bool_param active) (\<lambda>b r. ls_active r = b) (keep_if st (\<lambda>v r. ls_status r = v) (rev (live_streams db)))"

definition ArchivedVideo_get_queryset :: "office_db \<Rightarrow> live_stream list" where
  "ArchivedVideo_get_queryset db = filter (\<lambda>r. ls_status r \<in> {ARCHIVED, ENDED}) (rev (live_streams db))"

text \<open>\<open>{:02d}\<close>: at least two digits.\<close>

definition pad2 :: "nat \<Rightarrow> string" where
  "pad2 n = (if n < 10 then CHR ''0'' # nat_str n else nat_str n)"

definition get_duration_label :: "live_stream \<Rightarrow> string" where
  "get_duration_label r =
    (let minutes = ls_duration r div 60; seconds = ls_duration r mod 60; hours = minutes div 60; m = minutes mod 60
     in if hours \<noteq> 0 then pad2 hours @ '':'' @ pad2 m @ '':'' @ pad2 seconds else pad2 m @ '':'' @ pad2 seconds)"

definition get_order_code :: "(row_id \<Rightarrow> string) \<Rightarrow> live_stream \<Rightarrow> string option" where
  "get_order_code uuid_text r = map_option (dashboard_code uuid_text) (ls_order r)"

section \<open>Expenses\<close>

definition in_range :: "int option \<Rightarrow> int option \<Rightarrow> int \<Rightarrow> bool" where
  "in_range lo hi d = ((case lo of None \<Rightarrow> True | Some x \<Rightarrow> x \<le> d) \<and> (case hi of None \<Rightarrow> True | Some x \<Rightarrow> d \<le> x))"

definition by_date :: "('r \<Rightarrow> int) \<Rightarrow> 'r list \<Rightarrow> 'r list" where
  "by_date f rows = rev (sort_key f rows)"

definition CompanyExpense_get_queryset :: "int option \<Rightarrow> int option \<Rightarrow> office_db \<Rightarrow> company_expense list" where
  "CompanyExpense_get_queryset lo hi db = by_date ce_date (filter (\<lambda>r. in_range lo hi (ce_date r)) (company_rows db))"

definition CompanyExpense_create :: "company_expense \<Rightarrow> office_db \<Rightarrow> office_db" where
  "CompanyExpense_create r db = db\<lparr>company_rows := add_row (r\<lparr>ce_id := fresh_id ce_id (company_rows db)\<rparr>) (company_rows db)\<rparr>"

record company_patch =
  cep_purpose :: "string option"
  cep_name :: "string option"
  cep_amount :: "money option"
  cep_date :: "int option"

definition CompanyExpense_update :: "row_id \<Rightarrow> company_patch \<Rightarrow> office_db \<Rightarrow> office_db res" where
  "CompanyExpense_update pk p db =
    bindE (get_or_404 ''DashboardCompanyExpense'' (get_row ce_id pk (company_rows db))) (\<lambda>_.
      Inr (db\<lparr>company_rows := upd_row ce_id pk (\<lambda>r. r\<lparr>ce_purpose := sent_or (cep_purpose p) (ce_purpose r),
        ce_name := sent_or (cep_name p) (ce_name r), ce_amount := sent_or (cep_amount p) (ce_amount r),
        ce_date := sent_or (cep_date p) (ce_date r)\<rparr>) (company_rows db)\<rparr>))"

definition CompanyExpense_destroy :: "row_id \<Rightarrow> office_db \<Rightarrow> office_db res" where
  "CompanyExpense_destroy pk db =
    bindE (get_or_404 ''DashboardCompanyExpense'' (get_row ce_id pk (company_rows db))) (\<lambda>_.
      Inr (db\<lparr>company_rows := del_row ce_id pk (company_rows db)\<rparr>))"

definition WarehouseExpense_get_queryset :: "row_id option \<Rightarrow> int option \<Rightarrow> int option \<Rightarrow> office_db \<Rightarrow> warehouse_expense list" where
  "WarehouseExpense_get_queryset product lo hi db =
    by_date we_date (filter (\<lambda>r. in_range lo hi (we_date r)) (keep_if product (\<lambda>k r. we_product r = Some k) (warehouse_rows db)))"

definition WarehouseExpense_create :: "warehouse_expense \<Rightarrow> sys \<Rightarrow> office_db \<Rightarrow> office_db res" where
  "WarehouseExpense_create r s db =
    (if (case we_product r of None \<Rightarrow> False | Some k \<Rightarrow> \<not> list_ex (\<lambda>p. pr_id p = k) (products (warehouse s)))
     then Inl (ValidationError ''product'')
     else Inr (db\<lparr>warehouse_rows := add_row (r\<lparr>we_id := fresh_id we_id (warehouse_rows db)\<rparr>) (warehouse_rows db)\<rparr>))"

record warehouse_patch =
  wep_product :: "row_id option option"
  wep_purpose :: "string option"
  wep_name :: "string option"
  wep_amount :: "money option"
  wep_date :: "int option"
  wep_price :: "money option option"
  wep_quantity :: "qty option option"

definition WarehouseExpense_update :: "row_id \<Rightarrow> warehouse_patch \<Rightarrow> sys \<Rightarrow> office_db \<Rightarrow> office_db res" where
  "WarehouseExpense_update pk p s db =
    bindE (get_or_404 ''DashboardWarehouseExpense'' (get_row we_id pk (warehouse_rows db))) (\<lambda>_.
      if (case wep_product p of Some (Some k) \<Rightarrow> \<not> list_ex (\<lambda>x. pr_id x = k) (products (warehouse s)) | _ \<Rightarrow> False)
      then Inl (ValidationError ''product'')
      else Inr (db\<lparr>warehouse_rows := upd_row we_id pk (\<lambda>r. r\<lparr>we_product := sent_or (wep_product p) (we_product r),
        we_purpose := sent_or (wep_purpose p) (we_purpose r), we_name := sent_or (wep_name p) (we_name r),
        we_amount := sent_or (wep_amount p) (we_amount r), we_date := sent_or (wep_date p) (we_date r),
        we_price := sent_or (wep_price p) (we_price r), we_quantity := sent_or (wep_quantity p) (we_quantity r)\<rparr>) (warehouse_rows db)\<rparr>))"

definition WarehouseExpense_destroy :: "row_id \<Rightarrow> office_db \<Rightarrow> office_db res" where
  "WarehouseExpense_destroy pk db =
    bindE (get_or_404 ''DashboardWarehouseExpense'' (get_row we_id pk (warehouse_rows db))) (\<lambda>_.
      Inr (db\<lparr>warehouse_rows := del_row we_id pk (warehouse_rows db)\<rparr>))"

text \<open>The masters' expenses on the dashboard: of any master, and changed at any time.\<close>

definition DashboardExpense_get_queryset :: "row_id option \<Rightarrow> int option \<Rightarrow> int option \<Rightarrow> wallet_db \<Rightarrow> master_expense list" where
  "DashboardExpense_get_queryset master lo hi w =
    by_date me_date (filter (\<lambda>r. in_range lo hi (me_date r)) (keep_if master (\<lambda>m r. me_master r = m) (expenses w)))"

definition DashboardExpense_create :: "master_expense \<Rightarrow> accounts_db \<Rightarrow> wallet_db \<Rightarrow> wallet_db res" where
  "DashboardExpense_create r a w =
    bindE (guardE (list_ex (\<lambda>m. ms_id m = me_master r) (masters a)) (ValidationError ''master'')) (\<lambda>_.
      Inr (ExpenseListCreateView_perform_create (me_master r) r w))"

definition DashboardExpense_destroy :: "row_id \<Rightarrow> wallet_db \<Rightarrow> wallet_db res" where
  "DashboardExpense_destroy pk w =
    bindE (get_or_404 ''MasterExpense'' (get_row me_id pk (expenses w))) (\<lambda>_. Inr (w\<lparr>expenses := del_row me_id pk (expenses w)\<rparr>))"

record expense_patch =
  mep_master :: "row_id option"
  mep_purpose :: "string option"
  mep_name :: "string option"
  mep_amount :: "money option"
  mep_date :: "int option"
  mep_product_name :: "string option"
  mep_price :: "money option option"
  mep_quantity :: "nat option option"

definition DashboardExpense_update :: "row_id \<Rightarrow> expense_patch \<Rightarrow> accounts_db \<Rightarrow> wallet_db \<Rightarrow> wallet_db res" where
  "DashboardExpense_update pk p a w =
    bindE (get_or_404 ''MasterExpense'' (get_row me_id pk (expenses w))) (\<lambda>_.
      if (case mep_master p of None \<Rightarrow> False | Some k \<Rightarrow> \<not> list_ex (\<lambda>m. ms_id m = k) (masters a)) then Inl (ValidationError ''master'')
      else Inr (w\<lparr>expenses := upd_row me_id pk (\<lambda>r. r\<lparr>me_master := sent_or (mep_master p) (me_master r),
        me_purpose := sent_or (mep_purpose p) (me_purpose r), me_name := sent_or (mep_name p) (me_name r),
        me_amount := sent_or (mep_amount p) (me_amount r), me_date := sent_or (mep_date p) (me_date r),
        me_product_name := sent_or (mep_product_name p) (me_product_name r), me_price := sent_or (mep_price p) (me_price r),
        me_quantity := sent_or (mep_quantity p) (me_quantity r)\<rparr>) (expenses w)\<rparr>))"

text \<open>What the finance page reads of these tables.\<close>

definition finance_of :: "sys \<Rightarrow> accounts_db \<Rightarrow> (row_id \<Rightarrow> int) \<Rightarrow> office_db \<Rightarrow> finance_db" where
  "finance_of s a upd db =
    \<lparr>fin_sys = s, fin_accounts = a, updated_on = upd,
     company_expenses = map (\<lambda>r. \<lparr>ex_amount = ce_amount r, ex_date = ce_date r\<rparr>) (company_rows db),
     warehouse_expenses = map (\<lambda>r. \<lparr>ex_amount = we_amount r, ex_date = we_date r\<rparr>) (warehouse_rows db)\<rparr>"

section \<open>Masters on the map\<close>

definition DashboardMapMasters_get :: "string \<Rightarrow> accounts_db \<Rightarrow> (row_id \<times> master_state) list" where
  "DashboardMapMasters_get status a =
    (let located = filter (\<lambda>m. ms_lat m \<noteq> None \<and> ms_lng m \<noteq> None) (masters a);
         found = (if status = ''active'' then filter (\<lambda>m. ms_active m \<and> is_online m \<and> is_available m) located
                  else if status = ''busy'' then filter (\<lambda>m. ms_active m \<and> is_online m \<and> \<not> is_available m) located
                  else if status = ''offline'' then filter (\<lambda>m. ms_active m \<and> \<not> is_online m) located
                  else if status = ''blocked'' then filter (\<lambda>m. \<not> ms_active m) located
                  else located)
     in map (\<lambda>m. (ms_id m, get_status m)) found)"

end
