(* ===== verification/Back_Office_Props.thy ===== *)
theory Back_Office_Props
  imports Back_Office
begin

text \<open>
  The back office's tables: assistants stay unique, expenses reach the finance page, what a change of a
  live stream overwrites, and which masters the filters of the map lose.
\<close>

section \<open>Assistants\<close>

lemma assistant_create_unique:
  assumes "keys_distinct om_key (order_assistants s)" and "OrderAssistant_create a admin pk m active s = Inr s'"
  shows "keys_distinct om_key (order_assistants s')" and "outbox s' = outbox s"
  using assms by (auto simp: OrderAssistant_create_def keys_distinct_def add_row_def om_key_def get_row_None_iff image_iff split: if_splits)

text \<open>Naming an assistant again fails with a violated column, an inactive row included.\<close>

lemma second_assistant_fails:
  assumes "OrderAssistant_create a admin pk m active s = Inr s'"
  shows "OrderAssistant_create a admin' pk m active' s' = Inl (IntegrityError ''unique_together'')"
  using assms by (auto simp: OrderAssistant_create_def get_order_def get_row_add om_key_def guardE_def split: if_splits option.splits)

section \<open>Expenses on the finance page\<close>

lemma company_expense_reaches_finance:
  "bd_total (expense_breakdown P (finance_of s a upd (CompanyExpense_create r db))) =
    bd_total (expense_breakdown P (finance_of s a upd db)) + (if P (ce_date r) then ce_amount r else 0)"
  by (simp add: expense_breakdown_def finance_of_def CompanyExpense_create_def add_row_def expense_sum_def sum_rows_def
      master_expense_rows_def Let_def)

lemma warehouse_expense_reaches_finance:
  assumes "WarehouseExpense_create r s db = Inr db'"
  shows "bd_total (expense_breakdown P (finance_of s a upd db')) =
    bd_total (expense_breakdown P (finance_of s a upd db)) + (if P (we_date r) then we_amount r else 0)"
  using assms by (auto simp: WarehouseExpense_create_def expense_breakdown_def finance_of_def add_row_def expense_sum_def sum_rows_def
      master_expense_rows_def Let_def split: if_splits)

text \<open>Creating an expense and deleting it leaves the tables as they were.\<close>

lemma company_expense_undone:
  "CompanyExpense_destroy (fresh_id ce_id (company_rows db)) (CompanyExpense_create r db) = Inr db"
proof -
  have "filter (\<lambda>x. ce_id x \<noteq> fresh_id ce_id (company_rows db)) (company_rows db) = company_rows db"
    using fresh_id_neq [of _ "company_rows db" ce_id] by (intro filter_True) auto
  then show ?thesis
    by (simp add: CompanyExpense_destroy_def CompanyExpense_create_def get_row_add add_row_def del_row_def get_row_append split: option.split)
qed

section \<open>Live streams\<close>

text \<open>Changing nothing but the status of a stream with an order writes client, master and service of the
  order over what was entered.\<close>

lemma stream_patch_overwrites:
  assumes "get_row ls_id pk (live_streams db) = Some r" and "ls_order r = Some k" and "get_order k s = Some ord"
    and "stp_order p = None" and "stp_client p = None" and "stp_master p = None" and "stp_service_name p = None"
    and "LiveStream_update pk p a s db = Inr db'"
  shows "\<exists>r'. get_row ls_id pk (live_streams db') = Some r' \<and> ls_client r' = Some (o_client ord) \<and> ls_master r' = o_master ord \<and>
    ls_service_name r' = service_str (o_service ord) s"
proof -
  have id: "ls_id (apply_stream_patch q x) = ls_id x" for q x by (simp add: apply_stream_patch_def)
  have "live_streams db' = upd_row ls_id pk (apply_stream_patch (validate_stream (Some r) p s)) (live_streams db)"
    using assms(1,8) by (auto simp: LiveStream_update_def split: if_splits)
  then show ?thesis
    using assms(1-7) by (simp add: get_row_upd id validate_stream_def or_default_def Let_def) (simp add: apply_stream_patch_def sent_or_def)
qed

text \<open>The archive is the streams that are over, and an active filter of the list never adds any.\<close>

lemma archive_members: "r \<in> set (ArchivedVideo_get_queryset db) \<longleftrightarrow> r \<in> set (live_streams db) \<and> (ls_status r = ARCHIVED \<or> ls_status r = ENDED)"
  by (auto simp: ArchivedVideo_get_queryset_def)

lemma duration_labels:
  "get_duration_label (blank_stream k\<lparr>ls_duration := 59\<rparr>) = ''00:59''" "get_duration_label (blank_stream k\<lparr>ls_duration := 3725\<rparr>) = ''01:02:05''"
  by code_simp+

section \<open>The map\<close>

text \<open>The four filters of the map divide the masters with a position; the status shown agrees with the
  filter exactly unless a blocked master was set active again.\<close>

lemma map_filters_divide:
  assumes "ms_lat m \<noteq> None" and "ms_lng m \<noteq> None" and "masters a = [m]"
  shows "length (filter (\<lambda>st. DashboardMapMasters_get st a \<noteq> []) [''active'', ''busy'', ''offline'', ''blocked'']) = 1"
  using assms by (simp add: DashboardMapMasters_get_def)

lemma map_status_agrees:
  assumes "x \<in> set (DashboardMapMasters_get ''active'' a)" and "\<forall>m \<in> set (masters a). is_blocked m \<longrightarrow> \<not> ms_active m"
  shows "snd x = Active"
  using assms by (auto simp: DashboardMapMasters_get_def get_status_def)

end
