(* ===== verification/Perimeter.thy ===== *)
theory Perimeter
  imports Order_Screens Gateways
begin

text \<open>
  The edges of the system: the service token of the internal API (\<open>src/apps/internal_api/permissions.py\<close>),
  the throttles of the sign-in (\<open>src/apps/accounts/throttles.py\<close>), the check of the SMS configuration at
  the start (\<open>src/apps/integrations/checks.py\<close>) and the public start page (\<open>src/apps/web/views.py\<close>).

  \<^item> What the framework's throttle class answers is a parameter.
\<close>

section \<open>The service token\<close>

text \<open>\<open>removeprefix\<close> after \<open>startswith\<close>.\<close>

definition after_prefix :: "string \<Rightarrow> string \<Rightarrow> string option" where
  "after_prefix p v = (if take (length p) v = p then Some (drop (length p) v) else None)"

definition provided_token :: "string \<Rightarrow> string \<Rightarrow> string" where
  "provided_token header authorization =
    (let from = (\<lambda>scheme provided. if provided \<noteq> [] then provided
                 else case after_prefix scheme authorization of None \<Rightarrow> [] | Some v \<Rightarrow> strip v)
     in from ''Bearer '' (from ''Service '' header))"

definition HasHomexServiceToken :: "string \<Rightarrow> string \<Rightarrow> string \<Rightarrow> bool" where
  "HasHomexServiceToken expected header authorization =
    (if expected = [] then False
     else let provided = provided_token header authorization in provided \<noteq> [] \<and> provided = expected)"

section \<open>Throttles\<close>

definition is_playmarket_test_request :: "otp_settings \<Rightarrow> string \<Rightarrow> bool" where
  "is_playmarket_test_request cfg phone = is_test_phone cfg (normalize_phone phone)"

text \<open>Both throttles of the page have to allow the request; each lets the test number pass.\<close>

definition otp_allow_request :: "otp_settings \<Rightarrow> string \<Rightarrow> bool \<Rightarrow> bool" where
  "otp_allow_request cfg phone super_allows = (if is_playmarket_test_request cfg phone then True else super_allows)"

definition SendOTP_throttled :: "otp_settings \<Rightarrow> string \<Rightarrow> bool \<Rightarrow> bool \<Rightarrow> bool" where
  "SendOTP_throttled cfg phone burst_allows day_allows =
    (\<not> (otp_allow_request cfg phone burst_allows \<and> otp_allow_request cfg phone day_allows))"

section \<open>Configuration of the SMS gateway\<close>

definition sms_provider_configured :: "string \<Rightarrow> string \<Rightarrow> string \<Rightarrow> string \<Rightarrow> string list" where
  "sms_provider_configured provider email password sender =
    (if lower provider \<noteq> ''eskiz'' then []
     else (if email = [] \<or> password = [] then [''integrations.E001''] else []) @ (if sender = [] then [''integrations.E002''] else []))"

section \<open>The public page\<close>

record web_stats =
  ws_clients :: nat
  ws_masters :: nat
  ws_completed :: nat
  ws_average :: "int \<times> nat"
  ws_amount :: money

record web_home =
  wh_banners :: "(string option \<times> string option) list"
  wh_categories :: "(service_category \<times> (service \<times> service_price list) list) list"
  wh_featured :: "service list"
  wh_market :: "(market_category \<times> nat) list"
  wh_products :: "market_product list"
  wh_tariffs :: "tariff list"
  wh_stats :: web_stats

definition WebHome_get :: "string option \<Rightarrow> home_banner list \<Rightarrow> accounts_db \<Rightarrow> catalog_db \<Rightarrow> market_db \<Rightarrow> web_home" where
  "WebHome_get origin banners a db mdb =
    (let s = core db; completed = filter (\<lambda>ord. o_status ord = COMPLETED) (orders s)
     in \<lparr>wh_banners = get_home_banners origin banners, wh_categories = home_services db,
         wh_featured = take 12 (filter sv_active (by_category_order db (catalog s))), wh_market = market_overview mdb, wh_products = take 8 (filter visible (rev (market_products mdb))),
         wh_tariffs = take 6 (by_sort_order (filter tf_active (tariffs (profiles s)))),
         wh_stats = \<lparr>ws_clients = count_rows cl_active (clients a), ws_masters = count_rows ms_active (masters a),
            ws_completed = length completed, ws_average = (sum_rows rv_rating (reviews s), length (reviews s)),
            ws_amount = sum_rows total_amount completed\<rparr>\<rparr>)"

text \<open>The statuses the page explains.\<close>

definition WebMeta_statuses :: "order_status list" where
  "WebMeta_statuses = [NEW, ACCEPTED, ON_WAY, ARRIVED, COMPLETED, CANCELLED, REJECTED]"

section \<open>Properties\<close>

lemma after_prefix_split: "after_prefix p v = Some w \<Longrightarrow> v = p @ w"
proof -
  assume "after_prefix p v = Some w"
  then have "take (length p) v = p" "w = drop (length p) v"
    by (simp_all add: after_prefix_def split: if_splits)
  then show "v = p @ w" using append_take_drop_id [of "length p" v] by simp
qed

text \<open>Nothing opens the internal API but the configured token, in one of the headers; without a
  configured token it is closed.\<close>

lemma service_token_needed:
  assumes "HasHomexServiceToken expected header authorization"
  shows "expected \<noteq> []" and "header = expected \<or> (\<exists>scheme \<in> {''Service '', ''Bearer ''}. \<exists>v. authorization = scheme @ v \<and> strip v = expected)"
proof -
  show given: "expected \<noteq> []" using assms by (auto simp: HasHomexServiceToken_def split: if_splits)
  have provided: "provided_token header authorization = expected"
    using assms by (auto simp: HasHomexServiceToken_def Let_def split: if_splits)
  define sv where "sv = after_prefix ''Service '' authorization"
  define br where "br = after_prefix ''Bearer '' authorization"
  have "header = expected \<or> (\<exists>v. sv = Some v \<and> strip v = expected) \<or> (\<exists>v. br = Some v \<and> strip v = expected)"
    using provided given by (auto simp: provided_token_def Let_def sv_def [symmetric] br_def [symmetric] split: if_splits option.splits)
  then consider "header = expected" | v where "sv = Some v" "strip v = expected" | v where "br = Some v" "strip v = expected"
    by blast
  then show "header = expected \<or> (\<exists>scheme \<in> {''Service '', ''Bearer ''}. \<exists>v. authorization = scheme @ v \<and> strip v = expected)"
    using after_prefix_split unfolding sv_def br_def by cases blast+
qed

lemma service_token_suffices:
  assumes "expected \<noteq> []"
  shows "HasHomexServiceToken expected expected authorization"
  using assms by (simp add: HasHomexServiceToken_def provided_token_def Let_def)

text \<open>A wrong header is not made good by a right authorization.\<close>

lemma wrong_header_decides: "header \<noteq> [] \<Longrightarrow> header \<noteq> expected \<Longrightarrow> \<not> HasHomexServiceToken expected header authorization"
  by (auto simp: HasHomexServiceToken_def provided_token_def Let_def)

text \<open>Every other number is throttled as the framework says.\<close>

lemma throttle_binds:
  "\<not> is_playmarket_test_request cfg phone \<Longrightarrow> SendOTP_throttled cfg phone b d \<longleftrightarrow> \<not> (b \<and> d)"
  by (simp add: SendOTP_throttled_def otp_allow_request_def)

lemma awaiting_payment_unexplained: "{st. st \<notin> set WebMeta_statuses} = {AWAITING_PAYMENT}"
  by (auto simp: WebMeta_statuses_def intro: order_status.exhaust)

end
