(* ===== verification/Office_Home.thy ===== *)
theory Office_Home
  imports Order_Screens Staff
begin

text \<open>
  The start page of the dashboard and the finance report, on the screen and as a workbook
  (\<open>src/apps/dashboard/views.py\<close>), and the start page of the internal API
  (\<open>src/apps/internal_api/views.py\<close>). The figures are those of \<open>Finance\<close>.

  \<^item> The statistics of a day are kept in a cache for five minutes, for each member of the staff and
    each day: \<open>stats_cache\<close> holds the entries with their expiry.
  \<^item> Dates, limits and flags that a query serializer has validated are arguments.
  \<^item> The workbook is a list of sheets of cells; how it is written to a file, and the bold type of
    the headings, are left out.
\<close>

section \<open>The user and the constants of the pages\<close>

record dashboard_me =
  me_account :: staff_account
  me_full_name :: string
  me_role :: string

definition account_name :: "staff_account \<Rightarrow> string" where
  "account_name a =
    (let n = full_name (sa_first_name a) (sa_last_name a) in if n = [] then sa_username a else n)"

definition DashboardMe_get :: "staff_account \<Rightarrow> dashboard_me" where
  "DashboardMe_get a = \<lparr>me_account = a, me_full_name = account_name a, me_role = ''admin''\<rparr>"

definition weekday_name :: "int \<Rightarrow> string" where
  "weekday_name d = WEEKDAY_UZ ! weekday d"

definition DashboardMeta_get :: "int \<Rightarrow> int \<times> string \<times> (string \<times> string) list" where
  "DashboardMeta_get today = (today, weekday_name today, map (\<lambda>st. (status_value st, status_display st)) enum_class.enum)"

section \<open>The cached statistics of a day\<close>

type_synonym stats_key = "row_id \<times> int"

record stats_entry =
  se_data :: day_stats
  se_expires :: instant

type_synonym stats_cache = "stats_key \<Rightarrow> stats_entry option"

definition STATS_TIMEOUT_MS :: int where
  "STATS_TIMEOUT_MS = 300000"

definition cached_stats :: "instant \<Rightarrow> stats_key \<Rightarrow> stats_cache \<Rightarrow> day_stats option" where
  "cached_stats now k cache =
    (case cache k of None \<Rightarrow> None | Some e \<Rightarrow> if live now (Some (se_expires e)) then Some (se_data e) else None)"

definition DashboardStats_get ::
  "instant \<Rightarrow> row_id \<Rightarrow> int option \<Rightarrow> finance_db \<Rightarrow> stats_cache \<Rightarrow> stats_cache \<times> day_stats" where
  "DashboardStats_get now user date db cache =
    (let d = sent_or date (local_date now); k = (user, d)
     in case cached_stats now k cache of
          Some v \<Rightarrow> (cache, v)
        | None \<Rightarrow> let v = get_stats d db in (cache(k \<mapsto> \<lparr>se_data = v, se_expires = now + STATS_TIMEOUT_MS\<rparr>), v))"

section \<open>Charts\<close>

definition DashboardOrdersByService_get ::
  "int \<Rightarrow> int option \<Rightarrow> int option \<Rightarrow> nat \<Rightarrow> finance_db \<Rightarrow> (int \<times> share list) res" where
  "DashboardOrdersByService_get today df dt limit db =
    (let b = sent_or dt today; a = sent_or df (b - 6) in get_orders_by_service a b (int limit) db)"

definition DashboardWeeklyOrders_get :: "int \<Rightarrow> int option \<Rightarrow> finance_db \<Rightarrow> week_day list" where
  "DashboardWeeklyOrders_get today date db = get_weekly_orders (sent_or date today) db"

definition DashboardIncomeDynamics_get :: "int \<Rightarrow> int option \<Rightarrow> finance_db \<Rightarrow> (int \<times> string \<times> int) list" where
  "DashboardIncomeDynamics_get today date db = get_income_dynamics (sent_or date today) db"

text \<open>A year that is sent empty is refused here; on the finance page it counts as not sent.\<close>

definition DashboardIncomeExpense_get :: "int \<Rightarrow> query \<Rightarrow> finance_db \<Rightarrow> (int \<times> string \<times> int \<times> int) list res" where
  "DashboardIncomeExpense_get today q db =
    (case map_of q ''year'' of
       None \<Rightarrow> Inr (get_income_expense (year_of today) db)
     | Some s \<Rightarrow> (case parse_int s of
                   None \<Rightarrow> Inl (ValidationError ''year: year integer bo'lishi kerak'')
                 | Some y \<Rightarrow> Inr (get_income_expense y db)))"

definition InternalIncomeExpense_get :: "int \<Rightarrow> query \<Rightarrow> finance_db \<Rightarrow> (int \<times> string \<times> int \<times> int) list res" where
  "InternalIncomeExpense_get today q db =
    (case map_of q ''year'' of
       None \<Rightarrow> Inr (internal_income_expense (year_of today) db)
     | Some s \<Rightarrow> (case parse_int s of
                   None \<Rightarrow> Inl (ServerError ''invalid literal for int()'')
                 | Some y \<Rightarrow> Inr (internal_income_expense y db)))"

section \<open>The start page\<close>

record 'o overview =
  ov_date :: int
  ov_weekday :: string
  ov_user :: "dashboard_me option"
  ov_stats :: day_stats
  ov_by_service :: "share list"
  ov_dynamics :: "(int \<times> string \<times> int) list"
  ov_income_expense :: "(int \<times> string \<times> int \<times> int) list"
  ov_today_count :: nat
  ov_today :: "'o list"
  ov_unread :: nat

text \<open>The page shows the first seven months of the year only.\<close>

definition DashboardOverview_get ::
  "(row_id \<Rightarrow> string) \<Rightarrow> int \<Rightarrow> staff_account \<Rightarrow> int option \<Rightarrow> nat \<Rightarrow> finance_db \<Rightarrow> notification_db \<Rightarrow>
    (dashboard_screen overview \<times> week_day list) res" where
  "DashboardOverview_get uuid_text today user date orders_limit db ndb =
    (let d = sent_or date today; s = fin_sys db;
         today_orders = take orders_limit (DashboardTodayOrders_get_queryset d s)
     in bindE (get_orders_by_service (d - 6) d 10 db) (\<lambda>(n, by_service).
        Inr (\<lparr>ov_date = d, ov_weekday = weekday_name d, ov_user = Some (DashboardMe_get user), ov_stats = get_stats d db,
           ov_by_service = by_service, ov_dynamics = get_income_dynamics d db,
           ov_income_expense = take 7 (get_income_expense (year_of d) db), ov_today_count = length today_orders,
           ov_today = map (DashboardOrderSerializer_data uuid_text s) today_orders,
           ov_unread = count_rows (\<lambda>n. \<not> nt_read n) (notifications ndb)\<rparr>, get_weekly_orders d db)))"

text \<open>The internal page takes its orders from the same statuses, its limit from the query.\<close>

definition InternalTodayOrders_get_queryset :: "int \<Rightarrow> sys \<Rightarrow> order list" where
  "InternalTodayOrders_get_queryset today s =
    filter (\<lambda>ord. created_on ord = today \<and> o_status ord \<in> {NEW, ACCEPTED, ON_WAY, ARRIVED}) (newest s)"

definition InternalOverview_get ::
  "(row_id \<Rightarrow> string) \<Rightarrow> int \<Rightarrow> query \<Rightarrow> int option \<Rightarrow> finance_db \<Rightarrow> (internal_screen overview \<times> internal_day list) res" where
  "InternalOverview_get uuid_text today q date db =
    (let d = sent_or date today; s = fin_sys db
     in bindE (slice (parse_limit q 8) (InternalTodayOrders_get_queryset d s)) (\<lambda>today_orders.
        bindE (get_orders_by_service (d - 6) d 10 db) (\<lambda>(n, by_service).
        Inr (\<lparr>ov_date = d, ov_weekday = weekday_name d, ov_user = None, ov_stats = internal_get_stats d db,
           ov_by_service = by_service, ov_dynamics = get_income_dynamics d db,
           ov_income_expense = take 7 (internal_income_expense (year_of d) db), ov_today_count = length today_orders,
           ov_today = map (InternalOrderSerializer_data uuid_text (fin_accounts db) s) today_orders,
           ov_unread = 0\<rparr>, internal_weekly_orders d db))))"

section \<open>The finance report\<close>

record top_client =
  tc_rank :: nat
  tc_id :: row_id
  tc_full_name :: string
  tc_phone :: string
  tc_orders :: nat
  tc_spent :: int
  tc_spent_formatted :: string

definition serialize_top_clients :: "accounts_db \<Rightarrow> (row_id \<times> nat \<times> money) list \<Rightarrow> top_client list" where
  "serialize_top_clients a rows =
    map (\<lambda>(rank, c, n, spent).
      let row = get_row cl_id c (clients a)
      in \<lparr>tc_rank = rank, tc_id = c, tc_full_name = (case row of None \<Rightarrow> [] | Some x \<Rightarrow> client_name x),
          tc_phone = (case row of None \<Rightarrow> [] | Some x \<Rightarrow> cl_phone x), tc_orders = n, tc_spent = uzs spent,
          tc_spent_formatted = format_uzs spent\<rparr>) (enumerate 1 rows)"

record finance_report =
  fr_summary :: finance_summary
  fr_chart :: "(int \<times> string \<times> int \<times> int) list"
  fr_by_service :: "int \<times> share list"
  fr_top_clients :: "top_client list"

definition DashboardFinanceReport_get ::
  "int \<Rightarrow> query \<Rightarrow> int option \<Rightarrow> int option \<Rightarrow> nat \<Rightarrow> finance_db \<Rightarrow> finance_report res" where
  "DashboardFinanceReport_get today q df dt limit db =
    bindE (finance_month today q) (\<lambda>(y, m).
    bindE (finance_range today q df dt) (\<lambda>(a, b).
    bindE (get_income_by_service a b (int limit) db) (\<lambda>by_service.
      Inr \<lparr>fr_summary = get_finance_summary y m db, fr_chart = get_income_expense y db, fr_by_service = by_service,
           fr_top_clients = serialize_top_clients (fin_accounts db) (get_top_clients (Some a) (Some b) limit db)\<rparr>)))"

section \<open>The workbook\<close>

text \<open>Millions are in hundredths, as in the chart.\<close>

datatype cell = Text string | Number int | Millions int | Way direction

definition card_line :: "string \<Rightarrow> card \<Rightarrow> cell list" where
  "card_line title c = [Text title, Number (cd_value c), Number (cd_percent c), Way (cd_direction c)]"

definition overview_sheet :: "finance_summary \<Rightarrow> cell list list" where
  "overview_sheet fs =
    [[Text ''Davr'', Text (fs_label fs)],
     [Text ''Ko'rsatkich'', Text ''Summa (so'm)'', Text ''O'zgarish %'', Text ''Yo'nalish''],
     card_line ''Daromad'' (fs_income fs), card_line ''Xarajat'' (fs_expense fs), card_line ''Sof foyda'' (fs_profit fs),
     [Text ''Yakunlangan buyurtmalar'', Number (int (fs_orders fs))],
     [Text ''Tasdiqlanmagan naqd so'rovlar'', Number (int (fs_pending fs))]]"

definition monthly_sheet :: "(int \<times> string \<times> int \<times> int) list \<Rightarrow> cell list list" where
  "monthly_sheet chart =
    [Text ''Oy'', Text ''Daromad (mln)'', Text ''Xarajat (mln)''] #
    map (\<lambda>(m, label, income, expense). [Text label, Millions income, Millions expense]) chart"

definition services_sheet :: "sys \<Rightarrow> share list \<Rightarrow> cell list list" where
  "services_sheet s items =
    [Text ''Xizmat'', Text ''Daromad (so'm)'', Text ''Ulush %''] #
    map (\<lambda>i. [Text (service_str (sh_service i) s), Number (uzs (sh_value i)), Number (sh_percent i)]) items"

definition clients_sheet :: "accounts_db \<Rightarrow> (row_id \<times> nat \<times> money) list \<Rightarrow> cell list list" where
  "clients_sheet a rows =
    [Text ''#'', Text ''Mijoz'', Text ''Telefon'', Text ''Buyurtmalar'', Text ''Sarflagan (so'm)''] #
    map (\<lambda>c. [Number (int (tc_rank c)), Text (tc_full_name c), Text (tc_phone c), Number (int (tc_orders c)), Number (tc_spent c)])
      (serialize_top_clients a rows)"

definition export_suffix :: "int \<Rightarrow> int option \<Rightarrow> string" where
  "export_suffix y m =
    (case m of None \<Rightarrow> int_str y | Some k \<Rightarrow> int_str y @ ''-'' @ two_digits (nat k))"

definition DashboardFinanceExport_get ::
  "int \<Rightarrow> query \<Rightarrow> int option \<Rightarrow> int option \<Rightarrow> nat \<Rightarrow> finance_db \<Rightarrow> (string \<times> (string \<times> cell list list) list) res" where
  "DashboardFinanceExport_get today q df dt limit db =
    bindE (finance_month today q) (\<lambda>(y, m).
    bindE (finance_range today q df dt) (\<lambda>(a, b).
    bindE (get_income_by_service a b (int limit) db) (\<lambda>(n, items).
      Inr (''moliya-hisobot-'' @ export_suffix y m @ ''.xlsx'',
           [(''Umumiy'', overview_sheet (get_finance_summary y m db)), (''Oyma-oy'', monthly_sheet (get_income_expense y db)),
            (''Xizmatlar kesimida'', services_sheet (fin_sys db) items),
            (''Eng faol mijozlar'', clients_sheet (fin_accounts db) (get_top_clients (Some a) (Some b) limit db))]))))"

end
