(* ===== verification/Office_Home_Props.thy ===== *)
theory Office_Home_Props
  imports Office_Home
begin

text \<open>
  The cached statistics are never older than five minutes (\<open>stats_at_most_five_minutes_old\<close>), the
  start page shows the open orders of its day and no more than asked for, the workbook shows
  what the screen shows.
\<close>

section \<open>The cache\<close>

record stats_request =
  rq_now :: instant
  rq_user :: row_id
  rq_date :: "int option"
  rq_db :: finance_db

definition answer :: "stats_request \<Rightarrow> stats_cache \<Rightarrow> stats_cache \<times> day_stats" where
  "answer r cache = DashboardStats_get (rq_now r) (rq_user r) (rq_date r) (rq_db r) cache"

definition asked_date :: "stats_request \<Rightarrow> int" where
  "asked_date r = sent_or (rq_date r) (local_date (rq_now r))"

fun cache_after :: "stats_request list \<Rightarrow> stats_cache" where
  "cache_after [] = Map.empty"
| "cache_after (r # earlier) = fst (answer r (cache_after earlier))"

lemma answer_cases:
  obtains (hit) e where "cache (rq_user r, asked_date r) = Some e" "rq_now r < se_expires e" "answer r cache = (cache, se_data e)"
  | (miss) "answer r cache = (cache((rq_user r, asked_date r) \<mapsto>
        \<lparr>se_data = get_stats (asked_date r) (rq_db r), se_expires = rq_now r + STATS_TIMEOUT_MS\<rparr>),
      get_stats (asked_date r) (rq_db r))"
proof -
  have fresh: "(cached_stats (rq_now r) k cache = Some v) = (\<exists>e. cache k = Some e \<and> rq_now r < se_expires e \<and> v = se_data e)" for k v
    by (auto simp: cached_stats_def live_def split: option.splits if_splits)
  show thesis
  proof (cases "cached_stats (rq_now r) (rq_user r, asked_date r) cache")
    case None
    then show thesis using miss by (simp add: answer_def DashboardStats_get_def asked_date_def [symmetric] Let_def)
  next
    case (Some v)
    then show thesis using hit fresh [of "(rq_user r, asked_date r)" v]
      by (auto simp: answer_def DashboardStats_get_def asked_date_def [symmetric] Let_def)
  qed
qed

text \<open>An entry is what the tables gave when it was made, five minutes before it expires.\<close>

lemma entry_origin:
  assumes "cache_after rs k = Some e"
  obtains r where "r \<in> set rs" "se_data e = get_stats (snd k) (rq_db r)" "se_expires e = rq_now r + STATS_TIMEOUT_MS"
  using assms
proof (induction rs arbitrary: thesis)
  case (Cons r rs)
  show ?case
  proof (cases rule: answer_cases [of "cache_after rs" r])
    case (hit e')
    then show ?thesis using Cons by auto
  next
    case miss
    show ?thesis
    proof (cases "k = (rq_user r, asked_date r)")
      case True
      then show ?thesis using Cons.prems(1) [of r] Cons.prems(2) miss by auto
    next
      case False
      then show ?thesis using Cons miss by auto
    qed
  qed
qed auto

theorem stats_at_most_five_minutes_old:
  assumes "sorted_wrt (\<lambda>r earlier. rq_now earlier \<le> rq_now r) (r # earlier)"
  obtains r' where "r' \<in> set (r # earlier)" "rq_now r - STATS_TIMEOUT_MS < rq_now r'" "rq_now r' \<le> rq_now r"
    "snd (answer r (cache_after earlier)) = get_stats (asked_date r) (rq_db r')"
proof (cases rule: answer_cases [of "cache_after earlier" r])
  case (hit e)
  obtain r' where r': "r' \<in> set earlier" "se_data e = get_stats (asked_date r) (rq_db r')"
      "se_expires e = rq_now r' + STATS_TIMEOUT_MS"
    using entry_origin [OF hit(1)] by auto
  show ?thesis using that [of r'] r' hit assms by auto
next
  case miss
  show ?thesis using that [of r] miss by (auto simp: STATS_TIMEOUT_MS_def)
qed

text \<open>Two members of the staff need not see the same figures: each has entries of their own.\<close>

lemma cache_is_own:
  "rq_user r \<noteq> u \<Longrightarrow> fst (answer r cache) (u, d) = cache (u, d)"
  by (cases rule: answer_cases [of cache r]) auto

section \<open>The start page\<close>

lemma overview_shows_open_orders:
  assumes "DashboardOverview_get uuid_text today user date limit db ndb = Inr (page, week)"
  shows "ov_today_count page = length (ov_today page)" and "ov_today_count page \<le> limit"
    and "\<forall>x \<in> set (ov_today page). created_on (ds_order x) = sent_or date today \<and> o_status (ds_order x) \<in> set dashboard_active"
  using assms
  by (auto simp: DashboardOverview_get_def DashboardTodayOrders_get_queryset_def DashboardOrderSerializer_data_def Let_def
      dest!: in_set_takeD)

text \<open>The chart of the start page ends with July.\<close>

lemma overview_chart_ends_in_july:
  assumes "DashboardOverview_get uuid_text today user date limit db ndb = Inr (page, week)"
  shows "map fst (ov_income_expense page) = [1..7]"
proof -
  have months: "[1..12] = [1..7] @ [8..12 :: int]"
    using upto_split1 [of 1 8 12] by simp
  have seven: "length [1..7 :: int] = 7" by simp
  have "map fst (take 7 (get_income_expense y fdb)) = [1..7]" for y fdb
    by (simp add: get_income_expense_def take_map months comp_def seven)
  then show ?thesis using assms by (auto simp: DashboardOverview_get_def Let_def)
qed

section \<open>Report and workbook\<close>

lemma ranks_in_order: "map tc_rank (serialize_top_clients a rows) = [1..<Suc (length rows)]"
  by (simp add: serialize_top_clients_def Let_def case_prod_beta comp_def enumerate_eq_zip)

text \<open>Screen and workbook are refused together, and show the same clients.\<close>

lemma workbook_shows_report:
  assumes "DashboardFinanceReport_get today q df dt limit db = Inr rep"
  obtains name sheets where "DashboardFinanceExport_get today q df dt limit db = Inr (name, sheets)"
    "map fst sheets = [''Umumiy'', ''Oyma-oy'', ''Xizmatlar kesimida'', ''Eng faol mijozlar'']"
    "map_of sheets ''Umumiy'' = Some (overview_sheet (fr_summary rep))"
    "map_of sheets ''Oyma-oy'' = Some (monthly_sheet (fr_chart rep))"
    "map_of sheets ''Xizmatlar kesimida'' = Some (services_sheet (fin_sys db) (snd (fr_by_service rep)))"
    "\<exists>rows. map_of sheets ''Eng faol mijozlar'' = Some (clients_sheet (fin_accounts db) rows) \<and>
       serialize_top_clients (fin_accounts db) rows = fr_top_clients rep"
  using assms by (fastforce simp: DashboardFinanceReport_get_def DashboardFinanceExport_get_def split: prod.splits)

end
