(* ===== verification/Store_Lists.thy ===== *)
theory Store_Lists
  imports Catalog
begin

text \<open>
  Categories of the warehouse and the lists of warehouse and wallet, for masters
  (\<open>src/apps/warehouse/views.py\<close>, \<open>src/apps/wallet/views.py\<close>) and for the dashboard
  (\<open>src/apps/dashboard/views.py\<close>).

  \<^item> State: \<open>stores\<close> puts the categories beside the tables of \<open>Warehouse\<close>; deleting a category
    clears it on its products.
  \<^item> Lists ordered by a name are in the order of the table, lists ordered by \<open>-created_at\<close> are the
    table backwards. A key in the query that is no UUID makes the query raise.
\<close>

section \<open>Categories of the warehouse\<close>

record warehouse_category =
  wc_id :: row_id
  wc_name :: string
  wc_slug :: string

record stores =
  store_categories :: "warehouse_category list"
  store_goods :: warehouse_db

interpretation store_categories_store: row_store wc_id "get_row wc_id" add_row "del_row wc_id" "\<lambda>rows. rows" "fresh_id wc_id"
  by (rule row_store_tables)

definition products_of :: "row_id \<Rightarrow> warehouse_db \<Rightarrow> warehouse_product list" where
  "products_of c db = filter (\<lambda>p. pr_category p = Some c) (products db)"

definition wc_slug_taken :: "row_id option \<Rightarrow> string \<Rightarrow> stores \<Rightarrow> bool" where
  "wc_slug_taken self v st = list_ex (\<lambda>c. wc_slug c = v \<and> Some (wc_id c) \<noteq> self) (store_categories st)"

definition validate_wc_slug :: "row_id option \<Rightarrow> string \<Rightarrow> stores \<Rightarrow> unit res" where
  "validate_wc_slug self v st =
    (if v = [] \<or> \<not> list_all slug_char v then Inl (ValidationError ''Enter a valid slug consisting of letters, numbers, underscores or hyphens.'')
     else guardE (\<not> wc_slug_taken self v st) (ValidationError ''Warehouse category with this slug already exists.''))"

definition validate_wc_name :: "string \<Rightarrow> unit res" where
  "validate_wc_name v = guardE (v \<noteq> []) (ValidationError ''name: This field may not be blank.'')"

definition DashboardWarehouseCategory_create :: "string \<Rightarrow> string \<Rightarrow> stores \<Rightarrow> stores res" where
  "DashboardWarehouseCategory_create name slug st =
    bindE (validate_wc_name name) (\<lambda>_. bindE (validate_wc_slug None slug st) (\<lambda>_.
      Inr (st\<lparr>store_categories := add_row \<lparr>wc_id = fresh_id wc_id (store_categories st), wc_name = name, wc_slug = slug\<rparr>
                (store_categories st)\<rparr>)))"

definition DashboardWarehouseCategory_update :: "row_id \<Rightarrow> string option \<Rightarrow> string option \<Rightarrow> stores \<Rightarrow> stores res" where
  "DashboardWarehouseCategory_update pk name slug st =
    bindE (get_or_404 ''WarehouseCategory'' (get_row wc_id pk (store_categories st))) (\<lambda>_.
    bindE (case name of None \<Rightarrow> Inr () | Some v \<Rightarrow> validate_wc_name v) (\<lambda>_.
    bindE (case slug of None \<Rightarrow> Inr () | Some v \<Rightarrow> validate_wc_slug (Some pk) v st) (\<lambda>_.
      Inr (st\<lparr>store_categories := upd_row wc_id pk
        (\<lambda>c. c\<lparr>wc_name := sent_or name (wc_name c), wc_slug := sent_or slug (wc_slug c)\<rparr>) (store_categories st)\<rparr>))))"

definition clear_category :: "row_id \<Rightarrow> warehouse_product \<Rightarrow> warehouse_product" where
  "clear_category pk p = (if pr_category p = Some pk then p\<lparr>pr_category := None\<rparr> else p)"

definition DashboardWarehouseCategory_destroy :: "row_id \<Rightarrow> stores \<Rightarrow> stores res" where
  "DashboardWarehouseCategory_destroy pk st =
    bindE (get_or_404 ''WarehouseCategory'' (get_row wc_id pk (store_categories st))) (\<lambda>_.
      let db = store_goods st
      in Inr (st\<lparr>store_categories := del_row wc_id pk (store_categories st),
                 store_goods := db\<lparr>products := map (clear_category pk) (products db)\<rparr>\<rparr>))"

text \<open>The serializer of products looks the category up.\<close>

definition category_known :: "row_id option \<Rightarrow> stores \<Rightarrow> bool" where
  "category_known c st = (case c of None \<Rightarrow> True | Some k \<Rightarrow> list_ex (\<lambda>x. wc_id x = k) (store_categories st))"

definition DashboardWarehouseProduct_create :: "warehouse_product \<Rightarrow> stores \<Rightarrow> stores res" where
  "DashboardWarehouseProduct_create p st =
    bindE (guardE (category_known (pr_category p) st) (ValidationError ''category: Invalid pk'')) (\<lambda>_.
      Inr (st\<lparr>store_goods := DashboardWarehouseProduct_perform_create p (store_goods st)\<rparr>))"

definition DashboardWarehouseProduct_update :: "row_id \<Rightarrow> product_patch \<Rightarrow> stores \<Rightarrow> stores \<times> unit res" where
  "DashboardWarehouseProduct_update pk q st =
    (if get_row pr_id pk (products (store_goods st)) = None then (st, Inl (NotFound ''WarehouseProduct''))
     else if \<not> category_known (sent_or (pp_category q) None) st then (st, Inl (ValidationError ''category: Invalid pk''))
     else let (db, r) = DashboardWarehouseProduct_perform_update pk q (store_goods st) in (st\<lparr>store_goods := db\<rparr>, r))"

section \<open>Lists of the warehouse\<close>

definition uuid_param :: "lookups \<Rightarrow> query \<Rightarrow> string \<Rightarrow> row_id option res" where
  "uuid_param lk q name =
    (let v = param q name
     in if v = [] then Inr None
        else case uuid_of lk v of None \<Rightarrow> Inl (ServerError ''is not a valid UUID'') | Some k \<Rightarrow> Inr (Some k))"

definition search_filter :: "string \<Rightarrow> ('r \<Rightarrow> string list) \<Rightarrow> 'r list \<Rightarrow> 'r list" where
  "search_filter v texts rows = (if v = [] then rows else filter (\<lambda>r. list_ex (\<lambda>t. icontains t v) (texts r)) rows)"

definition by_store_category :: "lookups \<Rightarrow> query \<Rightarrow> stores \<Rightarrow> ('r \<Rightarrow> row_id option) \<Rightarrow> 'r list \<Rightarrow> 'r list" where
  "by_store_category lk q st cat rows =
    (case category_param q of
       None \<Rightarrow> rows
     | Some v \<Rightarrow> (case uuid_of lk v of
                   Some k \<Rightarrow> filter (\<lambda>r. cat r = Some k) rows
                 | None \<Rightarrow> filter (\<lambda>r. list_ex (\<lambda>c. Some (wc_id c) = cat r \<and> wc_slug c = v) (store_categories st)) rows))"

definition DashboardWarehouseCategoryList_get :: "query \<Rightarrow> stores \<Rightarrow> (warehouse_category \<times> nat) list" where
  "DashboardWarehouseCategoryList_get q st =
    map (\<lambda>c. (c, length (products_of (wc_id c) (store_goods st))))
      (search_filter (param q ''search'') (\<lambda>c. [wc_name c, wc_slug c]) (store_categories st))"

definition WarehouseCategoryList_get :: "stores \<Rightarrow> (warehouse_category \<times> nat) list" where
  "WarehouseCategoryList_get st =
    map (\<lambda>c. (c, length (filter pr_is_active (products_of (wc_id c) (store_goods st))))) (store_categories st)"

definition WarehouseProductList_get_queryset :: "lookups \<Rightarrow> query \<Rightarrow> stores \<Rightarrow> warehouse_product list" where
  "WarehouseProductList_get_queryset lk q st =
    by_store_category lk q st pr_category
      (search_filter (param q ''search'') (\<lambda>p. [pr_name p]) (filter pr_is_active (products (store_goods st))))"

definition DashboardWarehouseProductList_get_queryset :: "lookups \<Rightarrow> query \<Rightarrow> stores \<Rightarrow> warehouse_product list" where
  "DashboardWarehouseProductList_get_queryset lk q st =
    (let r0 = search_filter (param q ''search'') (\<lambda>p. [pr_name p]) (products (store_goods st));
         r1 = (case bool_param (map_of q ''is_active'') of None \<Rightarrow> r0 | Some b \<Rightarrow> filter (\<lambda>p. pr_is_active p = b) r0);
         r2 = by_store_category lk q st pr_category r1
     in if bool_param (map_of q ''low_stock'') = Some True then filter product_is_low_stock r2 else r2)"

fun movement_value :: "movement_type \<Rightarrow> string" where
  "movement_value STOCK_IN = ''kirim''"
| "movement_value STOCK_OUT = ''chiqim''"

definition DashboardStockMovementList_get_queryset :: "lookups \<Rightarrow> query \<Rightarrow> warehouse_db \<Rightarrow> stock_movement list res" where
  "DashboardStockMovementList_get_queryset lk q db =
    bindE (uuid_param lk q ''product'') (\<lambda>product.
      let ty = param q ''movement_type'';
          rows = keep_if product (\<lambda>k mv. sm_product mv = k) (rev (movements db))
      in Inr (if ty = [] then rows else filter (\<lambda>mv. movement_value (sm_type mv) = ty) rows))"

definition item_product :: "warehouse_db \<Rightarrow> master_inventory \<Rightarrow> warehouse_product option" where
  "item_product db i = get_row pr_id (mi_product i) (products db)"

definition item_category :: "warehouse_db \<Rightarrow> master_inventory \<Rightarrow> row_id option" where
  "item_category db i = Option.bind (item_product db i) pr_category"

text \<open>The tools a master holds; what has run out is hidden.\<close>

definition MasterInventoryList_get_queryset :: "lookups \<Rightarrow> row_id \<Rightarrow> query \<Rightarrow> stores \<Rightarrow> master_inventory list" where
  "MasterInventoryList_get_queryset lk user q st =
    (let db = store_goods st
     in by_store_category lk q st (item_category db)
       (search_filter (param q ''search'') (\<lambda>i. case item_product db i of None \<Rightarrow> [] | Some p \<Rightarrow> [pr_name p])
         (filter (\<lambda>i. mi_master i = user \<and> 0 < mi_quantity i) (inventory db))))"

definition MasterInventoryDetail_get :: "row_id \<Rightarrow> row_id \<Rightarrow> warehouse_db \<Rightarrow> master_inventory res" where
  "MasterInventoryDetail_get user pk db =
    get_or_404 ''MasterInventory'' (get_row mi_id pk (filter (\<lambda>i. mi_master i = user) (inventory db)))"

definition AdminMasterInventoryList_get_queryset :: "row_id \<Rightarrow> warehouse_db \<Rightarrow> master_inventory list" where
  "AdminMasterInventoryList_get_queryset m db = filter (\<lambda>i. mi_master i = m) (inventory db)"

definition AdminMasterInventoryList_post ::
  "(row_id \<Rightarrow> string) \<Rightarrow> row_id \<Rightarrow> row_id \<Rightarrow> qty \<Rightarrow> accounts_db \<Rightarrow> warehouse_db \<Rightarrow> (warehouse_db \<times> row_id) res" where
  "AdminMasterInventoryList_post mstr m pid n a db =
    bindE (get_or_404 ''Master'' (get_row ms_id m (masters a))) (\<lambda>_. AdminAssignInventorySerializer_save mstr m pid n db)"

definition DashboardMasterInventoryList_get_queryset :: "lookups \<Rightarrow> query \<Rightarrow> warehouse_db \<Rightarrow> master_inventory list res" where
  "DashboardMasterInventoryList_get_queryset lk q db =
    bindE (uuid_param lk q ''master'') (\<lambda>m. bindE (uuid_param lk q ''product'') (\<lambda>p.
      let rows = keep_if p (\<lambda>k i. mi_product i = k) (keep_if m (\<lambda>k i. mi_master i = k)
                   (filter (\<lambda>i. 0 < mi_quantity i) (inventory db)))
      in Inr (if bool_param (map_of q ''low_stock'') = Some True then filter inventory_is_low_stock rows else rows)))"

definition DashboardMasterInventory_create ::
  "(row_id \<Rightarrow> string) \<Rightarrow> row_id \<Rightarrow> row_id \<Rightarrow> qty \<Rightarrow> accounts_db \<Rightarrow> warehouse_db \<Rightarrow> (warehouse_db \<times> row_id) res" where
  "DashboardMasterInventory_create mstr m pid n a db =
    bindE (guardE (list_ex (\<lambda>x. ms_id x = m) (masters a)) (ValidationError ''master: Invalid pk'')) (\<lambda>_.
    bindE (guardE (list_ex (\<lambda>p. pr_id p = pid \<and> pr_is_active p) (products db)) (ValidationError ''warehouse_product: Invalid pk'')) (\<lambda>_.
    bindE (positive_quantity n) (\<lambda>_. assign_inventory_to_master mstr m pid n db)))"

section \<open>Lists of the wallets\<close>

fun withdraw_value :: "withdraw_status \<Rightarrow> string" where
  "withdraw_value W_PENDING = ''pending''"
| "withdraw_value W_APPROVED = ''approved''"
| "withdraw_value W_REJECTED = ''rejected''"

fun transaction_value :: "transaction_type \<Rightarrow> string" where
  "transaction_value IN = ''kirim''"
| "transaction_value OUT = ''chiqim''"

text \<open>Anything but a status shows the open handovers.\<close>

definition DashboardCashHandoverList_get_queryset :: "query \<Rightarrow> wallet_db \<Rightarrow> withdraw_request list" where
  "DashboardCashHandoverList_get_queryset q db =
    (let v = param q ''status'';
         st = (if v \<in> withdraw_value ` {W_PENDING, W_APPROVED, W_REJECTED} then v else withdraw_value W_PENDING)
     in filter (\<lambda>r. withdraw_value (wr_status r) = st) (rev (withdraw_requests db)))"

definition DashboardWalletTransactionList_get_queryset :: "lookups \<Rightarrow> query \<Rightarrow> wallet_db \<Rightarrow> wallet_transaction list res" where
  "DashboardWalletTransactionList_get_queryset lk q db =
    bindE (uuid_param lk q ''master'') (\<lambda>m.
      let ty = param q ''transaction_type'';
          rows = keep_if m (\<lambda>k t. wt_master t = k) (sort_key (\<lambda>t. - wt_created_at t) (wallet_transactions db))
      in Inr (if ty = [] then rows else filter (\<lambda>t. transaction_value (wt_type t) = ty) rows))"

definition DashboardWithdrawRequestList_get_queryset :: "lookups \<Rightarrow> query \<Rightarrow> wallet_db \<Rightarrow> withdraw_request list res" where
  "DashboardWithdrawRequestList_get_queryset lk q db =
    bindE (uuid_param lk q ''master'') (\<lambda>m.
      let st = param q ''status'';
          rows = rev (withdraw_requests db);
          chosen = (if st = [] then rows else filter (\<lambda>r. withdraw_value (wr_status r) = st) rows)
      in Inr (keep_if m (\<lambda>k r. wr_master r = k) chosen))"

definition DashboardMasterWallet_get :: "row_id \<Rightarrow> accounts_db \<Rightarrow> wallet_db \<Rightarrow> (wallet_db \<times> master_wallet \<times> money) res" where
  "DashboardMasterWallet_get pk a db =
    bindE (get_or_404 ''Master'' (get_row ms_id pk (masters a))) (\<lambda>_.
      let db1 = get_or_create_wallet pk db; w = wallet_of pk db1 in Inr (db1, w, total_balance w))"

section \<open>Income of the week and of the month\<close>

text \<open>Midnight of a date in the local time zone, and the first day of the month of a date.\<close>

definition aware :: "int \<Rightarrow> instant" where
  "aware d = (d - 719163) * 86400000 - 18000000"

definition first_of_its_month :: "int \<Rightarrow> int" where
  "first_of_its_month d = first_of_month (year_of d) (month_of d)"

text \<open>The change in tenths of a percent; there is none against an empty period.\<close>

definition income_change :: "money \<Rightarrow> money \<Rightarrow> int option" where
  "income_change current previous =
    (if previous = 0 then None
     else Some (round_half_even (sgn previous * (current - previous) * 1000) \<bar>previous\<bar>))"

record period_income =
  pi_week :: "money \<times> int option"
  pi_month :: "money \<times> int option"

definition period_income_stats :: "row_id \<Rightarrow> instant \<Rightarrow> wallet_db \<Rightarrow> period_income" where
  "period_income_stats m now db =
    (let today = local_date now; week_start = today - int (weekday today); first = first_of_its_month today;
         last_week_start = week_start - 7; last_month_start = first_of_its_month (first - 1);
         week_now = income_between m (aware week_start) now db;
         week_prev = income_between m (aware last_week_start) (aware week_start) db;
         month_now = income_between m (aware first) now db;
         month_prev = income_between m (aware last_month_start) (aware first) db
     in \<lparr>pi_week = (week_now, income_change week_now week_prev), pi_month = (month_now, income_change month_now month_prev)\<rparr>)"

end
