(* ===== verification/Store_Props.thy ===== *)
theory Store_Props
  imports Store_Lists
begin

text \<open>
  The categories of the warehouse stay consistent along every history (\<open>store_history_consistent\<close>), the
  two pages that hand out tools do the same (\<open>both_pages_assign_alike\<close>), and the periods of the
  wallet's statistics neither overlap nor leave a gap (\<open>periods_adjoin\<close>).
\<close>

section \<open>Categories\<close>

definition product_categories :: "warehouse_db \<Rightarrow> row_id option list" where
  "product_categories db = map pr_category (products db)"

definition stores_wf :: "stores \<Rightarrow> bool" where
  "stores_wf st \<longleftrightarrow>
    keys_distinct wc_id (store_categories st) \<and> keys_distinct wc_slug (store_categories st) \<and>
    (\<forall>c. Some c \<in> set (product_categories (store_goods st)) \<longrightarrow> c \<in> wc_id ` set (store_categories st))"

text \<open>The operations on stock do not touch the category of a product.\<close>

lemma categories_kept [simp]:
  "product_categories (set_product_quantity pid n db) = product_categories db"
  "product_categories (set_inventory_quantity iid n db) = product_categories db"
  "product_categories (create_movement pid ty n m nt db) = product_categories db"
  "product_categories (db\<lparr>inventory := rows\<rparr>) = product_categories db"
  "product_categories (db\<lparr>movements := mvs\<rparr>) = product_categories db"
  by (auto simp: product_categories_def set_product_quantity_def set_inventory_quantity_def create_movement_def upd_row_def)

lemma get_or_create_categories: "get_or_create_inventory m p db = (db1, i) \<Longrightarrow> product_categories db1 = product_categories db"
  by (auto simp: get_or_create_inventory_def Let_def split: option.splits)

lemma assign_categories:
  "assign_inventory_to_master mstr m pid n db = Inr (db', iid) \<Longrightarrow> product_categories db' = product_categories db"
  by (auto simp: assign_inventory_to_master_def Let_def get_or_create_categories split: prod.splits if_splits)

lemma return_categories:
  "return_inventory_to_warehouse mstr used i db = Inr (db', r) \<Longrightarrow> product_categories db' = product_categories db"
  by (auto simp: return_inventory_to_warehouse_def Let_def split: if_splits)

lemma adjust_inventory_categories:
  "adjust_master_inventory mstr iid n db = Inr db' \<Longrightarrow> product_categories db' = product_categories db"
  by (auto simp: adjust_master_inventory_def Let_def split: if_splits)

lemma move_categories: "move_product_quantity pid d db = Inr db' \<Longrightarrow> product_categories db' = product_categories db"
  by (auto simp: move_product_quantity_def Let_def split: if_splits)

lemma adjust_stock_categories:
  "adjust_warehouse_stock pid d nt m ty db = Inr db' \<Longrightarrow> product_categories db' = product_categories db"
  by (auto simp: adjust_warehouse_stock_def dest: move_categories)

lemma transfer_categories: "transfer_step db db' \<Longrightarrow> product_categories db' = product_categories db"
proof (induction rule: transfer_step.induct)
  case (t_patch db mstr iid q)
  then show ?case
    by (auto simp: DashboardMasterInventory_perform_update_def Let_def dest: adjust_inventory_categories split: option.splits sum.splits)
qed (auto simp: AdminAssignInventorySerializer_save_def AdminUpdateInventoryView_put_def AdminUpdateInventoryView_delete_def
      DashboardMasterInventory_perform_destroy_def
      dest!: assign_categories return_categories adjust_inventory_categories split: option.splits)

lemma movement_categories:
  "DashboardStockMovement_perform_create pid ty n nt m db = Inr db1 \<Longrightarrow> product_categories db1 = product_categories db"
  "DashboardStockMovement_perform_destroy sid db = Inr db2 \<Longrightarrow> product_categories db2 = product_categories db"
  by (auto simp: DashboardStockMovement_perform_create_def DashboardStockMovement_perform_destroy_def
      apply_stock_movement_effect_def reverse_stock_movement_def dest!: move_categories)

lemma product_create_categories:
  "product_categories (DashboardWarehouseProduct_perform_create p db) = product_categories db @ [pr_category p]"
  by (simp add: DashboardWarehouseProduct_perform_create_def Let_def product_categories_def create_movement_def add_row_def)

lemma product_destroy_categories:
  "DashboardWarehouseProduct_destroy pid db = Inr db' \<Longrightarrow> set (product_categories db') \<subseteq> set (product_categories db)"
  by (auto simp: DashboardWarehouseProduct_destroy_def product_categories_def del_row_def split: if_splits)

lemma product_patch_categories:
  "set (product_categories (fst (DashboardWarehouseProduct_perform_update pid q db))) \<subseteq>
     insert (sent_or (pp_category q) None) (set (product_categories db))"
proof -
  let ?db1 = "db\<lparr>products := upd_row pr_id pid (patch_product q) (products db)\<rparr>"
  have "set (product_categories ?db1) \<subseteq> insert (sent_or (pp_category q) None) (set (product_categories db))"
    by (auto simp: product_categories_def upd_row_def patch_product_def sent_or_def split: option.splits if_splits)
  moreover have "product_categories (fst (DashboardWarehouseProduct_perform_update pid q db)) \<in> {product_categories db, product_categories ?db1}"
    by (auto simp: DashboardWarehouseProduct_perform_update_def Let_def dest: adjust_stock_categories split: option.splits sum.splits)
  ultimately show ?thesis by auto
qed

text \<open>Requests on categories and products, and every movement of stock.\<close>

inductive store_step :: "stores \<Rightarrow> stores \<Rightarrow> bool" where
  category_create: "DashboardWarehouseCategory_create name slug st = Inr st' \<Longrightarrow> store_step st st'"
| category_update: "DashboardWarehouseCategory_update pk nm sl st = Inr st' \<Longrightarrow> store_step st st'"
| category_destroy: "DashboardWarehouseCategory_destroy pk st = Inr st' \<Longrightarrow> store_step st st'"
| product_create: "DashboardWarehouseProduct_create p st = Inr st' \<Longrightarrow> store_step st st'"
| product_update: "store_step st (fst (DashboardWarehouseProduct_update pk q st))"
| product_destroy: "DashboardWarehouseProduct_destroy pk (store_goods st) = Inr db \<Longrightarrow> store_step st (st\<lparr>store_goods := db\<rparr>)"
| transfer: "transfer_step (store_goods st) db \<Longrightarrow> store_step st (st\<lparr>store_goods := db\<rparr>)"
| movement: "DashboardStockMovement_perform_create pid ty n nt m (store_goods st) = Inr db \<Longrightarrow> store_step st (st\<lparr>store_goods := db\<rparr>)"
| movement_undone: "DashboardStockMovement_perform_destroy sid (store_goods st) = Inr db \<Longrightarrow> store_step st (st\<lparr>store_goods := db\<rparr>)"

lemma stores_wf_goods:
  assumes "stores_wf st" and "set (product_categories db) \<subseteq> set (product_categories (store_goods st))"
  shows "stores_wf (st\<lparr>store_goods := db\<rparr>)"
  using assms by (auto simp: stores_wf_def)

lemma stores_wf_goods_known:
  assumes wf: "stores_wf st" and known: "category_known c st"
    and sub: "set (product_categories db) \<subseteq> insert c (set (product_categories (store_goods st)))"
  shows "stores_wf (st\<lparr>store_goods := db\<rparr>)"
proof -
  have "k \<in> wc_id ` set (store_categories st)" if "Some k \<in> set (product_categories db)" for k
  proof (cases "c = Some k")
    case True
    then show ?thesis using known by (auto simp: category_known_def list_ex_iff)
  next
    case False
    then show ?thesis using that sub wf by (auto simp: stores_wf_def)
  qed
  then show ?thesis using wf by (simp add: stores_wf_def)
qed

lemma free_slug:
  assumes "validate_wc_slug self v st = Inr u"
  shows "\<forall>c \<in> set (store_categories st). wc_slug c = v \<longrightarrow> Some (wc_id c) = self"
  using assms by (auto simp: validate_wc_slug_def guardE_def wc_slug_taken_def list_ex_iff split: if_splits)

lemma category_create_wf:
  assumes "DashboardWarehouseCategory_create name slug st = Inr st'" and "stores_wf st"
  shows "stores_wf st'"
  using assms fresh_id_notin [of wc_id "store_categories st"]
  by (auto simp: DashboardWarehouseCategory_create_def stores_wf_def keys_distinct_def add_row_def dest!: free_slug)

lemma category_update_wf:
  assumes "DashboardWarehouseCategory_update pk nm sl st = Inr st'" and wf: "stores_wf st"
  shows "stores_wf st'"
proof -
  let ?f = "\<lambda>c. c\<lparr>wc_name := sent_or nm (wc_name c), wc_slug := sent_or sl (wc_slug c)\<rparr>"
  let ?rows = "upd_row wc_id pk ?f (store_categories st)"
  from assms(1) have st': "st' = st\<lparr>store_categories := ?rows\<rparr>"
    and free: "sl = Some v \<Longrightarrow> \<forall>c \<in> set (store_categories st). wc_slug c = v \<longrightarrow> wc_id c = pk" for v
    by (auto simp: DashboardWarehouseCategory_update_def dest: free_slug)
  have ids: "map wc_id ?rows = map wc_id (store_categories st)"
    by (auto simp: upd_row_def)
  have wc: "keys_distinct wc_id (store_categories st)" "keys_distinct wc_slug (store_categories st)"
    using wf by (auto simp: stores_wf_def)
  have "keys_distinct wc_slug ?rows"
    using wc free
    by (cases sl) (auto simp: keys_distinct_def upd_row_def sent_or_def distinct_map inj_on_def split: if_splits)
  moreover have "wc_id ` set ?rows = wc_id ` set (store_categories st)"
    using ids by (metis list.set_map)
  ultimately show ?thesis
    using wf ids by (auto simp: st' stores_wf_def keys_distinct_def)
qed

lemma category_destroy_wf:
  assumes "DashboardWarehouseCategory_destroy pk st = Inr st'" and wf: "stores_wf st"
  shows "stores_wf st'"
proof -
  have st': "store_categories st' = del_row wc_id pk (store_categories st)"
      "products (store_goods st') = map (clear_category pk) (products (store_goods st))"
    using assms(1) by (auto simp: DashboardWarehouseCategory_destroy_def Let_def)
  have "k \<in> wc_id ` set (store_categories st')" if used: "Some k \<in> set (product_categories (store_goods st'))" for k
  proof -
    obtain p where p: "p \<in> set (products (store_goods st))" "pr_category (clear_category pk p) = Some k"
      using used by (auto simp: product_categories_def st' image_iff eq_commute)
    then have "pr_category p = Some k" "k \<noteq> pk"
      by (auto simp: clear_category_def split: if_splits)
    then have "k \<in> wc_id ` set (store_categories st)"
      using wf p(1) by (force simp: stores_wf_def product_categories_def)
    then show ?thesis using \<open>k \<noteq> pk\<close> by (auto simp: st' del_row_def)
  qed
  moreover have "keys_distinct wc_id (store_categories st')" "keys_distinct wc_slug (store_categories st')"
    using wf by (auto simp: stores_wf_def st' keys_distinct_def del_row_def distinct_map inj_on_def)
  ultimately show ?thesis by (simp add: stores_wf_def)
qed

lemma store_step_wf: "store_step st st' \<Longrightarrow> stores_wf st \<Longrightarrow> stores_wf st'"
proof (induction rule: store_step.induct)
  case (product_create p st st')
  then show ?case
    by (auto simp: DashboardWarehouseProduct_create_def guardE_def product_create_categories split: if_splits
        intro!: stores_wf_goods_known)
next
  case (product_update st pk q)
  then show ?case
    using product_patch_categories [of pk q "store_goods st"]
    by (auto simp: DashboardWarehouseProduct_update_def Let_def split: prod.splits intro!: stores_wf_goods_known)
qed (auto intro: category_create_wf category_update_wf category_destroy_wf stores_wf_goods
      simp: transfer_categories movement_categories dest: product_destroy_categories)

text \<open>Along every history: keys and slugs of the categories are unique, and every product's category
  exists.\<close>

theorem store_history_consistent:
  "store_step\<^sup>*\<^sup>* st st' \<Longrightarrow> stores_wf st \<Longrightarrow> stores_wf st'"
  by (induction rule: rtranclp_induct) (auto dest: store_step_wf)

text \<open>A new category is found under its key, a deleted one no more.\<close>

lemma created_category_found:
  assumes "DashboardWarehouseCategory_create name slug st = Inr st'"
  shows "get_row wc_id (fresh_id wc_id (store_categories st)) (store_categories st') =
    Some \<lparr>wc_id = fresh_id wc_id (store_categories st), wc_name = name, wc_slug = slug\<rparr>"
  using assms by (auto simp: DashboardWarehouseCategory_create_def intro!: store_categories_store.created_found)

lemma destroyed_category_gone:
  "DashboardWarehouseCategory_destroy pk st = Inr st' \<Longrightarrow> get_row wc_id pk (store_categories st') = None"
  by (auto simp: DashboardWarehouseCategory_destroy_def Let_def store_categories_store.deleted_gone)

text \<open>Deleting a category keeps its products.\<close>

lemma category_destroy_keeps_products:
  "DashboardWarehouseCategory_destroy pk st = Inr st' \<Longrightarrow>
    map (\<lambda>p. (pr_id p, pr_quantity p)) (products (store_goods st')) = map (\<lambda>p. (pr_id p, pr_quantity p)) (products (store_goods st))"
  by (auto simp: DashboardWarehouseCategory_destroy_def clear_category_def Let_def)

section \<open>Lists\<close>

text \<open>What the two pages do when they accept a request is the same.\<close>

lemma both_pages_assign_alike:
  assumes "keys_distinct pr_id (products db)" and "keys_distinct ms_id (masters a)"
  shows "DashboardMasterInventory_create mstr m pid n a db = Inr r \<longleftrightarrow> AdminMasterInventoryList_post mstr m pid n a db = Inr r"
proof -
  have known: "get_row key k rows \<noteq> None \<longleftrightarrow> k \<in> key ` set rows" for key :: "'r \<Rightarrow> row_id" and k rows
    by (auto simp: get_row_def find_None_iff)
  show ?thesis
    using known [of ms_id m "masters a"] known [of pr_id pid "filter pr_is_active (products db)"]
    by (auto simp: DashboardMasterInventory_create_def AdminMasterInventoryList_post_def AdminAssignInventorySerializer_save_def
        guardE_def get_or_404_def positive_quantity_def list_ex_iff split: option.splits if_splits)
qed

text \<open>A master sees own tools only, and none that has run out.\<close>

lemma own_tools_only:
  "i \<in> set (MasterInventoryList_get_queryset lk user q st) \<Longrightarrow> mi_master i = user \<and> 0 < mi_quantity i"
  by (auto simp: MasterInventoryList_get_queryset_def by_store_category_def search_filter_def Let_def split: option.splits if_splits)

text \<open>Without a status the dashboard shows the handovers the admin site shows.\<close>

lemma handovers_as_on_admin_site:
  "param q ''status'' = [] \<Longrightarrow> DashboardCashHandoverList_get_queryset q db = rev (CashHandoverAdmin_get_queryset db)"
proof -
  have "withdraw_value st = ''pending'' \<longleftrightarrow> st = W_PENDING" for st by (cases st) auto
  then show "param q ''status'' = [] \<Longrightarrow> DashboardCashHandoverList_get_queryset q db = rev (CashHandoverAdmin_get_queryset db)"
    by (simp add: DashboardCashHandoverList_get_queryset_def CashHandoverAdmin_get_queryset_def rev_filter)
qed

section \<open>Periods\<close>

lemma income_between_split:
  assumes "t0 \<le> t1" and "t1 \<le> t2"
  shows "income_between m t0 t1 db + income_between m t1 t2 db = income_between m t0 t2 db"
proof -
  have "sum_rows f rows + sum_rows g rows = sum_rows (\<lambda>t. f t + g t) rows" for f g and rows :: "wallet_transaction list"
    by (induction rows) (auto simp: sum_rows_def)
  then show ?thesis
    using assms by (auto simp: income_between_def intro!: arg_cong [where f = "\<lambda>f. sum_rows f (wallet_transactions db)"])
qed

lemma periods_adjoin:
  "income_between m (aware (d - 7)) (aware d) db + income_between m (aware d) (aware (d + 7)) db =
    income_between m (aware (d - 7)) (aware (d + 7)) db"
  by (rule income_between_split) (auto simp: aware_def)

text \<open>The week of the statistics begins on a Monday at midnight, at most seven days ago.\<close>

lemma week_begins_on_monday:
  assumes "today = local_date now" and "start = today - int (weekday today)"
  shows "weekday start = 0" and "aware start \<le> now" and "now < aware (start + 7)"
proof -
  show "weekday start = 0" using assms(2) by (simp add: weekday_def) presburger
  have "int (weekday today) = (today + 6) mod 7" by (simp add: weekday_def)
  then have days: "start \<le> today" "today < start + 7" using assms(2) by auto
  have "aware today \<le> now" "now < aware (today + 1)"
    using assms(1) by (auto simp: aware_def local_date_def)
  then show "aware start \<le> now" "now < aware (start + 7)" using days by (auto simp: aware_def)
qed

end
