(* ===== verification/Profile_Pages.thy ===== *)
theory Profile_Pages
  imports Order_Screens Store_Lists
begin

text \<open>
  The profile pages of clients and masters, the start screen of the master's app
  (\<open>src/apps/accounts/views.py\<close>), and the certificates and documents a master uploads
  (\<open>src/apps/profiles/views.py\<close>).

  \<^item> State of the uploads: \<open>papers\<close>, the rows of both tables and of the policy; an uploaded file
    is the name it is stored under.
  \<^item> The links, choices and names of sockets in the answers are constants and left out.
\<close>

section \<open>Profiles\<close>

record client_profile =
  cpf_client :: client
  cpf_current_tariff :: "string option"
  cpf_expires_at :: "instant option"
  cpf_addresses :: nat

definition ClientSerializer_data :: "sys \<Rightarrow> client \<Rightarrow> client_profile" where
  "ClientSerializer_data s c =
    \<lparr>cpf_client = c, cpf_current_tariff = current_tariff_name (cl_id c) s,
     cpf_expires_at = Option.bind (get_row sb_client (cl_id c) (subscriptions (profiles s))) tariff_expires_at,
     cpf_addresses = count_rows (\<lambda>x. ca_client x = cl_id c) (addresses (profiles s))\<rparr>"

record client_profile_patch =
  cpp_first_name :: "string option"
  cpp_last_name :: "string option"
  cpp_language :: "language option"
  cpp_notifications :: "bool option"
  cpp_push :: "bool option"

definition ClientProfile_update :: "row_id \<Rightarrow> client_profile_patch \<Rightarrow> accounts_db \<Rightarrow> accounts_db" where
  "ClientProfile_update user p db =
    db\<lparr>clients := upd_row cl_id user (\<lambda>c. c\<lparr>cl_first_name := sent_or (cpp_first_name p) (cl_first_name c),
        cl_last_name := sent_or (cpp_last_name p) (cl_last_name c), cl_language := sent_or (cpp_language p) (cl_language c),
        cl_notifications := sent_or (cpp_notifications p) (cl_notifications c), cl_push := sent_or (cpp_push p) (cl_push c)\<rparr>) (clients db)\<rparr>"

text \<open>The row is saved as a whole, so the signal of a saved master follows, see \<open>save_master\<close>.\<close>

record master_profile_patch =
  mpp_first_name :: "string option"
  mpp_last_name :: "string option"
  mpp_specialization :: "string option"
  mpp_online :: "bool option"
  mpp_available :: "bool option"
  mpp_language :: "language option"
  mpp_notifications :: "bool option"
  mpp_push :: "bool option"

definition patch_profile :: "master_profile_patch \<Rightarrow> master \<Rightarrow> master" where
  "patch_profile p m =
    m\<lparr>ms_first_name := sent_or (mpp_first_name p) (ms_first_name m), ms_last_name := sent_or (mpp_last_name p) (ms_last_name m),
      specialization := sent_or (mpp_specialization p) (specialization m), is_online := sent_or (mpp_online p) (is_online m),
      is_available := sent_or (mpp_available p) (is_available m), ms_language := sent_or (mpp_language p) (ms_language m),
      ms_notifications := sent_or (mpp_notifications p) (ms_notifications m), ms_push := sent_or (mpp_push p) (ms_push m)\<rparr>"

definition MasterProfile_update :: "(string \<Rightarrow> string) \<Rightarrow> row_id \<Rightarrow> master_profile_patch \<Rightarrow> accounts_db \<Rightarrow> accounts_db res" where
  "MasterProfile_update mk user p db = save_master mk user (patch_profile p) db"

section \<open>The start screen of the master\<close>

record master_start =
  mst_master :: master
  mst_new :: "order_screen list"
  mst_current :: "order_screen list"
  mst_stats :: home_stats
  mst_unread :: nat
  mst_withdraws :: "withdraw_request list"
  mst_low_stock :: "master_inventory list"

text \<open>The counter of running orders takes other statuses here than on the home screen.\<close>

definition start_stats :: "int \<Rightarrow> row_id \<Rightarrow> sys \<Rightarrow> home_stats" where
  "start_stats today user s =
    (home_stats_of today user s)\<lparr>hs_in_process :=
      count_rows (\<lambda>ord. assigned_to user s ord \<and> o_status ord \<in> set ACTIVE_ORDER_STATUSES) (orders s)\<rparr>"

definition MasterAppBootstrap_get ::
  "(row_id \<Rightarrow> string) \<Rightarrow> string option \<Rightarrow> int \<Rightarrow> master \<Rightarrow> accounts_db \<Rightarrow> notification_db \<Rightarrow> sys \<Rightarrow> sys \<times> master_start" where
  "MasterAppBootstrap_get uuid_text origin today m a ndb s =
    (let user = ms_id m; s1 = s\<lparr>wallet := get_or_create_wallet user (wallet s)\<rparr>;
         show = map (OrderSerializer_data uuid_text origin a s1);
         mine = filter (assigned_to user s1) (newest s1)
     in (s1, \<lparr>mst_master = m, mst_new = show (take 10 (filter (\<lambda>ord. o_status ord = NEW) mine)),
         mst_current = show (take 5 (filter (\<lambda>ord. o_status ord \<in> set ACTIVE_ORDER_STATUSES) mine)),
         mst_stats = start_stats today user s1, mst_unread = unread_notifications (MasterSubject m) ndb,
         mst_withdraws = take 5 (filter (\<lambda>r. wr_master r = user) (rev (withdraw_requests (wallet s1)))),
         mst_low_stock = take 5 (LowStockInventoryView_get_queryset user (warehouse s1))\<rparr>))"

section \<open>Certificates, documents, policy\<close>

record paper =
  pa_id :: row_id
  pa_master :: row_id
  pa_title :: string
  pa_file :: string

record privacy_policy =
  pv_content :: string
  pv_version :: string
  pv_updated_at :: instant

record papers =
  certificates :: "paper list"
  documents :: "paper list"
  policies :: "privacy_policy list"

definition own_papers :: "row_id \<Rightarrow> paper list \<Rightarrow> paper list" where
  "own_papers user rows = filter (\<lambda>x. pa_master x = user) (rev rows)"

definition add_paper :: "row_id \<Rightarrow> string \<Rightarrow> string \<Rightarrow> paper list \<Rightarrow> paper list" where
  "add_paper user title file rows = add_row \<lparr>pa_id = fresh_id pa_id rows, pa_master = user, pa_title = title, pa_file = file\<rparr> rows"

definition MasterCertificateList_get_queryset :: "row_id \<Rightarrow> papers \<Rightarrow> paper list" where
  "MasterCertificateList_get_queryset user db = own_papers user (certificates db)"

definition MasterCertificateList_perform_create :: "row_id \<Rightarrow> string \<Rightarrow> string \<Rightarrow> papers \<Rightarrow> papers" where
  "MasterCertificateList_perform_create user title file db = db\<lparr>certificates := add_paper user title file (certificates db)\<rparr>"

definition MasterCertificateDelete_destroy :: "row_id \<Rightarrow> row_id \<Rightarrow> papers \<Rightarrow> papers res" where
  "MasterCertificateDelete_destroy user pk db =
    bindE (get_or_404 ''MasterCertificate'' (get_row pa_id pk (own_papers user (certificates db)))) (\<lambda>_.
      Inr (db\<lparr>certificates := del_row pa_id pk (certificates db)\<rparr>))"

definition MasterDocumentList_get_queryset :: "row_id \<Rightarrow> papers \<Rightarrow> paper list" where
  "MasterDocumentList_get_queryset user db = own_papers user (documents db)"

definition MasterDocumentList_perform_create :: "row_id \<Rightarrow> string \<Rightarrow> string \<Rightarrow> papers \<Rightarrow> papers" where
  "MasterDocumentList_perform_create user title file db = db\<lparr>documents := add_paper user title file (documents db)\<rparr>"

text \<open>Without a policy the serializer is handed nothing, and answers with empty fields.\<close>

definition PrivacyPolicy_get :: "papers \<Rightarrow> privacy_policy option" where
  "PrivacyPolicy_get db =
    (case sort_key (\<lambda>x. - pv_updated_at x) (policies db) of [] \<Rightarrow> None | x # _ \<Rightarrow> Some x)"

section \<open>Devices\<close>

text \<open>The card of a device: how many orders name it, and the last of them.\<close>

definition orders_of_device :: "row_id \<Rightarrow> sys \<Rightarrow> order list" where
  "orders_of_device k s = filter (\<lambda>ord. o_device ord = Some k) (orders s)"

definition ClientDeviceSerializer_get_order_count :: "client_device \<Rightarrow> sys \<Rightarrow> nat" where
  "ClientDeviceSerializer_get_order_count d s = length (orders_of_device (cd_id d) s)"

definition ClientDeviceSerializer_get_last_order :: "client_device \<Rightarrow> sys \<Rightarrow> (row_id \<times> order_status \<times> money) option" where
  "ClientDeviceSerializer_get_last_order d s =
    (case rev (orders_of_device (cd_id d) s) of [] \<Rightarrow> None | ord # _ \<Rightarrow> Some (o_id ord, o_status ord, total_amount ord))"

section \<open>Properties\<close>

text \<open>The own profile changes nothing an administrator decides: number, password, approval, block.\<close>

lemma master_profile_keeps_approval:
  assumes "MasterProfile_update mk user p db = Inr db'" and "m' \<in> set (masters db')"
  shows "\<exists>m \<in> set (masters db). ms_id m = ms_id m' \<and> ms_phone m = ms_phone m' \<and> approval_status m = approval_status m' \<and>
    is_blocked m = is_blocked m' \<and> ms_active m = ms_active m'"
proof -
  obtain r where r: "r \<in> set (masters db)" "m' = (if ms_id r = user then save_password mk (patch_profile p r) else r)"
    using assms by (auto simp: MasterProfile_update_def save_master_def upd_row_def split: option.splits)
  have kept: "ms_id m' = ms_id r" "ms_phone m' = ms_phone r" "approval_status m' = approval_status r"
      "is_blocked m' = is_blocked r" "ms_active m' = ms_active r"
    using r(2) by (simp_all add: save_password_def patch_profile_def)
  show ?thesis using r(1) by (intro bexI [of _ r]) (simp_all add: kept)
qed

lemma certificates_are_own:
  assumes "MasterCertificateDelete_destroy user pk db = Inr db'" and "keys_distinct pa_id (certificates db)"
  shows "MasterCertificateList_get_queryset other db' =
    (if other = user then filter (\<lambda>x. pa_id x \<noteq> pk) (MasterCertificateList_get_queryset user db)
     else MasterCertificateList_get_queryset other db)"
proof -
  obtain x where x: "x \<in> set (certificates db)" "pa_id x = pk" "pa_master x = user"
    and db': "db' = db\<lparr>certificates := del_row pa_id pk (certificates db)\<rparr>"
    using assms(1) by (auto simp: MasterCertificateDelete_destroy_def get_or_404_def own_papers_def
        dest!: get_row_SomeD split: option.splits)
  have "pa_master y = user" if "y \<in> set (certificates db)" "pa_id y = pk" for y
    using that x assms(2) by (auto simp: keys_distinct_def distinct_map inj_on_def)
  then show ?thesis
    by (auto simp: db' MasterCertificateList_get_queryset_def own_papers_def del_row_def rev_filter [symmetric] intro!: filter_cong)
qed

text \<open>A certificate is listed to its master until it is deleted.\<close>

lemma certificate_round_trip:
  "MasterCertificateList_get_queryset user (MasterCertificateList_perform_create user title file db) =
    \<lparr>pa_id = fresh_id pa_id (certificates db), pa_master = user, pa_title = title, pa_file = file\<rparr> #
    MasterCertificateList_get_queryset user db"
  by (simp add: MasterCertificateList_get_queryset_def MasterCertificateList_perform_create_def own_papers_def add_paper_def add_row_def)

text \<open>An order that awaits its payment is running on the home screen, not on the start screen.\<close>

lemma start_screen_drops_unpaid:
  assumes "ord \<in> set (orders s)" and "o_status ord = AWAITING_PAYMENT" and "assigned_to user s ord"
  shows "hs_in_process (start_stats today user s) < hs_in_process (home_stats_of today user s)"
proof -
  let ?in = "\<lambda>ord. assigned_to user s ord \<and> o_status ord \<in> set MASTER_IN_PROGRESS_STATUSES"
  let ?act = "\<lambda>ord. assigned_to user s ord \<and> o_status ord \<in> set ACTIVE_ORDER_STATUSES"
  have "filter ?act (orders s) = filter ?act (filter ?in (orders s))"
    by (auto simp: MASTER_IN_PROGRESS_STATUSES_def ACTIVE_ORDER_STATUSES_def intro: filter_cong)
  moreover have "length (filter ?act (filter ?in (orders s))) < length (filter ?in (orders s))"
    using assms by (intro length_filter_less [of ord])
      (auto simp: MASTER_IN_PROGRESS_STATUSES_def ACTIVE_ORDER_STATUSES_def)
  ultimately show ?thesis by (simp add: start_stats_def home_stats_of_def count_rows_def Let_def)
qed

text \<open>An order placed for a device is the last one its card shows, and the only card that changes.\<close>

lemma new_order_on_device_card:
  assumes "orders s' = add_row ord (orders s)"
  shows "ClientDeviceSerializer_get_order_count d s' =
      ClientDeviceSerializer_get_order_count d s + (if o_device ord = Some (cd_id d) then 1 else 0)"
    and "ClientDeviceSerializer_get_last_order d s' =
      (if o_device ord = Some (cd_id d) then Some (o_id ord, o_status ord, total_amount ord)
       else ClientDeviceSerializer_get_last_order d s)"
  using assms
  by (simp_all add: ClientDeviceSerializer_get_order_count_def ClientDeviceSerializer_get_last_order_def
      orders_of_device_def add_row_def)

end
