(* ===== verification/Payme_SDK.thy ===== *)
theory Payme_SDK
  imports Payme_Model
begin

text \<open>
  The client side of the payment provider: requests on cards and receipts, the errors the
  provider answers with, and the reading of its answers into nested data classes
  (\<open>src/apps/payme/classes/\<close>, \<open>exceptions/general.py\<close>, \<open>types/response/\<close>).

  \<^item> What the network answers is a parameter: \<open>net\<close> gives the decoded JSON, or a failure of the
    request (any of \<open>networking_errors\<close>, an HTTP error status included).
  \<^item> A data class is the list of its fields with the kind of their annotation, see \<open>field_kind\<close>; an
    object is the list of its fields with their values.
  \<^item> What Python raises on its own is a \<open>Crash\<close>.
\<close>

section \<open>Errors\<close>

datatype payme_class =
    BaseError | TransportError | ParseError | InvalidRequestError | InvalidResponseError | PaymeSystemError
  | MethodNotFoundError | InvalidParamsError | InvalidTokenFormat | AccessDeniedError | CardNotFoundError
  | SmsNotConnectedError | CardExpiredError | CardBlockedError | CorporateCardError | BalanceError
  | InsufficientFundsError | InsufficientFundsErrorV2 | InvalidCardNumberError | CardNotFoundWithNumberError
  | InvalidExpiryDateError | ProcessingServerError | OtpSendError | OtpExpiredError | OtpAttemptsExceededError
  | OtpInvalidCodeError | PaymeNetworkError | ReceiptsNotFoundError | UnknownPartnerError

text \<open>The code a class hands to its base class; \<open>BaseError\<close> takes it as an argument.\<close>

fun class_code :: "payme_class \<Rightarrow> int option" where
  "class_code BaseError = None"
| "class_code TransportError = Some (-32300)"
| "class_code ParseError = Some (-32700)"
| "class_code InvalidRequestError = Some (-32600)"
| "class_code InvalidResponseError = Some (-32600)"
| "class_code PaymeSystemError = Some (-32400)"
| "class_code MethodNotFoundError = Some (-32601)"
| "class_code InvalidParamsError = Some (-32602)"
| "class_code InvalidTokenFormat = Some (-32500)"
| "class_code AccessDeniedError = Some (-32504)"
| "class_code CardNotFoundError = Some (-31400)"
| "class_code SmsNotConnectedError = Some (-31301)"
| "class_code CardExpiredError = Some (-31301)"
| "class_code CardBlockedError = Some (-31301)"
| "class_code CorporateCardError = Some (-31300)"
| "class_code BalanceError = Some (-31302)"
| "class_code InsufficientFundsError = Some (-31303)"
| "class_code InsufficientFundsErrorV2 = Some (-31630)"
| "class_code InvalidCardNumberError = Some (-31300)"
| "class_code CardNotFoundWithNumberError = Some (-31300)"
| "class_code InvalidExpiryDateError = Some (-31300)"
| "class_code ProcessingServerError = Some (-31002)"
| "class_code OtpSendError = Some (-31110)"
| "class_code OtpExpiredError = Some (-31101)"
| "class_code OtpAttemptsExceededError = Some (-31102)"
| "class_code OtpInvalidCodeError = Some (-31103)"
| "class_code PaymeNetworkError = Some (-32300)"
| "class_code ReceiptsNotFoundError = Some (-31602)"
| "class_code UnknownPartnerError = Some (-31601)"

definition errors_map :: "(int \<times> payme_class) list" where
  "errors_map =
    [(-32300, TransportError), (-32700, ParseError), (-32600, InvalidRequestError), (-32601, MethodNotFoundError),
     (-32602, InvalidParamsError), (-32504, AccessDeniedError), (-31400, CardNotFoundError), (-31301, SmsNotConnectedError),
     (-31302, BalanceError), (-31303, InsufficientFundsError), (-31630, InsufficientFundsErrorV2),
     (-31300, InvalidCardNumberError), (-31002, ProcessingServerError), (-31110, OtpSendError), (-31101, OtpExpiredError),
     (-31102, OtpAttemptsExceededError), (-31103, OtpInvalidCodeError), (-31602, ReceiptsNotFoundError),
     (-32500, InvalidTokenFormat), (-31601, UnknownPartnerError), (-32400, PaymeSystemError)]"

record sdk_error =
  err_class :: payme_class
  err_code :: json
  err_message :: json
  err_data :: json

datatype sdk_failure = Raised sdk_error | Crash string

type_synonym 'a sdk = "sdk_failure + 'a"

fun bindS :: "'a sdk \<Rightarrow> ('a \<Rightarrow> 'b sdk) \<Rightarrow> 'b sdk" where
  "bindS (Inl e) f = Inl e"
| "bindS (Inr x) f = f x"

lemma bindS_eq_Inr_iff [simp]: "bindS r f = Inr y \<longleftrightarrow> (\<exists>x. r = Inr x \<and> f x = Inr y)"
  by (cases r) auto

text \<open>A code is looked up among integers; a float with the same value is the same key, a list or an
  object is no key at all.\<close>

definition code_key :: "json \<Rightarrow> int option sdk" where
  "code_key c =
    (case c of
       JInt n \<Rightarrow> Inr (Some n)
     | JFloat m k \<Rightarrow> Inr (if m mod 10 ^ k = 0 then Some (m div 10 ^ k) else None)
     | JList _ \<Rightarrow> Inl (Crash ''unhashable type: list'')
     | JObj _ \<Rightarrow> Inl (Crash ''unhashable type: dict'')
     | _ \<Rightarrow> Inr None)"

definition dict_get :: "(string \<times> json) list \<Rightarrow> string \<Rightarrow> json \<Rightarrow> json" where
  "dict_get kvs k dflt = (case map_of kvs k of None \<Rightarrow> dflt | Some v \<Rightarrow> v)"

definition handle_payme_error :: "json \<Rightarrow> 'a sdk" where
  "handle_payme_error e =
    (case e of
       JObj kvs \<Rightarrow>
         let code = dict_get kvs ''code'' (JStr ''Unknown code''); msg = dict_get kvs ''message'' (JStr ''Unknown error'');
             info = dict_get kvs ''data'' (JStr [])
         in bindS (code_key code) (\<lambda>k.
           case Option.bind k (map_of errors_map) of
             None \<Rightarrow> Inl (Raised \<lparr>err_class = BaseError, err_code = code, err_message = msg, err_data = JNull\<rparr>)
           | Some c \<Rightarrow> Inl (Raised \<lparr>err_class = c, err_code = JInt (the (class_code c)), err_message = msg, err_data = info\<rparr>))
     | _ \<Rightarrow> Inl (Crash ''object has no attribute get''))"

section \<open>Requests\<close>

datatype http_answer = Answered json | Failed string

record http_client =
  hc_url :: string
  hc_headers :: "(string \<times> string) list"

type_synonym network = "http_client \<Rightarrow> json \<Rightarrow> http_answer"

text \<open>Anything but an object fails: on the test for the key, on the access, or in \<open>from_dict\<close>.\<close>

definition http_post :: "network \<Rightarrow> http_client \<Rightarrow> json \<Rightarrow> (string \<times> json) list sdk" where
  "http_post net http body =
    (case net http body of
       Failed reason \<Rightarrow> Inl (Raised \<lparr>err_class = PaymeNetworkError, err_code = JInt (-32300),
          err_message = JStr ''Network error occurred during request to Payme server.'', err_data = JStr reason\<rparr>)
     | Answered v \<Rightarrow>
         (case v of
            JObj kvs \<Rightarrow> (case map_of kvs ''error'' of None \<Rightarrow> Inr kvs | Some e \<Rightarrow> handle_payme_error e)
          | _ \<Rightarrow> Inl (Crash ''the answer is no object'')))"

section \<open>Answers\<close>

text \<open>What the annotation of a field is: a class that is no \<open>Common\<close>, something that is no class at all
  (\<open>Optional\<close>, \<open>Union\<close>, \<open>list[...]\<close>, the function \<open>any\<close>), or a data class.\<close>

datatype field_kind = Plain | NoClass | Nested "(string \<times> field_kind) list"

datatype py_value = Raw json | Obj "(string \<times> py_value) list"

fun read_field :: "field_kind \<Rightarrow> json \<Rightarrow> py_value sdk"
  and from_dict :: "(string \<times> field_kind) list \<Rightarrow> (string \<times> json) list \<Rightarrow> (string \<times> py_value) list sdk" where
  "read_field Plain v = Inr (Raw v)"
| "read_field NoClass v =
    (case v of JObj _ \<Rightarrow> Inl (Crash ''issubclass() arg 1 must be a class'') | _ \<Rightarrow> Inr (Raw v))"
| "read_field (Nested fs) v = (case v of JObj kvs \<Rightarrow> bindS (from_dict fs kvs) (\<lambda>x. Inr (Obj x)) | _ \<Rightarrow> Inr (Raw v))"
| "from_dict [] kvs = Inr []"
| "from_dict ((name, kind) # fs) kvs =
    bindS (read_field kind (json_get kvs name)) (\<lambda>x. bindS (from_dict fs kvs) (\<lambda>xs. Inr ((name, x) # xs)))"

type_synonym data_class = "(string \<times> field_kind) list"

definition plain :: "string list \<Rightarrow> data_class" where
  "plain names = map (\<lambda>n. (n, Plain)) names"

definition no_class :: "string list \<Rightarrow> data_class" where
  "no_class names = map (\<lambda>n. (n, NoClass)) names"

subsection \<open>Cards\<close>

definition Card_class :: data_class where
  "Card_class = plain [''number'', ''expire'', ''token'', ''recurrent'', ''verify'', ''type''] @ no_class [''number_hash'']"

definition CardResult :: data_class where
  "CardResult = [(''card'', Nested Card_class)]"

definition CardsCreateResponse :: data_class where
  "CardsCreateResponse = [(''jsonrpc'', Plain), (''result'', Nested CardResult)]"

definition VerifyResult :: data_class where
  "VerifyResult = plain [''sent'', ''phone'', ''wait'']"

definition GetVerifyResponse :: data_class where
  "GetVerifyResponse = [(''jsonrpc'', Plain), (''result'', Nested VerifyResult)]"

definition RemoveResponse :: data_class where
  "RemoveResponse = [(''jsonrpc'', Plain), (''result'', Nested (plain [''success'']))]"

definition cards_methods :: "(string \<times> data_class) list" where
  "cards_methods = [(''cards.create'', CardsCreateResponse), (''cards.get_verify_code'', GetVerifyResponse),
     (''cards.verify'', CardsCreateResponse), (''cards.remove'', RemoveResponse), (''cards.check'', CardsCreateResponse)]"

subsection \<open>Receipts\<close>

definition Detail_class :: data_class where
  "Detail_class = no_class [''discount'', ''shipping'', ''items'']"

definition Meta_class :: data_class where
  "Meta_class = no_class [''source'', ''owner'', ''host'']"

text \<open>\<open>Merchant\<close> is a data class, but no \<open>Common\<close>: it is left as it comes.\<close>

definition Receipt_class :: data_class where
  "Receipt_class =
    plain [''_id'', ''create_time'', ''pay_time'', ''cancel_time'', ''state'', ''type'', ''external'', ''operation''] @
    no_class [''error''] @ plain [''description''] @ [(''detail'', Nested Detail_class)] @
    plain [''currency'', ''commission'', ''card'', ''creator''] @ [(''payer'', Nested (plain [''phone'']))] @
    no_class [''amount'', ''account''] @ plain [''merchant'', ''processing_id''] @ [(''meta'', Nested Meta_class)]"

definition CreateResponse :: data_class where
  "CreateResponse = [(''result'', Nested [(''receipt'', Nested Receipt_class)])]"

definition receipts_methods :: "(string \<times> data_class) list" where
  "receipts_methods = [(''receipts.create'', CreateResponse), (''receipts.pay'', CreateResponse),
     (''receipts.send'', [(''result'', Nested (plain [''success'']))]), (''receipts.cancel'', CreateResponse),
     (''receipts.check'', [(''result'', Nested (plain [''state'']))]), (''receipts.get'', CreateResponse),
     (''receipts.get_all'', [(''result'', NoClass)])]"

section \<open>The client\<close>

definition post_request ::
  "network \<Rightarrow> http_client \<Rightarrow> (string \<times> data_class) list \<Rightarrow> string \<Rightarrow> (string \<times> json) list \<Rightarrow> (string \<times> py_value) list sdk" where
  "post_request net http methods meth params =
    bindS (http_post net http (JObj [(''method'', JStr meth), (''params'', JObj params)])) (\<lambda>kvs.
      case map_of methods meth of None \<Rightarrow> Inl (Crash ''KeyError'') | Some cls \<Rightarrow> from_dict cls kvs)"

record payme_client =
  pc_cards :: http_client
  pc_receipts :: http_client

definition network_url :: "bool \<Rightarrow> string" where
  "network_url is_test = (if is_test then ''https://checkout.test.paycom.uz/api'' else ''https://checkout.paycom.uz/api'')"

definition Payme_init :: "string \<Rightarrow> string \<Rightarrow> bool \<Rightarrow> payme_client" where
  "Payme_init payme_id payme_key is_test =
    \<lparr>pc_cards = \<lparr>hc_url = network_url is_test, hc_headers = [(''X-Auth'', payme_id), (''Content-Type'', ''application/json'')]\<rparr>,
     pc_receipts = \<lparr>hc_url = network_url is_test,
       hc_headers = [(''X-Auth'', payme_id @ '':'' @ payme_key), (''Content-Type'', ''application/json'')]\<rparr>\<rparr>"

datatype cards_call =
    CardsCreate string string bool
  | CardsGetVerifyCode string
  | CardsVerify string string
  | CardsRemove string
  | CardsCheck string

fun cards_body :: "cards_call \<Rightarrow> string \<times> (string \<times> json) list" where
  "cards_body (CardsCreate number expire save) =
    (''cards.create'', [(''card'', JObj [(''number'', JStr number), (''expire'', JStr expire)]), (''save'', JBool save)])"
| "cards_body (CardsGetVerifyCode tok) = (''cards.get_verify_code'', [(''token'', JStr tok)])"
| "cards_body (CardsVerify tok code) = (''cards.verify'', [(''token'', JStr tok), (''code'', JStr code)])"
| "cards_body (CardsRemove tok) = (''cards.remove'', [(''token'', JStr tok)])"
| "cards_body (CardsCheck tok) = (''cards.check'', [(''token'', JStr tok)])"

definition Cards_call :: "network \<Rightarrow> payme_client \<Rightarrow> cards_call \<Rightarrow> (string \<times> py_value) list sdk" where
  "Cards_call net pc c = (let (meth, params) = cards_body c in post_request net (pc_cards pc) cards_methods meth params)"

datatype receipts_call =
    ReceiptsCreate json int "string option" json
  | ReceiptsPay string string
  | ReceiptsSend string string
  | ReceiptsCancel string
  | ReceiptsCheck string
  | ReceiptsGet string
  | ReceiptsGetAll int int int int

definition json_opt :: "string option \<Rightarrow> json" where
  "json_opt v = (case v of None \<Rightarrow> JNull | Some s \<Rightarrow> JStr s)"

fun receipts_body :: "receipts_call \<Rightarrow> string \<times> (string \<times> json) list" where
  "receipts_body (ReceiptsCreate account amount description detail) =
    (''receipts.create'', [(''amount'', JInt amount), (''account'', account), (''description'', json_opt description), (''detail'', detail)])"
| "receipts_body (ReceiptsPay rid tok) = (''receipts.pay'', [(''id'', JStr rid), (''token'', JStr tok)])"
| "receipts_body (ReceiptsSend rid phone) = (''receipts.send'', [(''id'', JStr rid), (''phone'', JStr phone)])"
| "receipts_body (ReceiptsCancel rid) = (''receipts.cancel'', [(''id'', JStr rid)])"
| "receipts_body (ReceiptsCheck rid) = (''receipts.check'', [(''id'', JStr rid)])"
| "receipts_body (ReceiptsGet rid) = (''receipts.get'', [(''id'', JStr rid)])"
| "receipts_body (ReceiptsGetAll n start stop offset) =
    (''receipts.get_all'', [(''count'', JInt n), (''from'', JInt start), (''to'', JInt stop), (''offset'', JInt offset)])"

definition Receipts_call :: "network \<Rightarrow> payme_client \<Rightarrow> receipts_call \<Rightarrow> (string \<times> py_value) list sdk" where
  "Receipts_call net pc c = (let (meth, params) = receipts_body c in post_request net (pc_receipts pc) receipts_methods meth params)"

section \<open>Properties\<close>

text \<open>Every class of the map carries the code it stands for, so an error keeps the provider's code.\<close>

lemma errors_map_codes: "(n, c) \<in> set errors_map \<Longrightarrow> class_code c = Some n"
  by (auto simp: errors_map_def)

theorem error_keeps_code:
  assumes "map_of kvs ''code'' = Some (JInt n)"
  shows "\<exists>x. handle_payme_error (JObj kvs) = Inl (Raised x) \<and> err_code x = JInt n \<and>
    err_message x = dict_get kvs ''message'' (JStr ''Unknown error'')"
  using assms errors_map_codes
  by (auto simp: handle_payme_error_def dict_get_def code_key_def Let_def dest!: map_of_SomeD split: option.splits)

text \<open>No error of the provider is taken for an answer, and none passes silently.\<close>

lemma handle_never_returns: "\<exists>e. handle_payme_error v = Inl e"
proof -
  have "\<exists>e. bindS r (\<lambda>k. case f k of None \<Rightarrow> Inl (a k) | Some c \<Rightarrow> Inl (b k c)) = Inl e" for r :: "int option sdk" and f a b
    by (cases r) (auto split: option.splits)
  then show ?thesis by (auto simp: handle_payme_error_def Let_def split: json.splits)
qed

theorem answers_carry_no_error:
  assumes "http_post net http body = Inr kvs"
  shows "net http body = Answered (JObj kvs) \<and> map_of kvs ''error'' = None"
proof -
  have no_return: "handle_payme_error v \<noteq> Inr kvs" for v
  proof -
    obtain e where "handle_payme_error v = (Inl e :: (string \<times> json) list sdk)"
      using handle_never_returns by blast
    then show ?thesis by simp
  qed
  show ?thesis
    using assms no_return by (auto simp: http_post_def split: http_answer.splits json.splits option.splits)
qed

text \<open>An object has exactly the fields of its class, in their order.\<close>

lemma from_dict_fields: "from_dict fs kvs = Inr x \<Longrightarrow> map fst x = map fst fs"
  by (induction fs arbitrary: x) auto

lemma from_dict_plain: "from_dict (plain names) kvs = Inr (map (\<lambda>n. (n, Raw (json_get kvs n))) names)"
  by (induction names) (auto simp: plain_def)

text \<open>Every call names a method its table knows.\<close>

lemma calls_known:
  "map_of cards_methods (fst (cards_body c)) \<noteq> None" "map_of receipts_methods (fst (receipts_body r)) \<noteq> None"
  by (cases c; simp add: cards_methods_def) (cases r; simp add: receipts_methods_def)

text \<open>An answer to \<open>cards.remove\<close> is read to the flag it carries.\<close>

lemma remove_answer_read:
  assumes "net (pc_cards pc) (JObj [(''method'', JStr ''cards.remove''), (''params'', JObj [(''token'', JStr tok)])]) =
      Answered (JObj [(''jsonrpc'', JStr ''2.0''), (''result'', JObj [(''success'', JBool b)])])"
  shows "Cards_call net pc (CardsRemove tok) =
    Inr [(''jsonrpc'', Raw (JStr ''2.0'')), (''result'', Obj [(''success'', Raw (JBool b))])]"
  using assms
  by (simp add: Cards_call_def post_request_def http_post_def cards_methods_def RemoveResponse_def plain_def json_get_def)

text \<open>A receipt whose detail holds a discount cannot be read, nor one that carries an error.\<close>

lemma discount_crashes:
  assumes "json_get kvs ''discount'' = JObj d"
  shows "from_dict Detail_class kvs = Inl (Crash ''issubclass() arg 1 must be a class'')"
  using assms by (simp add: Detail_class_def no_class_def)

lemma failed_receipt_crashes:
  assumes "json_get kvs ''error'' = JObj e"
  shows "from_dict Receipt_class kvs = Inl (Crash ''issubclass() arg 1 must be a class'')"
  using assms by (simp add: Receipt_class_def no_class_def plain_def)

text \<open>Expired and blocked cards are reported as a card without messages.\<close>

lemma expired_card_never_raised: "CardExpiredError \<notin> snd ` set errors_map" "CardBlockedError \<notin> snd ` set errors_map"
  by (auto simp: errors_map_def)

end
