(* ===== verification/Sockets.thy ===== *)
theory Sockets
  imports Live_Board_Props Support_Props Notification_Props Tracking_Props
begin

text \<open>
  The sockets: \<open>src/config/routing.py\<close> and the consumers of \<open>orders\<close>, \<open>notifications\<close>, \<open>support\<close> and
  \<open>dashboard\<close>. Which path puts a socket into which group of the channel layer, which group an event of
  the code is sent to, and what a socket writes for an event it is handed.

  \<^item> The channel layer is a library: it hands what is sent to a group to the sockets that joined the
    group, and raises in a socket whose consumer has no handler for the type of the event.
  \<^item> A message is named by its key, a notification and the payloads of tracking and board by their values.
\<close>

section \<open>Paths and groups\<close>

datatype ws_path =
    MasterTrackingPath
  | ClientTrackPath row_id
  | MasterNotificationsPath
  | ClientNotificationsPath
  | DashboardOrdersPath
  | MasterSupportPath
  | ClientSupportPath
  | SupportChatPath row_id
  | SupportLobbyPath

datatype channel_group =
    OrderTracking row_id
  | MasterTracking row_id
  | NotificationsOf participant
  | SupportOf participant
  | SupportAdmins
  | DashboardOrders

definition role_group :: "string \<Rightarrow> (row_id \<Rightarrow> string) \<Rightarrow> participant \<Rightarrow> string" where
  "role_group prefix uuid p =
    (case p of PClient k \<Rightarrow> prefix @ ''client_'' @ uuid k | PMaster k \<Rightarrow> prefix @ ''master_'' @ uuid k)"

definition tracking_group :: "(row_id \<Rightarrow> string) \<Rightarrow> row_id \<Rightarrow> string" where
  "tracking_group uuid k = ''order_tracking_'' @ uuid k"

definition group_name :: "(row_id \<Rightarrow> string) \<Rightarrow> channel_group \<Rightarrow> string" where
  "group_name uuid g =
    (case g of
       OrderTracking k \<Rightarrow> tracking_group uuid k
     | MasterTracking k \<Rightarrow> ''master_tracking_'' @ uuid k
     | NotificationsOf p \<Rightarrow> role_group ''notifications_'' uuid p
     | SupportOf p \<Rightarrow> role_group ''support_'' uuid p
     | SupportAdmins \<Rightarrow> ''support_admin''
     | DashboardOrders \<Rightarrow> ''dashboard_orders'')"

text \<open>The group a socket joins; \<open>None\<close> when the connection is closed.\<close>

definition participant_of :: "subject \<Rightarrow> participant option" where
  "participant_of user =
    (case user of ClientSubject c \<Rightarrow> Some (PClient (cl_id c)) | MasterSubject m \<Rightarrow> Some (PMaster (ms_id m)) | StaffSubject _ \<Rightarrow> None)"

definition support_socket :: "instant \<Rightarrow> participant_role \<Rightarrow> subject option \<Rightarrow> support_db \<Rightarrow> channel_group option" where
  "support_socket now role user db =
    (case SupportConsumer_connect now role user db of
       None \<Rightarrow> None
     | Some _ \<Rightarrow> map_option SupportOf (Option.bind user participant_of))"

definition joins :: "instant \<Rightarrow> sys \<Rightarrow> support_db \<Rightarrow> subject option \<Rightarrow> ws_path \<Rightarrow> channel_group option" where
  "joins now s db user path =
    (case path of
       MasterTrackingPath \<Rightarrow>
         (case user of Some (MasterSubject m) \<Rightarrow> if MasterTrackingConsumer_connect user then Some (MasterTracking (ms_id m)) else None
          | _ \<Rightarrow> None)
     | ClientTrackPath k \<Rightarrow>
         (case user of Some (ClientSubject c) \<Rightarrow> if client_can_track (cl_id c) k s then Some (OrderTracking k) else None | _ \<Rightarrow> None)
     | MasterNotificationsPath \<Rightarrow> map_option NotificationsOf (NotificationConsumer_connect ROLE_MASTER user)
     | ClientNotificationsPath \<Rightarrow> map_option NotificationsOf (NotificationConsumer_connect ROLE_CLIENT user)
     | DashboardOrdersPath \<Rightarrow> if DashboardOrderConsumer_connect user then Some DashboardOrders else None
     | MasterSupportPath \<Rightarrow> support_socket now ROLE_MASTER user db
     | ClientSupportPath \<Rightarrow> support_socket now ROLE_CLIENT user db
     | SupportChatPath k \<Rightarrow>
         (case AdminSupportChatConsumer_connect now k user db of
            None \<Rightarrow> None
          | Some _ \<Rightarrow> map_option SupportOf (Option.bind (get_row sc_id k (chats db)) chat_group))
     | SupportLobbyPath \<Rightarrow> if AdminSupportLobbyConsumer_connect user then Some SupportAdmins else None)"

section \<open>Events\<close>

datatype layer_event =
    TrackingUpdate string tracking_payload
  | LocationUpdate tracking_payload
  | NotificationMsg string notification
  | NotificationReadAll participant
  | ChatMessageMsg row_id
  | ChatReadMsg row_id
  | ChatUpdateMsg row_id nat
  | BoardMsg board_frame

text \<open>The groups the code sends to.\<close>

definition broadcast_tracking :: "tracking_payload \<Rightarrow> string \<Rightarrow> channel_group \<times> layer_event" where
  "broadcast_tracking p event = (OrderTracking (tp_order p), TrackingUpdate event p)"

text \<open>Both ways of a master's position, the request and the socket, send the same events.\<close>

definition location_broadcasts :: "tracking_payload list \<Rightarrow> (channel_group \<times> layer_event) list" where
  "location_broadcasts ps = map (\<lambda>p. broadcast_tracking p ''master.location'') ps"

definition notification_sent :: "notification_event \<Rightarrow> channel_group \<times> layer_event" where
  "notification_sent ev =
    (case ev of
       NotificationEvent g name n \<Rightarrow> (NotificationsOf g, NotificationMsg name n)
     | ReadAllEvent g \<Rightarrow> (NotificationsOf g, NotificationReadAll g))"

definition support_sent :: "support_event \<Rightarrow> channel_group \<times> layer_event" where
  "support_sent ev =
    (case ev of
       ChatMessage g m \<Rightarrow> (SupportOf g, ChatMessageMsg m)
     | ChatUpdate k n \<Rightarrow> (SupportAdmins, ChatUpdateMsg k n)
     | ChatRead g k \<Rightarrow> (SupportOf g, ChatReadMsg k))"

definition board_sent :: "board_frame \<Rightarrow> channel_group \<times> layer_event" where
  "board_sent f = (DashboardOrders, BoardMsg f)"

section \<open>Handlers\<close>

text \<open>What a socket writes: the \<open>type\<close> of the text and what it carries.\<close>

datatype socket_frame =
    TrackingFrame string tracking_payload
  | NotificationFrame string notification
  | ReadAllFrame participant
  | MessageFrame row_id
  | ReadFrame row_id
  | UpdateFrame row_id nat
  | BoardFrame string row_id

definition ClientTracking_handle :: "layer_event \<Rightarrow> socket_frame option" where
  "ClientTracking_handle ev =
    (case ev of
       TrackingUpdate event p \<Rightarrow> Some (TrackingFrame event p)
     | LocationUpdate p \<Rightarrow> Some (TrackingFrame ''master.location'' p)
     | _ \<Rightarrow> None)"

definition Notification_handle :: "layer_event \<Rightarrow> socket_frame option" where
  "Notification_handle ev =
    (case ev of
       NotificationMsg name n \<Rightarrow> Some (NotificationFrame name n)
     | NotificationReadAll p \<Rightarrow> Some (ReadAllFrame p)
     | _ \<Rightarrow> None)"

text \<open>The sockets of participants and those of the admins in a chat handle the same types.\<close>

definition SupportChat_handle :: "layer_event \<Rightarrow> socket_frame option" where
  "SupportChat_handle ev =
    (case ev of ChatMessageMsg m \<Rightarrow> Some (MessageFrame m) | ChatReadMsg k \<Rightarrow> Some (ReadFrame k) | _ \<Rightarrow> None)"

definition AdminSupportLobby_handle :: "layer_event \<Rightarrow> socket_frame option" where
  "AdminSupportLobby_handle ev = (case ev of ChatUpdateMsg k n \<Rightarrow> Some (UpdateFrame k n) | _ \<Rightarrow> None)"

definition DashboardOrder_handle :: "layer_event \<Rightarrow> socket_frame option" where
  "DashboardOrder_handle ev =
    (case ev of BoardMsg f \<Rightarrow> (case dashboard_order_event f of (event, k) \<Rightarrow> Some (BoardFrame event k)) | _ \<Rightarrow> None)"

definition handle :: "ws_path \<Rightarrow> layer_event \<Rightarrow> socket_frame option" where
  "handle path ev =
    (case path of
       MasterTrackingPath \<Rightarrow> None
     | ClientTrackPath _ \<Rightarrow> ClientTracking_handle ev
     | MasterNotificationsPath \<Rightarrow> Notification_handle ev
     | ClientNotificationsPath \<Rightarrow> Notification_handle ev
     | DashboardOrdersPath \<Rightarrow> DashboardOrder_handle ev
     | MasterSupportPath \<Rightarrow> SupportChat_handle ev
     | ClientSupportPath \<Rightarrow> SupportChat_handle ev
     | SupportChatPath _ \<Rightarrow> SupportChat_handle ev
     | SupportLobbyPath \<Rightarrow> AdminSupportLobby_handle ev)"

section \<open>Groups keep to themselves\<close>

text \<open>Two groups never share a name, so nothing is delivered to a group it was not sent to.\<close>

lemma group_names_distinct: "inj uuid \<Longrightarrow> group_name uuid g = group_name uuid g' \<longleftrightarrow> g = g'"
  by (auto simp: group_name_def role_group_def tracking_group_def inj_eq split: channel_group.splits participant.splits)

text \<open>Whom the events of a group are meant for.\<close>

definition entitled :: "sys \<Rightarrow> channel_group \<Rightarrow> subject \<Rightarrow> bool" where
  "entitled s g user =
    (case g of
       OrderTracking k \<Rightarrow> (\<exists>ord \<in> set (orders s). o_id ord = k \<and> participant_of user = Some (PClient (o_client ord)))
     | MasterTracking k \<Rightarrow> participant_of user = Some (PMaster k)
     | NotificationsOf p \<Rightarrow> participant_of user = Some p
     | SupportOf p \<Rightarrow> participant_of user = Some p \<or> IsStaffOrAdminUser (Some user)
     | SupportAdmins \<Rightarrow> IsStaffOrAdminUser (Some user)
     | DashboardOrders \<Rightarrow> IsStaffOrAdminUser (Some user))"

lemma support_socket_group:
  "support_socket now role user db = Some g \<Longrightarrow> \<exists>u p. user = Some u \<and> participant_of u = Some p \<and> g = SupportOf p"
  by (auto simp: support_socket_def split: option.splits bind_splits)

lemma sockets_join_entitled:
  assumes "joins now s db user path = Some g"
  shows "\<exists>u. user = Some u \<and> entitled s g u"
proof (cases path)
  case (ClientTrackPath k)
  then show ?thesis using assms
    by (fastforce simp: joins_def entitled_def participant_of_def client_can_track_def list_ex_iff
        split: option.splits subject.splits if_splits)
next
  case MasterSupportPath
  then show ?thesis using assms support_socket_group by (fastforce simp: joins_def entitled_def)
next
  case ClientSupportPath
  then show ?thesis using assms support_socket_group by (fastforce simp: joins_def entitled_def)
next
  case (SupportChatPath k)
  then show ?thesis using assms
    by (auto simp: joins_def entitled_def AdminSupportChatConsumer_connect_def IsStaffOrAdminUser_def
        split: option.splits subject.splits if_splits)
qed (use assms in \<open>auto simp: joins_def entitled_def participant_of_def
    NotificationConsumer_connect_def DashboardOrderConsumer_connect_def AdminSupportLobbyConsumer_connect_def
    IsStaffOrAdminUser_def split: option.splits subject.splits if_splits\<close>)

text \<open>No socket is ever handed an event it cannot handle: every event the code sends to a group has a
  handler in each consumer that joins the group. (Nothing is sent to the group of a master's own
  tracking socket.)\<close>

definition sent_by_code :: "channel_group \<times> layer_event \<Rightarrow> bool" where
  "sent_by_code e = ((\<exists>p name. e = broadcast_tracking p name) \<or> (\<exists>ev. e = notification_sent ev) \<or>
    (\<exists>ev. e = support_sent ev) \<or> (\<exists>f. e = board_sent f))"

lemma group_of_path:
  assumes "joins now s db user path = Some g"
  shows "(case g of OrderTracking k \<Rightarrow> path = ClientTrackPath k | MasterTracking _ \<Rightarrow> path = MasterTrackingPath
    | NotificationsOf _ \<Rightarrow> path \<in> {MasterNotificationsPath, ClientNotificationsPath}
    | SupportOf _ \<Rightarrow> path \<in> {MasterSupportPath, ClientSupportPath} \<union> range SupportChatPath
    | SupportAdmins \<Rightarrow> path = SupportLobbyPath | DashboardOrders \<Rightarrow> path = DashboardOrdersPath)"
  using assms
  by (cases path) (auto simp: joins_def dest!: support_socket_group split: option.splits subject.splits if_splits)

lemmas handlers = handle_def ClientTracking_handle_def Notification_handle_def SupportChat_handle_def
  AdminSupportLobby_handle_def DashboardOrder_handle_def

lemma every_event_is_handled:
  assumes "joins now s db user path = Some g" and "sent_by_code (g, ev)"
  shows "handle path ev \<noteq> None"
proof -
  note path = group_of_path [OF assms(1)]
  from assms(2) consider (t) p name where "(g, ev) = broadcast_tracking p name" | (n) e where "(g, ev) = notification_sent e"
    | (s) e where "(g, ev) = support_sent e" | (b) f where "(g, ev) = board_sent f"
    by (auto simp: sent_by_code_def)
  then show ?thesis
  proof cases
    case t
    then show ?thesis using path by (auto simp: broadcast_tracking_def handlers)
  next
    case n
    then show ?thesis using path by (cases e) (auto simp: notification_sent_def handlers)
  next
    case s
    then show ?thesis using path by (cases e) (auto simp: support_sent_def handlers)
  next
    case b
    then show ?thesis using path by (auto simp: board_sent_def handlers split: prod.splits)
  qed
qed

section \<open>Who is looked at on connect only\<close>

text \<open>A socket that is open stays open: a master who was blocked goes online again with the next position
  his app sends.\<close>

lemma blocked_ping_goes_online:
  assumes "get_row ms_id k (masters a) = Some m"
  shows "\<exists>m'. get_row ms_id k (masters (fst (fst (MasterTrackingConsumer_receive dist now k
      (LocationFrame (Some y) (Some x) None dh eh) (a, s))))) = Some m' \<and> is_online m' \<and> is_blocked m' = is_blocked m"
  using assms
  by (auto simp: MasterTrackingConsumer_receive_def persist_master_location_def save_position_def get_row_upd Let_def split: option.split prod.splits)

end
