(* ===== verification/Admin_Site.thy ===== *)
theory Admin_Site
  imports Sockets Store_Props
begin

text \<open>
  The sidebar of the admin site (\<open>src/apps/common/unfold.py\<close>) with its counters, the queues these
  counters announce (\<open>accounts/admin.py\<close>, \<open>wallet/admin.py\<close>), and the remaining pages of the support chat
  (\<open>support/admin.py\<close>).
\<close>

section \<open>Counters of the sidebar\<close>

definition environment_callback :: "bool \<Rightarrow> string \<times> string" where
  "environment_callback debug = (if debug then (''Local'', ''info'') else (''Production'', ''danger''))"

definition environment_title_prefix_callback :: "bool \<Rightarrow> string" where
  "environment_title_prefix_callback debug = fst (environment_callback debug) @ '' | ''"

definition new_orders_badge :: "sys \<Rightarrow> nat" where
  "new_orders_badge s = count_rows (\<lambda>ord. o_status ord = NEW) (orders s)"

definition unread_notifications_badge :: "notification_db \<Rightarrow> nat" where
  "unread_notifications_badge db = count_rows (\<lambda>n. \<not> nt_read n) (notifications db)"

definition low_stock_badge :: "warehouse_db \<Rightarrow> nat" where
  "low_stock_badge db =
    count_rows (\<lambda>p. pr_is_active p \<and> pr_quantity p \<le> pr_low_threshold p) (products db) +
    count_rows (\<lambda>i. mi_quantity i \<le> mi_low_threshold i) (inventory db)"

definition pending_withdraw_badge :: "wallet_db \<Rightarrow> nat" where
  "pending_withdraw_badge db = count_rows (\<lambda>r. wr_status r = W_PENDING) (withdraw_requests db)"

definition pending_cash_handover_badge :: "wallet_db \<Rightarrow> nat" where
  "pending_cash_handover_badge db = count_rows (\<lambda>r. wr_status r = W_PENDING) (withdraw_requests db)"

definition pending_masters_badge :: "accounts_db \<Rightarrow> nat" where
  "pending_masters_badge a = count_rows (\<lambda>m. approval_status m = PENDING_APPROVAL) (masters a)"

definition blocked_masters_badge :: "accounts_db \<Rightarrow> nat" where
  "blocked_masters_badge a = count_rows is_blocked (masters a)"

section \<open>Queues\<close>

definition MasterApplicationAdmin_get_queryset :: "accounts_db \<Rightarrow> master list" where
  "MasterApplicationAdmin_get_queryset a = filter (\<lambda>m. approval_status m = PENDING_APPROVAL) (masters a)"

definition BlockedMasterAdmin_get_queryset :: "accounts_db \<Rightarrow> master list" where
  "BlockedMasterAdmin_get_queryset a = filter is_blocked (masters a)"

text \<open>The action of the queue acts on rows selected in it.\<close>

definition BlockedMasterAdmin_unblock_masters :: "row_id list \<Rightarrow> accounts_db \<Rightarrow> accounts_db" where
  "BlockedMasterAdmin_unblock_masters ks a =
    unblock_masters (filter (\<lambda>k. k \<in> set (map ms_id (BlockedMasterAdmin_get_queryset a))) ks) a"

definition masters_count :: "sys \<Rightarrow> order \<Rightarrow> nat" where
  "masters_count s ord = count_rows (\<lambda>r. om_order r = o_id ord \<and> om_active r) (order_masters s)"

definition assistants_count :: "sys \<Rightarrow> order \<Rightarrow> nat" where
  "assistants_count s ord = count_rows (\<lambda>r. om_order r = o_id ord \<and> om_active r) (order_assistants s)"

section \<open>Support chat\<close>

definition UnreadSupportFilter_queryset :: "string option \<Rightarrow> support_chat list \<Rightarrow> support_chat list" where
  "UnreadSupportFilter_queryset v rows =
    (if v = Some ''1'' then filter (\<lambda>r. 0 < sc_unread r) rows
     else if v = Some ''0'' then filter (\<lambda>r. sc_unread r = 0) rows else rows)"

text \<open>The page to go to, or a message.\<close>

definition reply_to_selected :: "support_chat list \<Rightarrow> row_id option" where
  "reply_to_selected rows = (case rows of [r] \<Rightarrow> Some (sc_id r) | _ \<Rightarrow> None)"

definition chat_messages_json :: "instant \<Rightarrow> subject \<Rightarrow> row_id \<Rightarrow> support_db \<Rightarrow> (support_db \<times> support_message list) res" where
  "chat_messages_json now user k db =
    (if \<not> IsStaffOrAdminUser (Some user) then Inl (PermissionDenied ''Forbidden'')
     else case get_row sc_id k (chats db) of
            None \<Rightarrow> Inl (NotFound ''Chat not found'')
          | Some chat \<Rightarrow> (case open_chat_as_admin now chat db of (db1, _) \<Rightarrow> Inr (db1, chat_messages k db1)))"

definition AdminSupportChatConsumer_receive :: "instant \<Rightarrow> row_id \<Rightarrow> subject \<Rightarrow> chat_frame \<Rightarrow> support_db \<Rightarrow> support_db \<times> chat_reply" where
  "AdminSupportChatConsumer_receive now k user f db =
    (case f of
       FrameNotJson \<Rightarrow> (db, Silent)
     | FrameBadShape \<Rightarrow> (db, SocketCrash)
     | FrameText content msg txt \<Rightarrow>
         (let t = frame_content content msg txt in
          if t = [] then (db, ReplyError ''content (or message) required'')
          else case get_row sc_id k (chats db) of
                 None \<Rightarrow> (db, SocketCrash)
               | Some chat \<Rightarrow> (case send_message now chat user t db of (db1, m) \<Rightarrow> (db1, Delivered (msg_id m)))))"

section \<open>What the counters say\<close>

text \<open>An accepted handover takes one from the counter of the queue, a refused one leaves it.\<close>

lemma count_settled:
  assumes "keys_distinct key rows" and "get_row key k rows = Some r" and "P r" and "\<not> P (f r)"
  shows "count_rows P rows = Suc (count_rows P (upd_row key k f rows))"
  using assms
proof (induction rows)
  case (Cons a rows)
  have keep: "upd_row key k f rows = rows" if "k \<notin> key ` set rows"
    using that by (induction rows) (auto simp: upd_row_def)
  show ?case
  proof (cases "key a = k")
    case True
    then have "k \<notin> key ` set rows" using Cons.prems(1) by (auto simp: keys_distinct_def)
    from keep [OF this] show ?thesis using Cons.prems True by (simp add: count_rows_def upd_row_def)
  next
    case False
    then show ?thesis using Cons by (simp add: count_rows_def upd_row_def keys_distinct_def)
  qed
qed simp

lemma accepted_handover_leaves_queue:
  assumes "keys_distinct wr_id (withdraw_requests db)" and "accept_cash_handover rid note now db = Inr (db', ok)"
  shows "pending_cash_handover_badge db = pending_cash_handover_badge db' + (if ok then 1 else 0)"
proof -
  obtain h where h: "get_row wr_id rid (withdraw_requests db) = Some h"
    using assms(2) by (auto simp: accept_cash_handover_def split: option.splits)
  show ?thesis
    using assms(2) count_settled [OF assms(1) h, of "\<lambda>r. wr_status r = W_PENDING"] h
    by (auto simp: accept_cash_handover_def pending_cash_handover_badge_def set_withdraw_status_def Let_def
        get_or_create_wallet_def create_transaction_row_def update_wallet_def split: if_splits option.splits)
qed

text \<open>Approving the whole queue empties it; no master in it is left waiting.\<close>

lemma approved_queue_is_empty:
  "pending_masters_badge (approve_masters now (map ms_id (MasterApplicationAdmin_get_queryset a)) a) = 0"
  by (auto simp: pending_masters_badge_def MasterApplicationAdmin_get_queryset_def approve_masters_def on_selected_def
      count_rows_def filter_empty_conv image_iff)

lemma unblocking_the_queue_empties_it:
  "BlockedMasterAdmin_get_queryset (BlockedMasterAdmin_unblock_masters (map ms_id (BlockedMasterAdmin_get_queryset a)) a) = []"
  by (auto simp: BlockedMasterAdmin_unblock_masters_def BlockedMasterAdmin_get_queryset_def unblock_masters_def on_selected_def
      unblock_master_def filter_empty_conv image_iff)

text \<open>The counter of scarce goods counts what the dashboard lists as scarce, and also the parts a master
  has used up: those the dashboard's list of inventories hides.\<close>

lemma used_up_is_low:
  assumes "\<forall>i \<in> set rows. 0 \<le> mi_quantity i \<and> 0 \<le> mi_low_threshold i"
  shows "count_rows (\<lambda>i. mi_quantity i \<le> mi_low_threshold i) rows =
    length (filter (\<lambda>i. 0 < mi_quantity i \<and> mi_quantity i \<le> mi_low_threshold i) rows) + count_rows (\<lambda>i. mi_quantity i = 0) rows"
  using assms by (induction rows) (auto simp: count_rows_def)

lemma low_stock_badge_counts_used_up:
  assumes "\<forall>i \<in> set (inventory (store_goods st)). 0 \<le> mi_quantity i \<and> 0 \<le> mi_low_threshold i"
    and "DashboardMasterInventoryList_get_queryset lk [(''low_stock'', ''true'')] (store_goods st) = Inr items"
  shows "low_stock_badge (store_goods st) =
    length (DashboardWarehouseProductList_get_queryset lk [(''low_stock'', ''true''), (''is_active'', ''true'')] st) +
    length items + count_rows (\<lambda>i. mi_quantity i = 0) (inventory (store_goods st))"
proof -
  have low: "bool_param (Some ''true'') = Some True" by code_simp
  have "items = filter (\<lambda>i. 0 < mi_quantity i \<and> mi_quantity i \<le> mi_low_threshold i) (inventory (store_goods st))"
    using assms(2) by (auto simp: DashboardMasterInventoryList_get_queryset_def uuid_param_def low param_def Let_def
        keep_if_def inventory_is_low_stock_def)
  then show ?thesis
    using used_up_is_low [OF assms(1)]
    by (simp add: low_stock_badge_def DashboardWarehouseProductList_get_queryset_def by_store_category_def category_param_def
        search_filter_def low param_def count_rows_def [of _ "products (store_goods st)"] product_is_low_stock_def conj_commute)
qed

text \<open>The filter of the chat list splits it.\<close>

lemma unread_filter_splits:
  "length (UnreadSupportFilter_queryset (Some ''1'') rows) + length (UnreadSupportFilter_queryset (Some ''0'') rows) = length rows"
  using sum_length_filter_compl [of "\<lambda>r. 0 < sc_unread r" rows] by (simp add: UnreadSupportFilter_queryset_def)

text \<open>The pages of the staff read a chat alike: admin site, its JSON and the page of the API.\<close>

lemma staff_pages_read_alike:
  assumes "IsStaffOrAdminUser (Some user)"
  shows "chat_messages_json now user k db =
      (if get_row sc_id k (chats db) = None then Inl (NotFound ''Chat not found'') else Inr (SupportChatAdmin_open now k db))"
    and "chat_messages_json now user k db = Inr r \<longleftrightarrow> AdminSupportMessageList_get now user (Some k) db = Inr r"
  using assms
  by (auto simp: chat_messages_json_def SupportChatAdmin_open_def AdminSupportMessageList_get_def user_can_access_chat_def
      IsStaffOrAdminUser_def split: option.splits subject.splits prod.splits)

lemma admin_socket_receives_alike: "AdminSupportChatConsumer_receive now k user f db = SupportConsumer_receive now k user f db"
  by (simp add: AdminSupportChatConsumer_receive_def SupportConsumer_receive_def)

text \<open>A staff account that was dismissed keeps writing through a socket it had opened before.\<close>

lemma open_socket_outlives_dismissal:
  assumes "get_row sc_id k (chats db) = Some chat" and "frame_content (Some t) None None \<noteq> []"
  shows "AdminSupportChatConsumer_connect now k (Some (StaffSubject (u\<lparr>su_staff := False\<rparr>))) db = None \<and>
    (\<exists>db' m. AdminSupportChatConsumer_receive now k (StaffSubject (u\<lparr>su_staff := False\<rparr>)) (FrameText (Some t) None None) db =
      (db', Delivered m))"
  using assms
  by (auto simp: AdminSupportChatConsumer_receive_def AdminSupportChatConsumer_connect_def split: prod.splits)

end
