(* ===== verification/Spec2Isabelle.thy ===== *)
theory Spec2Isabelle
  imports Payme_Checkout Order_Rules Master_Props Tracking_Props Finance_Props Order_List_Props Order_Refinement Market_Props Support_Props Notification_Props Catalog_Props Backup_Props Staff_Props Gateways Deletion_Props Order_Screen_Props Live_Board_Props People_Props Back_Office_Props Perimeter Office_Home_Props Store_Props Profile_Pages Payme_SDK Admin_Site
begin

text \<open>
  A verification of the backend of HomeX, a marketplace for home repairs: a Django project whose
  applications lie under \<open>src/apps/\<close>. Clients order services, an administrator assigns masters, a
  master accepts, travels, works and submits a check, the client pays in cash or through the payment
  provider Payme, and the master's wallet is credited. Around this core lie the warehouse of parts, a
  shop, a support chat, notifications, live tracking, the dashboard of the staff and an internal API.

  \<^bold>\<open>How the parts interact.\<close> Views check who calls, load rows, and call services; services write rows
  in a transaction; saving an order or a master runs signals, which create tracking rows,
  notifications and frames on sockets. Wallet and warehouse are written through their services only;
  completing an order (\<open>complete_paid_order\<close> of \<open>orders/services.py\<close>) is where orders, wallet and
  payment meet. The model follows this: a view is a definition over the state of its component, and it
  calls the definitions of the services and signals its code calls.

  \<^bold>\<open>Conventions.\<close> A table is a list of rows in the order of their creation; its key is a natural number,
  and a new row gets one that is not in use (\<open>fresh_id\<close>). Amounts are integers in hundredths, instants
  milliseconds, dates ordinals. What the code raises is a value of \<open>error\<close>, with the HTTP status it
  leads to; an operation that can raise returns \<open>error + 'a\<close>, one that writes before it raises returns
  the state beside the result. A field of a PATCH is an option: absent or sent. Where a view is atomic,
  an error leaves the state as it was; where it is not, the model keeps what was written. Requests are
  interleaved as sequences of whole endpoints, as the row locks of the code make them; a step relation
  has one rule for each endpoint, and the theorems on histories are about its closure.

  \<^bold>\<open>The theories.\<close>
  \<^item> \<open>Prelude\<close>: errors, tables, sums over rows, the hints shared by the proofs, the locale \<open>row_store\<close>.
    \<open>References\<close> and \<open>Cascades\<close>: foreign keys, and what deletions do to them. \<open>Calendar\<close>: dates.
    \<open>Base64_Codec\<close>: the encoding of links and headers. \<open>Common\<close>: \<open>src/apps/common/\<close> - phone numbers,
    filters, envelopes, pages.
  \<^item> \<open>Wallet\<close> (\<open>wallet/\<close> and the dashboard's pages on it), \<open>Warehouse\<close> (\<open>warehouse/\<close>), \<open>Store_Lists\<close>
    and \<open>Store_Props\<close> (categories and lists of both), \<open>Profiles\<close> (\<open>profiles/\<close>: addresses, devices, tariffs).
  \<^item> \<open>Order_Model\<close> (\<open>orders/models.py\<close>, \<open>services.py\<close>, \<open>signals.py\<close>, \<open>assignments.py\<close>), \<open>Order_Views\<close> (the
    endpoints of masters and clients), \<open>Order_Admin\<close> (dashboard, admin site, internal API), \<open>Order_Lists\<close>
    (lists, boards, counters), \<open>Order_Screens\<close> (what an order looks like, receipts, home screens).
    \<open>Order_Inv\<close> has the step relations and their invariants; \<open>Order_Props\<close>, \<open>Order_Money\<close>,
    \<open>Order_Rules\<close>, \<open>Order_Refinement\<close>, \<open>Order_List_Props\<close>, \<open>Order_Screen_Props\<close> the theorems.
  \<^item> \<open>Payme_Model\<close>, \<open>Payme_Webhook\<close> (\<open>payme/views.py\<close> with its six methods), \<open>Payme_Props\<close>,
    \<open>Payme_Claims\<close>, \<open>Payme_Checkout\<close> (links, authorization, fiscal detail), \<open>Payme_SDK\<close> (the outbound client).
  \<^item> \<open>Accounts\<close>, \<open>Account_Props\<close> (\<open>accounts/\<close>: one-time codes, passwords, tokens, sockets),
    \<open>Profile_Pages\<close>, \<open>Master_Admin\<close>, \<open>Master_Props\<close> (moderation of masters), \<open>People\<close>, \<open>People_Props\<close>
    (clients and masters in the back office), \<open>Staff\<close>, \<open>Staff_Props\<close> (accounts of the dashboard),
    \<open>Account_Deletion\<close>, \<open>Deletion_Props\<close>, \<open>Perimeter\<close> (service token, throttles, public page).
  \<^item> \<open>Tracking\<close>, \<open>Live_Board\<close>, \<open>Notifications\<close>, \<open>Support\<close> and their \<open>_Props\<close>: what travels over sockets and
    push messages, and to whom. \<open>Sockets\<close> (\<open>config/routing.py\<close> and all consumers): which group a socket
    joins, what it writes for an event; only who is entitled joins, and every event sent has a handler.
    \<open>Admin_Site\<close>: counters and queues of the admin site. \<open>Gateways\<close>: the clients of SMS and push services
    (\<open>integrations/adapters.py\<close>).
  \<^item> \<open>Finance\<close>, \<open>Office_Home\<close>, \<open>Back_Office\<close>, \<open>Backups\<close>, \<open>Catalog\<close>, \<open>Market\<close> and their \<open>_Props\<close>: figures
    and reports, start pages, the dashboard's own tables, backups, services and tariffs, the shop.

  \<^bold>\<open>What is shown.\<close>
  \<^item> Invariants along every history: balances are sums of ledger rows and not negative, stock is the sum
    of its movements and conserved by transfers, completed orders are paid and credited once,
    transactions are unique and live by the protocol's edges, references and uniqueness hold in catalog,
    shop, stores and accounts, counters of unread messages are right.
  \<^item> Refinement: the endpoints of masters, clients and provider implement an abstract machine of an order
    (locale \<open>simulation\<close>), a board fed by frames shows the state of the orders.
  \<^item> Function of single operations on all branches: checks, fiscal lines, assignments, retention of
    backups, tariffs read back as written, links that decode to what the webhook accepts.
  \<^item> Safety: who is let in, who is locked out, whom a message reaches, what a deletion leaves.
  \<^item> Termination and liveness: sending a code ends, an order that is being worked on can be finished.
  \<^item> Gaps of the code are theorems too: each states what the code does where a comment, a
    document or a sister endpoint says otherwise.

  The interfaces are locales, interpreted on the model's definitions: \<open>row_store\<close> (a table with a key;
  on wallets' rows, requests, products, inventories, addresses, categories), \<open>wallet_ledger\<close> (crediting
  a balance), \<open>conserved_quantity\<close> (transfers of stock), \<open>simulation\<close> (the order machine).

  \<^bold>\<open>Parameters and bounds.\<close> Code that is not in the repository is a parameter of the definitions that
  use it: hashing and checking of passwords, signing and reading of tokens, the great-circle distance,
  the throttle class, the dump program, the answers of SMS, push and payment services, the reading and
  printing of UUIDs. Their laws, where a theorem needs them, are hypotheses, and each witness instantiates
  them. Texts are ASCII and trimmed as the serializers trim them; the widths of columns are not modelled,
  percentages and shares are exact. No definition runs on fuel: loops are structural recursions, the
  retry of the SMS client is bounded by its own counter.

  \<^bold>\<open>Not modelled.\<close> The drawing of the PDF receipt and the writing of a workbook to a file (their rows
  are); the configuration of the admin site, of routes, settings and the API description; migrations and
  commands that fill a database for demonstration; uploaded files beyond their names, avatars and icons;
  localised texts of the provider's errors; the channel layer and the HTTP server, which deliver what the
  model hands to them; the texts, links and colours a page carries as constants. Two requests never run
  at the same moment in the model: what the row locks order, it orders; where the code takes no lock, its
  races are outside of it.
\<close>

end
